(* ===== verification/Prelude.thy ===== *)
theory Prelude
  imports Complex_Main "HOL-Library.AList" "HOL-Library.Char_ord" "HOL-Library.List_Lexorder"
begin

section \<open>Shared vocabulary of the backend model\<close>

text \<open>
  Types, Python idioms and lemma collections that every component theory uses.

  \<^item> \<open>time\<close> is an instant: microseconds since the epoch, in UTC (a Python
    \<open>datetime\<close> that carries a timezone is compared by its instant).
  \<^item> an operation that can raise returns \<open>'e + 'a\<close>: \<open>Inl\<close> is the exception,
    \<open>Inr\<close> the value; \<open>rbind\<close> is sequencing that stops at the first exception.
  \<^item> a Python dict is an association list: \<open>AList.update\<close> replaces the value of an
    existing key in place and appends a new key at the end, as dict assignment does.
\<close>

type_synonym time = int
type_synonym 'v dict = "(string \<times> 'v) list"

named_theorems model_defs \<open>definitions of the operations of a component\<close>
named_theorems inv_intros \<open>preservation of invariants by operations\<close>

subsection \<open>Exceptions as values\<close>

definition rbind :: "'e + 'a \<Rightarrow> ('a \<Rightarrow> 'e + 'b) \<Rightarrow> 'e + 'b" where
  "rbind r f = (case r of Inl e \<Rightarrow> Inl e | Inr x \<Rightarrow> f x)"

lemma rbind_simps [simp]:
  "rbind (Inl e) f = Inl e"
  "rbind (Inr x) f = f x"
  by (simp_all add: rbind_def)

lemma rbind_eq_Inr_iff: "rbind r f = Inr y \<longleftrightarrow> (\<exists>x. r = Inr x \<and> f x = Inr y)"
  by (cases r) auto

lemma rbind_eq_Inl_iff: "rbind r f = Inl e \<longleftrightarrow> r = Inl e \<or> (\<exists>x. r = Inr x \<and> f x = Inl e)"
  by (cases r) auto

subsection \<open>Python truthiness and defaults\<close>

text \<open>\<open>x or d\<close> for an optional list or string: the default replaces both \<open>None\<close> and empty.\<close>

definition or_list :: "'a list option \<Rightarrow> 'a list \<Rightarrow> 'a list" where
  "or_list x d = (case x of None \<Rightarrow> d | Some v \<Rightarrow> (if v = [] then d else v))"

definition truthy :: "'a list option \<Rightarrow> bool" where
  "truthy x = (case x of None \<Rightarrow> False | Some v \<Rightarrow> v \<noteq> [])"

definition default :: "'a option \<Rightarrow> 'a \<Rightarrow> 'a" where
  "default x d = (case x of None \<Rightarrow> d | Some v \<Rightarrow> v)"

lemma or_list_simps [simp]:
  "or_list None d = d" "or_list (Some []) d = d" "or_list (Some (a # v)) d = a # v"
  by (simp_all add: or_list_def)

lemma or_list_Nil [simp]: "or_list (Some v) [] = v"
  by (cases v) auto

lemma truthy_simps [simp]:
  "\<not> truthy None" "\<not> truthy (Some [])" "truthy (Some (a # v))"
  by (simp_all add: truthy_def)

lemma truthy_or_list: "truthy x \<longleftrightarrow> or_list x [] \<noteq> []"
  by (cases x) (auto simp: truthy_def)

lemma default_simps [simp]: "default None d = d" "default (Some v) d = v"
  by (simp_all add: default_def)

subsection \<open>Strings\<close>

text \<open>
  \<open>str.lower\<close>, \<open>str.strip\<close>, substring and prefix tests on the ASCII part of the
  alphabet: the white space is that of \<open>str.isspace\<close> below code point 128.
\<close>

definition lower_char :: "char \<Rightarrow> char" where
  "lower_char c = (if CHR ''A'' \<le> c \<and> c \<le> CHR ''Z'' then char_of (of_char c + 32 :: nat) else c)"

definition py_lower :: "string \<Rightarrow> string" where
  "py_lower s = map lower_char s"

definition is_space :: "char \<Rightarrow> bool" where
  "is_space c = (let n = (of_char c :: nat) in n = 32 \<or> (9 \<le> n \<and> n \<le> 13) \<or> (28 \<le> n \<and> n \<le> 31))"

definition py_strip :: "string \<Rightarrow> string" where
  "py_strip s = rev (dropWhile is_space (rev (dropWhile is_space s)))"

definition is_digit :: "char \<Rightarrow> bool" where
  "is_digit c = (CHR ''0'' \<le> c \<and> c \<le> CHR ''9'')"

definition digit_val :: "char \<Rightarrow> int" where
  "digit_val c = of_char c - 48"

fun starts_with :: "string \<Rightarrow> string \<Rightarrow> bool" where
  "starts_with [] s = True"
| "starts_with (c # p) [] = False"
| "starts_with (c # p) (d # s) = (c = d \<and> starts_with p s)"

fun contains :: "string \<Rightarrow> string \<Rightarrow> bool" where
  "contains p [] = (p = [])"
| "contains p (d # s) = (starts_with p (d # s) \<or> contains p s)"

lemma starts_with_iff: "starts_with p s \<longleftrightarrow> (\<exists>r. s = p @ r)"
  by (induction p s rule: starts_with.induct) auto

lemma starts_with_append [simp]: "starts_with p (p @ r)"
  by (simp add: starts_with_iff)

lemma lower_char_idem [simp]: "lower_char (lower_char c) = lower_char c"
proof (cases "CHR ''A'' \<le> c \<and> c \<le> CHR ''Z''")
  case True
  then have "65 \<le> (of_char c :: nat)" and "(of_char c :: nat) \<le> 90"
    by (simp_all add: less_eq_char_def)
  moreover from this have "(of_char (char_of (of_char c + 32 :: nat)) :: nat) = of_char c + 32"
    by (simp add: of_char_of)
  ultimately have "\<not> (char_of (of_char c + 32 :: nat) \<le> CHR ''Z'')"
    by (simp add: less_eq_char_def)
  with True show ?thesis by (simp add: lower_char_def)
next
  case False
  then show ?thesis by (auto simp: lower_char_def)
qed

lemma py_lower_idem [simp]: "py_lower (py_lower s) = py_lower s"
  by (simp add: py_lower_def comp_def)

text \<open>\<open>str(n)\<close> for an integer, and \<open>sep.join(parts)\<close>.\<close>

fun show_nat :: "nat \<Rightarrow> string" where
  "show_nat n = (if n < 10 then [char_of (48 + n)] else show_nat (n div 10) @ [char_of (48 + n mod 10)])"

declare show_nat.simps [simp del]

definition show_int :: "int \<Rightarrow> string" where
  "show_int i = (if i < 0 then ''-'' @ show_nat (nat (- i)) else show_nat (nat i))"

fun py_join :: "string \<Rightarrow> string list \<Rightarrow> string" where
  "py_join sep [] = []"
| "py_join sep [x] = x"
| "py_join sep (x # y # xs) = x @ sep @ py_join sep (y # xs)"

text \<open>The em dash as its UTF-8 bytes.\<close>

definition em_dash :: string where "em_dash = [CHR 0xE2, CHR 0x80, CHR 0x94]"

subsection \<open>Order-preserving removal of duplicates\<close>

text \<open>The idiom \<open>[t for t in ts if t and not (t in seen or seen.add(t))]\<close>.\<close>

fun dedup_keep :: "string set \<Rightarrow> string list \<Rightarrow> string list" where
  "dedup_keep seen [] = []"
| "dedup_keep seen (t # ts) =
     (if t \<noteq> [] \<and> t \<notin> seen then t # dedup_keep (insert t seen) ts else dedup_keep seen ts)"

lemma set_dedup_keep: "set (dedup_keep seen ts) = {t \<in> set ts. t \<noteq> [] \<and> t \<notin> seen}"
  by (induction seen ts rule: dedup_keep.induct) auto

lemma distinct_dedup_keep: "distinct (dedup_keep seen ts)"
  by (induction seen ts rule: dedup_keep.induct) (auto simp: set_dedup_keep)

subsection \<open>Lists\<close>

lemma find_Some_in: "List.find p xs = Some x \<Longrightarrow> x \<in> set xs \<and> p x"
  by (induction xs) (auto split: if_splits)

lemma find_None_all: "List.find p xs = None \<longleftrightarrow> (\<forall>x \<in> set xs. \<not> p x)"
  by (auto simp: find_None_iff)

lemma find_append: "List.find p (xs @ ys) =
    (case List.find p xs of None \<Rightarrow> List.find p ys | Some x \<Rightarrow> Some x)"
  by (induction xs) auto

lemma map_eq_if_not_in: "k \<notin> f ` set xs \<Longrightarrow> map (\<lambda>x. if f x = k then y else x) xs = xs"
  by (induction xs) auto

text \<open>An HTTP response of an endpoint: the status and the body, or an \<open>HTTPException\<close>.\<close>

datatype 'a http = HttpOk nat 'a | HttpError nat string

fun http_status :: "'a http \<Rightarrow> nat" where
  "http_status (HttpOk n x) = n"
| "http_status (HttpError n m) = n"

end
