(* ===== verification/Store.thy ===== *)
theory Store
  imports Prelude
begin

section \<open>Database tables\<close>

text \<open>
  A table with an autoincrement primary key, as every repository module uses it: rows in
  insertion order and the next value of the key sequence. The functions take the row's
  key selector (\<open>Model.id\<close>, \<open>None\<close> on an object that was never inserted) and setter,
  and stand for \<open>session.get\<close>, \<open>session.add\<close> with \<open>commit\<close> and \<open>refresh\<close>
  on a new object, the same on a persistent object, and \<open>DELETE ... WHERE\<close>.
\<close>

record 'r table =
  rows :: "'r list"
  next_id :: int

definition empty_table :: "'r table" where
  "empty_table = \<lparr>rows = [], next_id = 1\<rparr>"

definition tbl_get :: "('r \<Rightarrow> int option) \<Rightarrow> 'r table \<Rightarrow> int \<Rightarrow> 'r option" where
  "tbl_get key t k = List.find (\<lambda>r. key r = Some k) (rows t)"

definition tbl_insert ::
    "(int option \<Rightarrow> 'r \<Rightarrow> 'r) \<Rightarrow> 'r \<Rightarrow> 'r table \<Rightarrow> 'r \<times> 'r table" where
  "tbl_insert set_key r t =
     (let r' = set_key (Some (next_id t)) r
      in (r', t\<lparr>rows := rows t @ [r'], next_id := next_id t + 1\<rparr>))"

definition tbl_update :: "('r \<Rightarrow> int option) \<Rightarrow> 'r \<Rightarrow> 'r table \<Rightarrow> 'r table" where
  "tbl_update key r t = t\<lparr>rows := map (\<lambda>x. if key x = key r then r else x) (rows t)\<rparr>"

definition tbl_delete :: "('r \<Rightarrow> bool) \<Rightarrow> 'r table \<Rightarrow> 'r table" where
  "tbl_delete p t = t\<lparr>rows := filter (\<lambda>x. \<not> p x) (rows t)\<rparr>"

text \<open>Every row has a key, keys are distinct and below the sequence.\<close>

definition wf_table :: "('r \<Rightarrow> int option) \<Rightarrow> 'r table \<Rightarrow> bool" where
  "wf_table key t \<longleftrightarrow> distinct (map key (rows t)) \<and>
     (\<forall>r \<in> set (rows t). \<exists>k. key r = Some k \<and> 0 < k \<and> k < next_id t)"

lemma wf_empty_table [simp]: "wf_table key empty_table"
  by (simp add: wf_table_def empty_table_def)

lemma tbl_get_Some:
  assumes "tbl_get key t k = Some r"
  shows "r \<in> set (rows t)" and "key r = Some k"
  using assms find_Some_in [of "\<lambda>r. key r = Some k" "rows t" r] by (simp_all add: tbl_get_def)

lemma tbl_get_in:
  assumes "wf_table key t" and "r \<in> set (rows t)" and "key r = Some k"
  shows "tbl_get key t k = Some r"
proof (cases "tbl_get key t k")
  case None
  with assms(2,3) show ?thesis by (auto simp: tbl_get_def find_None_all)
next
  case (Some s)
  from tbl_get_Some [OF this] have "s \<in> set (rows t)" and "key s = Some k" .
  with assms have "s = r" by (simp add: wf_table_def distinct_map inj_on_def)
  with Some show ?thesis by simp
qed

lemma wf_tbl_insert:
  assumes wf: "wf_table key t" and key: "\<And>k r. key (set_key k r) = k" and pos: "0 < next_id t"
  shows "wf_table key (snd (tbl_insert set_key r t))"
proof -
  have fresh: "Some (next_id t) \<notin> key ` set (rows t)"
    using wf by (force simp: wf_table_def)
  show ?thesis
    using wf fresh pos by (fastforce simp: wf_table_def tbl_insert_def Let_def key)
qed

lemma rows_tbl_insert [simp]:
  "rows (snd (tbl_insert set_key r t)) = rows t @ [set_key (Some (next_id t)) r]"
  "next_id (snd (tbl_insert set_key r t)) = next_id t + 1"
  "fst (tbl_insert set_key r t) = set_key (Some (next_id t)) r"
  by (simp_all add: tbl_insert_def Let_def)

lemma rows_tbl_update [simp]:
  "rows (tbl_update key r t) = map (\<lambda>x. if key x = key r then r else x) (rows t)"
  "next_id (tbl_update key r t) = next_id t"
  by (simp_all add: tbl_update_def)

lemma rows_tbl_delete [simp]:
  "rows (tbl_delete p t) = filter (\<lambda>x. \<not> p x) (rows t)"
  "next_id (tbl_delete p t) = next_id t"
  by (simp_all add: tbl_delete_def)

lemma map_key_tbl_update: "map key (rows (tbl_update key r t)) = map key (rows t)"
  by (simp add: comp_def)

lemma wf_tbl_update:
  assumes wf: "wf_table key t"
  shows "wf_table key (tbl_update key r t)"
proof -
  have keys: "key ` set (rows (tbl_update key r t)) = key ` set (rows t)"
    by (metis list.set_map map_key_tbl_update)
  from wf have "\<forall>c \<in> key ` set (rows t). \<exists>k. c = Some k \<and> 0 < k \<and> k < next_id t"
    by (simp add: wf_table_def)
  then have "\<forall>c \<in> key ` set (rows (tbl_update key r t)). \<exists>k. c = Some k \<and> 0 < k \<and> k < next_id t"
    by (simp only: keys)
  with wf show ?thesis
    by (simp only: wf_table_def map_key_tbl_update rows_tbl_update(2) ball_simps simp_thms)
qed

lemma wf_tbl_delete: "wf_table key t \<Longrightarrow> wf_table key (tbl_delete p t)"
  by (auto simp: wf_table_def distinct_map_filter)

lemma tbl_get_insert:
  assumes "wf_table key t" and "\<And>k r. key (set_key k r) = k"
  shows "tbl_get key (snd (tbl_insert set_key r t)) k =
    (if k = next_id t then Some (set_key (Some k) r) else tbl_get key t k)"
proof -
  have "tbl_get key t (next_id t) = None"
    using assms(1) by (force simp: tbl_get_def find_None_all wf_table_def)
  then show ?thesis
    by (auto simp: tbl_get_def find_append assms(2) split: option.splits)
qed

lemma find_map_update:
  assumes "key r = Some k"
  shows "List.find (\<lambda>x. key x = Some j) (map (\<lambda>x. if key x = key r then r else x) xs) =
    (if j = k \<and> List.find (\<lambda>x. key x = Some k) xs \<noteq> None then Some r
     else List.find (\<lambda>x. key x = Some j) xs)"
  using assms by (induction xs) auto

lemma tbl_get_update:
  "key r = Some k \<Longrightarrow> tbl_get key (tbl_update key r t) j =
    (if j = k \<and> tbl_get key t k \<noteq> None then Some r else tbl_get key t j)"
  unfolding tbl_get_def rows_tbl_update by (rule find_map_update)

lemma tbl_get_update_same:
  "key r = Some k \<Longrightarrow> tbl_get key t k \<noteq> None \<Longrightarrow> tbl_get key (tbl_update key r t) k = Some r"
  by (simp add: tbl_get_update)

subsection \<open>The contract between services and repositories\<close>

text \<open>
  What a service relies on from a repository module, whatever its table: \<open>create\<close>
  gives the new object a fresh key under which it is then found, \<open>update\<close> replaces
  exactly the object with that key, and both keep the table well formed.
\<close>

locale repository =
  fixes key :: "'r \<Rightarrow> int option"
    and get :: "'t \<Rightarrow> int \<Rightarrow> 'r option"
    and create :: "'r \<Rightarrow> 't \<Rightarrow> 'r \<times> 't"
    and upd :: "'r \<Rightarrow> 't \<Rightarrow> 't"
    and ok :: "'t \<Rightarrow> bool"
  assumes ok_create: "ok t \<Longrightarrow> ok (snd (create r t))"
    and ok_upd: "ok t \<Longrightarrow> ok (upd r t)"
    and create_key: "ok t \<Longrightarrow> \<exists>k. key (fst (create r t)) = Some k \<and> get t k = None"
    and get_create: "ok t \<Longrightarrow> key (fst (create r t)) = Some k \<Longrightarrow>
      get (snd (create r t)) j = (if j = k then Some (fst (create r t)) else get t j)"
    and get_upd: "ok t \<Longrightarrow> key r = Some k \<Longrightarrow> get (upd r t) j =
      (if j = k \<and> get t k \<noteq> None then Some r else get t j)"
begin

lemma create_found: "ok t \<Longrightarrow> key (fst (create r t)) = Some k \<Longrightarrow>
    get (snd (create r t)) k = Some (fst (create r t))"
  by (simp add: get_create)

lemma create_keeps_others:
  assumes "ok t" and "get t j = Some s"
  shows "get (snd (create r t)) j = Some s"
proof -
  from create_key [OF assms(1), of r] obtain k
    where "key (fst (create r t)) = Some k" and "get t k = None" by blast
  with assms show ?thesis by (auto simp: get_create)
qed

lemma upd_found: "ok t \<Longrightarrow> key r = Some k \<Longrightarrow> get t k \<noteq> None \<Longrightarrow> get (upd r t) k = Some r"
  by (simp add: get_upd)

lemma upd_keeps_others: "ok t \<Longrightarrow> key r = Some k \<Longrightarrow> j \<noteq> k \<Longrightarrow> get (upd r t) j = get t j"
  by (simp add: get_upd)

lemma upd_upd: "ok t \<Longrightarrow> key r = Some k \<Longrightarrow> key s = Some k \<Longrightarrow> get t k \<noteq> None \<Longrightarrow>
    get (upd s (upd r t)) j = get (upd s t) j"
  by (simp add: get_upd ok_upd)

end

lemma wf_create_key:
  assumes "wf_table key t" and "\<And>k r. key (set_key k r) = k"
  shows "\<exists>k. key (fst (tbl_insert set_key r t)) = Some k \<and> tbl_get key t k = None"
proof -
  have "tbl_get key t (next_id t) = None"
    using assms(1) by (force simp: tbl_get_def find_None_all wf_table_def)
  with assms(2) show ?thesis by auto
qed

text \<open>
  Every table below is an instance: the generic table functions satisfy the contract for
  any selector and setter that agree.
\<close>

definition ok_table :: "('r \<Rightarrow> int option) \<Rightarrow> 'r table \<Rightarrow> bool" where
  "ok_table key t \<longleftrightarrow> wf_table key t \<and> 0 < next_id t"

lemma ok_empty_table [simp]: "ok_table key empty_table"
  by (simp add: ok_table_def) (simp add: empty_table_def)

lemma ok_tbl_update: "ok_table key t \<Longrightarrow> ok_table key (tbl_update key r t)"
  by (simp add: ok_table_def wf_tbl_update)

lemma ok_tbl_delete: "ok_table key t \<Longrightarrow> ok_table key (tbl_delete p t)"
  by (simp add: ok_table_def wf_tbl_delete)

lemma ok_tbl_insert:
  "ok_table key t \<Longrightarrow> (\<And>k r. key (set_key k r) = k) \<Longrightarrow> ok_table key (snd (tbl_insert set_key r t))"
  by (simp add: ok_table_def wf_tbl_insert)

lemma table_repository:
  assumes "\<And>k r. key (set_key k r) = k"
  shows "repository key (tbl_get key) (tbl_insert set_key) (tbl_update key) (ok_table key)"
proof
  fix t r assume ok: "ok_table key t"
  then show "ok_table key (snd (tbl_insert set_key r t))" using assms by (rule ok_tbl_insert)
  from ok show "ok_table key (tbl_update key r t)" by (rule ok_tbl_update)
  from ok assms show "\<exists>k. key (fst (tbl_insert set_key r t)) = Some k \<and> tbl_get key t k = None"
    by (intro wf_create_key) (simp_all add: ok_table_def)
next
  fix t r k j assume ok: "ok_table key t" and k: "key (fst (tbl_insert set_key r t)) = Some k"
  from k assms have "k = next_id t" by simp
  with ok assms show "tbl_get key (snd (tbl_insert set_key r t)) j =
      (if j = k then Some (fst (tbl_insert set_key r t)) else tbl_get key t j)"
    by (simp add: ok_table_def tbl_get_insert)
next
  fix t r k j assume "ok_table key t" and "key r = Some k"
  then show "tbl_get key (tbl_update key r t) j =
      (if j = k \<and> tbl_get key t k \<noteq> None then Some r else tbl_get key t j)"
    by (simp add: tbl_get_update)
qed

end
