(* ===== verification/Bookings.thy ===== *)
theory Bookings
  imports Store
begin

section \<open>Room bookings\<close>

text \<open>
  Model of \<open>app/models/booking.py\<close>, \<open>app/models/room.py\<close>, the two repositories,
  \<open>app/services/booking_service.py\<close> and the booking endpoints.
\<close>

subsection \<open>Rows\<close>

record room =
  r_id :: "int option"
  r_name :: string
  r_location :: "string option"
  r_capacity :: "int option"
  r_description :: "string option"
  r_room_type :: "string option"
  r_size_sqm :: "rat option"
  r_amenities :: "string list option"
  r_image_url :: "string option"
  r_is_active :: bool
  r_created_at :: time

datatype booking_status = STATUS_CONFIRMED | STATUS_CANCELLED

record booking =
  b_id :: "int option"
  b_room_id :: int
  b_booker_name :: string
  b_booker_email :: string
  b_title :: "string option"
  b_start_time :: time
  b_end_time :: time
  b_access_code :: string
  b_status :: booking_status
  b_created_at :: time

abbreviation set_b_id :: "int option \<Rightarrow> booking \<Rightarrow> booking" where
  "set_b_id k b \<equiv> b\<lparr>b_id := k\<rparr>"

abbreviation set_r_id :: "int option \<Rightarrow> room \<Rightarrow> room" where
  "set_r_id k r \<equiv> r\<lparr>r_id := k\<rparr>"

interpretation booking_repo:
  repository b_id "tbl_get b_id" "tbl_insert set_b_id" "tbl_update b_id" "ok_table b_id"
  by (rule table_repository) simp

interpretation room_repo:
  repository r_id "tbl_get r_id" "tbl_insert set_r_id" "tbl_update r_id" "ok_table r_id"
  by (rule table_repository) simp

text \<open>
  Exceptions of the service. \<open>DbError\<close> is whatever the database layer raised (an
  \<open>IntegrityError\<close> of the unique access-code index, or a lost connection).
  \<open>MissingGreenlet\<close> is what the async ORM raises when an attribute of an expired
  object is read outside an awaited call.
\<close>

datatype booking_error =
    RoomNotFoundError string
  | InvalidBookingTimeError string
  | BookingConflictError string
  | BookingNotFoundError string
  | DbError
  | MissingGreenlet

subsection \<open>Repositories\<close>

definition list_active_rooms :: "room table \<Rightarrow> room list" where
  "list_active_rooms t = sort_key r_name (filter r_is_active (rows t))"

definition get_room :: "room table \<Rightarrow> int \<Rightarrow> room option" where
  "get_room t k = tbl_get r_id t k"

definition create_room :: "room table \<Rightarrow> room \<Rightarrow> room \<times> room table" where
  "create_room t r = tbl_insert set_r_id r t"

text \<open>
  \<open>session.add; commit; refresh\<close>: the insert fails on the unique index over
  \<open>access_code\<close> (any status) or, with \<open>fault\<close>, for a reason outside the model.
\<close>

definition repo_create_booking ::
    "bool \<Rightarrow> booking \<Rightarrow> booking table \<Rightarrow> booking_error + booking \<times> booking table" where
  "repo_create_booking fault b t =
     (if fault \<or> b_access_code b \<in> b_access_code ` set (rows t) then Inl DbError
      else Inr (tbl_insert set_b_id b t))"

definition get_by_access_code :: "booking table \<Rightarrow> string \<Rightarrow> booking option" where
  "get_by_access_code t code = List.find (\<lambda>b. b_access_code b = code) (rows t)"

definition get_booking_by_id :: "booking table \<Rightarrow> int \<Rightarrow> booking option" where
  "get_booking_by_id t k = tbl_get b_id t k"

definition list_by_email :: "booking table \<Rightarrow> string \<Rightarrow> booking list" where
  "list_by_email t email =
     sort_key (\<lambda>b. - b_start_time b) (filter (\<lambda>b. b_booker_email b = email) (rows t))"

definition list_all_bookings :: "booking table \<Rightarrow> int option \<Rightarrow> booking list" where
  "list_all_bookings t room_id = sort_key (\<lambda>b. - b_start_time b)
     (filter (\<lambda>b. case room_id of None \<Rightarrow> True | Some k \<Rightarrow> b_room_id b = k) (rows t))"

definition confirmed_between :: "time \<Rightarrow> time \<Rightarrow> booking \<Rightarrow> bool" where
  "confirmed_between lo hi b \<longleftrightarrow>
     b_status b = STATUS_CONFIRMED \<and> b_start_time b < hi \<and> b_end_time b > lo"

definition count_today :: "booking table \<Rightarrow> time \<Rightarrow> time \<Rightarrow> nat" where
  "count_today t day_start day_end = length (filter (confirmed_between day_start day_end) (rows t))"

definition count_active_now :: "booking table \<Rightarrow> time \<Rightarrow> nat" where
  "count_active_now t now = length (filter (\<lambda>b. b_status b = STATUS_CONFIRMED \<and>
     b_start_time b \<le> now \<and> b_end_time b > now) (rows t))"

definition count_all_time :: "booking table \<Rightarrow> nat" where
  "count_all_time t = length (rows t)"

definition find_overlapping :: "booking table \<Rightarrow> int \<Rightarrow> time \<Rightarrow> time \<Rightarrow> booking option" where
  "find_overlapping t room_id start_time end_time =
     List.find (\<lambda>b. b_room_id b = room_id \<and> b_status b = STATUS_CONFIRMED \<and>
       b_start_time b < end_time \<and> b_end_time b > start_time) (rows t)"

definition list_for_room_between :: "booking table \<Rightarrow> int \<Rightarrow> time \<Rightarrow> time \<Rightarrow> booking list" where
  "list_for_room_between t room_id lo hi = sort_key b_start_time
     (filter (\<lambda>b. b_room_id b = room_id \<and> b_status b = STATUS_CONFIRMED \<and>
       b_start_time b < hi \<and> b_end_time b > lo) (rows t))"

definition update_booking :: "booking \<Rightarrow> booking table \<Rightarrow> booking table" where
  "update_booking b t = tbl_update b_id b t"

subsection \<open>Service\<close>

text \<open>
  What a request sees of the outside: the clock, the random source (\<open>randbelow i\<close> is
  the \<open>i\<close>-th draw, reduced to the range asked for), whether the \<open>a\<close>-th insert
  attempt hits a database fault, the mail transport, and \<open>strftime\<close> in the booking
  timezone.
\<close>

record mail =
  m_to :: string
  m_subject :: string
  m_text :: string

record bk_env =
  bk_now :: time
  bk_entropy :: "nat \<Rightarrow> nat"
  bk_fault :: "nat \<Rightarrow> bool"
  bk_send_email :: "mail \<Rightarrow> bool"
  bk_fmt_date :: "time \<Rightarrow> string"
  bk_fmt_time :: "time \<Rightarrow> string"
  bk_booking_tz :: string

record bk_db =
  rooms :: "room table"
  bookings :: "booking table"

definition CODE_ALPHABET :: string where "CODE_ALPHABET = ''0123456789''"
definition CODE_LENGTH :: nat where "CODE_LENGTH = 6"
definition CODE_MAX_ATTEMPTS :: nat where "CODE_MAX_ATTEMPTS = 5"

text \<open>The \<open>n\<close>-th call of \<open>_generate_access_code\<close> takes the \<open>n\<close>-th block of six draws.\<close>

definition generate_access_code :: "(nat \<Rightarrow> nat) \<Rightarrow> nat \<Rightarrow> string" where
  "generate_access_code rnd n =
     map (\<lambda>i. CODE_ALPHABET ! (rnd (n * CODE_LENGTH + i) mod length CODE_ALPHABET)) [0..<CODE_LENGTH]"

text \<open>A datetime argument is naive (read as UTC) or aware.\<close>

datatype pydatetime = Naive time | Aware time

fun ensure_aware :: "pydatetime \<Rightarrow> time" where
  "ensure_aware (Aware t) = t"
| "ensure_aware (Naive t) = t"

text \<open>Subject and plain-text body of the confirmation (the dash is U+2013 in UTF-8).\<close>

definition en_dash :: string where "en_dash = [CHR 0xE2, CHR 0x80, CHR 0x93]"

definition nl :: string where "nl = [CHR 0x0A]"

definition confirmation_mail :: "bk_env \<Rightarrow> booking \<Rightarrow> room \<Rightarrow> mail" where
  "confirmation_mail env b r =
     (let date_str = bk_fmt_date env (b_start_time b);
          time_str = bk_fmt_time env (b_start_time b) @ '' '' @ en_dash @ '' '' @ bk_fmt_time env (b_end_time b);
          location = (if truthy (r_location r) then '' ('' @ default (r_location r) [] @ '')'' else []);
          purpose = (if truthy (b_title b) then ''Purpose:'' @ default (b_title b) [] @ nl else [])
      in \<lparr>m_to = b_booker_email b,
          m_subject = ''Booking confirmed: '' @ r_name r @ '' on '' @ date_str,
          m_text = ''Hi '' @ b_booker_name b @ '','' @ nl @ nl @ ''Your booking is confirmed.'' @ nl @ nl
            @ ''Room:   '' @ r_name r @ location @ nl
            @ ''Date:   '' @ date_str @ nl
            @ ''Time:   '' @ time_str @ '' ('' @ bk_booking_tz env @ '')'' @ nl
            @ purpose
            @ nl @ ''Access code: '' @ b_access_code b @ nl @ nl
            @ ''Present this access code on arrival. Keep this email for your records.'' @ nl\<rparr>)"

text \<open>
  \<open>_send_confirmation\<close> reads attributes of the \<open>Room\<close> object. After a
  \<open>session.rollback()\<close> that object is expired, and the attribute read raises
  (\<open>lead_service.py\<close> re-fetches its objects after a rollback for this reason).
\<close>

definition send_confirmation ::
    "bk_env \<Rightarrow> bool \<Rightarrow> booking \<Rightarrow> room \<Rightarrow> booking_error + bool" where
  "send_confirmation env room_expired b r =
     (if room_expired then Inl MissingGreenlet else Inr (bk_send_email env (confirmation_mail env b r)))"

text \<open>
  The insert loop \<open>for attempt in range(_CODE_MAX_ATTEMPTS)\<close> over the attempts left.
  The flag of the result tells whether a rollback happened on the way.
\<close>

fun insert_attempts ::
    "bk_env \<Rightarrow> bool \<Rightarrow> nat list \<Rightarrow> booking \<Rightarrow> booking table
      \<Rightarrow> booking_error + (booking \<times> bool) \<times> booking table" where
  "insert_attempts env rolled [] b t = Inr ((b, rolled), t)"
| "insert_attempts env rolled (a # as) b t =
     (case repo_create_booking (bk_fault env a) b t of
        Inr (b', t') \<Rightarrow> Inr ((b', rolled), t')
      | Inl e \<Rightarrow>
          (if a = CODE_MAX_ATTEMPTS - 1 then Inl e
           else insert_attempts env True as
                  (b\<lparr>b_access_code := generate_access_code (bk_entropy env) (Suc a)\<rparr>) t))"

definition new_booking ::
    "bk_env \<Rightarrow> int \<Rightarrow> string \<Rightarrow> string \<Rightarrow> time \<Rightarrow> time \<Rightarrow> string option \<Rightarrow> booking" where
  "new_booking env room_id name email s e title =
     \<lparr>b_id = None, b_room_id = room_id, b_booker_name = name, b_booker_email = email,
      b_title = title, b_start_time = s, b_end_time = e,
      b_access_code = generate_access_code (bk_entropy env) 0,
      b_status = STATUS_CONFIRMED, b_created_at = bk_now env\<rparr>"

text \<open>
  \<open>create_booking\<close>: the result and the database afterwards. The booking is committed
  by the insert, so an exception of the confirmation leaves it in place.
\<close>

definition create_booking ::
    "bk_env \<Rightarrow> bk_db \<Rightarrow> int \<Rightarrow> string \<Rightarrow> string \<Rightarrow> pydatetime \<Rightarrow> pydatetime \<Rightarrow> string option
      \<Rightarrow> (booking_error + booking \<times> room \<times> bool) \<times> bk_db" where
  "create_booking env db room_id name email start end title =
     (let s = ensure_aware start; e = ensure_aware end in
      if e \<le> s then (Inl (InvalidBookingTimeError ''end_time must be after start_time''), db)
      else if s < bk_now env then (Inl (InvalidBookingTimeError ''cannot book a slot in the past''), db)
      else case get_room (rooms db) room_id of
        None \<Rightarrow> (Inl (RoomNotFoundError (''room '' @ show_int room_id @ '' not found or inactive'')), db)
      | Some room \<Rightarrow>
         if \<not> r_is_active room
         then (Inl (RoomNotFoundError (''room '' @ show_int room_id @ '' not found or inactive'')), db)
         else if find_overlapping (bookings db) room_id s e \<noteq> None
         then (Inl (BookingConflictError ''the room is already booked for an overlapping time''), db)
         else case insert_attempts env False [0..<CODE_MAX_ATTEMPTS]
                     (new_booking env room_id name email s e title) (bookings db) of
             Inl err \<Rightarrow> (Inl err, db)
           | Inr ((b, rolled), t) \<Rightarrow>
               (rbind (send_confirmation env rolled b room) (\<lambda>sent. Inr (b, room, sent)),
                db\<lparr>bookings := t\<rparr>))"

definition cancel :: "booking \<Rightarrow> booking table \<Rightarrow> booking \<times> booking table" where
  "cancel b t =
     (if b_status b \<noteq> STATUS_CANCELLED
      then let b' = b\<lparr>b_status := STATUS_CANCELLED\<rparr> in (b', update_booking b' t)
      else (b, t))"

definition cancel_booking :: "bk_db \<Rightarrow> string \<Rightarrow> (booking_error + booking) \<times> bk_db" where
  "cancel_booking db code =
     (case get_by_access_code (bookings db) code of
        None \<Rightarrow> (Inl (BookingNotFoundError (''no booking for access code '' @ code)), db)
      | Some b \<Rightarrow> (let (b', t) = cancel b (bookings db) in (Inr b', db\<lparr>bookings := t\<rparr>)))"

definition cancel_booking_by_id :: "bk_db \<Rightarrow> int \<Rightarrow> (booking_error + booking) \<times> bk_db" where
  "cancel_booking_by_id db k =
     (case get_booking_by_id (bookings db) k of
        None \<Rightarrow> (Inl (BookingNotFoundError (''no booking with id '' @ show_int k)), db)
      | Some b \<Rightarrow> (let (b', t) = cancel b (bookings db) in (Inr b', db\<lparr>bookings := t\<rparr>)))"

subsection \<open>Endpoints\<close>

record room_out =
  ro_id :: "int option"
  ro_name :: string
  ro_location :: "string option"
  ro_capacity :: "int option"
  ro_description :: "string option"
  ro_room_type :: "string option"
  ro_size_sqm :: "rat option"
  ro_amenities :: "string list option"
  ro_image_url :: "string option"

record booking_out =
  bo_id :: "int option"
  bo_room_id :: int
  bo_room_name :: "string option"
  bo_booker_name :: string
  bo_booker_email :: string
  bo_title :: "string option"
  bo_start_time :: time
  bo_end_time :: time
  bo_access_code :: string
  bo_status :: booking_status
  bo_created_at :: time

definition mk_booking_out :: "booking \<Rightarrow> room option \<Rightarrow> booking_out" where
  "mk_booking_out b r =
     \<lparr>bo_id = b_id b, bo_room_id = b_room_id b, bo_room_name = map_option r_name r,
      bo_booker_name = b_booker_name b, bo_booker_email = b_booker_email b, bo_title = b_title b,
      bo_start_time = b_start_time b, bo_end_time = b_end_time b,
      bo_access_code = b_access_code b, bo_status = b_status b, bo_created_at = b_created_at b\<rparr>"

definition mk_room_out :: "room \<Rightarrow> room_out" where
  "mk_room_out r =
     \<lparr>ro_id = r_id r, ro_name = r_name r, ro_location = r_location r, ro_capacity = r_capacity r,
      ro_description = r_description r, ro_room_type = r_room_type r, ro_size_sqm = r_size_sqm r,
      ro_amenities = r_amenities r, ro_image_url = r_image_url r\<rparr>"

text \<open>The dict \<open>_rooms_by_id\<close> builds, read back with \<open>rooms.get\<close>.\<close>

definition rooms_by_id :: "room table \<Rightarrow> booking list \<Rightarrow> int \<rightharpoonup> room" where
  "rooms_by_id t bs k = (if k \<in> b_room_id ` set bs then get_room t k else None)"

definition api_list_rooms :: "bk_db \<Rightarrow> room_out list http" where
  "api_list_rooms db = HttpOk 200 (map mk_room_out (list_active_rooms (rooms db)))"

definition api_get_room :: "bk_db \<Rightarrow> int \<Rightarrow> room_out http" where
  "api_get_room db k =
     (case get_room (rooms db) k of
        None \<Rightarrow> HttpError 404 ''Room not found''
      | Some r \<Rightarrow> if r_is_active r then HttpOk 200 (mk_room_out r) else HttpError 404 ''Room not found'')"

text \<open>
  \<open>midnight d\<close> is the instant of 00:00 of calendar day \<open>d\<close> in the booking timezone
  (\<open>datetime.combine\<close> and wall-clock addition of one day), \<open>today\<close> the current day.
\<close>

definition api_room_bookings ::
    "(int \<Rightarrow> time) \<Rightarrow> int \<Rightarrow> bk_db \<Rightarrow> int \<Rightarrow> int option \<Rightarrow> (int \<times> (time \<times> time) list) http" where
  "api_room_bookings midnight today db k day =
     (case get_room (rooms db) k of
        None \<Rightarrow> HttpError 404 ''Room not found''
      | Some r \<Rightarrow>
          if \<not> r_is_active r then HttpError 404 ''Room not found''
          else let target = default day today in
            HttpOk 200 (k, map (\<lambda>b. (b_start_time b, b_end_time b))
              (list_for_room_between (bookings db) k (midnight target) (midnight (target + 1)))))"

definition api_create_booking ::
    "bk_env \<Rightarrow> bk_db \<Rightarrow> int \<Rightarrow> string \<Rightarrow> string \<Rightarrow> pydatetime \<Rightarrow> pydatetime \<Rightarrow> string option
      \<Rightarrow> (booking_out \<times> bool) http \<times> bk_db" where
  "api_create_booking env db room_id name email s e title =
     (case create_booking env db room_id name email s e title of
        (Inr (b, room, sent), db') \<Rightarrow> (HttpOk 201 (mk_booking_out b (Some room), sent), db')
      | (Inl (RoomNotFoundError m), db') \<Rightarrow> (HttpError 404 m, db')
      | (Inl (InvalidBookingTimeError m), db') \<Rightarrow> (HttpError 422 m, db')
      | (Inl (BookingConflictError m), db') \<Rightarrow> (HttpError 409 m, db')
      | (Inl _, db') \<Rightarrow> (HttpError 500 ''Internal Server Error'', db'))"

definition api_list_bookings_by_email :: "bk_db \<Rightarrow> string \<Rightarrow> booking_out list http" where
  "api_list_bookings_by_email db email =
     (let bs = list_by_email (bookings db) email; rs = rooms_by_id (rooms db) bs
      in HttpOk 200 (map (\<lambda>b. mk_booking_out b (rs (b_room_id b))) bs))"

record booking_stats =
  today_count :: nat
  active_now_count :: nat
  total_rooms :: nat
  all_time_count :: nat

definition api_admin_list_bookings ::
    "(int \<Rightarrow> time) \<Rightarrow> int \<Rightarrow> time \<Rightarrow> bk_db \<Rightarrow> int option \<Rightarrow> (booking_out list \<times> booking_stats) http" where
  "api_admin_list_bookings midnight today now_utc db room_id =
     (let bs = list_all_bookings (bookings db) room_id; rs = rooms_by_id (rooms db) bs
      in HttpOk 200
        (map (\<lambda>b. mk_booking_out b (rs (b_room_id b))) bs,
         \<lparr>today_count = count_today (bookings db) (midnight today) (midnight (today + 1)),
          active_now_count = count_active_now (bookings db) now_utc,
          total_rooms = length (list_active_rooms (rooms db)),
          all_time_count = count_all_time (bookings db)\<rparr>))"

definition api_get_booking :: "bk_db \<Rightarrow> string \<Rightarrow> booking_out http" where
  "api_get_booking db code =
     (case get_by_access_code (bookings db) (py_strip code) of
        None \<Rightarrow> HttpError 404 ''Booking not found''
      | Some b \<Rightarrow> HttpOk 200 (mk_booking_out b (get_room (rooms db) (b_room_id b))))"

definition api_cancel_booking :: "bk_db \<Rightarrow> string \<Rightarrow> booking_out http \<times> bk_db" where
  "api_cancel_booking db code =
     (case cancel_booking db (py_strip code) of
        (Inr b, db') \<Rightarrow> (HttpOk 200 (mk_booking_out b (get_room (rooms db') (b_room_id b))), db')
      | (Inl (BookingNotFoundError m), db') \<Rightarrow> (HttpError 404 m, db')
      | (Inl _, db') \<Rightarrow> (HttpError 500 ''Internal Server Error'', db'))"

definition api_admin_cancel_booking :: "bk_db \<Rightarrow> int \<Rightarrow> booking_out http \<times> bk_db" where
  "api_admin_cancel_booking db k =
     (case cancel_booking_by_id db k of
        (Inr b, db') \<Rightarrow> (HttpOk 200 (mk_booking_out b (get_room (rooms db') (b_room_id b))), db')
      | (Inl (BookingNotFoundError m), db') \<Rightarrow> (HttpError 404 m, db')
      | (Inl _, db') \<Rightarrow> (HttpError 500 ''Internal Server Error'', db'))"

end
