(* ===== verification/Booking_Safety.thy ===== *)
theory Booking_Safety
  imports Bookings
begin

section \<open>Bookings never collide\<close>

text \<open>
  The invariant of the bookings table and its preservation by every operation of the
  service, the outcomes of \<open>create_booking\<close> on each branch, and what two interleaved
  requests can do.
\<close>

subsection \<open>The invariant\<close>

definition overlaps :: "booking \<Rightarrow> booking \<Rightarrow> bool" where
  "overlaps b c \<longleftrightarrow> b_room_id b = b_room_id c \<and> b_status b = STATUS_CONFIRMED \<and>
     b_status c = STATUS_CONFIRMED \<and> b_start_time b < b_end_time c \<and> b_start_time c < b_end_time b"

definition no_double_booking :: "booking table \<Rightarrow> bool" where
  "no_double_booking t \<longleftrightarrow>
     (\<forall>b \<in> set (rows t). \<forall>c \<in> set (rows t). b_id b \<noteq> b_id c \<longrightarrow> \<not> overlaps b c)"

definition code_ok :: "string \<Rightarrow> bool" where
  "code_ok c \<longleftrightarrow> length c = CODE_LENGTH \<and> list_all is_digit c"

definition bookings_inv :: "booking table \<Rightarrow> bool" where
  "bookings_inv t \<longleftrightarrow> ok_table b_id t \<and> no_double_booking t \<and>
     distinct (map b_access_code (rows t)) \<and>
     (\<forall>b \<in> set (rows t). code_ok (b_access_code b) \<and> b_start_time b < b_end_time b)"

lemma bookings_inv_empty [simp]: "bookings_inv empty_table"
  by (simp add: bookings_inv_def no_double_booking_def) (simp add: empty_table_def)

lemma overlaps_sym: "overlaps b c = overlaps c b"
  by (auto simp: overlaps_def)

lemma digit_of_alphabet: "i < 10 \<Longrightarrow> is_digit (CODE_ALPHABET ! i)"
proof -
  assume "i < 10"
  then have "i \<in> set [0..<10]" by simp
  moreover have "\<forall>i \<in> set [0..<10]. is_digit (CODE_ALPHABET ! i)"
    by (simp add: CODE_ALPHABET_def is_digit_def less_eq_char_def upt_rec)
  ultimately show ?thesis by blast
qed

lemma code_ok_generate: "code_ok (generate_access_code rnd n)"
proof -
  have "length CODE_ALPHABET = 10" by (simp add: CODE_ALPHABET_def)
  then show ?thesis
    by (auto simp: code_ok_def generate_access_code_def list_all_iff intro: digit_of_alphabet)
qed

lemma find_overlapping_None_iff:
  "find_overlapping t room_id s e = None \<longleftrightarrow>
     (\<forall>b \<in> set (rows t). b_room_id b = room_id \<longrightarrow> b_status b = STATUS_CONFIRMED \<longrightarrow>
        e \<le> b_start_time b \<or> b_end_time b \<le> s)"
  by (force simp: find_overlapping_def find_None_all not_less)

lemma repo_create_Inr:
  "repo_create_booking f b t = Inr (b', t') \<longleftrightarrow>
     \<not> f \<and> b_access_code b \<notin> b_access_code ` set (rows t) \<and>
     b' = b\<lparr>b_id := Some (next_id t)\<rparr> \<and> t' = snd (tbl_insert set_b_id b t)"
  by (auto simp: repo_create_booking_def tbl_insert_def Let_def)

text \<open>One committed insert of a booking whose slot is free keeps the invariant.\<close>

lemma insert_keeps_inv:
  assumes inv: "bookings_inv t"
    and free: "find_overlapping t (b_room_id b) (b_start_time b) (b_end_time b) = None"
    and slot: "b_start_time b < b_end_time b"
    and code: "code_ok (b_access_code b)" "b_access_code b \<notin> b_access_code ` set (rows t)"
  shows "bookings_inv (snd (tbl_insert set_b_id b t))"
proof -
  let ?b = "b\<lparr>b_id := Some (next_id t)\<rparr>"
  have clear: "\<not> overlaps ?b c" if "c \<in> set (rows t)" for c
    using free that by (force simp: find_overlapping_None_iff overlaps_def)
  moreover have "\<not> overlaps c ?b" if "c \<in> set (rows t)" for c
    using clear [OF that] by (simp add: overlaps_sym [of c ?b])
  ultimately have "no_double_booking (snd (tbl_insert set_b_id b t))"
    using inv by (auto simp: bookings_inv_def no_double_booking_def)
  moreover have "ok_table b_id (snd (tbl_insert set_b_id b t))"
    using inv by (intro booking_repo.ok_create) (simp add: bookings_inv_def)
  ultimately show ?thesis
    using inv slot code by (auto simp: bookings_inv_def)
qed

text \<open>Marking a booking cancelled keeps it.\<close>

lemma cancel_row_keeps_inv:
  assumes inv: "bookings_inv t" and b: "b \<in> set (rows t)"
  shows "bookings_inv (update_booking (b\<lparr>b_status := STATUS_CANCELLED\<rparr>) t)"
proof -
  let ?c = "b\<lparr>b_status := STATUS_CANCELLED\<rparr>"
  have keyed: "x = b" if "x \<in> set (rows t)" "b_id x = b_id b" for x
    using inv b that by (auto simp: bookings_inv_def ok_table_def wf_table_def distinct_map inj_on_def)
  then have codes: "map b_access_code (rows (update_booking ?c t)) = map b_access_code (rows t)"
    by (auto simp: update_booking_def)
  have "ok_table b_id (update_booking ?c t)"
    using inv unfolding update_booking_def by (intro booking_repo.ok_upd) (simp add: bookings_inv_def)
  moreover have "no_double_booking (update_booking ?c t)"
    using inv by (auto simp: bookings_inv_def no_double_booking_def update_booking_def overlaps_def)
  ultimately show ?thesis
    using inv keyed b by (auto simp: bookings_inv_def codes) (auto simp: update_booking_def bookings_inv_def)
qed

subsection \<open>The insert loop\<close>

lemma insert_attempts_Inr:
  assumes "insert_attempts env rolled as b t = Inr ((b', rolled'), t')"
    and "as \<noteq> []" and "last as = CODE_MAX_ATTEMPTS - 1" and "code_ok (b_access_code b)"
  shows "\<exists>c. code_ok c \<and> c \<notin> b_access_code ` set (rows t) \<and>
    b' = b\<lparr>b_access_code := c, b_id := Some (next_id t)\<rparr> \<and>
    t' = snd (tbl_insert set_b_id (b\<lparr>b_access_code := c\<rparr>) t)"
  using assms
proof (induction as arbitrary: b rolled)
  case (Cons a as)
  show ?case
  proof (cases "repo_create_booking (bk_fault env a) b t")
    case (Inl err)
    with Cons.prems have a: "a \<noteq> CODE_MAX_ATTEMPTS - 1"
      and rest: "insert_attempts env True as
        (b\<lparr>b_access_code := generate_access_code (bk_entropy env) (Suc a)\<rparr>) t = Inr ((b', rolled'), t')"
      by (auto split: if_splits)
    from a Cons.prems have "as \<noteq> []" and "last as = CODE_MAX_ATTEMPTS - 1" by (auto split: if_splits)
    from Cons.IH [OF rest this] show ?thesis by (simp add: code_ok_generate)
  next
    case (Inr res)
    obtain b2 t2 where res: "res = (b2, t2)" by (cases res) auto
    from Inr res Cons.prems have eqs: "b2 = b'" "t2 = t'" by auto
    with Inr res have "repo_create_booking (bk_fault env a) b t = Inr (b', t')" by simp
    then show ?thesis
      using Cons.prems(4) by (intro exI [of _ "b_access_code b"]) (auto simp: repo_create_Inr)
  qed
qed simp

lemma insert_attempts_rolled:
  "insert_attempts env True as b t = Inr ((b', r'), t') \<Longrightarrow> r'"
  by (induction as arbitrary: b) (auto split: sum.splits if_splits)

lemma attempts_Inl: "insert_attempts env rolled as b t = Inl e \<Longrightarrow> e = DbError"
  by (induction as arbitrary: b rolled)
    (auto simp: repo_create_booking_def split: sum.splits if_splits)

lemmas attempts_range = insert_attempts_Inr [of _ _ "[0..<CODE_MAX_ATTEMPTS]"]

lemma attempts_upt: "[0..<CODE_MAX_ATTEMPTS] = 0 # [1..<CODE_MAX_ATTEMPTS]"
  by (simp add: CODE_MAX_ATTEMPTS_def upt_conv_Cons)

lemma attempts_first:
  assumes "\<not> bk_fault env 0" and "b_access_code b \<notin> b_access_code ` set (rows t)"
  shows "insert_attempts env False [0..<CODE_MAX_ATTEMPTS] b t =
    Inr ((b\<lparr>b_id := Some (next_id t)\<rparr>, False), snd (tbl_insert set_b_id b t))"
  using assms by (simp add: attempts_upt repo_create_booking_def tbl_insert_def Let_def del: upt_Suc)

lemma attempts_collision_rolls:
  assumes "b_access_code b \<in> b_access_code ` set (rows t)"
    and "insert_attempts env False [0..<CODE_MAX_ATTEMPTS] b t = Inr ((b', r'), t')"
  shows "r'"
proof -
  from assms obtain c where "insert_attempts env True [1..<CODE_MAX_ATTEMPTS] c t = Inr ((b', r'), t')"
    by (auto simp: attempts_upt repo_create_booking_def split: if_splits simp del: upt_Suc)
  then show ?thesis by (rule insert_attempts_rolled)
qed

subsection \<open>Outcomes of create_booking\<close>

text \<open>
  Every call either leaves the database as it was and raises, or commits exactly one
  booking that carries the request and a fresh six-digit code.
\<close>

lemma create_booking_cases:
  obtains (unchanged) err where "create_booking env db k n m s e ti = (Inl err, db)"
  | (inserted) c rolled room where
      "ensure_aware s < ensure_aware e" "bk_now env \<le> ensure_aware s"
      "get_room (rooms db) k = Some room" "r_is_active room"
      "find_overlapping (bookings db) k (ensure_aware s) (ensure_aware e) = None"
      "code_ok c" "c \<notin> b_access_code ` set (table.rows (bookings db))"
      "insert_attempts env False [0..<CODE_MAX_ATTEMPTS]
         (new_booking env k n m (ensure_aware s) (ensure_aware e) ti) (bookings db) =
         Inr (((new_booking env k n m (ensure_aware s) (ensure_aware e) ti)
           \<lparr>b_access_code := c, b_id := Some (next_id (bookings db))\<rparr>, rolled),
           snd (tbl_insert set_b_id
             ((new_booking env k n m (ensure_aware s) (ensure_aware e) ti)\<lparr>b_access_code := c\<rparr>)
             (bookings db)))"
proof -
  let ?new = "new_booking env k n m (ensure_aware s) (ensure_aware e) ti"
  let ?ins = "insert_attempts env False [0..<CODE_MAX_ATTEMPTS] ?new (bookings db)"
  consider (a) "ensure_aware e \<le> ensure_aware s \<or> ensure_aware s < bk_now env
      \<or> get_room (rooms db) k = None
      \<or> find_overlapping (bookings db) k (ensure_aware s) (ensure_aware e) \<noteq> None"
    | (b) room where "get_room (rooms db) k = Some room" "\<not> r_is_active room"
    | (c) err where "?ins = Inl err"
    | (d) room b' r' t' where "ensure_aware s < ensure_aware e" "bk_now env \<le> ensure_aware s"
      "get_room (rooms db) k = Some room" "r_is_active room"
      "find_overlapping (bookings db) k (ensure_aware s) (ensure_aware e) = None"
      "?ins = Inr ((b', r'), t')"
    by (cases ?ins) (fastforce simp: not_less not_le)+
  then show thesis
  proof cases
    case d
    have last: "last [0..<CODE_MAX_ATTEMPTS] = CODE_MAX_ATTEMPTS - 1" and ne: "[0..<CODE_MAX_ATTEMPTS] \<noteq> []"
      by (simp_all add: CODE_MAX_ATTEMPTS_def)
    have "code_ok (b_access_code ?new)" by (simp add: new_booking_def code_ok_generate)
    from attempts_range [OF d(6) ne last this] obtain c where "code_ok c"
      "c \<notin> b_access_code ` set (table.rows (bookings db))"
      "b' = ?new\<lparr>b_access_code := c, b_id := Some (next_id (bookings db))\<rparr>"
      "t' = snd (tbl_insert set_b_id (?new\<lparr>b_access_code := c\<rparr>) (bookings db))" by blast
    with d inserted show thesis by blast
  next
    case a
    then have "\<exists>err. create_booking env db k n m s e ti = (Inl err, db)"
      by (cases "get_room (rooms db) k") (auto simp: create_booking_def Let_def)
    then show thesis using unchanged by blast
  next
    case b
    then have "\<exists>err. create_booking env db k n m s e ti = (Inl err, db)"
      by (auto simp: create_booking_def Let_def)
    then show thesis using unchanged by blast
  next
    case c
    then have "\<exists>err. create_booking env db k n m s e ti = (Inl err, db)"
      by (cases "get_room (rooms db) k") (auto simp: create_booking_def Let_def)
    then show thesis using unchanged by blast
  qed
qed

lemma create_booking_keeps_inv:
  assumes "bookings_inv (bookings db)"
  shows "bookings_inv (bookings (snd (create_booking env db k n m s e ti)))"
proof (cases rule: create_booking_cases [of env db k n m s e ti])
  case unchanged
  with assms show ?thesis by simp
next
  case (inserted c rolled room)
  let ?b = "(new_booking env k n m (ensure_aware s) (ensure_aware e) ti)\<lparr>b_access_code := c\<rparr>"
  have "bookings_inv (snd (tbl_insert set_b_id ?b (bookings db)))"
    using assms inserted by (intro insert_keeps_inv) (simp_all add: new_booking_def)
  with inserted show ?thesis by (simp add: create_booking_def Let_def)
qed

lemma get_by_access_code_in: "get_by_access_code t code = Some b \<Longrightarrow> b \<in> set (rows t) \<and> b_access_code b = code"
  unfolding get_by_access_code_def by (drule find_Some_in) simp

lemma cancel_keeps_inv:
  "cancel b t = (b', t') \<Longrightarrow> bookings_inv t \<Longrightarrow> b \<in> set (rows t) \<Longrightarrow> bookings_inv t'"
  by (auto simp: cancel_def Let_def cancel_row_keeps_inv split: if_splits)

lemma cancel_booking_keeps_inv:
  "bookings_inv (bookings db) \<Longrightarrow> bookings_inv (bookings (snd (cancel_booking db code)))"
  by (auto simp: cancel_booking_def dest!: get_by_access_code_in intro: cancel_keeps_inv
      split: option.splits prod.splits)

lemma cancel_by_id_keeps_inv:
  "bookings_inv (bookings db) \<Longrightarrow> bookings_inv (bookings (snd (cancel_booking_by_id db k)))"
  by (auto simp: cancel_booking_by_id_def get_booking_by_id_def dest!: tbl_get_Some(1)
      intro: cancel_keeps_inv split: option.splits prod.splits)

subsection \<open>Runs of the service\<close>

text \<open>Requests served one after the other, in any order and with any environment each.\<close>

datatype bk_op =
    OpCreate bk_env int string string pydatetime pydatetime "string option"
  | OpCancel string
  | OpCancelById int

fun bk_step :: "bk_db \<Rightarrow> bk_op \<Rightarrow> bk_db" where
  "bk_step db (OpCreate env k n m s e ti) = snd (create_booking env db k n m s e ti)"
| "bk_step db (OpCancel code) = snd (cancel_booking db code)"
| "bk_step db (OpCancelById k) = snd (cancel_booking_by_id db k)"

definition bk_run :: "bk_db \<Rightarrow> bk_op list \<Rightarrow> bk_db" where
  "bk_run db ops = foldl bk_step db ops"

lemma bk_step_keeps_inv:
  "bookings_inv (bookings db) \<Longrightarrow> bookings_inv (bookings (bk_step db op))"
  by (cases op) (simp_all add: create_booking_keeps_inv cancel_booking_keeps_inv cancel_by_id_keeps_inv)

lemma bk_run_keeps_inv:
  "bookings_inv (bookings db) \<Longrightarrow> bookings_inv (bookings (bk_run db ops))"
  unfolding bk_run_def by (induction ops arbitrary: db) (simp_all add: bk_step_keeps_inv)

subsection \<open>Interleaved requests\<close>

text \<open>
  The service is asynchronous: between the awaited overlap query and the awaited insert
  another request may run. Each request is a process with a program counter; a step is
  one request doing its query or its commit.
\<close>

datatype phase = Arrived | Checked | Rejected | Committed

record bk_sys =
  sys_bookings :: "booking table"
  sys_pc :: "nat \<Rightarrow> phase"

inductive bk_sys_step :: "(nat \<Rightarrow> booking) \<Rightarrow> bk_sys \<Rightarrow> bk_sys \<Rightarrow> bool" for req where
  check: "sys_pc s i = Arrived \<Longrightarrow>
     find_overlapping (sys_bookings s) (b_room_id (req i)) (b_start_time (req i)) (b_end_time (req i)) = None \<Longrightarrow>
     bk_sys_step req s (s\<lparr>sys_pc := (sys_pc s)(i := Checked)\<rparr>)"
| reject: "sys_pc s i = Arrived \<Longrightarrow>
     find_overlapping (sys_bookings s) (b_room_id (req i)) (b_start_time (req i)) (b_end_time (req i)) \<noteq> None \<Longrightarrow>
     bk_sys_step req s (s\<lparr>sys_pc := (sys_pc s)(i := Rejected)\<rparr>)"
| commit: "sys_pc s i = Checked \<Longrightarrow>
     repo_create_booking False (req i) (sys_bookings s) = Inr (b, t) \<Longrightarrow>
     bk_sys_step req s (s\<lparr>sys_bookings := t, sys_pc := (sys_pc s)(i := Committed)\<rparr>)"

inductive_simps bk_sys_step_simp: "bk_sys_step req s s'"

definition bk_sys_init :: bk_sys where
  "bk_sys_init = \<lparr>sys_bookings = empty_table, sys_pc = (\<lambda>_. Arrived)\<rparr>"

text \<open>
  Between two states of a run: rows are only added, a request that commits on the way has its
  row among the added ones, and two such requests have different access codes.
\<close>

definition commits :: "(nat \<Rightarrow> booking) \<Rightarrow> bk_sys \<Rightarrow> bk_sys \<Rightarrow> nat \<Rightarrow> bool" where
  "commits req s s' i \<longleftrightarrow> sys_pc s i \<noteq> Committed \<and> sys_pc s' i = Committed"

definition grows :: "(nat \<Rightarrow> booking) \<Rightarrow> bk_sys \<Rightarrow> bk_sys \<Rightarrow> bool" where
  "grows req s s' \<longleftrightarrow> (\<exists>new. rows (sys_bookings s') = rows (sys_bookings s) @ new \<and>
     (\<forall>i. commits req s s' i \<longrightarrow> (\<exists>k. (req i)\<lparr>b_id := k\<rparr> \<in> set new)))"

lemma repo_create_booking_rows:
  "repo_create_booking False b t = Inr (b', u) \<Longrightarrow>
     b' = b\<lparr>b_id := Some (next_id t)\<rparr> \<and> rows u = rows t @ [b'] \<and>
     b_access_code b \<notin> b_access_code ` set (rows t)"
  by (auto simp: repo_create_booking_def tbl_insert_def Let_def split: if_splits)

lemma bk_sys_step_grows:
  assumes "bk_sys_step req s s'"
  shows "grows req s s'" and "sys_pc s i = Committed \<Longrightarrow> sys_pc s' i = Committed"
    and "commits req s s' i \<Longrightarrow> commits req s s' j \<Longrightarrow> i = j"
    and "commits req s s' i \<Longrightarrow> b_access_code (req i) \<notin> b_access_code ` set (rows (sys_bookings s))"
  using assms
  by (cases; auto simp: grows_def commits_def split: if_splits dest!: repo_create_booking_rows)+

lemma bk_sys_run_grows:
  assumes "(bk_sys_step req)\<^sup>*\<^sup>* s s'"
  shows "grows req s s' \<and> (\<forall>i. sys_pc s i = Committed \<longrightarrow> sys_pc s' i = Committed) \<and>
    (\<forall>i j. commits req s s' i \<and> commits req s s' j \<and> i \<noteq> j \<longrightarrow> b_access_code (req i) \<noteq> b_access_code (req j))"
  using assms
proof (induction rule: rtranclp_induct)
  case base
  then show ?case by (simp add: grows_def commits_def)
next
  case (step y z)
  note st = bk_sys_step_grows [OF step(2)]
  have split: "commits req s z i \<longleftrightarrow> commits req s y i \<or> commits req y z i" for i
    using step.IH st(2) [of i] by (auto simp: commits_def)
  obtain a b where a: "rows (sys_bookings y) = rows (sys_bookings s) @ a"
      "\<And>i. commits req s y i \<Longrightarrow> \<exists>k. (req i)\<lparr>b_id := k\<rparr> \<in> set a"
    and b: "rows (sys_bookings z) = rows (sys_bookings y) @ b"
      "\<And>i. commits req y z i \<Longrightarrow> \<exists>k. (req i)\<lparr>b_id := k\<rparr> \<in> set b"
    using step.IH st(1) unfolding grows_def by blast
  have rows: "\<exists>k. (req i)\<lparr>b_id := k\<rparr> \<in> set (a @ b)" if "commits req s z i" for i
    using that a(2) b(2) unfolding split by fastforce
  then have "grows req s z" using a(1) b(1) by (auto simp: grows_def)
  moreover have later: "b_access_code (req i) \<noteq> b_access_code (req j)" if "commits req s y i" "commits req y z j" for i j
  proof -
    from a(2) [OF that(1)] obtain k where "(req i)\<lparr>b_id := k\<rparr> \<in> set a" by blast
    then have "(req i)\<lparr>b_id := k\<rparr> \<in> set (rows (sys_bookings y))" by (simp add: a(1))
    then have "b_access_code ((req i)\<lparr>b_id := k\<rparr>) \<in> b_access_code ` set (rows (sys_bookings y))" by (rule imageI)
    then have "b_access_code (req i) \<in> b_access_code ` set (rows (sys_bookings y))" by simp
    then show ?thesis using st(4) [OF that(2)] by auto
  qed
  have "b_access_code (req i) \<noteq> b_access_code (req j)" if "commits req s z i" "commits req s z j" "i \<noteq> j" for i j
    using that later [of i j] later [of j i] st(3) [of i j] step.IH unfolding split by metis
  ultimately show ?case using step.IH st(2) by blast
qed

lemma bk_sys_run_keys:
  "(bk_sys_step req)\<^sup>*\<^sup>* s s' \<Longrightarrow> ok_table b_id (sys_bookings s) \<Longrightarrow> ok_table b_id (sys_bookings s')"
proof (induction rule: rtranclp_induct)
  case (step y z)
  then have ok: "ok_table b_id (sys_bookings y)" by simp
  have "ok_table b_id (snd (tbl_insert set_b_id b (sys_bookings y)))" for b
    by (rule ok_tbl_insert [OF ok]) simp
  with step(2) ok show ?case
    by (cases rule: bk_sys_step.cases) (auto simp: repo_create_booking_def split: if_splits, metis snd_conv)
qed simp

lemma two_committed:
  assumes run: "(bk_sys_step req)\<^sup>*\<^sup>* s s' \<and> sys_pc s' i = Committed \<and> sys_pc s' j = Committed"
    and both: "sys_pc s i = Checked" "sys_pc s j = Checked" "i \<noteq> j" and keys: "ok_table b_id (sys_bookings s)"
  shows "\<exists>k l. (req i)\<lparr>b_id := k\<rparr> \<in> set (rows (sys_bookings s')) \<and>
    (req j)\<lparr>b_id := l\<rparr> \<in> set (rows (sys_bookings s')) \<and> k \<noteq> l"
proof -
  have c: "commits req s s' i" "commits req s s' j" using run both by (simp_all add: commits_def)
  note g = bk_sys_run_grows [OF conjunct1 [OF run]]
  then obtain k l where kl: "(req i)\<lparr>b_id := k\<rparr> \<in> set (rows (sys_bookings s'))"
    "(req j)\<lparr>b_id := l\<rparr> \<in> set (rows (sys_bookings s'))"
    using c unfolding grows_def by (metis Un_iff set_append)
  have "distinct (map b_id (rows (sys_bookings s')))"
    using bk_sys_run_keys [OF conjunct1 [OF run] keys] by (simp add: ok_table_def wf_table_def)
  then have "k = l \<Longrightarrow> (req i)\<lparr>b_id := k\<rparr> = (req j)\<lparr>b_id := l\<rparr>"
    using kl unfolding distinct_map inj_on_def by (metis booking.select_convs(1) booking.surjective booking.update_convs(1))
  then have "k = l \<Longrightarrow> b_access_code (req i) = b_access_code (req j)"
    by (metis booking.select_convs(8) booking.surjective booking.update_convs(1))
  then show ?thesis using g c both(3) kl by blast
qed

text \<open>Both requests can go on to commit when their access codes are not in use.\<close>

lemma both_commit:
  assumes pc: "sys_pc s i = Checked" "sys_pc s j = Checked" "i \<noteq> j"
    and codes: "b_access_code (req i) \<noteq> b_access_code (req j)"
      "b_access_code (req i) \<notin> b_access_code ` set (rows (sys_bookings s))"
      "b_access_code (req j) \<notin> b_access_code ` set (rows (sys_bookings s))"
  shows "\<exists>s'. (bk_sys_step req)\<^sup>*\<^sup>* s s' \<and> sys_pc s' i = Committed \<and> sys_pc s' j = Committed"
proof -
  let ?b = "(req i)\<lparr>b_id := Some (next_id (sys_bookings s))\<rparr>"
  let ?t = "sys_bookings s\<lparr>rows := rows (sys_bookings s) @ [?b], next_id := next_id (sys_bookings s) + 1\<rparr>"
  let ?s1 = "s\<lparr>sys_bookings := ?t, sys_pc := (sys_pc s)(i := Committed)\<rparr>"
  have one: "bk_sys_step req s ?s1"
    using pc(1) codes(2) by (intro bk_sys_step.commit [of s i req ?b ?t]) (simp_all add: repo_create_booking_def tbl_insert_def Let_def)
  let ?c = "(req j)\<lparr>b_id := Some (next_id ?t)\<rparr>"
  let ?u = "?t\<lparr>rows := rows ?t @ [?c], next_id := next_id ?t + 1\<rparr>"
  let ?s2 = "?s1\<lparr>sys_bookings := ?u, sys_pc := (sys_pc ?s1)(j := Committed)\<rparr>"
  have two: "bk_sys_step req ?s1 ?s2"
    using pc codes by (intro bk_sys_step.commit [of ?s1 j req ?c ?u]) (auto simp: repo_create_booking_def tbl_insert_def Let_def)
  have "(bk_sys_step req)\<^sup>*\<^sup>* s ?s2"
    by (rule rtranclp.rtrancl_into_rtrancl [OF r_into_rtranclp], rule one, rule two)
  moreover have "sys_pc ?s2 i = Committed" "sys_pc ?s2 j = Committed" using pc(3) by simp_all
  ultimately show ?thesis by blast
qed

subsection \<open>Properties\<close>

text \<open>C1: requests served one after the other never leave two confirmed bookings of one
  room overlapping in time, and keep every access code a distinct six-digit code.\<close>

theorem serial_requests_never_double_book:
  "no_double_booking (bookings (bk_run \<lparr>rooms = rs, bookings = empty_table\<rparr> ops)) \<and>
   distinct (map b_access_code (rows (bookings (bk_run \<lparr>rooms = rs, bookings = empty_table\<rparr> ops)))) \<and>
   list_all (\<lambda>b. code_ok (b_access_code b))
     (rows (bookings (bk_run \<lparr>rooms = rs, bookings = empty_table\<rparr> ops)))"
proof -
  have "bookings_inv (bookings (bk_run \<lparr>rooms = rs, bookings = empty_table\<rparr> ops))"
    by (rule bk_run_keeps_inv) simp
  then show ?thesis unfolding bookings_inv_def list_all_iff by blast
qed

text \<open>A request for a free slot of an active room, not in the past, whose first code is
  fresh and whose insert meets no database fault, is confirmed: the booking is appended
  with exactly the requested fields and one confirmation mail is attempted.\<close>

theorem create_booking_confirms:
  assumes "ensure_aware s < ensure_aware e" and "bk_now env \<le> ensure_aware s"
    and "get_room (rooms db) k = Some room" and "r_is_active room"
    and "find_overlapping (bookings db) k (ensure_aware s) (ensure_aware e) = None"
    and "\<not> bk_fault env 0"
    and "generate_access_code (bk_entropy env) 0 \<notin> b_access_code ` set (table.rows (bookings db))"
  shows "create_booking env db k name email s e title =
    (let b = (new_booking env k name email (ensure_aware s) (ensure_aware e) title)
               \<lparr>b_id := Some (next_id (bookings db))\<rparr>
     in (Inr (b, room, bk_send_email env (confirmation_mail env b room)),
         db\<lparr>bookings := (bookings db)\<lparr>table.rows := table.rows (bookings db) @ [b],
              next_id := next_id (bookings db) + 1\<rparr>\<rparr>))"
  using assms
  by (simp add: create_booking_def attempts_first new_booking_def send_confirmation_def tbl_insert_def Let_def)

definition witness_room :: room where
  "witness_room = \<lparr>r_id = Some 1, r_name = ''Hall'', r_location = None, r_capacity = None,
     r_description = None, r_room_type = None, r_size_sqm = None, r_amenities = None,
     r_image_url = None, r_is_active = True, r_created_at = 0\<rparr>"

definition witness_env :: bk_env where
  "witness_env = \<lparr>bk_now = 100, bk_entropy = (\<lambda>_. 7), bk_fault = (\<lambda>_. False),
     bk_send_email = (\<lambda>_. True), bk_fmt_date = (\<lambda>_. ''day''), bk_fmt_time = (\<lambda>_. ''hour''),
     bk_booking_tz = ''UTC''\<rparr>"

definition witness_db :: bk_db where
  "witness_db = \<lparr>rooms = \<lparr>rows = [witness_room], next_id = 2\<rparr>, bookings = empty_table\<rparr>"

lemma witness_room_found: "get_room (rooms witness_db) 1 = Some witness_room"
  by (simp add: get_room_def tbl_get_def witness_db_def witness_room_def)

theorem create_booking_confirms_witness:
  "\<exists>b. create_booking witness_env witness_db 1 ''Ada'' ''ada@x.org'' (Aware 200) (Aware 300) None =
     (Inr (b, witness_room, True), witness_db\<lparr>bookings := \<lparr>rows = [b], next_id = 2\<rparr>\<rparr>)
     \<and> b_access_code b = ''777777''"
proof -
  have code: "generate_access_code (bk_entropy witness_env) 0 = ''777777''"
    by (simp add: generate_access_code_def CODE_LENGTH_def CODE_ALPHABET_def witness_env_def upt_rec)
  have "find_overlapping (bookings witness_db) 1 (ensure_aware (Aware 200)) (ensure_aware (Aware 300)) = None"
    by (simp add: witness_db_def empty_table_def find_overlapping_def)
  then show ?thesis
    using code witness_room_found
    by (subst create_booking_confirms [where room = witness_room])
      (simp_all add: witness_env_def witness_db_def witness_room_def empty_table_def new_booking_def Let_def)
qed

text \<open>The endpoint answers 422, 404 and 409 exactly on the slot-order, past-slot,
  missing-room and overlap conditions, tested in that order, 201 or 500 otherwise, and
  every answer other than 201 and 500 leaves the database unchanged.\<close>

theorem api_create_booking_status:
  "(let res = api_create_booking env db k name email s e title; st = http_status (fst res) in
    (if ensure_aware e \<le> ensure_aware s \<or> ensure_aware s < bk_now env then st = 422
     else if (case get_room (rooms db) k of None \<Rightarrow> True | Some r \<Rightarrow> \<not> r_is_active r) then st = 404
     else if find_overlapping (bookings db) k (ensure_aware s) (ensure_aware e) \<noteq> None then st = 409
     else st = 201 \<or> st = 500) \<and>
    (st = 201 \<or> st = 500 \<or> snd res = db))"
proof (cases rule: create_booking_cases [of env db k name email s e title])
  case (unchanged err)
  then have "snd (api_create_booking env db k name email s e title) = db"
    by (cases err) (auto simp: api_create_booking_def)
  moreover have "case get_room (rooms db) k of None \<Rightarrow> True | Some r \<Rightarrow> r_is_active r \<longrightarrow>
      find_overlapping (bookings db) k (ensure_aware s) (ensure_aware e) = None \<longrightarrow>
      ensure_aware s < ensure_aware e \<longrightarrow> bk_now env \<le> ensure_aware s \<longrightarrow>
      err = DbError \<or> err = MissingGreenlet"
    using unchanged by (auto simp: create_booking_def Let_def send_confirmation_def rbind_eq_Inl_iff
        dest!: attempts_Inl split: option.split sum.splits prod.splits if_splits)
  ultimately show ?thesis
    using unchanged by (cases "get_room (rooms db) k")
      (auto simp: api_create_booking_def create_booking_def Let_def split: if_splits)
next
  case (inserted c rolled room)
  then show ?thesis
    by (auto simp: api_create_booking_def create_booking_def Let_def send_confirmation_def)
qed

text \<open>The room's availability page and the conflict check agree: a day shows no slot
  exactly when a booking of the whole day would meet no conflict, and the slots shown are
  the confirmed bookings of the room that meet the day, earliest first.\<close>

theorem availability_matches_conflicts:
  "(list_for_room_between t k lo hi = [] \<longleftrightarrow> find_overlapping t k lo hi = None) \<and>
   sorted (map b_start_time (list_for_room_between t k lo hi)) \<and>
   set (list_for_room_between t k lo hi) =
     {b \<in> set (rows t). b_room_id b = k \<and> confirmed_between lo hi b}"
proof -
  have "list_for_room_between t k lo hi = [] \<longleftrightarrow> set (list_for_room_between t k lo hi) = {}"
    by simp
  then show ?thesis
    by (auto simp: list_for_room_between_def find_overlapping_def find_None_all confirmed_between_def
        simp del: set_empty)
qed

text \<open>Cancelling an existing booking by its code frees its slot, whatever else is booked:
  the row stays, marked cancelled, and the conflict check for exactly that slot succeeds.\<close>

theorem cancel_frees_slot:
  assumes inv: "bookings_inv (bookings db)"
    and found: "get_by_access_code (bookings db) code = Some b"
    and active: "b_status b = STATUS_CONFIRMED"
  shows "fst (cancel_booking db code) = Inr (b\<lparr>b_status := STATUS_CANCELLED\<rparr>) \<and>
    find_overlapping (bookings (snd (cancel_booking db code)))
      (b_room_id b) (b_start_time b) (b_end_time b) = None"
proof -
  let ?b = "b\<lparr>b_status := STATUS_CANCELLED\<rparr>"
  from found have b: "b \<in> set (rows (bookings db))" by (auto dest: get_by_access_code_in)
  have res: "cancel_booking db code = (Inr ?b, db\<lparr>bookings := update_booking ?b (bookings db)\<rparr>)"
    using found active by (simp add: cancel_booking_def cancel_def Let_def)
  have "find_overlapping (update_booking ?b (bookings db)) (b_room_id b) (b_start_time b) (b_end_time b) = None"
    unfolding find_overlapping_None_iff
  proof (intro ballI impI)
    fix x assume "x \<in> set (rows (update_booking ?b (bookings db)))"
      and x: "b_room_id x = b_room_id b" "b_status x = STATUS_CONFIRMED"
    then have "x \<in> set (rows (bookings db))" and "b_id x \<noteq> b_id b"
      by (auto simp: update_booking_def split: if_splits)
    then have "\<not> overlaps b x" using inv b by (auto simp: bookings_inv_def no_double_booking_def)
    with x active show "b_end_time b \<le> b_start_time x \<or> b_end_time x \<le> b_start_time b"
      by (auto simp: overlaps_def)
  qed
  with res show ?thesis by simp
qed

definition booked_db :: bk_db where
  "booked_db = snd (create_booking witness_env witness_db 1 ''Ada'' ''ada@x.org'' (Aware 200) (Aware 300) None)"

lemma booked_rows: "rows (bookings booked_db) =
   [\<lparr>b_id = Some 1, b_room_id = 1, b_booker_name = ''Ada'', b_booker_email = ''ada@x.org'',
     b_title = None, b_start_time = 200, b_end_time = 300, b_access_code = ''777777'',
     b_status = STATUS_CONFIRMED, b_created_at = 100\<rparr>]"
  by (simp add: booked_db_def create_booking_def Let_def witness_room_found)
    (simp add: witness_env_def witness_db_def witness_room_def empty_table_def find_overlapping_def
      CODE_MAX_ATTEMPTS_def insert_attempts.simps repo_create_booking_def tbl_insert_def Let_def new_booking_def
      generate_access_code_def CODE_LENGTH_def CODE_ALPHABET_def upt_rec)

theorem cancel_frees_slot_witness:
  "find_overlapping (bookings (snd (cancel_booking booked_db ''777777''))) 1 200 300 = None"
proof -
  have inv: "bookings_inv (bookings booked_db)"
    unfolding booked_db_def by (rule create_booking_keeps_inv) (simp add: witness_db_def)
  have found: "get_by_access_code (bookings booked_db) ''777777'' = Some (hd (rows (bookings booked_db)))"
    by (simp add: get_by_access_code_def booked_rows)
  show ?thesis using cancel_frees_slot [OF inv found] by (simp add: booked_rows)
qed


definition witness_req :: "nat \<Rightarrow> booking" where
  "witness_req i = (new_booking witness_env 1 ''Ada'' ''ada@x.org'' 200 300 None)
     \<lparr>b_access_code := (if i = 0 then ''000000'' else ''111111'')\<rparr>"


text \<open>When the first access code collides with a stored one, no later attempt can end in a
  normal answer: either nothing is stored, or the booking is committed and the request
  still fails because the rolled-back session has expired the room.\<close>

theorem code_collision_never_answers:
  assumes "generate_access_code (bk_entropy env) 0 \<in> b_access_code ` set (table.rows (bookings db))"
  shows "\<exists>err. fst (create_booking env db k name email s e title) = Inl err"
proof (cases rule: create_booking_cases [of env db k name email s e title])
  case (inserted c rolled room)
  then have rolled
    using assms by (intro attempts_collision_rolls [OF _ inserted(8)]) (simp add: new_booking_def)
  with inserted show ?thesis by (simp add: create_booking_def Let_def send_confirmation_def)
qed simp

theorem code_collision_never_answers_witness:
  "\<exists>err. fst (create_booking witness_env booked_db 1 ''Bo'' ''bo@x.org'' (Aware 400) (Aware 500) None) = Inl err"
  by (rule code_collision_never_answers)
    (simp add: booked_rows generate_access_code_def CODE_LENGTH_def CODE_ALPHABET_def witness_env_def upt_rec)

text \<open>The unauthenticated lookup by email hands out what is needed to cancel: every
  confirmed booking made with an address can be cancelled from the answer of that lookup.\<close>

theorem by_email_lookup_enables_cancel:
  assumes inv: "bookings_inv (bookings db)" and b: "b \<in> set (rows (bookings db))"
    and mail: "b_booker_email b = email" and active: "b_status b = STATUS_CONFIRMED"
  shows "\<exists>out outs. api_list_bookings_by_email db email = HttpOk 200 outs \<and> out \<in> set outs \<and>
    bo_id out = b_id b \<and>
    fst (cancel_booking db (bo_access_code out)) = Inr (b\<lparr>b_status := STATUS_CANCELLED\<rparr>)"
proof -
  let ?rs = "rooms_by_id (rooms db) (list_by_email (bookings db) email)"
  let ?out = "mk_booking_out b (?rs (b_room_id b))"
  have "get_by_access_code (bookings db) (b_access_code b) = Some b"
  proof (cases "get_by_access_code (bookings db) (b_access_code b)")
    case None
    with b show ?thesis by (auto simp: get_by_access_code_def find_None_all)
  next
    case (Some c)
    then have "c \<in> set (rows (bookings db))" "b_access_code c = b_access_code b"
      by (auto dest: get_by_access_code_in)
    with inv b have "c = b" by (simp add: bookings_inv_def distinct_map inj_on_def)
    with Some show ?thesis by simp
  qed
  then have "fst (cancel_booking db (bo_access_code ?out)) = Inr (b\<lparr>b_status := STATUS_CANCELLED\<rparr>)"
    using active by (simp add: cancel_booking_def cancel_def mk_booking_out_def Let_def)
  moreover have "?out \<in> set (map (\<lambda>b. mk_booking_out b (?rs (b_room_id b))) (list_by_email (bookings db) email))"
    using b mail by (auto simp: list_by_email_def)
  ultimately show ?thesis
    by (auto simp: api_list_bookings_by_email_def Let_def mk_booking_out_def)
qed

theorem by_email_lookup_enables_cancel_witness:
  "\<exists>out outs. api_list_bookings_by_email booked_db ''ada@x.org'' = HttpOk 200 outs \<and> out \<in> set outs \<and>
    fst (cancel_booking booked_db (bo_access_code out)) \<noteq> Inl DbError"
proof -
  have "bookings_inv (bookings booked_db)"
    unfolding booked_db_def by (rule create_booking_keeps_inv) (simp add: witness_db_def)
  from by_email_lookup_enables_cancel [OF this, of "hd (rows (bookings booked_db))" "''ada@x.org''"]
  show ?thesis by (force simp: booked_rows)
qed

end
