(* ===== verification/Parsing.thy ===== *)
theory Parsing
  imports Prelude
begin

section \<open>Timestamps, dates, custom fields\<close>

text \<open>
  Model of \<open>app/freshsales/parsing.py\<close>. A wall-clock datetime is the number of
  microseconds since 1970-01-01 00:00 on its own clock; an aware datetime is its UTC
  instant. The timezone database, the process's local zone and the decimal-literal
  grammar of \<open>float\<close> are fields of \<open>py_env\<close>.
\<close>

subsection \<open>JSON documents and column values\<close>

datatype json =
    JNull
  | JBool bool
  | JInt int
  | JFloat rat
  | JStr string
  | JList "json list"
  | JObj "(string \<times> json) list"

type_synonym pydate = "int \<times> int \<times> int"

datatype cell =
    CInt int
  | CNum rat
  | CStr string
  | CDate pydate
  | CTime time
  | CJson json

datatype py_error = ValueError string | KeyError string | ValidationError | TypeError

record py_env =
  tz_offset :: "int \<Rightarrow> int"
  local_offset :: "int \<Rightarrow> int"
  py_float :: "string \<Rightarrow> rat option"

subsection \<open>strptime\<close>

fun split_char :: "char \<Rightarrow> string \<Rightarrow> (string \<times> string) option" where
  "split_char c [] = None"
| "split_char c (d # s) =
     (if d = c then Some ([], s) else map_option (\<lambda>(a, b). (d # a, b)) (split_char c s))"

text \<open>A directive of one or two digits with the range of its regular expression.\<close>

fun num12 :: "int \<Rightarrow> int \<Rightarrow> string \<Rightarrow> int option" where
  "num12 lo hi [a] =
     (if is_digit a \<and> lo \<le> digit_val a \<and> digit_val a \<le> hi then Some (digit_val a) else None)"
| "num12 lo hi [a, b] =
     (let v = 10 * digit_val a + digit_val b
      in if is_digit a \<and> is_digit b \<and> lo \<le> v \<and> v \<le> hi then Some v else None)"
| "num12 lo hi _ = None"

text \<open>\<open>%d\<close> also accepts a blank before a single digit.\<close>

definition num_day :: "string \<Rightarrow> int option" where
  "num_day s =
     (if s \<noteq> [] \<and> hd s = CHR '' '' then (if length s = 2 then num12 1 9 (tl s) else None)
      else num12 1 31 s)"

fun num4 :: "string \<Rightarrow> int option" where
  "num4 [a, b, c, d] =
     (if is_digit a \<and> is_digit b \<and> is_digit c \<and> is_digit d
      then Some (1000 * digit_val a + 100 * digit_val b + 10 * digit_val c + digit_val d) else None)"
| "num4 _ = None"

definition leap :: "int \<Rightarrow> bool" where
  "leap y \<longleftrightarrow> y mod 4 = 0 \<and> (y mod 100 \<noteq> 0 \<or> y mod 400 = 0)"

definition days_in_month :: "int \<Rightarrow> int \<Rightarrow> int" where
  "days_in_month y m =
     (if m = 2 then (if leap y then 29 else 28) else if m \<in> {4, 6, 9, 11} then 30 else 31)"

definition valid_date :: "int \<Rightarrow> int \<Rightarrow> int \<Rightarrow> bool" where
  "valid_date y m d \<longleftrightarrow> 1 \<le> y \<and> y \<le> 9999 \<and> 1 \<le> m \<and> m \<le> 12 \<and> 1 \<le> d \<and> d \<le> days_in_month y m"

definition mk_date :: "int \<Rightarrow> int \<Rightarrow> int \<Rightarrow> pydate option" where
  "mk_date y m d = (if valid_date y m d then Some (y, m, d) else None)"

text \<open>Days since 1970-01-01 of a civil date.\<close>

fun epoch_day :: "pydate \<Rightarrow> int" where
  "epoch_day (y, m, d) =
     (let y' = (if m \<le> 2 then y - 1 else y);
          era = y' div 400; yoe = y' mod 400;
          doy = (153 * (if m > 2 then m - 3 else m + 9) + 2) div 5 + d - 1
      in era * 146097 + yoe * 365 + yoe div 4 - yoe div 100 + doy - 719468)"

definition wall_clock :: "pydate \<Rightarrow> int \<Rightarrow> int \<Rightarrow> int \<Rightarrow> int \<Rightarrow> int" where
  "wall_clock dt hh mm ss us = (((epoch_day dt * 24 + hh) * 60 + mm) * 60 + ss) * 1000000 + us"

text \<open>\<open>strptime(s, "%m-%d-%Y")\<close>: month, day and year, nothing left over.\<close>

definition strptime_mdy :: "string \<Rightarrow> pydate option" where
  "strptime_mdy s =
     (case split_char CHR ''-'' s of None \<Rightarrow> None | Some (ms, r) \<Rightarrow>
      case split_char CHR ''-'' r of None \<Rightarrow> None | Some (ds, ys) \<Rightarrow>
      case (num12 1 12 ms, num_day ds, num4 ys) of
        (Some m, Some d, Some y) \<Rightarrow> mk_date y m d
      | _ \<Rightarrow> None)"

text \<open>\<open>%H:%M:%S\<close>; a second of 60 or 61 matches but is no \<open>datetime\<close>.\<close>

definition clock_hms :: "string \<Rightarrow> (int \<times> int \<times> int) option" where
  "clock_hms s =
     (case split_char CHR '':'' s of None \<Rightarrow> None | Some (hs, r) \<Rightarrow>
      case split_char CHR '':'' r of None \<Rightarrow> None | Some (ms, ss) \<Rightarrow>
      case (num12 0 23 hs, num12 0 59 ms, num12 0 59 ss) of
        (Some h, Some m, Some sec) \<Rightarrow> Some (h, m, sec)
      | _ \<Rightarrow> None)"

text \<open>
  \<open>strptime(s, "%m-%d-%Y %H:%M:%S")\<close>: the blank of the format stands for one or more
  white-space characters after the four-digit year.
\<close>

definition strptime_mdy_hms :: "string \<Rightarrow> int option" where
  "strptime_mdy_hms s =
     (case split_char CHR ''-'' s of None \<Rightarrow> None | Some (ms, r) \<Rightarrow>
      case split_char CHR ''-'' r of None \<Rightarrow> None | Some (ds, rest) \<Rightarrow>
      let ys = take 4 rest; sp = drop 4 rest in
      if sp = [] \<or> \<not> is_space (hd sp) then None else
      case (num12 1 12 ms, num_day ds, num4 ys, clock_hms (dropWhile is_space sp)) of
        (Some m, Some d, Some y, Some (hh, mm, ss)) \<Rightarrow>
          map_option (\<lambda>dt. wall_clock dt hh mm ss 0) (mk_date y m d)
      | _ \<Rightarrow> None)"

subsection \<open>Webhook timestamps and dates\<close>

text \<open>A wall-clock time in the configured zone, converted to UTC.\<close>

definition to_utc :: "py_env \<Rightarrow> int \<Rightarrow> time" where
  "to_utc env w = w - tz_offset env w"

definition parse_webhook_timestamp :: "py_env \<Rightarrow> string option \<Rightarrow> py_error + time option" where
  "parse_webhook_timestamp env v =
     (if \<not> truthy v then Inr None
      else let s = py_strip (default v []) in
        case strptime_mdy_hms s of
          Some w \<Rightarrow> Inr (Some (to_utc env w))
        | None \<Rightarrow>
            (case strptime_mdy s of
               Some dt \<Rightarrow> Inr (Some (to_utc env (wall_clock dt 0 0 0 0)))
             | None \<Rightarrow> Inl (ValueError ''Unrecognized webhook timestamp format'')))"

definition parse_webhook_date :: "string option \<Rightarrow> py_error + pydate option" where
  "parse_webhook_date v =
     (if \<not> truthy v then Inr None
      else let part = takeWhile (\<lambda>c. c \<noteq> CHR '' '') (py_strip (default v [])) in
        case strptime_mdy part of
          Some dt \<Rightarrow> Inr (Some dt)
        | None \<Rightarrow> Inl (ValueError ''time data does not match format''))"

subsection \<open>ISO 8601\<close>

text \<open>
  \<open>date.fromisoformat\<close> on the calendar forms \<open>YYYY-MM-DD\<close> and \<open>YYYYMMDD\<close>; the
  ISO week forms, which the CRM does not send, are taken as malformed.
\<close>

fun date_fromisoformat :: "string \<Rightarrow> pydate option" where
  "date_fromisoformat [a, b, c, d, s, e, f, t, g, h] =
     (case (num4 [a, b, c, d], num12 1 12 [e, f], num12 1 31 [g, h]) of
        (Some y, Some m, Some dd) \<Rightarrow>
          (if s = CHR ''-'' \<and> t = CHR ''-'' then mk_date y m dd else None)
      | _ \<Rightarrow> None)"
| "date_fromisoformat [a, b, c, d, e, f, g, h] =
     (case (num4 [a, b, c, d], num12 1 12 [e, f], num12 1 31 [g, h]) of
        (Some y, Some m, Some dd) \<Rightarrow> mk_date y m dd
      | _ \<Rightarrow> None)"
| "date_fromisoformat _ = None"

text \<open>Fraction digits to microseconds: padded on the right, cut after six.\<close>

definition frac_micros :: "string \<Rightarrow> int option" where
  "frac_micros s =
     (if s = [] \<or> \<not> list_all is_digit s then None
      else Some (foldl (\<lambda>n c. 10 * n + digit_val c) 0 (take 6 (s @ replicate 6 CHR ''0''))))"

fun iso_clock :: "string \<Rightarrow> int option" where
  "iso_clock [a, b, s, c, d] =
     (case (num12 0 23 [a, b], num12 0 59 [c, d]) of
        (Some h, Some m) \<Rightarrow> (if s = CHR '':'' then Some ((h * 60 + m) * 60 * 1000000) else None)
      | _ \<Rightarrow> None)"
| "iso_clock (a # b # s # c # d # t # e # f # rest) =
     (case (num12 0 23 [a, b], num12 0 59 [c, d], num12 0 59 [e, f]) of
        (Some h, Some m, Some sec) \<Rightarrow>
          (if s \<noteq> CHR '':'' \<or> t \<noteq> CHR '':'' then None
           else let us = ((h * 60 + m) * 60 + sec) * 1000000 in
             case rest of [] \<Rightarrow> Some us
             | p # ds \<Rightarrow> (if p = CHR ''.'' \<or> p = CHR '','' then map_option (\<lambda>u. us + u) (frac_micros ds) else None))
      | _ \<Rightarrow> None)"
| "iso_clock _ = None"

fun iso_offset :: "string \<Rightarrow> int option" where
  "iso_offset [a, b] = map_option (\<lambda>h. h * 3600 * 1000000) (num12 0 23 [a, b])"
| "iso_offset [a, b, c, d] = iso_clock [a, b, CHR '':'', c, d]"
| "iso_offset s = iso_clock s"

text \<open>A wall-clock time and its offset, if the text carries one.\<close>

definition is_zone_mark :: "char \<Rightarrow> bool" where
  "is_zone_mark c \<longleftrightarrow> c = CHR ''+'' \<or> c = CHR ''-'' \<or> c = CHR ''Z''"

definition datetime_fromisoformat :: "string \<Rightarrow> (int \<times> int option) option" where
  "datetime_fromisoformat s =
     (case date_fromisoformat (take 10 s) of None \<Rightarrow> None | Some dt \<Rightarrow>
      let w = wall_clock dt 0 0 0 0; rest = drop 11 s;
          clock = takeWhile (\<lambda>c. \<not> is_zone_mark c) rest;
          zone = dropWhile (\<lambda>c. \<not> is_zone_mark c) rest
      in if length s \<le> 10 then Some (w, None)
         else case iso_clock clock of None \<Rightarrow> None | Some us \<Rightarrow>
           case zone of
             [] \<Rightarrow> Some (w + us, None)
           | z # off \<Rightarrow>
               (if z = CHR ''Z'' then (if off = [] then Some (w + us, Some 0) else None)
                else map_option (\<lambda>o'. (w + us, Some (if z = CHR ''-'' then - o' else o'))) (iso_offset off)))"

definition parse_iso_timestamp :: "py_env \<Rightarrow> string option \<Rightarrow> py_error + time option" where
  "parse_iso_timestamp env v =
     (if \<not> truthy v then Inr None
      else case datetime_fromisoformat (default v []) of
        None \<Rightarrow> Inl (ValueError ''Invalid isoformat string'')
      | Some (w, Some off) \<Rightarrow> Inr (Some (w - off))
      | Some (w, None) \<Rightarrow> Inr (Some (w - local_offset env w)))"

definition parse_iso_date :: "string option \<Rightarrow> py_error + pydate option" where
  "parse_iso_date v =
     (if \<not> truthy v then Inr None
      else case date_fromisoformat (take 10 (default v [])) of
        None \<Rightarrow> Inl (ValueError ''Invalid isoformat string'')
      | Some dt \<Rightarrow> Inr (Some dt))"

subsection \<open>Curated custom fields\<close>

definition CURATED_CF_FIELDS :: "string list" where
  "CURATED_CF_FIELDS = [''cf_project'', ''cf_floor'', ''cf_sqm_size'', ''cf_product_category'',
     ''cf_term'', ''cf_start_date'', ''cf_term_end_date'', ''cf_deal_status'', ''cf_total_lease_amount'']"

definition NUMERIC_CF_FIELDS :: "string list" where
  "NUMERIC_CF_FIELDS = [''cf_sqm_size'', ''cf_term'', ''cf_total_lease_amount'']"

definition DATE_CF_FIELDS :: "string list" where
  "DATE_CF_FIELDS = [''cf_start_date'', ''cf_term_end_date'']"

fun coerce_date :: "json \<Rightarrow> pydate option" where
  "coerce_date (JStr s) =
     (case date_fromisoformat (take 10 s) of Some dt \<Rightarrow> Some dt | None \<Rightarrow> strptime_mdy s)"
| "coerce_date _ = None"

text \<open>\<open>float(value)\<close>; \<open>TypeError\<close> and \<open>ValueError\<close> are both \<open>None\<close> here.\<close>

fun to_float :: "py_env \<Rightarrow> json \<Rightarrow> rat option" where
  "to_float env (JBool b) = Some (if b then 1 else 0)"
| "to_float env (JInt i) = Some (of_int i)"
| "to_float env (JFloat r) = Some r"
| "to_float env (JStr s) = py_float env s"
| "to_float env _ = None"

definition coerce_cf_value :: "py_env \<Rightarrow> string \<Rightarrow> json \<Rightarrow> cell option" where
  "coerce_cf_value env key v =
     (if v = JNull \<or> v = JStr [] then None
      else if key \<in> set NUMERIC_CF_FIELDS then map_option CNum (to_float env v)
      else if key \<in> set DATE_CF_FIELDS then map_option CDate (coerce_date v)
      else Some (CJson v))"

definition split_custom_fields ::
    "py_env \<Rightarrow> json dict \<Rightarrow> cell option dict \<times> json dict" where
  "split_custom_fields env cf =
     (map (\<lambda>(k, v). (k, coerce_cf_value env k v)) (filter (\<lambda>(k, v). k \<in> set CURATED_CF_FIELDS) cf),
      filter (\<lambda>(k, v). k \<notin> set CURATED_CF_FIELDS) cf)"

end
