(* ===== verification/Reference.thy ===== *)
theory Reference
  imports Parsing
begin

section \<open>Reference data: pipelines, stages, owners, deal reasons\<close>

text \<open>
  Model of \<open>app/models/pipeline.py\<close>, \<open>stage.py\<close>, \<open>owner.py\<close>,
  \<open>deal_reason.py\<close>, \<open>app/repositories/reference_repo.py\<close>,
  \<open>app/services/reference_sync.py\<close> and the stage resolver of
  \<open>app/freshsales/parsing.py\<close>. A table keyed by the CRM's own id is an association
  list from the id to the row; \<open>INSERT ... ON CONFLICT DO UPDATE\<close> on it is
  \<open>AList.update\<close> with the row the conflict clause leaves.
\<close>

record pipeline =
  pl_id :: int
  pl_name :: string
  pl_business_line :: string
  pl_is_default :: bool
  pl_is_active :: bool
  pl_view_id :: "int option"
  pl_updated_at :: time

record stage =
  st_id :: int
  st_pipeline_id :: int
  st_name :: string
  st_position :: int
  st_forecast_type :: string
  st_probability :: "rat option"
  st_updated_at :: time

record owner =
  ow_id :: int
  ow_display_name :: string
  ow_email :: "string option"
  ow_is_active :: bool
  ow_updated_at :: time

record deal_reason =
  dr_id :: int
  dr_name :: string
  dr_updated_at :: time

record ref_db =
  pipelines :: "(int \<times> pipeline) list"
  stages :: "(int \<times> stage) list"
  owners :: "(int \<times> owner) list"
  deal_reasons :: "(int \<times> deal_reason) list"

text \<open>
  \<open>upsert_* now row\<close>: \<open>row\<close> carries the values of the insert. On a conflict only
  the columns of the \<open>SET\<close> clause change, so \<open>view_id\<close> and \<open>updated_at\<close>
  keep their stored values; on an insert they get their defaults.
\<close>

definition upsert_pipeline :: "time \<Rightarrow> pipeline \<Rightarrow> ref_db \<Rightarrow> ref_db" where
  "upsert_pipeline now p db = db\<lparr>pipelines := AList.update (pl_id p)
     (case map_of (pipelines db) (pl_id p) of
        None \<Rightarrow> p\<lparr>pl_view_id := None, pl_updated_at := now\<rparr>
      | Some old \<Rightarrow> old\<lparr>pl_name := pl_name p, pl_business_line := pl_business_line p,
          pl_is_default := pl_is_default p, pl_is_active := pl_is_active p\<rparr>) (pipelines db)\<rparr>"

definition upsert_stage :: "time \<Rightarrow> stage \<Rightarrow> ref_db \<Rightarrow> ref_db" where
  "upsert_stage now s db = db\<lparr>stages := AList.update (st_id s)
     (case map_of (stages db) (st_id s) of
        None \<Rightarrow> s\<lparr>st_updated_at := now\<rparr>
      | Some old \<Rightarrow> old\<lparr>st_pipeline_id := st_pipeline_id s, st_name := st_name s,
          st_position := st_position s, st_forecast_type := st_forecast_type s,
          st_probability := st_probability s\<rparr>) (stages db)\<rparr>"

definition upsert_owner :: "time \<Rightarrow> owner \<Rightarrow> ref_db \<Rightarrow> ref_db" where
  "upsert_owner now o' db = db\<lparr>owners := AList.update (ow_id o')
     (case map_of (owners db) (ow_id o') of
        None \<Rightarrow> o'\<lparr>ow_updated_at := now\<rparr>
      | Some old \<Rightarrow> old\<lparr>ow_display_name := ow_display_name o', ow_email := ow_email o',
          ow_is_active := ow_is_active o'\<rparr>) (owners db)\<rparr>"

definition upsert_deal_reason :: "time \<Rightarrow> deal_reason \<Rightarrow> ref_db \<Rightarrow> ref_db" where
  "upsert_deal_reason now r db = db\<lparr>deal_reasons := AList.update (dr_id r)
     (case map_of (deal_reasons db) (dr_id r) of
        None \<Rightarrow> r\<lparr>dr_updated_at := now\<rparr>
      | Some old \<Rightarrow> old\<lparr>dr_name := dr_name r\<rparr>) (deal_reasons db)\<rparr>"

definition list_pipelines :: "bool \<Rightarrow> ref_db \<Rightarrow> pipeline list" where
  "list_pipelines active_only db =
     filter (\<lambda>p. active_only \<longrightarrow> pl_is_active p) (map snd (pipelines db))"

definition list_stages :: "int option \<Rightarrow> ref_db \<Rightarrow> stage list" where
  "list_stages pipeline_id db = filter (\<lambda>s. case pipeline_id of None \<Rightarrow> True
     | Some k \<Rightarrow> st_pipeline_id s = k) (map snd (stages db))"

definition list_owners :: "bool \<Rightarrow> ref_db \<Rightarrow> owner list" where
  "list_owners active_only db = filter (\<lambda>o'. active_only \<longrightarrow> ow_is_active o') (map snd (owners db))"

subsection \<open>The stage resolver\<close>

record stage_resolution =
  res_pipeline_id :: int
  res_stage_id :: int

type_synonym resolver = "((string \<times> string) \<times> stage_resolution) list"

text \<open>
  \<open>pipeline_by_id\<close> is a dict comprehension, so of two pipelines with one id the later
  counts; the lookup dict is filled stage by stage, a later stage of the same pair of
  names replacing an earlier one.
\<close>

definition pipeline_by_id :: "pipeline list \<Rightarrow> int \<rightharpoonup> pipeline" where
  "pipeline_by_id ps = map_of (map (\<lambda>p. (pl_id p, p)) (rev ps))"

fun fill_lookup :: "(int \<rightharpoonup> pipeline) \<Rightarrow> stage list \<Rightarrow> resolver \<Rightarrow> resolver" where
  "fill_lookup pmap [] lk = lk"
| "fill_lookup pmap (s # ss) lk =
     (case pmap (st_pipeline_id s) of
        None \<Rightarrow> fill_lookup pmap ss lk
      | Some p \<Rightarrow> fill_lookup pmap ss
          (AList.update (pl_name p, st_name s)
             \<lparr>res_pipeline_id = pl_id p, res_stage_id = st_id s\<rparr> lk))"

definition make_resolver :: "pipeline list \<Rightarrow> stage list \<Rightarrow> resolver" where
  "make_resolver ps ss = fill_lookup (pipeline_by_id ps) ss []"

definition resolve :: "resolver \<Rightarrow> string \<Rightarrow> string \<Rightarrow> stage_resolution option" where
  "resolve lk pipeline_name stage_name = map_of lk (pipeline_name, stage_name)"

definition build_stage_resolver :: "ref_db \<Rightarrow> resolver" where
  "build_stage_resolver db = make_resolver (list_pipelines False db) (list_stages None db)"

subsection \<open>Synchronisation from the CRM\<close>

text \<open>The parts of the CRM's answers the sync reads; a field that may be absent is an option.\<close>

record crm_stage =
  cs_id :: int
  cs_deal_pipeline_id :: "int option"
  cs_name :: string
  cs_position :: int
  cs_forecast_type :: string
  cs_probability :: "rat option"

record crm_pipeline =
  cp_id :: int
  cp_name :: string
  cp_default :: "bool option"
  cp_deal_stages :: "crm_stage list"

record crm_owner =
  co_id :: int
  co_name :: "string option"
  co_display_name :: "string option"
  co_email :: "string option"
  co_is_active :: "bool option"

definition PIPELINE_BUSINESS_LINES :: "(int \<times> string) list" where
  "PIPELINE_BUSINESS_LINES =
     [(17000029646, ''WTC Abuja - Leasing''),
      (17000074543, ''WTC Abuja - Leasing (Renewals)''),
      (17000075032, ''WTC Abuja - Sales''),
      (17000074560, ''Churchgate - Trade & Investment Mission''),
      (17000074819, ''Churchgate - Membership Club''),
      (17000074820, ''Churchgate - Membership Club'')]"

definition EXCLUDED_PIPELINE_IDS :: "int list" where
  "EXCLUDED_PIPELINE_IDS = [17000075034]"

definition DEFAULT_BUSINESS_LINE :: string where
  "DEFAULT_BUSINESS_LINE = ''Unclassified''"

definition sync_pipeline :: "time \<Rightarrow> crm_pipeline \<Rightarrow> ref_db \<Rightarrow> ref_db" where
  "sync_pipeline now p db =
     (let active = cp_id p \<notin> set EXCLUDED_PIPELINE_IDS;
          db' = upsert_pipeline now
            \<lparr>pl_id = cp_id p, pl_name = cp_name p,
             pl_business_line = default (map_of PIPELINE_BUSINESS_LINES (cp_id p)) DEFAULT_BUSINESS_LINE,
             pl_is_default = default (cp_default p) False, pl_is_active = active,
             pl_view_id = None, pl_updated_at = now\<rparr> db
      in if \<not> active then db'
         else fold (\<lambda>s. upsert_stage now
           \<lparr>st_id = cs_id s, st_pipeline_id = default (cs_deal_pipeline_id s) (cp_id p),
            st_name = cs_name s, st_position = cs_position s, st_forecast_type = cs_forecast_type s,
            st_probability = cs_probability s, st_updated_at = now\<rparr>) (cp_deal_stages p) db')"

definition sync_pipelines_and_stages :: "time \<Rightarrow> crm_pipeline list \<Rightarrow> ref_db \<Rightarrow> ref_db" where
  "sync_pipelines_and_stages now ps db = fold (sync_pipeline now) ps db"

definition sync_owner :: "time \<Rightarrow> crm_owner \<Rightarrow> ref_db \<Rightarrow> ref_db" where
  "sync_owner now o' db = upsert_owner now
     \<lparr>ow_id = co_id o',
      ow_display_name = or_list (co_name o') (default (co_display_name o') []),
      ow_email = co_email o', ow_is_active = default (co_is_active o') True,
      ow_updated_at = now\<rparr> db"

text \<open>The list under \<open>owners\<close> if it is non-empty, else the one under \<open>users\<close>.\<close>

definition sync_owners :: "time \<Rightarrow> crm_owner list option \<Rightarrow> crm_owner list option \<Rightarrow> ref_db \<Rightarrow> ref_db" where
  "sync_owners now own users db = fold (sync_owner now) (or_list own (default users [])) db"

definition sync_deal_reasons :: "time \<Rightarrow> deal_reason list \<Rightarrow> ref_db \<Rightarrow> ref_db" where
  "sync_deal_reasons now rs db = fold (upsert_deal_reason now) rs db"

definition run_reference_sync ::
    "time \<Rightarrow> crm_pipeline list \<Rightarrow> crm_owner list option \<Rightarrow> crm_owner list option \<Rightarrow> deal_reason list
      \<Rightarrow> ref_db \<Rightarrow> resolver \<times> ref_db" where
  "run_reference_sync now ps own users rs db =
     (let db' = sync_deal_reasons now rs (sync_owners now own users (sync_pipelines_and_stages now ps db))
      in (build_stage_resolver db', db'))"

subsection \<open>What the resolver answers\<close>

lemma fill_lookup_map:
  "map_of (fill_lookup pmap ss lk) = foldl (\<lambda>m s. case pmap (st_pipeline_id s) of None \<Rightarrow> m
     | Some p \<Rightarrow> m((pl_name p, st_name s) \<mapsto>
         \<lparr>res_pipeline_id = pl_id p, res_stage_id = st_id s\<rparr>)) (map_of lk) ss"
  by (induction pmap ss lk rule: fill_lookup.induct) (simp_all add: update_conv' fun_upd_def split: option.splits)

lemma fill_lookup_sound:
  assumes "map_of (fill_lookup pmap ss lk) key = Some r"
  shows "map_of lk key = Some r \<or>
    (\<exists>s \<in> set ss. \<exists>p. pmap (st_pipeline_id s) = Some p \<and> key = (pl_name p, st_name s) \<and>
       r = \<lparr>res_pipeline_id = pl_id p, res_stage_id = st_id s\<rparr>)"
  using assms
proof (induction pmap ss lk rule: fill_lookup.induct)
  case (2 pmap s ss lk)
  show ?case
  proof (cases "pmap (st_pipeline_id s)")
    case None
    with 2 show ?thesis by auto
  next
    case (Some p)
    with "2.IH"(2) "2.prems" show ?thesis
      by (fastforce simp: update_conv' split: if_splits)
  qed
qed simp

lemma pipeline_by_id_Some: "pipeline_by_id ps k = Some p \<Longrightarrow> p \<in> set ps \<and> pl_id p = k"
  by (auto simp: pipeline_by_id_def dest!: map_of_SomeD)

lemma resolve_sound:
  assumes "resolve (make_resolver ps ss) pn sn = Some r"
  shows "\<exists>p \<in> set ps. \<exists>s \<in> set ss. pl_name p = pn \<and> st_name s = sn \<and> st_pipeline_id s = pl_id p \<and>
    res_pipeline_id r = pl_id p \<and> res_stage_id r = st_id s"
proof -
  from assms have "map_of (fill_lookup (pipeline_by_id ps) ss []) (pn, sn) = Some r"
    by (simp add: resolve_def make_resolver_def)
  from fill_lookup_sound [OF this] show ?thesis
    by (force dest: pipeline_by_id_Some)
qed

end
