(* ===== verification/Deals.thy ===== *)
theory Deals
  imports Reference
begin

section \<open>Deal snapshots, the event log and webhook ingest\<close>

text \<open>
  Model of \<open>app/models/deal.py\<close>, \<open>app/models/deal_event.py\<close>,
  \<open>app/repositories/deals_repo.py\<close>, \<open>events_repo.py\<close>,
  \<open>app/services/change_detection.py\<close>, \<open>webhook_ingest.py\<close> and the Freshsales
  webhook endpoint. The three reference columns of a snapshot are typed fields; all
  other columns are a map from the column name to its value.
\<close>

record deal_snapshot =
  ds_deal_id :: int
  ds_pipeline_id :: "int option"
  ds_stage_id :: "int option"
  ds_owner_id :: "int option"
  ds_cols :: "string \<rightharpoonup> cell"
  ds_updated_at :: time
  ds_last_synced_at :: time

datatype event_type = Created | StageChange | OwnerChange

datatype event_source = Webhook | TimelineBackfill

record deal_event =
  ev_deal_id :: int
  ev_type :: event_type
  ev_old_pipeline_id :: "int option"
  ev_old_stage_id :: "int option"
  ev_new_pipeline_id :: "int option"
  ev_new_stage_id :: "int option"
  ev_old_owner_id :: "int option"
  ev_new_owner_id :: "int option"
  ev_occurred_at :: time
  ev_source :: event_source
  ev_raw_payload :: "json dict"

record deal_db =
  deals :: "(int \<times> deal_snapshot) list"
  deal_events :: "deal_event list"

text \<open>
  The dict handed to \<open>upsert_deal\<close>. Both callers drop the keys whose value is
  \<open>None\<close>, so a missing reference column and a \<open>None\<close> one are the same here.
\<close>

record deal_data =
  dd_deal_id :: int
  dd_pipeline_id :: "int option"
  dd_stage_id :: "int option"
  dd_owner_id :: "int option"
  dd_cols :: "cell dict"

subsection \<open>Repositories\<close>

definition get_deal :: "deal_db \<Rightarrow> int \<Rightarrow> deal_snapshot option" where
  "get_deal db k = map_of (deals db) k"

definition or_else :: "'a option \<Rightarrow> 'a option \<Rightarrow> 'a option" where
  "or_else x y = (case x of None \<Rightarrow> y | Some v \<Rightarrow> Some v)"

lemma or_else_simps [simp]: "or_else None y = y" "or_else (Some v) y = Some v"
  by (simp_all add: or_else_def)

text \<open>
  \<open>INSERT ... ON CONFLICT (deal_id) DO UPDATE\<close>: the columns present are written, the
  others keep their value, and both timestamps are set to the transaction's time.
\<close>

definition upserted :: "time \<Rightarrow> deal_data \<Rightarrow> deal_snapshot option \<Rightarrow> deal_snapshot" where
  "upserted now d old =
     (case old of
        None \<Rightarrow> \<lparr>ds_deal_id = dd_deal_id d, ds_pipeline_id = dd_pipeline_id d,
          ds_stage_id = dd_stage_id d, ds_owner_id = dd_owner_id d, ds_cols = map_of (dd_cols d),
          ds_updated_at = now, ds_last_synced_at = now\<rparr>
      | Some s \<Rightarrow> s\<lparr>ds_pipeline_id := or_else (dd_pipeline_id d) (ds_pipeline_id s),
          ds_stage_id := or_else (dd_stage_id d) (ds_stage_id s),
          ds_owner_id := or_else (dd_owner_id d) (ds_owner_id s),
          ds_cols := ds_cols s ++ map_of (dd_cols d),
          ds_updated_at := now, ds_last_synced_at := now\<rparr>)"

definition upsert_deal :: "time \<Rightarrow> deal_data \<Rightarrow> deal_db \<Rightarrow> deal_db" where
  "upsert_deal now d db =
     db\<lparr>deals := AList.update (dd_deal_id d) (upserted now d (get_deal db (dd_deal_id d))) (deals db)\<rparr>"

definition list_deals_for_pipeline :: "int \<Rightarrow> deal_db \<Rightarrow> deal_snapshot list" where
  "list_deals_for_pipeline k db = filter (\<lambda>s. ds_pipeline_id s = Some k) (map snd (deals db))"

text \<open>The join with \<open>stages\<close> on the stage id, restricted to open stages.\<close>

definition list_open_deal_ids :: "ref_db \<Rightarrow> deal_db \<Rightarrow> int list" where
  "list_open_deal_ids ref db = map ds_deal_id (filter (\<lambda>s.
     case ds_stage_id s of None \<Rightarrow> False
     | Some k \<Rightarrow> (case map_of (stages ref) k of None \<Rightarrow> False | Some st \<Rightarrow> st_forecast_type st = ''Open''))
     (map snd (deals db)))"

definition insert_event :: "deal_event \<Rightarrow> deal_db \<Rightarrow> deal_db" where
  "insert_event e db = db\<lparr>deal_events := deal_events db @ [e]\<rparr>"

definition delete_events_by_source :: "int \<Rightarrow> event_source \<Rightarrow> deal_db \<Rightarrow> deal_db" where
  "delete_events_by_source k src db = db\<lparr>deal_events :=
     filter (\<lambda>e. \<not> (ev_deal_id e = k \<and> ev_source e = src)) (deal_events db)\<rparr>"

definition list_deal_ids_without_events :: "deal_db \<Rightarrow> int list" where
  "list_deal_ids_without_events db =
     filter (\<lambda>k. k \<notin> ev_deal_id ` set (deal_events db)) (map (ds_deal_id \<circ> snd) (deals db))"

subsection \<open>Change detection\<close>

definition detect_changes ::
    "int \<Rightarrow> deal_snapshot option \<Rightarrow> int option \<Rightarrow> int option \<Rightarrow> int option \<Rightarrow> time
      \<Rightarrow> event_source \<Rightarrow> json dict \<Rightarrow> deal_event list" where
  "detect_changes k existing pl st ow occurred src payload =
     (case existing of
        None \<Rightarrow> [\<lparr>ev_deal_id = k, ev_type = Created, ev_old_pipeline_id = None, ev_old_stage_id = None,
                  ev_new_pipeline_id = pl, ev_new_stage_id = st, ev_old_owner_id = None,
                  ev_new_owner_id = ow, ev_occurred_at = occurred, ev_source = src, ev_raw_payload = payload\<rparr>]
      | Some s \<Rightarrow>
          (if (ds_pipeline_id s, ds_stage_id s) \<noteq> (pl, st)
           then [\<lparr>ev_deal_id = k, ev_type = StageChange, ev_old_pipeline_id = ds_pipeline_id s,
                  ev_old_stage_id = ds_stage_id s, ev_new_pipeline_id = pl, ev_new_stage_id = st,
                  ev_old_owner_id = None, ev_new_owner_id = None, ev_occurred_at = occurred,
                  ev_source = src, ev_raw_payload = payload\<rparr>]
           else []) @
          (if ds_owner_id s \<noteq> ow
           then [\<lparr>ev_deal_id = k, ev_type = OwnerChange, ev_old_pipeline_id = None,
                  ev_old_stage_id = None, ev_new_pipeline_id = None, ev_new_stage_id = None,
                  ev_old_owner_id = ds_owner_id s, ev_new_owner_id = ow, ev_occurred_at = occurred,
                  ev_source = src, ev_raw_payload = payload\<rparr>]
           else []))"

subsection \<open>Webhook ingest\<close>

text \<open>The declared fields of \<open>FreshsalesDealWebhook\<close>.\<close>

record webhook =
  wh_deal_id :: int
  wh_deal_name :: "string option"
  wh_deal_amount :: "rat option"
  wh_deal_base_currency_amount :: "rat option"
  wh_deal_owner_id :: "int option"
  wh_deal_pipeline_name :: "string option"
  wh_deal_stage_name :: "string option"
  wh_deal_stage_updated_time :: "string option"
  wh_deal_created_at :: "string option"
  wh_deal_expected_close :: "string option"
  wh_deal_lost_reason :: "string option"
  wh_deal_lost_reason_id :: "int option"
  wh_deal_sales_account_id :: "int option"
  wh_deal_sales_account_name :: "string option"

definition SALES_ACCOUNT_KEEP_KEYS :: "string list" where
  "SALES_ACCOUNT_KEEP_KEYS = [''deal_sales_account_id'', ''deal_sales_account_name'']"

definition trim_raw_payload :: "json dict \<Rightarrow> json dict" where
  "trim_raw_payload p = filter (\<lambda>(k, v). \<not> starts_with ''deal_sales_account_'' k \<or>
     k \<in> set SALES_ACCOUNT_KEEP_KEYS) p"

definition removeprefix :: "string \<Rightarrow> string \<Rightarrow> string" where
  "removeprefix p s = (if starts_with p s then drop (length p) s else s)"

definition extract_custom_fields :: "json dict \<Rightarrow> json dict" where
  "extract_custom_fields p =
     map (\<lambda>(k, v). (removeprefix ''deal_'' k, v)) (filter (\<lambda>(k, v). starts_with ''deal_cf_'' k) p)"

text \<open>The entries of a dict whose value is not \<open>None\<close>.\<close>

definition not_none :: "'v option dict \<Rightarrow> 'v dict" where
  "not_none xs = List.map_filter (\<lambda>(k, v). map_option (Pair k) v) xs"

text \<open>
  Pipeline and stage of the payload: the resolver's answer, else the stored values, else
  nothing.
\<close>

definition resolve_names :: "resolver \<Rightarrow> webhook \<Rightarrow> stage_resolution option" where
  "resolve_names rs w =
     (if truthy (wh_deal_pipeline_name w) \<and> truthy (wh_deal_stage_name w)
      then resolve rs (default (wh_deal_pipeline_name w) []) (default (wh_deal_stage_name w) [])
      else None)"

definition new_pipeline_stage ::
    "resolver \<Rightarrow> webhook \<Rightarrow> deal_snapshot option \<Rightarrow> int option \<times> int option" where
  "new_pipeline_stage rs w existing =
     (case resolve_names rs w of
        Some r \<Rightarrow> (Some (res_pipeline_id r), Some (res_stage_id r))
      | None \<Rightarrow> (case existing of
          Some s \<Rightarrow> (ds_pipeline_id s, ds_stage_id s)
        | None \<Rightarrow> (None, None)))"

text \<open>The owner of the payload, else the stored one, if it is a known owner.\<close>

definition new_owner :: "ref_db \<Rightarrow> webhook \<Rightarrow> deal_snapshot option \<Rightarrow> int option" where
  "new_owner ref w existing =
     (let raw = or_else (wh_deal_owner_id w) (Option.bind existing ds_owner_id)
      in case raw of None \<Rightarrow> None
         | Some k \<Rightarrow> (if k \<in> ow_id ` set (list_owners False ref) then Some k else None))"

definition webhook_cols ::
    "py_env \<Rightarrow> json dict \<Rightarrow> webhook \<Rightarrow> time \<Rightarrow> pydate option \<Rightarrow> time option \<Rightarrow> cell dict" where
  "webhook_cols env payload w occurred close created =
     (let (curated, remaining) = split_custom_fields env (extract_custom_fields payload)
      in not_none
        ([(''name'', map_option CStr (wh_deal_name w)),
          (''amount'', map_option CNum (wh_deal_amount w)),
          (''base_currency_amount'', map_option CNum (wh_deal_base_currency_amount w)),
          (''expected_close_date'', map_option CDate close),
          (''stage_updated_at'', Some (CTime occurred)),
          (''deal_created_at'', map_option CTime created),
          (''lost_reason'', map_option CStr (wh_deal_lost_reason w)),
          (''lost_reason_id'', map_option CInt (wh_deal_lost_reason_id w)),
          (''sales_account_id'', map_option CInt (wh_deal_sales_account_id w)),
          (''sales_account_name'', map_option CStr (wh_deal_sales_account_name w)),
          (''custom_fields'', Some (CJson (JObj remaining))),
          (''raw_payload'', Some (CJson (JObj (trim_raw_payload payload))))] @ curated))"

text \<open>
  \<open>ingest_webhook\<close>: \<open>validate\<close> is the model validation of the payload (pydantic),
  \<open>now\<close> the clock. The events and the upsert are one transaction: an exception on the
  way leaves the database as it was, and the result says so by carrying no database.
\<close>

definition ingest_webhook ::
    "py_env \<Rightarrow> (json dict \<Rightarrow> webhook option) \<Rightarrow> time \<Rightarrow> ref_db \<Rightarrow> resolver \<Rightarrow> json dict \<Rightarrow> deal_db
      \<Rightarrow> py_error + deal_db" where
  "ingest_webhook env validate now ref rs payload db =
     (case validate payload of
        None \<Rightarrow> Inl ValidationError
      | Some w \<Rightarrow>
          let existing = get_deal db (wh_deal_id w);
              (pl, st) = new_pipeline_stage rs w existing;
              ow = new_owner ref w existing
          in rbind (parse_webhook_timestamp env (wh_deal_stage_updated_time w)) (\<lambda>ts.
             let occurred = default ts now;
                 events = detect_changes (wh_deal_id w) existing pl st ow occurred Webhook payload;
                 db1 = fold insert_event events db
             in rbind (parse_webhook_date (wh_deal_expected_close w)) (\<lambda>close.
                rbind (parse_webhook_timestamp env (wh_deal_created_at w)) (\<lambda>created.
                Inr (upsert_deal now
                  \<lparr>dd_deal_id = wh_deal_id w, dd_pipeline_id = pl, dd_stage_id = st, dd_owner_id = ow,
                   dd_cols = webhook_cols env payload w occurred close created\<rparr> db1)))))"

text \<open>
  The endpoint: no resolver before the first reference sync is 503, a wrong secret 401
  when one is configured, an exception 500.
\<close>

definition freshsales_deal_webhook ::
    "py_env \<Rightarrow> (json dict \<Rightarrow> webhook option) \<Rightarrow> time \<Rightarrow> string \<Rightarrow> string option \<Rightarrow> ref_db
      \<Rightarrow> resolver option \<Rightarrow> json dict \<Rightarrow> deal_db \<Rightarrow> unit http \<times> deal_db" where
  "freshsales_deal_webhook env validate now expected_secret given ref rs payload db =
     (case rs of
        None \<Rightarrow> (HttpError 503 ''Reference data not loaded yet'', db)
      | Some r \<Rightarrow>
          if expected_secret \<noteq> [] \<and> given \<noteq> Some expected_secret
          then (HttpError 401 ''Invalid webhook secret'', db)
          else case ingest_webhook env validate now ref r payload db of
            Inl e \<Rightarrow> (HttpError 500 ''Internal Server Error'', db)
          | Inr db' \<Rightarrow> (HttpOk 202 (), db'))"

end
