(* ===== verification/Deal_Safety.thy ===== *)
theory Deal_Safety
  imports Deals "HOL-Library.Multiset"
begin

section \<open>The event log and the snapshot agree\<close>

text \<open>
  Lemmas and properties of change detection, webhook ingest, the resolver, the curated
  fields and the reference upserts.
\<close>

subsection \<open>One snapshot after an upsert\<close>

lemma get_deal_upsert:
  "get_deal (upsert_deal now d db) k =
     (if k = dd_deal_id d then Some (upserted now d (get_deal db k)) else get_deal db k)"
  by (simp add: get_deal_def upsert_deal_def update_conv')

lemma upsert_keeps_events [simp]: "deal_events (upsert_deal now d db) = deal_events db"
  by (simp add: upsert_deal_def)

lemma fold_insert_event:
  "deal_events (fold insert_event es db) = deal_events db @ es \<and>
   deals (fold insert_event es db) = deals db"
  by (induction es arbitrary: db) (simp_all add: insert_event_def)

lemmas insert_events [simp] = fold_insert_event [THEN conjunct1] fold_insert_event [THEN conjunct2]

lemma get_deal_events [simp]: "get_deal (fold insert_event es db) k = get_deal db k"
  by (simp add: get_deal_def)

text \<open>What a successful ingest did, in terms of the definitions it is made of.\<close>

definition ingested_data ::
    "py_env \<Rightarrow> ref_db \<Rightarrow> resolver \<Rightarrow> json dict \<Rightarrow> webhook \<Rightarrow> time \<Rightarrow> pydate option \<Rightarrow> time option
      \<Rightarrow> deal_snapshot option \<Rightarrow> deal_data" where
  "ingested_data env ref rs payload w occurred close created existing =
     \<lparr>dd_deal_id = wh_deal_id w, dd_pipeline_id = fst (new_pipeline_stage rs w existing),
      dd_stage_id = snd (new_pipeline_stage rs w existing), dd_owner_id = new_owner ref w existing,
      dd_cols = webhook_cols env payload w occurred close created\<rparr>"

lemma ingest_InrE:
  assumes "ingest_webhook env validate now ref rs payload db = Inr db'"
  obtains w ts close created where "validate payload = Some w"
    "parse_webhook_timestamp env (wh_deal_stage_updated_time w) = Inr ts"
    "parse_webhook_date (wh_deal_expected_close w) = Inr close"
    "parse_webhook_timestamp env (wh_deal_created_at w) = Inr created"
    "deal_events db' = deal_events db @
       detect_changes (wh_deal_id w) (get_deal db (wh_deal_id w))
         (fst (new_pipeline_stage rs w (get_deal db (wh_deal_id w))))
         (snd (new_pipeline_stage rs w (get_deal db (wh_deal_id w))))
         (new_owner ref w (get_deal db (wh_deal_id w))) (default ts now) Webhook payload"
    "\<And>k. get_deal db' k = (if k = wh_deal_id w
       then Some (upserted now (ingested_data env ref rs payload w (default ts now) close created
              (get_deal db (wh_deal_id w))) (get_deal db (wh_deal_id w)))
       else get_deal db k)"
proof -
  from assms obtain w where w: "validate payload = Some w"
    by (auto simp: ingest_webhook_def split: option.splits)
  with assms obtain ts close created where
    "parse_webhook_timestamp env (wh_deal_stage_updated_time w) = Inr ts"
    "parse_webhook_date (wh_deal_expected_close w) = Inr close"
    "parse_webhook_timestamp env (wh_deal_created_at w) = Inr created"
    "db' = upsert_deal now
       (ingested_data env ref rs payload w (default ts now) close created (get_deal db (wh_deal_id w)))
       (fold insert_event (detect_changes (wh_deal_id w) (get_deal db (wh_deal_id w))
         (fst (new_pipeline_stage rs w (get_deal db (wh_deal_id w))))
         (snd (new_pipeline_stage rs w (get_deal db (wh_deal_id w))))
         (new_owner ref w (get_deal db (wh_deal_id w))) (default ts now) Webhook payload) db)"
    by (auto simp: ingest_webhook_def ingested_data_def Let_def rbind_eq_Inr_iff split: prod.splits)
  then show thesis
    using w by (intro that [of w ts close created])
      (simp_all add: get_deal_upsert ingested_data_def)
qed

lemma ingest_intro:
  assumes "validate payload = Some w"
    and "parse_webhook_timestamp env (wh_deal_stage_updated_time w) = Inr ts"
    and "parse_webhook_date (wh_deal_expected_close w) = Inr close"
    and "parse_webhook_timestamp env (wh_deal_created_at w) = Inr created"
  shows "\<exists>db'. ingest_webhook env validate now ref rs payload db = Inr db'"
  using assms by (simp add: ingest_webhook_def Let_def split: prod.splits)

subsection \<open>Pipeline, stage and owner after an upsert\<close>

lemma upserted_pipeline_stage:
  "ds_pipeline_id (upserted now (ingested_data env ref rs payload w oc cl cr existing) existing) =
     fst (new_pipeline_stage rs w existing)"
  "ds_stage_id (upserted now (ingested_data env ref rs payload w oc cl cr existing) existing) =
     snd (new_pipeline_stage rs w existing)"
  by (auto simp: upserted_def ingested_data_def new_pipeline_stage_def or_else_def split: option.splits)

lemma upserted_owner:
  "ds_owner_id (upserted now (ingested_data env ref rs payload w oc cl cr existing) existing) =
     or_else (new_owner ref w existing) (Option.bind existing ds_owner_id)"
  by (auto simp: upserted_def ingested_data_def or_else_def split: option.splits)

lemma new_pipeline_stage_again:
  assumes "ds_pipeline_id s = fst (new_pipeline_stage rs w existing)"
    and "ds_stage_id s = snd (new_pipeline_stage rs w existing)"
  shows "new_pipeline_stage rs w (Some s) = new_pipeline_stage rs w existing"
  using assms by (auto simp: new_pipeline_stage_def split: option.splits)

lemma new_owner_again:
  assumes "ds_owner_id s = or_else (new_owner ref w existing) (Option.bind existing ds_owner_id)"
  shows "new_owner ref w (Some s) = new_owner ref w existing"
  using assms by (auto simp: new_owner_def or_else_def Let_def split: option.splits if_splits)

text \<open>A redelivery of the same payload: what its change detection reports.\<close>

lemma redelivery_events:
  assumes "ds_pipeline_id s = fst (new_pipeline_stage rs w existing)"
    and "ds_stage_id s = snd (new_pipeline_stage rs w existing)"
    and "ds_owner_id s = or_else (new_owner ref w existing) (Option.bind existing ds_owner_id)"
  shows "detect_changes k (Some s) (fst (new_pipeline_stage rs w (Some s)))
      (snd (new_pipeline_stage rs w (Some s))) (new_owner ref w (Some s)) oc Webhook payload =
    (if new_owner ref w existing = None \<and> Option.bind existing ds_owner_id \<noteq> None
     then [\<lparr>ev_deal_id = k, ev_type = OwnerChange, ev_old_pipeline_id = None, ev_old_stage_id = None,
            ev_new_pipeline_id = None, ev_new_stage_id = None,
            ev_old_owner_id = Option.bind existing ds_owner_id, ev_new_owner_id = None,
            ev_occurred_at = oc, ev_source = Webhook, ev_raw_payload = payload\<rparr>]
     else [])"
proof -
  have "fst (new_pipeline_stage rs w (Some s)) = ds_pipeline_id s"
    "snd (new_pipeline_stage rs w (Some s)) = ds_stage_id s"
    using assms(1,2) new_pipeline_stage_again [OF assms(1,2)] by simp_all
  moreover have "new_owner ref w (Some s) = new_owner ref w existing"
    by (rule new_owner_again [OF assms(3)])
  ultimately show ?thesis
    using assms(3) by (cases "new_owner ref w existing") (auto simp: detect_changes_def)
qed

subsection \<open>Properties of the event log\<close>

definition replay :: "(int option \<times> int option \<times> int option) \<Rightarrow> deal_event
    \<Rightarrow> (int option \<times> int option \<times> int option)" where
  "replay st e = (case ev_type e of
       Created \<Rightarrow> (ev_new_pipeline_id e, ev_new_stage_id e, ev_new_owner_id e)
     | StageChange \<Rightarrow> (ev_new_pipeline_id e, ev_new_stage_id e, snd (snd st))
     | OwnerChange \<Rightarrow> (fst st, fst (snd st), ev_new_owner_id e))"

definition placement :: "deal_snapshot option \<Rightarrow> int option \<times> int option \<times> int option" where
  "placement s = (case s of None \<Rightarrow> (None, None, None)
     | Some s \<Rightarrow> (ds_pipeline_id s, ds_stage_id s, ds_owner_id s))"

text \<open>C6: the detected events are exactly the difference: replayed on the stored pipeline, stage
  and owner they give the incoming ones, each event records the value it replaces, and
  for a known deal there is no event exactly when nothing changed.\<close>

theorem replay_detect_changes:
  "foldl replay (placement existing) (detect_changes k existing pl st ow oc src payload) = (pl, st, ow) \<and>
   length (detect_changes k existing pl st ow oc src payload) \<le> 2 \<and>
   (\<forall>s. detect_changes k (Some s) pl st ow oc src payload = [] \<longleftrightarrow> placement (Some s) = (pl, st, ow)) \<and>
   (\<forall>s. set (map ev_old_owner_id (filter (\<lambda>e. ev_type e = OwnerChange)
      (detect_changes k (Some s) pl st ow oc src payload))) \<subseteq> {ds_owner_id s})"
  by (cases existing) (auto simp: detect_changes_def replay_def placement_def)

text \<open>The event a webhook would log, before it is told what changed.\<close>

definition blank_event :: "int \<Rightarrow> time \<Rightarrow> json dict \<Rightarrow> deal_event" where
  "blank_event k occurred payload = \<lparr>ev_deal_id = k, ev_type = Created, ev_old_pipeline_id = None, ev_old_stage_id = None,
     ev_new_pipeline_id = None, ev_new_stage_id = None, ev_old_owner_id = None, ev_new_owner_id = None,
     ev_occurred_at = occurred, ev_source = Webhook, ev_raw_payload = payload\<rparr>"


subsection \<open>Redelivery\<close>

text \<open>C5: Freshsales may deliver a webhook again. When the owner of the payload is known, or none
  is stored, the second delivery succeeds too, records no further event and leaves
  pipeline, stage and owner of every deal as the first one left them.\<close>

theorem redelivery_is_idempotent:
  assumes first: "ingest_webhook env validate now ref rs payload db = Inr db'"
    and valid: "validate payload = Some w"
    and owner: "new_owner ref w (get_deal db (wh_deal_id w)) \<noteq> None \<or>
      Option.bind (get_deal db (wh_deal_id w)) ds_owner_id = None"
  shows "\<exists>db''. ingest_webhook env validate now2 ref rs payload db' = Inr db'' \<and>
    deal_events db'' = deal_events db' \<and>
    (\<forall>k. placement (get_deal db'' k) = placement (get_deal db' k))"
  using first
proof (rule ingest_InrE)
  fix w' :: webhook and ts close created
  let ?ex = "get_deal db (wh_deal_id w)"
  assume w': "validate payload = Some w'"
    and ts: "parse_webhook_timestamp env (wh_deal_stage_updated_time w') = Inr ts"
    and cl: "parse_webhook_date (wh_deal_expected_close w') = Inr close"
    and cr: "parse_webhook_timestamp env (wh_deal_created_at w') = Inr created"
    and get: "\<And>k. get_deal db' k = (if k = wh_deal_id w' then Some (upserted now
       (ingested_data env ref rs payload w' (default ts now) close created (get_deal db (wh_deal_id w')))
       (get_deal db (wh_deal_id w'))) else get_deal db k)"
  from valid w' have [simp]: "w' = w" by simp
  define s where "s = upserted now (ingested_data env ref rs payload w (default ts now) close created ?ex) ?ex"
  have s: "get_deal db' (wh_deal_id w) = Some s" by (simp add: get s_def)
  have pl: "ds_pipeline_id s = fst (new_pipeline_stage rs w ?ex)"
    and st: "ds_stage_id s = snd (new_pipeline_stage rs w ?ex)"
    and ow: "ds_owner_id s = or_else (new_owner ref w ?ex) (Option.bind ?ex ds_owner_id)"
    by (simp_all add: s_def upserted_pipeline_stage upserted_owner)
  obtain db'' where again: "ingest_webhook env validate now2 ref rs payload db' = Inr db''"
    using ingest_intro [where validate = validate and payload = payload, OF valid] ts cl cr by fastforce
  from again show ?thesis
  proof (rule ingest_InrE)
    fix v :: webhook and ts2 close2 created2
    assume v: "validate payload = Some v"
      and evs: "deal_events db'' = deal_events db' @
       detect_changes (wh_deal_id v) (get_deal db' (wh_deal_id v))
         (fst (new_pipeline_stage rs v (get_deal db' (wh_deal_id v))))
         (snd (new_pipeline_stage rs v (get_deal db' (wh_deal_id v))))
         (new_owner ref v (get_deal db' (wh_deal_id v))) (default ts2 now2) Webhook payload"
      and get2: "\<And>k. get_deal db'' k = (if k = wh_deal_id v then Some (upserted now2
         (ingested_data env ref rs payload v (default ts2 now2) close2 created2 (get_deal db' (wh_deal_id v)))
         (get_deal db' (wh_deal_id v))) else get_deal db' k)"
    from valid v have [simp]: "v = w" by simp
    have "deal_events db'' = deal_events db'"
      using evs owner by (simp add: s redelivery_events [OF pl st ow])
    moreover have "placement (get_deal db'' k) = placement (get_deal db' k)" for k
      using new_pipeline_stage_again [OF pl st] new_owner_again [OF ow] pl st ow owner
      by (auto simp: get2 s placement_def upserted_pipeline_stage upserted_owner or_else_def split: option.splits)
    ultimately show ?thesis using again by blast
  qed
qed

text \<open>When the payload names an owner the reference data does not know while an owner is
  stored, every delivery records an owner change to nobody, yet the stored owner stays:
  the log grows by a spurious event per delivery, and replaying it contradicts the snapshot.\<close>

theorem unknown_owner_logs_forever:
  assumes first: "ingest_webhook env validate now ref rs payload db = Inr db'"
    and valid: "validate payload = Some w"
    and stored: "get_deal db (wh_deal_id w) = Some s" "ds_owner_id s = Some o1"
    and unknown: "wh_deal_owner_id w = Some o2" "o2 \<notin> ow_id ` set (list_owners False ref)"
  shows "\<exists>s' e. get_deal db' (wh_deal_id w) = Some s' \<and> ds_owner_id s' = Some o1 \<and>
    e \<in> set (drop (length (deal_events db)) (deal_events db')) \<and>
    ev_type e = OwnerChange \<and> ev_old_owner_id e = Some o1 \<and> ev_new_owner_id e = None"
  using first
proof (rule ingest_InrE)
  fix w' :: webhook and ts close created
  assume w': "validate payload = Some w'"
    and evs: "deal_events db' = deal_events db @
       detect_changes (wh_deal_id w') (get_deal db (wh_deal_id w'))
         (fst (new_pipeline_stage rs w' (get_deal db (wh_deal_id w'))))
         (snd (new_pipeline_stage rs w' (get_deal db (wh_deal_id w'))))
         (new_owner ref w' (get_deal db (wh_deal_id w'))) (default ts now) Webhook payload"
    and get: "\<And>k. get_deal db' k = (if k = wh_deal_id w' then Some (upserted now
       (ingested_data env ref rs payload w' (default ts now) close created (get_deal db (wh_deal_id w')))
       (get_deal db (wh_deal_id w'))) else get_deal db k)"
  from valid w' have [simp]: "w' = w" by simp
  have "new_owner ref w (Some s) = None"
    using unknown by (simp add: new_owner_def)
  then have "\<exists>e \<in> set (detect_changes (wh_deal_id w) (Some s) p q (new_owner ref w (Some s)) oc Webhook payload).
      ev_type e = OwnerChange \<and> ev_old_owner_id e = Some o1 \<and> ev_new_owner_id e = None" for p q oc
    using stored by (simp add: detect_changes_def)
  moreover have "drop (length (deal_events db)) (deal_events db') =
      detect_changes (wh_deal_id w) (Some s) (fst (new_pipeline_stage rs w (Some s)))
        (snd (new_pipeline_stage rs w (Some s))) (new_owner ref w (Some s)) (default ts now) Webhook payload"
    using stored by (simp add: evs)
  moreover have "\<exists>s'. get_deal db' (wh_deal_id w) = Some s' \<and> ds_owner_id s' = Some o1"
    using stored \<open>new_owner ref w (Some s) = None\<close> by (simp add: get upserted_owner)
  ultimately show ?thesis by metis
qed

subsection \<open>Referential integrity\<close>

text \<open>Every pipeline, stage and owner a snapshot names has its reference row.\<close>

definition refs_ok :: "ref_db \<Rightarrow> deal_snapshot \<Rightarrow> bool" where
  "refs_ok ref s \<longleftrightarrow>
     (case ds_pipeline_id s of None \<Rightarrow> True | Some k \<Rightarrow> k \<in> pl_id ` set (list_pipelines False ref)) \<and>
     (case ds_stage_id s of None \<Rightarrow> True | Some k \<Rightarrow> k \<in> st_id ` set (list_stages None ref)) \<and>
     (case ds_owner_id s of None \<Rightarrow> True | Some k \<Rightarrow> k \<in> ow_id ` set (list_owners False ref))"

definition deals_refs_ok :: "ref_db \<Rightarrow> deal_db \<Rightarrow> bool" where
  "deals_refs_ok ref db \<longleftrightarrow> (\<forall>k s. get_deal db k = Some s \<longrightarrow> refs_ok ref s)"

definition data_refs_ok :: "ref_db \<Rightarrow> deal_data \<Rightarrow> bool" where
  "data_refs_ok ref d \<longleftrightarrow> refs_ok ref \<lparr>ds_deal_id = dd_deal_id d, ds_pipeline_id = dd_pipeline_id d,
     ds_stage_id = dd_stage_id d, ds_owner_id = dd_owner_id d, ds_cols = Map.empty,
     ds_updated_at = 0, ds_last_synced_at = 0\<rparr>"

lemma refs_ok_upserted:
  "data_refs_ok ref d \<Longrightarrow> (\<And>s. old = Some s \<Longrightarrow> refs_ok ref s) \<Longrightarrow> refs_ok ref (upserted now d old)"
  by (cases old) (auto simp: upserted_def refs_ok_def data_refs_ok_def or_else_def split: option.splits)

lemma deals_refs_ok_upsert:
  "deals_refs_ok ref db \<Longrightarrow> data_refs_ok ref d \<Longrightarrow> deals_refs_ok ref (upsert_deal now d db)"
  by (auto simp: deals_refs_ok_def get_deal_upsert intro: refs_ok_upserted)

lemma build_resolver_sound:
  assumes "resolve (build_stage_resolver ref) pn sn = Some r"
  shows "res_pipeline_id r \<in> pl_id ` set (list_pipelines False ref)"
    and "res_stage_id r \<in> st_id ` set (list_stages None ref)"
  using resolve_sound [OF assms [unfolded build_stage_resolver_def]] by auto

text \<open>C4: with the resolver built from the current reference data, a webhook ingest never
  stores a pipeline, stage or owner that has no reference row: the foreign keys hold
  after it if they held before, whatever names and owner the payload carries.\<close>

theorem ingest_keeps_references:
  assumes ok: "deals_refs_ok ref db"
    and ing: "ingest_webhook env validate now ref (build_stage_resolver ref) payload db = Inr db'"
  shows "deals_refs_ok ref db'"
  using ing
proof (rule ingest_InrE)
  fix w :: webhook and ts close created
  let ?ex = "get_deal db (wh_deal_id w)"
  let ?d = "ingested_data env ref (build_stage_resolver ref) payload w (default ts now) close created ?ex"
  assume get: "\<And>k. get_deal db' k = (if k = wh_deal_id w then Some (upserted now ?d ?ex) else get_deal db k)"
  have old: "?ex = Some s \<Longrightarrow> refs_ok ref s" for s using ok by (auto simp: deals_refs_ok_def)
  have "data_refs_ok ref ?d"
    using old by (auto simp: data_refs_ok_def refs_ok_def ingested_data_def new_pipeline_stage_def
        new_owner_def resolve_names_def Let_def dest: build_resolver_sound split: option.splits if_splits)
  then have "refs_ok ref (upserted now ?d ?ex)" using old by (rule refs_ok_upserted)
  with ok get show ?thesis by (auto simp: deals_refs_ok_def)
qed

text \<open>The webhook endpoint changes nothing before the first reference sync (503), on a wrong
  secret when one is configured (401), and when the ingest raises (500); it answers 202
  exactly when the ingest succeeded.\<close>

theorem webhook_gate:
  "(let res = freshsales_deal_webhook env validate now secret given ref rs payload db;
        st = http_status (fst res) in
    (if rs = None then st = 503
     else if secret \<noteq> [] \<and> given \<noteq> Some secret then st = 401
     else st = (case ingest_webhook env validate now ref (the rs) payload db of Inl e \<Rightarrow> 500 | Inr db' \<Rightarrow> 202)) \<and>
    (if st = 202 then ingest_webhook env validate now ref (the rs) payload db = Inr (snd res)
     else snd res = db))"
  by (cases rs) (auto simp: freshsales_deal_webhook_def Let_def split: sum.splits)

subsection \<open>Witnesses\<close>

definition witness_ref :: ref_db where
  "witness_ref = \<lparr>
     pipelines = [(1, \<lparr>pl_id = 1, pl_name = ''Leasing'', pl_business_line = ''WTC'',
       pl_is_default = True, pl_is_active = True, pl_view_id = Some 9, pl_updated_at = 5\<rparr>)],
     stages = [(2, \<lparr>st_id = 2, st_pipeline_id = 1, st_name = ''New'', st_position = 1,
       st_forecast_type = ''Open'', st_probability = None, st_updated_at = 5\<rparr>)],
     owners = [(3, \<lparr>ow_id = 3, ow_display_name = ''Ada'', ow_email = None, ow_is_active = True,
       ow_updated_at = 5\<rparr>)],
     deal_reasons = []\<rparr>"

definition witness_wh :: "int option \<Rightarrow> webhook" where
  "witness_wh o' = \<lparr>wh_deal_id = 7, wh_deal_name = Some ''Deal'', wh_deal_amount = None,
     wh_deal_base_currency_amount = None, wh_deal_owner_id = o', wh_deal_pipeline_name = Some ''Leasing'',
     wh_deal_stage_name = Some ''New'', wh_deal_stage_updated_time = None, wh_deal_created_at = None,
     wh_deal_expected_close = None, wh_deal_lost_reason = None, wh_deal_lost_reason_id = None,
     wh_deal_sales_account_id = None, wh_deal_sales_account_name = None\<rparr>"

definition witness_py :: py_env where
  "witness_py = \<lparr>tz_offset = (\<lambda>_. 0), local_offset = (\<lambda>_. 0), py_float = (\<lambda>_. None)\<rparr>"

definition witness_deals :: "int option \<Rightarrow> deal_db" where
  "witness_deals o' = \<lparr>deals = [(7, \<lparr>ds_deal_id = 7, ds_pipeline_id = Some 1, ds_stage_id = Some 2,
     ds_owner_id = o', ds_cols = Map.empty, ds_updated_at = 0, ds_last_synced_at = 0\<rparr>)], deal_events = []\<rparr>"

definition empty_deals :: deal_db where
  "empty_deals = \<lparr>deals = [], deal_events = []\<rparr>"

lemma witness_ingest:
  "\<exists>db'. ingest_webhook witness_py (\<lambda>_. Some (witness_wh o')) 50 witness_ref rs [] db = Inr db'"
  by (rule ingest_intro [where w = "witness_wh o'" and ts = None and close = None and created = None])
    (simp_all add: witness_wh_def parse_webhook_timestamp_def parse_webhook_date_def)


theorem redelivery_is_idempotent_witness:
  "\<exists>db' db''. ingest_webhook witness_py (\<lambda>_. Some (witness_wh (Some 3))) 50 witness_ref
      (build_stage_resolver witness_ref) [] empty_deals = Inr db' \<and>
    ingest_webhook witness_py (\<lambda>_. Some (witness_wh (Some 3))) 60 witness_ref
      (build_stage_resolver witness_ref) [] db' = Inr db'' \<and> deal_events db'' = deal_events db'"
proof -
  obtain db' where ing: "ingest_webhook witness_py (\<lambda>_. Some (witness_wh (Some 3))) 50 witness_ref
      (build_stage_resolver witness_ref) [] empty_deals = Inr db'" using witness_ingest by blast
  have "new_owner witness_ref (witness_wh (Some 3)) (get_deal empty_deals (wh_deal_id (witness_wh (Some 3)))) \<noteq> None \<or>
      Option.bind (get_deal empty_deals (wh_deal_id (witness_wh (Some 3)))) ds_owner_id = None"
    by (simp add: get_deal_def empty_deals_def)
  from redelivery_is_idempotent [OF ing refl this, of 60] ing show ?thesis by blast
qed

theorem unknown_owner_logs_forever_witness:
  "\<exists>db' s' e. ingest_webhook witness_py (\<lambda>_. Some (witness_wh (Some 8))) 50 witness_ref
      (build_stage_resolver witness_ref) [] (witness_deals (Some 3)) = Inr db' \<and>
    get_deal db' 7 = Some s' \<and> ds_owner_id s' = Some 3 \<and> e \<in> set (deal_events db') \<and>
    ev_type e = OwnerChange \<and> ev_new_owner_id e = None"
proof -
  obtain db' where ing: "ingest_webhook witness_py (\<lambda>_. Some (witness_wh (Some 8))) 50 witness_ref
      (build_stage_resolver witness_ref) [] (witness_deals (Some 3)) = Inr db'" using witness_ingest by blast
  obtain s where s: "get_deal (witness_deals (Some 3)) (wh_deal_id (witness_wh (Some 8))) = Some s" "ds_owner_id s = Some 3"
    by (simp add: get_deal_def witness_deals_def witness_wh_def)
  have u: "wh_deal_owner_id (witness_wh (Some 8)) = Some 8" "8 \<notin> ow_id ` set (list_owners False witness_ref)"
    by (simp_all add: witness_wh_def list_owners_def witness_ref_def)
  obtain s' e where "get_deal db' (wh_deal_id (witness_wh (Some 8))) = Some s'" "ds_owner_id s' = Some 3"
    "e \<in> set (drop (length (deal_events (witness_deals (Some 3)))) (deal_events db'))"
    "ev_type e = OwnerChange" "ev_new_owner_id e = None"
    using unknown_owner_logs_forever [OF ing refl s u] by blast
  with ing show ?thesis by (auto simp: witness_wh_def dest: in_set_dropD)
qed

theorem ingest_keeps_references_witness:
  "\<exists>db'. ingest_webhook witness_py (\<lambda>_. Some (witness_wh (Some 8))) 50 witness_ref
      (build_stage_resolver witness_ref) [] (witness_deals (Some 3)) = Inr db' \<and> deals_refs_ok witness_ref db'"
proof -
  obtain db' where ing: "ingest_webhook witness_py (\<lambda>_. Some (witness_wh (Some 8))) 50 witness_ref
      (build_stage_resolver witness_ref) [] (witness_deals (Some 3)) = Inr db'" using witness_ingest by blast
  have "deals_refs_ok witness_ref (witness_deals (Some 3))"
    by (auto simp: deals_refs_ok_def get_deal_def witness_deals_def refs_ok_def witness_ref_def
        list_pipelines_def list_stages_def list_owners_def split: if_splits)
  from ingest_keeps_references [OF this ing] ing show ?thesis by blast
qed

subsection \<open>Dates and curated fields\<close>

definition digit :: "int \<Rightarrow> char" where "digit n = ''0123456789'' ! nat n"

lemma digit_all: "\<forall>n \<in> set [0..9]. is_digit (digit n) \<and> digit_val (digit n) = n \<and>
    digit n \<noteq> CHR ''-'' \<and> digit n \<noteq> CHR '' '' \<and> \<not> is_space (digit n)"
  by (simp add: digit_def is_digit_def digit_val_def upto_rec1 less_eq_char_def is_space_def Let_def)

lemma digit_ok:
  assumes "0 \<le> n" and "n < 10"
  shows "is_digit (digit n)" and "digit_val (digit n) = n"
    and "digit n \<noteq> CHR ''-''" and "digit n \<noteq> CHR '' ''" and "\<not> is_space (digit n)"
proof -
  have "n \<in> set [0..9]" using assms by simp
  with digit_all show "is_digit (digit n)" and "digit_val (digit n) = n"
    and "digit n \<noteq> CHR ''-''" and "digit n \<noteq> CHR '' ''" and "\<not> is_space (digit n)" by blast+
qed

text \<open>The CRM's rendering of a date, \<open>MM-DD-YYYY\<close>.\<close>

definition show_mdy :: "pydate \<Rightarrow> string" where
  "show_mdy dt = (case dt of (y, m, d) \<Rightarrow>
     [digit (m div 10), digit (m mod 10), CHR ''-'', digit (d div 10), digit (d mod 10), CHR ''-'',
      digit (y div 1000), digit (y div 100 mod 10), digit (y div 10 mod 10), digit (y mod 10)])"

lemma num12_digits: "0 \<le> v \<Longrightarrow> v < 100 \<Longrightarrow> num12 lo hi [digit (v div 10), digit (v mod 10)] =
    (if lo \<le> v \<and> v \<le> hi then Some v else None)"
  by (simp add: digit_ok Let_def)

lemma num_day_digits:
  "0 \<le> v \<Longrightarrow> v < 100 \<Longrightarrow> num_day [digit (v div 10), digit (v mod 10)] = (if 1 \<le> v \<and> v \<le> 31 then Some v else None)"
  using num12_digits [of v 1 31] by (simp add: num_day_def digit_ok)

lemma year_digits: "1000 * (y div 1000) + 100 * (y div 100 mod 10) + 10 * (y div 10 mod 10) + y mod 10 = (y :: int)"
proof -
  have "y div 100 = 10 * (y div 1000) + y div 100 mod 10" using div_mult_mod_eq [of "y div 100" 10] by (simp add: zdiv_zmult2_eq [symmetric])
  moreover have "y div 10 = 10 * (y div 100) + y div 10 mod 10" using div_mult_mod_eq [of "y div 10" 10] by (simp add: zdiv_zmult2_eq [symmetric])
  moreover have "y = 10 * (y div 10) + y mod 10" by simp
  ultimately show ?thesis by linarith
qed

lemma num4_digits:
  assumes "0 \<le> y" and "y \<le> 9999"
  shows "num4 [digit (y div 1000), digit (y div 100 mod 10), digit (y div 10 mod 10), digit (y mod 10)] = Some y"
proof -
  have a: "0 \<le> y div 1000" "y div 1000 < 10" using assms by linarith+
  have b: "0 \<le> k mod 10" "k mod 10 < 10" for k :: int by simp_all
  show ?thesis
    by (simp only: num4.simps digit_ok [OF a] digit_ok [OF b] year_digits simp_thms if_True)
qed

lemma strptime_show_mdy:
  assumes "valid_date y m d"
  shows "strptime_mdy (show_mdy (y, m, d)) = Some (y, m, d)"
proof -
  have b: "0 \<le> m" "m < 100" "0 \<le> d" "d < 100" "0 \<le> y" "y \<le> 9999" "1 \<le> m" "m \<le> 12" "1 \<le> d" "d \<le> 31"
    using assms by (auto simp: valid_date_def days_in_month_def split: if_splits)
  have "split_char CHR ''-'' (show_mdy (y, m, d)) = Some ([digit (m div 10), digit (m mod 10)],
      drop 3 (show_mdy (y, m, d)))"
    using b by (simp add: show_mdy_def digit_ok)
  moreover have "split_char CHR ''-'' (drop 3 (show_mdy (y, m, d))) =
      Some ([digit (d div 10), digit (d mod 10)], drop 6 (show_mdy (y, m, d)))"
    using b by (simp add: show_mdy_def digit_ok)
  moreover have "num4 (drop 6 (show_mdy (y, m, d))) = Some y"
    using num4_digits [of y] b by (simp add: show_mdy_def)
  ultimately show ?thesis
    using num12_digits [of m 1 12] num_day_digits [of d] b assms
    by (simp add: strptime_mdy_def mk_date_def del: num12.simps)
qed

lemma strip_no_space: "\<forall>c \<in> set s. \<not> is_space c \<Longrightarrow> py_strip s = s"
proof -
  assume a: "\<forall>c \<in> set s. \<not> is_space c"
  have d: "dropWhile is_space t = t" if "\<forall>c \<in> set t. \<not> is_space c" for t
    using that by (cases t) auto
  from a show ?thesis by (simp add: py_strip_def d [of s] d [of "rev s"])
qed

lemma show_mdy_plain:
  assumes "valid_date y m d"
  shows "\<forall>c \<in> set (show_mdy (y, m, d)). \<not> is_space c \<and> c \<noteq> CHR '' ''"
proof -
  have b: "0 \<le> m div 10" "m div 10 < 10" "0 \<le> d div 10" "d div 10 < 10" "0 \<le> y div 1000" "y div 1000 < 10"
    using assms by (auto simp: valid_date_def days_in_month_def split: if_splits)
  have m: "0 \<le> k mod 10" "k mod 10 < 10" for k :: int by simp_all
  have dash: "\<not> is_space CHR ''-''" by (simp add: is_space_def)
  show ?thesis by (simp add: show_mdy_def digit_ok b m dash)
qed

lemma strip_show_mdy:
  assumes "valid_date y m d"
  shows "py_strip (show_mdy (y, m, d)) = show_mdy (y, m, d)"
    and "takeWhile (\<lambda>c. c \<noteq> CHR '' '') (show_mdy (y, m, d)) = show_mdy (y, m, d)"
  using show_mdy_plain [OF assms] by (simp add: strip_no_space, simp add: takeWhile_eq_all_conv)

lemma show_mdy_no_clock:
  assumes "valid_date y m d"
  shows "strptime_mdy_hms (show_mdy (y, m, d)) = None"
proof -
  have b: "0 \<le> m div 10" "m div 10 < 10" "0 \<le> d div 10" "d div 10 < 10"
    using assms by (auto simp: valid_date_def days_in_month_def split: if_splits)
  have m: "0 \<le> k mod 10" "k mod 10 < 10" for k :: int by simp_all
  show ?thesis by (simp add: strptime_mdy_hms_def show_mdy_def digit_ok b m)
qed

text \<open>Dates survive the CRM's rendering: parsing \<open>MM-DD-YYYY\<close> of any valid date gives that
  date, as a pure date with no timezone shift, and as a timestamp its midnight in the
  configured zone converted to UTC.\<close>

theorem webhook_date_roundtrip:
  assumes "valid_date y m d"
  shows "parse_webhook_date (Some (show_mdy (y, m, d))) = Inr (Some (y, m, d)) \<and>
    parse_webhook_timestamp env (Some (show_mdy (y, m, d))) =
      Inr (Some (to_utc env (wall_clock (y, m, d) 0 0 0 0)))"
proof -
  have t: "truthy (Some (show_mdy (y, m, d)))" by (simp add: show_mdy_def)
  have "parse_webhook_date (Some (show_mdy (y, m, d))) = Inr (Some (y, m, d))"
    unfolding parse_webhook_date_def default_simps Let_def strip_show_mdy [OF assms]
    using t strptime_show_mdy [OF assms] by simp
  moreover have "parse_webhook_timestamp env (Some (show_mdy (y, m, d))) =
      Inr (Some (to_utc env (wall_clock (y, m, d) 0 0 0 0)))"
    unfolding parse_webhook_timestamp_def default_simps Let_def strip_show_mdy [OF assms]
    using t strptime_show_mdy [OF assms] show_mdy_no_clock [OF assms] by simp
  ultimately show ?thesis by blast
qed

theorem webhook_date_roundtrip_witness:
  "parse_webhook_date (Some (show_mdy (2028, 2, 29))) = Inr (Some (2028, 2, 29)) \<and>
   parse_webhook_timestamp witness_py (Some (show_mdy (2028, 2, 29))) =
      Inr (Some (to_utc witness_py (wall_clock (2028, 2, 29) 0 0 0 0)))"
  by (rule webhook_date_roundtrip) (simp add: valid_date_def days_in_month_def leap_def)

text \<open>Splitting the custom fields of a deal loses none and duplicates none: every key goes to
  exactly one side, the uncurated values unchanged, and a curated column only ever gets a
  value of its type (a number, a date, or the JSON value itself), never the raw text of a
  field that did not parse.\<close>

theorem split_custom_fields_partition:
  "(case split_custom_fields env cf of (curated, rest) \<Rightarrow>
      mset (map fst curated) + mset (map fst rest) = mset (map fst cf) \<and>
      (\<forall>k. map_of rest k = (if k \<in> set CURATED_CF_FIELDS then None else map_of cf k)) \<and>
      list_all (\<lambda>(k, c). k \<in> set CURATED_CF_FIELDS \<and>
        (case c of None \<Rightarrow> True
         | Some (CNum r) \<Rightarrow> k \<in> set NUMERIC_CF_FIELDS
         | Some (CDate dt) \<Rightarrow> k \<in> set DATE_CF_FIELDS
         | Some (CJson v) \<Rightarrow> k \<notin> set NUMERIC_CF_FIELDS \<and> k \<notin> set DATE_CF_FIELDS \<and> (k, v) \<in> set cf
         | _ \<Rightarrow> False)) curated)"
proof -
  have part: "mset (map fst (filter (\<lambda>(k, v). P k) cf)) + mset (map fst (filter (\<lambda>(k, v). \<not> P k) cf)) = mset (map fst cf)"
    for P by (induction cf) auto
  have look: "map_of (filter (\<lambda>(k, v). \<not> P k) cf) k = (if P k then None else map_of cf k)" for P k
    by (induction cf) auto
  have keys: "map fst (map (\<lambda>(k, v). (k, f k v)) xs) = map fst xs" for f :: "string \<Rightarrow> json \<Rightarrow> cell option" and xs
    by (induction xs) auto
  show ?thesis
    unfolding split_custom_fields_def prod.case keys part look
    by (auto simp: list_all_iff coerce_cf_value_def NUMERIC_CF_FIELDS_def DATE_CF_FIELDS_def split: option.splits)
qed

end
