(* ===== verification/Reference_Safety.thy ===== *)
theory Reference_Safety
  imports Reference
begin

section \<open>What the reference sync and the stage resolver guarantee\<close>

text \<open>
  The resolver is the function it is documented to be, a later stage winning over an
  earlier one of the same names; a sync run is an upsert per row that keeps the columns
  only the dashboard sets.
\<close>

subsection \<open>The resolver as a search\<close>

definition stage_matches :: "pipeline list \<Rightarrow> string \<Rightarrow> string \<Rightarrow> stage \<Rightarrow> bool" where
  "stage_matches ps pn sn s \<longleftrightarrow> st_name s = sn \<and>
     (case pipeline_by_id ps (st_pipeline_id s) of None \<Rightarrow> False | Some p \<Rightarrow> pl_name p = pn)"

lemma fill_lookup_snoc:
  "map_of (fill_lookup pmap (ss @ [s]) lk) = (case pmap (st_pipeline_id s) of
     None \<Rightarrow> map_of (fill_lookup pmap ss lk)
   | Some p \<Rightarrow> (map_of (fill_lookup pmap ss lk))((pl_name p, st_name s) \<mapsto>
       \<lparr>res_pipeline_id = pl_id p, res_stage_id = st_id s\<rparr>))"
  unfolding fill_lookup_map foldl_append by simp

text \<open>The resolver answers exactly for the pairs of names that some stage and its own pipeline
  carry, and of several such stages with the one the stage listing has last: it is the
  search from the end of the listing, with the stage's own pipeline and id.\<close>

theorem resolver_is_last_match:
  "resolve (make_resolver ps ss) pn sn =
     map_option (\<lambda>s. \<lparr>res_pipeline_id = st_pipeline_id s, res_stage_id = st_id s\<rparr>)
       (List.find (stage_matches ps pn sn) (rev ss))"
proof (induction ss rule: rev_induct)
  case Nil
  then show ?case by (simp add: resolve_def make_resolver_def)
next
  case (snoc s ss)
  show ?case
  proof (cases "pipeline_by_id ps (st_pipeline_id s)")
    case None
    with snoc show ?thesis
      by (simp add: resolve_def make_resolver_def fill_lookup_snoc stage_matches_def)
  next
    case (Some p)
    with pipeline_by_id_Some [OF Some] snoc show ?thesis
      by (auto simp: resolve_def make_resolver_def fill_lookup_snoc stage_matches_def)
  qed
qed

subsection \<open>Rows of a sync run\<close>

lemma sync_pipeline_other_tables:
  "owners (fold (upsert_stage now) xs db) = owners db"
  "pipelines (fold (upsert_stage now) xs db) = pipelines db"
  by (induction xs arbitrary: db) (simp_all add: upsert_stage_def)

lemma pipelines_sync_pipeline:
  "pipelines (sync_pipeline now p db) = AList.update (cp_id p)
     (case map_of (pipelines db) (cp_id p) of
        None \<Rightarrow> \<lparr>pl_id = cp_id p, pl_name = cp_name p,
             pl_business_line = default (map_of PIPELINE_BUSINESS_LINES (cp_id p)) DEFAULT_BUSINESS_LINE,
             pl_is_default = default (cp_default p) False, pl_is_active = cp_id p \<notin> set EXCLUDED_PIPELINE_IDS,
             pl_view_id = None, pl_updated_at = now\<rparr>
      | Some old \<Rightarrow> old\<lparr>pl_name := cp_name p,
          pl_business_line := default (map_of PIPELINE_BUSINESS_LINES (cp_id p)) DEFAULT_BUSINESS_LINE,
          pl_is_default := default (cp_default p) False,
          pl_is_active := cp_id p \<notin> set EXCLUDED_PIPELINE_IDS\<rparr>) (pipelines db)"
proof -
  have stages: "pipelines (fold (\<lambda>s. upsert_stage now (f s)) xs d) = pipelines d" for f :: "'z \<Rightarrow> stage" and xs d
    by (induction xs arbitrary: d) (simp_all add: upsert_stage_def)
  show ?thesis
    by (auto simp: sync_pipeline_def Let_def stages upsert_pipeline_def split: option.splits)
qed

definition keeps_manual :: "(int \<rightharpoonup> pipeline) \<Rightarrow> (int \<rightharpoonup> pipeline) \<Rightarrow> bool" where
  "keeps_manual m m' \<longleftrightarrow> (\<forall>k p. m k = Some p \<longrightarrow> (\<exists>p'. m' k = Some p' \<and>
     pl_view_id p' = pl_view_id p \<and> pl_updated_at p' = pl_updated_at p))"

lemma keeps_manual_refl: "keeps_manual m m"
  by (simp add: keeps_manual_def)

lemma keeps_manual_trans: "keeps_manual m m' \<Longrightarrow> keeps_manual m' m'' \<Longrightarrow> keeps_manual m m''"
  unfolding keeps_manual_def by metis

lemma keeps_manual_sync_pipeline:
  "keeps_manual (map_of (pipelines db)) (map_of (pipelines (sync_pipeline now p db)))"
  by (auto simp: keeps_manual_def pipelines_sync_pipeline update_conv')

lemma keeps_manual_sync_pipelines:
  "keeps_manual (map_of (pipelines db)) (map_of (pipelines (sync_pipelines_and_stages now ps db)))"
  unfolding sync_pipelines_and_stages_def
proof (induction ps arbitrary: db)
  case Nil
  then show ?case by (simp add: keeps_manual_refl)
next
  case (Cons p ps)
  show ?case using keeps_manual_trans [OF keeps_manual_sync_pipeline Cons.IH] by simp
qed

lemma pipelines_sync_owners: "pipelines (sync_owners now own users db) = pipelines db"
proof -
  have "pipelines (fold (sync_owner now) os d) = pipelines d" for os d
    by (induction os arbitrary: d) (simp_all add: sync_owner_def upsert_owner_def)
  then show ?thesis by (simp add: sync_owners_def)
qed

lemma pipelines_sync_reasons: "pipelines (sync_deal_reasons now rs db) = pipelines db"
proof -
  have "pipelines (fold (upsert_deal_reason now) xs d) = pipelines d" for xs d
    by (induction xs arbitrary: d) (simp_all add: upsert_deal_reason_def)
  then show ?thesis by (simp add: sync_deal_reasons_def)
qed

lemma active_after_sync:
  assumes "map_of (pipelines (sync_pipelines_and_stages now ps db)) k = Some p"
    and "k \<in> cp_id ` set ps"
  shows "pl_is_active p \<longleftrightarrow> k \<notin> set EXCLUDED_PIPELINE_IDS"
  using assms unfolding sync_pipelines_and_stages_def
proof (induction ps rule: rev_induct)
  case (snoc q ps)
  then show ?case
    by (cases "cp_id q = k") (auto simp: pipelines_sync_pipeline update_conv' split: option.splits)
qed simp

text \<open>A reference sync never drops or overwrites what only the dashboard knows: every known
  pipeline keeps its view id. It does not refresh the row's \<open>updated_at\<close> either, which the
  data-freshness report reads as the time of the last sync. A pipeline the CRM returned is
  active unless it is on the exclusion list, and the resolver it answers with is that of
  the stored rows.\<close>

theorem reference_sync_pipelines:
  assumes "map_of (pipelines db) k = Some p"
  shows "\<exists>p'. map_of (pipelines (snd (run_reference_sync now ps own users rs db))) k = Some p' \<and>
    pl_view_id p' = pl_view_id p \<and> pl_updated_at p' = pl_updated_at p \<and>
    (k \<in> cp_id ` set ps \<longrightarrow> (pl_is_active p' \<longleftrightarrow> k \<notin> set EXCLUDED_PIPELINE_IDS)) \<and>
    fst (run_reference_sync now ps own users rs db) =
      build_stage_resolver (snd (run_reference_sync now ps own users rs db))"
proof -
  have "pipelines (snd (run_reference_sync now ps own users rs db)) =
      pipelines (sync_pipelines_and_stages now ps db)"
    by (simp add: run_reference_sync_def Let_def pipelines_sync_reasons pipelines_sync_owners)
  moreover obtain p' where "map_of (pipelines (sync_pipelines_and_stages now ps db)) k = Some p'"
    and "pl_view_id p' = pl_view_id p" and "pl_updated_at p' = pl_updated_at p"
    using keeps_manual_sync_pipelines [of db now ps] assms unfolding keeps_manual_def by blast
  ultimately show ?thesis
    using active_after_sync [of now ps db k p'] by (simp add: run_reference_sync_def Let_def)
qed

definition witness_pipeline :: pipeline where
  "witness_pipeline = \<lparr>pl_id = 7, pl_name = ''Sales'', pl_business_line = ''Unclassified'',
     pl_is_default = True, pl_is_active = True, pl_view_id = Some 99, pl_updated_at = 5\<rparr>"

theorem reference_sync_pipelines_witness:
  "\<exists>p'. map_of (pipelines (snd (run_reference_sync 1000
      [\<lparr>cp_id = 7, cp_name = ''Sales'', cp_default = Some True, cp_deal_stages = []\<rparr>] None None []
      \<lparr>pipelines = [(7, witness_pipeline)], stages = [], owners = [], deal_reasons = []\<rparr>))) 7 = Some p' \<and>
    pl_view_id p' = Some 99 \<and> pl_updated_at p' = 5 \<and> pl_is_active p'"
  using reference_sync_pipelines [of "\<lparr>pipelines = [(7, witness_pipeline)], stages = [], owners = [], deal_reasons = []\<rparr>"
    7 witness_pipeline 1000 "[\<lparr>cp_id = 7, cp_name = ''Sales'', cp_default = Some True, cp_deal_stages = []\<rparr>]" None None "[]"]
  by (auto simp: witness_pipeline_def EXCLUDED_PIPELINE_IDS_def)

end
