(* ===== verification/Client.thy ===== *)
theory Client
  imports Parsing
begin

section \<open>The CRM client\<close>

text \<open>
  Model of \<open>app/freshsales/client.py\<close> and \<open>app/freshsales/endpoints.py\<close>: the
  token bucket, which failures are retried and how long a retry waits, the pagination
  loops and the paths they ask for. Floating-point seconds and tokens are rationals. What
  the server answers, the clock and the exponential backoff of the retry library are
  arguments. A pagination loop is not bounded by the code, so it is a partial function:
  \<open>None\<close> is a loop that never ends.
\<close>

subsection \<open>Token bucket\<close>

record rate_limiter =
  rl_capacity :: rat
  rl_tokens :: rat
  rl_refill_rate :: rat
  rl_updated_at :: rat

definition new_limiter :: "int \<Rightarrow> rat \<Rightarrow> rate_limiter" where
  "new_limiter max_per_hour now =
     \<lparr>rl_capacity = of_int max_per_hour, rl_tokens = of_int max_per_hour,
      rl_refill_rate = of_int max_per_hour / 3600, rl_updated_at = now\<rparr>"

definition refill :: "rat \<Rightarrow> rate_limiter \<Rightarrow> rate_limiter" where
  "refill now l = l\<lparr>rl_tokens := min (rl_capacity l)
       (rl_tokens l + (now - rl_updated_at l) * rl_refill_rate l),
     rl_updated_at := now\<rparr>"

definition wait_time :: "rate_limiter \<Rightarrow> rat" where
  "wait_time l = (1 - rl_tokens l) / rl_refill_rate l"

text \<open>
  \<open>acquire\<close> on the readings of the clock its loop takes, one per iteration: the
  reading at which it returns, the limiter and the readings it left. The lock makes
  concurrent calls run one after the other.
\<close>

fun acquire :: "rat list \<Rightarrow> rate_limiter \<Rightarrow> (rat \<times> rate_limiter \<times> rat list) option" where
  "acquire [] l = None"
| "acquire (now # later) l =
     (let l' = refill now l in
      if 1 \<le> rl_tokens l' then Some (now, l'\<lparr>rl_tokens := rl_tokens l' - 1\<rparr>, later)
      else acquire later l')"

lemma acquire_shorter: "acquire cs l = Some (t, l', rest) \<Longrightarrow> length rest < length cs"
  by (induction cs l rule: acquire.induct) (auto simp: Let_def split: if_splits)

text \<open>The instants at which calls made one after the other return.\<close>

function grants :: "rat list \<Rightarrow> rate_limiter \<Rightarrow> rat list" where
  "grants cs l = (case acquire cs l of None \<Rightarrow> [] | Some (t, l', rest) \<Rightarrow> t # grants rest l')"
  by auto
termination by (relation "measure (length \<circ> fst)") (auto dest: acquire_shorter)

declare grants.simps [simp del]

subsection \<open>Retries\<close>

text \<open>A failed request: an error status with its \<open>Retry-After\<close> header, a transport failure, or another exception.\<close>

datatype client_error = HttpStatusError nat "string option" | TransportError | OtherError string

definition MAX_RETRY_AFTER_SECONDS :: rat where
  "MAX_RETRY_AFTER_SECONDS = 30"

fun retry_after_seconds :: "py_env \<Rightarrow> client_error \<Rightarrow> rat option" where
  "retry_after_seconds env (HttpStatusError code (Some raw)) = py_float env raw"
| "retry_after_seconds env _ = None"

fun is_retryable :: "py_env \<Rightarrow> client_error \<Rightarrow> bool" where
  "is_retryable env (HttpStatusError code hdr) =
     (if code = 429
      then (case retry_after_seconds env (HttpStatusError code hdr) of
              None \<Rightarrow> True | Some r \<Rightarrow> r \<le> MAX_RETRY_AFTER_SECONDS)
      else 500 \<le> code)"
| "is_retryable env TransportError = True"
| "is_retryable env (OtherError m) = False"

definition wait_strategy :: "py_env \<Rightarrow> (nat \<Rightarrow> rat) \<Rightarrow> nat \<Rightarrow> client_error \<Rightarrow> rat" where
  "wait_strategy env backoff attempt e =
     (case retry_after_seconds env e of
        Some r \<Rightarrow> min r MAX_RETRY_AFTER_SECONDS
      | None \<Rightarrow> backoff attempt)"

text \<open>
  \<open>@retry(stop_after_attempt(4), reraise=True)\<close>: \<open>send n\<close> is the outcome of attempt
  \<open>n\<close>; the result is the outcome the caller sees and the waits before each retry.
\<close>

definition MAX_ATTEMPTS :: nat where "MAX_ATTEMPTS = 4"

function with_retry ::
    "py_env \<Rightarrow> (nat \<Rightarrow> rat) \<Rightarrow> (nat \<Rightarrow> client_error + 'a) \<Rightarrow> nat \<Rightarrow> (client_error + 'a) \<times> rat list" where
  "with_retry env backoff send n =
     (case send n of
        Inr x \<Rightarrow> (Inr x, [])
      | Inl e \<Rightarrow>
          if is_retryable env e \<and> n < MAX_ATTEMPTS
          then (let (r, ws) = with_retry env backoff send (Suc n)
                in (r, wait_strategy env backoff n e # ws))
          else (Inl e, []))"
  by pat_completeness auto
termination by (relation "measure (\<lambda>(env, backoff, send, n). MAX_ATTEMPTS - n)") auto

declare with_retry.simps [simp del]

definition request_get ::
    "py_env \<Rightarrow> (nat \<Rightarrow> rat) \<Rightarrow> (nat \<Rightarrow> client_error + 'a) \<Rightarrow> (client_error + 'a) \<times> rat list" where
  "request_get env backoff send = with_retry env backoff send 1"

definition request_post ::
    "py_env \<Rightarrow> (nat \<Rightarrow> rat) \<Rightarrow> (nat \<Rightarrow> client_error + 'a) \<Rightarrow> (client_error + 'a) \<times> rat list" where
  "request_post env backoff send = with_retry env backoff send 1"

text \<open>Deletion is not retried, and an unknown contact counts as deleted.\<close>

definition delete_contact :: "client_error + unit \<Rightarrow> client_error + unit" where
  "delete_contact response =
     (case response of
        Inl (HttpStatusError code hdr) \<Rightarrow> (if code = 404 then Inr () else Inl (HttpStatusError code hdr))
      | r \<Rightarrow> r)"

text \<open>The double nesting of the lookup's answer is read by the argument; empty or absent is \<open>None\<close>.\<close>

definition lookup_contact :: "client_error + 'c list option \<Rightarrow> client_error + 'c option" where
  "lookup_contact response =
     rbind response (\<lambda>cs. Inr (case or_list cs [] of [] \<Rightarrow> None | c # _ \<Rightarrow> Some c))"

subsection \<open>Paths\<close>

definition API :: string where "API = ''/crm/sales/api''"

text \<open>\<open>urllib.parse.quote\<close> on ASCII text: letters, digits and \<open>_.-~/\<close> stay.\<close>

definition url_safe :: "char \<Rightarrow> bool" where
  "url_safe c \<longleftrightarrow> is_digit c \<or> (CHR ''a'' \<le> c \<and> c \<le> CHR ''z'') \<or> (CHR ''A'' \<le> c \<and> c \<le> CHR ''Z'')
     \<or> c \<in> set ''_.-~/''"

definition hex_digit :: "nat \<Rightarrow> char" where
  "hex_digit n = ''0123456789ABCDEF'' ! n"

definition quote_char :: "char \<Rightarrow> string" where
  "quote_char c = (if url_safe c then [c]
     else [CHR ''%'', hex_digit (of_char c div 16), hex_digit (of_char c mod 16)])"

definition url_quote :: "string \<Rightarrow> string" where
  "url_quote s = concat (map quote_char s)"

definition deals_view :: "int \<Rightarrow> nat \<Rightarrow> string" where
  "deals_view view_id page = API @ ''/deals/view/'' @ show_int view_id @
     ''?include=owner,deal_reason&page='' @ show_nat page"

definition deal_detail :: "int \<Rightarrow> string" where
  "deal_detail deal_id = API @ ''/deals/'' @ show_int deal_id @ ''?include=owner,deal_reason''"

definition filtered_search_deal :: "nat \<Rightarrow> string" where
  "filtered_search_deal page = API @ ''/filtered_search/deal?page='' @ show_nat page"

definition deal_timeline_feeds :: "int \<Rightarrow> nat \<Rightarrow> string" where
  "deal_timeline_feeds deal_id page = API @ ''/deals/'' @ show_int deal_id @
     ''/timeline_feeds?page='' @ show_nat page"

definition deal_notes :: "int \<Rightarrow> string" where
  "deal_notes deal_id = API @ ''/deals/'' @ show_int deal_id @ ''/notes''"

definition deal_tasks :: "int \<Rightarrow> string" where
  "deal_tasks deal_id = ''/crm/sales/deals/'' @ show_int deal_id @ ''/tasks''"

definition deal_conversations :: "int \<Rightarrow> string" where
  "deal_conversations deal_id = ''/crm/sales/deals/'' @ show_int deal_id @ ''/conversations/all''"

definition contact_delete :: "int \<Rightarrow> string" where
  "contact_delete contact_id = API @ ''/contacts/'' @ show_int contact_id"

definition lookup_contact_by_email :: "string \<Rightarrow> string" where
  "lookup_contact_by_email email = API @ ''/lookup?q='' @ url_quote email @ ''&f=email&entities=contact''"

definition contact_detail :: "int \<Rightarrow> string" where
  "contact_detail contact_id = API @ ''/contacts/'' @ show_int contact_id @ ''?include=owner''"

definition contact_conversations :: "int \<Rightarrow> string" where
  "contact_conversations contact_id = ''/crm/sales/contacts/'' @ show_int contact_id @ ''/conversations/all''"

definition contact_notes :: "int \<Rightarrow> string" where
  "contact_notes contact_id = API @ ''/contacts/'' @ show_int contact_id @ ''/notes''"

definition sales_activities :: "nat \<Rightarrow> string" where
  "sales_activities page = API @ ''/sales_activities?include=targetable,owner&page='' @ show_nat page"

subsection \<open>Pagination\<close>

text \<open>
  What the loops read of an answer: the list (an absent one is empty), \<open>meta.total\<close> and
  \<open>meta.has_next\<close>. The outcome of a generator is what it yields and the exception
  that ended it, if one did.
\<close>

record 'a page =
  pg_items :: "'a list"
  pg_total :: "int option"
  pg_has_next :: bool

type_synonym 'a yielded = "'a list \<times> client_error option"

text \<open>Until an empty page.\<close>

partial_function (option) paginate_view_from ::
    "(nat \<Rightarrow> client_error + 'a page) \<Rightarrow> nat \<Rightarrow> 'a yielded option" where
  "paginate_view_from fetch page =
     (case fetch page of
        Inl e \<Rightarrow> Some ([], Some e)
      | Inr body \<Rightarrow>
          if pg_items body = [] then Some ([], None)
          else Option.bind (paginate_view_from fetch (page + 1)) (\<lambda>(ys, e). Some (pg_items body @ ys, e)))"

definition paginate_view :: "(nat \<Rightarrow> client_error + 'a page) \<Rightarrow> 'a yielded option" where
  "paginate_view fetch = paginate_view_from fetch 1"

text \<open>Until an empty page or as many records as the answer announces in total.\<close>

partial_function (option) paginate_total_from ::
    "(nat \<Rightarrow> client_error + 'a page) \<Rightarrow> nat \<Rightarrow> int \<Rightarrow> 'a yielded option" where
  "paginate_total_from fetch page seen =
     (case fetch page of
        Inl e \<Rightarrow> Some ([], Some e)
      | Inr body \<Rightarrow>
          if pg_items body = [] then Some ([], None)
          else if (case pg_total body of None \<Rightarrow> False | Some n \<Rightarrow> n \<le> seen + int (length (pg_items body)))
          then Some (pg_items body, None)
          else Option.bind (paginate_total_from fetch (page + 1) (seen + int (length (pg_items body))))
                 (\<lambda>(ys, e). Some (pg_items body @ ys, e)))"

declare paginate_total_from.simps [code]

definition iter_pipeline_deal_ids :: "(nat \<Rightarrow> client_error + 'a page) \<Rightarrow> 'a yielded option" where
  "iter_pipeline_deal_ids fetch = paginate_total_from fetch 1 0"

definition iter_sales_activities :: "(nat \<Rightarrow> client_error + 'a page) \<Rightarrow> 'a yielded option" where
  "iter_sales_activities fetch = paginate_total_from fetch 1 0"

text \<open>While the answer says there is a next page; an empty page does not stop it.\<close>

partial_function (option) paginate_timeline_from ::
    "(nat \<Rightarrow> client_error + 'a page) \<Rightarrow> nat \<Rightarrow> 'a yielded option" where
  "paginate_timeline_from fetch page =
     (case fetch page of
        Inl e \<Rightarrow> Some ([], Some e)
      | Inr body \<Rightarrow>
          if \<not> pg_has_next body then Some (pg_items body, None)
          else Option.bind (paginate_timeline_from fetch (page + 1)) (\<lambda>(ys, e). Some (pg_items body @ ys, e)))"

definition paginate_timeline :: "(nat \<Rightarrow> client_error + 'a page) \<Rightarrow> 'a yielded option" where
  "paginate_timeline fetch = paginate_timeline_from fetch 1"

end
