(* ===== verification/Client_Safety.thy ===== *)
theory Client_Safety
  imports Client
begin

section \<open>What the CRM client guarantees\<close>

text \<open>
  The token bucket bounds the calls of every window and never starves a caller; a request
  is tried at most four times; a pagination loop yields every record once, in order, and
  ends.
\<close>

subsection \<open>Token bucket\<close>

definition take_token :: "rate_limiter \<Rightarrow> rate_limiter" where
  "take_token l = l\<lparr>rl_tokens := rl_tokens l - 1\<rparr>"

definition ok_limiter :: "rate_limiter \<Rightarrow> bool" where
  "ok_limiter l \<longleftrightarrow> 0 \<le> rl_tokens l \<and> rl_tokens l \<le> rl_capacity l \<and> 0 \<le> rl_refill_rate l"

lemma grants_Nil [simp]: "grants [] l = []"
  by (simp add: grants.simps)

lemma grants_Cons:
  "grants (now # cs) l = (if 1 \<le> rl_tokens (refill now l)
     then now # grants cs (take_token (refill now l)) else grants cs (refill now l))"
  by (simp add: grants.simps [of "now # cs"] grants.simps [of cs "refill now l"] Let_def take_token_def)

lemma refill_fields [simp]:
  "rl_capacity (refill now l) = rl_capacity l" "rl_refill_rate (refill now l) = rl_refill_rate l"
  "rl_updated_at (refill now l) = now"
  by (simp_all add: refill_def)

lemma take_token_fields [simp]:
  "rl_capacity (take_token l) = rl_capacity l" "rl_refill_rate (take_token l) = rl_refill_rate l"
  "rl_updated_at (take_token l) = rl_updated_at l" "rl_tokens (take_token l) = rl_tokens l - 1"
  by (simp_all add: take_token_def)

lemma ok_refill: "ok_limiter l \<Longrightarrow> rl_updated_at l \<le> now \<Longrightarrow> ok_limiter (refill now l)"
  by (simp add: ok_limiter_def refill_def)

lemma ok_take_token: "ok_limiter l \<Longrightarrow> 1 \<le> rl_tokens l \<Longrightarrow> ok_limiter (take_token l)"
  by (simp add: ok_limiter_def)

lemma refill_tokens_le:
  "rl_tokens (refill now l) \<le> rl_tokens l + (now - rl_updated_at l) * rl_refill_rate l"
  by (simp add: refill_def)

lemma refill_tokens_cap: "rl_tokens (refill now l) \<le> rl_capacity l"
  by (simp add: refill_def)

definition window :: "rat \<Rightarrow> rat \<Rightarrow> rat list \<Rightarrow> nat" where
  "window a b ts = length (filter (\<lambda>t. a \<le> t \<and> t \<le> b) ts)"

lemma window_Cons [simp]: "window a b (t # ts) = (if a \<le> t \<and> t \<le> b then Suc (window a b ts) else window a b ts)"
  by (simp add: window_def)

lemma window_Nil [simp]: "window a b [] = 0"
  by (simp add: window_def)

lemma grants_subset: "set (grants cs l) \<subseteq> set cs"
  by (induction cs arbitrary: l) (auto simp: grants_Cons)

lemma window_empty: "\<forall>c \<in> set cs. b < c \<Longrightarrow> window a b (grants cs l) = 0"
  using grants_subset [of cs l] by (fastforce simp: window_def filter_empty_conv)

text \<open>Inside the window the calls are paid by the tokens at hand and the refill since.\<close>

lemma window_inside:
  assumes "ok_limiter l" and "sorted (rl_updated_at l # cs)" and "rl_updated_at l \<le> b"
  shows "of_nat (window a b (grants cs l)) \<le> rl_tokens l + (b - rl_updated_at l) * rl_refill_rate l"
  using assms
proof (induction cs arbitrary: l)
  case Nil
  then show ?case by (simp add: ok_limiter_def)
next
  case (Cons now cs)
  show ?case
  proof (cases "now \<le> b")
    case False
    with Cons.prems have "\<forall>c \<in> set (now # cs). b < c" by auto
    with Cons.prems show ?thesis by (simp add: window_empty ok_limiter_def)
  next
    case True
    let ?r = "refill now l"
    from Cons.prems have ok: "ok_limiter ?r" by (simp add: ok_refill)
    have tok: "rl_tokens ?r + (b - now) * rl_refill_rate l \<le> rl_tokens l + (b - rl_updated_at l) * rl_refill_rate l"
      using refill_tokens_le [of now l] by (simp add: algebra_simps)
    show ?thesis
    proof (cases "1 \<le> rl_tokens ?r")
      case False
      have "of_nat (window a b (grants cs ?r)) \<le> rl_tokens ?r + (b - now) * rl_refill_rate l"
        using Cons.IH [of ?r] ok Cons.prems True by simp
      with False tok show ?thesis by (simp add: grants_Cons)
    next
      case True2: True
      have "of_nat (window a b (grants cs (take_token ?r))) \<le> rl_tokens ?r - 1 + (b - now) * rl_refill_rate l"
        using Cons.IH [of "take_token ?r"] ok_take_token [OF ok True2] Cons.prems True by simp
      with True2 tok show ?thesis by (simp add: grants_Cons)
    qed
  qed
qed

lemma window_bound:
  assumes "ok_limiter l" and "sorted (rl_updated_at l # cs)" and "a \<le> b"
  shows "of_nat (window a b (grants cs l)) \<le> rl_capacity l + (b - a) * rl_refill_rate l"
  using assms
proof (induction cs arbitrary: l)
  case Nil
  then show ?case by (simp add: ok_limiter_def)
next
  case (Cons now cs)
  let ?r = "refill now l"
  from Cons.prems have ok: "ok_limiter ?r" by (simp add: ok_refill)
  show ?case
  proof (cases "a \<le> now \<and> now \<le> b")
    case False
    then have "window a b (grants (now # cs) l) = window a b (grants cs (if 1 \<le> rl_tokens ?r then take_token ?r else ?r))"
      by (auto simp: grants_Cons)
    moreover have "ok_limiter (if 1 \<le> rl_tokens ?r then take_token ?r else ?r)"
      using ok ok_take_token by auto
    ultimately show ?thesis
      using Cons.IH [of "if 1 \<le> rl_tokens ?r then take_token ?r else ?r"] Cons.prems by (simp split: if_splits)
  next
    case True
    have r0: "0 \<le> rl_refill_rate l" using Cons.prems by (simp add: ok_limiter_def)
    have le: "(b - now) * rl_refill_rate l \<le> (b - a) * rl_refill_rate l"
      using True r0 by (intro mult_right_mono) auto
    have srt: "sorted (now # cs)" using Cons.prems by simp
    show ?thesis
    proof (cases "1 \<le> rl_tokens ?r")
      case False
      have "of_nat (window a b (grants cs ?r)) \<le> rl_tokens ?r + (b - now) * rl_refill_rate l"
        using window_inside [of ?r cs b a] ok srt True by simp
      with False le refill_tokens_cap [of now l] show ?thesis by (simp add: grants_Cons)
    next
      case True2: True
      have "of_nat (window a b (grants cs (take_token ?r))) \<le> rl_tokens ?r - 1 + (b - now) * rl_refill_rate l"
        using window_inside [of "take_token ?r" cs b a] ok_take_token [OF ok True2] srt True by simp
      with True2 True le refill_tokens_cap [of now l] show ?thesis by (simp add: grants_Cons)
    qed
  qed
qed

lemma ok_new_limiter: "0 < n \<Longrightarrow> ok_limiter (new_limiter n start)"
  by (simp add: ok_limiter_def new_limiter_def)

text \<open>C7: whatever the clock and however callers queue up, at most \<open>n + n/3600 * (b - a)\<close> calls
  of one client get through between the instants \<open>a\<close> and \<open>b\<close>, for a limiter of \<open>n\<close>
  calls per hour.\<close>

theorem limiter_window_bound:
  assumes "0 < n" and "sorted (start # cs)" and "a \<le> b"
  shows "of_nat (length (filter (\<lambda>t. a \<le> t \<and> t \<le> b) (grants cs (new_limiter n start)))) \<le>
    (of_int n + (b - a) * (of_int n / 3600) :: rat)"
  using window_bound [OF ok_new_limiter [OF assms(1)], of start cs a b] assms
  by (simp add: window_def new_limiter_def)

theorem limiter_window_bound_witness:
  "of_nat (length (filter (\<lambda>t. 0 \<le> t \<and> t \<le> 3600) (grants [0, 1, 3600] (new_limiter 1000 0)))) \<le>
    (of_int 1000 + (3600 - 0) * (of_int 1000 / 3600) :: rat)"
  by (rule limiter_window_bound) simp_all

lemma new_limiter_fields [simp]:
  "rl_capacity (new_limiter n t) = of_int n" "rl_tokens (new_limiter n t) = of_int n"
  "rl_refill_rate (new_limiter n t) = of_int n / 3600" "rl_updated_at (new_limiter n t) = t"
  by (simp_all add: new_limiter_def)

lemma refill_full: "rl_updated_at l = t \<Longrightarrow> rl_tokens l \<le> rl_capacity l \<Longrightarrow> rl_tokens (refill t l) = rl_tokens l"
  by (simp add: refill_def)

text \<open>A burst at one instant drains a bucket that holds enough.\<close>

lemma burst:
  assumes "of_nat m \<le> rl_tokens (refill t l)" and "rl_tokens (refill t l) \<le> rl_capacity l"
  shows "\<exists>l'. grants (replicate m t @ cs) l = replicate m t @ grants cs l' \<and>
    rl_capacity l' = rl_capacity l \<and> rl_refill_rate l' = rl_refill_rate l \<and>
    rl_tokens (refill t l') = rl_tokens (refill t l) - of_nat m \<and> (m = 0 \<or> rl_updated_at l' = t)"
  using assms
proof (induction m arbitrary: l)
  case 0
  then show ?case by (intro exI [of _ l]) simp
next
  case (Suc m)
  let ?l = "take_token (refill t l)"
  have one: "1 \<le> rl_tokens (refill t l)" using Suc.prems by simp
  have tok: "rl_tokens (refill t ?l) = rl_tokens (refill t l) - 1"
    using Suc.prems by (subst refill_full) simp_all
  obtain l' where "grants (replicate m t @ cs) ?l = replicate m t @ grants cs l'"
    and "rl_capacity l' = rl_capacity ?l" and "rl_refill_rate l' = rl_refill_rate ?l"
    and "rl_tokens (refill t l') = rl_tokens (refill t ?l) - of_nat m" and "m = 0 \<or> rl_updated_at l' = t"
    using Suc.IH [of ?l] Suc.prems tok by auto
  then show ?case
  proof (cases "m = 0")
    case True
    with one tok show ?thesis by (intro exI [of _ ?l]) (simp add: grants_Cons)
  next
    case False
    with \<open>m = 0 \<or> rl_updated_at l' = t\<close> show ?thesis
      using one tok \<open>grants _ _ = _ @ _\<close> \<open>rl_capacity l' = _\<close> \<open>rl_refill_rate l' = _\<close> \<open>rl_tokens (refill t l') = _\<close>
      by (intro exI [of _ l']) (simp add: grants_Cons)
  qed
qed

text \<open>The hourly limit itself is not kept: a fresh bucket of \<open>n\<close> calls per hour lets \<open>n\<close>
  calls through at once and, refilled, \<open>n\<close> more at the end of the same hour, \<open>2 n\<close> in all.\<close>

theorem limiter_doubles_hourly_cap:
  "grants (replicate n 0 @ replicate n 3600) (new_limiter (int n) 0) = replicate n 0 @ replicate n 3600"
proof (cases "n = 0")
  case True
  then show ?thesis by simp
next
  case False
  have t0: "rl_tokens (refill 0 (new_limiter (int n) 0)) = of_nat n" by (simp add: refill_def)
  obtain l' where g: "grants (replicate n 0 @ replicate n 3600) (new_limiter (int n) 0) =
      replicate n 0 @ grants (replicate n 3600) l'"
    and cap: "rl_capacity l' = of_nat n" and rate: "rl_refill_rate l' = of_nat n / 3600"
    and tok: "rl_tokens (refill 0 l') = 0" and upd: "rl_updated_at l' = 0"
    using burst [of n 0 "new_limiter (int n) 0" "replicate n 3600"] t0 False by auto
  from tok upd cap have "min (of_nat n) (rl_tokens l') = 0" by (simp add: refill_def)
  with False have "rl_tokens l' = 0" by (simp add: min_def split: if_splits)
  with cap rate upd have "rl_tokens (refill 3600 l') = of_nat n" by (simp add: refill_def)
  from burst [of n 3600 l' "[]"] this cap have "grants (replicate n 3600) l' = replicate n 3600" by auto
  with g show ?thesis by simp
qed

text \<open>With exact arithmetic no caller waits for ever: a call that finds the bucket short returns at its next look
  at the clock, provided the sleep lasted as long as it was asked to, and leaves the bucket
  between empty and full. (In floating point the bucket may be a rounding error short after
  exactly that sleep, and the call sleeps again for the rest.)\<close>

theorem acquire_returns:
  assumes "ok_limiter l" and "1 \<le> rl_capacity l" and "0 < rl_refill_rate l"
    and "rl_updated_at l \<le> now" and "now + wait_time (refill now l) \<le> later" and "now \<le> later"
  shows "\<exists>t l' rest. acquire [now, later] l = Some (t, l', rest) \<and> t \<in> {now, later} \<and> ok_limiter l'"
proof -
  let ?r = "refill now l"
  have ok: "ok_limiter ?r" using assms by (simp add: ok_refill)
  have okr: "ok_limiter (take_token x)" if "ok_limiter x" and "1 \<le> rl_tokens x" for x
    using ok_take_token that by blast
  show ?thesis
  proof (cases "1 \<le> rl_tokens ?r")
    case True
    with okr [OF ok] show ?thesis by (simp add: Let_def take_token_def)
  next
    case False
    from assms(5) have "wait_time ?r \<le> later - now" by simp
    then have "1 - rl_tokens ?r \<le> (later - now) * rl_refill_rate l"
      using assms(3) by (simp add: wait_time_def pos_divide_le_eq)
    then have "1 \<le> rl_tokens (refill later ?r)"
      using assms(2) by (simp add: refill_def [of later])
    moreover have "ok_limiter (refill later ?r)" using ok assms(6) by (simp add: ok_refill)
    ultimately show ?thesis using False okr [of "refill later ?r"] by (simp add: Let_def take_token_def)
  qed
qed

theorem acquire_returns_witness:
  "\<exists>t l' rest. acquire [10, 14] \<lparr>rl_capacity = 1000, rl_tokens = 0, rl_refill_rate = 1000 / 3600, rl_updated_at = 10\<rparr>
      = Some (t, l', rest) \<and> t \<in> {10, 14} \<and> ok_limiter l'"
  by (rule acquire_returns) (simp_all add: ok_limiter_def wait_time_def refill_def)

subsection \<open>Retries\<close>

lemma with_retry_outcome:
  assumes "n \<le> MAX_ATTEMPTS" and "\<And>k. backoff k \<le> MAX_RETRY_AFTER_SECONDS"
  shows "case with_retry env backoff send n of (r, ws) \<Rightarrow>
    n + length ws \<le> MAX_ATTEMPTS \<and> r = send (n + length ws) \<and>
    (\<forall>w \<in> set ws. w \<le> MAX_RETRY_AFTER_SECONDS) \<and>
    (\<forall>i < length ws. \<exists>e. send (n + i) = Inl e \<and> is_retryable env e) \<and>
    (\<forall>e. r = Inl e \<longrightarrow> n + length ws = MAX_ATTEMPTS \<or> \<not> is_retryable env e)"
  using assms
proof (induction env backoff send n rule: with_retry.induct)
  case (1 env backoff send n)
  show ?case
  proof (cases "\<exists>e. send n = Inl e \<and> is_retryable env e \<and> n < MAX_ATTEMPTS")
    case False
    with "1.prems"(1) show ?thesis
      by (subst with_retry.simps) (auto split: sum.splits)
  next
    case True
    then obtain e where e: "send n = Inl e" "is_retryable env e" "n < MAX_ATTEMPTS" by blast
    obtain r ws where rec: "with_retry env backoff send (Suc n) = (r, ws)" by fastforce
    with "1.IH" [OF e(1)] e "1.prems"(2) have IH: "Suc n + length ws \<le> MAX_ATTEMPTS" "r = send (Suc n + length ws)"
      "\<forall>w \<in> set ws. w \<le> MAX_RETRY_AFTER_SECONDS"
      "\<forall>i < length ws. \<exists>e. send (Suc n + i) = Inl e \<and> is_retryable env e"
      "\<forall>e. r = Inl e \<longrightarrow> Suc n + length ws = MAX_ATTEMPTS \<or> \<not> is_retryable env e" by auto
    have step: "with_retry env backoff send n = (r, wait_strategy env backoff n e # ws)"
      using e rec by (subst with_retry.simps) simp
    have w: "wait_strategy env backoff n e \<le> MAX_RETRY_AFTER_SECONDS"
      using "1.prems"(2) [of n] by (simp add: wait_strategy_def split: option.splits)
    have "\<exists>e. send (n + i) = Inl e \<and> is_retryable env e" if "i < Suc (length ws)" for i
      using that e IH(4) by (cases i) auto
    with step IH w show ?thesis by simp
  qed
qed

text \<open>C9: a request is sent at most four times, and again only after a retryable failure; no wait is
  longer than the cap if the backoff's own waits are not; the caller sees the outcome of the
  last attempt, and an error only if it is not retryable or the attempts are used up. A
  throttling answer that asks for a longer wait is never retried.\<close>

theorem request_get_outcome:
  assumes "\<And>k. backoff k \<le> MAX_RETRY_AFTER_SECONDS"
  shows "(case request_get env backoff send of (r, ws) \<Rightarrow>
      length ws \<le> 3 \<and> r = send (1 + length ws) \<and> sum_list (map (max 0) ws) \<le> 90 \<and>
      (\<forall>i < length ws. \<exists>e. send (1 + i) = Inl e \<and> is_retryable env e) \<and>
      (\<forall>e. r = Inl e \<longrightarrow> length ws = 3 \<or> \<not> is_retryable env e)) \<and>
    (\<forall>raw s. py_float env raw = Some s \<and> 30 < s \<longrightarrow> \<not> is_retryable env (HttpStatusError 429 (Some raw)))"
proof -
  obtain r ws where rw: "with_retry env backoff send 1 = (r, ws)" by fastforce
  from with_retry_outcome [where n = 1 and backoff = backoff and env = env and send = send] assms rw
  have *: "1 + length ws \<le> MAX_ATTEMPTS" "r = send (1 + length ws)"
    "\<forall>w \<in> set ws. w \<le> MAX_RETRY_AFTER_SECONDS"
    "\<forall>i < length ws. \<exists>e. send (1 + i) = Inl e \<and> is_retryable env e"
    "\<forall>e. r = Inl e \<longrightarrow> 1 + length ws = MAX_ATTEMPTS \<or> \<not> is_retryable env e"
    by (auto simp: MAX_ATTEMPTS_def)
  have "sum_list (map (max 0) ws) \<le> 30 * of_nat (length ws)"
    using *(3) by (induction ws) (auto simp: MAX_RETRY_AFTER_SECONDS_def algebra_simps max_def split: if_splits)
  moreover have "length ws \<le> 3" using *(1) by (simp add: MAX_ATTEMPTS_def)
  then have "(30 :: rat) * of_nat (length ws) \<le> 30 * 3" by (intro mult_left_mono) auto
  ultimately have "sum_list (map (max 0) ws) \<le> 90" by linarith
  with * show ?thesis
    by (auto simp: request_get_def rw [simplified] MAX_ATTEMPTS_def MAX_RETRY_AFTER_SECONDS_def)
qed

definition witness_env :: py_env where
  "witness_env = \<lparr>tz_offset = (\<lambda>_. 3600000000), local_offset = (\<lambda>_. 0),
     py_float = (\<lambda>s. if s = ''60'' then Some 60 else None)\<rparr>"

theorem request_get_outcome_witness:
  "(case request_get witness_env (\<lambda>_. 2) (\<lambda>k. if k < 3 then Inl (HttpStatusError 503 None) else Inr k) of (r, ws) \<Rightarrow>
      length ws \<le> 3 \<and> r = (if 1 + length ws < 3 then Inl (HttpStatusError 503 None) else Inr (1 + length ws)) \<and>
      sum_list (map (max 0) ws) \<le> 90) \<and>
   \<not> is_retryable witness_env (HttpStatusError 429 (Some ''60''))"
  using request_get_outcome [where backoff = "\<lambda>_. 2" and env = witness_env and send = "\<lambda>k. if k < 3 then Inl (HttpStatusError 503 None) else Inr k"]
  by (force simp: MAX_RETRY_AFTER_SECONDS_def witness_env_def)

subsection \<open>Pagination\<close>

text \<open>
  A server that has the records \<open>ps\<close> in non-empty pages and then answers \<open>stop\<close>: an
  empty page, or a failure.
\<close>

definition serve :: "'a page list \<Rightarrow> client_error option \<Rightarrow> nat \<Rightarrow> client_error + 'a page" where
  "serve ps stop k =
     (if k - 1 < length ps then Inr (ps ! (k - 1))
      else case stop of None \<Rightarrow> Inr \<lparr>pg_items = [], pg_total = None, pg_has_next = False\<rparr> | Some e \<Rightarrow> Inl e)"

lemma paginate_view_from_serve:
  assumes "list_all (\<lambda>p. pg_items p \<noteq> []) ps" and "k \<le> length ps"
  shows "paginate_view_from (serve ps stop) (Suc k) = Some (concat (map pg_items (drop k ps)), stop)"
  using assms(2)
proof (induction "length ps - k" arbitrary: k)
  case 0
  then show ?case
    by (subst paginate_view_from.simps) (simp add: serve_def split: option.splits)
next
  case (Suc m)
  then have k: "k < length ps" by simp
  with assms(1) have "pg_items (ps ! k) \<noteq> []" by (simp add: list_all_length)
  moreover have "paginate_view_from (serve ps stop) (Suc (Suc k)) =
      Some (concat (map pg_items (drop (Suc k) ps)), stop)"
    using Suc.hyps(1) [of "Suc k"] Suc.hyps(2) k by simp
  ultimately show ?case
    using k by (subst paginate_view_from.simps) (simp add: serve_def Cons_nth_drop_Suc [symmetric])
qed

lemma paginate_total_from_serve:
  assumes "list_all (\<lambda>p. pg_items p \<noteq> [] \<and>
      (pg_total p = None \<or> pg_total p = Some (int (length (concat (map pg_items ps)))))) ps"
    and "k \<le> length ps" and "seen = int (length (concat (map pg_items (take k ps))))"
  shows "paginate_total_from (serve ps stop) (Suc k) seen = Some (concat (map pg_items (drop k ps)),
    if k < length ps \<and> pg_total (last ps) \<noteq> None then None else stop)"
  using assms(2-)
proof (induction "length ps - k" arbitrary: k seen)
  case 0
  then show ?case
    by (subst paginate_total_from.simps) (simp add: serve_def split: option.splits)
next
  case (Suc m)
  then have k: "k < length ps" by simp
  let ?p = "ps ! k" and ?seen = "seen + int (length (pg_items (ps ! k)))"
  from k assms(1) have ne: "pg_items ?p \<noteq> []"
    and tot: "pg_total ?p = None \<or> pg_total ?p = Some (int (length (concat (map pg_items ps))))"
    by (auto simp: list_all_length)
  have seen': "?seen = int (length (concat (map pg_items (take (Suc k) ps))))"
    using Suc.prems(2) k by (simp add: take_Suc_conv_app_nth)
  have drop: "concat (map pg_items (drop k ps)) = pg_items ?p @ concat (map pg_items (drop (Suc k) ps))"
    using k by (simp add: Cons_nth_drop_Suc [symmetric])
  have all: "length (concat (map pg_items ps)) =
      length (concat (map pg_items (take (Suc k) ps))) + length (concat (map pg_items (drop (Suc k) ps)))"
    by (metis append_take_drop_id concat_append length_append map_append)
  have rest: "paginate_total_from (serve ps stop) (Suc (Suc k)) ?seen =
      Some (concat (map pg_items (drop (Suc k) ps)),
        if Suc k < length ps \<and> pg_total (last ps) \<noteq> None then None else stop)"
    using Suc.hyps(1) [of "Suc k" ?seen] Suc.hyps(2) k seen' by simp
  have here: "serve ps stop (Suc k) = Inr ?p" using k by (simp add: serve_def)
  have unfold: "paginate_total_from (serve ps stop) (Suc k) seen =
      (if (case pg_total ?p of None \<Rightarrow> False | Some n \<Rightarrow> n \<le> ?seen) then Some (pg_items ?p, None)
       else Option.bind (paginate_total_from (serve ps stop) (Suc (Suc k)) ?seen)
         (\<lambda>(ys, e). Some (pg_items ?p @ ys, e)))"
    using ne by (subst paginate_total_from.simps) (simp add: here)
  show ?case
  proof (cases "Suc k = length ps")
    case True
    then have "last ps = ?p" using k by (metis diff_Suc_1 last_conv_nth length_greater_0_conv less_Suc_eq_0_disj)
    moreover have "?seen = int (length (concat (map pg_items ps)))" using True seen' by simp
    ultimately show ?thesis
      using True k tot unfolding unfold drop rest by (cases "pg_total ?p") auto
  next
    case False
    then have "Suc k < length ps" using k by simp
    then have "pg_items (ps ! Suc k) \<noteq> []" using assms(1) by (simp add: list_all_length)
    then have "concat (map pg_items (drop (Suc k) ps)) \<noteq> []"
      using \<open>Suc k < length ps\<close> by (simp add: Cons_nth_drop_Suc [symmetric])
    then have "?seen < int (length (concat (map pg_items ps)))" using seen' all by simp
    then show ?thesis
      using \<open>Suc k < length ps\<close> k tot unfolding unfold drop rest by (cases "pg_total ?p") auto
  qed
qed

text \<open>C10: over a server that has its records in non-empty pages, each of which announces no total or
  the right one, the view loop ends and yields every record exactly once and in order, and a
  failure the server ends with reaches the caller after the records before it. The loop that
  reads the announced total yields the same records; it asks no further, and so meets no
  failure, exactly when the last page announces the total, and otherwise passes it on too.\<close>

theorem pagination_complete:
  assumes "list_all (\<lambda>p. pg_items p \<noteq> [] \<and>
      (pg_total p = None \<or> pg_total p = Some (int (length (concat (map pg_items ps)))))) ps"
  shows "paginate_view (serve ps stop) = Some (concat (map pg_items ps), stop) \<and>
    iter_pipeline_deal_ids (serve ps stop) = Some (concat (map pg_items ps),
      if ps \<noteq> [] \<and> pg_total (last ps) \<noteq> None then None else stop)"
proof -
  have "list_all (\<lambda>p. pg_items p \<noteq> []) ps" using assms by (auto simp: list_all_iff)
  from paginate_view_from_serve [OF this, of 0 stop]
  have "paginate_view (serve ps stop) = Some (concat (map pg_items ps), stop)"
    by (simp add: paginate_view_def)
  moreover from paginate_total_from_serve [OF assms, of 0 0 stop]
  have "iter_pipeline_deal_ids (serve ps stop) = Some (concat (map pg_items ps),
      if ps \<noteq> [] \<and> pg_total (last ps) \<noteq> None then None else stop)"
    by (simp add: iter_pipeline_deal_ids_def)
  ultimately show ?thesis ..
qed

theorem pagination_complete_witness:
  "paginate_view (serve [\<lparr>pg_items = [1, 2 :: int], pg_total = Some 3, pg_has_next = True\<rparr>,
      \<lparr>pg_items = [3], pg_total = None, pg_has_next = True\<rparr>] (Some TransportError)) = Some ([1, 2, 3], Some TransportError) \<and>
   iter_pipeline_deal_ids (serve [\<lparr>pg_items = [1, 2 :: int], pg_total = Some 3, pg_has_next = True\<rparr>,
      \<lparr>pg_items = [3], pg_total = None, pg_has_next = True\<rparr>] (Some TransportError)) = Some ([1, 2, 3], Some TransportError)"
  using pagination_complete [of "[\<lparr>pg_items = [1, 2 :: int], pg_total = Some 3, pg_has_next = True\<rparr>,
      \<lparr>pg_items = [3], pg_total = None, pg_has_next = True\<rparr>]" "Some TransportError"]
  by simp

end
