(* ===== verification/Deal_Sync.thy ===== *)
theory Deal_Sync
  imports Deals Client
begin

section \<open>Scheduled synchronisation from the CRM\<close>

text \<open>
  Model of \<open>app/services/deal_sync.py\<close>, \<open>task_sync.py\<close>, \<open>email_sync.py\<close>,
  \<open>timeline_backfill.py\<close>, \<open>daily_snapshot.py\<close> and of the repositories they write.
  A database session is its working state and the state of the last commit: an exception
  that leaves a job rolls the working state back.
\<close>

datatype sync_error = ClientError client_error | ParseError py_error

record 'db session =
  working :: 'db
  committed :: 'db

definition open_session :: "'db \<Rightarrow> 'db session" where
  "open_session db = \<lparr>working = db, committed = db\<rparr>"

definition commit :: "'db session \<Rightarrow> 'db session" where
  "commit s = s\<lparr>committed := working s\<rparr>"

definition modify :: "('db \<Rightarrow> 'db) \<Rightarrow> 'db session \<Rightarrow> 'db session" where
  "modify f s = s\<lparr>working := f (working s)\<rparr>"

lemma session_simps [simp]:
  "working (open_session db) = db" "committed (open_session db) = db"
  "working (commit s) = working s" "committed (commit s) = working s"
  "working (modify f s) = f (working s)" "committed (modify f s) = committed s"
  by (simp_all add: open_session_def commit_def modify_def)

subsection \<open>Deals\<close>

text \<open>What the mapping reads of a deals/view record; \<open>vd_raw\<close> is the record itself.\<close>

record view_deal =
  vd_id :: "int option"
  vd_deal_pipeline_id :: "int option"
  vd_deal_stage_id :: "int option"
  vd_stage_id :: "int option"
  vd_owner_id :: "int option"
  vd_name :: "string option"
  vd_amount :: "rat option"
  vd_base_currency_amount :: "rat option"
  vd_expected_close :: "string option"
  vd_stage_updated_time :: "string option"
  vd_created_at :: "string option"
  vd_deal_reason_id :: "int option"
  vd_age :: "int option"
  vd_rotten_days :: "int option"
  vd_sales_account :: "(int option \<times> string option) option"
  vd_sales_account_id :: "int option"
  vd_sales_account_name :: "string option"
  vd_custom_field :: "json dict option"
  vd_custom_fields :: "json dict option"
  vd_raw :: "json dict"

text \<open>\<open>a or b\<close> on optional integers: zero is false.\<close>

definition or_int :: "int option \<Rightarrow> int option \<Rightarrow> int option" where
  "or_int a b = (if a = None \<or> a = Some 0 then b else a)"

definition view_custom_fields :: "view_deal \<Rightarrow> json dict" where
  "view_custom_fields d = or_list (vd_custom_field d) (or_list (vd_custom_fields d) [])"

definition extract_sales_account :: "view_deal \<Rightarrow> int option \<times> string option" where
  "extract_sales_account d =
     (case vd_sales_account d of Some acc \<Rightarrow> acc
      | None \<Rightarrow> (vd_sales_account_id d, vd_sales_account_name d))"

definition parse_view_deal :: "py_env \<Rightarrow> view_deal \<Rightarrow> py_error + deal_data" where
  "parse_view_deal env d =
     (let (curated, remaining) = split_custom_fields env (view_custom_fields d);
          (acc_id, acc_name) = extract_sales_account d
      in rbind (parse_iso_date (vd_expected_close d)) (\<lambda>close.
         rbind (parse_iso_timestamp env (vd_stage_updated_time d)) (\<lambda>stage_at.
         rbind (parse_iso_timestamp env (vd_created_at d)) (\<lambda>created.
         case vd_id d of
           None \<Rightarrow> Inl (KeyError ''id'')
         | Some k \<Rightarrow> Inr
             \<lparr>dd_deal_id = k, dd_pipeline_id = vd_deal_pipeline_id d,
              dd_stage_id = or_int (vd_deal_stage_id d) (vd_stage_id d), dd_owner_id = vd_owner_id d,
              dd_cols = not_none
                ([(''name'', map_option CStr (vd_name d)),
                  (''amount'', map_option CNum (vd_amount d)),
                  (''base_currency_amount'', map_option CNum (vd_base_currency_amount d)),
                  (''expected_close_date'', map_option CDate close),
                  (''stage_updated_at'', map_option CTime stage_at),
                  (''deal_created_at'', map_option CTime created),
                  (''lost_reason_id'', map_option CInt (vd_deal_reason_id d)),
                  (''age_days'', map_option CInt (vd_age d)),
                  (''rotten_days'', map_option CInt (vd_rotten_days d)),
                  (''sales_account_id'', map_option CInt acc_id),
                  (''sales_account_name'', map_option CStr acc_name),
                  (''custom_fields'', Some (CJson (JObj remaining))),
                  (''raw_payload'', Some (CJson (JObj (vd_raw d))))] @ curated)\<rparr>))))"

definition COMMIT_BATCH_SIZE :: nat where "COMMIT_BATCH_SIZE = 25"

record sync_state =
  sy_session :: "deal_db session"
  sy_synced :: nat
  sy_skipped :: nat

text \<open>Reference values without a row are removed from the data.\<close>

definition known :: "int set \<Rightarrow> int option \<Rightarrow> int option" where
  "known ks x = (case x of None \<Rightarrow> None | Some k \<Rightarrow> (if k \<in> ks then Some k else None))"

definition active_pipeline_ids :: "ref_db \<Rightarrow> int set" where
  "active_pipeline_ids ref = pl_id ` set (list_pipelines True ref)"

definition drop_unknown :: "ref_db \<Rightarrow> deal_data \<Rightarrow> deal_data" where
  "drop_unknown ref d = d\<lparr>dd_stage_id := known (st_id ` set (list_stages None ref)) (dd_stage_id d),
     dd_owner_id := known (ow_id ` set (list_owners False ref)) (dd_owner_id d)\<rparr>"

definition sync_deal ::
    "py_env \<Rightarrow> time \<Rightarrow> ref_db \<Rightarrow> view_deal \<Rightarrow> sync_state \<Rightarrow> sync_state \<times> sync_error option" where
  "sync_deal env now ref d st =
     (if known (active_pipeline_ids ref) (vd_deal_pipeline_id d) = None
      then (st\<lparr>sy_skipped := sy_skipped st + 1\<rparr>, None)
      else case parse_view_deal env d of
        Inl e \<Rightarrow> (st, Some (ParseError e))
      | Inr data \<Rightarrow>
          let ses = modify (upsert_deal now (drop_unknown ref data)) (sy_session st);
              n = sy_synced st + 1
          in (st\<lparr>sy_session := (if n mod COMMIT_BATCH_SIZE = 0 then commit ses else ses), sy_synced := n\<rparr>, None))"

text \<open>\<open>async for x in xs: step(x)\<close>, ended by an exception of the body or of the generator.\<close>

fun for_each :: "('a \<Rightarrow> 's \<Rightarrow> 's \<times> 'e option) \<Rightarrow> 'a list \<Rightarrow> 'e option \<Rightarrow> 's \<Rightarrow> 's \<times> 'e option" where
  "for_each step [] fin st = (st, fin)"
| "for_each step (x # xs) fin st =
     (case step x st of
        (st', Some e) \<Rightarrow> (st', Some e)
      | (st', None) \<Rightarrow> for_each step xs fin st')"

definition and_commit :: "sync_state \<times> sync_error option \<Rightarrow> sync_state \<times> sync_error option" where
  "and_commit r = (case r of (st, Some e) \<Rightarrow> (st, Some e)
     | (st, None) \<Rightarrow> (st\<lparr>sy_session := commit (sy_session st)\<rparr>, None))"

text \<open>The answers of the CRM: the records of a view, the ids of a pipeline, one record.\<close>

record crm =
  crm_view :: "int \<Rightarrow> view_deal yielded"
  crm_pipeline_ids :: "int \<Rightarrow> int yielded"
  crm_deal :: "int \<Rightarrow> client_error + view_deal"

definition sync_view ::
    "py_env \<Rightarrow> time \<Rightarrow> ref_db \<Rightarrow> crm \<Rightarrow> int \<Rightarrow> sync_state \<Rightarrow> sync_state \<times> sync_error option" where
  "sync_view env now ref c v st =
     (case crm_view c v of (ds, fin) \<Rightarrow>
        and_commit (for_each (sync_deal env now ref) ds (map_option ClientError fin) st))"

definition fetch_and_sync ::
    "py_env \<Rightarrow> time \<Rightarrow> ref_db \<Rightarrow> crm \<Rightarrow> int \<Rightarrow> sync_state \<Rightarrow> sync_state \<times> sync_error option" where
  "fetch_and_sync env now ref c k st =
     (case crm_deal c k of Inl e \<Rightarrow> (st, Some (ClientError e)) | Inr d \<Rightarrow> sync_deal env now ref d st)"

definition sync_other_pipeline ::
    "py_env \<Rightarrow> time \<Rightarrow> ref_db \<Rightarrow> crm \<Rightarrow> pipeline \<Rightarrow> sync_state \<Rightarrow> sync_state \<times> sync_error option" where
  "sync_other_pipeline env now ref c p st =
     (if pl_is_default p then (st, None)
      else case crm_pipeline_ids c (pl_id p) of (ks, fin) \<Rightarrow>
        and_commit (for_each (fetch_and_sync env now ref c) ks (map_option ClientError fin) st))"

definition run_deal_sync ::
    "py_env \<Rightarrow> time \<Rightarrow> int list \<Rightarrow> ref_db \<Rightarrow> crm \<Rightarrow> deal_db \<Rightarrow> sync_state \<times> sync_error option" where
  "run_deal_sync env now view_ids ref c db =
     (case for_each (sync_view env now ref c) view_ids None
         \<lparr>sy_session = open_session db, sy_synced = 0, sy_skipped = 0\<rparr> of
        (st, Some e) \<Rightarrow> (st, Some e)
      | (st, None) \<Rightarrow> for_each (sync_other_pipeline env now ref c) (list_pipelines True ref) None st)"

subsection \<open>Tasks and e-mails of open deals\<close>

record crm_task =
  ct_id :: int
  ct_owner_id :: "int option"
  ct_title :: "string option"
  ct_status :: json
  ct_due_date :: "string option"
  ct_completed_date :: "string option"

record task_snapshot =
  tk_task_id :: int
  tk_deal_id :: "int option"
  tk_owner_id :: "int option"
  tk_title :: "string option"
  tk_status :: string
  tk_due_date :: "time option"
  tk_completed_date :: "time option"
  tk_last_synced_at :: time

definition task_status :: "crm_task \<Rightarrow> string" where
  "task_status t =
     (if truthy (ct_completed_date t) \<or>
         ct_status t \<in> {JInt 1, JStr ''1'', JInt 2, JStr ''2'', JStr ''completed''}
           \<union> {JBool True, JFloat 1, JFloat 2}
      then ''completed'' else ''open'')"

definition parse_task :: "py_env \<Rightarrow> time \<Rightarrow> crm_task \<Rightarrow> int \<Rightarrow> py_error + task_snapshot" where
  "parse_task env now t deal_id =
     rbind (parse_iso_timestamp env (ct_due_date t)) (\<lambda>due.
     rbind (if task_status t = ''completed'' then parse_iso_timestamp env (ct_completed_date t) else Inr None) (\<lambda>done.
     Inr \<lparr>tk_task_id = ct_id t, tk_deal_id = Some deal_id, tk_owner_id = ct_owner_id t,
          tk_title = ct_title t, tk_status = task_status t, tk_due_date = due,
          tk_completed_date = done, tk_last_synced_at = now\<rparr>))"

text \<open>The conflict clause sets the columns of the data, so \<open>last_synced_at\<close> stays.\<close>

definition upsert_task :: "task_snapshot \<Rightarrow> (int \<times> task_snapshot) list \<Rightarrow> (int \<times> task_snapshot) list" where
  "upsert_task t ts = AList.update (tk_task_id t)
     (case map_of ts (tk_task_id t) of
        None \<Rightarrow> t
      | Some old \<Rightarrow> t\<lparr>tk_last_synced_at := tk_last_synced_at old\<rparr>) ts"

record crm_conversation =
  cv_conversation_time :: "string option"
  cv_direction :: "string option"
  cv_subject :: "string option"
  cv_raw :: "json dict"

record email_activity =
  em_deal_id :: int
  em_direction :: string
  em_conversation_time :: time
  em_subject :: "string option"
  em_raw_payload :: "json dict"

definition HEAVY_EMAIL_FIELDS :: "string list" where
  "HEAVY_EMAIL_FIELDS = [''html_content'', ''current_html_content'', ''display_content'',
     ''shrink_content'', ''attachments'', ''conversation_meta'']"

definition parse_email :: "py_env \<Rightarrow> crm_conversation \<Rightarrow> int \<Rightarrow> py_error + email_activity option" where
  "parse_email env c deal_id =
     rbind (parse_iso_timestamp env (cv_conversation_time c)) (\<lambda>ts.
       Inr (map_option (\<lambda>t.
         \<lparr>em_deal_id = deal_id, em_direction = or_list (cv_direction c) ''unknown'',
          em_conversation_time = t, em_subject = cv_subject c,
          em_raw_payload = filter (\<lambda>(k, v). k \<notin> set HEAVY_EMAIL_FIELDS) (cv_raw c)\<rparr>) ts))"

text \<open>The rows of \<open>email_activity\<close> without their generated keys, which nothing refers to.\<close>

definition replace_deal_emails :: "int \<Rightarrow> email_activity list \<Rightarrow> email_activity list \<Rightarrow> email_activity list" where
  "replace_deal_emails deal_id rs ems = filter (\<lambda>e. em_deal_id e \<noteq> deal_id) ems @ rs"

fun parse_all :: "('a \<Rightarrow> py_error + 'b) \<Rightarrow> 'a list \<Rightarrow> py_error + 'b list" where
  "parse_all f [] = Inr []"
| "parse_all f (x # xs) = rbind (f x) (\<lambda>y. rbind (parse_all f xs) (\<lambda>ys. Inr (y # ys)))"

text \<open>
  Each deal is fetched, written and committed before the next; a failure leaves the deals
  before it committed.
\<close>

definition sync_deal_tasks ::
    "py_env \<Rightarrow> time \<Rightarrow> (int \<Rightarrow> client_error + crm_task list) \<Rightarrow> int
      \<Rightarrow> (int \<times> task_snapshot) list session \<Rightarrow> (int \<times> task_snapshot) list session \<times> sync_error option" where
  "sync_deal_tasks env now get_tasks deal_id ses =
     (case get_tasks deal_id of
        Inl e \<Rightarrow> (ses, Some (ClientError e))
      | Inr ts \<Rightarrow>
          (case for_each (\<lambda>t s. case parse_task env now t deal_id of
               Inl e \<Rightarrow> (s, Some (ParseError e)) | Inr row \<Rightarrow> (modify (upsert_task row) s, None)) ts None ses of
             (s, Some e) \<Rightarrow> (s, Some e)
           | (s, None) \<Rightarrow> (commit s, None)))"

definition run_task_sync ::
    "py_env \<Rightarrow> time \<Rightarrow> ref_db \<Rightarrow> deal_db \<Rightarrow> (int \<Rightarrow> client_error + crm_task list)
      \<Rightarrow> (int \<times> task_snapshot) list \<Rightarrow> (int \<times> task_snapshot) list session \<times> sync_error option" where
  "run_task_sync env now ref db get_tasks ts =
     for_each (sync_deal_tasks env now get_tasks) (list_open_deal_ids ref db) None (open_session ts)"

definition sync_deal_emails ::
    "py_env \<Rightarrow> (int \<Rightarrow> client_error + crm_conversation list) \<Rightarrow> int
      \<Rightarrow> email_activity list session \<Rightarrow> email_activity list session \<times> sync_error option" where
  "sync_deal_emails env get_convs deal_id ses =
     (case get_convs deal_id of
        Inl e \<Rightarrow> (ses, Some (ClientError e))
      | Inr cs \<Rightarrow>
          (case parse_all (\<lambda>c. parse_email env c deal_id) cs of
             Inl e \<Rightarrow> (ses, Some (ParseError e))
           | Inr rs \<Rightarrow> (commit (modify (replace_deal_emails deal_id (List.map_filter id rs)) ses), None)))"

definition run_email_sync ::
    "py_env \<Rightarrow> ref_db \<Rightarrow> deal_db \<Rightarrow> (int \<Rightarrow> client_error + crm_conversation list)
      \<Rightarrow> email_activity list \<Rightarrow> email_activity list session \<times> sync_error option" where
  "run_email_sync env ref db get_convs ems =
     for_each (sync_deal_emails env get_convs) (list_open_deal_ids ref db) None (open_session ems)"

subsection \<open>Timeline backfill\<close>

record timeline_feed =
  tf_action_type :: "string option"
  tf_created_at :: "string option"
  tf_stage_id :: "int option"
  tf_pipeline_name :: "string option"
  tf_owner_change :: "int option"
  tf_raw :: "json dict"

definition parse_stage_change ::
    "py_env \<Rightarrow> timeline_feed \<Rightarrow> int \<Rightarrow> (string \<rightharpoonup> int) \<Rightarrow> py_error + deal_event option" where
  "parse_stage_change env f deal_id by_name =
     rbind (parse_iso_timestamp env (tf_created_at f)) (\<lambda>ts. Inr (map_option (\<lambda>t.
       \<lparr>ev_deal_id = deal_id, ev_type = StageChange, ev_old_pipeline_id = None, ev_old_stage_id = None,
        ev_new_pipeline_id = Option.bind (tf_pipeline_name f) by_name, ev_new_stage_id = tf_stage_id f,
        ev_old_owner_id = None, ev_new_owner_id = None, ev_occurred_at = t,
        ev_source = TimelineBackfill, ev_raw_payload = tf_raw f\<rparr>) ts))"

definition parse_owner_change :: "py_env \<Rightarrow> timeline_feed \<Rightarrow> int \<Rightarrow> py_error + deal_event option" where
  "parse_owner_change env f deal_id =
     rbind (parse_iso_timestamp env (tf_created_at f)) (\<lambda>ts. Inr (map_option (\<lambda>t.
       \<lparr>ev_deal_id = deal_id, ev_type = OwnerChange, ev_old_pipeline_id = None, ev_old_stage_id = None,
        ev_new_pipeline_id = None, ev_new_stage_id = None, ev_old_owner_id = None,
        ev_new_owner_id = tf_owner_change f, ev_occurred_at = t,
        ev_source = TimelineBackfill, ev_raw_payload = tf_raw f\<rparr>) ts))"

definition parse_feed ::
    "py_env \<Rightarrow> (string \<rightharpoonup> int) \<Rightarrow> int \<Rightarrow> timeline_feed \<Rightarrow> py_error + deal_event option" where
  "parse_feed env by_name deal_id f =
     (if tf_action_type f = Some ''STAGE_CHANGE'' then parse_stage_change env f deal_id by_name
      else if tf_action_type f = Some ''OWNER_CHANGE'' then parse_owner_change env f deal_id
      else Inr None)"

definition pipeline_id_by_name :: "pipeline list \<Rightarrow> string \<rightharpoonup> int" where
  "pipeline_id_by_name ps = map_of (map (\<lambda>p. (pl_name p, pl_id p)) (rev ps))"

definition backfill_deal ::
    "py_env \<Rightarrow> (string \<rightharpoonup> int) \<Rightarrow> (int \<Rightarrow> timeline_feed yielded) \<Rightarrow> int
      \<Rightarrow> deal_db session \<Rightarrow> deal_db session \<times> sync_error option" where
  "backfill_deal env by_name timeline deal_id ses =
     (case timeline deal_id of (fs, fin) \<Rightarrow>
        (case parse_all (parse_feed env by_name deal_id) fs of
           Inl e \<Rightarrow> (ses, Some (ParseError e))
         | Inr es \<Rightarrow>
             (case fin of Some e \<Rightarrow> (ses, Some (ClientError e))
              | None \<Rightarrow> (commit (modify (\<lambda>db. fold insert_event (List.map_filter id es)
                     (delete_events_by_source deal_id TimelineBackfill db)) ses), None))))"

definition run_timeline_backfill ::
    "py_env \<Rightarrow> ref_db \<Rightarrow> (int \<Rightarrow> timeline_feed yielded) \<Rightarrow> int list \<Rightarrow> deal_db
      \<Rightarrow> deal_db session \<times> sync_error option" where
  "run_timeline_backfill env ref timeline deal_ids db =
     for_each (backfill_deal env (pipeline_id_by_name (list_pipelines False ref)) timeline)
       deal_ids None (open_session db)"

subsection \<open>Daily roll-up\<close>

record daily_snapshot =
  dy_deal_count :: nat
  dy_total_value :: rat
  dy_total_base_currency_value :: rat

type_synonym snapshot_key = "pydate \<times> int \<times> int"

text \<open>The numeric column of a snapshot, \<open>None\<close> when it is null.\<close>

definition num_col :: "string \<Rightarrow> deal_snapshot \<Rightarrow> rat option" where
  "num_col c s = (case ds_cols s c of Some (CNum r) \<Rightarrow> Some r | _ \<Rightarrow> None)"

definition in_cell :: "int \<Rightarrow> int \<Rightarrow> deal_snapshot \<Rightarrow> bool" where
  "in_cell p st s \<longleftrightarrow> ds_pipeline_id s = Some p \<and> ds_stage_id s = Some st"

definition roll_up :: "deal_snapshot list \<Rightarrow> int \<Rightarrow> int \<Rightarrow> daily_snapshot" where
  "roll_up ss p st = (let g = filter (in_cell p st) ss in
     \<lparr>dy_deal_count = length g,
      dy_total_value = sum_list (List.map_filter (num_col ''amount'') g),
      dy_total_base_currency_value = sum_list (List.map_filter (num_col ''base_currency_amount'') g)\<rparr>)"

text \<open>The groups of the query, each once.\<close>

definition cells :: "deal_snapshot list \<Rightarrow> (int \<times> int) list" where
  "cells ss = remdups (List.map_filter (\<lambda>s. case (ds_pipeline_id s, ds_stage_id s) of
     (Some p, Some st) \<Rightarrow> Some (p, st) | _ \<Rightarrow> None) ss)"

definition write_today_snapshot ::
    "pydate \<Rightarrow> deal_db \<Rightarrow> (snapshot_key \<times> daily_snapshot) list \<Rightarrow> nat \<times> (snapshot_key \<times> daily_snapshot) list" where
  "write_today_snapshot today db tab =
     (let ss = map snd (deals db); cs = cells ss
      in (length cs, fold (\<lambda>(p, st). AList.update (today, p, st) (roll_up ss p st)) cs tab))"

definition run_daily_snapshot ::
    "pydate \<Rightarrow> deal_db \<Rightarrow> (snapshot_key \<times> daily_snapshot) list session
      \<Rightarrow> (snapshot_key \<times> daily_snapshot) list session" where
  "run_daily_snapshot today db ses = commit (modify (\<lambda>t. snd (write_today_snapshot today db t)) ses)"

end
