(* ===== verification/Deal_Sync_Safety.thy ===== *)
theory Deal_Sync_Safety
  imports Deal_Sync
begin

section \<open>What the scheduled syncs guarantee\<close>

text \<open>
  How much a failing deal sync can lose, that the per-deal refreshes can be repeated, and
  that the daily roll-up counts every deal once.
\<close>

subsection \<open>Loops over a session\<close>

lemma for_each_inv:
  assumes "\<And>x s. P s \<Longrightarrow> P (fst (step x s))" and "P s"
  shows "P (fst (for_each step xs fin s))"
  using assms(2)
proof (induction xs arbitrary: s)
  case (Cons x xs)
  obtain s' e where step: "step x s = (s', e)" by fastforce
  with assms(1) [OF Cons.prems, of x] have "P s'" by simp
  with Cons.IH [of s'] step show ?case by (cases e) simp_all
qed simp

lemma for_each_ok:
  assumes "\<And>x s s'. Q s \<Longrightarrow> step x s = (s', None) \<Longrightarrow> Q s'" and "Q s"
    and "for_each step xs fin s = (s', None)"
  shows "Q s'"
  using assms(2,3)
proof (induction xs arbitrary: s)
  case (Cons x xs)
  obtain s1 e where step: "step x s = (s1, e)" by fastforce
  with Cons.prems have e: "e = None" by (cases e) simp_all
  with Cons.prems step have "for_each step xs fin s1 = (s', None)" by simp
  with Cons.IH assms(1) [OF Cons.prems(1)] step e show ?case by blast
qed simp

subsection \<open>The deal sync\<close>

definition refs_known :: "ref_db \<Rightarrow> deal_data \<Rightarrow> bool" where
  "refs_known ref d \<longleftrightarrow> dd_pipeline_id d \<in> Some ` active_pipeline_ids ref \<and>
     dd_stage_id d \<in> insert None (Some ` st_id ` set (list_stages None ref)) \<and>
     dd_owner_id d \<in> insert None (Some ` ow_id ` set (list_owners False ref))"

text \<open>The session has run the upserts \<open>recs\<close> on \<open>db\<close> and committed the first \<open>m\<close>.\<close>

definition synced :: "time \<Rightarrow> ref_db \<Rightarrow> deal_db \<Rightarrow> deal_data list \<Rightarrow> nat \<Rightarrow> sync_state \<Rightarrow> bool" where
  "synced now ref db recs m st \<longleftrightarrow>
     working (sy_session st) = fold (upsert_deal now) recs db \<and>
     committed (sy_session st) = fold (upsert_deal now) (take m recs) db \<and>
     sy_synced st = length recs \<and> m \<le> length recs \<and>
     length recs - m \<le> length recs mod COMMIT_BATCH_SIZE \<and> list_all (refs_known ref) recs"

definition sync_inv :: "time \<Rightarrow> ref_db \<Rightarrow> deal_db \<Rightarrow> sync_state \<Rightarrow> bool" where
  "sync_inv now ref db st \<longleftrightarrow> (\<exists>recs m. synced now ref db recs m st)"

definition sync_done :: "time \<Rightarrow> ref_db \<Rightarrow> deal_db \<Rightarrow> sync_state \<Rightarrow> bool" where
  "sync_done now ref db st \<longleftrightarrow> (\<exists>recs. synced now ref db recs (length recs) st)"

lemma sync_done_inv: "sync_done now ref db st \<Longrightarrow> sync_inv now ref db st"
  by (auto simp: sync_done_def sync_inv_def)

lemma known_cases: "known ks x = None \<or> (\<exists>k \<in> ks. known ks x = Some k \<and> x = Some k)"
  by (auto simp: known_def split: option.splits)

lemma refs_known_drop_unknown:
  assumes "known (active_pipeline_ids ref) (vd_deal_pipeline_id d) \<noteq> None" and "parse_view_deal env d = Inr data"
  shows "refs_known ref (drop_unknown ref data)"
proof -
  have "dd_pipeline_id data = vd_deal_pipeline_id d"
    using assms(2) by (auto simp: parse_view_deal_def Let_def rbind_eq_Inr_iff split: prod.splits option.splits)
  with assms(1) have "dd_pipeline_id data \<in> Some ` active_pipeline_ids ref"
    using known_cases [of "active_pipeline_ids ref" "vd_deal_pipeline_id d"] by auto
  moreover have "known ks x \<in> insert None (Some ` ks)" for ks x using known_cases [of ks x] by auto
  ultimately show ?thesis by (simp add: refs_known_def drop_unknown_def)
qed

lemma batch_step:
  assumes "m \<le> n" and "n - m \<le> n mod COMMIT_BATCH_SIZE" and "Suc n mod COMMIT_BATCH_SIZE \<noteq> 0"
  shows "Suc n - m \<le> Suc n mod COMMIT_BATCH_SIZE"
  using assms by (simp add: COMMIT_BATCH_SIZE_def mod_Suc split: if_splits)

lemma sync_deal_inv:
  assumes "sync_inv now ref db st"
  shows "sync_inv now ref db (fst (sync_deal env now ref d st))"
proof (cases "known (active_pipeline_ids ref) (vd_deal_pipeline_id d) = None \<or> (\<exists>e. parse_view_deal env d = Inl e)")
  case True
  then have "sy_session (fst (sync_deal env now ref d st)) = sy_session st"
    and "sy_synced (fst (sync_deal env now ref d st)) = sy_synced st"
    by (auto simp: sync_deal_def split: sum.splits)
  with assms show ?thesis by (simp only: sync_inv_def synced_def)
next
  case False
  then obtain data where data: "parse_view_deal env d = Inr data" by (cases "parse_view_deal env d") auto
  let ?r = "drop_unknown ref data"
  from assms obtain recs m where s: "synced now ref db recs m st" by (auto simp: sync_inv_def)
  have r: "refs_known ref ?r" using refs_known_drop_unknown [OF _ data] False by blast
  show ?thesis
  proof (cases "Suc (length recs) mod COMMIT_BATCH_SIZE = 0")
    case True
    have "synced now ref db (recs @ [?r]) (Suc (length recs)) (fst (sync_deal env now ref d st))"
      using False data s r True by (simp add: sync_deal_def synced_def Let_def)
    then show ?thesis unfolding sync_inv_def by blast
  next
    case F: False
    have "Suc (length recs) - m \<le> Suc (length recs) mod COMMIT_BATCH_SIZE"
      using batch_step [OF _ _ F, of m] s by (simp add: synced_def)
    then have "synced now ref db (recs @ [?r]) m (fst (sync_deal env now ref d st))"
      using False data s r F by (simp add: sync_deal_def synced_def Let_def)
    then show ?thesis unfolding sync_inv_def by blast
  qed
qed

lemma synced_commit: "synced now ref db recs m st \<Longrightarrow>
    synced now ref db recs (length recs) (st\<lparr>sy_session := commit (sy_session st)\<rparr>)"
  by (simp add: synced_def)

lemma and_commit_inv:
  assumes "sync_inv now ref db (fst r)"
  shows "sync_inv now ref db (fst (and_commit r))"
    and "and_commit r = (s', None) \<Longrightarrow> sync_done now ref db s'"
proof -
  obtain st e where r: "r = (st, e)" by fastforce
  with assms obtain recs m where "synced now ref db recs m st" by (auto simp: sync_inv_def)
  from synced_commit [OF this]
  have d: "sync_done now ref db (st\<lparr>sy_session := commit (sy_session st)\<rparr>)"
    unfolding sync_done_def by blast
  show "sync_inv now ref db (fst (and_commit r))"
    using assms sync_done_inv [OF d] r by (cases e) (simp_all add: and_commit_def)
  show "and_commit r = (s', None) \<Longrightarrow> sync_done now ref db s'"
    using d r by (cases e) (auto simp: and_commit_def)
qed

lemma fetch_and_sync_inv:
  "sync_inv now ref db st \<Longrightarrow> sync_inv now ref db (fst (fetch_and_sync env now ref c k st))"
  by (simp add: fetch_and_sync_def sync_deal_inv split: sum.splits)

lemma sync_view_inv:
  assumes "sync_inv now ref db st"
  shows "sync_inv now ref db (fst (sync_view env now ref c v st))"
    and "sync_view env now ref c v st = (s', None) \<Longrightarrow> sync_done now ref db s'"
proof -
  have "sync_inv now ref db (fst (for_each (sync_deal env now ref) ds fin st))" for ds fin
    by (rule for_each_inv [where P = "sync_inv now ref db", OF sync_deal_inv assms])
  note inv = and_commit_inv [OF this]
  obtain ds fin where v: "crm_view c v = (ds, fin)" by fastforce
  from inv(1) v show "sync_inv now ref db (fst (sync_view env now ref c v st))"
    by (simp add: sync_view_def)
  show "sync_view env now ref c v st = (s', None) \<Longrightarrow> sync_done now ref db s'"
    using inv(2) v by (simp add: sync_view_def)
qed

lemma sync_other_pipeline_inv:
  assumes "sync_inv now ref db st"
  shows "sync_inv now ref db (fst (sync_other_pipeline env now ref c p st))"
    and "sync_done now ref db st \<Longrightarrow> sync_other_pipeline env now ref c p st = (s', None) \<Longrightarrow> sync_done now ref db s'"
proof -
  have "sync_inv now ref db (fst (for_each (fetch_and_sync env now ref c) ks fin st))" for ks fin
    by (rule for_each_inv [where P = "sync_inv now ref db", OF fetch_and_sync_inv assms])
  note inv = and_commit_inv [OF this]
  obtain ks fin where v: "crm_pipeline_ids c (pl_id p) = (ks, fin)" by fastforce
  show "sync_inv now ref db (fst (sync_other_pipeline env now ref c p st))"
    using assms inv(1) v by (simp add: sync_other_pipeline_def)
  show "sync_done now ref db st \<Longrightarrow> sync_other_pipeline env now ref c p st = (s', None) \<Longrightarrow> sync_done now ref db s'"
    using inv(2) v by (simp add: sync_other_pipeline_def split: if_splits)
qed

lemma run_deal_sync_inv:
  assumes "run_deal_sync env now vs ref c db = (st, err)"
  shows "sync_inv now ref db st" and "err = None \<Longrightarrow> sync_done now ref db st"
proof -
  let ?s0 = "\<lparr>sy_session = open_session db, sy_synced = 0, sy_skipped = 0\<rparr>"
  obtain s1 e1 where one: "for_each (sync_view env now ref c) vs None ?s0 = (s1, e1)" by fastforce
  have "synced now ref db [] (length ([] :: deal_data list)) ?s0" by (simp add: synced_def)
  then have done0: "sync_done now ref db ?s0" unfolding sync_done_def by blast
  have inv1: "sync_inv now ref db s1"
    using for_each_inv [of "sync_inv now ref db" "sync_view env now ref c" ?s0 vs None]
      sync_view_inv(1) sync_done_inv [OF done0] one by simp
  have done1: "sync_done now ref db s1" if "e1 = None"
    using for_each_ok [of "sync_done now ref db" "sync_view env now ref c" ?s0 vs None s1]
      sync_view_inv(2) sync_done_inv done0 one that by blast
  note run = run_deal_sync_def [of env now vs ref c db, unfolded one prod.case] assms
  show "sync_inv now ref db st"
  proof (cases e1)
    case None
    with run have "st = fst (for_each (sync_other_pipeline env now ref c) (list_pipelines True ref) None s1)"
      by (metis fst_conv option.case(1))
    with for_each_inv [where P = "sync_inv now ref db", OF sync_other_pipeline_inv(1) inv1] show ?thesis by simp
  next
    case (Some e)
    with run inv1 show ?thesis by simp
  qed
  show "sync_done now ref db st" if "err = None"
  proof -
    from run that have "e1 = None" by (cases e1) auto
    with run that have "for_each (sync_other_pipeline env now ref c) (list_pipelines True ref) None s1 = (st, None)"
      by simp
    from for_each_ok [where Q = "sync_done now ref db", OF _ done1 [OF \<open>e1 = None\<close>] this]
      sync_other_pipeline_inv(2) sync_done_inv
    show ?thesis by blast
  qed
qed

text \<open>C11: wherever a deal sync fails, what it committed is the result of its first upserts, and it
  loses at most the 24 after them; without a failure it loses none. Only deals of active
  pipelines are written, and only stages and owners that have a reference row.\<close>

theorem deal_sync_loses_at_most_a_batch:
  "case run_deal_sync env now vs ref c db of (st, err) \<Rightarrow>
     \<exists>recs m. working (sy_session st) = fold (upsert_deal now) recs db \<and>
       committed (sy_session st) = fold (upsert_deal now) (take m recs) db \<and>
       m \<le> length recs \<and> length recs < m + (if err = None then 1 else 25) \<and>
       sy_synced st = length recs \<and> list_all (refs_known ref) recs"
proof (cases "run_deal_sync env now vs ref c db")
  case (Pair st err)
  note inv = run_deal_sync_inv [OF Pair]
  have bound: "k < COMMIT_BATCH_SIZE" if "k \<le> n mod COMMIT_BATCH_SIZE" for k n
    using that mod_less_divisor [of COMMIT_BATCH_SIZE n] by (simp add: COMMIT_BATCH_SIZE_def)
  have "\<exists>recs m. synced now ref db recs m st \<and> length recs < m + (if err = None then 1 else 25)"
  proof (cases "err = None")
    case True
    with inv(2) obtain recs where "synced now ref db recs (length recs) st" by (auto simp: sync_done_def)
    with True show ?thesis by (intro exI [of _ recs] exI [of _ "length recs"]) simp
  next
    case False
    from inv(1) obtain recs m where s: "synced now ref db recs m st" by (auto simp: sync_inv_def)
    then have "length recs - m < 25" using bound [of "length recs - m" "length recs"] by (simp add: synced_def COMMIT_BATCH_SIZE_def)
    then have "length recs < m + 25" by linarith
    with s False show ?thesis by (intro exI [of _ recs] exI [of _ m]) auto
  qed
  then show ?thesis unfolding Pair prod.case synced_def by blast
qed

text \<open>The owner of a record the reference data does not know is not dropped to null: a deal
  that is already stored keeps the owner it had, however often it is synced.\<close>

theorem unknown_owner_keeps_stored_owner:
  assumes "get_deal (working (sy_session st)) k = Some s" and "ds_owner_id s = Some o1"
    and "parse_view_deal env d = Inr data" and "dd_deal_id data = k"
    and "dd_owner_id data = Some o2" and "o2 \<notin> ow_id ` set (list_owners False ref)"
    and "vd_deal_pipeline_id d = Some p" and "p \<in> active_pipeline_ids ref"
  shows "\<exists>s'. get_deal (working (sy_session (fst (sync_deal env now ref d st)))) k = Some s' \<and>
    ds_owner_id s' = Some o1 \<and> ds_last_synced_at s' = now"
  using assms
  by (simp add: sync_deal_def known_def Let_def upsert_deal_def get_deal_def drop_unknown_def upserted_def update_conv')

definition sync_py :: py_env where
  "sync_py = \<lparr>tz_offset = (\<lambda>_. 0), local_offset = (\<lambda>_. 0), py_float = (\<lambda>_. None)\<rparr>"

definition witness_sync_ref :: ref_db where
  "witness_sync_ref = \<lparr>pipelines = [(7, \<lparr>pl_id = 7, pl_name = ''Sales'', pl_business_line = ''x'',
      pl_is_default = True, pl_is_active = True, pl_view_id = None, pl_updated_at = 0\<rparr>)],
     stages = [], owners = [], deal_reasons = []\<rparr>"

definition witness_view_deal :: view_deal where
  "witness_view_deal = \<lparr>vd_id = Some 5, vd_deal_pipeline_id = Some 7, vd_deal_stage_id = None,
     vd_stage_id = None, vd_owner_id = Some 9, vd_name = None, vd_amount = None,
     vd_base_currency_amount = None, vd_expected_close = None, vd_stage_updated_time = None,
     vd_created_at = None, vd_deal_reason_id = None, vd_age = None, vd_rotten_days = None,
     vd_sales_account = None, vd_sales_account_id = None, vd_sales_account_name = None,
     vd_custom_field = None, vd_custom_fields = None, vd_raw = []\<rparr>"

definition witness_sync_state :: sync_state where
  "witness_sync_state = \<lparr>sy_session = open_session \<lparr>deals = [(5, \<lparr>ds_deal_id = 5, ds_pipeline_id = Some 7,
      ds_stage_id = None, ds_owner_id = Some 1, ds_cols = Map.empty, ds_updated_at = 0, ds_last_synced_at = 0\<rparr>)],
      deal_events = []\<rparr>, sy_synced = 0, sy_skipped = 0\<rparr>"

lemma parse_witness_view_deal:
  "\<exists>data. parse_view_deal env witness_view_deal = Inr data \<and> dd_deal_id data = 5 \<and> dd_owner_id data = Some 9"
  by (simp add: parse_view_deal_def witness_view_deal_def split_custom_fields_def view_custom_fields_def
      extract_sales_account_def parse_iso_date_def parse_iso_timestamp_def)

theorem unknown_owner_keeps_stored_owner_witness:
  "\<exists>s'. get_deal (working (sy_session (fst (sync_deal sync_py 33 witness_sync_ref witness_view_deal witness_sync_state)))) 5
      = Some s' \<and> ds_owner_id s' = Some 1 \<and> ds_last_synced_at s' = 33"
proof -
  obtain data where d: "parse_view_deal sync_py witness_view_deal = Inr data" "dd_deal_id data = 5"
    "dd_owner_id data = Some 9" using parse_witness_view_deal by blast
  obtain s where s: "get_deal (working (sy_session witness_sync_state)) 5 = Some s" "ds_owner_id s = Some 1"
    by (simp add: witness_sync_state_def get_deal_def)
  have o': "9 \<notin> ow_id ` set (list_owners False witness_sync_ref)"
    by (simp add: witness_sync_ref_def list_owners_def)
  have p: "vd_deal_pipeline_id witness_view_deal = Some 7" "7 \<in> active_pipeline_ids witness_sync_ref"
    by (simp_all add: witness_sync_ref_def witness_view_deal_def active_pipeline_ids_def list_pipelines_def)
  from unknown_owner_keeps_stored_owner [OF s d o' p] show ?thesis .
qed

subsection \<open>Refreshing the rows of one deal at a time\<close>

text \<open>
  The contract of the backfill and of the e-mail sync: a successful step for a deal
  replaces the rows of that deal the job owns by the fresh ones of the CRM, and leaves all
  others; it succeeds when the CRM has an answer.
\<close>

locale per_deal_refresh =
  fixes step :: "int \<Rightarrow> 's \<Rightarrow> 's \<times> 'e option"
    and log :: "'s \<Rightarrow> 'r list"
    and deal_of :: "'r \<Rightarrow> int"
    and owned :: "'r \<Rightarrow> bool"
    and fresh :: "int \<Rightarrow> 'r list option"
  assumes step_ok: "step k s = (s', None) \<Longrightarrow> \<exists>rs. fresh k = Some rs \<and>
      log s' = filter (\<lambda>r. \<not> (deal_of r = k \<and> owned r)) (log s) @ rs"
    and step_runs: "fresh k = Some rs \<Longrightarrow> \<exists>s'. step k s = (s', None)"
    and fresh_owned: "fresh k = Some rs \<Longrightarrow> r \<in> set rs \<Longrightarrow> deal_of r = k \<and> owned r"
begin

definition history :: "int \<Rightarrow> 'r list \<Rightarrow> 'r list" where
  "history k l = filter (\<lambda>r. deal_of r = k) l"

definition foreign_rows :: "'r list \<Rightarrow> 'r list" where
  "foreign_rows l = filter (\<lambda>r. \<not> owned r) l"

lemma history_step:
  assumes "step k s = (s', None)"
  shows "history j (log s') =
    (if j = k then foreign_rows (history j (log s)) @ the (fresh k) else history j (log s))"
proof -
  obtain rs where rs: "fresh k = Some rs"
    and log: "log s' = filter (\<lambda>r. \<not> (deal_of r = k \<and> owned r)) (log s) @ rs"
    using step_ok [OF assms] by blast
  have fr: "filter (\<lambda>r. deal_of r = j) rs = (if j = k then rs else [])"
    using fresh_owned [OF rs] by (auto simp: filter_id_conv filter_empty_conv)
  have "filter (\<lambda>r. deal_of r = j) (filter (\<lambda>r. \<not> (deal_of r = k \<and> owned r)) l) =
      (if j = k then filter (\<lambda>r. \<not> owned r) (filter (\<lambda>r. deal_of r = j) l) else filter (\<lambda>r. deal_of r = j) l)" for l
    by (induction l) auto
  with log fr rs show ?thesis by (simp add: history_def foreign_rows_def)
qed

lemma foreign_step:
  assumes "step k s = (s', None)"
  shows "foreign_rows (log s') = foreign_rows (log s)"
proof -
  obtain rs where rs: "fresh k = Some rs"
    and log: "log s' = filter (\<lambda>r. \<not> (deal_of r = k \<and> owned r)) (log s) @ rs"
    using step_ok [OF assms] by blast
  have "filter (\<lambda>r. \<not> owned r) rs = []"
    using fresh_owned [OF rs] by (auto simp: filter_empty_conv)
  moreover have "filter (\<lambda>r. \<not> owned r) (filter (\<lambda>r. \<not> (deal_of r = k \<and> owned r)) l) = filter (\<lambda>r. \<not> owned r) l" for l
    by (induction l) auto
  ultimately show ?thesis using log by (simp add: foreign_rows_def)
qed

lemma foreign_fresh: "fresh k = Some rs \<Longrightarrow> foreign_rows rs = []"
  using fresh_owned by (auto simp: foreign_rows_def filter_empty_conv)

lemma run_Cons:
  assumes "for_each step (x # ks) None s = (s', None)"
  obtains s1 where "step x s = (s1, None)" and "for_each step ks None s1 = (s', None)"
proof -
  obtain s1 e where one: "step x s = (s1, e)" by fastforce
  with assms that show thesis by (cases e) simp_all
qed

lemma run_foreign:
  assumes "for_each step ks None s = (s', None)"
  shows "foreign_rows (log s') = foreign_rows (log s) \<and> (\<forall>k \<in> set ks. fresh k \<noteq> None)"
  using assms
proof (induction ks arbitrary: s)
  case (Cons x ks)
  from Cons.prems obtain s1 where s1: "step x s = (s1, None)" "for_each step ks None s1 = (s', None)"
    by (rule run_Cons)
  from Cons.IH [OF s1(2)] foreign_step [OF s1(1)] step_ok [OF s1(1)] show ?case by auto
qed simp

lemma run_history:
  assumes "for_each step ks None s = (s', None)"
  shows "history j (log s') =
      (if j \<in> set ks then foreign_rows (history j (log s)) @ the (fresh j) else history j (log s))"
  using assms
proof (induction ks arbitrary: s)
  case (Cons x ks)
  from Cons.prems obtain s1 where s1: "step x s = (s1, None)" "for_each step ks None s1 = (s', None)"
    by (rule run_Cons)
  obtain rs where rs: "fresh x = Some rs" using step_ok [OF s1(1)] by blast
  have "foreign_rows (foreign_rows (history x (log s)) @ rs) = foreign_rows (history x (log s))"
    using foreign_fresh [OF rs] by (simp add: foreign_rows_def)
  with Cons.IH [OF s1(2)] history_step [OF s1(1), of j] rs show ?case by auto
qed simp

lemma run_succeeds: "\<forall>k \<in> set ks. fresh k \<noteq> None \<Longrightarrow> \<exists>s'. for_each step ks None s = (s', None)"
proof (induction ks arbitrary: s)
  case (Cons k ks)
  then obtain rs where "fresh k = Some rs" by auto
  from step_runs [OF this] obtain s1 where "step k s = (s1, None)" by blast
  with Cons show ?case by simp
qed simp

text \<open>Running the job again changes no deal's history.\<close>

lemma rerun:
  assumes "for_each step ks None s = (s1, None)" and "log s2 = log s1"
  shows "\<exists>s3. for_each step ks None s2 = (s3, None) \<and> (\<forall>j. history j (log s3) = history j (log s1)) \<and>
    foreign_rows (log s3) = foreign_rows (log s)"
proof -
  have "\<forall>k \<in> set ks. fresh k \<noteq> None" using run_foreign [OF assms(1)] by blast
  from run_succeeds [OF this] obtain s3 where s3: "for_each step ks None s2 = (s3, None)" by blast
  have "history j (log s3) = history j (log s1)" for j
  proof (cases "j \<in> set ks")
    case True
    then obtain rs where rs: "fresh j = Some rs" using run_foreign [OF assms(1)] by blast
    have "foreign_rows (history j (log s1)) = foreign_rows (history j (log s))"
      using run_history [OF assms(1), of j] True rs foreign_fresh [OF rs]
      by (simp add: foreign_rows_def)
    with run_history [OF s3, of j] run_history [OF assms(1), of j] assms(2) True show ?thesis by simp
  next
    case False
    with run_history [OF s3, of j] assms(2) show ?thesis by simp
  qed
  with s3 run_foreign [OF s3] run_foreign [OF assms(1)] assms(2) show ?thesis by auto
qed

end

definition fresh_events ::
    "py_env \<Rightarrow> (string \<rightharpoonup> int) \<Rightarrow> (int \<Rightarrow> timeline_feed yielded) \<Rightarrow> int \<Rightarrow> deal_event list option" where
  "fresh_events env by_name timeline k =
     (case timeline k of (fs, fin) \<Rightarrow>
       (case (parse_all (parse_feed env by_name k) fs, fin) of
          (Inr es, None) \<Rightarrow> Some (List.map_filter id es) | _ \<Rightarrow> None))"

lemma deal_events_fold_insert: "deal_events (fold insert_event es db) = deal_events db @ es"
  by (induction es arbitrary: db) (simp_all add: insert_event_def)

lemma in_map_filter: "y \<in> set (List.map_filter f xs) \<longleftrightarrow> (\<exists>x \<in> set xs. f x = Some y)"
  by (induction xs) (auto simp: List.map_filter_simps split: option.splits)

lemma parse_all_members: "parse_all f xs = Inr ys \<Longrightarrow> y \<in> set ys \<Longrightarrow> \<exists>x \<in> set xs. f x = Inr y"
  by (induction xs arbitrary: ys) (auto simp: rbind_eq_Inr_iff)

lemma parse_feed_owned: "parse_feed env by_name k f = Inr (Some e) \<Longrightarrow> ev_deal_id e = k \<and> ev_source e = TimelineBackfill"
  by (auto simp: parse_feed_def parse_stage_change_def parse_owner_change_def rbind_eq_Inr_iff split: if_splits)

interpretation backfill: per_deal_refresh "backfill_deal env by_name timeline"
  "\<lambda>ses. deal_events (working ses)" ev_deal_id "\<lambda>e. ev_source e = TimelineBackfill"
  "fresh_events env by_name timeline" for env by_name timeline
proof
  fix k and s s' :: "deal_db session" assume "backfill_deal env by_name timeline k s = (s', None)"
  then show "\<exists>rs. fresh_events env by_name timeline k = Some rs \<and> deal_events (working s') =
      filter (\<lambda>r. \<not> (ev_deal_id r = k \<and> ev_source r = TimelineBackfill)) (deal_events (working s)) @ rs"
    by (auto simp: backfill_deal_def fresh_events_def deal_events_fold_insert delete_events_by_source_def
        split: prod.splits sum.splits option.splits)
next
  fix k rs and s :: "deal_db session" assume "fresh_events env by_name timeline k = Some rs"
  then show "\<exists>s'. backfill_deal env by_name timeline k s = (s', None)"
    by (auto simp: backfill_deal_def fresh_events_def split: prod.splits sum.splits option.splits)
next
  fix k rs r assume "fresh_events env by_name timeline k = Some rs" and "r \<in> set rs"
  then show "ev_deal_id r = k \<and> ev_source r = TimelineBackfill"
    by (auto simp: fresh_events_def in_map_filter split: prod.splits sum.splits option.splits
        dest!: parse_all_members parse_feed_owned)
qed

definition fresh_emails ::
    "py_env \<Rightarrow> (int \<Rightarrow> client_error + crm_conversation list) \<Rightarrow> int \<Rightarrow> email_activity list option" where
  "fresh_emails env get_convs k =
     (case get_convs k of Inl e \<Rightarrow> None | Inr cs \<Rightarrow>
       (case parse_all (\<lambda>c. parse_email env c k) cs of Inl e \<Rightarrow> None | Inr rs \<Rightarrow> Some (List.map_filter id rs)))"

interpretation email_refresh: per_deal_refresh "sync_deal_emails env get_convs" working em_deal_id "\<lambda>_. True"
  "fresh_emails env get_convs" for env get_convs
proof
  fix k and s s' :: "email_activity list session" assume "sync_deal_emails env get_convs k s = (s', None)"
  then show "\<exists>rs. fresh_emails env get_convs k = Some rs \<and>
      working s' = filter (\<lambda>r. \<not> (em_deal_id r = k \<and> True)) (working s) @ rs"
    by (auto simp: sync_deal_emails_def fresh_emails_def replace_deal_emails_def split: sum.splits)
next
  fix k rs and s :: "email_activity list session" assume "fresh_emails env get_convs k = Some rs"
  then show "\<exists>s'. sync_deal_emails env get_convs k s = (s', None)"
    by (auto simp: sync_deal_emails_def fresh_emails_def split: sum.splits)
next
  fix k rs r assume "fresh_emails env get_convs k = Some rs" and "r \<in> set rs"
  then show "em_deal_id r = k \<and> True"
    by (auto simp: fresh_emails_def in_map_filter parse_email_def rbind_eq_Inr_iff split: sum.splits
        dest!: parse_all_members)
qed

text \<open>A timeline backfill that went through can be run again: it succeeds, every deal's
  history of events is exactly what the first run left, no event that came by webhook is
  touched by either run, and both runs commit all they did.\<close>

theorem backfill_rerun:
  assumes "run_timeline_backfill env ref timeline ks db = (s1, None)"
  shows "\<exists>s2. run_timeline_backfill env ref timeline ks (working s1) = (s2, None) \<and>
    (\<forall>k. filter (\<lambda>e. ev_deal_id e = k) (deal_events (working s2)) =
         filter (\<lambda>e. ev_deal_id e = k) (deal_events (working s1))) \<and>
    filter (\<lambda>e. ev_source e \<noteq> TimelineBackfill) (deal_events (working s2)) =
      filter (\<lambda>e. ev_source e \<noteq> TimelineBackfill) (deal_events db)"
  using backfill.rerun [OF assms [unfolded run_timeline_backfill_def], of "open_session (working s1)"]
  by (simp add: run_timeline_backfill_def backfill.history_def backfill.foreign_rows_def)

definition witness_feed :: timeline_feed where
  "witness_feed = \<lparr>tf_action_type = Some ''STAGE_CHANGE'', tf_created_at = Some ''2026-01-02'',
     tf_stage_id = Some 4, tf_pipeline_name = None, tf_owner_change = None, tf_raw = []\<rparr>"

lemma parse_witness_feed: "parse_feed env by_name k witness_feed \<noteq> Inl e"
  by (simp add: parse_feed_def witness_feed_def parse_stage_change_def parse_iso_timestamp_def
      datetime_fromisoformat_def is_digit_def less_eq_char_def digit_val_def mk_date_def valid_date_def
      days_in_month_def Let_def)

theorem backfill_rerun_witness:
  "\<exists>s1 s2. run_timeline_backfill sync_py witness_sync_ref (\<lambda>k. ([witness_feed], None)) [5]
      \<lparr>deals = [], deal_events = []\<rparr> = (s1, None) \<and>
    run_timeline_backfill sync_py witness_sync_ref (\<lambda>k. ([witness_feed], None)) [5] (working s1) = (s2, None) \<and>
    filter (\<lambda>e. ev_deal_id e = 5) (deal_events (working s2)) = filter (\<lambda>e. ev_deal_id e = 5) (deal_events (working s1))"
proof -
  let ?bn = "pipeline_id_by_name (list_pipelines False witness_sync_ref)"
  obtain x where "parse_feed sync_py ?bn 5 witness_feed = Inr x"
    using parse_witness_feed [of sync_py ?bn 5] by (cases "parse_feed sync_py ?bn 5 witness_feed") auto
  then obtain s1 where "run_timeline_backfill sync_py witness_sync_ref (\<lambda>k. ([witness_feed], None)) [5]
      \<lparr>deals = [], deal_events = []\<rparr> = (s1, None)"
    by (simp add: run_timeline_backfill_def backfill_deal_def)
  with backfill_rerun [OF this] show ?thesis by blast
qed

lemma email_run_again:
  assumes "run_email_sync env ref db get_convs ems = (s1, None)"
  shows "\<exists>s2. run_email_sync env ref db get_convs (working s1) = (s2, None) \<and>
    (\<forall>k. filter (\<lambda>e. em_deal_id e = k) (working s2) = filter (\<lambda>e. em_deal_id e = k) (working s1))"
  using email_refresh.rerun [OF assms [unfolded run_email_sync_def], of "open_session (working s1)"]
  by (auto simp: run_email_sync_def email_refresh.history_def)

lemma email_sync_scope:
  assumes "run_email_sync env ref db get_convs ems = (s1, None)"
  shows "filter (\<lambda>e. em_deal_id e = k) (working s1) =
    (if k \<in> set (list_open_deal_ids ref db) then the (fresh_emails env get_convs k)
     else filter (\<lambda>e. em_deal_id e = k) ems)"
  using email_refresh.run_history [OF assms [unfolded run_email_sync_def], of k]
  by (simp add: email_refresh.history_def email_refresh.foreign_rows_def)

subsection \<open>The daily roll-up\<close>

lemma set_cells: "(p, st) \<in> set (cells ss) \<longleftrightarrow> (\<exists>s \<in> set ss. in_cell p st s)"
  by (force simp: cells_def in_map_filter in_cell_def split: option.splits)

lemma map_of_fold_update:
  "map_of (fold (\<lambda>x. AList.update (key x) (f x)) xs tab) k =
     (case List.find (\<lambda>x. key x = k) (rev xs) of Some x \<Rightarrow> Some (f x) | None \<Rightarrow> map_of tab k)"
proof (induction xs arbitrary: tab)
  case (Cons x xs)
  show ?case by (simp add: Cons find_append update_conv' split: option.splits)
qed simp

lemma map_of_write_today:
  "map_of (snd (write_today_snapshot today db tab)) (d, p, st) =
     (if d = today \<and> (p, st) \<in> set (cells (map snd (deals db)))
      then Some (roll_up (map snd (deals db)) p st) else map_of tab (d, p, st))"
proof -
  let ?ss = "map snd (deals db)"
  let ?f = "\<lambda>c :: int \<times> int. roll_up ?ss (fst c) (snd c)" and ?key = "\<lambda>c :: int \<times> int. (today, c)"
  have "snd (write_today_snapshot today db tab) = fold (\<lambda>c. AList.update (?key c) (?f c)) (cells ?ss) tab"
    by (simp add: write_today_snapshot_def Let_def case_prod_unfold)
  then have "map_of (snd (write_today_snapshot today db tab)) (d, p, st) =
      (case List.find (\<lambda>c. ?key c = (d, p, st)) (rev (cells ?ss)) of
         Some c \<Rightarrow> Some (?f c) | None \<Rightarrow> map_of tab (d, p, st))"
    by (simp only: map_of_fold_update)
  also have "\<dots> = (if d = today \<and> (p, st) \<in> set (cells ?ss) then Some (roll_up ?ss p st) else map_of tab (d, p, st))"
  proof (cases "List.find (\<lambda>c. ?key c = (d, p, st)) (rev (cells ?ss))")
    case None
    then have "\<not> (d = today \<and> (p, st) \<in> set (cells ?ss))" unfolding find_None_all by auto
    then show ?thesis unfolding None by (simp only: option.case if_False)
  next
    case (Some c)
    from find_Some_in [OF this] have "c \<in> set (cells ?ss)" "c = (p, st)" "d = today" by auto
    then show ?thesis unfolding Some by simp
  qed
  finally show ?thesis .
qed

lemma sum_in_cells:
  "distinct cs \<Longrightarrow> sum_list (map (\<lambda>(p, st). length (filter (in_cell p st) ss)) cs) =
     length (filter (\<lambda>s. \<exists>(p, st) \<in> set cs. in_cell p st s) ss)"
proof (induction cs)
  case (Cons c cs)
  obtain p st where c: "c = (p, st)" by fastforce
  have "length (filter (\<lambda>s. \<exists>(p, st) \<in> set (c # cs). in_cell p st s) ss) =
      length (filter (in_cell p st) ss) + length (filter (\<lambda>s. \<exists>(p, st) \<in> set cs. in_cell p st s) ss)"
  proof (induction ss)
    case (Cons s ss)
    have "\<not> (in_cell p st s \<and> (\<exists>(p, st) \<in> set cs. in_cell p st s))"
      using \<open>distinct (c # cs)\<close> c by (auto simp: in_cell_def)
    with Cons c show ?case by auto
  qed simp
  with Cons c show ?case by simp
qed simp

text \<open>The daily roll-up writes, for every pipeline and stage that has deals, the row of today
  with their number and value, and leaves every other row of the table; its deal counts add
  up to the number of deals that have both a pipeline and a stage, each counted once; and
  running it twice on a day is running it once.\<close>

theorem daily_snapshot_exact:
  "(case write_today_snapshot today db tab of (n, tab') \<Rightarrow>
     map_of tab' = (\<lambda>(d, p, st). if d = today \<and> filter (in_cell p st) (map snd (deals db)) \<noteq> []
        then Some (roll_up (map snd (deals db)) p st) else map_of tab (d, p, st)) \<and>
     n = length (cells (map snd (deals db))) \<and> distinct (cells (map snd (deals db))) \<and>
     sum_list (map (\<lambda>(p, st). dy_deal_count (roll_up (map snd (deals db)) p st)) (cells (map snd (deals db)))) =
       length (filter (\<lambda>s. ds_pipeline_id s \<noteq> None \<and> ds_stage_id s \<noteq> None) (map snd (deals db))) \<and>
     map_of (snd (write_today_snapshot today db tab')) = map_of tab')"
proof -
  let ?ss = "map snd (deals db)"
  have ne: "filter (in_cell p st) ?ss \<noteq> [] \<longleftrightarrow> (p, st) \<in> set (cells ?ss)" for p st
    by (auto simp: set_cells filter_empty_conv)
  have m: "map_of (snd (write_today_snapshot today db t)) = (\<lambda>(d, p, st). if d = today \<and> filter (in_cell p st) ?ss \<noteq> []
        then Some (roll_up ?ss p st) else map_of t (d, p, st))" for t
    unfolding ne by (rule ext) (auto simp: map_of_write_today)
  have "map_of (snd (write_today_snapshot today db (snd (write_today_snapshot today db tab)))) =
      map_of (snd (write_today_snapshot today db tab))"
    by (rule ext) (auto simp: m)
  moreover have "distinct (cells ?ss)" by (simp add: cells_def)
  moreover have "(\<exists>(p, st) \<in> set (cells ?ss). in_cell p st s) \<longleftrightarrow> ds_pipeline_id s \<noteq> None \<and> ds_stage_id s \<noteq> None"
    if "s \<in> set ?ss" for s
  proof -
    have "\<exists>(p, st) \<in> set (cells ?ss). in_cell p st s" if "ds_pipeline_id s = Some p" "ds_stage_id s = Some st" for p st
      using that \<open>s \<in> set ?ss\<close> set_cells [of p st ?ss] by (intro bexI [of _ "(p, st)"]) (auto simp: in_cell_def)
    then show ?thesis by (auto simp: in_cell_def)
  qed
  then have "filter (\<lambda>s. \<exists>(p, st) \<in> set (cells ?ss). in_cell p st s) ?ss =
      filter (\<lambda>s. ds_pipeline_id s \<noteq> None \<and> ds_stage_id s \<noteq> None) ?ss"
    by (rule filter_cong [OF refl])
  moreover have "(\<lambda>(p, st). dy_deal_count (roll_up ?ss p st)) = (\<lambda>(p, st). length (filter (in_cell p st) ?ss))"
    by (simp add: roll_up_def Let_def)
  moreover have "fst (write_today_snapshot today db tab) = length (cells ?ss)"
    by (simp add: write_today_snapshot_def Let_def)
  ultimately show ?thesis
    using sum_in_cells [of "cells ?ss" ?ss] m [of tab]
    by (cases "write_today_snapshot today db tab") simp
qed

end
