(* ===== verification/Leads.thy ===== *)
theory Leads
  imports Parsing Store "HOL-Library.Product_Lexorder"
begin

section \<open>Campaigns and captured leads\<close>

text \<open>
  Model of \<open>app/models/campaign.py\<close>, \<open>app/models/lead.py\<close>,
  \<open>app/repositories/campaigns_repo.py\<close>, \<open>leads_repo.py\<close>,
  \<open>app/services/lead_scoring.py\<close>, \<open>lead_service.py\<close> and \<open>lead_export.py\<close>.
  The status columns are datatypes, the keys of a campaign's \<open>config\<close> that the code
  reads are the fields of a record (\<open>None\<close> or the empty list when absent).
\<close>

subsection \<open>Tables\<close>

datatype campaign_status = CampaignDraft | CampaignActive | CampaignArchived | CampaignOther string

datatype asset = AssetUrl string | AssetUrls "string list" | AssetOther

record campaign_config =
  cfg_base_tags :: "string list"
  cfg_tag_map :: "string dict"
  cfg_digital_pack_tag :: "string option"
  cfg_inspection_tag :: "string option"
  cfg_newsletter_tag :: "string option"
  cfg_materials :: "string list"
  cfg_materials_assets :: "asset dict"
  cfg_lead_notification :: bool
  cfg_application_confirmation :: bool
  cfg_crm_sync_enabled :: "bool option"

record campaign =
  cg_id :: "int option"
  cg_slug :: string
  cg_name :: string
  cg_status :: campaign_status
  cg_starts_on :: "pydate option"
  cg_ends_on :: "pydate option"
  cg_timezone :: string
  cg_config :: campaign_config
  cg_created_at :: time
  cg_updated_at :: time

datatype triage = TriageNew | TriageContacted | TriageDismissed | TriageSnoozed

datatype crm_status = CrmPending | CrmSynced | CrmFailed | CrmSkipped

datatype pack_status = PackNotRequested | PackPending | PackSent | PackFailed | PackSkipped

fun crm_status_name :: "crm_status \<Rightarrow> string" where
  "crm_status_name CrmPending = ''pending''"
| "crm_status_name CrmSynced = ''synced''"
| "crm_status_name CrmFailed = ''failed''"
| "crm_status_name CrmSkipped = ''skipped''"

fun pack_status_name :: "pack_status \<Rightarrow> string" where
  "pack_status_name PackNotRequested = ''not_requested''"
| "pack_status_name PackPending = ''pending''"
| "pack_status_name PackSent = ''sent''"
| "pack_status_name PackFailed = ''failed''"
| "pack_status_name PackSkipped = ''skipped''"

fun triage_name :: "triage \<Rightarrow> string" where
  "triage_name TriageNew = ''new''"
| "triage_name TriageContacted = ''contacted''"
| "triage_name TriageDismissed = ''dismissed''"
| "triage_name TriageSnoozed = ''snoozed''"

record lead =
  ld_id :: "int option"
  ld_campaign_id :: int
  ld_first_name :: string
  ld_last_name :: string
  ld_email :: string
  ld_phone :: string
  ld_company :: string
  ld_job_title :: "string option"
  ld_source :: string
  ld_device_id :: "string option"
  ld_timing :: "string option"
  ld_interests :: "string list option"
  ld_requested_materials :: "string list option"
  ld_tags :: "string list option"
  ld_inspection_requested :: bool
  ld_inspection_type :: "string option"
  ld_marketing_opt_in :: bool
  ld_consent_status :: bool
  ld_consent_at :: "time option"
  ld_captured_at :: "time option"
  ld_created_at :: time
  ld_responses :: "json dict"
  ld_crm_sync_status :: crm_status
  ld_crm_synced_at :: "time option"
  ld_crm_contact_id :: "string option"
  ld_crm_error :: "string option"
  ld_pack_delivery_status :: pack_status
  ld_pack_delivered_at :: "time option"
  ld_pack_delivered_materials :: "string list option"
  ld_pack_delivery_error :: "string option"
  ld_pack_opened_at :: "time option"
  ld_pack_opened_count :: int
  ld_pack_clicked_materials :: "string list option"
  ld_engagement_score :: int
  ld_score_computed_at :: "time option"
  ld_icp_score :: "int option"
  ld_icp_tier :: "string option"
  ld_icp_rationale :: "string option"
  ld_triage_status :: triage
  ld_triage_at :: "time option"
  ld_triage_by :: "string option"

text \<open>\<open>Lead(campaign_id=..., email=...)\<close>: every other column at its default.\<close>

definition new_lead :: "int \<Rightarrow> string \<Rightarrow> lead" where
  "new_lead campaign_id email =
     \<lparr>ld_id = None, ld_campaign_id = campaign_id, ld_first_name = [], ld_last_name = [],
      ld_email = email, ld_phone = [], ld_company = [], ld_job_title = None, ld_source = ''qr'',
      ld_device_id = None, ld_timing = None, ld_interests = None, ld_requested_materials = None,
      ld_tags = None, ld_inspection_requested = False, ld_inspection_type = None,
      ld_marketing_opt_in = False, ld_consent_status = False, ld_consent_at = None,
      ld_captured_at = None, ld_created_at = 0, ld_responses = [],
      ld_crm_sync_status = CrmPending, ld_crm_synced_at = None, ld_crm_contact_id = None,
      ld_crm_error = None, ld_pack_delivery_status = PackNotRequested, ld_pack_delivered_at = None,
      ld_pack_delivered_materials = None, ld_pack_delivery_error = None, ld_pack_opened_at = None,
      ld_pack_opened_count = 0, ld_pack_clicked_materials = None, ld_engagement_score = 0,
      ld_score_computed_at = None, ld_icp_score = None, ld_icp_tier = None, ld_icp_rationale = None,
      ld_triage_status = TriageNew, ld_triage_at = None, ld_triage_by = None\<rparr>"

subsection \<open>Repositories\<close>

definition set_cg_id :: "int option \<Rightarrow> campaign \<Rightarrow> campaign" where
  "set_cg_id k c = c\<lparr>cg_id := k\<rparr>"

definition set_ld_id :: "int option \<Rightarrow> lead \<Rightarrow> lead" where
  "set_ld_id k l = l\<lparr>ld_id := k\<rparr>"

definition get_by_slug :: "campaign table \<Rightarrow> string \<Rightarrow> campaign option" where
  "get_by_slug t slug = List.find (\<lambda>c. cg_slug c = slug) (rows t)"

definition get_campaign :: "campaign table \<Rightarrow> int \<Rightarrow> campaign option" where
  "get_campaign t k = tbl_get cg_id t k"

definition list_all_campaigns :: "campaign table \<Rightarrow> campaign_status option \<Rightarrow> campaign list" where
  "list_all_campaigns t st = sort_key (\<lambda>c. - cg_created_at c)
     (filter (\<lambda>c. case st of None \<Rightarrow> True | Some s \<Rightarrow> cg_status c = s) (rows t))"

definition create_campaign :: "time \<Rightarrow> campaign \<Rightarrow> campaign table \<Rightarrow> campaign \<times> campaign table" where
  "create_campaign now c t = tbl_insert set_cg_id (c\<lparr>cg_created_at := now, cg_updated_at := now\<rparr>) t"

definition update_campaign :: "time \<Rightarrow> campaign \<Rightarrow> campaign table \<Rightarrow> campaign table" where
  "update_campaign now c t = tbl_update cg_id (c\<lparr>cg_updated_at := now\<rparr>) t"

definition get_lead :: "lead table \<Rightarrow> int \<Rightarrow> lead option" where
  "get_lead t k = tbl_get ld_id t k"

definition get_by_campaign_email :: "lead table \<Rightarrow> int \<Rightarrow> string \<Rightarrow> lead option" where
  "get_by_campaign_email t campaign_id email =
     List.find (\<lambda>l. ld_campaign_id l = campaign_id \<and> ld_email l = email) (rows t)"

text \<open>The unique index on campaign and e-mail refuses a second row: \<open>None\<close> is \<open>IntegrityError\<close>.\<close>

definition create_lead :: "time \<Rightarrow> lead \<Rightarrow> lead table \<Rightarrow> (lead \<times> lead table) option" where
  "create_lead now l t =
     (if get_by_campaign_email t (ld_campaign_id l) (ld_email l) \<noteq> None then None
      else Some (tbl_insert set_ld_id (l\<lparr>ld_created_at := now\<rparr>) t))"

definition update_lead :: "lead \<Rightarrow> lead table \<Rightarrow> lead table" where
  "update_lead l t = tbl_update ld_id l t"

definition delete_lead :: "lead \<Rightarrow> lead table \<Rightarrow> lead table" where
  "delete_lead l t = tbl_delete (\<lambda>x. ld_id x = ld_id l) t"

definition set_triage :: "time \<Rightarrow> triage \<Rightarrow> string option \<Rightarrow> lead \<Rightarrow> lead" where
  "set_triage now st who l = l\<lparr>ld_triage_status := st, ld_triage_at := Some now, ld_triage_by := who\<rparr>"

record lead_filter =
  f_campaign_id :: "int option"
  f_interest :: "string option"
  f_inspection :: "bool option"
  f_opt_in :: "bool option"
  f_sync_status :: "string option"
  f_min_engagement :: "int option"
  f_opened :: "bool option"
  f_clicked :: "bool option"
  f_uncontacted :: "bool option"
  f_triage_status :: "string option"
  f_icp_tier :: "string option"

definition no_filter :: lead_filter where
  "no_filter = \<lparr>f_campaign_id = None, f_interest = None, f_inspection = None, f_opt_in = None,
     f_sync_status = None, f_min_engagement = None, f_opened = None, f_clicked = None,
     f_uncontacted = None, f_triage_status = None, f_icp_tier = None\<rparr>"

definition when_given :: "'a option \<Rightarrow> ('a \<Rightarrow> bool) \<Rightarrow> bool" where
  "when_given x p = (case x of None \<Rightarrow> True | Some v \<Rightarrow> p v)"

definition apply_filters :: "lead_filter \<Rightarrow> lead \<Rightarrow> bool" where
  "apply_filters f l \<longleftrightarrow>
     when_given (f_campaign_id f) (\<lambda>k. ld_campaign_id l = k) \<and>
     when_given (f_interest f) (\<lambda>i. i \<in> set (default (ld_interests l) [])) \<and>
     when_given (f_inspection f) (\<lambda>b. ld_inspection_requested l = b) \<and>
     when_given (f_opt_in f) (\<lambda>b. ld_marketing_opt_in l = b) \<and>
     when_given (f_sync_status f) (\<lambda>s. crm_status_name (ld_crm_sync_status l) = s) \<and>
     when_given (f_min_engagement f) (\<lambda>n. n \<le> ld_engagement_score l) \<and>
     when_given (f_opened f) (\<lambda>b. if b then 0 < ld_pack_opened_count l else ld_pack_opened_count l = 0) \<and>
     when_given (f_clicked f) (\<lambda>b. (default (ld_pack_clicked_materials l) [] \<noteq> []) = b) \<and>
     when_given (f_uncontacted f) (\<lambda>b. (ld_triage_status l = TriageNew) = b) \<and>
     when_given (f_triage_status f) (\<lambda>s. triage_name (ld_triage_status l) = s) \<and>
     when_given (f_icp_tier f) (\<lambda>s. ld_icp_tier l = Some s)"

definition page_of :: "nat \<Rightarrow> nat \<Rightarrow> 'a list \<Rightarrow> 'a list" where
  "page_of limit offset xs = take limit (drop offset xs)"

definition delete_for_campaign :: "lead_filter \<Rightarrow> lead table \<Rightarrow> nat \<times> lead table" where
  "delete_for_campaign f t = (length (filter (apply_filters f) (rows t)), tbl_delete (apply_filters f) t)"

definition list_for_campaign :: "lead_filter \<Rightarrow> nat \<Rightarrow> nat \<Rightarrow> lead table \<Rightarrow> lead list" where
  "list_for_campaign f limit offset t =
     page_of limit offset (sort_key (\<lambda>l. - ld_created_at l) (filter (apply_filters f) (rows t)))"

definition count_for_campaign :: "lead_filter \<Rightarrow> lead table \<Rightarrow> nat" where
  "count_for_campaign f t = length (filter (apply_filters f) (rows t))"

definition list_hot :: "lead_filter \<Rightarrow> nat \<Rightarrow> nat \<Rightarrow> lead table \<Rightarrow> lead list" where
  "list_hot f limit offset t = page_of limit offset
     (sort_key (\<lambda>l. (- ld_engagement_score l, - ld_created_at l)) (filter (apply_filters f) (rows t)))"

definition count_hot :: "lead_filter \<Rightarrow> lead table \<Rightarrow> nat" where
  "count_hot f t = length (filter (apply_filters f) (rows t))"

definition oldest_first :: "nat \<Rightarrow> (lead \<Rightarrow> bool) \<Rightarrow> lead table \<Rightarrow> lead list" where
  "oldest_first limit p t = take limit (sort_key ld_created_at (filter p (rows t)))"

definition list_pending_crm_sync :: "crm_status list \<Rightarrow> nat \<Rightarrow> lead table \<Rightarrow> lead list" where
  "list_pending_crm_sync sts limit t = oldest_first limit (\<lambda>l. ld_crm_sync_status l \<in> set sts) t"

definition list_untriaged_with_crm_contact :: "nat \<Rightarrow> lead table \<Rightarrow> lead list" where
  "list_untriaged_with_crm_contact limit t =
     oldest_first limit (\<lambda>l. ld_triage_status l = TriageNew \<and> ld_crm_contact_id l \<noteq> None) t"

definition list_pending_pack_delivery :: "pack_status list \<Rightarrow> nat \<Rightarrow> lead table \<Rightarrow> lead list" where
  "list_pending_pack_delivery sts limit t = oldest_first limit (\<lambda>l. ld_pack_delivery_status l \<in> set sts) t"

definition of_campaign :: "int \<Rightarrow> lead table \<Rightarrow> lead list" where
  "of_campaign k t = filter (\<lambda>l. ld_campaign_id l = k) (rows t)"

definition count_inspection_requests :: "lead table \<Rightarrow> int \<Rightarrow> nat" where
  "count_inspection_requests t k = count_for_campaign (no_filter\<lparr>f_campaign_id := Some k, f_inspection := Some True\<rparr>) t"

definition count_opt_ins :: "lead table \<Rightarrow> int \<Rightarrow> nat" where
  "count_opt_ins t k = count_for_campaign (no_filter\<lparr>f_campaign_id := Some k, f_opt_in := Some True\<rparr>) t"

definition count_synced :: "lead table \<Rightarrow> int \<Rightarrow> nat" where
  "count_synced t k = count_for_campaign (no_filter\<lparr>f_campaign_id := Some k, f_sync_status := Some ''synced''\<rparr>) t"

definition count_packs_delivered :: "lead table \<Rightarrow> int \<Rightarrow> nat" where
  "count_packs_delivered t k = length (filter (\<lambda>l. ld_pack_delivery_status l = PackSent) (of_campaign k t))"

definition count_reconnect_sent :: "lead table \<Rightarrow> int \<Rightarrow> nat" where
  "count_reconnect_sent t k =
     length (filter (\<lambda>l. ''reconnect_sent_at'' \<in> fst ` set (ld_responses l)) (of_campaign k t))"

text \<open>Grouped counts, most frequent first.\<close>

definition counts_by :: "('a \<Rightarrow> 'k list) \<Rightarrow> 'a list \<Rightarrow> ('k \<times> nat) list" where
  "counts_by f xs = (let ks = concat (map f xs) in
     sort_key (\<lambda>(k, n). - int n) (map (\<lambda>k. (k, count_list ks k)) (remdups ks)))"

definition counts_by_material :: "lead table \<Rightarrow> int \<Rightarrow> (string \<times> nat) list" where
  "counts_by_material t k = counts_by (\<lambda>l. default (ld_requested_materials l) []) (of_campaign k t)"

definition counts_by_interest :: "lead table \<Rightarrow> int \<Rightarrow> (string \<times> nat) list" where
  "counts_by_interest t k = counts_by (\<lambda>l. default (ld_interests l) []) (of_campaign k t)"

definition counts_by_source :: "lead table \<Rightarrow> int \<Rightarrow> (string \<times> nat) list" where
  "counts_by_source t k = counts_by (\<lambda>l. [ld_source l]) (of_campaign k t)"

text \<open>By local day, oldest first; \<open>local_day tz\<close> is the database's \<open>date(timezone(tz, at))\<close>.\<close>

definition counts_by_day :: "(string \<Rightarrow> time \<Rightarrow> int) \<Rightarrow> lead table \<Rightarrow> int \<Rightarrow> string \<Rightarrow> (int \<times> nat) list" where
  "counts_by_day local_day t k tz = (let ds = map (local_day tz \<circ> ld_created_at) (of_campaign k t) in
     map (\<lambda>d. (d, count_list ds d)) (sort (remdups ds)))"

subsection \<open>Engagement score\<close>

definition OPEN_TIERS :: "(int \<times> int) list" where
  "OPEN_TIERS = [(25, 40), (15, 34), (10, 30), (5, 26), (3, 20), (2, 14), (1, 8)]"

definition PER_CLICK :: int where "PER_CLICK = 12"
definition MAX_CLICK_POINTS :: int where "MAX_CLICK_POINTS = 30"

definition RECENCY_TIERS :: "(int \<times> int) list" where
  "RECENCY_TIERS = [(7, 15), (30, 10), (60, 5), (90, 2)]"

definition PER_MATERIAL :: int where "PER_MATERIAL = 2"
definition PER_INTEREST :: int where "PER_INTEREST = 4"
definition INSPECTION :: int where "INSPECTION = 18"
definition MARKETING_OPT_IN :: int where "MARKETING_OPT_IN = 5"
definition PACK_DELIVERED :: int where "PACK_DELIVERED = 3"
definition MAX_SCORE :: int where "MAX_SCORE = 100"

text \<open>The two tokens with an en dash are written with its UTF-8 bytes.\<close>

definition en_dash :: string where "en_dash = [CHR 0xE2, CHR 0x80, CHR 0x93]"

definition TIMING_POINTS :: "(string \<times> int) list" where
  "TIMING_POINTS = [(''immediat'', 18), (''today'', 18), (''tomorrow'', 15), (''0-3'', 12),
     (''within 3'', 12), (''this week'', 12), (''3-6'', 8), (''3'' @ en_dash @ ''6'', 8),
     (''6-12'', 4), (''6'' @ en_dash @ ''12'', 4), (''flexible'', 2), (''future'', 1), (''research'', 1)]"

text \<open>The first tier whose test holds, else nothing.\<close>

fun first_tier :: "('t \<Rightarrow> bool) \<Rightarrow> ('t \<times> int) list \<Rightarrow> int" where
  "first_tier p [] = 0"
| "first_tier p ((t, pts) # ts) = (if p t then pts else first_tier p ts)"

definition timing_points :: "string option \<Rightarrow> int" where
  "timing_points timing =
     (if \<not> truthy timing then 0
      else first_tier (\<lambda>token. contains token (py_lower (py_strip (default timing [])))) TIMING_POINTS)"

definition open_points :: "int \<Rightarrow> int" where
  "open_points opens = first_tier (\<lambda>n. n \<le> opens) OPEN_TIERS"

definition click_points :: "string list option \<Rightarrow> int" where
  "click_points clicked = min (PER_CLICK * int (length (or_list clicked []))) MAX_CLICK_POINTS"

definition microseconds_per_day :: int where "microseconds_per_day = 86400 * 1000000"

definition recency_points :: "time option \<Rightarrow> time \<Rightarrow> int" where
  "recency_points opened now =
     (case opened of None \<Rightarrow> 0
      | Some t \<Rightarrow> first_tier (\<lambda>days. now - t \<le> days * microseconds_per_day) RECENCY_TIERS)"

definition engagement_score :: "time \<Rightarrow> lead \<Rightarrow> int" where
  "engagement_score now l = min
     (open_points (ld_pack_opened_count l) + click_points (ld_pack_clicked_materials l) +
      recency_points (ld_pack_opened_at l) now +
      PER_MATERIAL * int (length (or_list (ld_requested_materials l) [])) +
      PER_INTEREST * int (length (or_list (ld_interests l) [])) +
      timing_points (ld_timing l) +
      (if ld_inspection_requested l then INSPECTION else 0) +
      (if ld_marketing_opt_in l then MARKETING_OPT_IN else 0) +
      (if ld_pack_delivery_status l = PackSent then PACK_DELIVERED else 0)) MAX_SCORE"

definition pack_fulfilled :: "lead \<Rightarrow> bool" where
  "pack_fulfilled l \<longleftrightarrow> truthy (ld_requested_materials l) \<and> ld_pack_delivery_status l = PackSent"

definition recompute_score :: "time \<Rightarrow> lead \<Rightarrow> lead" where
  "recompute_score now l = l\<lparr>ld_engagement_score := engagement_score now l, ld_score_computed_at := Some now\<rparr>"

subsection \<open>Capture\<close>

record lead_request =
  lq_first_name :: string
  lq_last_name :: string
  lq_email :: string
  lq_phone :: "string option"
  lq_company :: string
  lq_job_title :: "string option"
  lq_source :: string
  lq_device_id :: "string option"
  lq_timing :: "string option"
  lq_interests :: "string list option"
  lq_requested_materials :: "string list option"
  lq_inspection_requested :: bool
  lq_inspection_type :: "string option"
  lq_marketing_opt_in :: bool
  lq_consent_status :: bool
  lq_captured_at :: "time option"
  lq_responses :: "json dict"

datatype capture_error = CampaignNotFoundError | CampaignInactiveError | IntegrityError

definition derive_tags :: "campaign \<Rightarrow> lead_request \<Rightarrow> string list" where
  "derive_tags c q = (let cfg = cg_config c in
     dedup_keep {} (cfg_base_tags cfg @
       map (\<lambda>i. default (map_of (cfg_tag_map cfg) i) i) (or_list (lq_interests q) []) @
       (if truthy (lq_requested_materials q) then [default (cfg_digital_pack_tag cfg) ''Digital Pack''] else []) @
       (if lq_inspection_requested q then [default (cfg_inspection_tag cfg) ''Private Inspection''] else []) @
       (if lq_marketing_opt_in q then [default (cfg_newsletter_tag cfg) ''Newsletter Opt-In''] else [])))"

definition apply_payload :: "time \<Rightarrow> campaign \<Rightarrow> lead_request \<Rightarrow> lead \<Rightarrow> lead" where
  "apply_payload now c q l = l\<lparr>ld_first_name := lq_first_name q, ld_last_name := lq_last_name q,
     ld_phone := or_list (lq_phone q) [], ld_company := lq_company q, ld_job_title := lq_job_title q,
     ld_source := lq_source q, ld_device_id := lq_device_id q, ld_timing := lq_timing q,
     ld_interests := lq_interests q, ld_requested_materials := lq_requested_materials q,
     ld_tags := Some (derive_tags c q), ld_inspection_requested := lq_inspection_requested q,
     ld_inspection_type := lq_inspection_type q, ld_marketing_opt_in := lq_marketing_opt_in q,
     ld_consent_status := lq_consent_status q, ld_captured_at := lq_captured_at q,
     ld_responses := lq_responses q,
     ld_consent_at := (if lq_consent_status q \<and> ld_consent_at l = None
       then Some (default (lq_captured_at q) now) else ld_consent_at l),
     ld_crm_sync_status := CrmPending, ld_crm_error := None\<rparr>"

definition next_pack_status :: "lead option \<Rightarrow> pack_status option \<Rightarrow> string set \<Rightarrow> lead_request \<Rightarrow> pack_status" where
  "next_pack_status existing prev_status prev_materials q =
     (let new = set (or_list (lq_requested_materials q) []) in
      if new = {} then (if existing \<noteq> None \<and> prev_status = Some PackSent then PackSent else PackNotRequested)
      else if existing \<noteq> None \<and> prev_status = Some PackSent \<and> new \<subseteq> prev_materials then PackSent
      else PackPending)"

definition merge_payload :: "time \<Rightarrow> campaign \<Rightarrow> lead_request \<Rightarrow> lead option \<Rightarrow> lead \<Rightarrow> lead" where
  "merge_payload now c q existing l =
     (let prev_status = map_option ld_pack_delivery_status existing;
          prev_materials = (case existing of None \<Rightarrow> {} | Some e \<Rightarrow> set (or_list (ld_requested_materials e) []))
      in recompute_score now ((apply_payload now c q l)
           \<lparr>ld_pack_delivery_status := next_pack_status existing prev_status prev_materials q,
            ld_pack_delivery_error := None\<rparr>))"

text \<open>
  \<open>capture_lead_created\<close>: \<open>rival\<close> is what other requests do to the table between the
  lookup and the insert. An insert the unique index refuses is merged into the row that
  is then found.
\<close>

definition norm_email :: "string \<Rightarrow> string" where
  "norm_email s = py_lower (py_strip s)"

definition capture_lead_created ::
    "time \<Rightarrow> (lead table \<Rightarrow> lead table) \<Rightarrow> campaign table \<Rightarrow> string \<Rightarrow> lead_request \<Rightarrow> lead table
      \<Rightarrow> capture_error + ((lead \<times> bool) \<times> lead table)" where
  "capture_lead_created now rival campaigns slug q t =
     (case get_by_slug campaigns slug of
        None \<Rightarrow> Inl CampaignNotFoundError
      | Some c \<Rightarrow>
          if cg_status c \<noteq> CampaignActive then Inl CampaignInactiveError
          else let k = default (cg_id c) 0; email = norm_email (lq_email q) in
            case get_by_campaign_email t k email of
              Some e \<Rightarrow> (let l = merge_payload now c q (Some e) e in Inr ((l, False), update_lead l t))
            | None \<Rightarrow>
                (let t1 = rival t in
                 case create_lead now (merge_payload now c q None (new_lead k email)) t1 of
                   Some (l, t2) \<Rightarrow> Inr ((l, True), t2)
                 | None \<Rightarrow>
                     (case (get_by_campaign_email t1 k email, get_campaign campaigns k) of
                        (Some e, Some c') \<Rightarrow>
                          (let l = merge_payload now c' q (Some e) e in Inr ((l, False), update_lead l t1))
                      | _ \<Rightarrow> Inl IntegrityError)))"

definition capture_lead ::
    "time \<Rightarrow> (lead table \<Rightarrow> lead table) \<Rightarrow> campaign table \<Rightarrow> string \<Rightarrow> lead_request \<Rightarrow> lead table
      \<Rightarrow> capture_error + (lead \<times> lead table)" where
  "capture_lead now rival campaigns slug q t =
     rbind (capture_lead_created now rival campaigns slug q t) (\<lambda>((l, _), t'). Inr (l, t'))"

end
