(* ===== verification/Pack_Delivery.thy ===== *)
theory Pack_Delivery
  imports Leads
begin

section \<open>Digital packs by e-mail\<close>

text \<open>
  Model of \<open>app/services/pack_delivery.py\<close> and of the sending part of
  \<open>app/services/campaign_mailer.py\<close>. A mail is its recipients, its
  tracking arguments and the documents it carries; what \<open>Campaign_Mail\<close> writes from them
  needs nothing else. Whether SendGrid accepts a mail is the argument \<open>post\<close>; the mails it accepted are kept in order.
\<close>

record mail =
  ml_to :: string
  ml_cc :: "string list"
  ml_lead_id :: "int option"
  ml_kind :: "string option"
  ml_docs :: "(string \<times> string list) list"

record settings =
  wtc_sendgrid_api_key :: string
  campaign_cc_email :: string
  campaign_notification_email :: string
  freshsales_lead_sync_enabled :: bool

type_synonym poster = "mail list \<Rightarrow> mail \<Rightarrow> bool"

text \<open>No key, no mail; a copy that would go to the recipient itself is dropped.\<close>

definition send_campaign_email ::
    "settings \<Rightarrow> poster \<Rightarrow> mail \<Rightarrow> mail list \<Rightarrow> bool \<times> mail list" where
  "send_campaign_email cfg post m sent =
     (if wtc_sendgrid_api_key cfg = [] then (False, sent)
      else let m' = m\<lparr>ml_cc := filter (\<lambda>a. a \<noteq> [] \<and> py_lower a \<noteq> py_lower (ml_to m)) (ml_cc m)\<rparr>
           in if post sent m' then (True, sent @ [m']) else (False, sent))"

definition cc_list :: "settings \<Rightarrow> string list" where
  "cc_list cfg = (if campaign_cc_email cfg = [] then [] else [campaign_cc_email cfg])"

text \<open>The internal notification carries no tracking arguments.\<close>

definition send_lead_notification :: "settings \<Rightarrow> poster \<Rightarrow> lead \<Rightarrow> mail list \<Rightarrow> mail list" where
  "send_lead_notification cfg post l sent =
     (if campaign_notification_email cfg = [] then sent
      else snd (send_campaign_email cfg post
        \<lparr>ml_to = campaign_notification_email cfg, ml_cc = [], ml_lead_id = None, ml_kind = None, ml_docs = []\<rparr> sent))"

text \<open>
  The object under \<open>second_participant\<close> of the free-form answers: an absent or false
  value counts as the empty object; on any other value that is not an object \<open>.get\<close>
  raises \<open>AttributeError\<close>, which is \<open>Inl\<close>.
\<close>

fun json_truthy :: "json \<Rightarrow> bool" where
  "json_truthy JNull = False"
| "json_truthy (JBool b) = b"
| "json_truthy (JInt i) = (i \<noteq> 0)"
| "json_truthy (JFloat r) = (r \<noteq> 0)"
| "json_truthy (JStr s) = (s \<noteq> [])"
| "json_truthy (JList xs) = (xs \<noteq> [])"
| "json_truthy (JObj d) = (d \<noteq> [])"

datatype attribute_error = AttributeError

definition second_participant :: "lead \<Rightarrow> attribute_error + json dict" where
  "second_participant l =
     (case map_of (ld_responses l) ''second_participant'' of
        None \<Rightarrow> Inr []
      | Some j \<Rightarrow> if \<not> json_truthy j then Inr []
          else (case j of JObj d \<Rightarrow> Inr d | _ \<Rightarrow> Inl AttributeError))"

definition json_get :: "json dict \<Rightarrow> string \<Rightarrow> json" where
  "json_get d k = default (map_of d k) JNull"

text \<open>The applicant's confirmation and its copy to the second participant; never raises.\<close>

definition send_application_confirmation ::
    "settings \<Rightarrow> poster \<Rightarrow> lead \<Rightarrow> mail list \<Rightarrow> bool \<times> mail list" where
  "send_application_confirmation cfg post l sent =
     (let m = \<lparr>ml_to = ld_email l, ml_cc = [], ml_lead_id = ld_id l,
          ml_kind = Some ''application_confirmation'', ml_docs = []\<rparr>;
          (ok, sent1) = send_campaign_email cfg post m sent
      in case second_participant l of
           Inl e \<Rightarrow> (False, sent1)
         | Inr d \<Rightarrow>
             (case json_get d ''email'' of
                JStr e \<Rightarrow> (if e = [] then (ok, sent1)
                  else (ok, snd (send_campaign_email cfg post (m\<lparr>ml_to := e\<rparr>) sent1)))
              | _ \<Rightarrow> (ok, sent1)))"

definition send_reconnect ::
    "settings \<Rightarrow> poster \<Rightarrow> string list \<Rightarrow> lead \<Rightarrow> mail list \<Rightarrow> bool \<times> mail list" where
  "send_reconnect cfg post cc l sent = send_campaign_email cfg post
     \<lparr>ml_to = ld_email l, ml_cc = cc, ml_lead_id = ld_id l, ml_kind = Some ''reconnect'', ml_docs = []\<rparr> sent"

subsection \<open>What can be delivered\<close>

definition flag_crm_refresh :: "lead \<Rightarrow> lead" where
  "flag_crm_refresh l = (if ld_crm_sync_status l = CrmSynced
     then l\<lparr>ld_crm_sync_status := CrmPending, ld_crm_error := None\<rparr> else l)"

fun asset_urls :: "asset option \<Rightarrow> string list" where
  "asset_urls (Some (AssetUrl u)) = (if u = [] then [] else [u])"
| "asset_urls (Some (AssetUrls us)) = filter (\<lambda>u. u \<noteq> []) us"
| "asset_urls _ = []"

fun pick_materials ::
    "string list \<Rightarrow> asset dict \<Rightarrow> string set \<Rightarrow> string list \<Rightarrow> (string \<times> string list) list" where
  "pick_materials known assets seen [] = []"
| "pick_materials known assets seen (x # xs) =
     (if x \<in> seen \<or> x \<notin> set known then pick_materials known assets seen xs
      else let urls = asset_urls (map_of assets x) in
        if urls = [] then pick_materials known assets seen xs
        else (x, urls) # pick_materials known assets (insert x seen) xs)"

definition deliverable_materials :: "lead \<Rightarrow> campaign \<Rightarrow> (string \<times> string list) list" where
  "deliverable_materials l c = pick_materials (cfg_materials (cg_config c))
     (cfg_materials_assets (cg_config c)) {} (or_list (ld_requested_materials l) [])"

definition real_materials_requested :: "lead \<Rightarrow> campaign \<Rightarrow> bool" where
  "real_materials_requested l c \<longleftrightarrow>
     list_ex (\<lambda>x. x \<in> set (cfg_materials (cg_config c))) (or_list (ld_requested_materials l) [])"

text \<open>An asset that is neither a text nor a list of texts has no link here.\<close>

definition all_materials :: "campaign_config \<Rightarrow> (string \<times> string list) list" where
  "all_materials cfg = List.map_filter (\<lambda>x. let urls = asset_urls (map_of (cfg_materials_assets cfg) x)
     in if urls = [] then None else Some (x, urls)) (cfg_materials cfg)"

subsection \<open>Delivery\<close>

definition pack_mail :: "settings \<Rightarrow> lead \<Rightarrow> (string \<times> string list) list \<Rightarrow> mail" where
  "pack_mail cfg l docs = \<lparr>ml_to = ld_email l, ml_cc = cc_list cfg, ml_lead_id = ld_id l,
     ml_kind = Some ''pack'', ml_docs = docs\<rparr>"

definition viewing_mail :: "settings \<Rightarrow> lead \<Rightarrow> campaign \<Rightarrow> mail" where
  "viewing_mail cfg l c = \<lparr>ml_to = ld_email l, ml_cc = cc_list cfg, ml_lead_id = ld_id l,
     ml_kind = Some ''viewing'', ml_docs = all_materials (cg_config c)\<rparr>"

definition mark_sent :: "time \<Rightarrow> (string \<times> string list) list \<Rightarrow> lead \<Rightarrow> lead" where
  "mark_sent now docs l = flag_crm_refresh (l\<lparr>ld_pack_delivery_status := PackSent,
     ld_pack_delivered_at := Some now, ld_pack_delivered_materials := Some (map fst docs),
     ld_pack_delivery_error := None\<rparr>)"

definition set_pack :: "pack_status \<Rightarrow> string option \<Rightarrow> lead \<Rightarrow> lead" where
  "set_pack st e l = l\<lparr>ld_pack_delivery_status := st, ld_pack_delivery_error := e\<rparr>"

text \<open>The lead \<open>deliver_pack\<close> leaves, and the mails accepted so far.\<close>

definition pack_outcome ::
    "time \<Rightarrow> settings \<Rightarrow> poster \<Rightarrow> campaign \<Rightarrow> lead \<Rightarrow> mail list \<Rightarrow> lead \<times> mail list" where
  "pack_outcome now cfg post c l sent =
     (let docs = deliverable_materials l c in
      if docs = [] then
        ((if real_materials_requested l c
          then set_pack PackFailed (Some ''no download link configured for requested materials'') l
          else set_pack PackNotRequested None l), sent)
      else if wtc_sendgrid_api_key cfg = [] then
        (set_pack PackSkipped (Some ''email transport not configured'') l, sent)
      else case send_campaign_email cfg post (pack_mail cfg l docs) sent of
        (True, sent') \<Rightarrow> (mark_sent now docs l, sent')
      | (False, sent') \<Rightarrow> (set_pack PackFailed (Some ''email send failed'') l, sent'))"

definition deliver_pack ::
    "time \<Rightarrow> settings \<Rightarrow> poster \<Rightarrow> campaign \<Rightarrow> lead \<Rightarrow> lead table \<times> mail list \<Rightarrow> lead \<times> lead table \<times> mail list" where
  "deliver_pack now cfg post c l w =
     (case pack_outcome now cfg post c l (snd w) of (l', sent) \<Rightarrow> (l', update_lead l' (fst w), sent))"

definition deliver_viewing ::
    "time \<Rightarrow> settings \<Rightarrow> poster \<Rightarrow> campaign \<Rightarrow> lead \<Rightarrow> lead table \<times> mail list \<Rightarrow> lead \<times> lead table \<times> mail list" where
  "deliver_viewing now cfg post c l w =
     (case send_campaign_email cfg post (viewing_mail cfg l c) (snd w) of (ok, sent) \<Rightarrow>
        if \<not> ok \<or> ld_pack_delivery_status l = PackSent then (l, fst w, sent)
        else let docs = all_materials (cg_config c) in
          if docs = [] then (l, fst w, sent)
          else let l' = mark_sent now docs l in (l', update_lead l' (fst w), sent))"

subsection \<open>Sweeping a queue\<close>

text \<open>
  The loop of \<open>deliver_pending\<close> and of both CRM syncs: every item is processed with its
  parent (campaign or programme), which is looked up once and cached; an item whose parent
  is gone is passed over; the items that come out \<open>good\<close> are counted.
\<close>

fun sweep ::
    "('i \<Rightarrow> int) \<Rightarrow> (int \<Rightarrow> 'p option) \<Rightarrow> ('i \<Rightarrow> 'p \<Rightarrow> 's \<Rightarrow> 'i \<times> 's) \<Rightarrow> ('i \<Rightarrow> bool)
      \<Rightarrow> 'i list \<Rightarrow> (int \<times> 'p) list \<Rightarrow> nat \<Rightarrow> 's \<Rightarrow> nat \<times> 's" where
  "sweep parent look process good [] cache n s = (n, s)"
| "sweep parent look process good (x # xs) cache n s =
     (case map_of cache (parent x) of
        Some p \<Rightarrow> (case process x p s of (x', s') \<Rightarrow>
          sweep parent look process good xs cache (if good x' then n + 1 else n) s')
      | None \<Rightarrow>
          (case look (parent x) of
             None \<Rightarrow> sweep parent look process good xs cache n s
           | Some p \<Rightarrow> (case process x p s of (x', s') \<Rightarrow>
               sweep parent look process good xs (AList.update (parent x) p cache)
                 (if good x' then n + 1 else n) s')))"

definition deliver_pending ::
    "time \<Rightarrow> settings \<Rightarrow> poster \<Rightarrow> nat \<Rightarrow> campaign table \<Rightarrow> lead table \<times> mail list \<Rightarrow> nat \<times> lead table \<times> mail list" where
  "deliver_pending now cfg post limit campaigns w =
     sweep ld_campaign_id (get_campaign campaigns) (\<lambda>l c. deliver_pack now cfg post c l)
       (\<lambda>l. ld_pack_delivery_status l = PackSent)
       (list_pending_pack_delivery [PackPending, PackFailed] limit (fst w)) [] 0 w"

end
