(* ===== verification/Lead_Safety.thy ===== *)
theory Lead_Safety
  imports Pack_Delivery "HOL-Library.Sublist"
begin

section \<open>What capture, score and pack delivery guarantee\<close>

text \<open>
  One row per campaign and e-mail whatever other requests do in between; the score stays in
  its range and rewards engagement; a pack goes out once per new selection.
\<close>

interpretation campaign_repo: repository cg_id get_campaign "tbl_insert set_cg_id" "tbl_update cg_id" "ok_table cg_id"
  unfolding get_campaign_def [abs_def] by (rule table_repository) (simp add: set_cg_id_def)

interpretation lead_repo: repository ld_id get_lead "tbl_insert set_ld_id" update_lead "ok_table ld_id"
  unfolding get_lead_def [abs_def] update_lead_def [abs_def] by (rule table_repository) (simp add: set_ld_id_def)

subsection \<open>Scores\<close>

lemma first_tier_cases: "first_tier p ts = 0 \<or> first_tier p ts \<in> snd ` set ts"
  by (induction p ts rule: first_tier.induct) auto

lemma first_tier_bounds:
  assumes "list_all (\<lambda>(t, n). 0 \<le> n \<and> n \<le> b) ts" and "0 \<le> b"
  shows "0 \<le> first_tier p ts" and "first_tier p ts \<le> b"
  using first_tier_cases [of p ts] assms by (auto simp: list_all_iff)

lemma first_tier_mono:
  assumes "\<And>t. p t \<Longrightarrow> q t" and "sorted_wrt (\<lambda>(_, m) (_, n). n \<le> m) ts" and "list_all (\<lambda>(t, n). 0 \<le> n) ts"
  shows "first_tier p ts \<le> first_tier q ts"
  using assms(2,3)
proof (induction ts)
  case (Cons x ts)
  obtain t pts where x: "x = (t, pts)" by fastforce
  have le: "first_tier p' ts \<le> pts" for p'
    using first_tier_cases [of p' ts] Cons.prems x by (auto simp: list_all_iff)
  have "first_tier p ts \<le> first_tier q ts" using Cons x by simp
  with le [of p] assms(1) [of t] x show ?case by auto
qed simp

lemma open_points_mono: "m \<le> n \<Longrightarrow> open_points m \<le> open_points n"
  unfolding open_points_def by (rule first_tier_mono) (simp_all add: OPEN_TIERS_def)

lemma open_points_nonneg: "0 \<le> open_points n"
  unfolding open_points_def by (rule first_tier_bounds [of 40]) (simp_all add: OPEN_TIERS_def)

lemma recency_points_mono: "t \<le> t' \<Longrightarrow> recency_points (Some t) now \<le> recency_points (Some t') now"
  unfolding recency_points_def option.case
  by (rule first_tier_mono) (auto simp: RECENCY_TIERS_def)

lemma recency_points_nonneg: "0 \<le> recency_points x now"
  by (cases x) (auto simp: recency_points_def RECENCY_TIERS_def)

lemma timing_points_nonneg: "0 \<le> timing_points x"
  unfolding timing_points_def
  using first_tier_bounds(1) [of 18 TIMING_POINTS] by (simp add: TIMING_POINTS_def)

lemma click_points_mono: "length (or_list a []) \<le> length (or_list b []) \<Longrightarrow> click_points a \<le> click_points b"
  by (simp add: click_points_def PER_CLICK_def MAX_CLICK_POINTS_def)

lemma click_points_nonneg: "0 \<le> click_points a"
  by (simp add: click_points_def PER_CLICK_def MAX_CLICK_POINTS_def)

text \<open>At least as engaged: no fewer opens, no earlier last open, no fewer documents clicked, no
  fewer documents and interests chosen, the same timing or one stated for the first time, and
  no inspection, opt-in or delivery taken back.\<close>

definition at_least_as_engaged :: "lead \<Rightarrow> lead \<Rightarrow> bool" where
  "at_least_as_engaged l l' \<longleftrightarrow> ld_pack_opened_count l \<le> ld_pack_opened_count l' \<and>
     (case (ld_pack_opened_at l, ld_pack_opened_at l') of
        (None, _) \<Rightarrow> True | (Some t, Some t') \<Rightarrow> t \<le> t' | (Some t, None) \<Rightarrow> False) \<and>
     length (or_list (ld_pack_clicked_materials l) []) \<le> length (or_list (ld_pack_clicked_materials l') []) \<and>
     length (or_list (ld_requested_materials l) []) \<le> length (or_list (ld_requested_materials l') []) \<and>
     length (or_list (ld_interests l) []) \<le> length (or_list (ld_interests l') []) \<and>
     (ld_timing l' = ld_timing l \<or> \<not> truthy (ld_timing l)) \<and>
     (ld_inspection_requested l \<longrightarrow> ld_inspection_requested l') \<and>
     (ld_marketing_opt_in l \<longrightarrow> ld_marketing_opt_in l') \<and>
     (ld_pack_delivery_status l = PackSent \<longrightarrow> ld_pack_delivery_status l' = PackSent)"

lemma timing_points_engaged: "b = a \<or> \<not> truthy a \<Longrightarrow> timing_points a \<le> timing_points b"
  using timing_points_nonneg [of b] by (auto simp: timing_points_def [of a])

lemma recency_engaged:
  "(case (a, b) of (None, _) \<Rightarrow> True | (Some t, Some t') \<Rightarrow> t \<le> t' | (Some t, None) \<Rightarrow> False) \<Longrightarrow>
    recency_points a now \<le> recency_points b now"
proof (cases a)
  case None
  then show ?thesis using recency_points_nonneg [of b now] by (simp add: recency_points_def [of None])
next
  case (Some t)
  moreover assume "case (a, b) of (None, _) \<Rightarrow> True | (Some t, Some t') \<Rightarrow> t \<le> t' | (Some t, None) \<Rightarrow> False"
  ultimately show ?thesis using recency_points_mono by (auto split: option.splits)
qed

text \<open>C14: the engagement score lies between 0 and 100. It does not fall when opens, clicks,
  documents or interests are added, the last open is later, a timing is stated for the first
  time, or an inspection, the opt-in or the delivery is added; and up to the cap of 100 one
  more document asked for is worth 2 points, one more interest 4, a first inspection 18, and
  the opt-in 5.\<close>

theorem engagement_score_range_mono:
  "0 \<le> engagement_score now l \<and> engagement_score now l \<le> 100 \<and>
   (if at_least_as_engaged l l' then engagement_score now l \<le> engagement_score now l' else True) \<and>
   engagement_score now (l\<lparr>ld_requested_materials := Some (or_list (ld_requested_materials l) [] @ [x])\<rparr>)
     = min (engagement_score now l + 2) 100 \<and>
   engagement_score now (l\<lparr>ld_interests := Some (or_list (ld_interests l) [] @ [x])\<rparr>)
     = min (engagement_score now l + 4) 100 \<and>
   engagement_score now (l\<lparr>ld_inspection_requested := True\<rparr>)
     = (if ld_inspection_requested l then engagement_score now l else min (engagement_score now l + 18) 100) \<and>
   engagement_score now (l\<lparr>ld_marketing_opt_in := True\<rparr>)
     = (if ld_marketing_opt_in l then engagement_score now l else min (engagement_score now l + 5) 100)"
proof -
  note points = PER_MATERIAL_def PER_INTEREST_def INSPECTION_def MARKETING_OPT_IN_def PACK_DELIVERED_def MAX_SCORE_def
  have "0 \<le> engagement_score now l"
    unfolding engagement_score_def
    using open_points_nonneg [of "ld_pack_opened_count l"] click_points_nonneg [of "ld_pack_clicked_materials l"]
      recency_points_nonneg [of "ld_pack_opened_at l" now] timing_points_nonneg [of "ld_timing l"]
    by (simp add: points)
  moreover have "engagement_score now l \<le> 100" by (simp add: engagement_score_def MAX_SCORE_def)
  moreover have "engagement_score now l \<le> engagement_score now l'" if e: "at_least_as_engaged l l'"
  proof -
    have "open_points (ld_pack_opened_count l) \<le> open_points (ld_pack_opened_count l')"
      and "click_points (ld_pack_clicked_materials l) \<le> click_points (ld_pack_clicked_materials l')"
      and "recency_points (ld_pack_opened_at l) now \<le> recency_points (ld_pack_opened_at l') now"
      and "timing_points (ld_timing l) \<le> timing_points (ld_timing l')"
      using e by (auto simp: at_least_as_engaged_def
          intro!: open_points_mono click_points_mono recency_engaged timing_points_engaged)
    with e show ?thesis
      unfolding engagement_score_def at_least_as_engaged_def
      by (intro min.mono add_mono order.refl) (auto simp: points)
  qed
  ultimately show ?thesis
    by (simp add: engagement_score_def points or_list_def min_def)
qed

subsection \<open>Capture\<close>

definition unique_leads :: "lead table \<Rightarrow> bool" where
  "unique_leads t \<longleftrightarrow> distinct (map (\<lambda>l. (ld_campaign_id l, ld_email l)) (rows t))"

definition ok_leads :: "lead table \<Rightarrow> bool" where
  "ok_leads t \<longleftrightarrow> ok_table ld_id t \<and> unique_leads t"

lemma get_by_campaign_email_Some:
  "get_by_campaign_email t k e = Some l \<Longrightarrow> l \<in> set (rows t) \<and> ld_campaign_id l = k \<and> ld_email l = e"
  unfolding get_by_campaign_email_def by (drule find_Some_in) simp

lemma get_by_campaign_email_in:
  assumes "unique_leads t" and "l \<in> set (rows t)"
  shows "get_by_campaign_email t (ld_campaign_id l) (ld_email l) = Some l"
proof (cases "get_by_campaign_email t (ld_campaign_id l) (ld_email l)")
  case None
  with assms show ?thesis by (auto simp: get_by_campaign_email_def find_None_all)
next
  case (Some m)
  from get_by_campaign_email_Some [OF Some] assms have "m = l"
    by (auto simp: unique_leads_def distinct_map dest: inj_onD)
  with Some show ?thesis by simp
qed

lemma ok_leads_row: "ok_leads t \<Longrightarrow> l \<in> set (rows t) \<Longrightarrow> \<exists>k. ld_id l = Some k \<and> get_lead t k = Some l"
  using tbl_get_in [of ld_id t l] by (auto simp: ok_leads_def ok_table_def wf_table_def get_lead_def)

text \<open>Writing a row back with its campaign and e-mail unchanged.\<close>

lemma ok_update_lead:
  assumes "ok_leads t" and "e \<in> set (rows t)" and "ld_id l = ld_id e"
    and "ld_campaign_id l = ld_campaign_id e" and "ld_email l = ld_email e"
  shows "ok_leads (update_lead l t)" and "get_by_campaign_email (update_lead l t) (ld_campaign_id e) (ld_email e) = Some l"
    and "l \<in> set (rows (update_lead l t))"
proof -
  have dist: "distinct (map ld_id (rows t))" using assms(1) by (simp add: ok_leads_def ok_table_def wf_table_def)
  have same: "ld_id x = ld_id l \<longleftrightarrow> x = e" if "x \<in> set (rows t)" for x
    using dist assms(2,3) that by (auto simp: distinct_map dest: inj_onD)
  have keys: "map (\<lambda>x. (ld_campaign_id x, ld_email x)) (rows (update_lead l t)) =
      map (\<lambda>x. (ld_campaign_id x, ld_email x)) (rows t)"
    unfolding update_lead_def rows_tbl_update map_map
    by (rule map_cong [OF refl]) (use assms(4,5) same in auto)
  show ok: "ok_leads (update_lead l t)"
    using assms(1) unfolding ok_leads_def unique_leads_def keys
    by (simp add: update_lead_def ok_tbl_update)
  show "l \<in> set (rows (update_lead l t))"
    using assms(2) same by (force simp: update_lead_def)
  with get_by_campaign_email_in [of "update_lead l t" l] ok assms(4,5)
  show "get_by_campaign_email (update_lead l t) (ld_campaign_id e) (ld_email e) = Some l"
    by (simp add: ok_leads_def)
qed

lemma merge_payload_fields [simp]:
  "ld_id (merge_payload now c q ex l) = ld_id l" "ld_campaign_id (merge_payload now c q ex l) = ld_campaign_id l"
  "ld_email (merge_payload now c q ex l) = ld_email l" "ld_company (merge_payload now c q ex l) = lq_company q"
  "ld_requested_materials (merge_payload now c q ex l) = lq_requested_materials q"
  "ld_responses (merge_payload now c q ex l) = lq_responses q"
  "ld_crm_sync_status (merge_payload now c q ex l) = CrmPending"
  "ld_pack_delivery_status (merge_payload now c q ex l) = next_pack_status ex (map_option ld_pack_delivery_status ex)
     (case ex of None \<Rightarrow> {} | Some e \<Rightarrow> set (or_list (ld_requested_materials e) [])) q"
  "ld_inspection_requested (merge_payload now c q ex l) = lq_inspection_requested q"
  "ld_first_name (merge_payload now c q ex l) = lq_first_name q" "ld_last_name (merge_payload now c q ex l) = lq_last_name q"
  "ld_timing (merge_payload now c q ex l) = lq_timing q" "ld_interests (merge_payload now c q ex l) = lq_interests q"
  "ld_source (merge_payload now c q ex l) = lq_source q" "ld_job_title (merge_payload now c q ex l) = lq_job_title q"
  "ld_marketing_opt_in (merge_payload now c q ex l) = lq_marketing_opt_in q"
  "ld_pack_delivered_materials (merge_payload now c q ex l) = ld_pack_delivered_materials l"
  by (simp_all add: merge_payload_def Let_def recompute_score_def apply_payload_def)

lemma create_lead_Some:
  assumes "ok_leads t" and "create_lead now l t = Some (l', t')"
  shows "ok_leads t'" and "l' \<in> set (rows t')" and "get_by_campaign_email t' (ld_campaign_id l) (ld_email l) = Some l'"
    and "l' = set_ld_id (Some (next_id t)) (l\<lparr>ld_created_at := now\<rparr>)" and "rows t' = rows t @ [l']"
proof -
  let ?l = "l\<lparr>ld_created_at := now\<rparr>"
  from assms(2) have none: "get_by_campaign_email t (ld_campaign_id l) (ld_email l) = None"
    and ins: "tbl_insert set_ld_id ?l t = (l', t')"
    by (auto simp: create_lead_def split: if_splits)
  from ins have t': "t' = snd (tbl_insert set_ld_id ?l t)" and l': "l' = fst (tbl_insert set_ld_id ?l t)"
    by (metis snd_conv) (metis ins fst_conv)
  show l'_eq: "l' = set_ld_id (Some (next_id t)) ?l" by (simp add: l')
  show rows: "rows t' = rows t @ [l']" by (simp add: t' l')
  have "\<forall>x \<in> set (rows t). (ld_campaign_id x, ld_email x) \<noteq> (ld_campaign_id l, ld_email l)"
    using none by (auto simp: get_by_campaign_email_def find_None_all)
  then have "unique_leads t'"
    using assms(1) by (auto simp: unique_leads_def rows l'_eq set_ld_id_def ok_leads_def)
  moreover have "ok_table ld_id t'"
    unfolding t' using assms(1) by (intro ok_tbl_insert) (auto simp: ok_leads_def set_ld_id_def)
  ultimately show ok: "ok_leads t'" by (simp add: ok_leads_def)
  show mem: "l' \<in> set (rows t')" by (simp add: rows)
  with get_by_campaign_email_in [of t' l'] ok l'_eq
  show "get_by_campaign_email t' (ld_campaign_id l) (ld_email l) = Some l'"
    by (simp add: ok_leads_def set_ld_id_def)
qed

text \<open>The row a successful capture leaves, in the three ways it can come about.\<close>

lemma capture_cases:
  assumes "capture_lead_created now rival campaigns slug q t = Inr ((l, created), t')"
  obtains c where "get_by_slug campaigns slug = Some c" and "cg_status c = CampaignActive"
    and "(\<exists>e. get_by_campaign_email t (default (cg_id c) 0) (norm_email (lq_email q)) = Some e \<and>
          l = merge_payload now c q (Some e) e \<and> \<not> created \<and> t' = update_lead l t)
      \<or> (created \<and> get_by_campaign_email t (default (cg_id c) 0) (norm_email (lq_email q)) = None \<and>
          create_lead now (merge_payload now c q None (new_lead (default (cg_id c) 0) (norm_email (lq_email q)))) (rival t)
            = Some (l, t'))
      \<or> (\<exists>e c'. \<not> created \<and> get_by_campaign_email t (default (cg_id c) 0) (norm_email (lq_email q)) = None \<and>
          get_by_campaign_email (rival t) (default (cg_id c) 0) (norm_email (lq_email q)) = Some e \<and>
          l = merge_payload now c' q (Some e) e \<and> t' = update_lead l (rival t))"
  using assms by (auto simp: capture_lead_created_def Let_def split: option.splits if_splits)

text \<open>The row a capture that answers leaves, whatever other requests did in between.\<close>

lemma capture_one_row:
  assumes ok: "ok_leads t" and rival: "ok_leads (rival t)"
    and run: "capture_lead_created now rival campaigns slug q t = Inr ((l, created), t')"
  shows "ok_leads t' \<and>
    (\<exists>c. get_by_slug campaigns slug = Some c \<and> cg_status c = CampaignActive \<and>
      get_by_campaign_email t' (default (cg_id c) 0) (norm_email (lq_email q)) = Some l \<and>
      ld_requested_materials l = lq_requested_materials q \<and> ld_company l = lq_company q \<and>
      ld_first_name l = lq_first_name q \<and> ld_last_name l = lq_last_name q \<and> ld_timing l = lq_timing q \<and>
      ld_interests l = lq_interests q \<and> ld_source l = lq_source q \<and>
      ld_inspection_requested l = lq_inspection_requested q \<and> ld_marketing_opt_in l = lq_marketing_opt_in q \<and>
      ld_id l = (let t1 = (if get_by_campaign_email t (default (cg_id c) 0) (norm_email (lq_email q)) = None then rival t else t)
        in case get_by_campaign_email t1 (default (cg_id c) 0) (norm_email (lq_email q)) of
             Some r \<Rightarrow> ld_id r | None \<Rightarrow> Some (next_id t1)) \<and>
      ld_responses l = lq_responses q \<and> ld_crm_sync_status l = CrmPending \<and>
      (created \<longleftrightarrow> get_by_campaign_email t (default (cg_id c) 0) (norm_email (lq_email q)) = None \<and>
         get_by_campaign_email (rival t) (default (cg_id c) 0) (norm_email (lq_email q)) = None) \<and>
      length (rows t') = (if created then Suc (length (rows (rival t)))
        else if get_by_campaign_email t (default (cg_id c) 0) (norm_email (lq_email q)) = None
        then length (rows (rival t)) else length (rows t)))"
  using run
proof (rule capture_cases)
  fix c :: campaign
  let ?k = "default (cg_id c) 0" and ?e = "norm_email (lq_email q)"
  assume c: "get_by_slug campaigns slug = Some c" "cg_status c = CampaignActive"
    and "(\<exists>e. get_by_campaign_email t ?k ?e = Some e \<and> l = merge_payload now c q (Some e) e \<and> \<not> created \<and> t' = update_lead l t)
      \<or> (created \<and> get_by_campaign_email t ?k ?e = None \<and>
          create_lead now (merge_payload now c q None (new_lead ?k ?e)) (rival t) = Some (l, t'))
      \<or> (\<exists>e c'. \<not> created \<and> get_by_campaign_email t ?k ?e = None \<and> get_by_campaign_email (rival t) ?k ?e = Some e \<and>
          l = merge_payload now c' q (Some e) e \<and> t' = update_lead l (rival t))"
  then show ?thesis
  proof (elim disjE exE conjE)
    fix e :: lead
    assume merge: "get_by_campaign_email t ?k ?e = Some e" "l = merge_payload now c q (Some e) e" "\<not> created" "t' = update_lead l t"
    note e = get_by_campaign_email_Some [OF merge(1)]
    from ok_update_lead [OF ok, of e l] e merge c show ?thesis by (auto simp: update_lead_def)
  next
    assume new: "created" "get_by_campaign_email t ?k ?e = None"
      "create_lead now (merge_payload now c q None (new_lead ?k ?e)) (rival t) = Some (l, t')"
    note cl = create_lead_Some [OF rival new(3)]
    have "get_by_campaign_email (rival t) ?k ?e = None"
      using new(3) by (auto simp: create_lead_def new_lead_def split: if_splits)
    with cl new c show ?thesis by (auto simp: set_ld_id_def new_lead_def)
  next
    fix e :: lead and c' :: campaign
    assume race: "\<not> created" "get_by_campaign_email t ?k ?e = None" "get_by_campaign_email (rival t) ?k ?e = Some e"
        "l = merge_payload now c' q (Some e) e" "t' = update_lead l (rival t)"
    note e = get_by_campaign_email_Some [OF race(3)]
    from ok_update_lead [OF rival, of e l] e race c show ?thesis by (auto simp: update_lead_def)
  qed
qed

lemma get_by_campaign_email_iff:
  "ok_leads t \<Longrightarrow> get_by_campaign_email t k e = Some x \<longleftrightarrow> x \<in> set (rows t) \<and> ld_campaign_id x = k \<and> ld_email x = e"
  using get_by_campaign_email_Some [of t k e x] get_by_campaign_email_in [of t x] by (auto simp: ok_leads_def)

lemma get_by_campaign_email_cong:
  assumes "ok_leads t" and "ok_leads t'"
    and "\<And>x. ld_campaign_id x = k \<and> ld_email x = e \<Longrightarrow> x \<in> set (rows t') \<longleftrightarrow> x \<in> set (rows t)"
  shows "get_by_campaign_email t' k e = get_by_campaign_email t k e"
proof (cases "get_by_campaign_email t k e")
  case None
  then have "\<And>x. get_by_campaign_email t' k e \<noteq> Some x"
    using assms get_by_campaign_email_iff by (metis option.distinct(1))
  with None show ?thesis by (cases "get_by_campaign_email t' k e") auto
next
  case (Some x)
  then show ?thesis using assms get_by_campaign_email_iff by metis
qed

lemma update_lead_other:
  assumes ok: "ok_leads t" and e: "e \<in> set (rows t)"
    and keep: "ld_id l = ld_id e" "ld_campaign_id l = ld_campaign_id e" "ld_email l = ld_email e"
    and other: "(k, m) \<noteq> (ld_campaign_id e, ld_email e)"
  shows "get_by_campaign_email (update_lead l t) k m = get_by_campaign_email t k m"
proof (rule get_by_campaign_email_cong [OF ok ok_update_lead(1) [OF ok e keep]])
  fix x :: lead
  assume x: "ld_campaign_id x = k \<and> ld_email x = m"
  have "distinct (map ld_id (rows t))" using ok by (simp add: ok_leads_def ok_table_def wf_table_def)
  then have same: "y = e" if "y \<in> set (rows t)" "ld_id y = ld_id l" for y
    using e keep(1) that by (auto simp: distinct_map dest: inj_onD)
  show "x \<in> set (rows (update_lead l t)) \<longleftrightarrow> x \<in> set (rows t)"
    using x other keep same by (auto simp: update_lead_def image_iff)
qed

lemma capture_answers:
  assumes rival: "ok_leads (rival t)" and camps: "ok_table cg_id campaigns"
    and c: "get_by_slug campaigns slug = Some c" "cg_status c = CampaignActive"
  obtains l created t' where "capture_lead_created now rival campaigns slug q t = Inr ((l, created), t')"
proof -
  let ?k = "default (cg_id c) 0" and ?e = "norm_email (lq_email q)"
  have "c \<in> set (rows campaigns)" using c(1) unfolding get_by_slug_def by (drule_tac find_Some_in) simp
  then have "get_campaign campaigns ?k = Some c"
    using tbl_get_in [of cg_id campaigns c] camps by (auto simp: ok_table_def wf_table_def get_campaign_def)
  moreover have "get_by_campaign_email (rival t) ?k ?e \<noteq> None"
    if "create_lead now (merge_payload now c q None (new_lead ?k ?e)) (rival t) = None"
    using that by (auto simp: create_lead_def new_lead_def split: if_splits)
  ultimately show thesis
    using c that by (cases "create_lead now (merge_payload now c q None (new_lead ?k ?e)) (rival t)")
      (fastforce simp: capture_lead_created_def Let_def split: option.splits)+
qed

text \<open>A capture that answers leaves every other campaign's and visitor's row as it was in the table it
  wrote to: the one read first for a known visitor, else the one the other requests left.\<close>

lemma capture_leaves_others:
  assumes ok: "ok_leads t" and rival: "ok_leads (rival t)"
    and run: "capture_lead_created now rival campaigns slug q t = Inr ((l, created), t')"
    and c: "get_by_slug campaigns slug = Some c"
    and other: "(k', e') \<noteq> (default (cg_id c) 0, norm_email (lq_email q))"
  shows "get_by_campaign_email t' k' e' = get_by_campaign_email
    (if get_by_campaign_email t (default (cg_id c) 0) (norm_email (lq_email q)) = None then rival t else t) k' e'"
  using run
proof (rule capture_cases)
  fix c2 :: campaign
  let ?k = "default (cg_id c2) 0" and ?e = "norm_email (lq_email q)"
  assume "get_by_slug campaigns slug = Some c2"
    and ways: "(\<exists>e. get_by_campaign_email t ?k ?e = Some e \<and> l = merge_payload now c2 q (Some e) e \<and> \<not> created \<and> t' = update_lead l t)
      \<or> (created \<and> get_by_campaign_email t ?k ?e = None \<and>
          create_lead now (merge_payload now c2 q None (new_lead ?k ?e)) (rival t) = Some (l, t'))
      \<or> (\<exists>e c'. \<not> created \<and> get_by_campaign_email t ?k ?e = None \<and> get_by_campaign_email (rival t) ?k ?e = Some e \<and>
          l = merge_payload now c' q (Some e) e \<and> t' = update_lead l (rival t))"
  with c have c2: "c2 = c" by simp
  from ways show ?thesis
  proof (elim disjE exE conjE)
    fix e :: lead
    assume merge: "get_by_campaign_email t ?k ?e = Some e" "l = merge_payload now c2 q (Some e) e" "t' = update_lead l t"
    note e = get_by_campaign_email_Some [OF merge(1)]
    from update_lead_other [OF ok, of e l k' e'] e merge other show ?thesis by (simp add: c2)
  next
    assume new: "get_by_campaign_email t ?k ?e = None"
      "create_lead now (merge_payload now c2 q None (new_lead ?k ?e)) (rival t) = Some (l, t')"
    note cl = create_lead_Some [OF rival new(2)]
    have "get_by_campaign_email t' k' e' = get_by_campaign_email (rival t) k' e'"
      using other by (intro get_by_campaign_email_cong [OF rival cl(1)])
        (auto simp: cl(4,5) set_ld_id_def new_lead_def merge_payload_fields c2)
    with new c2 show ?thesis by simp
  next
    fix e :: lead and c' :: campaign
    assume race: "get_by_campaign_email t ?k ?e = None" "get_by_campaign_email (rival t) ?k ?e = Some e"
        "l = merge_payload now c' q (Some e) e" "t' = update_lead l (rival t)"
    note e = get_by_campaign_email_Some [OF race(2)]
    from update_lead_other [OF rival, of e l k' e'] e race other show ?thesis by (simp add: c2)
  qed
qed


definition witness_config :: campaign_config where
  "witness_config = \<lparr>cfg_base_tags = [''NOG''], cfg_tag_map = [], cfg_digital_pack_tag = None,
     cfg_inspection_tag = None, cfg_newsletter_tag = None, cfg_materials = [''Brochure'', ''Floorplates''],
     cfg_materials_assets = [(''Brochure'', AssetUrl ''https://b''), (''Floorplates'', AssetUrls [''https://f''])],
     cfg_lead_notification = False, cfg_application_confirmation = False, cfg_crm_sync_enabled = None\<rparr>"

definition witness_campaign :: campaign where
  "witness_campaign = \<lparr>cg_id = Some 1, cg_slug = ''nog-2026'', cg_name = ''NOG'', cg_status = CampaignActive,
     cg_starts_on = None, cg_ends_on = None, cg_timezone = ''Africa/Lagos'', cg_config = witness_config,
     cg_created_at = 0, cg_updated_at = 0\<rparr>"

definition witness_campaigns :: "campaign table" where
  "witness_campaigns = \<lparr>rows = [witness_campaign], next_id = 2\<rparr>"

definition witness_request :: lead_request where
  "witness_request = \<lparr>lq_first_name = ''Ada'', lq_last_name = ''Obi'', lq_email = '' Ada@x.ng '', lq_phone = None,
     lq_company = ''X'', lq_job_title = None, lq_source = ''qr'', lq_device_id = None, lq_timing = None,
     lq_interests = None, lq_requested_materials = Some [''Brochure''], lq_inspection_requested = False,
     lq_inspection_type = None, lq_marketing_opt_in = False, lq_consent_status = False, lq_captured_at = None,
     lq_responses = []\<rparr>"

lemma ok_empty_leads: "ok_leads empty_table"
  by (simp add: ok_leads_def unique_leads_def) (simp add: empty_table_def)

lemma witness_capture:
  "\<exists>l t'. capture_lead_created 7 (\<lambda>t. t) witness_campaigns ''nog-2026'' witness_request empty_table = Inr ((l, True), t')"
  by (simp add: capture_lead_created_def get_by_slug_def witness_campaigns_def witness_campaign_def Let_def
      get_by_campaign_email_def create_lead_def empty_table_def tbl_insert_def)


subsection \<open>Packs\<close>

lemma pick_materials_mem:
  "(x, us) \<in> set (pick_materials known assets seen xs) \<longleftrightarrow>
     x \<in> set xs \<and> x \<notin> seen \<and> x \<in> set known \<and> us = asset_urls (map_of assets x) \<and> us \<noteq> []"
  by (induction known assets seen xs rule: pick_materials.induct) (auto simp: Let_def)

lemma pick_materials_distinct: "distinct (map fst (pick_materials known assets seen xs))"
proof (induction known assets seen xs rule: pick_materials.induct)
  case (2 known assets seen x xs)
  have "x \<notin> fst ` set (pick_materials known assets (insert x seen) xs)"
    using pick_materials_mem [of _ _ known assets "insert x seen" xs] by fastforce
  with 2 show ?case by (auto simp: Let_def)
qed simp

lemma pick_materials_subseq: "subseq (map fst (pick_materials known assets seen xs)) xs"
  by (induction known assets seen xs rule: pick_materials.induct) (auto simp: Let_def)

lemma mark_sent_fields [simp]:
  "ld_id (mark_sent now docs l) = ld_id l" "ld_campaign_id (mark_sent now docs l) = ld_campaign_id l"
  "ld_email (mark_sent now docs l) = ld_email l" "ld_pack_delivery_status (mark_sent now docs l) = PackSent"
  "ld_pack_delivered_materials (mark_sent now docs l) = Some (map fst docs)"
  "ld_requested_materials (mark_sent now docs l) = ld_requested_materials l"
  "ld_inspection_requested (mark_sent now docs l) = ld_inspection_requested l"
  by (simp_all add: mark_sent_def flag_crm_refresh_def)

lemma set_pack_fields [simp]:
  "ld_id (set_pack st e l) = ld_id l" "ld_campaign_id (set_pack st e l) = ld_campaign_id l"
  "ld_email (set_pack st e l) = ld_email l" "ld_pack_delivery_status (set_pack st e l) = st"
  "ld_requested_materials (set_pack st e l) = ld_requested_materials l"
  "ld_inspection_requested (set_pack st e l) = ld_inspection_requested l"
  by (simp_all add: set_pack_def)

lemma send_campaign_email_cases:
  "(\<exists>m'. send_campaign_email cfg post m sent = (True, sent @ [m']) \<and> ml_to m' = ml_to m \<and> ml_docs m' = ml_docs m \<and>
      ml_kind m' = ml_kind m \<and> wtc_sendgrid_api_key cfg \<noteq> []) \<or> send_campaign_email cfg post m sent = (False, sent)"
  by (simp add: send_campaign_email_def Let_def)

text \<open>C13: delivering a pack looks up the documents the lead asked for that the campaign knows and has a
  link for, each once and in the order asked. With at least one, and a mail key, it posts one
  mail to the visitor with exactly these; the mail counts as sent, and the lead as sent with
  these documents, exactly when the mail service takes it, else the lead is marked failed.
  Without a key it is marked skipped, without a document failed if a real one was asked for and
  not requested otherwise; nothing is posted then. The table holds the marked lead. (The lead is
  a row of a table that respects its keys.)\<close>

theorem deliver_pack_sends_exactly:
  assumes "ok_leads (fst w)" and "l \<in> set (rows (fst w))"
  shows "case deliver_pack now cfg post c l w of (l', t', sent) \<Rightarrow>
    ok_leads t' \<and> l' \<in> set (rows t') \<and> ld_id l' = ld_id l \<and>
    (\<exists>docs. distinct (map fst docs) \<and> subseq (map fst docs) (or_list (ld_requested_materials l) []) \<and>
      set docs = {(x, us). x \<in> set (or_list (ld_requested_materials l) []) \<and>
         x \<in> set (cfg_materials (cg_config c)) \<and>
         us = asset_urls (map_of (cfg_materials_assets (cg_config c)) x) \<and> us \<noteq> []} \<and>
      (let m = \<lparr>ml_to = ld_email l,
             ml_cc = filter (\<lambda>a. a \<noteq> [] \<and> py_lower a \<noteq> py_lower (ld_email l)) (cc_list cfg),
             ml_lead_id = ld_id l, ml_kind = Some ''pack'', ml_docs = docs\<rparr>;
           taken = (docs \<noteq> [] \<and> wtc_sendgrid_api_key cfg \<noteq> [] \<and> post (snd w) m)
       in sent = (if taken then snd w @ [m] else snd w) \<and>
          ld_pack_delivered_materials l' = (if taken then Some (map fst docs) else ld_pack_delivered_materials l) \<and>
          ld_pack_delivery_status l' =
            (if docs = [] then (if real_materials_requested l c then PackFailed else PackNotRequested)
             else if wtc_sendgrid_api_key cfg = [] then PackSkipped
             else if taken then PackSent else PackFailed)))"
proof -
  let ?docs = "deliverable_materials l c"
  obtain l' sent where out: "pack_outcome now cfg post c l (snd w) = (l', sent)" by fastforce
  have keep: "ld_id l' = ld_id l" "ld_campaign_id l' = ld_campaign_id l" "ld_email l' = ld_email l"
    using out by (auto simp: pack_outcome_def Let_def split: if_splits prod.splits bool.splits)
  have tab: "ok_leads (update_lead l' (fst w))" "l' \<in> set (rows (update_lead l' (fst w)))"
    using ok_update_lead [OF assms keep] by simp_all
  have docs: "set ?docs = {(x, us). x \<in> set (or_list (ld_requested_materials l) []) \<and>
         x \<in> set (cfg_materials (cg_config c)) \<and>
         us = asset_urls (map_of (cfg_materials_assets (cg_config c)) x) \<and> us \<noteq> []}"
    by (auto simp: deliverable_materials_def pick_materials_mem)
  have shape: "distinct (map fst ?docs)" "subseq (map fst ?docs) (or_list (ld_requested_materials l) [])"
    by (simp_all add: deliverable_materials_def pick_materials_distinct pick_materials_subseq)
  let ?m = "\<lparr>ml_to = ld_email l,
             ml_cc = filter (\<lambda>a. a \<noteq> [] \<and> py_lower a \<noteq> py_lower (ld_email l)) (cc_list cfg),
             ml_lead_id = ld_id l, ml_kind = Some ''pack'', ml_docs = ?docs\<rparr>"
  let ?taken = "?docs \<noteq> [] \<and> wtc_sendgrid_api_key cfg \<noteq> [] \<and> post (snd w) ?m"
  have "sent = (if ?taken then snd w @ [?m] else snd w)"
    and "ld_pack_delivered_materials l' = (if ?taken then Some (map fst ?docs) else ld_pack_delivered_materials l)"
    and "ld_pack_delivery_status l' =
            (if ?docs = [] then (if real_materials_requested l c then PackFailed else PackNotRequested)
             else if wtc_sendgrid_api_key cfg = [] then PackSkipped
             else if ?taken then PackSent else PackFailed)"
    using out by (auto simp: pack_outcome_def send_campaign_email_def pack_mail_def mark_sent_def flag_crm_refresh_def set_pack_def
        Let_def split: if_splits)
  with out keep(1) tab docs shape show ?thesis
    unfolding deliver_pack_def out prod.case Let_def by (intro conjI exI [of _ ?docs]) assumption+
qed

definition witness_lead :: lead where
  "witness_lead = (new_lead 1 ''ada@x.ng'')\<lparr>ld_id := Some 1, ld_requested_materials := Some [''Brochure''],
     ld_pack_delivery_status := PackPending\<rparr>"

definition witness_settings :: settings where
  "witness_settings = \<lparr>wtc_sendgrid_api_key = ''key'', campaign_cc_email = [], campaign_notification_email = [],
     freshsales_lead_sync_enabled = True\<rparr>"

lemma ok_witness_leads: "ok_leads \<lparr>rows = [witness_lead], next_id = 2\<rparr>"
  by (simp add: ok_leads_def unique_leads_def ok_table_def wf_table_def witness_lead_def)

theorem deliver_pack_sends_exactly_witness:
  "case deliver_pack 9 witness_settings (\<lambda>_ _. True) witness_campaign witness_lead (\<lparr>rows = [witness_lead], next_id = 2\<rparr>, []) of
     (l', t', sent) \<Rightarrow> ld_pack_delivery_status l' = PackSent \<and> ok_leads t' \<and>
       (\<exists>m. sent = [m] \<and> set (ml_docs m) = {(''Brochure'', [''https://b''])})"
proof -
  let ?w = "(\<lparr>rows = [witness_lead], next_id = 2\<rparr>, [] :: mail list)"
  have "ok_leads (fst ?w)" "witness_lead \<in> set (rows (fst ?w))" using ok_witness_leads by simp_all
  note spec = deliver_pack_sends_exactly [OF this, where now = 9 and cfg = witness_settings and
    post = "\<lambda>_ _. True" and c = witness_campaign]
  have D: "{(x, us). x \<in> set (or_list (ld_requested_materials witness_lead) []) \<and>
      x \<in> set (cfg_materials (cg_config witness_campaign)) \<and>
      us = asset_urls (map_of (cfg_materials_assets (cg_config witness_campaign)) x) \<and> us \<noteq> []} =
      {(''Brochure'', [''https://b''])}"
    by (auto simp: witness_lead_def witness_campaign_def witness_config_def)
  have key: "wtc_sendgrid_api_key witness_settings \<noteq> []" by (simp add: witness_settings_def)
  obtain l' t' sent where res: "deliver_pack 9 witness_settings (\<lambda>_ _. True) witness_campaign witness_lead ?w = (l', t', sent)"
    by (rule prod_cases3)
  from spec [unfolded res prod.case D] obtain docs where docs: "set docs = {(''Brochure'', [''https://b''])}"
    and ok: "ok_leads t'" and sent: "sent = [] @ [\<lparr>ml_to = ld_email witness_lead,
        ml_cc = filter (\<lambda>a. a \<noteq> [] \<and> py_lower a \<noteq> py_lower (ld_email witness_lead)) (cc_list witness_settings),
        ml_lead_id = ld_id witness_lead, ml_kind = Some ''pack'', ml_docs = docs\<rparr>]"
    and status: "ld_pack_delivery_status l' = PackSent"
    by (elim conjE exE) (use key in \<open>simp add: Let_def split: if_splits\<close>)
  show ?thesis unfolding res prod.case using ok status docs sent by simp
qed

text \<open>A visitor whose pack is sent and who then asks for fewer and again for the same documents
  is queued for delivery again, although the lead's own record says all of them were
  delivered: the comparison is with the last selection, not with what was delivered.\<close>

theorem reselecting_delivered_pack_resends:
  assumes "ld_pack_delivery_status e = PackSent" and "ld_pack_delivered_materials e = Some [a, b]"
    and "ld_requested_materials e = Some [a, b]" and "a \<noteq> b"
    and "lq_requested_materials q1 = Some [a]" and "lq_requested_materials q2 = Some [a, b]"
  shows "let e1 = merge_payload now c q1 (Some e) e; e2 = merge_payload now' c q2 (Some e1) e1 in
    ld_pack_delivery_status e1 = PackSent \<and> ld_pack_delivery_status e2 = PackPending \<and>
    ld_pack_delivered_materials e2 = Some [a, b]"
  using assms by (simp add: Let_def next_pack_status_def)

theorem reselecting_delivered_pack_resends_witness:
  "let e = (new_lead 1 ''ada@x.ng'')\<lparr>ld_pack_delivery_status := PackSent,
      ld_pack_delivered_materials := Some [''Brochure'', ''Floorplates''],
      ld_requested_materials := Some [''Brochure'', ''Floorplates'']\<rparr>;
    q1 = witness_request; q2 = witness_request\<lparr>lq_requested_materials := Some [''Brochure'', ''Floorplates'']\<rparr>;
    e1 = merge_payload 1 witness_campaign q1 (Some e) e;
    e2 = merge_payload 2 witness_campaign q2 (Some e1) e1 in
    ld_pack_delivery_status e1 = PackSent \<and> ld_pack_delivery_status e2 = PackPending \<and>
    ld_pack_delivered_materials e2 = Some [''Brochure'', ''Floorplates'']"
  unfolding Let_def
  by (rule reselecting_delivered_pack_resends [unfolded Let_def]) (simp_all add: witness_request_def)

end
