(* ===== verification/Crm_Sync.thy ===== *)
theory Crm_Sync
  imports Pack_Delivery
begin

section \<open>Pushing leads to the CRM and pulling triage back\<close>

text \<open>
  Model of \<open>app/services/lead_crm_sync.py\<close> and \<open>lead_triage_sync.py\<close>. What the CRM
  answers to an upsert is the argument \<open>upsert\<close>; the bodies it was sent are kept in
  order. \<open>Inl AttributeError\<close> is the exception that \<open>sync_lead\<close> does not catch.
\<close>

definition NOG_2026_SLUG :: string where "NOG_2026_SLUG = ''nog-2026''"
definition WEBSITE_SLUG :: string where "WEBSITE_SLUG = ''wtcabuja-website''"
definition NOG_LEAD_SOURCE_ID :: int where "NOG_LEAD_SOURCE_ID = 17001007403"
definition WEBSITE_LEAD_SOURCE_ID :: int where "WEBSITE_LEAD_SOURCE_ID = 17001006640"
definition INQUIRY_STAGE_ID :: int where "INQUIRY_STAGE_ID = 18006136123"
definition WEBSITE_CONTACT_STATUS_NEW_ID :: int where "WEBSITE_CONTACT_STATUS_NEW_ID = 17000261833"

definition LEAD_SOURCE_ID_BY_CAMPAIGN :: "(string \<times> int) list" where
  "LEAD_SOURCE_ID_BY_CAMPAIGN = [(NOG_2026_SLUG, NOG_LEAD_SOURCE_ID)]"

definition lead_source_id :: "campaign \<Rightarrow> int" where
  "lead_source_id c = default (map_of LEAD_SOURCE_ID_BY_CAMPAIGN (cg_slug c)) WEBSITE_LEAD_SOURCE_ID"

record contact_payload =
  cp_unique_email :: json
  cp_first_name :: json
  cp_last_name :: json
  cp_email_value :: json
  cp_mobile_number :: json
  cp_job_title :: json
  cp_tags :: "string list"
  cp_lead_source_id :: int
  cp_lifecycle_stage_id :: int
  cp_custom_field :: "json dict"
  cp_contact_status_id :: "int option"

definition json_opt :: "string option \<Rightarrow> json" where
  "json_opt x = (case x of None \<Rightarrow> JNull | Some s \<Rightarrow> JStr s)"

definition build_contact_payload :: "lead \<Rightarrow> campaign \<Rightarrow> contact_payload" where
  "build_contact_payload l c =
     (let sent = ld_pack_delivery_status l = PackSent in
     \<lparr>cp_unique_email = JStr (ld_email l), cp_first_name = JStr (ld_first_name l),
      cp_last_name = JStr (ld_last_name l), cp_email_value = JStr (ld_email l),
      cp_mobile_number = JStr (ld_phone l), cp_job_title = json_opt (ld_job_title l),
      cp_tags = or_list (ld_tags l) [], cp_lead_source_id = lead_source_id c,
      cp_lifecycle_stage_id = INQUIRY_STAGE_ID,
      cp_custom_field =
        [(''cf_company'', JStr (ld_company l)), (''cf_campaign'', JStr (cg_slug c)),
         (''cf_interests'', JStr (py_join '', '' (or_list (ld_interests l) []))),
         (''cf_requested_materials'', JStr (py_join '', '' (or_list (ld_requested_materials l) []))),
         (''cf_timing'', json_opt (ld_timing l)),
         (''cf_inspection_requested'', JBool (ld_inspection_requested l)),
         (''cf_marketing_opt_in'', JBool (ld_marketing_opt_in l)),
         (''cf_consent'', JBool (ld_consent_status l)), (''cf_source'', JStr (ld_source l)),
         (''cf_icp_score'', case ld_icp_score l of None \<Rightarrow> JNull | Some n \<Rightarrow> JInt n)] @
        (if cg_slug c = NOG_2026_SLUG
         then [(''cf_collateral_sent'', JStr (if sent then ''Yes'' else ''No'')),
               (''cf_lifecycle_stagenog_week'', JStr (if sent then ''Nurturing'' else ''New''))]
         else []),
      cp_contact_status_id = (if cg_slug c = WEBSITE_SLUG then Some WEBSITE_CONTACT_STATUS_NEW_ID else None)\<rparr>)"

text \<open>\<open>x or ""\<close> on a JSON value.\<close>

definition json_or_empty :: "json \<Rightarrow> json" where
  "json_or_empty j = (if json_truthy j then j else JStr [])"

definition build_second_participant_contact_payload ::
    "lead \<Rightarrow> campaign \<Rightarrow> attribute_error + contact_payload option" where
  "build_second_participant_contact_payload l c =
     rbind (second_participant l) (\<lambda>d. let email = json_get d ''email'' in
       if \<not> json_truthy email then Inr None
       else Inr (Some
         \<lparr>cp_unique_email = email, cp_first_name = json_or_empty (json_get d ''first_name''),
          cp_last_name = json_or_empty (json_get d ''last_name''), cp_email_value = email,
          cp_mobile_number = json_get d ''phone'', cp_job_title = json_get d ''job_title'',
          cp_tags = or_list (ld_tags l) [] @ [''Second Participant''],
          cp_lead_source_id = lead_source_id c, cp_lifecycle_stage_id = INQUIRY_STAGE_ID,
          cp_custom_field = [(''cf_company'', JStr (ld_company l)), (''cf_campaign'', JStr (cg_slug c)),
            (''cf_source'', JStr (ld_source l)), (''cf_consent'', JBool (ld_consent_status l))],
          cp_contact_status_id = None\<rparr>))"

subsection \<open>One contact\<close>

text \<open>An HTTP error with its message and body, or another exception.\<close>

datatype upsert_error = HttpFailure string string | OtherFailure string

type_synonym crm_upsert = "contact_payload list \<Rightarrow> contact_payload \<Rightarrow> upsert_error + string option"

definition CONTACT_STATUS_ERROR_MARKER :: string where
  "CONTACT_STATUS_ERROR_MARKER = ''Invalid contact status provided''"

definition upsert_with_status_fallback ::
    "crm_upsert \<Rightarrow> contact_payload \<Rightarrow> contact_payload list \<Rightarrow> (upsert_error + string option) \<times> contact_payload list" where
  "upsert_with_status_fallback upsert p calls =
     (case upsert calls p of
        Inl (HttpFailure msg body) \<Rightarrow>
          if cp_contact_status_id p = None \<or> \<not> contains CONTACT_STATUS_ERROR_MARKER body
          then (Inl (HttpFailure msg body), calls @ [p])
          else let q = p\<lparr>cp_contact_status_id := None\<rparr> in (upsert (calls @ [p]) q, calls @ [p, q])
      | r \<Rightarrow> (r, calls @ [p]))"

definition failure_text :: "upsert_error \<Rightarrow> string" where
  "failure_text e = take 500 (case e of HttpFailure msg body \<Rightarrow> msg @ '' | body: '' @ body | OtherFailure msg \<Rightarrow> msg)"

definition record_outcome :: "time \<Rightarrow> upsert_error + string option \<Rightarrow> lead \<Rightarrow> lead" where
  "record_outcome now r l = (case r of
     Inr contact_id \<Rightarrow> l\<lparr>ld_crm_contact_id := contact_id, ld_crm_sync_status := CrmSynced,
       ld_crm_synced_at := Some now, ld_crm_error := None\<rparr>
   | Inl e \<Rightarrow> l\<lparr>ld_crm_sync_status := CrmFailed, ld_crm_error := Some (failure_text e)\<rparr>)"

definition sync_allowed :: "settings \<Rightarrow> bool \<Rightarrow> campaign \<Rightarrow> bool" where
  "sync_allowed cfg force c \<longleftrightarrow> freshsales_lead_sync_enabled cfg \<and>
     (force \<or> default (cfg_crm_sync_enabled (cg_config c)) True)"

definition sync_lead ::
    "time \<Rightarrow> settings \<Rightarrow> crm_upsert \<Rightarrow> bool \<Rightarrow> campaign \<Rightarrow> lead \<Rightarrow> lead table \<times> contact_payload list
      \<Rightarrow> (attribute_error + lead) \<times> lead table \<times> contact_payload list" where
  "sync_lead now cfg upsert force c l w =
     (if \<not> sync_allowed cfg force c
      then (let l' = l\<lparr>ld_crm_sync_status := CrmSkipped\<rparr> in (Inr l', update_lead l' (fst w), snd w))
      else case upsert_with_status_fallback upsert (build_contact_payload l c) (snd w) of (r, calls) \<Rightarrow>
        let l' = record_outcome now r l in
        case build_second_participant_contact_payload l' c of
          Inl e \<Rightarrow> (Inl e, fst w, calls)
        | Inr second \<Rightarrow> (Inr l', update_lead l' (fst w),
            case second of None \<Rightarrow> calls | Some p \<Rightarrow> snd (upsert_with_status_fallback upsert p calls)))"

subsection \<open>The scheduled push\<close>

text \<open>
  The loop of \<open>sync_pending\<close>: like the sweep of the pack delivery, but an exception of
  \<open>sync_lead\<close> ends it. The leads before it are committed, so the result carries the state
  in either case.
\<close>

fun push_loop ::
    "('i \<Rightarrow> int) \<Rightarrow> (int \<Rightarrow> 'p option) \<Rightarrow> ('i \<Rightarrow> 'p \<Rightarrow> 's \<Rightarrow> ('e + 'i) \<times> 's) \<Rightarrow> ('i \<Rightarrow> bool)
      \<Rightarrow> 'i list \<Rightarrow> (int \<times> 'p) list \<Rightarrow> nat \<Rightarrow> 's \<Rightarrow> ('e + nat) \<times> 's" where
  "push_loop parent look process good [] cache n s = (Inr n, s)"
| "push_loop parent look process good (x # xs) cache n s =
     (case (case map_of cache (parent x) of Some p \<Rightarrow> Some (p, cache)
            | None \<Rightarrow> map_option (\<lambda>p. (p, AList.update (parent x) p cache)) (look (parent x))) of
        None \<Rightarrow> push_loop parent look process good xs cache n s
      | Some (p, cache') \<Rightarrow>
          (case process x p s of
             (Inl e, s') \<Rightarrow> (Inl e, s')
           | (Inr x', s') \<Rightarrow>
               push_loop parent look process good xs cache' (if good x' then n + 1 else n) s'))"

definition sync_pending ::
    "time \<Rightarrow> settings \<Rightarrow> crm_upsert \<Rightarrow> nat \<Rightarrow> campaign table \<Rightarrow> lead table \<times> contact_payload list
      \<Rightarrow> (attribute_error + nat) \<times> lead table \<times> contact_payload list" where
  "sync_pending now cfg upsert limit campaigns w =
     (if \<not> freshsales_lead_sync_enabled cfg then (Inr 0, w)
      else push_loop ld_campaign_id (get_campaign campaigns)
        (\<lambda>l c. sync_lead now cfg upsert False c l) (\<lambda>l. ld_crm_sync_status l = CrmSynced)
        (list_pending_crm_sync [CrmFailed, CrmPending] limit (fst w)) [] 0 w)"

subsection \<open>Triage from the CRM\<close>

definition SYSTEM_TRIAGE_BY :: string where "SYSTEM_TRIAGE_BY = ''freshsales-sync''"

text \<open>
  \<open>contacted k\<close> is the CRM's answer for contact \<open>k\<close>: its \<open>last_contacted\<close> is set, or
  the request failed. A contact id that is no integer makes \<open>int\<close> raise, which ends the
  loop; \<open>parse_int\<close> is that conversion.
\<close>

fun triage_loop ::
    "time \<Rightarrow> (string \<Rightarrow> int option) \<Rightarrow> (int \<Rightarrow> bool option) \<Rightarrow> lead list \<Rightarrow> nat \<Rightarrow> lead table
      \<Rightarrow> nat option \<times> lead table" where
  "triage_loop now parse_int contacted [] n t = (Some n, t)"
| "triage_loop now parse_int contacted (l # ls) n t =
     (case parse_int (default (ld_crm_contact_id l) []) of
        None \<Rightarrow> (None, t)
      | Some k \<Rightarrow>
          (case contacted k of
             Some True \<Rightarrow> triage_loop now parse_int contacted ls (n + 1)
               (update_lead (set_triage now TriageContacted (Some SYSTEM_TRIAGE_BY) l) t)
           | _ \<Rightarrow> triage_loop now parse_int contacted ls n t))"

definition sync_triage_from_crm ::
    "time \<Rightarrow> (string \<Rightarrow> int option) \<Rightarrow> (int \<Rightarrow> bool option) \<Rightarrow> nat \<Rightarrow> lead table \<Rightarrow> nat option \<times> lead table" where
  "sync_triage_from_crm now parse_int contacted limit t =
     triage_loop now parse_int contacted (list_untriaged_with_crm_contact limit t) 0 t"

end
