(* ===== verification/Auth.thy ===== *)
theory Auth
  imports Prelude
begin

section \<open>Users, tokens and roles\<close>

text \<open>
  Model of \<open>app/models/dashboard_user.py\<close>, \<open>app/repositories/users_repo.py\<close>,
  \<open>app/schemas/auth.py\<close>, \<open>app/core/security.py\<close>, \<open>app/api/dependencies.py\<close> and of
  the endpoints \<open>auth.py\<close> and the user administration of \<open>admin.py\<close>. The JWT and
  bcrypt libraries are the fields of \<open>crypto\<close>: signing a set of claims, reading a token
  back at an instant (\<open>None\<close> on any \<open>PyJWTError\<close>, expiry included), hashing with a
  fresh salt and checking a password.
\<close>

record user =
  us_email :: string
  us_role :: string
  us_owner_id :: "int option"
  us_hashed_password :: "string option"
  us_must_change_password :: bool

type_synonym users = "(string \<times> user) list"

definition get_user_by_email :: "users \<Rightarrow> string \<Rightarrow> user option" where
  "get_user_by_email us e = map_of us e"

definition save_user :: "user \<Rightarrow> users \<Rightarrow> users" where
  "save_user u us = AList.update (us_email u) u us"

definition set_password :: "user \<Rightarrow> string \<Rightarrow> bool \<Rightarrow> users \<Rightarrow> users" where
  "set_password u hashed must_change us =
     save_user (u\<lparr>us_hashed_password := Some hashed, us_must_change_password := must_change\<rparr>) us"

definition repo_update_user :: "user \<Rightarrow> string \<Rightarrow> int option \<Rightarrow> users \<Rightarrow> users" where
  "repo_update_user u role owner us = save_user (u\<lparr>us_role := role, us_owner_id := owner\<rparr>) us"

definition repo_delete_user :: "user \<Rightarrow> users \<Rightarrow> users" where
  "repo_delete_user u us = AList.delete (us_email u) us"

subsection \<open>Validation of requests\<close>

definition VALID_ROLES :: "string list" where
  "VALID_ROLES = [''superadmin'', ''admin'', ''hod'', ''team_lead'', ''rep'']"

definition MIN_PASSWORD_LENGTH :: nat where "MIN_PASSWORD_LENGTH = 8"

definition ALLOWED_EMAIL_DOMAINS :: "string list" where
  "ALLOWED_EMAIL_DOMAINS = [''@churchgate.com'', ''@wtcabuja.com'']"

definition ends_with :: "string \<Rightarrow> string \<Rightarrow> bool" where
  "ends_with suf s = starts_with (rev suf) (rev s)"

definition validate_password_strength :: "string \<Rightarrow> bool" where
  "validate_password_strength p \<longleftrightarrow> MIN_PASSWORD_LENGTH \<le> length p"

definition validate_churchgate_email :: "string \<Rightarrow> string option" where
  "validate_churchgate_email e =
     (if list_ex (\<lambda>d. ends_with d (py_lower e)) ALLOWED_EMAIL_DOMAINS then Some (py_lower e) else None)"

record create_user_request =
  cu_email :: string
  cu_role :: string
  cu_owner_id :: "int option"
  cu_password :: "string option"

definition valid_create_user :: "create_user_request \<Rightarrow> create_user_request option" where
  "valid_create_user q =
     (case validate_churchgate_email (cu_email q) of
        None \<Rightarrow> None
      | Some e \<Rightarrow> if cu_role q \<in> set VALID_ROLES \<and>
            (case cu_password q of None \<Rightarrow> True | Some p \<Rightarrow> validate_password_strength p)
          then Some (q\<lparr>cu_email := e\<rparr>) else None)"

subsection \<open>Tokens\<close>

record claims =
  cl_sub :: string
  cl_role :: string
  cl_type :: string
  cl_iat :: time
  cl_exp :: time

record crypto =
  jwt_encode :: "claims \<Rightarrow> string"
  jwt_decode :: "time \<Rightarrow> string \<Rightarrow> claims option"
  bcrypt_hash :: "string \<Rightarrow> string"
  bcrypt_check :: "string \<Rightarrow> string \<Rightarrow> bool"

record token_settings =
  access_minutes :: int
  refresh_minutes :: int

definition minutes :: "int \<Rightarrow> time" where "minutes n = n * 60 * 1000000"

definition encode_token :: "crypto \<Rightarrow> time \<Rightarrow> string \<Rightarrow> string \<Rightarrow> string \<Rightarrow> time \<Rightarrow> string" where
  "encode_token cr now subject role ty delta = jwt_encode cr
     \<lparr>cl_sub = subject, cl_role = role, cl_type = ty, cl_iat = now, cl_exp = now + delta\<rparr>"

definition create_access_token :: "crypto \<Rightarrow> token_settings \<Rightarrow> time \<Rightarrow> string \<Rightarrow> string \<Rightarrow> string" where
  "create_access_token cr cfg now subject role =
     encode_token cr now subject role ''access'' (minutes (access_minutes cfg))"

definition create_refresh_token :: "crypto \<Rightarrow> token_settings \<Rightarrow> time \<Rightarrow> string \<Rightarrow> string \<Rightarrow> string" where
  "create_refresh_token cr cfg now subject role =
     encode_token cr now subject role ''refresh'' (minutes (refresh_minutes cfg))"

subsection \<open>Who is calling\<close>

text \<open>The user a token of the given type stands for; shared by the cookie check and the refresh.\<close>

definition user_of_token :: "crypto \<Rightarrow> time \<Rightarrow> string \<Rightarrow> users \<Rightarrow> string option \<Rightarrow> user http" where
  "user_of_token cr now ty us token =
     (case token of
        None \<Rightarrow> HttpError 401 ''Not authenticated''
      | Some tk \<Rightarrow>
          (case jwt_decode cr now tk of
             None \<Rightarrow> HttpError 401 ''Invalid token''
           | Some c \<Rightarrow>
               if cl_type c \<noteq> ty then HttpError 401 ''Invalid token type''
               else (case get_user_by_email us (cl_sub c) of
                 None \<Rightarrow> HttpError 401 ''Unknown user''
               | Some u \<Rightarrow> HttpOk 200 u)))"

definition get_current_user :: "crypto \<Rightarrow> time \<Rightarrow> users \<Rightarrow> string option \<Rightarrow> user http" where
  "get_current_user cr now us access_token = user_of_token cr now ''access'' us access_token"

fun http_then :: "'a http \<Rightarrow> ('a \<Rightarrow> 'b http) \<Rightarrow> 'b http" where
  "http_then (HttpOk n x) f = f x"
| "http_then (HttpError n m) f = HttpError n m"

definition require_role :: "string list \<Rightarrow> user http \<Rightarrow> user http" where
  "require_role roles caller = http_then caller (\<lambda>u.
     if us_role u \<in> set roles then HttpOk 200 u else HttpError 403 ''Insufficient role'')"

definition get_owner_scope :: "user http \<Rightarrow> int option http" where
  "get_owner_scope caller = http_then caller (\<lambda>u.
     if us_role u = ''rep''
     then (case us_owner_id u of
             None \<Rightarrow> HttpError 403 ''Rep account is not linked to a Freshsales owner''
           | Some k \<Rightarrow> HttpOk 200 (Some k))
     else HttpOk 200 None)"

subsection \<open>The auth endpoints\<close>

record current_user =
  ci_email :: string
  ci_role :: string
  ci_owner_id :: "int option"
  ci_must_change_password :: bool

definition mk_current_user :: "user \<Rightarrow> current_user" where
  "mk_current_user u = \<lparr>ci_email = us_email u, ci_role = us_role u, ci_owner_id = us_owner_id u,
     ci_must_change_password = us_must_change_password u\<rparr>"

record auth_response =
  ar_access_token :: string
  ar_refresh_token :: string
  ar_user :: current_user

definition issue_tokens :: "crypto \<Rightarrow> token_settings \<Rightarrow> time \<Rightarrow> user \<Rightarrow> auth_response" where
  "issue_tokens cr cfg now u =
     \<lparr>ar_access_token = create_access_token cr cfg now (us_email u) (us_role u),
      ar_refresh_token = create_refresh_token cr cfg now (us_email u) (us_role u),
      ar_user = mk_current_user u\<rparr>"

definition login ::
    "crypto \<Rightarrow> token_settings \<Rightarrow> time \<Rightarrow> users \<Rightarrow> string \<Rightarrow> string \<Rightarrow> auth_response http" where
  "login cr cfg now us email password =
     (case get_user_by_email us email of
        None \<Rightarrow> HttpError 401 ''Invalid credentials''
      | Some u \<Rightarrow>
          if \<not> bcrypt_check cr password (default (us_hashed_password u) [])
          then HttpError 401 ''Invalid credentials''
          else HttpOk 200 (issue_tokens cr cfg now u))"

definition me :: "user http \<Rightarrow> current_user http" where
  "me caller = http_then caller (\<lambda>u. HttpOk 200 (mk_current_user u))"

definition refresh ::
    "crypto \<Rightarrow> token_settings \<Rightarrow> time \<Rightarrow> users \<Rightarrow> string option \<Rightarrow> auth_response http" where
  "refresh cr cfg now us refresh_token =
     http_then (user_of_token cr now ''refresh'' us refresh_token)
       (\<lambda>u. HttpOk 200 (issue_tokens cr cfg now u))"

text \<open>A new password that is too short is refused by validation (422).\<close>

definition change_password ::
    "crypto \<Rightarrow> user http \<Rightarrow> string \<Rightarrow> string \<Rightarrow> users \<Rightarrow> unit http \<times> users" where
  "change_password cr caller current new us =
     (case caller of
        HttpError n m \<Rightarrow> (HttpError n m, us)
      | HttpOk n u \<Rightarrow>
          if \<not> validate_password_strength new then (HttpError 422 ''Unprocessable'', us)
          else if \<not> bcrypt_check cr current (default (us_hashed_password u) [])
          then (HttpError 400 ''Current password is incorrect'', us)
          else if new = current
          then (HttpError 400 ''New password must be different from the current one'', us)
          else (HttpOk 200 (), set_password u (bcrypt_hash cr new) False us))"

subsection \<open>User administration\<close>

text \<open>The answer with the temporary password; the invitation mail is not part of the state.\<close>

record user_created =
  uc_user :: current_user
  uc_temp_password :: "string option"

definition create_user ::
    "crypto \<Rightarrow> string \<Rightarrow> user http \<Rightarrow> create_user_request \<Rightarrow> users \<Rightarrow> user_created http \<times> users" where
  "create_user cr generated caller q us =
     (case require_role [''superadmin''] caller of
        HttpError n m \<Rightarrow> (HttpError n m, us)
      | HttpOk n actor \<Rightarrow>
          (case valid_create_user q of
             None \<Rightarrow> (HttpError 422 ''Unprocessable'', us)
           | Some q' \<Rightarrow>
               if get_user_by_email us (cu_email q') \<noteq> None
               then (HttpError 409 ''Email already registered'', us)
               else let temp = or_list (cu_password q') generated;
                        u = \<lparr>us_email = cu_email q', us_role = cu_role q', us_owner_id = cu_owner_id q',
                             us_hashed_password = Some (bcrypt_hash cr temp), us_must_change_password = True\<rparr>
                    in (HttpOk 201 \<lparr>uc_user = mk_current_user u, uc_temp_password = Some temp\<rparr>, save_user u us)))"

definition reset_user_password ::
    "crypto \<Rightarrow> string \<Rightarrow> user http \<Rightarrow> string \<Rightarrow> users \<Rightarrow> user_created http \<times> users" where
  "reset_user_password cr generated caller email us =
     (case require_role [''superadmin''] caller of
        HttpError n m \<Rightarrow> (HttpError n m, us)
      | HttpOk n actor \<Rightarrow>
          (case get_user_by_email us email of
             None \<Rightarrow> (HttpError 404 ''User not found'', us)
           | Some u \<Rightarrow>
               (HttpOk 200 \<lparr>uc_user = (mk_current_user u)\<lparr>ci_must_change_password := True\<rparr>,
                  uc_temp_password = Some generated\<rparr>,
                set_password u (bcrypt_hash cr generated) True us)))"

definition update_user ::
    "user http \<Rightarrow> string \<Rightarrow> string \<Rightarrow> int option \<Rightarrow> users \<Rightarrow> user_created http \<times> users" where
  "update_user caller email role owner us =
     (case require_role [''superadmin''] caller of
        HttpError n m \<Rightarrow> (HttpError n m, us)
      | HttpOk n actor \<Rightarrow>
          if role \<notin> set VALID_ROLES then (HttpError 422 ''Unprocessable'', us)
          else if py_lower email = py_lower (us_email actor)
          then (HttpError 400 ''You can't change your own role'', us)
          else (case get_user_by_email us email of
             None \<Rightarrow> (HttpError 404 ''User not found'', us)
           | Some u \<Rightarrow>
               let new_owner = (if role = ''rep''
                     then (case owner of None \<Rightarrow> us_owner_id u | Some k \<Rightarrow> Some k) else None)
               in (HttpOk 200 \<lparr>uc_user = mk_current_user (u\<lparr>us_role := role, us_owner_id := new_owner\<rparr>),
                     uc_temp_password = None\<rparr>,
                   repo_update_user u role new_owner us)))"

definition delete_user :: "user http \<Rightarrow> string \<Rightarrow> users \<Rightarrow> unit http \<times> users" where
  "delete_user caller email us =
     (case require_role [''superadmin''] caller of
        HttpError n m \<Rightarrow> (HttpError n m, us)
      | HttpOk n actor \<Rightarrow>
          if py_lower email = py_lower (us_email actor)
          then (HttpError 400 ''You can't delete your own account'', us)
          else (case get_user_by_email us email of
             None \<Rightarrow> (HttpError 404 ''User not found'', us)
           | Some u \<Rightarrow> (HttpOk 200 (), repo_delete_user u us)))"

definition list_users :: "user http \<Rightarrow> users \<Rightarrow> current_user list http" where
  "list_users caller us = http_then (require_role [''superadmin''] caller)
     (\<lambda>actor. HttpOk 200 (map (mk_current_user \<circ> snd) us))"

end
