(* ===== verification/Campaigns_Api.thy ===== *)
theory Campaigns_Api
  imports Crm_Sync Auth
begin

section \<open>The campaign endpoints\<close>

text \<open>
  Model of \<open>app/api/v1/endpoints/campaigns.py\<close> and \<open>app/schemas/campaigns.py\<close>:
  public capture, and the staff reads and actions behind a role. A staff endpoint takes the
  answer of the cookie check as \<open>caller\<close>; the state of an endpoint is the part of the
  world it can change.
\<close>

definition ADMIN_ROLES :: "string list" where
  "ADMIN_ROLES = [''admin'', ''superadmin'']"

definition EVENTS_VIEW_ROLES :: "string list" where
  "EVENTS_VIEW_ROLES = ADMIN_ROLES @ [''rep'']"

text \<open>An endpoint that changes the state \<open>s\<close> behind a role.\<close>

definition guarded :: "string list \<Rightarrow> user http \<Rightarrow> (user \<Rightarrow> 'a http \<times> 's) \<Rightarrow> 's \<Rightarrow> 'a http \<times> 's" where
  "guarded roles caller f s =
     (case require_role roles caller of HttpError n m \<Rightarrow> (HttpError n m, s) | HttpOk n u \<Rightarrow> f u)"

record lead_out =
  lo_id :: "int option"
  lo_campaign_id :: int
  lo_first_name :: string
  lo_last_name :: string
  lo_email :: string
  lo_phone :: string
  lo_company :: string
  lo_job_title :: "string option"
  lo_source :: string
  lo_device_id :: "string option"
  lo_timing :: "string option"
  lo_interests :: "string list option"
  lo_requested_materials :: "string list option"
  lo_tags :: "string list option"
  lo_inspection_requested :: bool
  lo_inspection_type :: "string option"
  lo_marketing_opt_in :: bool
  lo_consent_status :: bool
  lo_consent_at :: "time option"
  lo_captured_at :: "time option"
  lo_created_at :: time
  lo_responses :: "json dict"
  lo_crm_sync_status :: crm_status
  lo_crm_synced_at :: "time option"
  lo_crm_contact_id :: "string option"
  lo_pack_delivery_status :: pack_status
  lo_pack_delivered_at :: "time option"
  lo_pack_delivered_materials :: "string list option"
  lo_pack_delivery_error :: "string option"
  lo_pack_opened_at :: "time option"
  lo_pack_opened_count :: int
  lo_pack_clicked_materials :: "string list option"
  lo_engagement_score :: int
  lo_icp_score :: "int option"
  lo_icp_tier :: "string option"
  lo_icp_rationale :: "string option"
  lo_triage_status :: triage
  lo_triage_at :: "time option"
  lo_triage_by :: "string option"
  lo_pack_fulfilled :: bool

definition mk_lead_out :: "lead \<Rightarrow> lead_out" where
  "mk_lead_out l =
     \<lparr>lo_id = ld_id l, lo_campaign_id = ld_campaign_id l, lo_first_name = ld_first_name l,
      lo_last_name = ld_last_name l, lo_email = ld_email l, lo_phone = ld_phone l,
      lo_company = ld_company l, lo_job_title = ld_job_title l, lo_source = ld_source l,
      lo_device_id = ld_device_id l, lo_timing = ld_timing l, lo_interests = ld_interests l,
      lo_requested_materials = ld_requested_materials l, lo_tags = ld_tags l,
      lo_inspection_requested = ld_inspection_requested l, lo_inspection_type = ld_inspection_type l,
      lo_marketing_opt_in = ld_marketing_opt_in l, lo_consent_status = ld_consent_status l,
      lo_consent_at = ld_consent_at l, lo_captured_at = ld_captured_at l,
      lo_created_at = ld_created_at l, lo_responses = ld_responses l,
      lo_crm_sync_status = ld_crm_sync_status l, lo_crm_synced_at = ld_crm_synced_at l,
      lo_crm_contact_id = ld_crm_contact_id l, lo_pack_delivery_status = ld_pack_delivery_status l,
      lo_pack_delivered_at = ld_pack_delivered_at l,
      lo_pack_delivered_materials = ld_pack_delivered_materials l,
      lo_pack_delivery_error = ld_pack_delivery_error l, lo_pack_opened_at = ld_pack_opened_at l,
      lo_pack_opened_count = ld_pack_opened_count l,
      lo_pack_clicked_materials = ld_pack_clicked_materials l,
      lo_engagement_score = ld_engagement_score l, lo_icp_score = ld_icp_score l,
      lo_icp_tier = ld_icp_tier l, lo_icp_rationale = ld_icp_rationale l,
      lo_triage_status = ld_triage_status l, lo_triage_at = ld_triage_at l,
      lo_triage_by = ld_triage_by l, lo_pack_fulfilled = pack_fulfilled l\<rparr>"

definition require_campaign :: "campaign table \<Rightarrow> int \<Rightarrow> campaign http" where
  "require_campaign campaigns k =
     (case get_campaign campaigns k of None \<Rightarrow> HttpError 404 ''Campaign not found'' | Some c \<Rightarrow> HttpOk 200 c)"

subsection \<open>Campaigns\<close>

definition api_list_campaigns :: "user http \<Rightarrow> campaign table \<Rightarrow> campaign list http" where
  "api_list_campaigns caller campaigns = http_then (require_role EVENTS_VIEW_ROLES caller)
     (\<lambda>u. HttpOk 200 (list_all_campaigns campaigns None))"

record campaign_request =
  cr_slug :: string
  cr_name :: string
  cr_status :: campaign_status
  cr_starts_on :: "pydate option"
  cr_ends_on :: "pydate option"
  cr_timezone :: string
  cr_config :: campaign_config

definition between :: "nat \<Rightarrow> nat \<Rightarrow> string \<Rightarrow> bool" where
  "between lo hi s \<longleftrightarrow> lo \<le> length s \<and> length s \<le> hi"

definition api_create_campaign ::
    "time \<Rightarrow> user http \<Rightarrow> campaign_request \<Rightarrow> campaign table \<Rightarrow> campaign http \<times> campaign table" where
  "api_create_campaign now caller q campaigns = guarded ADMIN_ROLES caller (\<lambda>u.
     if \<not> between 1 120 (cr_slug q) \<or> \<not> between 1 200 (cr_name q) then (HttpError 422 ''Unprocessable'', campaigns)
     else if get_by_slug campaigns (cr_slug q) \<noteq> None
     then (HttpError 409 ''Campaign slug already exists'', campaigns)
     else case create_campaign now \<lparr>cg_id = None, cg_slug = cr_slug q, cg_name = cr_name q,
            cg_status = cr_status q, cg_starts_on = cr_starts_on q, cg_ends_on = cr_ends_on q,
            cg_timezone = cr_timezone q, cg_config = cr_config q, cg_created_at = now, cg_updated_at = now\<rparr> campaigns of
       (c, campaigns') \<Rightarrow> (HttpOk 201 c, campaigns')) campaigns"

definition api_get_campaign :: "string \<Rightarrow> campaign table \<Rightarrow> campaign http" where
  "api_get_campaign slug campaigns = (case get_by_slug campaigns (py_strip slug) of
     None \<Rightarrow> HttpError 404 ''Campaign not found'' | Some c \<Rightarrow> HttpOk 200 c)"

text \<open>
  \<open>exclude_unset\<close>: only the fields the request has are set, to null where the request says
  null. A null name, status or time zone breaks the NOT NULL of its column: a 500 that
  leaves the table alone. A null configuration is left out of the type.
\<close>

record campaign_patch =
  pa_name :: "string option option"
  pa_status :: "campaign_status option option"
  pa_starts_on :: "pydate option option"
  pa_ends_on :: "pydate option option"
  pa_timezone :: "string option option"
  pa_config :: "campaign_config option"

definition breaks_not_null :: "campaign_patch \<Rightarrow> bool" where
  "breaks_not_null p \<longleftrightarrow> pa_name p = Some None \<or> pa_status p = Some None \<or> pa_timezone p = Some None"

definition patch_col :: "'a option option \<Rightarrow> 'a \<Rightarrow> 'a" where
  "patch_col v old = (case v of Some (Some x) \<Rightarrow> x | _ \<Rightarrow> old)"

definition patched :: "campaign_patch \<Rightarrow> campaign \<Rightarrow> campaign" where
  "patched p c = c\<lparr>cg_name := patch_col (pa_name p) (cg_name c), cg_status := patch_col (pa_status p) (cg_status c),
     cg_starts_on := default (pa_starts_on p) (cg_starts_on c), cg_ends_on := default (pa_ends_on p) (cg_ends_on c),
     cg_timezone := patch_col (pa_timezone p) (cg_timezone c), cg_config := default (pa_config p) (cg_config c)\<rparr>"

definition api_update_campaign ::
    "time \<Rightarrow> user http \<Rightarrow> int \<Rightarrow> campaign_patch \<Rightarrow> campaign table \<Rightarrow> campaign http \<times> campaign table" where
  "api_update_campaign now caller k p campaigns = guarded ADMIN_ROLES caller (\<lambda>u.
     if (case pa_name p of Some (Some n) \<Rightarrow> \<not> between 1 200 n | _ \<Rightarrow> False) then (HttpError 422 ''Unprocessable'', campaigns)
     else case require_campaign campaigns k of
       HttpError n m \<Rightarrow> (HttpError n m, campaigns)
     | HttpOk n c \<Rightarrow>
         if breaks_not_null p then (HttpError 500 ''Internal Server Error'', campaigns)
         else (HttpOk 200 ((patched p c)\<lparr>cg_updated_at := now\<rparr>), update_campaign now (patched p c) campaigns)) campaigns"

subsection \<open>Public capture\<close>

definition valid_lead_request :: "(string \<Rightarrow> bool) \<Rightarrow> lead_request \<Rightarrow> bool" where
  "valid_lead_request valid_email q \<longleftrightarrow>
     between 1 120 (lq_first_name q) \<and> between 1 120 (lq_last_name q) \<and> valid_email (lq_email q) \<and>
     (case lq_phone q of None \<Rightarrow> True | Some p \<Rightarrow> between 0 40 p) \<and> between 1 200 (lq_company q) \<and>
     (case lq_job_title q of None \<Rightarrow> True | Some j \<Rightarrow> between 0 200 j)"

text \<open>The mails of a capture, in the order of the handler.\<close>

definition capture_mails ::
    "time \<Rightarrow> settings \<Rightarrow> poster \<Rightarrow> campaign \<Rightarrow> bool \<Rightarrow> lead \<Rightarrow> lead table \<times> mail list \<Rightarrow> lead \<times> lead table \<times> mail list" where
  "capture_mails now cfg post c created l w =
     (let (l1, w1) = (if ld_pack_delivery_status l = PackPending then deliver_pack now cfg post c l w else (l, w));
          (l2, w2) = (if created \<and> ld_inspection_requested l1 then deliver_viewing now cfg post c l1 w1 else (l1, w1));
          sent3 = (if created \<and> cfg_lead_notification (cg_config c)
                   then send_lead_notification cfg post l2 (snd w2) else snd w2);
          sent4 = (if created \<and> cfg_application_confirmation (cg_config c)
                   then snd (send_application_confirmation cfg post l2 sent3) else sent3)
      in (l2, fst w2, sent4))"

definition api_capture_lead ::
    "(string \<Rightarrow> bool) \<Rightarrow> time \<Rightarrow> settings \<Rightarrow> poster \<Rightarrow> (lead table \<Rightarrow> lead table) \<Rightarrow> campaign table
      \<Rightarrow> string \<Rightarrow> lead_request \<Rightarrow> lead table \<times> mail list \<Rightarrow> lead_out http \<times> lead table \<times> mail list" where
  "api_capture_lead valid_email now cfg post rival campaigns slug q w =
     (if \<not> valid_lead_request valid_email q then (HttpError 422 ''Unprocessable'', w)
      else case capture_lead_created now rival campaigns (py_strip slug) q (fst w) of
        Inl CampaignNotFoundError \<Rightarrow> (HttpError 404 ''no campaign with slug'', w)
      | Inl CampaignInactiveError \<Rightarrow> (HttpError 409 ''campaign is not accepting leads'', w)
      | Inl IntegrityError \<Rightarrow> (HttpError 500 ''Internal Server Error'', w)
      | Inr ((l, created), t) \<Rightarrow>
          (case get_campaign campaigns (ld_campaign_id l) of
             None \<Rightarrow> (HttpOk 201 (mk_lead_out l), t, snd w)
           | Some c \<Rightarrow> (case capture_mails now cfg post c created l (t, snd w) of
               (l', w') \<Rightarrow> (HttpOk 201 (mk_lead_out l'), w'))))"

subsection \<open>Reading leads\<close>

text \<open>The query parameters of the two listings: the other filters of the repository are absent.\<close>

definition campaign_query :: "int \<Rightarrow> lead_filter \<Rightarrow> lead_filter" where
  "campaign_query k q = no_filter\<lparr>f_campaign_id := Some k, f_interest := f_interest q,
     f_inspection := f_inspection q, f_opt_in := f_opt_in q, f_sync_status := f_sync_status q\<rparr>"

definition hot_query :: "lead_filter \<Rightarrow> lead_filter" where
  "hot_query q = no_filter\<lparr>f_min_engagement := f_min_engagement q, f_opened := f_opened q,
     f_clicked := f_clicked q, f_uncontacted := f_uncontacted q, f_triage_status := f_triage_status q,
     f_icp_tier := f_icp_tier q\<rparr>"

definition api_list_leads ::
    "user http \<Rightarrow> int \<Rightarrow> lead_filter \<Rightarrow> nat \<Rightarrow> nat \<Rightarrow> campaign table \<Rightarrow> lead table \<Rightarrow> (lead_out list \<times> nat) http" where
  "api_list_leads caller k f limit offset campaigns t =
     http_then (require_role EVENTS_VIEW_ROLES caller) (\<lambda>u.
       if limit < 1 \<or> 500 < limit then HttpError 422 ''Unprocessable''
       else http_then (require_campaign campaigns k) (\<lambda>c.
         let f' = campaign_query k f
         in HttpOk 200 (map mk_lead_out (list_for_campaign f' limit offset t), count_for_campaign f' t)))"

definition api_list_hot_leads ::
    "user http \<Rightarrow> lead_filter \<Rightarrow> nat \<Rightarrow> nat \<Rightarrow> lead table \<Rightarrow> (lead_out list \<times> nat) http" where
  "api_list_hot_leads caller f limit offset t =
     http_then (require_role EVENTS_VIEW_ROLES caller) (\<lambda>u.
       if limit < 1 \<or> 500 < limit \<or> \<not> when_given (f_min_engagement f) (\<lambda>n. 0 \<le> n \<and> n \<le> 100)
       then HttpError 422 ''Unprocessable''
       else HttpOk 200 (map mk_lead_out (list_hot (hot_query f) limit offset t), count_hot (hot_query f) t))"

definition find_lead_of :: "lead table \<Rightarrow> int \<Rightarrow> int \<Rightarrow> lead option" where
  "find_lead_of t campaign_id k = (case get_lead t k of None \<Rightarrow> None
     | Some l \<Rightarrow> if ld_campaign_id l \<noteq> campaign_id then None else Some l)"

subsection \<open>Staff actions\<close>

text \<open>An uncaught exception of the sync is a 500 whose transaction is rolled back.\<close>

definition api_sync_lead_to_crm ::
    "time \<Rightarrow> settings \<Rightarrow> crm_upsert \<Rightarrow> user http \<Rightarrow> int \<Rightarrow> campaign table
      \<Rightarrow> lead table \<times> contact_payload list \<Rightarrow> lead_out http \<times> lead table \<times> contact_payload list" where
  "api_sync_lead_to_crm now cfg upsert caller k campaigns w = guarded ADMIN_ROLES caller (\<lambda>u.
     case get_lead (fst w) k of
       None \<Rightarrow> (HttpError 404 ''Lead not found'', w)
     | Some l \<Rightarrow>
         (case get_campaign campaigns (ld_campaign_id l) of
            None \<Rightarrow> (HttpError 404 ''Campaign not found'', w)
          | Some c \<Rightarrow> (case sync_lead now cfg upsert True c l w of
              (Inl e, w') \<Rightarrow> (HttpError 500 ''Internal Server Error'', w')
            | (Inr l', w') \<Rightarrow> (HttpOk 200 (mk_lead_out l'), w')))) w"

fun triage_of_name :: "string \<Rightarrow> triage option" where
  "triage_of_name s = List.find (\<lambda>t. triage_name t = s) [TriageNew, TriageContacted, TriageDismissed, TriageSnoozed]"

definition api_update_lead_triage ::
    "time \<Rightarrow> user http \<Rightarrow> int \<Rightarrow> string \<Rightarrow> lead table \<Rightarrow> lead_out http \<times> lead table" where
  "api_update_lead_triage now caller k st t = guarded ADMIN_ROLES caller (\<lambda>u.
     case triage_of_name st of
       None \<Rightarrow> (HttpError 422 ''Unprocessable'', t)
     | Some st' \<Rightarrow>
         (case get_lead t k of
            None \<Rightarrow> (HttpError 404 ''Lead not found'', t)
          | Some l \<Rightarrow> (let l' = set_triage now st' (Some (us_email u)) l
              in (HttpOk 200 (mk_lead_out l'), update_lead l' t)))) t"

definition api_delete_lead ::
    "user http \<Rightarrow> int \<Rightarrow> int \<Rightarrow> campaign table \<Rightarrow> lead table \<Rightarrow> unit http \<times> lead table" where
  "api_delete_lead caller campaign_id k campaigns t = guarded [''superadmin''] caller (\<lambda>u.
     case require_campaign campaigns campaign_id of
       HttpError n m \<Rightarrow> (HttpError n m, t)
     | HttpOk n c \<Rightarrow>
         (case find_lead_of t campaign_id k of
            None \<Rightarrow> (HttpError 404 ''Lead not found'', t)
          | Some l \<Rightarrow> (HttpOk 200 (), delete_lead l t))) t"

definition api_resend_lead_pack ::
    "time \<Rightarrow> settings \<Rightarrow> poster \<Rightarrow> user http \<Rightarrow> int \<Rightarrow> int \<Rightarrow> campaign table
      \<Rightarrow> lead table \<times> mail list \<Rightarrow> lead_out http \<times> lead table \<times> mail list" where
  "api_resend_lead_pack now cfg post caller campaign_id k campaigns w = guarded ADMIN_ROLES caller (\<lambda>u.
     case require_campaign campaigns campaign_id of
       HttpError n m \<Rightarrow> (HttpError n m, w)
     | HttpOk n c \<Rightarrow>
         (case find_lead_of (fst w) campaign_id k of
            None \<Rightarrow> (HttpError 404 ''Lead not found'', w)
          | Some l \<Rightarrow>
              (case (if ld_inspection_requested l \<and> \<not> truthy (ld_requested_materials l)
                     then deliver_viewing now cfg post c l w else deliver_pack now cfg post c l w) of
                 (l', w') \<Rightarrow> (HttpOk 200 (mk_lead_out l'), w')))) w"

definition api_bulk_delete_leads ::
    "user http \<Rightarrow> int \<Rightarrow> bool \<Rightarrow> lead_filter \<Rightarrow> campaign table \<Rightarrow> lead table \<Rightarrow> nat http \<times> lead table" where
  "api_bulk_delete_leads caller campaign_id confirm f campaigns t = guarded [''superadmin''] caller (\<lambda>u.
     case require_campaign campaigns campaign_id of
       HttpError n m \<Rightarrow> (HttpError n m, t)
     | HttpOk n c \<Rightarrow>
         if \<not> confirm then (HttpError 400 ''Pass confirm=true to bulk-delete leads (no undo).'', t)
         else case delete_for_campaign (campaign_query campaign_id f) t of
           (n, t') \<Rightarrow> (HttpOk 200 n, t')) t"

subsection \<open>Statistics\<close>

record campaign_stats =
  cs_total_leads :: nat
  cs_inspection_requests :: nat
  cs_marketing_opt_ins :: nat
  cs_synced_count :: nat
  cs_unsynced_count :: int
  cs_packs_delivered :: nat
  cs_emails_sent :: nat
  cs_emails_by_kind :: "(string \<times> nat) list"
  cs_by_interest :: "(string \<times> nat) list"
  cs_by_material :: "(string \<times> nat) list"
  cs_by_source :: "(string \<times> nat) list"
  cs_by_day :: "(int \<times> nat) list"
  cs_by_lifecycle_stage :: "(string \<times> int) list"

definition stats_of :: "(string \<Rightarrow> time \<Rightarrow> int) \<Rightarrow> campaign \<Rightarrow> int \<Rightarrow> lead table \<Rightarrow> campaign_stats" where
  "stats_of local_day c k t =
     (let total = count_for_campaign (no_filter\<lparr>f_campaign_id := Some k\<rparr>) t;
          synced = count_synced t k; packs = count_packs_delivered t k; reconnect = count_reconnect_sent t k
      in \<lparr>cs_total_leads = total, cs_inspection_requests = count_inspection_requests t k,
          cs_marketing_opt_ins = count_opt_ins t k, cs_synced_count = synced,
          cs_unsynced_count = int total - int synced, cs_packs_delivered = packs,
          cs_emails_sent = packs + reconnect, cs_emails_by_kind = [(''Packs'', packs), (''Reconnect'', reconnect)],
          cs_by_interest = counts_by_interest t k, cs_by_material = counts_by_material t k,
          cs_by_source = counts_by_source t k, cs_by_day = counts_by_day local_day t k (cg_timezone c),
          cs_by_lifecycle_stage = [(''New'', int total - int packs), (''Nurturing'', int packs)]\<rparr>)"

definition api_campaign_stats ::
    "(string \<Rightarrow> time \<Rightarrow> int) \<Rightarrow> user http \<Rightarrow> int \<Rightarrow> campaign table \<Rightarrow> lead table \<Rightarrow> campaign_stats http" where
  "api_campaign_stats local_day caller k campaigns t =
     http_then (require_role EVENTS_VIEW_ROLES caller) (\<lambda>u.
     http_then (require_campaign campaigns k) (\<lambda>c. HttpOk 200 (stats_of local_day c k t)))"

definition api_resync_leads ::
    "(string \<Rightarrow> time \<Rightarrow> int) \<Rightarrow> time \<Rightarrow> settings \<Rightarrow> crm_upsert \<Rightarrow> user http \<Rightarrow> int \<Rightarrow> campaign table
      \<Rightarrow> lead table \<times> contact_payload list \<Rightarrow> campaign_stats http \<times> lead table \<times> contact_payload list" where
  "api_resync_leads local_day now cfg upsert caller k campaigns w = guarded ADMIN_ROLES caller (\<lambda>u.
     case require_campaign campaigns k of
       HttpError n m \<Rightarrow> (HttpError n m, w)
     | HttpOk n c \<Rightarrow>
         (case sync_pending now cfg upsert 200 campaigns w of
            (Inl e, w') \<Rightarrow> (HttpError 500 ''Internal Server Error'', w')
          | (Inr n, w') \<Rightarrow> (HttpOk 200 (stats_of local_day c k (fst w')), w'))) w"

definition api_resend_packs ::
    "(string \<Rightarrow> time \<Rightarrow> int) \<Rightarrow> time \<Rightarrow> settings \<Rightarrow> poster \<Rightarrow> user http \<Rightarrow> int \<Rightarrow> campaign table
      \<Rightarrow> lead table \<times> mail list \<Rightarrow> campaign_stats http \<times> lead table \<times> mail list" where
  "api_resend_packs local_day now cfg post caller k campaigns w = guarded ADMIN_ROLES caller (\<lambda>u.
     case require_campaign campaigns k of
       HttpError n m \<Rightarrow> (HttpError n m, w)
     | HttpOk n c \<Rightarrow>
         (case deliver_pending now cfg post 200 campaigns w of
            (n, w') \<Rightarrow> (HttpOk 200 (stats_of local_day c k (fst w')), w'))) w"

end
