(* ===== verification/Campaign_Safety.thy ===== *)
theory Campaign_Safety
  imports Campaigns_Api Lead_Safety
begin

section \<open>What the campaign endpoints and the lead queues guarantee\<close>

text \<open>
  A re-submission is silent once the pack is out; a queue run touches its queue only and
  counts what it completed; one malformed answer stops the CRM queue for good.
\<close>

subsection \<open>Re-submission\<close>

definition held :: "lead table \<Rightarrow> lead \<Rightarrow> bool" where
  "held t l \<longleftrightarrow> ok_leads t \<and> l \<in> set (rows t)"

lemma held_update: "held t e \<Longrightarrow> ld_id l = ld_id e \<Longrightarrow> ld_campaign_id l = ld_campaign_id e \<Longrightarrow>
    ld_email l = ld_email e \<Longrightarrow> held (update_lead l t) l"
  using ok_update_lead [of t e l] by (simp add: held_def)

lemma length_update_lead [simp]: "length (rows (update_lead l t)) = length (rows t)"
  by (simp add: update_lead_def)

definition same_visitor :: "lead \<Rightarrow> lead \<Rightarrow> bool" where
  "same_visitor l l' \<longleftrightarrow> ld_id l' = ld_id l \<and> ld_campaign_id l' = ld_campaign_id l \<and> ld_email l' = ld_email l \<and>
     ld_requested_materials l' = ld_requested_materials l"

lemma same_visitor_refl: "same_visitor l l"
  by (simp add: same_visitor_def)

lemma same_visitor_trans: "same_visitor a b \<Longrightarrow> same_visitor b c \<Longrightarrow> same_visitor a c"
  by (simp add: same_visitor_def)

lemma deliver_pack_held:
  assumes "held t l" and "deliver_pack now cfg post c l (t, sent) = (l', t', sent')"
  shows "held t' l'" and "same_visitor l l'" and "length (rows t') = length (rows t)"
proof -
  have vis: "same_visitor l l'" and t': "t' = update_lead l' t"
    using assms(2) by (auto simp: deliver_pack_def pack_outcome_def same_visitor_def Let_def
        split: if_splits prod.splits bool.splits)
  then show "held t' l'" using held_update [OF assms(1), of l'] by (simp add: same_visitor_def)
  show "same_visitor l l'" by (rule vis)
  show "length (rows t') = length (rows t)" by (simp add: t')
qed

lemma deliver_viewing_held:
  assumes "held t l" and "deliver_viewing now cfg post c l (t, sent) = (l', t', sent')"
  shows "held t' l'" and "same_visitor l l'" and "length (rows t') = length (rows t)"
    and "ld_pack_delivery_status l = PackSent \<Longrightarrow> l' = l"
proof -
  have "(l' = l \<and> t' = t) \<or> (ld_pack_delivery_status l \<noteq> PackSent \<and> same_visitor l l' \<and> t' = update_lead l' t)"
    using assms(2) by (auto simp: deliver_viewing_def same_visitor_def Let_def split: if_splits prod.splits)
  then show "held t' l'" and "same_visitor l l'" and "length (rows t') = length (rows t)"
    and "ld_pack_delivery_status l = PackSent \<Longrightarrow> l' = l"
    using assms(1) held_update [OF assms(1), of l'] by (auto simp: same_visitor_def)
qed

lemma capture_mails_held:
  assumes "held t l" and "capture_mails now cfg post c created l (t, sent) = (l', t', sent')"
  shows "held t' l' \<and> same_visitor l l' \<and> length (rows t') = length (rows t)"
proof -
  obtain l1 t1 s1 where one: "(if ld_pack_delivery_status l = PackPending then deliver_pack now cfg post c l (t, sent)
      else (l, t, sent)) = (l1, t1, s1)" by (metis prod_cases3)
  have 1: "held t1 l1" "same_visitor l l1" "length (rows t1) = length (rows t)"
    using one assms(1) deliver_pack_held [OF assms(1), of now cfg post c sent l1 t1 s1] same_visitor_refl
    by (auto split: if_splits)
  obtain l2 t2 s2 where two: "(if created \<and> ld_inspection_requested l1 then deliver_viewing now cfg post c l1 (t1, s1)
      else (l1, t1, s1)) = (l2, t2, s2)" by (metis prod_cases3)
  have 2: "held t2 l2" "same_visitor l1 l2" "length (rows t2) = length (rows t1)"
    using two 1 deliver_viewing_held [OF 1(1), of now cfg post c s1 l2 t2 s2] same_visitor_refl
    by (auto split: if_splits)
  have "l' = l2" and "t' = t2"
    using assms(2) by (auto simp: capture_mails_def one two Let_def simp del: split_paired_All)
  with 1 2 same_visitor_trans show ?thesis by auto
qed

lemma capture_mails_silent:
  "ld_pack_delivery_status l \<noteq> PackPending \<Longrightarrow> capture_mails now cfg post c False l w = (l, w)"
  by (simp add: capture_mails_def Let_def)

lemma api_capture_leadE:
  assumes "api_capture_lead valid_email now cfg post rival campaigns slug q w = (HttpOk n out, w')"
  obtains l created t where "valid_lead_request valid_email q"
    and "capture_lead_created now rival campaigns (py_strip slug) q (fst w) = Inr ((l, created), t)"
    and "(out = mk_lead_out l \<and> w' = (t, snd w)) \<or>
      (\<exists>c l'. capture_mails now cfg post c created l (t, snd w) = (l', w') \<and> out = mk_lead_out l')"
  using assms
  by (auto simp: api_capture_lead_def split: if_splits sum.splits capture_error.splits option.splits prod.splits)

lemma api_capture_answers:
  assumes "valid_lead_request valid_email q"
    and "capture_lead_created now rival campaigns (py_strip slug) q (fst w) = Inr ((l, created), t)"
  shows "\<exists>out w'. api_capture_lead valid_email now cfg post rival campaigns slug q w = (HttpOk 201 out, w')"
  using assms by (cases "get_campaign campaigns (ld_campaign_id l)")
    (auto simp: api_capture_lead_def split: prod.splits)

lemma update_lead_frame:
  "filter (\<lambda>x. ld_id x \<noteq> ld_id l) (rows (update_lead l t)) = filter (\<lambda>x. ld_id x \<noteq> ld_id l) (rows t)"
  by (simp add: update_lead_def filter_map comp_def) (rule map_idI, simp)



subsection \<open>Queues\<close>

text \<open>
  The contract between a queue's loop and the processing of one item: it touches the row
  of its own item only, leaves it as it says, and an exception leaves every row.
\<close>

locale item_queue =
  fixes key :: "'i \<Rightarrow> int option"
    and get :: "'s \<Rightarrow> int \<Rightarrow> 'i option"
    and ok :: "'s \<Rightarrow> bool"
    and process :: "'i \<Rightarrow> 'p \<Rightarrow> 's \<Rightarrow> ('e + 'i) \<times> 's"
  assumes ok_process: "ok s \<Longrightarrow> get s k = Some x \<Longrightarrow> ok (snd (process x p s))"
    and process_own: "ok s \<Longrightarrow> get s k = Some x \<Longrightarrow> process x p s = (Inr x', s') \<Longrightarrow>
      get s' j = (if j = k then Some x' else get s j)"
    and process_failed: "process x p s = (Inl e, s') \<Longrightarrow> get s' j = get s j"
    and get_key: "ok s \<Longrightarrow> get s k = Some x \<Longrightarrow> key x = Some k"
begin

definition queued :: "'s \<Rightarrow> 'i list \<Rightarrow> bool" where
  "queued s xs \<longleftrightarrow> distinct (map key xs) \<and> (\<forall>x \<in> set xs. \<exists>k. get s k = Some x)"

lemma queued_step:
  assumes "ok s" and "queued s (x # xs)" and "process x p s = (Inr x', s')"
  shows "queued s' xs"
proof -
  obtain k where k: "get s k = Some x" using assms(2) by (auto simp: queued_def)
  have kx: "key x = Some k" by (rule get_key [OF assms(1) k])
  have "\<exists>j. get s' j = Some y" if "y \<in> set xs" for y
  proof -
    have "\<exists>j. get s j = Some y" using assms(2) that by (simp add: queued_def)
    then obtain j where j: "get s j = Some y" by blast
    have "key x \<notin> key ` set xs" using assms(2) by (simp add: queued_def)
    then have "key y \<noteq> key x" using imageI [OF that, of key] by metis
    with get_key [OF assms(1) j] kx have "j \<noteq> k" by auto
    with j process_own [OF assms(1) k assms(3), of j] show ?thesis by auto
  qed
  with assms(2) show ?thesis by (simp add: queued_def)
qed

lemma push_untouched:
  assumes "ok s" and "queued s xs" and "Some j \<notin> key ` set xs"
  shows "get (snd (push_loop parent look process good xs cache n s)) j = get s j"
  using assms
proof (induction xs arbitrary: cache n s)
  case (Cons x xs)
  have rest: "queued s xs" using Cons.prems(2) by (simp add: queued_def)
  obtain k where k: "get s k = Some x" using Cons.prems(2) by (auto simp: queued_def)
  have "j \<noteq> k" using Cons.prems(3) get_key [OF Cons.prems(1) k] by auto
  have step: "get (snd (case process x p s of (Inl e, s') \<Rightarrow> (Inl e, s')
        | (Inr x', s') \<Rightarrow> push_loop parent look process good xs c' (if good x' then n + 1 else n) s')) j = get s j" for p c'
  proof (cases "process x p s")
    case (Pair r s')
    show ?thesis
    proof (cases r)
      case (Inl e)
      with Pair process_failed [of x p s e s' j] show ?thesis by simp
    next
      case (Inr x')
      with Pair have p: "process x p s = (Inr x', s')" by simp
      from Cons.IH [OF _ queued_step [OF Cons.prems(1,2) p]] ok_process [OF Cons.prems(1) k, of p] p Cons.prems(3)
        process_own [OF Cons.prems(1) k p, of j] \<open>j \<noteq> k\<close>
      show ?thesis using Pair Inr by simp
    qed
  qed
  show ?case
    using step Cons.IH [OF Cons.prems(1) rest] Cons.prems(3) by (auto split: option.splits)
qed simp

lemma push_ok:
  assumes "ok s" and "queued s xs"
  shows "ok (snd (push_loop parent look process good xs cache n s))"
  using assms
proof (induction xs arbitrary: cache n s)
  case (Cons x xs)
  have rest: "queued s xs" using Cons.prems(2) by (simp add: queued_def)
  obtain k where k: "get s k = Some x" using Cons.prems(2) by (auto simp: queued_def)
  have step: "ok (snd (case process x p s of (Inl e, s') \<Rightarrow> (Inl e, s')
        | (Inr x', s') \<Rightarrow> push_loop parent look process good xs c' (if good x' then n + 1 else n) s'))" for p c'
  proof (cases "process x p s")
    case (Pair r s')
    have "ok s'" using ok_process [OF Cons.prems(1) k, of p] Pair by simp
    then show ?thesis
      using Pair Cons.IH [OF _ queued_step [OF Cons.prems(1,2)]] by (cases r) simp_all
  qed
  show ?case using step Cons.IH [OF Cons.prems(1) rest] by (auto split: option.splits)
qed simp

end

lemma sweep_push_loop:
  "sweep parent look process good xs cache n s =
     (case push_loop parent look (\<lambda>x p s. case process x p s of (x', s') \<Rightarrow> (Inr x' :: unit + 'i, s')) good xs cache n s of
        (r, s') \<Rightarrow> (projr r, s'))"
  for process :: "'i \<Rightarrow> 'p \<Rightarrow> 's \<Rightarrow> 'i \<times> 's"
  by (induction parent look process good xs cache n s rule: sweep.induct)
    (auto split: option.splits prod.splits)

lemma get_lead_update:
  assumes "ok_leads t" and "get_lead t k = Some e" and "ld_id l = ld_id e"
  shows "get_lead (update_lead l t) j = (if j = k then Some l else get_lead t j)"
proof -
  have "ld_id l = Some k" using assms(2,3) tbl_get_Some(2) [of ld_id t k e] by (simp add: get_lead_def)
  with lead_repo.get_upd [of t l k j] assms show ?thesis by (simp add: ok_leads_def)
qed

lemma get_lead_held: "get_lead t k = Some l \<Longrightarrow> l \<in> set (rows t) \<and> ld_id l = Some k"
  using tbl_get_Some [of ld_id t k l] by (simp add: get_lead_def)

definition own_row :: "lead \<Rightarrow> lead \<Rightarrow> bool" where
  "own_row l l' \<longleftrightarrow> ld_id l' = ld_id l \<and> ld_campaign_id l' = ld_campaign_id l \<and> ld_email l' = ld_email l"

lemma ok_leads_own_row:
  "ok_leads t \<Longrightarrow> l \<in> set (rows t) \<Longrightarrow> own_row l l' \<Longrightarrow> ok_leads (update_lead l' t)"
  using ok_update_lead(1) [of t l l'] by (simp add: own_row_def)

interpretation pack_queue: item_queue ld_id "\<lambda>w :: lead table \<times> mail list. get_lead (fst w)" "\<lambda>w. ok_leads (fst w)"
  "\<lambda>l c w. case deliver_pack now cfg post c l w of (l', w') \<Rightarrow> (Inr l' :: unit + lead, w')" for now cfg post
proof
  have own: "own_row l l' \<and> w' = (update_lead l' (fst w), snd w')"
    if "deliver_pack now cfg post c l w = (l', w')" for l c w l' w'
    using that by (auto simp: deliver_pack_def pack_outcome_def own_row_def Let_def split: if_splits prod.splits bool.splits)
  fix w :: "lead table \<times> mail list" and k l c
  assume ok: "ok_leads (fst w)" and l: "get_lead (fst w) k = Some l"
  obtain l' w' where d: "deliver_pack now cfg post c l w = (l', w')" by (cases "deliver_pack now cfg post c l w")
  from own [OF d] have o': "own_row l l'" and w': "fst w' = update_lead l' (fst w)" by (auto simp: prod_eq_iff)
  show "ok_leads (fst (snd (case deliver_pack now cfg post c l w of (l', w') \<Rightarrow> (Inr l' :: unit + lead, w'))))"
    using ok_leads_own_row [OF ok _ o'] get_lead_held [OF l] d w' by simp
  show "ld_id l = Some k" using get_lead_held [OF l] by simp
  fix x' s' j
  assume "(case deliver_pack now cfg post c l w of (l', w') \<Rightarrow> (Inr l' :: unit + lead, w')) = (Inr x', s')"
  with d have "x' = l'" "s' = w'" by simp_all
  with w' get_lead_update [OF ok l, of l' j] o' show "get_lead (fst s') j = (if j = k then Some x' else get_lead (fst w) j)"
    by (simp add: own_row_def)
qed (auto split: prod.splits)

lemma record_outcome_fields [simp]:
  "ld_id (record_outcome now r l) = ld_id l" "ld_campaign_id (record_outcome now r l) = ld_campaign_id l"
  "ld_email (record_outcome now r l) = ld_email l" "ld_responses (record_outcome now r l) = ld_responses l"
  by (auto simp: record_outcome_def split: sum.splits)

lemma sync_lead_cases:
  assumes "sync_lead now cfg upsert force c l w = (r, w')"
  shows "(\<exists>e. r = Inl e \<and> fst w' = fst w \<and> second_participant l = Inl e \<and> sync_allowed cfg force c) \<or>
    (\<exists>l'. r = Inr l' \<and> own_row l l' \<and> fst w' = update_lead l' (fst w))"
  using assms
  by (auto simp: sync_lead_def own_row_def build_second_participant_contact_payload_def second_participant_def
      rbind_eq_Inl_iff Let_def split: if_splits prod.splits sum.splits option.splits json.splits)

interpretation crm_queue: item_queue ld_id "\<lambda>w :: lead table \<times> contact_payload list. get_lead (fst w)"
  "\<lambda>w. ok_leads (fst w)" "\<lambda>l c. sync_lead now cfg upsert force c l" for now cfg upsert force
proof
  fix w :: "lead table \<times> contact_payload list" and k l c
  assume ok: "ok_leads (fst w)" and l: "get_lead (fst w) k = Some l"
  obtain r w' where d: "sync_lead now cfg upsert force c l w = (r, w')" by (cases "sync_lead now cfg upsert force c l w")
  show "ok_leads (fst (snd (sync_lead now cfg upsert force c l w)))"
    using sync_lead_cases [OF d] ok_leads_own_row [OF ok] get_lead_held [OF l] ok d by auto
  show "ld_id l = Some k" using get_lead_held [OF l] by simp
  fix x' s' j
  assume run: "sync_lead now cfg upsert force c l w = (Inr x', s')"
  from sync_lead_cases [OF run] have "own_row l x'" "fst s' = update_lead x' (fst w)" by auto
  with get_lead_update [OF ok l, of x' j] show "get_lead (fst s') j = (if j = k then Some x' else get_lead (fst w) j)"
    by (simp add: own_row_def)
next
  fix l c and w w' :: "lead table \<times> contact_payload list" and e j
  assume "sync_lead now cfg upsert force c l w = (Inl e, w')"
  from sync_lead_cases [OF this] show "get_lead (fst w') j = get_lead (fst w) j" by auto
qed

lemma oldest_first_mem: "l \<in> set (oldest_first n p t) \<Longrightarrow> l \<in> set (rows t) \<and> p l"
  by (auto simp: oldest_first_def dest: in_set_takeD)

lemma distinct_oldest_first: "ok_leads t \<Longrightarrow> distinct (map ld_id (oldest_first n p t))"
proof -
  assume "ok_leads t"
  then have "distinct (map ld_id (rows t))" by (simp add: ok_leads_def ok_table_def wf_table_def)
  then have "distinct (map ld_id (sort_key ld_created_at (filter p (rows t))))"
    by (simp add: distinct_map) (auto intro: inj_on_subset)
  then show ?thesis by (simp add: oldest_first_def take_map [symmetric] distinct_take)
qed

lemma queued_oldest_first:
  assumes "ok_leads t"
  shows "distinct (map ld_id (oldest_first n p t)) \<and> (\<forall>x \<in> set (oldest_first n p t). \<exists>k. get_lead t k = Some x)"
  using distinct_oldest_first [OF assms] ok_leads_row [OF assms] by (blast dest: oldest_first_mem)

lemma not_in_oldest_first:
  assumes "ok_leads t" and "get_lead t k = Some l" and "\<not> p l"
  shows "Some k \<notin> ld_id ` set (oldest_first n p t)"
proof
  assume "Some k \<in> ld_id ` set (oldest_first n p t)"
  then obtain x where x: "x \<in> set (oldest_first n p t)" "ld_id x = Some k" by auto
  from oldest_first_mem [OF x(1)] ok_leads_row [OF assms(1), of x] x(2) have "get_lead t k = Some x" by auto
  with assms oldest_first_mem [OF x(1)] show False by simp
qed

text \<open>A delivery run touches only the packs that are pending or failed. In particular a pack that
  was skipped for want of a mail key is not retried by the job once the key is configured,
  whatever the settings are by then.\<close>

theorem deliver_pending_only_its_queue:
  assumes "ok_leads (fst w)" and "get_lead (fst w) k = Some l"
    and "ld_pack_delivery_status l \<notin> {PackPending, PackFailed}"
  shows "get_lead (fst (snd (deliver_pending now cfg post limit campaigns w))) k = Some l \<and>
    ok_leads (fst (snd (deliver_pending now cfg post limit campaigns w)))"
proof -
  let ?p = "\<lambda>l. ld_pack_delivery_status l \<in> set [PackPending, PackFailed]"
  let ?q = "oldest_first limit ?p (fst w)"
  have q: "pack_queue.queued w ?q"
    using queued_oldest_first [OF assms(1), of limit ?p] by (simp add: pack_queue.queued_def)
  have "Some k \<notin> ld_id ` set ?q" using not_in_oldest_first [OF assms(1,2), of ?p limit] assms(3) by simp
  note keep = pack_queue.push_untouched [OF assms(1) q this] and okk = pack_queue.push_ok [OF assms(1) q]
  show ?thesis
    unfolding deliver_pending_def list_pending_pack_delivery_def sweep_push_loop
    using keep okk assms(2) by (simp add: case_prod_unfold)
qed

theorem deliver_pending_only_its_queue_witness:
  "get_lead (fst (snd (deliver_pending 9 witness_settings (\<lambda>_ _. True) 200 witness_campaigns
     (\<lparr>rows = [witness_lead\<lparr>ld_pack_delivery_status := PackSkipped\<rparr>], next_id = 2\<rparr>, [])))) 1
   = Some (witness_lead\<lparr>ld_pack_delivery_status := PackSkipped\<rparr>)"
proof -
  let ?w = "(\<lparr>rows = [witness_lead\<lparr>ld_pack_delivery_status := PackSkipped\<rparr>], next_id = 2\<rparr>, [] :: mail list)"
  have "ok_leads (fst ?w)" by (simp add: ok_leads_def unique_leads_def ok_table_def wf_table_def witness_lead_def)
  moreover have "get_lead (fst ?w) 1 = Some (witness_lead\<lparr>ld_pack_delivery_status := PackSkipped\<rparr>)"
    by (simp add: get_lead_def tbl_get_def witness_lead_def)
  ultimately show ?thesis using deliver_pending_only_its_queue [of ?w 1] by simp
qed

subsection \<open>The push to the CRM\<close>

text \<open>Pushing a lead calls the CRM only when the sync is on globally and for the campaign, or for
  this call by force; else the lead is skipped. A pushed lead is synced, with the contact id
  of the answer, exactly when the CRM took its payload, or refused the contact status and
  then took the payload without it; otherwise it is failed with a reason of at most 500
  characters. Every contact carries a source and a lifecycle stage.\<close>

theorem sync_lead_outcome:
  "(if sync_allowed cfg force c
    then (case sync_lead now cfg upsert force c l (t, calls) of
        (Inl e, t', calls') \<Rightarrow> t' = t \<and> second_participant l = Inl e
      | (Inr l', t', calls') \<Rightarrow> t' = update_lead l' t \<and>
          (case fst (upsert_with_status_fallback upsert (build_contact_payload l c) calls) of
             Inr cid \<Rightarrow> ld_crm_sync_status l' = CrmSynced \<and> ld_crm_contact_id l' = cid \<and> ld_crm_error l' = None
           | Inl e \<Rightarrow> ld_crm_sync_status l' = CrmFailed \<and> ld_crm_contact_id l' = ld_crm_contact_id l \<and>
               (\<exists>msg. ld_crm_error l' = Some msg \<and> length msg \<le> 500)))
    else sync_lead now cfg upsert force c l (t, calls) =
      (Inr (l\<lparr>ld_crm_sync_status := CrmSkipped\<rparr>), update_lead (l\<lparr>ld_crm_sync_status := CrmSkipped\<rparr>) t, calls)) \<and>
   cp_lifecycle_stage_id (build_contact_payload l c) = INQUIRY_STAGE_ID \<and>
   cp_lead_source_id (build_contact_payload l c) \<in> {NOG_LEAD_SOURCE_ID, WEBSITE_LEAD_SOURCE_ID}"
proof -
  obtain r calls1 where u: "upsert_with_status_fallback upsert (build_contact_payload l c) calls = (r, calls1)" by fastforce
  have "cp_lead_source_id (build_contact_payload l c) \<in> {NOG_LEAD_SOURCE_ID, WEBSITE_LEAD_SOURCE_ID}"
    by (simp add: build_contact_payload_def lead_source_id_def LEAD_SOURCE_ID_BY_CAMPAIGN_def Let_def)
  moreover have "cp_lifecycle_stage_id (build_contact_payload l c) = INQUIRY_STAGE_ID"
    by (simp add: build_contact_payload_def Let_def)
  moreover have "case fst (upsert_with_status_fallback upsert (build_contact_payload l c) calls) of
       Inr cid \<Rightarrow> ld_crm_sync_status (record_outcome now r l) = CrmSynced \<and> ld_crm_contact_id (record_outcome now r l) = cid \<and>
         ld_crm_error (record_outcome now r l) = None
     | Inl e \<Rightarrow> ld_crm_sync_status (record_outcome now r l) = CrmFailed \<and>
         ld_crm_contact_id (record_outcome now r l) = ld_crm_contact_id l \<and>
         (\<exists>msg. ld_crm_error (record_outcome now r l) = Some msg \<and> length msg \<le> 500)"
    by (simp add: u record_outcome_def failure_text_def split: sum.splits)
  moreover have "second_participant (record_outcome now r l) = second_participant l"
    by (simp add: second_participant_def)
  ultimately show ?thesis
    by (auto simp: sync_lead_def u Let_def build_second_participant_contact_payload_def rbind_eq_Inl_iff split: sum.splits)
qed

text \<open>One lead whose free-form answers hold a \<open>second_participant\<close> that is neither empty nor an
  object stops the CRM queue: when it is the oldest lead waiting, the run ends with an
  exception after calling the CRM for it, no lead is marked, and so every later run does
  the same.\<close>

theorem malformed_answer_blocks_crm_queue:
  assumes "freshsales_lead_sync_enabled cfg"
    and "list_pending_crm_sync [CrmFailed, CrmPending] limit t = l # ls"
    and "second_participant l = Inl e" and "get_campaign campaigns (ld_campaign_id l) = Some c"
    and "default (cfg_crm_sync_enabled (cg_config c)) True"
  shows "case sync_pending now cfg upsert limit campaigns (t, calls) of (r, t', calls') \<Rightarrow>
    r = Inl e \<and> t' = t \<and> calls' \<noteq> calls"
proof -
  obtain r calls1 where u: "upsert_with_status_fallback upsert (build_contact_payload l c) calls = (r, calls1)" by fastforce
  have "calls1 \<noteq> calls"
    using u by (auto simp: upsert_with_status_fallback_def Let_def split: sum.splits upsert_error.splits if_splits)
  moreover have "second_participant (record_outcome now r l) = Inl e"
    using assms(3) by (simp add: second_participant_def)
  ultimately show ?thesis
    using assms by (simp add: sync_pending_def sync_lead_def sync_allowed_def u Let_def
        build_second_participant_contact_payload_def)
qed

theorem malformed_answer_blocks_crm_queue_witness:
  "case sync_pending 9 witness_settings (\<lambda>_ _. Inr (Some ''77'')) 200 witness_campaigns
     (\<lparr>rows = [witness_lead\<lparr>ld_responses := [(''second_participant'', JStr ''yes'')]\<rparr>], next_id = 2\<rparr>, []) of (r, t', calls') \<Rightarrow>
   r = Inl AttributeError \<and> t' = \<lparr>rows = [witness_lead\<lparr>ld_responses := [(''second_participant'', JStr ''yes'')]\<rparr>], next_id = 2\<rparr> \<and>
   calls' \<noteq> []"
  by (rule malformed_answer_blocks_crm_queue [where c = witness_campaign and ls = "[]" and
        l = "witness_lead\<lparr>ld_responses := [(''second_participant'', JStr ''yes'')]\<rparr>"])
    (simp_all add: witness_settings_def list_pending_crm_sync_def oldest_first_def witness_lead_def new_lead_def
      second_participant_def get_campaign_def tbl_get_def witness_campaigns_def witness_campaign_def witness_config_def)

end
