(* ===== verification/Email_Events.thy ===== *)
theory Email_Events
  imports Leads
begin

section \<open>Open and click events\<close>

text \<open>
  Model of \<open>app/models/email_event.py\<close>, \<open>app/repositories/email_events_repo.py\<close>,
  \<open>app/services/email_event_ingest.py\<close> and the SendGrid webhook endpoint. An event of
  the batch is the record of the fields the code reads; the verification of the signature
  and the decoding of the body are arguments of the endpoint.
\<close>

record email_event =
  ee_id :: "int option"
  ee_lead_id :: int
  ee_trade_lead_id :: "int option"
  ee_email_kind :: "string option"
  ee_event_type :: string
  ee_material :: "string option"
  ee_url :: "string option"
  ee_sg_event_id :: string
  ee_sg_message_id :: "string option"
  ee_occurred_at :: time

definition set_ee_id :: "int option \<Rightarrow> email_event \<Rightarrow> email_event" where
  "set_ee_id k e = e\<lparr>ee_id := k\<rparr>"

definition get_by_sg_event_id :: "email_event table \<Rightarrow> string \<Rightarrow> email_event option" where
  "get_by_sg_event_id t k = List.find (\<lambda>e. ee_sg_event_id e = k) (rows t)"

definition create_email_event :: "email_event \<Rightarrow> email_event table \<Rightarrow> email_event \<times> email_event table" where
  "create_email_event e t = tbl_insert set_ee_id e t"

record sg_event =
  sg_event_type :: "string option"
  sg_id :: "string option"
  sg_message :: "string option"
  sg_lead_id :: "string option"
  sg_email :: "string option"
  sg_email_kind :: "string option"
  sg_url :: "string option"
  sg_timestamp :: "int option"

definition EVENT_OPEN :: string where "EVENT_OPEN = ''open''"
definition EVENT_CLICK :: string where "EVENT_CLICK = ''click''"

definition TRACKED_EVENTS :: "string list" where
  "TRACKED_EVENTS = [EVENT_OPEN, EVENT_CLICK, ''delivered'', ''bounce'', ''dropped'', ''spamreport'', ''unsubscribe'']"

fun asset_has :: "string \<Rightarrow> asset \<Rightarrow> bool" where
  "asset_has url (AssetUrl u) = (url = u)"
| "asset_has url (AssetUrls us) = (url \<in> set us)"
| "asset_has url AssetOther = False"

text \<open>The first label, campaigns newest first, that has the URL among its assets.\<close>

definition resolve_material :: "campaign table \<Rightarrow> string option \<Rightarrow> string option" where
  "resolve_material campaigns url =
     (if \<not> truthy url then None
      else map_option fst (List.find (\<lambda>(label, a). asset_has (default url []) a)
        (concat (map (\<lambda>c. cfg_materials_assets (cg_config c)) (list_all_campaigns campaigns None)))))"

fun digits_value :: "int \<Rightarrow> string \<Rightarrow> int" where
  "digits_value acc [] = acc"
| "digits_value acc (c # s) = digits_value (10 * acc + digit_val c) s"

definition bump_lead_rollup :: "time \<Rightarrow> string \<Rightarrow> string option \<Rightarrow> time \<Rightarrow> lead \<Rightarrow> lead table \<Rightarrow> lead table" where
  "bump_lead_rollup now event_type material occurred l t =
     (if event_type = EVENT_OPEN
      then update_lead (recompute_score now (l\<lparr>
        ld_pack_opened_at := (case ld_pack_opened_at l of None \<Rightarrow> Some occurred
          | Some at0 \<Rightarrow> if occurred > at0 then Some occurred else Some at0),
        ld_pack_opened_count := ld_pack_opened_count l + 1\<rparr>)) t
      else if event_type = EVENT_CLICK \<and> truthy material \<and>
          default material [] \<notin> set (or_list (ld_pack_clicked_materials l) [])
      then update_lead (recompute_score now (l\<lparr>
        ld_pack_clicked_materials := Some (or_list (ld_pack_clicked_materials l) [] @ [default material []])\<rparr>)) t
      else t)"

text \<open>\<open>timestamp\<close> is in seconds; a zero or missing one is the time of the ingest.\<close>

definition event_time :: "time \<Rightarrow> sg_event \<Rightarrow> time" where
  "event_time now e = (case sg_timestamp e of None \<Rightarrow> now | Some s \<Rightarrow> if s = 0 then now else s * 1000000)"

definition ingest_one ::
    "time \<Rightarrow> campaign table \<Rightarrow> sg_event \<Rightarrow> lead table \<times> email_event table
      \<Rightarrow> bool \<times> lead table \<times> email_event table" where
  "ingest_one now campaigns e db =
     (let (lt, et) = db; ty = default (sg_event_type e) []; lid = default (sg_lead_id e) [] in
      if ty \<notin> set TRACKED_EVENTS then (False, db)
      else if \<not> truthy (sg_id e) then (False, db)
      else if get_by_sg_event_id et (default (sg_id e) []) \<noteq> None then (False, db)
      else if lid = [] \<or> \<not> list_all is_digit lid then (False, db)
      else case get_lead lt (digits_value 0 lid) of
        None \<Rightarrow> (False, db)
      | Some l \<Rightarrow>
          let recipient = py_lower (py_strip (or_list (sg_email e) [])) in
          if recipient \<noteq> [] \<and> recipient \<noteq> py_lower (ld_email l) then (False, db)
          else let url = (if ty = EVENT_CLICK then sg_url e else None);
                   material = (if truthy url then resolve_material campaigns url else None);
                   occurred = event_time now e;
                   (_, et') = create_email_event
                     \<lparr>ee_id = None, ee_lead_id = digits_value 0 lid, ee_trade_lead_id = None,
                      ee_email_kind = sg_email_kind e, ee_event_type = ty, ee_material = material,
                      ee_url = url, ee_sg_event_id = default (sg_id e) [],
                      ee_sg_message_id = sg_message e, ee_occurred_at = occurred\<rparr> et
               in (True, (if ty = EVENT_OPEN \<or> ty = EVENT_CLICK
                          then bump_lead_rollup now ty material occurred l lt else lt), et'))"

fun ingest_events ::
    "time \<Rightarrow> campaign table \<Rightarrow> sg_event list \<Rightarrow> lead table \<times> email_event table
      \<Rightarrow> nat \<times> lead table \<times> email_event table" where
  "ingest_events now campaigns [] db = (0, db)"
| "ingest_events now campaigns (e # es) db =
     (case ingest_one now campaigns e db of (ok, db1) \<Rightarrow>
      case ingest_events now campaigns es db1 of (n, db2) \<Rightarrow> ((if ok then n + 1 else n), db2))"

text \<open>
  The endpoint: with a public key configured, both headers and a valid signature are
  required; without one every request is taken.
\<close>

definition sendgrid_events_webhook ::
    "time \<Rightarrow> string \<Rightarrow> (string \<Rightarrow> string \<Rightarrow> string \<Rightarrow> string \<Rightarrow> bool) \<Rightarrow> (string \<Rightarrow> sg_event list option)
      \<Rightarrow> string option \<Rightarrow> string option \<Rightarrow> string \<Rightarrow> campaign table \<Rightarrow> lead table \<times> email_event table
      \<Rightarrow> nat http \<times> lead table \<times> email_event table" where
  "sendgrid_events_webhook now public_key verify decode signature timestamp body campaigns db =
     (let valid = (case (signature, timestamp) of
          (Some sig, Some ts) \<Rightarrow> verify body sig ts public_key | _ \<Rightarrow> False)
      in if public_key \<noteq> [] \<and> \<not> valid then (HttpError 401 ''Invalid webhook signature'', db)
         else case decode body of
           None \<Rightarrow> (HttpError 500 ''Internal Server Error'', db)
         | Some es \<Rightarrow> (case ingest_events now campaigns es db of (n, db') \<Rightarrow> (HttpOk 200 n, db')))"

end
