(* ===== verification/Email_Safety.thy ===== *)
theory Email_Safety
  imports Email_Events Lead_Safety
begin

section \<open>What the event ingest guarantees\<close>

text \<open>
  SendGrid delivers at least once: a batch can be taken again without a trace, and the
  rollup on a lead is the count of its recorded opens.
\<close>

definition leads_only_engaged :: "lead table \<Rightarrow> lead table \<Rightarrow> bool" where
  "leads_only_engaged t t' \<longleftrightarrow> (\<forall>k. map_option ld_email (get_lead t' k) = map_option ld_email (get_lead t k))"

definition recorded :: "email_event table \<Rightarrow> string set" where
  "recorded t = ee_sg_event_id ` set (rows t)"

lemma get_by_sg_event_id_None: "get_by_sg_event_id t k = None \<longleftrightarrow> k \<notin> recorded t"
  by (auto simp: get_by_sg_event_id_def recorded_def find_None_all)

text \<open>The checks of an event before it is recorded, given the recorded ids and the lead's address.\<close>

definition sender_lead :: "lead table \<Rightarrow> sg_event \<Rightarrow> lead option" where
  "sender_lead t e = get_lead t (digits_value 0 (default (sg_lead_id e) []))"

definition accepts :: "string set \<Rightarrow> lead table \<Rightarrow> sg_event \<Rightarrow> bool" where
  "accepts ids t e \<longleftrightarrow> default (sg_event_type e) [] \<in> set TRACKED_EVENTS \<and> truthy (sg_id e) \<and>
     default (sg_id e) [] \<notin> ids \<and> default (sg_lead_id e) [] \<noteq> [] \<and>
     list_all is_digit (default (sg_lead_id e) []) \<and>
     (case map_option ld_email (sender_lead t e) of None \<Rightarrow> False
      | Some addr \<Rightarrow> (let r = py_lower (py_strip (or_list (sg_email e) [])) in r = [] \<or> r = py_lower addr))"

definition log_entry :: "time \<Rightarrow> campaign table \<Rightarrow> sg_event \<Rightarrow> email_event" where
  "log_entry now campaigns e =
     (let ty = default (sg_event_type e) []; url = (if ty = EVENT_CLICK then sg_url e else None)
      in \<lparr>ee_id = None, ee_lead_id = digits_value 0 (default (sg_lead_id e) []), ee_trade_lead_id = None,
          ee_email_kind = sg_email_kind e, ee_event_type = ty,
          ee_material = (if truthy url then resolve_material campaigns url else None),
          ee_url = url, ee_sg_event_id = default (sg_id e) [], ee_sg_message_id = sg_message e,
          ee_occurred_at = event_time now e\<rparr>)"

lemma ingest_one_cases:
  "ingest_one now campaigns e (lt, et) =
     (if accepts (recorded et) lt e
      then (True, (if ee_event_type (log_entry now campaigns e) \<in> {EVENT_OPEN, EVENT_CLICK}
              then bump_lead_rollup now (ee_event_type (log_entry now campaigns e)) (ee_material (log_entry now campaigns e))
                     (event_time now e) (the (sender_lead lt e)) lt else lt),
            snd (create_email_event (log_entry now campaigns e) et))
      else (False, lt, et))"
proof (cases "accepts (recorded et) lt e")
  case True
  then obtain l where "sender_lead lt e = Some l" by (auto simp: accepts_def split: option.splits)
  with True show ?thesis
    by (auto simp: ingest_one_def accepts_def get_by_sg_event_id_None sender_lead_def log_entry_def Let_def
        create_email_event_def tbl_insert_def)
next
  case False
  then show ?thesis
    by (auto simp: ingest_one_def accepts_def get_by_sg_event_id_None sender_lead_def Let_def split: option.splits)
qed

lemma bump_keeps_email:
  assumes "get_lead t k = Some l"
  shows "leads_only_engaged t (bump_lead_rollup now ty m at0 l t)"
proof -
  have id: "ld_id l = Some k" using tbl_get_Some(2) [of ld_id t k l] assms by (simp add: get_lead_def)
  have "leads_only_engaged t (update_lead (recompute_score now l') t)"
    if "ld_id l' = ld_id l" "ld_email l' = ld_email l" for l'
    using that id assms unfolding leads_only_engaged_def update_lead_def get_lead_def
    by (auto simp: tbl_get_update [where k = k] recompute_score_def)
  then show ?thesis by (simp add: bump_lead_rollup_def leads_only_engaged_def)
qed

lemma leads_only_engaged_trans:
  "leads_only_engaged a b \<Longrightarrow> leads_only_engaged b c \<Longrightarrow> leads_only_engaged a c"
  by (simp add: leads_only_engaged_def)

lemma accepts_mono:
  "leads_only_engaged t t' \<Longrightarrow> ids \<subseteq> ids' \<Longrightarrow> accepts ids' t' e \<Longrightarrow> accepts ids t e"
  by (auto simp: accepts_def sender_lead_def leads_only_engaged_def)

lemma recorded_create: "recorded (snd (create_email_event x t)) = insert (ee_sg_event_id x) (recorded t)"
  by (auto simp: recorded_def create_email_event_def set_ee_id_def)

lemma ingest_one_mono:
  assumes "ingest_one now campaigns e (lt, et) = (ok, lt', et')"
  shows "leads_only_engaged lt lt'" and "recorded et \<subseteq> recorded et'" and "\<not> accepts (recorded et') lt' e"
proof -
  have all: "leads_only_engaged lt lt' \<and> recorded et \<subseteq> recorded et' \<and> \<not> accepts (recorded et') lt' e"
  proof (cases "accepts (recorded et) lt e")
    case True
    then obtain l where l: "sender_lead lt e = Some l" by (auto simp: accepts_def split: option.splits)
    have lt: "leads_only_engaged lt lt'"
      using assms True l bump_keeps_email unfolding ingest_one_cases sender_lead_def
      by (auto simp: leads_only_engaged_def split: if_splits)
    have et: "recorded et' = insert (default (sg_id e) []) (recorded et)"
      using assms True unfolding ingest_one_cases by (auto simp: recorded_create log_entry_def Let_def)
    with lt show ?thesis by (auto simp: accepts_def)
  next
    case False
    with assms show ?thesis by (simp add: ingest_one_cases leads_only_engaged_def)
  qed
  then show "leads_only_engaged lt lt'" and "recorded et \<subseteq> recorded et'" and "\<not> accepts (recorded et') lt' e" by simp_all
qed

lemma ingest_events_mono:
  assumes "ingest_events now campaigns es (lt, et) = (n, lt', et')"
  shows "leads_only_engaged lt lt' \<and> recorded et \<subseteq> recorded et' \<and> (\<forall>e \<in> set es. \<not> accepts (recorded et') lt' e)"
  using assms
proof (induction es arbitrary: lt et n)
  case Nil
  then show ?case by (simp add: leads_only_engaged_def)
next
  case (Cons e es)
  obtain ok lt1 et1 where one: "ingest_one now campaigns e (lt, et) = (ok, lt1, et1)" by (metis prod_cases3)
  obtain m where rest: "ingest_events now campaigns es (lt1, et1) = (m, lt', et')"
    using Cons.prems one by (auto split: prod.splits)
  note step = ingest_one_mono [OF one] and IH = Cons.IH [OF rest]
  from IH have mono: "leads_only_engaged lt1 lt'" "recorded et1 \<subseteq> recorded et'" by simp_all
  have "\<not> accepts (recorded et') lt' e"
    using accepts_mono [OF mono, of e] step(3) by blast
  with IH step leads_only_engaged_trans [OF step(1) mono(1)] show ?case by auto
qed

lemma ingest_events_rejected:
  "\<forall>e \<in> set es. \<not> accepts (recorded et) lt e \<Longrightarrow> ingest_events now campaigns es (lt, et) = (0, lt, et)"
  by (induction es) (simp_all add: ingest_one_cases)

text \<open>C16: SendGrid may post a batch again, whole or split differently, mixed with what other events it
  likes: an event already taken is never recorded twice and changes no lead, so a repeated
  batch counts nothing and leaves both tables as they are, at any later time and whatever
  the campaigns are by then.\<close>

theorem repeated_batch_is_ignored:
  assumes "ingest_events now campaigns es db = (n, db1)" and "set es' \<subseteq> set es"
  shows "ingest_events later campaigns' es' db1 = (0, db1)"
proof -
  obtain lt et lt' et' where db: "db = (lt, et)" "db1 = (lt', et')" by fastforce
  with ingest_events_mono [of now campaigns es lt et n lt' et'] assms(1)
  have "\<forall>e \<in> set es. \<not> accepts (recorded et') lt' e" by simp
  with assms(2) have "\<forall>e \<in> set es'. \<not> accepts (recorded et') lt' e" by blast
  from ingest_events_rejected [OF this] show ?thesis by (simp add: db)
qed

definition witness_open :: sg_event where
  "witness_open = \<lparr>sg_event_type = Some ''open'', sg_id = Some ''ev1'', sg_message = None, sg_lead_id = Some ''1'',
     sg_email = Some ''Ada@x.ng'', sg_email_kind = Some ''pack'', sg_url = None, sg_timestamp = Some 5\<rparr>"

theorem repeated_batch_is_ignored_witness:
  "\<exists>n db1. ingest_events 9 witness_campaigns [witness_open] (\<lparr>rows = [witness_lead], next_id = 2\<rparr>, empty_table) = (n, db1) \<and>
    ingest_events 12 witness_campaigns [witness_open, witness_open] db1 = (0, db1)"
proof -
  obtain n db1 where r: "ingest_events 9 witness_campaigns [witness_open] (\<lparr>rows = [witness_lead], next_id = 2\<rparr>, empty_table)
      = (n, db1)"
    by (cases "ingest_events 9 witness_campaigns [witness_open] (\<lparr>rows = [witness_lead], next_id = 2\<rparr>, empty_table)")
  from repeated_batch_is_ignored [OF r, of "[witness_open, witness_open]"] r show ?thesis by auto
qed

subsection \<open>The rollup\<close>

definition opens_of :: "email_event table \<Rightarrow> int \<Rightarrow> nat" where
  "opens_of et k = length (filter (\<lambda>e. ee_lead_id e = k \<and> ee_event_type e = EVENT_OPEN) (rows et))"

definition rollup_ok :: "lead table \<times> email_event table \<Rightarrow> bool" where
  "rollup_ok db \<longleftrightarrow> (\<forall>k l. get_lead (fst db) k = Some l \<longrightarrow> ld_pack_opened_count l = int (opens_of (snd db) k))"

lemma opens_of_create:
  "opens_of (snd (create_email_event x et)) k =
     opens_of et k + (if ee_lead_id x = k \<and> ee_event_type x = EVENT_OPEN then 1 else 0)"
  by (simp add: opens_of_def create_email_event_def set_ee_id_def)

lemma get_lead_bump:
  assumes "get_lead t k = Some l"
  shows "map_option ld_pack_opened_count (get_lead (bump_lead_rollup now ty m at0 l t) j) =
    (if j = k \<and> ty = EVENT_OPEN then Some (ld_pack_opened_count l + 1) else map_option ld_pack_opened_count (get_lead t j))"
proof -
  have id: "ld_id l = Some k" using tbl_get_Some(2) [of ld_id t k l] assms by (simp add: get_lead_def)
  have upd: "map_option ld_pack_opened_count (get_lead (update_lead (recompute_score now l') t) i) =
      (if i = k then Some (ld_pack_opened_count l') else map_option ld_pack_opened_count (get_lead t i))"
    if "ld_id l' = ld_id l" for l' i
    using that id assms unfolding update_lead_def get_lead_def
    by (simp add: tbl_get_update [where k = k] recompute_score_def)
  show ?thesis
    using assms by (cases "j = k") (simp_all add: bump_lead_rollup_def upd EVENT_OPEN_def EVENT_CLICK_def
      del: map_option_eq_Some)
qed

lemma ingest_one_rollup:
  assumes "rollup_ok (lt, et)" and "ingest_one now campaigns e (lt, et) = (ok, lt', et')"
  shows "rollup_ok (lt', et')"
proof (cases "accepts (recorded et) lt e")
  case False
  with assms show ?thesis by (simp add: ingest_one_cases)
next
  case True
  let ?x = "log_entry now campaigns e" and ?k = "digits_value 0 (default (sg_lead_id e) [])"
  obtain l where l: "get_lead lt ?k = Some l" using True by (auto simp: accepts_def sender_lead_def split: option.splits)
  have the_l: "the (sender_lead lt e) = l" using l by (simp add: sender_lead_def)
  have x: "ee_lead_id ?x = ?k" by (simp add: log_entry_def Let_def)
  have et': "et' = snd (create_email_event ?x et)" and lt': "lt' = (if ee_event_type ?x \<in> {EVENT_OPEN, EVENT_CLICK}
        then bump_lead_rollup now (ee_event_type ?x) (ee_material ?x) (event_time now e) l lt else lt)"
    using assms(2) True l the_l by (auto simp: ingest_one_cases)
  have count: "map_option ld_pack_opened_count (get_lead lt' j) =
      (if j = ?k \<and> ee_event_type ?x = EVENT_OPEN then Some (ld_pack_opened_count l + 1)
       else map_option ld_pack_opened_count (get_lead lt j))" for j
    unfolding lt' using get_lead_bump [OF l] by auto
  show ?thesis
    unfolding rollup_ok_def fst_conv snd_conv et' opens_of_create x
  proof (intro allI impI)
    fix j m assume m: "get_lead lt' j = Some m"
    have before: "map_option ld_pack_opened_count (get_lead lt i) = Some c \<Longrightarrow> c = int (opens_of et i)" for i c
      using assms(1) by (auto simp: rollup_ok_def)
    from count [of j] m before [of j "ld_pack_opened_count m"] before [of ?k "ld_pack_opened_count l"] l
    show "ld_pack_opened_count m = int (opens_of et j + (if ?k = j \<and> ee_event_type ?x = EVENT_OPEN then 1 else 0))"
      by (simp split: if_splits)
  qed
qed

text \<open>C17: a lead's open count is the number of opens recorded for it: no batch of events, with
  whatever repeats, foreign recipients or malformed entries, makes them differ.\<close>

theorem open_count_matches_log:
  assumes "rollup_ok db"
  shows "rollup_ok (snd (ingest_events now campaigns es db))"
  using assms
proof (induction es arbitrary: db)
  case (Cons e es)
  obtain lt et where db: "db = (lt, et)" by fastforce
  obtain ok lt1 et1 where one: "ingest_one now campaigns e (lt, et) = (ok, lt1, et1)" by (metis prod_cases3)
  from Cons.IH [OF ingest_one_rollup [OF _ one]] Cons.prems db one show ?case
    by (auto split: prod.splits)
qed simp

theorem open_count_matches_log_witness:
  "rollup_ok (snd (ingest_events 9 witness_campaigns [witness_open, witness_open]
     (\<lparr>rows = [witness_lead], next_id = 2\<rparr>, empty_table)))"
  by (rule open_count_matches_log)
    (simp add: rollup_ok_def get_lead_def tbl_get_def witness_lead_def new_lead_def opens_of_def empty_table_def)

end
