(* ===== verification/Auth_Safety.thy ===== *)
theory Auth_Safety
  imports Auth
begin

section \<open>What the session tokens and the user administration guarantee\<close>

text \<open>
  A token only ever stands for the user it was issued to, in its own role (access or
  refresh) and until it expires, and no run of user administration can lock the last
  superadmin out.
\<close>

subsection \<open>Tokens\<close>

lemmas token_defs = get_current_user_def user_of_token_def refresh_def create_access_token_def
  create_refresh_token_def encode_token_def get_user_by_email_def

lemma login_HttpOk:
  assumes "login cr cfg now us e p = HttpOk n a"
  obtains u where "map_of us e = Some u" and "bcrypt_check cr p (default (us_hashed_password u) [])"
    and "a = issue_tokens cr cfg now u"
  using assms by (auto simp: login_def get_user_by_email_def split: option.splits if_splits)

text \<open>C18: a login hands out tokens only for the stored password of that e-mail. Until it expires
  (access_minutes after the login), the access token authenticates as the user of that e-mail as
  the table has it at the time of the request, so a changed role or a deletion counts at once;
  afterwards it is refused. Until the refresh token expires (refresh_minutes after the login), the
  refresh endpoint takes it and issues new tokens for that user as the table has it then, or
  refuses an unknown user; afterwards it is refused. Neither token can be used in place of the
  other. (The hypotheses are the contract of the JWT library: a signed token is read back with
  its own claims or refused, it is accepted until a second before its expiry, the claim's
  resolution, and refused from then on.)\<close>

theorem session_tokens:
  assumes own_claims: "\<And>t c c'. jwt_decode cr t (jwt_encode cr c) = Some c' \<Longrightarrow>
      cl_sub c' = cl_sub c \<and> cl_type c' = cl_type c"
    and live: "\<And>t c. cl_iat c \<le> t \<Longrightarrow> t + 1000000 < cl_exp c \<Longrightarrow> jwt_decode cr t (jwt_encode cr c) \<noteq> None"
    and expired: "\<And>t c. cl_exp c \<le> t \<Longrightarrow> jwt_decode cr t (jwt_encode cr c) = None"
    and login: "login cr cfg t0 us e p = HttpOk n a"
  shows "\<exists>u. map_of us e = Some u \<and> bcrypt_check cr p (default (us_hashed_password u) []) \<and>
    (\<forall>t us'. t0 \<le> t \<and> t + 1000000 < t0 + minutes (access_minutes cfg) \<longrightarrow>
       get_current_user cr t us' (Some (ar_access_token a)) =
         (case map_of us' (us_email u) of None \<Rightarrow> HttpError 401 ''Unknown user'' | Some u' \<Rightarrow> HttpOk 200 u')) \<and>
    (\<forall>t us'. t0 + minutes (access_minutes cfg) \<le> t \<longrightarrow>
       get_current_user cr t us' (Some (ar_access_token a)) = HttpError 401 ''Invalid token'') \<and>
    (\<forall>t us'. t0 \<le> t \<and> t + 1000000 < t0 + minutes (refresh_minutes cfg) \<longrightarrow>
       refresh cr cfg t us' (Some (ar_refresh_token a)) =
         (case map_of us' (us_email u) of None \<Rightarrow> HttpError 401 ''Unknown user''
          | Some u' \<Rightarrow> HttpOk 200 (issue_tokens cr cfg t u'))) \<and>
    (\<forall>t us'. t0 + minutes (refresh_minutes cfg) \<le> t \<longrightarrow>
       refresh cr cfg t us' (Some (ar_refresh_token a)) = HttpError 401 ''Invalid token'') \<and>
    (\<forall>t us'. http_status (get_current_user cr t us' (Some (ar_refresh_token a))) = 401 \<and>
       http_status (refresh cr cfg t us' (Some (ar_access_token a))) = 401)"
proof -
  from login obtain u where u: "map_of us e = Some u" "bcrypt_check cr p (default (us_hashed_password u) [])"
    and a: "a = issue_tokens cr cfg t0 u" by (rule login_HttpOk)
  define ca where "ca = \<lparr>cl_sub = us_email u, cl_role = us_role u, cl_type = ''access'', cl_iat = t0,
    cl_exp = t0 + minutes (access_minutes cfg)\<rparr>"
  define cf where "cf = \<lparr>cl_sub = us_email u, cl_role = us_role u, cl_type = ''refresh'', cl_iat = t0,
    cl_exp = t0 + minutes (refresh_minutes cfg)\<rparr>"
  have tok: "ar_access_token a = jwt_encode cr ca" "ar_refresh_token a = jwt_encode cr cf"
    by (simp_all add: a issue_tokens_def token_defs ca_def cf_def)
  have sel: "cl_sub ca = us_email u" "cl_type ca = ''access''" "cl_iat ca = t0"
    "cl_exp ca = t0 + minutes (access_minutes cfg)" "cl_type cf = ''refresh''"
    "cl_sub cf = us_email u" "cl_iat cf = t0" "cl_exp cf = t0 + minutes (refresh_minutes cfg)"
    by (simp_all add: ca_def cf_def)
  have 1: "get_current_user cr t us' (Some (ar_access_token a)) =
      (case map_of us' (us_email u) of None \<Rightarrow> HttpError 401 ''Unknown user'' | Some u' \<Rightarrow> HttpOk 200 u')"
    if t: "t0 \<le> t" "t + 1000000 < t0 + minutes (access_minutes cfg)" for t us'
  proof -
    from live [of ca t] t sel obtain c where c: "jwt_decode cr t (jwt_encode cr ca) = Some c" by auto
    from own_claims [OF c] c sel show ?thesis by (simp add: token_defs tok)
  qed
  have 2: "get_current_user cr t us' (Some (ar_access_token a)) = HttpError 401 ''Invalid token''"
    if "t0 + minutes (access_minutes cfg) \<le> t" for t us'
    using expired [of ca t] that sel by (simp add: token_defs tok)
  have 3: "http_status (get_current_user cr t us' (Some (ar_refresh_token a))) = 401" for t us'
    using own_claims [of t cf] sel by (cases "jwt_decode cr t (jwt_encode cr cf)") (auto simp: token_defs tok)
  have 4: "http_status (refresh cr cfg t us' (Some (ar_access_token a))) = 401" for t us'
    using own_claims [of t ca] sel by (cases "jwt_decode cr t (jwt_encode cr ca)") (auto simp: token_defs tok)
  have 5: "refresh cr cfg t us' (Some (ar_refresh_token a)) =
      (case map_of us' (us_email u) of None \<Rightarrow> HttpError 401 ''Unknown user''
       | Some u' \<Rightarrow> HttpOk 200 (issue_tokens cr cfg t u'))"
    if t: "t0 \<le> t" "t + 1000000 < t0 + minutes (refresh_minutes cfg)" for t us'
  proof -
    from live [of cf t] t sel obtain c where c: "jwt_decode cr t (jwt_encode cr cf) = Some c" by auto
    from own_claims [OF c] c sel show ?thesis by (simp add: token_defs tok split: option.splits)
  qed
  have 6: "refresh cr cfg t us' (Some (ar_refresh_token a)) = HttpError 401 ''Invalid token''"
    if "t0 + minutes (refresh_minutes cfg) \<le> t" for t us'
    using expired [of cf t] that sel by (simp add: token_defs tok)
  show ?thesis by (intro exI [of _ u] conjI allI impI) (use u 1 2 3 4 5 6 in blast)+
qed

text \<open>A library that keeps the contract: the token is the claims written out, the digest the password.\<close>

definition write_nat :: "nat \<Rightarrow> string" where
  "write_nat n = replicate n CHR ''i'' @ ''e''"

definition read_nat :: "string \<Rightarrow> nat \<times> string" where
  "read_nat s = (length (takeWhile (\<lambda>c. c = CHR ''i'') s), tl (dropWhile (\<lambda>c. c = CHR ''i'') s))"

lemma read_write_nat: "read_nat (write_nat n @ r) = (n, r)"
  by (induction n) (simp_all add: read_nat_def write_nat_def)

definition write_str :: "string \<Rightarrow> string" where
  "write_str s = write_nat (length s) @ s"

definition read_str :: "string \<Rightarrow> string \<times> string" where
  "read_str s = (case read_nat s of (n, r) \<Rightarrow> (take n r, drop n r))"

lemma read_write_str: "read_str (write_str s @ r) = (s, r)"
  by (simp add: read_str_def write_str_def read_write_nat)

definition write_time :: "time \<Rightarrow> string" where
  "write_time t = (if t < 0 then CHR ''-'' else CHR ''+'') # write_nat (nat \<bar>t\<bar>)"

definition read_time :: "string \<Rightarrow> time \<times> string" where
  "read_time s = (case read_nat (tl s) of (n, r) \<Rightarrow> (if hd s = CHR ''-'' then - int n else int n, r))"

lemma read_write_time: "read_time (write_time t @ r) = (t, r)"
  by (simp add: read_time_def write_time_def read_write_nat)

definition write_claims :: "claims \<Rightarrow> string" where
  "write_claims c = write_str (cl_sub c) @ write_str (cl_type c) @ write_time (cl_exp c) @ []"

definition read_claims :: "time \<Rightarrow> string \<Rightarrow> claims option" where
  "read_claims t s = (case read_str s of (sub, r) \<Rightarrow> case read_str r of (ty, r') \<Rightarrow>
     case read_time r' of (ex, _) \<Rightarrow>
       if ex \<le> t then None
       else Some \<lparr>cl_sub = sub, cl_role = [], cl_type = ty, cl_iat = 0, cl_exp = ex\<rparr>)"

lemma read_write_claims: "read_claims t (write_claims c) =
    (if cl_exp c \<le> t then None
     else Some \<lparr>cl_sub = cl_sub c, cl_role = [], cl_type = cl_type c, cl_iat = 0, cl_exp = cl_exp c\<rparr>)"
  using read_write_time [of "cl_exp c" "[]"]
  by (simp add: read_claims_def write_claims_def read_write_str)

definition witness_crypto :: crypto where
  "witness_crypto = \<lparr>jwt_encode = write_claims, jwt_decode = read_claims,
     bcrypt_hash = (\<lambda>p. p), bcrypt_check = (\<lambda>p h. p = h)\<rparr>"

definition witness_users :: users where
  "witness_users = [(''ada@churchgate.com'', \<lparr>us_email = ''ada@churchgate.com'', us_role = ''superadmin'',
      us_owner_id = None, us_hashed_password = Some ''correct horse'', us_must_change_password = False\<rparr>)]"

definition witness_tokens :: token_settings where
  "witness_tokens = \<lparr>access_minutes = 60, refresh_minutes = 10080\<rparr>"

theorem session_tokens_witness:
  "\<exists>a. login witness_crypto witness_tokens 0 witness_users ''ada@churchgate.com'' ''correct horse'' = HttpOk 200 a \<and>
    get_current_user witness_crypto 5 [] (Some (ar_access_token a)) = HttpError 401 ''Unknown user'' \<and>
    get_current_user witness_crypto (minutes 60) witness_users (Some (ar_access_token a)) = HttpError 401 ''Invalid token'' \<and>
    refresh witness_crypto witness_tokens (minutes 60) [] (Some (ar_refresh_token a)) = HttpError 401 ''Unknown user''"
proof -
  obtain a where a: "login witness_crypto witness_tokens 0 witness_users ''ada@churchgate.com'' ''correct horse'' = HttpOk 200 a"
    by (simp add: login_def witness_users_def get_user_by_email_def witness_crypto_def)
  have "\<exists>u. map_of witness_users ''ada@churchgate.com'' = Some u \<and>
      bcrypt_check witness_crypto ''correct horse'' (default (us_hashed_password u) []) \<and>
      (\<forall>t us'. 0 \<le> t \<and> t + 1000000 < 0 + minutes (access_minutes witness_tokens) \<longrightarrow>
         get_current_user witness_crypto t us' (Some (ar_access_token a)) =
           (case map_of us' (us_email u) of None \<Rightarrow> HttpError 401 ''Unknown user'' | Some u' \<Rightarrow> HttpOk 200 u')) \<and>
      (\<forall>t us'. 0 + minutes (access_minutes witness_tokens) \<le> t \<longrightarrow>
         get_current_user witness_crypto t us' (Some (ar_access_token a)) = HttpError 401 ''Invalid token'') \<and>
      (\<forall>t us'. 0 \<le> t \<and> t + 1000000 < 0 + minutes (refresh_minutes witness_tokens) \<longrightarrow>
         refresh witness_crypto witness_tokens t us' (Some (ar_refresh_token a)) =
           (case map_of us' (us_email u) of None \<Rightarrow> HttpError 401 ''Unknown user''
            | Some u' \<Rightarrow> HttpOk 200 (issue_tokens witness_crypto witness_tokens t u'))) \<and>
      (\<forall>t us'. 0 + minutes (refresh_minutes witness_tokens) \<le> t \<longrightarrow>
         refresh witness_crypto witness_tokens t us' (Some (ar_refresh_token a)) = HttpError 401 ''Invalid token'') \<and>
      (\<forall>t us'. http_status (get_current_user witness_crypto t us' (Some (ar_refresh_token a))) = 401 \<and>
         http_status (refresh witness_crypto witness_tokens t us' (Some (ar_access_token a))) = 401)"
    by (rule session_tokens [OF _ _ _ a]) (auto simp: witness_crypto_def read_write_claims split: if_splits)
  then obtain u :: user where live: "\<forall>t us'. 0 \<le> t \<and> t + 1000000 < 0 + minutes (access_minutes witness_tokens) \<longrightarrow>
         get_current_user witness_crypto t us' (Some (ar_access_token a)) =
           (case map_of us' (us_email u) of None \<Rightarrow> HttpError 401 ''Unknown user'' | Some u' \<Rightarrow> HttpOk 200 u')"
    and again: "\<forall>t us'. 0 \<le> t \<and> t + 1000000 < 0 + minutes (refresh_minutes witness_tokens) \<longrightarrow>
         refresh witness_crypto witness_tokens t us' (Some (ar_refresh_token a)) =
           (case map_of us' (us_email u) of None \<Rightarrow> HttpError 401 ''Unknown user''
            | Some u' \<Rightarrow> HttpOk 200 (issue_tokens witness_crypto witness_tokens t u'))"
    and dead: "\<forall>t us'. 0 + minutes (access_minutes witness_tokens) \<le> t \<longrightarrow>
         get_current_user witness_crypto t us' (Some (ar_access_token a)) = HttpError 401 ''Invalid token''"
    by blast
  have m: "minutes (access_minutes witness_tokens) = minutes 60" "minutes 60 = 3600000000"
    "minutes (refresh_minutes witness_tokens) = 604800000000"
    by (simp_all add: witness_tokens_def minutes_def)
  from live [rule_format, of 5 "[]"] again [rule_format, of "minutes 60" "[]"] dead [rule_format, of "minutes 60" witness_users] a
  show ?thesis by (simp add: m)
qed

subsection \<open>User administration\<close>

datatype admin_request =
    CreateUser create_user_request string
  | ResetPassword string string
  | UpdateUser string string "int option"
  | DeleteUser string
  | ChangePassword string string

text \<open>One request, made by whoever is logged in as \<open>who\<close> at that time.\<close>

definition caller_of :: "users \<Rightarrow> string \<Rightarrow> user http" where
  "caller_of us who = (case map_of us who of None \<Rightarrow> HttpError 401 ''Unknown user'' | Some u \<Rightarrow> HttpOk 200 u)"

fun administer :: "crypto \<Rightarrow> string \<times> admin_request \<Rightarrow> users \<Rightarrow> users" where
  "administer cr (who, CreateUser q generated) us = snd (create_user cr generated (caller_of us who) q us)"
| "administer cr (who, ResetPassword email generated) us = snd (reset_user_password cr generated (caller_of us who) email us)"
| "administer cr (who, UpdateUser email role owner) us = snd (update_user (caller_of us who) email role owner us)"
| "administer cr (who, DeleteUser email) us = snd (delete_user (caller_of us who) email us)"
| "administer cr (who, ChangePassword current new) us = snd (change_password cr (caller_of us who) current new us)"

definition superadmins :: "users \<Rightarrow> string set" where
  "superadmins us = {e. \<exists>u. map_of us e = Some u \<and> us_role u = ''superadmin''}"

text \<open>Rows are stored under their own e-mail, and their role is a valid one.\<close>

definition wf_users :: "users \<Rightarrow> bool" where
  "wf_users us \<longleftrightarrow> (\<forall>e u. map_of us e = Some u \<longrightarrow> us_email u = e \<and> us_role u \<in> set VALID_ROLES)"

lemma wf_usersD: "wf_users us \<Longrightarrow> map_of us e = Some u \<Longrightarrow> us_email u = e \<and> us_role u \<in> set VALID_ROLES"
  by (simp add: wf_users_def)

lemma map_of_save_user: "map_of (save_user u us) = (map_of us)(us_email u \<mapsto> u)"
  by (simp add: save_user_def update_conv')

lemma map_of_delete_user: "map_of (repo_delete_user u us) = (map_of us)(us_email u := None)"
  by (simp add: repo_delete_user_def delete_conv')

lemma wf_save_user: "wf_users us \<Longrightarrow> us_role u \<in> set VALID_ROLES \<Longrightarrow> wf_users (save_user u us)"
  by (auto simp: wf_users_def map_of_save_user split: if_splits)

lemma wf_delete_user: "wf_users us \<Longrightarrow> wf_users (repo_delete_user u us)"
  by (auto simp: wf_users_def map_of_delete_user split: if_splits)

lemma require_role_HttpOk: "require_role roles c = HttpOk n u \<longleftrightarrow> n = 200 \<and> us_role u \<in> set roles \<and> (\<exists>m. c = HttpOk m u)"
  by (cases c) (auto simp: require_role_def)

lemma caller_HttpOk: "caller_of us who = HttpOk n u \<longleftrightarrow> n = 200 \<and> map_of us who = Some u"
  by (auto simp: caller_of_def split: option.splits)

lemma acting_superadmin:
  assumes "wf_users us" and "require_role [''superadmin''] (caller_of us who) = HttpOk n actor"
  shows "us_email actor = who \<and> who \<in> superadmins us"
  using assms by (auto simp: require_role_HttpOk caller_HttpOk superadmins_def dest: wf_usersD)

lemma superadmins_save:
  "who \<in> superadmins us \<Longrightarrow> us_email u \<noteq> who \<or> us_role u = ''superadmin'' \<Longrightarrow> who \<in> superadmins (save_user u us)"
  by (auto simp: superadmins_def map_of_save_user)

lemma superadmins_delete: "who \<in> superadmins us \<Longrightarrow> us_email u \<noteq> who \<Longrightarrow> who \<in> superadmins (repo_delete_user u us)"
  by (auto simp: superadmins_def map_of_delete_user)

lemma save_same_role:
  assumes "map_of us e = Some u" and "wf_users us" and "us_role u' = us_role u" and "us_email u' = us_email u"
  shows "superadmins (save_user u' us) = superadmins us"
  using assms wf_usersD [OF assms(2,1)] by (auto simp: superadmins_def map_of_save_user)

lemma set_password_wf:
  assumes "map_of us e = Some u" and "wf_users us"
  shows "wf_users (set_password u h b us)" and "superadmins (set_password u h b us) = superadmins us"
  using assms wf_usersD [OF assms(2,1)] unfolding set_password_def
  by (simp add: wf_save_user) (rule save_same_role [OF assms], simp_all)

lemma administer_step:
  assumes wf: "wf_users us" and some: "superadmins us \<noteq> {}"
  shows "wf_users (administer cr (who, req) us) \<and> superadmins (administer cr (who, req) us) \<noteq> {}"
proof (cases req)
  case (CreateUser q generated)
  show ?thesis
  proof (cases "\<exists>n actor q'. require_role [''superadmin''] (caller_of us who) = HttpOk n actor \<and>
      valid_create_user q = Some q' \<and> map_of us (cu_email q') = None")
    case True
    then obtain n actor q' where ok: "require_role [''superadmin''] (caller_of us who) = HttpOk n actor"
      and q': "valid_create_user q = Some q'" and new: "map_of us (cu_email q') = None" by blast
    from q' have "cu_role q' \<in> set VALID_ROLES"
      by (auto simp: valid_create_user_def split: option.splits if_splits)
    moreover from acting_superadmin [OF wf ok] new have "cu_email q' \<noteq> who" by (auto simp: superadmins_def)
    ultimately show ?thesis
      using CreateUser ok q' new wf acting_superadmin [OF wf ok]
        superadmins_save [of who us "\<lparr>us_email = cu_email q', us_role = cu_role q', us_owner_id = cu_owner_id q',
          us_hashed_password = Some (bcrypt_hash cr (or_list (cu_password q') generated)), us_must_change_password = True\<rparr>"]
      by (auto simp: create_user_def get_user_by_email_def Let_def intro!: wf_save_user)
  next
    case False
    with CreateUser wf some show ?thesis
      by (auto simp: create_user_def get_user_by_email_def split: http.splits option.splits)
  qed
next
  case (ResetPassword email generated)
  with wf some set_password_wf [OF _ wf] show ?thesis
    by (auto simp: reset_user_password_def get_user_by_email_def split: http.splits option.splits)
next
  case (UpdateUser email role owner)
  show ?thesis
  proof (cases "\<exists>n actor u. require_role [''superadmin''] (caller_of us who) = HttpOk n actor \<and>
      role \<in> set VALID_ROLES \<and> py_lower email \<noteq> py_lower (us_email actor) \<and> map_of us email = Some u")
    case True
    then obtain n actor u where ok: "require_role [''superadmin''] (caller_of us who) = HttpOk n actor"
      and u: "role \<in> set VALID_ROLES" "py_lower email \<noteq> py_lower (us_email actor)" "map_of us email = Some u" by blast
    from acting_superadmin [OF wf ok] u wf_usersD [OF wf u(3)]
    have "us_email u \<noteq> who" and "who \<in> superadmins us" by auto
    then have "who \<in> superadmins (repo_update_user u role ow us)" and "wf_users (repo_update_user u role ow us)" for ow
      using u wf by (auto simp: repo_update_user_def intro!: superadmins_save wf_save_user)
    with UpdateUser ok u show ?thesis
      by (auto simp: update_user_def get_user_by_email_def Let_def)
  next
    case False
    with UpdateUser wf some show ?thesis
      by (auto simp: update_user_def get_user_by_email_def split: http.splits option.splits)
  qed
next
  case (DeleteUser email)
  show ?thesis
  proof (cases "\<exists>n actor u. require_role [''superadmin''] (caller_of us who) = HttpOk n actor \<and>
      py_lower email \<noteq> py_lower (us_email actor) \<and> map_of us email = Some u")
    case True
    then obtain n actor u where ok: "require_role [''superadmin''] (caller_of us who) = HttpOk n actor"
      and u: "py_lower email \<noteq> py_lower (us_email actor)" "map_of us email = Some u" by blast
    from acting_superadmin [OF wf ok] u wf_usersD [OF wf u(2)]
    have "us_email u \<noteq> who" and "who \<in> superadmins us" by auto
    with superadmins_delete [of who us u] wf_delete_user [OF wf] DeleteUser ok u show ?thesis
      by (auto simp: delete_user_def get_user_by_email_def)
  next
    case False
    with DeleteUser wf some show ?thesis
      by (auto simp: delete_user_def get_user_by_email_def split: http.splits option.splits)
  qed
next
  case (ChangePassword current new)
  with wf some set_password_wf [OF _ wf] show ?thesis
    by (auto simp: change_password_def caller_of_def split: http.splits option.splits)
qed

text \<open>C19: no run of user administration requests, whoever makes them, leaves the dashboard without
  a superadmin, stores a user under another e-mail or gives one an unknown role.\<close>

theorem superadmin_never_locked_out:
  assumes "wf_users us" and "superadmins us \<noteq> {}"
  shows "wf_users (fold (administer cr) reqs us) \<and> superadmins (fold (administer cr) reqs us) \<noteq> {}"
  using assms
proof (induction reqs arbitrary: us)
  case (Cons r reqs)
  obtain who req where "r = (who, req)" by fastforce
  with Cons administer_step [OF Cons.prems, of cr who req] show ?case by simp
qed simp

theorem superadmin_never_locked_out_witness:
  "superadmins (fold (administer witness_crypto) [(''ada@churchgate.com'', DeleteUser ''ada@churchgate.com''),
     (''ada@churchgate.com'', UpdateUser ''Ada@churchgate.com'' ''rep'' None)] witness_users) \<noteq> {}"
proof -
  have "wf_users witness_users" by (simp add: wf_users_def witness_users_def VALID_ROLES_def)
  moreover have "''ada@churchgate.com'' \<in> superadmins witness_users"
    by (simp add: superadmins_def witness_users_def)
  ultimately show ?thesis by (intro conjunct2 [OF superadmin_never_locked_out]) auto
qed

end
