(* ===== verification/Trade.thy ===== *)
theory Trade
  imports Crm_Sync Auth
begin

section \<open>Trade programs\<close>

text \<open>
  Model of \<open>app/models/trade_program.py\<close>, \<open>trade_lead.py\<close> and \<open>trade_document.py\<close>,
  \<open>app/repositories/trade_repo.py\<close>, \<open>app/services/trade_capture.py\<close>,
  \<open>trade_eligibility.py\<close>, \<open>trade_storage.py\<close>, \<open>trade_crm_sync.py\<close>, the senders of
  \<open>trade_mailer.py\<close> and the endpoints of \<open>app/api/v1/endpoints/trade.py\<close>. A registration
  is one or two participant rows sharing \<open>registration_id\<close>.

  Parameters: \<open>bind\<close> is what the database driver makes of a value for a column (\<open>None\<close>:
  it refuses it), \<open>uuid\<close> the fresh registration id, \<open>rival\<close> what other requests commit
  between the lookup and the insert, and an \<open>object_store\<close> the answers of the bucket.
\<close>

subsection \<open>Rows\<close>

datatype eligibility = EligibilityNotRequested | EligibilityPending | EligibilitySubmitted
  | EligibilityApproved | EligibilityRejected

datatype review = ReviewPending | ReviewApproved | ReviewRejected

record required_document =
  rd_key :: string
  rd_label :: "string option"
  rd_required :: bool

text \<open>
  The keys of \<open>TradeProgram.config\<close> the code reads: \<open>pc_lead_notification\<close> is the
  \<open>to_email\<close> of an enabled notification, \<open>pc_application_confirmation\<close> whether that entry
  is truthy.
\<close>

record program_config =
  pc_base_tags :: "string list"
  pc_required_documents :: "required_document list"
  pc_application_confirmation :: bool
  pc_lead_notification :: "string option"
  pc_crm_sync_enabled :: "bool option"
  pc_require_admin_approval :: bool
  pc_crm_lead_source_id :: "int option"

record trade_program =
  tp_id :: "int option"
  tp_slug :: string
  tp_name :: string
  tp_kind :: string
  tp_status :: campaign_status
  tp_starts_on :: "pydate option"
  tp_ends_on :: "pydate option"
  tp_timezone :: string
  tp_config :: program_config
  tp_created_at :: time
  tp_updated_at :: time

text \<open>
  The twenty-three columns that capture sets by name from the free-form answers
  (\<open>SHARED_RESPONSE_KEYS\<close>) are one dict of their values, and the phone and job title, which
  a second participant's answers set, are JSON values too.
\<close>

record trade_lead =
  tl_id :: "int option"
  tl_trade_program_id :: int
  tl_registration_id :: string
  tl_participant_index :: int
  tl_is_primary :: bool
  tl_first_name :: string
  tl_middle_name :: "string option"
  tl_last_name :: string
  tl_email :: string
  tl_phone :: json
  tl_job_title :: json
  tl_company :: "string option"
  tl_shared :: "json dict"
  tl_source :: string
  tl_tags :: "string list option"
  tl_captured_at :: "time option"
  tl_created_at :: time
  tl_responses :: "json dict"
  tl_crm_sync_status :: crm_status
  tl_crm_synced_at :: "time option"
  tl_crm_contact_id :: "string option"
  tl_crm_error :: "string option"
  tl_opened_at :: "time option"
  tl_opened_count :: int
  tl_clicked_materials :: "string list option"
  tl_eligibility_status :: eligibility
  tl_eligibility_submitted_at :: "time option"
  tl_review_status :: review
  tl_reviewed_at :: "time option"
  tl_reviewed_by :: "string option"
  tl_owner_id :: "int option"

record trade_document =
  td_id :: "int option"
  td_trade_program_id :: int
  td_registration_id :: string
  td_document_key :: string
  td_storage_key :: string
  td_file_name :: string
  td_content_type :: "string option"
  td_size_bytes :: nat
  td_uploaded_at :: time

definition new_trade_lead :: "int \<Rightarrow> string \<Rightarrow> int \<Rightarrow> bool \<Rightarrow> string \<Rightarrow> trade_lead" where
  "new_trade_lead program_id registration_id index primary email =
     \<lparr>tl_id = None, tl_trade_program_id = program_id, tl_registration_id = registration_id,
      tl_participant_index = index, tl_is_primary = primary, tl_first_name = [], tl_middle_name = None,
      tl_last_name = [], tl_email = email, tl_phone = JNull, tl_job_title = JNull, tl_company = None,
      tl_shared = [], tl_source = ''form'', tl_tags = None, tl_captured_at = None, tl_created_at = 0,
      tl_responses = [], tl_crm_sync_status = CrmPending, tl_crm_synced_at = None,
      tl_crm_contact_id = None, tl_crm_error = None, tl_opened_at = None, tl_opened_count = 0,
      tl_clicked_materials = None, tl_eligibility_status = EligibilityNotRequested,
      tl_eligibility_submitted_at = None, tl_review_status = ReviewPending, tl_reviewed_at = None,
      tl_reviewed_by = None, tl_owner_id = None\<rparr>"

subsection \<open>Repository\<close>

definition set_tl_id :: "int option \<Rightarrow> trade_lead \<Rightarrow> trade_lead" where
  "set_tl_id k l = l\<lparr>tl_id := k\<rparr>"

definition set_td_id :: "int option \<Rightarrow> trade_document \<Rightarrow> trade_document" where
  "set_td_id k d = d\<lparr>td_id := k\<rparr>"

definition get_program :: "trade_program table \<Rightarrow> int \<Rightarrow> trade_program option" where
  "get_program programs k = tbl_get tp_id programs k"

definition get_program_by_slug :: "trade_program table \<Rightarrow> string \<Rightarrow> trade_program option" where
  "get_program_by_slug programs slug = List.find (\<lambda>p. tp_slug p = slug) (rows programs)"

definition list_programs :: "trade_program table \<Rightarrow> campaign_status option \<Rightarrow> trade_program list" where
  "list_programs programs st = sort_key (\<lambda>p. - tp_created_at p)
     (filter (\<lambda>p. case st of None \<Rightarrow> True | Some s \<Rightarrow> tp_status p = s) (rows programs))"

definition get_trade_lead :: "trade_lead table \<Rightarrow> int \<Rightarrow> trade_lead option" where
  "get_trade_lead t k = tbl_get tl_id t k"

definition get_by_program_email :: "trade_lead table \<Rightarrow> int \<Rightarrow> string \<Rightarrow> trade_lead option" where
  "get_by_program_email t program_id email =
     (if email = [] then None
      else List.find (\<lambda>l. tl_trade_program_id l = program_id \<and> tl_email l = email) (rows t))"

definition list_by_registration :: "trade_lead table \<Rightarrow> string \<Rightarrow> trade_lead list" where
  "list_by_registration t reg =
     sort_key tl_participant_index (filter (\<lambda>l. tl_registration_id l = reg) (rows t))"

text \<open>
  A commit binds the columns the answers set, and then meets the partial unique index on
  program and non-empty e-mail.
\<close>

datatype trade_error = ProgramNotFoundError | ProgramInactiveError | DataError | UniqueViolation
  | MalformedAnswer | MissingGreenlet

type_synonym db_bind = "string \<Rightarrow> json \<Rightarrow> json option"

definition bound :: "db_bind \<Rightarrow> trade_lead \<Rightarrow> trade_lead option" where
  "bound bind l =
     (case (those (map (\<lambda>(k, v). map_option (Pair k) (bind k v)) (tl_shared l)),
            bind ''phone'' (tl_phone l), bind ''job_title'' (tl_job_title l)) of
        (Some shared, Some phone, Some job) \<Rightarrow>
          Some (l\<lparr>tl_shared := shared, tl_phone := phone, tl_job_title := job\<rparr>)
      | _ \<Rightarrow> None)"

definition email_taken :: "trade_lead table \<Rightarrow> trade_lead \<Rightarrow> bool" where
  "email_taken t l \<longleftrightarrow> tl_email l \<noteq> [] \<and> list_ex (\<lambda>x. tl_id x \<noteq> tl_id l \<and>
     tl_trade_program_id x = tl_trade_program_id l \<and> tl_email x = tl_email l) (rows t)"

definition create_trade_lead ::
    "time \<Rightarrow> db_bind \<Rightarrow> trade_lead \<Rightarrow> trade_lead table \<Rightarrow> trade_error + trade_lead \<times> trade_lead table" where
  "create_trade_lead now bind l t = (case bound bind l of
     None \<Rightarrow> Inl DataError
   | Some l' \<Rightarrow> if email_taken t l' then Inl UniqueViolation
       else Inr (tbl_insert set_tl_id (l'\<lparr>tl_created_at := now\<rparr>) t))"

definition update_trade_lead ::
    "db_bind \<Rightarrow> trade_lead \<Rightarrow> trade_lead table \<Rightarrow> trade_error + trade_lead \<times> trade_lead table" where
  "update_trade_lead bind l t = (case bound bind l of
     None \<Rightarrow> Inl DataError
   | Some l' \<Rightarrow> if email_taken t l' then Inl UniqueViolation else Inr (l', tbl_update tl_id l' t))"

text \<open>The same \<open>update_lead\<close> where only columns of the program's own making changed.\<close>

definition save_trade_lead :: "trade_lead \<Rightarrow> trade_lead table \<Rightarrow> trade_lead table" where
  "save_trade_lead l t = tbl_update tl_id l t"

definition set_review :: "time \<Rightarrow> review \<Rightarrow> string option \<Rightarrow> trade_lead \<Rightarrow> trade_lead" where
  "set_review now st who l =
     l\<lparr>tl_review_status := st, tl_reviewed_at := Some now, tl_reviewed_by := who\<rparr>"

text \<open>\<open>LIKE\<close>: the search text's own percent signs, underscores and backslashes count.\<close>

fun sql_like :: "string \<Rightarrow> string \<Rightarrow> bool" where
  "sql_like [] s = (s = [])"
| "sql_like (p # ps) s =
     (if p = CHR ''%'' then sql_like ps s \<or> (case s of [] \<Rightarrow> False | c # cs \<Rightarrow> sql_like (p # ps) cs)
      else if p = CHR 0x5C
      then (case (ps, s) of (q # qs, c # cs) \<Rightarrow> c = q \<and> sql_like qs cs | _ \<Rightarrow> False)
      else (case s of [] \<Rightarrow> False | c # cs \<Rightarrow> (p = CHR ''_'' \<or> p = c) \<and> sql_like ps cs))"

declare sql_like.simps(2) [simp del]

fun eligibility_name :: "eligibility \<Rightarrow> string" where
  "eligibility_name EligibilityNotRequested = ''not_requested''"
| "eligibility_name EligibilityPending = ''pending''"
| "eligibility_name EligibilitySubmitted = ''submitted''"
| "eligibility_name EligibilityApproved = ''approved''"
| "eligibility_name EligibilityRejected = ''rejected''"

fun review_name :: "review \<Rightarrow> string" where
  "review_name ReviewPending = ''pending''"
| "review_name ReviewApproved = ''approved''"
| "review_name ReviewRejected = ''rejected''"

record trade_filter =
  tf_crm_sync_status :: "string option"
  tf_eligibility_status :: "string option"
  tf_review_status :: "string option"
  tf_search :: "string option"

definition trade_filters :: "int \<Rightarrow> trade_filter \<Rightarrow> trade_lead \<Rightarrow> bool" where
  "trade_filters program_id f l \<longleftrightarrow> tl_trade_program_id l = program_id \<and>
     when_given (tf_crm_sync_status f) (\<lambda>s. crm_status_name (tl_crm_sync_status l) = s) \<and>
     when_given (tf_eligibility_status f) (\<lambda>s. eligibility_name (tl_eligibility_status l) = s) \<and>
     when_given (tf_review_status f) (\<lambda>s. review_name (tl_review_status l) = s) \<and>
     (case or_list (tf_search f) [] of
        [] \<Rightarrow> True
      | s \<Rightarrow> (let pattern = ''%'' @ py_lower s @ ''%'' in
          sql_like pattern (py_lower (tl_first_name l @ '' '' @ tl_last_name l)) \<or>
          sql_like pattern (py_lower (tl_email l)) \<or> sql_like pattern (py_lower (default (tl_company l) []))))"

definition list_trade_leads :: "int \<Rightarrow> trade_filter \<Rightarrow> nat \<Rightarrow> nat \<Rightarrow> trade_lead table \<Rightarrow> trade_lead list" where
  "list_trade_leads program_id f limit offset t =
     page_of limit offset (sort_key (\<lambda>l. - tl_created_at l) (filter (trade_filters program_id f) (rows t)))"

definition count_trade_leads :: "int \<Rightarrow> trade_filter \<Rightarrow> trade_lead table \<Rightarrow> nat" where
  "count_trade_leads program_id f t = length (filter (trade_filters program_id f) (rows t))"

definition no_trade_filter :: trade_filter where
  "no_trade_filter = \<lparr>tf_crm_sync_status = None, tf_eligibility_status = None, tf_review_status = None, tf_search = None\<rparr>"

definition list_pending_trade :: "crm_status list \<Rightarrow> nat \<Rightarrow> trade_lead table \<Rightarrow> trade_lead list" where
  "list_pending_trade sts limit t =
     take limit (sort_key tl_created_at (filter (\<lambda>l. tl_crm_sync_status l \<in> set sts) (rows t)))"

record program_stats =
  ps_total_registrations :: nat
  ps_total_participants :: nat
  ps_crm_sync_breakdown :: "(crm_status \<times> nat) list"
  ps_eligibility_breakdown :: "(eligibility \<times> nat) list"

definition breakdown :: "('a \<Rightarrow> 'k) \<Rightarrow> 'a list \<Rightarrow> ('k \<times> nat) list" where
  "breakdown f xs = map (\<lambda>k. (k, length (filter (\<lambda>x. f x = k) xs))) (remdups (map f xs))"

definition stats_of_program :: "trade_lead table \<Rightarrow> int \<Rightarrow> program_stats" where
  "stats_of_program t program_id =
     (let ls = filter (\<lambda>l. tl_trade_program_id l = program_id) (rows t) in
      \<lparr>ps_total_registrations = length (remdups (map tl_registration_id ls)),
       ps_total_participants = count_trade_leads program_id no_trade_filter t,
       ps_crm_sync_breakdown = breakdown tl_crm_sync_status ls,
       ps_eligibility_breakdown = breakdown tl_eligibility_status ls\<rparr>)"

definition count_synced_trade :: "trade_lead table \<Rightarrow> int \<Rightarrow> nat" where
  "count_synced_trade t program_id =
     count_trade_leads program_id (no_trade_filter\<lparr>tf_crm_sync_status := Some ''synced''\<rparr>) t"

definition list_documents :: "trade_document table \<Rightarrow> string \<Rightarrow> trade_document list" where
  "list_documents docs reg = sort_key td_document_key (filter (\<lambda>d. td_registration_id d = reg) (rows docs))"

definition get_document :: "trade_document table \<Rightarrow> string \<Rightarrow> string \<Rightarrow> trade_document option" where
  "get_document docs reg key =
     List.find (\<lambda>d. td_registration_id d = reg \<and> td_document_key d = key) (rows docs)"

definition upsert_document :: "time \<Rightarrow> trade_document \<Rightarrow> trade_document table \<Rightarrow> trade_document \<times> trade_document table" where
  "upsert_document now d docs = (if td_id d = None then tbl_insert set_td_id (d\<lparr>td_uploaded_at := now\<rparr>) docs
     else (d, tbl_update td_id d docs))"

subsection \<open>Capture of a registration\<close>

record registration_request =
  rq_first_name :: string
  rq_last_name :: string
  rq_email :: string
  rq_phone :: "string option"
  rq_company :: "string option"
  rq_job_title :: "string option"
  rq_source :: string
  rq_captured_at :: "time option"
  rq_responses :: "json dict"

definition SHARED_RESPONSE_KEYS :: "string list" where
  "SHARED_RESPONSE_KEYS =
     [''company_founded'', ''industry_sector'', ''sector_specification'', ''sector_other'',
      ''ownership'', ''operating_currency'', ''fiscal_year_start'', ''employee_count'',
      ''sources_internationally'', ''source_countries'', ''sells_internationally'',
      ''sales_countries'', ''topics_of_interest'', ''consent_terms'',
      ''consent_data_processing'', ''consent_liability_waiver'', ''consent_photo_video'',
      ''cohort_date'', ''wtc_location'', ''registered_address'', ''city'', ''postal_code'',
      ''country'']"

definition shared_fields_from_responses :: "json dict \<Rightarrow> json dict" where
  "shared_fields_from_responses responses = map (\<lambda>k. (k, json_get responses k)) SHARED_RESPONSE_KEYS"


record second_kwargs =
  sk_first_name :: string
  sk_last_name :: string
  sk_email :: string
  sk_phone :: json
  sk_job_title :: json
  sk_responses :: "json dict"

text \<open>\<open>(d.get(k) or "").strip()\<close>: a truthy value that is no string has no \<open>strip\<close>.\<close>

definition stripped :: "json dict \<Rightarrow> string \<Rightarrow> attribute_error + string" where
  "stripped d k = (let j = json_get d k in
     if \<not> json_truthy j then Inr [] else case j of JStr s \<Rightarrow> Inr (py_strip s) | _ \<Rightarrow> Inl AttributeError)"

definition second_object :: "json dict \<Rightarrow> attribute_error + json dict" where
  "second_object responses = (let j = json_get responses ''second_participant'' in
     if \<not> json_truthy j then Inr [] else case j of JObj d \<Rightarrow> Inr d | _ \<Rightarrow> Inl AttributeError)"

definition non_empty_or :: "string \<Rightarrow> string \<Rightarrow> string" where
  "non_empty_or s d = (if s = [] then d else s)"

definition second_participant_from_responses ::
    "json dict \<Rightarrow> string \<Rightarrow> attribute_error + second_kwargs option" where
  "second_participant_from_responses responses primary_email =
     rbind (second_object responses) (\<lambda>second.
     rbind (stripped second ''first_name'') (\<lambda>first_name.
     rbind (stripped second ''last_name'') (\<lambda>last_name.
       if first_name = [] \<and> last_name = [] then Inr None
       else rbind (stripped second ''email'') (\<lambda>e. let email = py_lower e;
         phone = json_get second ''phone'' in
         Inr (Some \<lparr>sk_first_name = non_empty_or first_name em_dash, sk_last_name = non_empty_or last_name em_dash,
           sk_email = (if email = primary_email then [] else email),
           sk_phone = (if json_truthy phone then phone else JNull),
           sk_job_title = json_get second ''job_title'', sk_responses = second\<rparr>)))))"

definition apply_registration :: "trade_program \<Rightarrow> registration_request \<Rightarrow> trade_lead \<Rightarrow> trade_lead" where
  "apply_registration p q l =
     l\<lparr>tl_trade_program_id := default (tp_id p) 0, tl_first_name := rq_first_name q,
       tl_last_name := rq_last_name q, tl_phone := json_opt (rq_phone q),
       tl_job_title := json_opt (rq_job_title q), tl_company := rq_company q, tl_source := rq_source q,
       tl_captured_at := rq_captured_at q, tl_responses := rq_responses q,
       tl_tags := Some (pc_base_tags (tp_config p)),
       tl_shared := shared_fields_from_responses (rq_responses q)\<rparr>"

text \<open>The attributes \<open>setattr\<close> puts on a second participant.\<close>

definition second_tags :: "trade_lead \<Rightarrow> string list" where
  "second_tags primary = or_list (tl_tags primary) [] @ [''Second Participant'']"

definition apply_second ::
    "registration_request \<Rightarrow> second_kwargs \<Rightarrow> string list \<Rightarrow> trade_lead \<Rightarrow> trade_lead" where
  "apply_second q sk tags l =
     l\<lparr>tl_first_name := sk_first_name sk, tl_last_name := sk_last_name sk, tl_email := sk_email sk,
       tl_phone := sk_phone sk, tl_job_title := sk_job_title sk, tl_responses := sk_responses sk,
       tl_shared := shared_fields_from_responses (rq_responses q), tl_company := rq_company q,
       tl_tags := Some tags\<rparr>"

text \<open>
  The primary's row. A unique violation rolls the session back, which expires \<open>program\<close>:
  reading \<open>program.id\<close> for the second lookup then needs a query outside an await, and
  SQLAlchemy raises \<open>MissingGreenlet\<close>.
\<close>

definition store_primary ::
    "time \<Rightarrow> db_bind \<Rightarrow> (trade_lead table \<Rightarrow> trade_lead table) \<Rightarrow> string \<Rightarrow> trade_program \<Rightarrow> registration_request
      \<Rightarrow> trade_lead table \<Rightarrow> (trade_error + trade_lead \<times> bool) \<times> trade_lead table" where
  "store_primary now bind rival uuid p q t =
     (let program_id = default (tp_id p) 0; email = norm_email (rq_email q) in
      case get_by_program_email t program_id email of
        Some e \<Rightarrow> (case update_trade_lead bind (apply_registration p q e) t of
            Inl err \<Rightarrow> (Inl err, t) | Inr (l, t') \<Rightarrow> (Inr (l, False), t'))
      | None \<Rightarrow>
          (case create_trade_lead now bind (apply_registration p q (new_trade_lead program_id uuid 1 True email)) (rival t) of
             Inl UniqueViolation \<Rightarrow> (Inl MissingGreenlet, rival t)
           | Inl err \<Rightarrow> (Inl err, rival t)
           | Inr (l, t') \<Rightarrow> (Inr (l, True), t')))"

text \<open>
  The second participant, after the primary is committed: the first row of the
  registration that is not primary is overwritten, else one is created. When that row is
  the primary's own, both list entries are that one object.
\<close>

definition store_second ::
    "time \<Rightarrow> db_bind \<Rightarrow> trade_program \<Rightarrow> registration_request \<Rightarrow> trade_lead \<Rightarrow> trade_lead table
      \<Rightarrow> (trade_error + trade_lead list) \<times> trade_lead table" where
  "store_second now bind p q primary t =
     (case second_participant_from_responses (rq_responses q) (norm_email (rq_email q)) of
        Inl e \<Rightarrow> (Inl MalformedAnswer, t)
      | Inr None \<Rightarrow> (Inr [primary], t)
      | Inr (Some sk) \<Rightarrow>
          (let tags = second_tags primary; reg = tl_registration_id primary in
           case (case List.find (\<lambda>s. \<not> tl_is_primary s) (list_by_registration t reg) of
                   None \<Rightarrow> create_trade_lead now bind ((apply_second q sk tags
                     (new_trade_lead (default (tp_id p) 0) reg 2 False []))\<lparr>tl_source := rq_source q\<rparr>) t
                 | Some s \<Rightarrow> update_trade_lead bind (apply_second q sk tags s) t) of
             Inl err \<Rightarrow> (Inl err, t)
           | Inr (s, t') \<Rightarrow> (Inr [if tl_id s = tl_id primary then s else primary, s], t')))"

definition capture_registration ::
    "time \<Rightarrow> db_bind \<Rightarrow> (trade_lead table \<Rightarrow> trade_lead table) \<Rightarrow> string \<Rightarrow> trade_program table \<Rightarrow> string
      \<Rightarrow> registration_request \<Rightarrow> trade_lead table
      \<Rightarrow> (trade_error + trade_program \<times> trade_lead list \<times> bool) \<times> trade_lead table" where
  "capture_registration now bind rival uuid programs slug q t =
     (case get_program_by_slug programs slug of
        None \<Rightarrow> (Inl ProgramNotFoundError, t)
      | Some p \<Rightarrow>
          if tp_status p \<noteq> CampaignActive then (Inl ProgramInactiveError, t)
          else (case store_primary now bind rival uuid p q t of
             (Inl e, t1) \<Rightarrow> (Inl e, t1)
           | (Inr (primary, created), t1) \<Rightarrow>
               (case store_second now bind p q primary t1 of
                  (Inl e, t2) \<Rightarrow> (Inl e, t2)
                | (Inr participants, t2) \<Rightarrow> (Inr (p, participants, created), t2))))"

subsection \<open>Mail of a registration\<close>

definition plain_mail :: "string \<Rightarrow> mail" where
  "plain_mail to = \<lparr>ml_to = to, ml_cc = [], ml_lead_id = None, ml_kind = None, ml_docs = []\<rparr>"

fun send_confirmations :: "settings \<Rightarrow> poster \<Rightarrow> trade_lead list \<Rightarrow> mail list \<Rightarrow> mail list" where
  "send_confirmations cfg post [] sent = sent"
| "send_confirmations cfg post (l # ls) sent = send_confirmations cfg post ls
     (if tl_email l = [] then sent else snd (send_campaign_email cfg post (plain_mail (tl_email l)) sent))"

definition send_trade_notification :: "settings \<Rightarrow> poster \<Rightarrow> trade_program \<Rightarrow> mail list \<Rightarrow> mail list" where
  "send_trade_notification cfg post p sent = (case pc_lead_notification (tp_config p) of
     None \<Rightarrow> sent
   | Some to \<Rightarrow> if to = [] then sent else snd (send_campaign_email cfg post (plain_mail to) sent))"

subsection \<open>Eligibility documents\<close>

definition document_keys :: "trade_program \<Rightarrow> string list" where
  "document_keys p = map rd_key (pc_required_documents (tp_config p))"

definition required_keys :: "trade_program \<Rightarrow> string list" where
  "required_keys p = map rd_key (filter rd_required (pc_required_documents (tp_config p)))"

definition compute_eligibility_status :: "string list \<Rightarrow> trade_program \<Rightarrow> eligibility" where
  "compute_eligibility_status present p =
     (if present = [] then EligibilityNotRequested
      else if required_keys p \<noteq> [] \<and> set (required_keys p) \<subseteq> set present then EligibilitySubmitted
      else if required_keys p = [] then EligibilitySubmitted
      else EligibilityPending)"

text \<open>\<open>file_name.rsplit(".", 1)[-1]\<close>, and the bucket with its answers.\<close>

definition file_ext :: "string \<Rightarrow> string" where
  "file_ext f = (if CHR ''.'' \<in> set f then ''.'' @ rev (takeWhile (\<lambda>c. c \<noteq> CHR ''.'') (rev f)) else [])"

definition build_storage_key :: "string \<Rightarrow> string \<Rightarrow> string \<Rightarrow> string \<Rightarrow> string \<Rightarrow> string" where
  "build_storage_key hex8 slug reg key file_name =
     slug @ ''/'' @ reg @ ''/'' @ key @ ''-'' @ hex8 @ file_ext file_name"

record object_store =
  os_configured :: bool
  os_put_ok :: "string \<Rightarrow> bool"
  os_delete_ok :: "string \<Rightarrow> bool"

record trade_db =
  db_leads :: "trade_lead table"
  db_documents :: "trade_document table"
  db_objects :: "nat dict"

datatype document_error = UnknownDocumentKeyError | RegistrationNotFoundError
  | StorageNotConfiguredError | StorageFailure

definition upload_document ::
    "object_store \<Rightarrow> string \<Rightarrow> nat \<Rightarrow> nat dict \<Rightarrow> document_error + nat dict" where
  "upload_document os key body objects =
     (if \<not> os_configured os then Inl StorageNotConfiguredError
      else if os_put_ok os key then Inr (AList.update key body objects) else Inl StorageFailure)"

definition delete_document :: "object_store \<Rightarrow> string \<Rightarrow> nat dict \<Rightarrow> nat dict" where
  "delete_document os key objects =
     (if os_configured os \<and> os_delete_ok os key then AList.delete key objects else objects)"

definition refresh_eligibility :: "time \<Rightarrow> eligibility \<Rightarrow> trade_lead \<Rightarrow> trade_lead" where
  "refresh_eligibility now st l = l\<lparr>tl_eligibility_status := st,
     tl_eligibility_submitted_at := (if st = EligibilitySubmitted \<and> tl_eligibility_submitted_at l = None
       then Some now else tl_eligibility_submitted_at l)\<rparr>"

definition submit_document ::
    "time \<Rightarrow> object_store \<Rightarrow> string \<Rightarrow> trade_program \<Rightarrow> string \<Rightarrow> string \<Rightarrow> string \<Rightarrow> string option \<Rightarrow> nat
      \<Rightarrow> trade_db \<Rightarrow> (document_error + trade_document \<times> eligibility) \<times> trade_db" where
  "submit_document now os hex8 p reg key file_name ctype body db =
     (if key \<notin> set (document_keys p) then (Inl UnknownDocumentKeyError, db)
      else let participants = list_by_registration (db_leads db) reg in
      if participants = [] then (Inl RegistrationNotFoundError, db)
      else let skey = build_storage_key hex8 (tp_slug p) reg key file_name in
      case upload_document os skey body (db_objects db) of
        Inl e \<Rightarrow> (Inl e, db)
      | Inr objects \<Rightarrow>
          let (objects', doc) =
            (case get_document (db_documents db) reg key of
               Some d \<Rightarrow> (delete_document os (td_storage_key d) objects,
                 d\<lparr>td_storage_key := skey, td_file_name := file_name, td_content_type := ctype,
                   td_size_bytes := body, td_uploaded_at := now\<rparr>)
             | None \<Rightarrow> (objects,
                 \<lparr>td_id = None, td_trade_program_id = default (tp_id p) 0, td_registration_id = reg,
                  td_document_key = key, td_storage_key = skey, td_file_name = file_name,
                  td_content_type = ctype, td_size_bytes = body, td_uploaded_at = now\<rparr>));
            (doc', docs) = upsert_document now doc (db_documents db);
            st = compute_eligibility_status (map td_document_key (list_documents docs reg)) p
          in (Inr (doc', st), \<lparr>db_leads = fold (\<lambda>l. save_trade_lead (refresh_eligibility now st l)) participants (db_leads db),
                db_documents = docs, db_objects = objects'\<rparr>))"

subsection \<open>The push to the CRM\<close>

definition LEAD_STAGE_ID :: int where "LEAD_STAGE_ID = 18004285060"
definition NEW_STATUS_ID :: int where "NEW_STATUS_ID = 17000261833"
definition EXPORT_LAUNCHPAD_COHORT1_LEAD_SOURCE_ID :: int where
  "EXPORT_LAUNCHPAD_COHORT1_LEAD_SOURCE_ID = 17001007411"

fun py_type_name :: "json \<Rightarrow> string" where
  "py_type_name JNull = ''NoneType''"
| "py_type_name (JBool b) = ''bool''"
| "py_type_name (JInt i) = ''int''"
| "py_type_name (JFloat r) = ''float''"
| "py_type_name (JStr s) = ''str''"
| "py_type_name (JList xs) = ''list''"
| "py_type_name (JObj d) = ''dict''"

text \<open>\<open>", ".join(xs)\<close>: an item that is no string raises \<open>TypeError\<close> with this message.\<close>

fun all_strings :: "nat \<Rightarrow> json list \<Rightarrow> string + string list" where
  "all_strings i [] = Inr []"
| "all_strings i (JStr s # xs) = rbind (all_strings (Suc i) xs) (\<lambda>ss. Inr (s # ss))"
| "all_strings i (j # xs) =
     Inl (''sequence item '' @ show_nat i @ '': expected str instance, '' @ py_type_name j @ '' found'')"

definition topics_text :: "json \<Rightarrow> string + string" where
  "topics_text j = (if \<not> json_truthy j then Inr []
     else case j of JList xs \<Rightarrow> rbind (all_strings 0 xs) (\<lambda>ss. Inr (py_join '', '' ss))
       | _ \<Rightarrow> Inl ''can only join an iterable'')"

definition program_lead_source :: "trade_program \<Rightarrow> int" where
  "program_lead_source p = (case pc_crm_lead_source_id (tp_config p) of
     Some k \<Rightarrow> if k = 0 then EXPORT_LAUNCHPAD_COHORT1_LEAD_SOURCE_ID else k
   | None \<Rightarrow> EXPORT_LAUNCHPAD_COHORT1_LEAD_SOURCE_ID)"

definition trade_contact_payload :: "trade_lead \<Rightarrow> trade_program \<Rightarrow> string + contact_payload" where
  "trade_contact_payload l p = rbind (topics_text (json_get (tl_shared l) ''topics_of_interest'')) (\<lambda>topics. Inr
     \<lparr>cp_unique_email = JStr (tl_email l), cp_first_name = JStr (tl_first_name l),
      cp_last_name = JStr (tl_last_name l), cp_email_value = JStr (tl_email l),
      cp_mobile_number = tl_phone l, cp_job_title = tl_job_title l, cp_tags = or_list (tl_tags l) [],
      cp_lead_source_id = program_lead_source p, cp_lifecycle_stage_id = LEAD_STAGE_ID,
      cp_custom_field =
        [(''cf_company'', json_opt (tl_company l)), (''cf_campaign'', JStr (tp_slug p)),
         (''cf_country'', json_get (tl_shared l) ''country''),
         (''cf_industry_sector'', json_get (tl_shared l) ''industry_sector''),
         (''cf_company_founded'', json_get (tl_shared l) ''company_founded''),
         (''cf_employee_count'', json_get (tl_shared l) ''employee_count''),
         (''cf_sources_internationally'', json_get (tl_shared l) ''sources_internationally''),
         (''cf_sells_internationally'', json_get (tl_shared l) ''sells_internationally''),
         (''cf_topics_of_interest'', JStr topics),
         (''cf_eligibility_status'', JStr (eligibility_name (tl_eligibility_status l)))],
      cp_contact_status_id = Some NEW_STATUS_ID\<rparr>)"

definition trade_push_allowed :: "settings \<Rightarrow> trade_program \<Rightarrow> trade_lead \<Rightarrow> bool" where
  "trade_push_allowed cfg p l \<longleftrightarrow>
     freshsales_lead_sync_enabled cfg \<and> default (pc_crm_sync_enabled (tp_config p)) True \<and>
     (\<not> pc_require_admin_approval (tp_config p) \<or> tl_review_status l = ReviewApproved) \<and> tl_email l \<noteq> []"

definition record_trade_outcome :: "time \<Rightarrow> upsert_error + string option \<Rightarrow> trade_lead \<Rightarrow> trade_lead" where
  "record_trade_outcome now r l = (case r of
     Inr contact_id \<Rightarrow> l\<lparr>tl_crm_contact_id := contact_id, tl_crm_sync_status := CrmSynced,
       tl_crm_synced_at := Some now, tl_crm_error := None\<rparr>
   | Inl e \<Rightarrow> l\<lparr>tl_crm_sync_status := CrmFailed, tl_crm_error := Some (failure_text e)\<rparr>)"

definition sync_trade_lead ::
    "time \<Rightarrow> settings \<Rightarrow> crm_upsert \<Rightarrow> trade_program \<Rightarrow> trade_lead \<Rightarrow> trade_lead table \<times> contact_payload list
      \<Rightarrow> trade_lead \<times> trade_lead table \<times> contact_payload list" where
  "sync_trade_lead now cfg upsert p l w =
     (let (l', calls) =
        (if \<not> trade_push_allowed cfg p l then (l\<lparr>tl_crm_sync_status := CrmSkipped\<rparr>, snd w)
         else case trade_contact_payload l p of
           Inl msg \<Rightarrow> (record_trade_outcome now (Inl (OtherFailure msg)) l, snd w)
         | Inr c \<Rightarrow> (record_trade_outcome now (upsert (snd w) c) l, snd w @ [c]))
      in (l', save_trade_lead l' (fst w), calls))"

definition sync_pending_trade ::
    "time \<Rightarrow> settings \<Rightarrow> crm_upsert \<Rightarrow> nat \<Rightarrow> trade_program table \<Rightarrow> trade_lead table \<times> contact_payload list
      \<Rightarrow> nat \<times> trade_lead table \<times> contact_payload list" where
  "sync_pending_trade now cfg upsert limit programs w =
     (if \<not> freshsales_lead_sync_enabled cfg then (0, w)
      else sweep tl_trade_program_id (get_program programs) (\<lambda>l p. sync_trade_lead now cfg upsert p l)
        (\<lambda>l. tl_crm_sync_status l = CrmSynced)
        (list_pending_trade [CrmFailed, CrmPending] limit (fst w)) [] 0 w)"

subsection \<open>Endpoints\<close>

definition MAX_DOCUMENT_SIZE_BYTES :: nat where "MAX_DOCUMENT_SIZE_BYTES = 15 * 1024 * 1024"

definition TRADE_ROLES :: "string list" where
  "TRADE_ROLES = [''admin'', ''superadmin'', ''hod'', ''team_lead'', ''rep'']"

record participant_ref =
  pr_id :: "int option"
  pr_first_name :: string
  pr_last_name :: string
  pr_email :: "string option"
  pr_is_primary :: bool

text \<open>The answer has every column of the row but the owner.\<close>

record trade_lead_out =
  to_lead :: trade_lead
  to_co_participant :: "participant_ref option"

definition co_participant_ref :: "trade_lead table \<Rightarrow> trade_lead \<Rightarrow> participant_ref option" where
  "co_participant_ref t l = map_option (\<lambda>s. \<lparr>pr_id = tl_id s, pr_first_name = tl_first_name s,
       pr_last_name = tl_last_name s, pr_email = (if tl_email s = [] then None else Some (tl_email s)),
       pr_is_primary = tl_is_primary s\<rparr>)
     (List.find (\<lambda>s. tl_id s \<noteq> tl_id l) (list_by_registration t (tl_registration_id l)))"

definition mk_trade_lead_out :: "trade_lead table \<Rightarrow> trade_lead \<Rightarrow> trade_lead_out" where
  "mk_trade_lead_out t l = \<lparr>to_lead = l\<lparr>tl_owner_id := None\<rparr>, to_co_participant = co_participant_ref t l\<rparr>"

definition require_program :: "trade_program table \<Rightarrow> int \<Rightarrow> trade_program http" where
  "require_program programs k = (case get_program programs k of
     None \<Rightarrow> HttpError 404 ''Program not found'' | Some p \<Rightarrow> HttpOk 200 p)"

definition chars_between :: "nat \<Rightarrow> nat \<Rightarrow> string \<Rightarrow> bool" where
  "chars_between lo hi s \<longleftrightarrow> lo \<le> length s \<and> length s \<le> hi"

definition valid_registration :: "(string \<Rightarrow> bool) \<Rightarrow> registration_request \<Rightarrow> bool" where
  "valid_registration valid_email q \<longleftrightarrow>
     chars_between 1 120 (rq_first_name q) \<and> chars_between 1 120 (rq_last_name q) \<and> valid_email (rq_email q) \<and>
     when_given (rq_phone q) (chars_between 0 40) \<and> when_given (rq_company q) (chars_between 0 200) \<and>
     when_given (rq_job_title q) (chars_between 0 200)"

definition registration_out :: "trade_lead table \<Rightarrow> trade_lead list \<Rightarrow> string \<times> trade_lead_out list" where
  "registration_out t ls = (tl_registration_id (hd ls), map (mk_trade_lead_out t) ls)"

definition registration_mails ::
    "settings \<Rightarrow> poster \<Rightarrow> trade_program \<Rightarrow> trade_lead list \<Rightarrow> bool \<Rightarrow> mail list \<Rightarrow> mail list" where
  "registration_mails cfg post p participants created sent =
     (if \<not> created then sent
      else send_trade_notification cfg post p
        (if pc_application_confirmation (tp_config p) then send_confirmations cfg post participants sent else sent))"

definition api_register ::
    "(string \<Rightarrow> bool) \<Rightarrow> time \<Rightarrow> settings \<Rightarrow> poster \<Rightarrow> db_bind \<Rightarrow> (trade_lead table \<Rightarrow> trade_lead table) \<Rightarrow> string
      \<Rightarrow> trade_program table \<Rightarrow> string \<Rightarrow> registration_request \<Rightarrow> trade_lead table \<times> mail list
      \<Rightarrow> (bool \<times> string \<times> trade_lead_out list) http \<times> trade_lead table \<times> mail list" where
  "api_register valid_email now cfg post bind rival uuid programs slug q w =
     (if \<not> valid_registration valid_email q then (HttpError 422 ''Unprocessable'', w)
      else case capture_registration now bind rival uuid programs (py_strip slug) q (fst w) of
        (Inl ProgramNotFoundError, t) \<Rightarrow> (HttpError 404 ''no trade program with slug'', t, snd w)
      | (Inl ProgramInactiveError, t) \<Rightarrow> (HttpError 409 ''program is not accepting registrations'', t, snd w)
      | (Inl _, t) \<Rightarrow> (HttpError 500 ''Internal Server Error'', t, snd w)
      | (Inr (p, participants, created), t) \<Rightarrow>
          (HttpOk 201 (created, registration_out t participants), t,
           registration_mails cfg post p participants created (snd w)))"

definition api_submit_eligibility_document ::
    "time \<Rightarrow> object_store \<Rightarrow> string \<Rightarrow> trade_program table \<Rightarrow> string \<Rightarrow> string \<Rightarrow> string \<Rightarrow> string \<Rightarrow> string option
      \<Rightarrow> nat \<Rightarrow> trade_db \<Rightarrow> (trade_document \<times> eligibility) http \<times> trade_db" where
  "api_submit_eligibility_document now os hex8 programs slug reg key file_name ctype body db =
     (case get_program_by_slug programs (py_strip slug) of
        None \<Rightarrow> (HttpError 404 ''Program not found'', db)
      | Some p \<Rightarrow>
          if MAX_DOCUMENT_SIZE_BYTES < body then (HttpError 413 ''File too large'', db)
          else (case submit_document now os hex8 p (py_strip reg) (py_strip key) (non_empty_or file_name key) ctype body db of
             (Inr r, db') \<Rightarrow> (HttpOk 201 r, db')
           | (Inl UnknownDocumentKeyError, db') \<Rightarrow> (HttpError 400 ''not a required document'', db')
           | (Inl RegistrationNotFoundError, db') \<Rightarrow> (HttpError 404 ''no registration'', db')
           | (Inl StorageNotConfiguredError, db') \<Rightarrow> (HttpError 503 ''Supabase S3 credentials are not configured'', db')
           | (Inl StorageFailure, db') \<Rightarrow> (HttpError 500 ''Internal Server Error'', db')))"

definition api_list_programs :: "user http \<Rightarrow> trade_program table \<Rightarrow> trade_program list http" where
  "api_list_programs caller programs =
     http_then (require_role TRADE_ROLES caller) (\<lambda>u. HttpOk 200 (list_programs programs None))"

definition api_get_program ::
    "user http \<Rightarrow> int \<Rightarrow> trade_program table \<Rightarrow> trade_lead table \<Rightarrow> (trade_program \<times> program_stats) http" where
  "api_get_program caller k programs t = http_then (require_role TRADE_ROLES caller) (\<lambda>u.
     http_then (require_program programs k) (\<lambda>p. HttpOk 200 (p, stats_of_program t k)))"

definition api_list_participants ::
    "user http \<Rightarrow> int \<Rightarrow> trade_filter \<Rightarrow> nat \<Rightarrow> nat \<Rightarrow> trade_program table \<Rightarrow> trade_lead table
      \<Rightarrow> (trade_lead_out list \<times> nat) http" where
  "api_list_participants caller k f limit offset programs t = http_then (require_role TRADE_ROLES caller) (\<lambda>u.
     if limit < 1 \<or> 500 < limit then HttpError 422 ''Unprocessable''
     else http_then (require_program programs k) (\<lambda>p.
       HttpOk 200 (map (mk_trade_lead_out t) (list_trade_leads k f limit offset t), count_trade_leads k f t)))"

definition api_get_registration ::
    "user http \<Rightarrow> string \<Rightarrow> trade_lead table \<Rightarrow> (string \<times> trade_lead_out list) http" where
  "api_get_registration caller reg t = http_then (require_role TRADE_ROLES caller) (\<lambda>u.
     let ls = list_by_registration t reg in
     if ls = [] then HttpError 404 ''Registration not found''
     else HttpOk 200 (reg, map (mk_trade_lead_out t) ls))"

text \<open>\<open>sign\<close> is the presigned URL of a stored object.\<close>

definition api_list_registration_documents ::
    "object_store \<Rightarrow> (string \<Rightarrow> string \<Rightarrow> string) \<Rightarrow> user http \<Rightarrow> string \<Rightarrow> trade_document table
      \<Rightarrow> (trade_document \<times> string option) list http" where
  "api_list_registration_documents os sign caller reg docs = http_then (require_role TRADE_ROLES caller) (\<lambda>u.
     HttpOk 200 (map (\<lambda>d. (d, if os_configured os then Some (sign (td_storage_key d) (td_file_name d)) else None))
       (list_documents docs reg)))"

definition api_get_participant :: "user http \<Rightarrow> int \<Rightarrow> trade_lead table \<Rightarrow> trade_lead_out http" where
  "api_get_participant caller k t = http_then (require_role TRADE_ROLES caller) (\<lambda>u.
     case get_trade_lead t k of None \<Rightarrow> HttpError 404 ''Participant not found''
     | Some l \<Rightarrow> HttpOk 200 (mk_trade_lead_out t l))"

definition api_review_participant ::
    "time \<Rightarrow> user http \<Rightarrow> int \<Rightarrow> string \<Rightarrow> trade_lead table \<Rightarrow> trade_lead_out http \<times> trade_lead table" where
  "api_review_participant now caller k st t =
     (case require_role [''admin'', ''superadmin''] caller of
        HttpError n m \<Rightarrow> (HttpError n m, t)
      | HttpOk n u \<Rightarrow>
          (case List.find (\<lambda>r. review_name r = st) [ReviewApproved, ReviewRejected] of
             None \<Rightarrow> (HttpError 422 ''Unprocessable'', t)
           | Some r \<Rightarrow>
               (case get_trade_lead t k of
                  None \<Rightarrow> (HttpError 404 ''Participant not found'', t)
                | Some l \<Rightarrow> (let l' = set_review now r (Some (us_email u)) l; t' = save_trade_lead l' t
                    in (HttpOk 200 (mk_trade_lead_out t' l'), t')))))"

definition api_resync_participants ::
    "time \<Rightarrow> settings \<Rightarrow> crm_upsert \<Rightarrow> user http \<Rightarrow> int \<Rightarrow> trade_program table
      \<Rightarrow> trade_lead table \<times> contact_payload list
      \<Rightarrow> (trade_program \<times> program_stats) http \<times> trade_lead table \<times> contact_payload list" where
  "api_resync_participants now cfg upsert caller k programs w =
     (case http_then (require_role [''admin'', ''superadmin''] caller) (\<lambda>u. require_program programs k) of
        HttpError n m \<Rightarrow> (HttpError n m, w)
      | HttpOk n p \<Rightarrow> (case sync_pending_trade now cfg upsert 200 programs w of
          (n, w') \<Rightarrow> (HttpOk 200 (p, stats_of_program (fst w') k), w')))"

end
