(* ===== verification/Trade_Safety.thy ===== *)
theory Trade_Safety
  imports Trade Campaign_Safety
begin

section \<open>What the trade component guarantees\<close>

text \<open>
  The participants' table keeps its keys and its partial unique index; registering again is
  idempotent; the ways a registration is lost; the approval gate of the CRM push; and the
  eligibility rollup.
\<close>

interpretation trade_repo: repository tl_id get_trade_lead "tbl_insert set_tl_id" save_trade_lead "ok_table tl_id"
  unfolding get_trade_lead_def [abs_def] save_trade_lead_def [abs_def]
  by (rule table_repository) (simp add: set_tl_id_def)

interpretation program_repo: repository tp_id get_program "tbl_insert (\<lambda>k p. p\<lparr>tp_id := k\<rparr>)" "tbl_update tp_id" "ok_table tp_id"
  unfolding get_program_def [abs_def] by (rule table_repository) simp

interpretation document_repo: repository td_id "tbl_get td_id" "tbl_insert set_td_id" "tbl_update td_id" "ok_table td_id"
  by (rule table_repository) (simp add: set_td_id_def)

definition unique_emails :: "trade_lead table \<Rightarrow> bool" where
  "unique_emails t \<longleftrightarrow> (\<forall>l \<in> set (rows t). \<not> email_taken t l)"

definition ok_trade :: "trade_lead table \<Rightarrow> bool" where
  "ok_trade t \<longleftrightarrow> ok_table tl_id t \<and> unique_emails t"

lemma email_taken_iff: "email_taken t l \<longleftrightarrow> tl_email l \<noteq> [] \<and> (\<exists>x \<in> set (rows t). tl_id x \<noteq> tl_id l \<and>
    tl_trade_program_id x = tl_trade_program_id l \<and> tl_email x = tl_email l)"
  by (auto simp: email_taken_def list_ex_iff)

lemma bound_Some:
  assumes "bound bind l = Some b"
  obtains shared phone job where "b = l\<lparr>tl_shared := shared, tl_phone := phone, tl_job_title := job\<rparr>"
    and "those (map (\<lambda>(k, v). map_option (Pair k) (bind k v)) (tl_shared l)) = Some shared"
    and "bind ''phone'' (tl_phone l) = Some phone" and "bind ''job_title'' (tl_job_title l) = Some job"
  using assms by (auto simp: bound_def split: option.splits)

lemma bound_fields:
  "bound bind l = Some b \<Longrightarrow> tl_id b = tl_id l \<and> tl_trade_program_id b = tl_trade_program_id l \<and>
    tl_registration_id b = tl_registration_id l \<and> tl_participant_index b = tl_participant_index l \<and>
    tl_is_primary b = tl_is_primary l \<and> tl_email b = tl_email l \<and> tl_company b = tl_company l \<and>
    tl_crm_sync_status b = tl_crm_sync_status l \<and> tl_first_name b = tl_first_name l \<and>
    tl_last_name b = tl_last_name l \<and> tl_review_status b = tl_review_status l"
  by (erule bound_Some) simp

lemma ok_trade_row: "ok_trade t \<Longrightarrow> l \<in> set (rows t) \<Longrightarrow> \<exists>k. tl_id l = Some k \<and> get_trade_lead t k = Some l"
  using tbl_get_in [of tl_id t l] by (auto simp: ok_trade_def ok_table_def wf_table_def get_trade_lead_def)

lemma ok_trade_inj: "ok_trade t \<Longrightarrow> x \<in> set (rows t) \<Longrightarrow> y \<in> set (rows t) \<Longrightarrow> tl_id x = tl_id y \<Longrightarrow> x = y"
  by (auto simp: ok_trade_def ok_table_def wf_table_def distinct_map dest: inj_onD)

lemma ok_trade_unique: "ok_trade t \<Longrightarrow> x \<in> set (rows t) \<Longrightarrow> y \<in> set (rows t) \<Longrightarrow> tl_email x = tl_email y \<Longrightarrow>
    tl_email y \<noteq> [] \<Longrightarrow> tl_trade_program_id x = tl_trade_program_id y \<Longrightarrow> tl_id x = tl_id y"
  by (auto simp: ok_trade_def unique_emails_def email_taken_iff)

lemma create_trade_lead_Inr:
  assumes "ok_trade t" and "create_trade_lead now bind l t = Inr (l', t')" and "tl_id l = None"
  obtains b where "ok_trade t'" and "rows t' = rows t @ [l']" and "bound bind l = Some b"
    and "l' = b\<lparr>tl_created_at := now, tl_id := Some (next_id t)\<rparr>" and "next_id t' = next_id t + 1"
proof -
  from assms(2) obtain b where b: "bound bind l = Some b" "\<not> email_taken t b"
    and ins: "tbl_insert set_tl_id (b\<lparr>tl_created_at := now\<rparr>) t = (l', t')"
    by (auto simp: create_trade_lead_def split: option.splits if_splits)
  let ?b = "b\<lparr>tl_created_at := now\<rparr>"
  have l': "l' = b\<lparr>tl_created_at := now, tl_id := Some (next_id t)\<rparr>"
    using arg_cong [OF ins, of fst] by (simp add: set_tl_id_def)
  have t': "t' = snd (tbl_insert set_tl_id ?b t)" by (simp add: ins)
  have rows: "rows t' = rows t @ [l']" by (simp add: t' l' set_tl_id_def)
  have fresh: "tl_id x \<noteq> Some (next_id t)" if "x \<in> set (rows t)" for x
    using assms(1) that by (force simp: ok_trade_def ok_table_def wf_table_def)
  have idb: "tl_id b = None" using bound_fields [OF b(1)] assms(3) by simp
  have "ok_table tl_id t'"
    unfolding t' using assms(1) by (intro ok_tbl_insert) (auto simp: ok_trade_def set_tl_id_def)
  moreover have "unique_emails t'"
    unfolding unique_emails_def
  proof
    fix x assume x: "x \<in> set (rows t')"
    have others: "tl_email y \<noteq> tl_email b \<or> tl_trade_program_id y \<noteq> tl_trade_program_id b \<or> tl_email b = []"
      if "y \<in> set (rows t)" for y
      using b(2) that idb assms(1) by (fastforce simp: email_taken_iff ok_trade_def ok_table_def wf_table_def)
    show "\<not> email_taken t' x"
    proof (cases "x = l'")
      case True
      then show ?thesis using others by (auto simp: email_taken_iff rows l')
    next
      case False
      with x rows have "x \<in> set (rows t)" by simp
      with assms(1) others [of x] show ?thesis
        by (auto simp: email_taken_iff rows l' ok_trade_def unique_emails_def)
    qed
  qed
  ultimately have "ok_trade t'" by (simp add: ok_trade_def)
  then show thesis using that [OF _ rows b(1) l'] by (simp add: t')
qed

lemma ok_trade_update:
  assumes "ok_trade t" and "\<not> email_taken t l"
  shows "ok_trade (tbl_update tl_id l t)"
proof -
  have "unique_emails (tbl_update tl_id l t)"
    using assms by (auto simp: unique_emails_def ok_trade_def email_taken_iff split: if_splits)
  with assms(1) show ?thesis by (simp add: ok_trade_def ok_tbl_update)
qed

lemma tbl_update_same:
  assumes "ok_trade t" and "l \<in> set (rows t)"
  shows "tbl_update tl_id l t = t"
proof -
  have "map (\<lambda>x. if tl_id x = tl_id l then l else x) (rows t) = rows t"
    using ok_trade_inj [OF assms(1) _ assms(2)] by (intro map_idI) auto
  then show ?thesis by (simp add: tbl_update_def)
qed

lemma update_trade_lead_same:
  "ok_trade t \<Longrightarrow> l \<in> set (rows t) \<Longrightarrow> bound bind l0 = Some l \<Longrightarrow> update_trade_lead bind l0 t = Inr (l, t)"
  by (simp add: update_trade_lead_def tbl_update_same) (simp add: ok_trade_def unique_emails_def)

lemma get_by_program_email_in:
  assumes "ok_trade t" and "l \<in> set (rows t)" and "tl_email l \<noteq> []"
  shows "get_by_program_email t (tl_trade_program_id l) (tl_email l) = Some l"
proof (cases "get_by_program_email t (tl_trade_program_id l) (tl_email l)")
  case None
  with assms show ?thesis by (auto simp: get_by_program_email_def find_None_all)
next
  case (Some m)
  then have "m \<in> set (rows t)" "tl_trade_program_id m = tl_trade_program_id l" "tl_email m = tl_email l"
    using assms(3) find_Some_in [of "\<lambda>x. tl_trade_program_id x = tl_trade_program_id l \<and> tl_email x = tl_email l" "rows t" m]
    by (simp_all add: get_by_program_email_def)
  with assms have "tl_id m = tl_id l" by (auto simp: ok_trade_def unique_emails_def email_taken_iff)
  with Some ok_trade_inj [OF assms(1) \<open>m \<in> _\<close> assms(2)] show ?thesis by simp
qed

subsection \<open>Registering, and registering again\<close>

lemma bound_again:
  assumes "bound bind l = Some b" and "tl_shared m = tl_shared l" and "tl_phone m = tl_phone l"
    and "tl_job_title m = tl_job_title l"
  shows "bound bind m = Some (m\<lparr>tl_shared := tl_shared b, tl_phone := tl_phone b, tl_job_title := tl_job_title b\<rparr>)"
  using assms by (auto simp: bound_def split: option.splits)

lemma rebound_primary:
  assumes "bound bind (apply_registration p q l0) = Some b"
  shows "bound bind (apply_registration p q (b\<lparr>tl_created_at := c, tl_id := k\<rparr>)) = Some (b\<lparr>tl_created_at := c, tl_id := k\<rparr>)"
  using bound_again [OF assms, of "apply_registration p q (b\<lparr>tl_created_at := c, tl_id := k\<rparr>)"] assms
  by (auto elim!: bound_Some simp: apply_registration_def)

lemma rebound_second:
  assumes "bound bind ((apply_second q sk tags l0)\<lparr>tl_source := src\<rparr>) = Some b"
  shows "bound bind (apply_second q sk tags (b\<lparr>tl_created_at := c, tl_id := k\<rparr>)) = Some (b\<lparr>tl_created_at := c, tl_id := k\<rparr>)"
  using bound_again [OF assms, of "apply_second q sk tags (b\<lparr>tl_created_at := c, tl_id := k\<rparr>)"] assms
  by (auto elim!: bound_Some simp: apply_second_def)

lemma list_by_registration_one:
  assumes "filter (\<lambda>l. tl_registration_id l = reg) (rows t) = [l]"
  shows "list_by_registration t reg = [l]"
  using assms by (simp add: list_by_registration_def)

lemma list_by_registration_two:
  assumes "filter (\<lambda>l. tl_registration_id l = reg) (rows t) = [a, b]"
    and "tl_participant_index a = 1" and "tl_participant_index b = 2"
  shows "list_by_registration t reg = [a, b]"
  using assms by (simp add: list_by_registration_def)

text \<open>A registration as capture leaves it: a primary row and at most one other.\<close>

definition settled_reg :: "db_bind \<Rightarrow> trade_program \<Rightarrow> registration_request \<Rightarrow> trade_lead list \<Rightarrow> trade_lead table \<Rightarrow> bool" where
  "settled_reg bind p q ls t \<longleftrightarrow> ok_trade t \<and> (\<exists>l. tl_email l = norm_email (rq_email q) \<and>
     tl_trade_program_id l = default (tp_id p) 0 \<and> tl_is_primary l \<and> bound bind (apply_registration p q l) = Some l \<and>
     ((second_participant_from_responses (rq_responses q) (norm_email (rq_email q)) = Inr None \<and> ls = [l] \<and> l \<in> set (rows t)) \<or>
      (\<exists>s sk. second_participant_from_responses (rq_responses q) (norm_email (rq_email q)) = Inr (Some sk) \<and> ls = [l, s] \<and>
        \<not> tl_is_primary s \<and> tl_id s \<noteq> tl_id l \<and> bound bind (apply_second q sk (second_tags l) s) = Some s \<and>
        list_by_registration t (tl_registration_id l) = [l, s])))"

lemma in_registration: "l \<in> set (list_by_registration t reg) \<longleftrightarrow> l \<in> set (rows t) \<and> tl_registration_id l = reg"
  by (simp add: list_by_registration_def)

lemma mem_registration: "l \<in> set (list_by_registration t reg) \<Longrightarrow> l \<in> set (rows t)"
  by (simp add: list_by_registration_def)

lemma settled_reg_again:
  assumes reg: "settled_reg bind p q ls t" and p: "get_program_by_slug programs slug = Some p" "tp_status p = CampaignActive"
    and e: "norm_email (rq_email q) \<noteq> []"
  shows "capture_registration now bind rival uuid programs slug q t = (Inr (p, ls, False), t)"
proof -
  obtain l where l: "tl_email l = norm_email (rq_email q)" "tl_trade_program_id l = default (tp_id p) 0" "tl_is_primary l"
      "bound bind (apply_registration p q l) = Some l" "ok_trade t" "l \<in> set (rows t)"
    and cases: "(second_participant_from_responses (rq_responses q) (norm_email (rq_email q)) = Inr None \<and> ls = [l]) \<or>
      (\<exists>s sk. second_participant_from_responses (rq_responses q) (norm_email (rq_email q)) = Inr (Some sk) \<and> ls = [l, s] \<and>
        \<not> tl_is_primary s \<and> tl_id s \<noteq> tl_id l \<and> bound bind (apply_second q sk (second_tags l) s) = Some s \<and>
        list_by_registration t (tl_registration_id l) = [l, s])"
    using reg mem_registration unfolding settled_reg_def by (metis list.set_intros(1))
  have "get_by_program_email t (default (tp_id p) 0) (norm_email (rq_email q)) = Some l"
    using get_by_program_email_in [OF l(5,6)] l(1,2) e by simp
  with update_trade_lead_same [OF l(5,6,4)]
  have prim: "store_primary now bind rival uuid p q t = (Inr (l, False), t)" by (simp add: store_primary_def)
  from cases have "store_second now bind p q l t = (Inr ls, t)"
  proof (elim disjE exE conjE)
    fix s sk
    assume s: "second_participant_from_responses (rq_responses q) (norm_email (rq_email q)) = Inr (Some sk)" "ls = [l, s]"
      "\<not> tl_is_primary s" "tl_id s \<noteq> tl_id l" "bound bind (apply_second q sk (second_tags l) s) = Some s"
      "list_by_registration t (tl_registration_id l) = [l, s]"
    then have "s \<in> set (rows t)" using mem_registration [of s t "tl_registration_id l"] by simp
    with s l(3) update_trade_lead_same [OF l(5) _ s(5)] show ?thesis by (simp add: store_second_def Let_def)
  qed (simp add: store_second_def)
  with prim p show ?thesis by (simp add: capture_registration_def)
qed

lemma new_registration:
  assumes ok: "ok_trade (rival t)" and fresh: "\<forall>l \<in> set (rows (rival t)). tl_registration_id l \<noteq> uuid"
    and cap: "capture_registration now bind rival uuid programs slug q t = (Inr (p, ls, True), t')"
  shows "settled_reg bind p q ls t'" and "rows t' = rows (rival t) @ ls"
    and "get_program_by_slug programs slug = Some p" and "tp_status p = CampaignActive"
    and "list_all (\<lambda>l. tl_registration_id l = uuid \<and> tl_crm_sync_status l = CrmPending) ls"
    and "tl_email (hd ls) = norm_email (rq_email q)"
proof -
  let ?l0 = "apply_registration p q (new_trade_lead (default (tp_id p) 0) uuid 1 True (norm_email (rq_email q)))"
  from cap obtain primary t1 where p: "get_program_by_slug programs slug = Some p" "tp_status p = CampaignActive"
    and prim: "store_primary now bind rival uuid p q t = (Inr (primary, True), t1)"
    and sec: "store_second now bind p q primary t1 = (Inr ls, t')"
    by (auto simp: capture_registration_def split: option.splits if_splits prod.splits sum.splits)
  from prim have cr: "create_trade_lead now bind ?l0 (rival t) = Inr (primary, t1)"
    by (auto simp: store_primary_def Let_def split: option.splits sum.splits prod.splits trade_error.splits)
  have "tl_id ?l0 = None" by (simp add: apply_registration_def new_trade_lead_def)
  from create_trade_lead_Inr [OF ok cr this] obtain b where t1: "ok_trade t1" "rows t1 = rows (rival t) @ [primary]"
    and b: "bound bind ?l0 = Some b" "primary = b\<lparr>tl_created_at := now, tl_id := Some (next_id (rival t))\<rparr>"
      "next_id t1 = next_id (rival t) + 1" by blast
  have pf: "tl_registration_id primary = uuid" "tl_is_primary primary" "tl_email primary = norm_email (rq_email q)"
      "tl_trade_program_id primary = default (tp_id p) 0" "tl_participant_index primary = 1"
      "tl_crm_sync_status primary = CrmPending" "tl_id primary = Some (next_id (rival t))"
    using bound_fields [OF b(1)] by (simp_all add: b(2) apply_registration_def new_trade_lead_def)
  have again: "bound bind (apply_registration p q primary) = Some primary"
    unfolding b(2) by (rule rebound_primary [OF b(1)])
  have "filter (\<lambda>l. tl_registration_id l = uuid) (rows (rival t)) = []" using fresh by (simp add: filter_empty_conv)
  then have here: "filter (\<lambda>l. tl_registration_id l = uuid) (rows t1) = [primary]" by (simp add: t1(2) pf(1))
  show "get_program_by_slug programs slug = Some p" and "tp_status p = CampaignActive" by (fact p)+
  have "settled_reg bind p q ls t' \<and> rows t' = rows (rival t) @ ls \<and>
      list_all (\<lambda>l. tl_registration_id l = uuid \<and> tl_crm_sync_status l = CrmPending) ls \<and> tl_email (hd ls) = norm_email (rq_email q)"
  proof (cases "second_participant_from_responses (rq_responses q) (norm_email (rq_email q))")
    case (Inl e)
    with sec show ?thesis by (simp add: store_second_def)
  next
    case (Inr k)
    show ?thesis
    proof (cases k)
      case None
      with Inr sec have "ls = [primary]" "t' = t1" by (simp_all add: store_second_def)
      with Inr None t1 pf again show ?thesis by (auto simp: settled_reg_def)
    next
      case (Some sk)
      let ?s0 = "(apply_second q sk (second_tags primary) (new_trade_lead (default (tp_id p) 0) uuid 2 False []))\<lparr>tl_source := rq_source q\<rparr>"
      from Inr Some sec list_by_registration_one [OF here] pf obtain s
        where cr2: "create_trade_lead now bind ?s0 t1 = Inr (s, t')"
          and ls: "ls = [if tl_id s = tl_id primary then s else primary, s]"
        by (auto simp: store_second_def Let_def split: sum.splits)
      have "tl_id ?s0 = None" by (simp add: apply_second_def new_trade_lead_def)
      from create_trade_lead_Inr [OF t1(1) cr2 this] obtain c where t': "ok_trade t'" "rows t' = rows t1 @ [s]"
        and c: "bound bind ?s0 = Some c" "s = c\<lparr>tl_created_at := now, tl_id := Some (next_id t1)\<rparr>" by blast
      have sf: "tl_registration_id s = uuid" "\<not> tl_is_primary s" "tl_participant_index s = 2"
          "tl_crm_sync_status s = CrmPending" "tl_id s \<noteq> tl_id primary"
        using bound_fields [OF c(1)] pf(7) b(3) by (simp_all add: c(2) apply_second_def new_trade_lead_def)
      have "bound bind (apply_second q sk (second_tags primary) s) = Some s"
        unfolding c(2) by (rule rebound_second [OF c(1)])
      moreover have "list_by_registration t' uuid = [primary, s]"
        using here pf sf by (intro list_by_registration_two) (simp_all add: t'(2))
      ultimately show ?thesis using Inr Some ls t' t1 pf sf again by (auto simp: settled_reg_def)
    qed
  qed
  then show "settled_reg bind p q ls t'" and "rows t' = rows (rival t) @ ls"
    and "list_all (\<lambda>l. tl_registration_id l = uuid \<and> tl_crm_sync_status l = CrmPending) ls"
    and "tl_email (hd ls) = norm_email (rq_email q)" by blast+
qed

text \<open>What the rows of a registration hold.\<close>

definition holds_registration :: "registration_request \<Rightarrow> trade_lead list \<Rightarrow> bool" where
  "holds_registration q ls \<longleftrightarrow> ls \<noteq> [] \<and>
     (let l = hd ls in tl_is_primary l \<and> tl_email l = norm_email (rq_email q) \<and>
        tl_first_name l = rq_first_name q \<and> tl_last_name l = rq_last_name q \<and> tl_company l = rq_company q) \<and>
     (case second_participant_from_responses (rq_responses q) (norm_email (rq_email q)) of
        Inl _ \<Rightarrow> False
      | Inr None \<Rightarrow> tl ls = []
      | Inr (Some sk) \<Rightarrow> (\<exists>s. tl ls = [s] \<and> \<not> tl_is_primary s \<and> tl_email s = sk_email sk \<and>
          tl_first_name s = sk_first_name sk \<and> tl_last_name s = sk_last_name sk \<and> tl_company s = rq_company q))"

lemma bound_registration:
  assumes "bound bind (apply_registration p q l) = Some l"
  shows "tl_first_name l = rq_first_name q" and "tl_last_name l = rq_last_name q" and "tl_company l = rq_company q"
  using bound_fields [OF assms] by (simp_all add: apply_registration_def)

lemma bound_second:
  assumes "bound bind (apply_second q sk tags s) = Some s"
  shows "tl_first_name s = sk_first_name sk" and "tl_last_name s = sk_last_name sk"
    and "tl_email s = sk_email sk" and "tl_company s = rq_company q"
  using bound_fields [OF assms] by (simp_all add: apply_second_def)

lemma settled_reg_holds: "settled_reg bind p q ls t \<Longrightarrow> holds_registration q ls"
  unfolding settled_reg_def holds_registration_def Let_def
  by (elim conjE exE disjE) (simp_all add: bound_registration bound_second)


definition accept_all :: db_bind where
  "accept_all k v = Some v"

lemma bound_accept_all [simp]: "bound accept_all l = Some l"
proof -
  have "those (map (\<lambda>(k, v). map_option (Pair k) (accept_all k v)) xs) = Some xs" for xs :: "json dict"
    by (induction xs) (auto simp: accept_all_def)
  then show ?thesis by (simp add: bound_def) (simp add: accept_all_def)
qed

definition witness_program :: trade_program where
  "witness_program = \<lparr>tp_id = Some 4, tp_slug = ''export'', tp_name = ''Export'', tp_kind = ''boot_camp'',
     tp_status = CampaignActive, tp_starts_on = None, tp_ends_on = None, tp_timezone = ''Africa/Lagos'',
     tp_config = \<lparr>pc_base_tags = [''Trade''], pc_required_documents =
         [\<lparr>rd_key = ''cac'', rd_label = Some ''CAC Certificate'', rd_required = True\<rparr>, \<lparr>rd_key = ''logo'', rd_label = None, rd_required = False\<rparr>],
       pc_application_confirmation = True, pc_lead_notification = Some ''t@x.ng'', pc_crm_sync_enabled = None,
       pc_require_admin_approval = True, pc_crm_lead_source_id = None\<rparr>,
     tp_created_at = 0, tp_updated_at = 0\<rparr>"

definition witness_programs :: "trade_program table" where
  "witness_programs = \<lparr>rows = [witness_program], next_id = 5\<rparr>"

definition witness_registration :: registration_request where
  "witness_registration = \<lparr>rq_first_name = ''Ada'', rq_last_name = ''Obi'', rq_email = ''Ada@x.ng'', rq_phone = None,
     rq_company = Some ''Obi Ltd'', rq_job_title = None, rq_source = ''form'', rq_captured_at = None, rq_responses = []\<rparr>"

lemma witness_program_found:
  "get_program_by_slug witness_programs ''export'' = Some witness_program" "tp_status witness_program = CampaignActive"
  by (simp_all add: get_program_by_slug_def witness_programs_def witness_program_def)

lemma witness_slug: "py_strip ''export'' = ''export''"
  by (simp add: py_strip_def is_space_def)

lemma witness_valid: "valid_registration (\<lambda>_. True) witness_registration"
  by (simp add: valid_registration_def witness_registration_def chars_between_def when_given_def)

lemma witness_no_second: "second_participant_from_responses (rq_responses witness_registration) e = Inr None"
  by (simp add: second_participant_from_responses_def witness_registration_def second_object_def json_get_def stripped_def)

lemma witness_norm: "norm_email (rq_email witness_registration) \<noteq> []"
  by (simp add: norm_email_def py_lower_def py_strip_def is_space_def witness_registration_def)

lemma ok_empty_trade: "ok_trade empty_table"
  by (simp add: ok_trade_def unique_emails_def) (simp add: empty_table_def)

lemma witness_new_registration:
  "\<exists>l t. capture_registration now accept_all (\<lambda>t. t) uuid witness_programs ''export'' witness_registration empty_table
     = (Inr (witness_program, [l], True), t)"
  by (simp add: capture_registration_def witness_program_found store_primary_def store_second_def witness_no_second
      get_by_program_email_def empty_table_def create_trade_lead_def email_taken_def Let_def tbl_insert_def)


subsection \<open>How a registration is lost\<close>

text \<open>
  The lookup by e-mail finds second participants too. A person who is the second participant
  of another company and now registers a company of their own, with a colleague, is taken for
  a retry.
\<close>

lemma sort_key_map: "(\<And>y. k (f y) = k y) \<Longrightarrow> sort_key k (map f ys) = map f (sort_key k ys)"
proof -
  assume f: "\<And>y. k (f y) = k y"
  have "insort_key k (f y) (map f zs) = map f (insort_key k y zs)" for y zs
    by (induction zs) (simp_all add: f)
  then show ?thesis by (induction ys) simp_all
qed

lemma list_by_registration_update:
  assumes "ok_trade t" and "s \<in> set (rows t)" and "tl_id x = tl_id s" and "tl_registration_id x = tl_registration_id s"
    and "tl_participant_index x = tl_participant_index s"
  shows "list_by_registration (tbl_update tl_id x t) reg = map (\<lambda>y. if y = s then x else y) (list_by_registration t reg)"
proof -
  let ?f = "\<lambda>y. if y = s then x else y"
  have "rows (tbl_update tl_id x t) = map ?f (rows t)"
    using ok_trade_inj [OF assms(1) _ assms(2)] assms(3) by (auto intro!: map_cong)
  moreover have "filter (\<lambda>l. tl_registration_id l = reg) (map ?f ys) = map ?f (filter (\<lambda>l. tl_registration_id l = reg) ys)" for ys
    using assms(4) by (induction ys) simp_all
  moreover have "sort_key tl_participant_index (map ?f ys) = map ?f (sort_key tl_participant_index ys)" for ys
    using assms(5) by (intro sort_key_map) simp
  ultimately show ?thesis by (simp only: list_by_registration_def)
qed

text \<open>C21: let the second participant of an earlier registration in an active program register a
  company of their own, naming a second participant of theirs (whose e-mail is empty or free in
  the program), with values the database takes. Capture takes this for a retry of that earlier
  registration: it answers with the same row twice and as not new, overwrites that participant's
  row with the new submission and then again with the new second participant, adds no row, and
  the person who registered is in the program's table no more.\<close>

theorem second_participant_cannot_register:
  assumes ok: "ok_trade t" and earlier: "list_by_registration t reg = [a, s]" "tl_is_primary a" "\<not> tl_is_primary s"
    and same: "tl_trade_program_id s = default (tp_id p) 0" "tl_email s = norm_email (rq_email q)" "tl_email s \<noteq> []"
    and p: "get_program_by_slug programs slug = Some p" "tp_status p = CampaignActive"
    and second: "second_participant_from_responses (rq_responses q) (norm_email (rq_email q)) = Inr (Some sk)"
    and binds: "\<And>l. bound bind l = Some l" and free: "\<not> email_taken t (s\<lparr>tl_email := sk_email sk\<rparr>)"
  shows "\<exists>s' t'. capture_registration now bind rival uuid programs slug q t = (Inr (p, [s', s'], False), t') \<and>
    map tl_id (rows t') = map tl_id (rows t) \<and> list_by_registration t' reg = [a, s'] \<and>
    tl_company s' = rq_company q \<and> tl_email s' = sk_email sk \<and>
    get_by_program_email t' (default (tp_id p) 0) (norm_email (rq_email q)) = None"
proof -
  let ?e = "norm_email (rq_email q)" and ?r = "apply_registration p q s"
  let ?s = "apply_second q sk (second_tags ?r) ?r"
  let ?t1 = "tbl_update tl_id ?r t" and ?t2 = "tbl_update tl_id ?s (tbl_update tl_id ?r t)"
  have reg: "tl_registration_id s = reg" "s \<in> set (rows t)" "a \<in> set (rows t)" "tl_registration_id a = reg"
    using in_registration [of s t reg] in_registration [of a t reg] earlier(1) by simp_all
  have ids: "tl_id ?r = tl_id s" "tl_id ?s = tl_id s"
    by (simp_all add: apply_registration_def apply_second_def)
  have "a \<noteq> s" using earlier by auto
  then have as: "tl_id a \<noteq> tl_id s" using ok_trade_inj [OF ok reg(3,2)] by blast
  have "get_by_program_email t (default (tp_id p) 0) ?e = Some s"
    using get_by_program_email_in [OF ok reg(2)] same by simp
  moreover have "\<not> email_taken t ?r"
    using ok_trade_unique [OF ok _ reg(2)] same by (auto simp: email_taken_iff apply_registration_def)
  ultimately have prim: "store_primary now bind rival uuid p q t = (Inr (?r, False), ?t1)"
    by (simp add: store_primary_def update_trade_lead_def binds)
  have swap: "list_by_registration (tbl_update tl_id x t) reg = [a, x]"
    if "tl_id x = tl_id s" "tl_registration_id x = tl_registration_id s" "tl_participant_index x = tl_participant_index s" for x
    using list_by_registration_update [OF ok reg(2) that, of reg] earlier(1) \<open>a \<noteq> s\<close> by simp
  have two: "?t2 = tbl_update tl_id ?s t"
    by (simp add: tbl_update_def ids comp_def cong: if_cong)
  have r: "list_by_registration ?t1 (tl_registration_id ?r) = [a, ?r]"
    using swap [OF ids(1)] reg by (simp add: apply_registration_def)
  have s': "list_by_registration ?t2 reg = [a, ?s]"
    unfolding two using swap [OF ids(2)] reg by (simp add: apply_registration_def apply_second_def)
  have "\<not> email_taken ?t1 ?s"
    using free ids by (auto simp: email_taken_iff apply_second_def apply_registration_def same(1) split: if_splits)
  then have "store_second now bind p q ?r ?t1 = (Inr [?s, ?s], ?t2)"
    using second r earlier(2,3) ids
    by (simp add: store_second_def Let_def update_trade_lead_def binds) (simp add: apply_registration_def)
  moreover have "get_by_program_email ?t2 (default (tp_id p) 0) ?e = None"
  proof -
    have sk: "sk_email sk \<noteq> ?e" if "?e \<noteq> []"
      using second that by (auto simp: second_participant_from_responses_def rbind_eq_Inr_iff Let_def split: if_splits)
    have "\<not> (tl_trade_program_id y = default (tp_id p) 0 \<and> tl_email y = ?e)" if y: "y \<in> set (rows ?t2)" for y
    proof (cases "y = ?s")
      case True
      with sk same show ?thesis by (simp add: apply_second_def)
    next
      case False
      with y have "y \<in> set (rows t)" "tl_id y \<noteq> tl_id s" unfolding two by (auto simp: ids split: if_splits)
      with ok_trade_unique [OF ok _ reg(2), of y] same show ?thesis by auto
    qed
    then show ?thesis by (simp add: get_by_program_email_def find_None_all)
  qed
  moreover have "map tl_id (rows ?t2) = map tl_id (rows t)" by (simp add: map_key_tbl_update del: rows_tbl_update)
  ultimately show ?thesis
    using p prim s' by (intro exI [of _ ?s] exI [of _ ?t2]) (simp add: capture_registration_def apply_second_def)
qed

text \<open>An answer whose \<open>second_participant\<close> is no object, or holds a name or e-mail that is no
  string, is answered 500 after the primary's row is committed; no confirmation is ever sent
  for it, then or on any retry.\<close>

theorem malformed_second_participant_is_never_confirmed:
  assumes "valid_registration valid_email q" and "get_program_by_slug programs (py_strip slug) = Some p"
    and "tp_status p = CampaignActive"
    and "second_participant_from_responses (rq_responses q) (norm_email (rq_email q)) = Inl e"
  shows "\<exists>m. api_register valid_email now cfg post bind rival uuid programs slug q w =
    (HttpError 500 m, snd (store_primary now bind rival uuid p q (fst w)), snd w)"
proof -
  obtain r t1 where prim: "store_primary now bind rival uuid p q (fst w) = (r, t1)" by (cases "store_primary now bind rival uuid p q (fst w)")
  have "r \<noteq> Inl ProgramNotFoundError \<and> r \<noteq> Inl ProgramInactiveError"
    using prim by (auto simp: store_primary_def update_trade_lead_def create_trade_lead_def Let_def
        split: option.splits if_splits sum.splits prod.splits)
  then obtain err where "capture_registration now bind rival uuid programs (py_strip slug) q (fst w) = (Inl err, t1)"
      "err \<noteq> ProgramNotFoundError" "err \<noteq> ProgramInactiveError"
    using prim assms(2-4) by (cases r) (auto simp: capture_registration_def store_second_def)
  with assms(1) prim show ?thesis
    by (cases err) (simp_all add: api_register_def)
qed

text \<open>A lost race for the first row of an e-mail is a 500, not a merge.\<close>

lemma registration_race_fails:
  assumes "get_program_by_slug programs slug = Some p" and "tp_status p = CampaignActive"
    and "get_by_program_email t (default (tp_id p) 0) (norm_email (rq_email q)) = None"
    and "get_by_program_email (rival t) (default (tp_id p) 0) (norm_email (rq_email q)) = Some l" and "tl_id l \<noteq> None"
    and "\<And>l. bound bind l = Some l"
  shows "capture_registration now bind rival uuid programs slug q t = (Inl MissingGreenlet, rival t)"
proof -
  let ?n = "apply_registration p q (new_trade_lead (default (tp_id p) 0) uuid 1 True (norm_email (rq_email q)))"
  have "norm_email (rq_email q) \<noteq> []" and "l \<in> set (rows (rival t))" and "tl_trade_program_id l = default (tp_id p) 0"
    and "tl_email l = norm_email (rq_email q)"
    using assms(4) find_Some_in [of _ "rows (rival t)" l] by (auto simp: get_by_program_email_def split: if_splits)
  with assms(5) have "email_taken (rival t) ?n"
    by (auto simp: email_taken_iff apply_registration_def new_trade_lead_def)
  with assms show ?thesis by (simp add: capture_registration_def store_primary_def create_trade_lead_def)
qed

definition witness_earlier :: "trade_lead table" where
  "witness_earlier = \<lparr>rows = [(new_trade_lead 4 ''r1'' 1 True ''boss@y.ng'')\<lparr>tl_id := Some 1\<rparr>,
     (new_trade_lead 4 ''r1'' 2 False ''ada@x.ng'')\<lparr>tl_id := Some 2\<rparr>], next_id = 3\<rparr>"

definition witness_pair :: registration_request where
  "witness_pair = witness_registration\<lparr>rq_responses := [(''second_participant'', JObj [(''first_name'', JStr ''Chi'')])]\<rparr>"

lemma witness_pair_second: "second_participant_from_responses (rq_responses witness_pair) (norm_email (rq_email witness_pair)) =
    Inr (Some \<lparr>sk_first_name = ''Chi'', sk_last_name = em_dash, sk_email = [], sk_phone = JNull, sk_job_title = JNull,
      sk_responses = [(''first_name'', JStr ''Chi'')]\<rparr>)"
  by (simp add: second_participant_from_responses_def witness_pair_def second_object_def json_get_def stripped_def
      py_strip_def is_space_def non_empty_or_def py_lower_def)

lemma ok_witness_earlier: "ok_trade witness_earlier"
  by (simp add: ok_trade_def unique_emails_def email_taken_iff witness_earlier_def ok_table_def wf_table_def new_trade_lead_def)

theorem second_participant_cannot_register_witness:
  "\<exists>s' t'. capture_registration 9 accept_all (\<lambda>t. t) ''r2'' witness_programs ''export'' witness_pair witness_earlier
      = (Inr (witness_program, [s', s'], False), t') \<and>
    get_by_program_email t' 4 ''ada@x.ng'' = None"
proof -
  let ?a = "(new_trade_lead 4 ''r1'' 1 True ''boss@y.ng'')\<lparr>tl_id := Some 1\<rparr>"
  let ?s = "(new_trade_lead 4 ''r1'' 2 False ''ada@x.ng'')\<lparr>tl_id := Some 2\<rparr>"
  have l: "list_by_registration witness_earlier ''r1'' = [?a, ?s]"
    by (simp add: list_by_registration_def witness_earlier_def new_trade_lead_def)
  have e: "norm_email (rq_email witness_pair) = ''ada@x.ng''"
    by code_simp
  have s: "tl_is_primary ?a" "\<not> tl_is_primary ?s" "tl_trade_program_id ?s = default (tp_id witness_program) 0"
      "tl_email ?s = norm_email (rq_email witness_pair)" "tl_email ?s \<noteq> []"
    by (simp_all add: new_trade_lead_def witness_program_def e)
  have f: "\<not> email_taken witness_earlier (?s\<lparr>tl_email := sk_email \<lparr>sk_first_name = ''Chi'', sk_last_name = em_dash, sk_email = [],
      sk_phone = JNull, sk_job_title = JNull, sk_responses = [(''first_name'', JStr ''Chi'')]\<rparr>\<rparr>)"
    by (simp add: email_taken_iff)
  from second_participant_cannot_register [OF ok_witness_earlier l s witness_program_found witness_pair_second
      bound_accept_all f, of 9 "\<lambda>t. t" "''r2''"] e
  show ?thesis by (auto simp: witness_program_def)
qed

theorem malformed_second_participant_is_never_confirmed_witness:
  "\<exists>m. api_register (\<lambda>_. True) 9 witness_settings (\<lambda>_ _. True) accept_all (\<lambda>t. t) ''r1'' witness_programs ''export''
      (witness_registration\<lparr>rq_responses := [(''second_participant'', JStr ''Chi'')]\<rparr>) (empty_table, []) =
    (HttpError 500 m, snd (store_primary 9 accept_all (\<lambda>t. t) ''r1'' witness_program
      (witness_registration\<lparr>rq_responses := [(''second_participant'', JStr ''Chi'')]\<rparr>) empty_table), [])"
proof -
  let ?q = "witness_registration\<lparr>rq_responses := [(''second_participant'', JStr ''Chi'')]\<rparr>"
  have v: "valid_registration (\<lambda>_. True) ?q" using witness_valid by (simp add: valid_registration_def)
  have p: "get_program_by_slug witness_programs (py_strip ''export'') = Some witness_program" "tp_status witness_program = CampaignActive"
    using witness_program_found witness_slug by simp_all
  have e: "second_participant_from_responses (rq_responses ?q) (norm_email (rq_email ?q)) = Inl AttributeError"
    by (simp add: second_participant_from_responses_def second_object_def json_get_def)
  from malformed_second_participant_is_never_confirmed [OF v p e, where w = "(empty_table, [])"] show ?thesis by simp
qed

subsection \<open>The approval gate\<close>

lemma sync_trade_lead_row:
  assumes "sync_trade_lead now cfg upsert p l w = (l', w')"
  shows "fst w' = save_trade_lead l' (fst w)" and "tl_id l' = tl_id l" and "tl_trade_program_id l' = tl_trade_program_id l"
    and "tl_email l' = tl_email l" and "tl_review_status l' = tl_review_status l"
  using assms by (auto simp: sync_trade_lead_def record_trade_outcome_def Let_def
      split: if_splits sum.splits prod.splits)

lemma get_trade_lead_held: "get_trade_lead t k = Some l \<Longrightarrow> l \<in> set (rows t) \<and> tl_id l = Some k"
  using tbl_get_Some [of tl_id t k l] by (simp add: get_trade_lead_def)

lemma ok_trade_save:
  assumes "ok_trade t" and "l \<in> set (rows t)" and "tl_id l' = tl_id l" and "tl_trade_program_id l' = tl_trade_program_id l"
    and "tl_email l' = tl_email l"
  shows "ok_trade (save_trade_lead l' t)"
proof -
  have "\<not> email_taken t l'" using assms ok_trade_unique [OF assms(1) _ assms(2)] by (auto simp: email_taken_iff)
  from ok_trade_update [OF assms(1) this] show ?thesis by (simp add: save_trade_lead_def)
qed

interpretation trade_queue: item_queue tl_id "\<lambda>w :: trade_lead table \<times> contact_payload list. get_trade_lead (fst w)"
  "\<lambda>w. ok_trade (fst w)" "\<lambda>l p w. case sync_trade_lead now cfg upsert p l w of (l', w') \<Rightarrow> (Inr l' :: unit + trade_lead, w')"
  for now cfg upsert
proof
  fix w :: "trade_lead table \<times> contact_payload list" and k l p
  assume ok: "ok_trade (fst w)" and l: "get_trade_lead (fst w) k = Some l"
  obtain l' w' where d: "sync_trade_lead now cfg upsert p l w = (l', w')" by (cases "sync_trade_lead now cfg upsert p l w")
  note r = sync_trade_lead_row [OF d]
  show "ok_trade (fst (snd (case sync_trade_lead now cfg upsert p l w of (l', w') \<Rightarrow> (Inr l' :: unit + trade_lead, w'))))"
    using ok_trade_save [OF ok _ r(2-4)] get_trade_lead_held [OF l] d r(1) by simp
  show "tl_id l = Some k" using get_trade_lead_held [OF l] by simp
  fix x' s' j
  assume "(case sync_trade_lead now cfg upsert p l w of (l', w') \<Rightarrow> (Inr l' :: unit + trade_lead, w')) = (Inr x', s')"
  with d have "x' = l'" "s' = w'" by simp_all
  with r(1,2) trade_repo.get_upd [of "fst w" l' k j] ok l get_trade_lead_held [OF l]
  show "get_trade_lead (fst s') j = (if j = k then Some x' else get_trade_lead (fst w) j)"
    by (simp add: ok_trade_def)
qed (auto split: prod.splits)

lemma trade_pending_queued:
  assumes "ok_trade (fst w)"
  shows "trade_queue.queued w (list_pending_trade sts limit (fst w))"
proof -
  have mem: "l \<in> set (rows (fst w))" if "l \<in> set (list_pending_trade sts limit (fst w))" for l
    using that by (auto simp: list_pending_trade_def dest: in_set_takeD)
  have "distinct (map tl_id (rows (fst w)))" using assms by (simp add: ok_trade_def ok_table_def wf_table_def)
  then have "distinct (map tl_id (sort_key tl_created_at (filter (\<lambda>l. tl_crm_sync_status l \<in> set sts) (rows (fst w)))))"
    by (simp add: distinct_map) (auto intro: inj_on_subset)
  then have "distinct (map tl_id (list_pending_trade sts limit (fst w)))"
    by (simp add: list_pending_trade_def take_map [symmetric] distinct_take)
  with mem ok_trade_row [OF assms] show ?thesis by (auto simp: trade_queue.queued_def)
qed

lemma sync_pending_trade_untouched:
  assumes "ok_trade (fst w)" and "get_trade_lead (fst w) k = Some l" and "tl_crm_sync_status l \<notin> {CrmFailed, CrmPending}"
  shows "get_trade_lead (fst (snd (sync_pending_trade now cfg upsert limit programs w))) k = Some l"
proof -
  let ?q = "list_pending_trade [CrmFailed, CrmPending] limit (fst w)"
  have "Some k \<notin> tl_id ` set ?q"
  proof
    assume "Some k \<in> tl_id ` set ?q"
    then obtain x where x: "x \<in> set ?q" "tl_id x = Some k" by auto
    then have "x \<in> set (rows (fst w))" "tl_crm_sync_status x \<in> {CrmFailed, CrmPending}"
      by (auto simp: list_pending_trade_def dest: in_set_takeD)
    with ok_trade_row [OF assms(1), of x] x(2) assms(2,3) show False by auto
  qed
  from trade_queue.push_untouched [OF assms(1) trade_pending_queued [OF assms(1)] this] assms(2)
  show ?thesis unfolding sync_pending_trade_def sweep_push_loop by (simp add: case_prod_unfold)
qed

text \<open>C22: a program that requires approval never sends an unapproved participant to the CRM: the
  attempt makes no call and marks the row skipped. But the mark is final: an administrator's
  approval does not lift it, and no later run or resync touches the row, so a participant the
  job met before the approval is never pushed.\<close>

theorem approval_comes_too_late:
  assumes ok: "ok_trade (fst w)" and row: "get_trade_lead (fst w) k = Some l"
    and gate: "pc_require_admin_approval (tp_config p)" "tl_review_status l \<noteq> ReviewApproved"
    and met: "sync_trade_lead now cfg upsert p l w = (l1, w1)"
    and reviewed: "api_review_participant now2 caller k ''approved'' (fst w1) = (HttpOk n out, t2)"
  shows "snd w1 = snd w \<and> tl_crm_sync_status l1 = CrmSkipped \<and>
    (\<exists>l2. get_trade_lead t2 k = Some l2 \<and> tl_review_status l2 = ReviewApproved \<and>
      get_trade_lead (fst (snd (sync_pending_trade now3 cfg3 upsert3 limit programs (t2, calls)))) k = Some l2 \<and>
      tl_crm_sync_status l2 = CrmSkipped)"
proof -
  have skip: "l1 = l\<lparr>tl_crm_sync_status := CrmSkipped\<rparr>" "snd w1 = snd w"
    using met gate by (auto simp: sync_trade_lead_def trade_push_allowed_def Let_def)
  note r = sync_trade_lead_row [OF met]
  have held: "l \<in> set (rows (fst w))" "tl_id l = Some k" using get_trade_lead_held [OF row] by simp_all
  have ok1: "ok_trade (fst w1)" unfolding r(1) by (rule ok_trade_save [OF ok held(1) r(2-4)])
  have l1: "get_trade_lead (fst w1) k = Some l1"
    using trade_repo.get_upd [of "fst w" l1 k k] ok row r(1,2) held by (simp add: ok_trade_def)
  from reviewed l1 obtain u :: user where t2: "t2 = save_trade_lead (set_review now2 ReviewApproved (Some (us_email u)) l1) (fst w1)"
    by (auto simp: api_review_participant_def Let_def split: http.splits)
  let ?l2 = "set_review now2 ReviewApproved (Some (us_email u)) l1"
  have l2: "tl_id ?l2 = Some k" "tl_crm_sync_status ?l2 = CrmSkipped" "tl_review_status ?l2 = ReviewApproved"
    using skip r(2) held by (simp_all add: set_review_def)
  have "ok_trade t2"
    unfolding t2 using get_trade_lead_held [OF l1] by (intro ok_trade_save [OF ok1, of l1]) (simp_all add: set_review_def)
  moreover have "get_trade_lead t2 k = Some ?l2"
    unfolding t2 using trade_repo.get_upd [of "fst w1" ?l2 k k] ok1 l1 l2(1) by (simp add: ok_trade_def)
  ultimately have "get_trade_lead (fst (snd (sync_pending_trade now3 cfg3 upsert3 limit programs (t2, calls)))) k = Some ?l2"
    using sync_pending_trade_untouched [of "(t2, calls)" k ?l2] l2(2) by simp
  with \<open>get_trade_lead t2 k = Some ?l2\<close> l2 skip show ?thesis by simp
qed

definition witness_pending :: "trade_lead table" where
  "witness_pending = \<lparr>rows = [(new_trade_lead 4 ''r1'' 1 True ''ada@x.ng'')\<lparr>tl_id := Some 1\<rparr>], next_id = 2\<rparr>"

definition witness_admin :: user where
  "witness_admin = \<lparr>us_email = ''root@churchgate.com'', us_role = ''admin'', us_owner_id = None, us_hashed_password = None,
     us_must_change_password = False\<rparr>"

theorem approval_comes_too_late_witness:
  "\<exists>w1 t2 l2. snd (sync_trade_lead 9 witness_settings (\<lambda>_ _. Inr None) witness_program
      ((new_trade_lead 4 ''r1'' 1 True ''ada@x.ng'')\<lparr>tl_id := Some 1\<rparr>) (witness_pending, [])) = w1 \<and> snd w1 = [] \<and>
    snd (api_review_participant 10 (HttpOk 200 witness_admin) 1 ''approved'' (fst w1)) = t2 \<and>
    get_trade_lead (fst (snd (sync_pending_trade 11 witness_settings (\<lambda>_ _. Inr None) 200 witness_programs (t2, [])))) 1 = Some l2 \<and>
    tl_review_status l2 = ReviewApproved \<and> tl_crm_sync_status l2 = CrmSkipped"
proof -
  let ?l = "(new_trade_lead 4 ''r1'' 1 True ''ada@x.ng'')\<lparr>tl_id := Some 1\<rparr>"
  have ok: "ok_trade (fst (witness_pending, [] :: contact_payload list))"
    by (simp add: ok_trade_def unique_emails_def email_taken_iff witness_pending_def ok_table_def wf_table_def new_trade_lead_def)
  have row: "get_trade_lead (fst (witness_pending, [] :: contact_payload list)) 1 = Some ?l"
    by (simp add: get_trade_lead_def tbl_get_def witness_pending_def)
  have gate: "pc_require_admin_approval (tp_config witness_program)" "tl_review_status ?l \<noteq> ReviewApproved"
    by (simp_all add: witness_program_def new_trade_lead_def)
  obtain l1 w1 where met: "sync_trade_lead 9 witness_settings (\<lambda>_ _. Inr None) witness_program ?l (witness_pending, []) = (l1, w1)"
    by (cases "sync_trade_lead 9 witness_settings (\<lambda>_ _. Inr None) witness_program ?l (witness_pending, [])")
  have "get_trade_lead (fst w1) 1 \<noteq> None"
    using sync_trade_lead_row(1,2) [OF met]
    by (simp add: get_trade_lead_def tbl_get_def witness_pending_def save_trade_lead_def tbl_update_def)
  then obtain n out t2 where rev: "api_review_participant 10 (HttpOk 200 witness_admin) 1 ''approved'' (fst w1) = (HttpOk n out, t2)"
    by (auto simp: api_review_participant_def require_role_def witness_admin_def Let_def)
  from approval_comes_too_late [OF ok row gate met rev, of 11 witness_settings "\<lambda>_ _. Inr None" 200 witness_programs "[]"] met rev
  show ?thesis by auto
qed

subsection \<open>Eligibility documents\<close>

definition docs_ok :: "trade_document table \<Rightarrow> bool" where
  "docs_ok docs \<longleftrightarrow> ok_table td_id docs \<and> distinct (map (\<lambda>d. (td_registration_id d, td_document_key d)) (rows docs))"

lemma rows_fold_save:
  assumes "distinct (map tl_id xs)" and "\<And>l. tl_id (f l) = tl_id l"
  shows "rows (fold (\<lambda>l. save_trade_lead (f l)) xs t) =
    map (\<lambda>y. case List.find (\<lambda>x. tl_id x = tl_id y) xs of Some x \<Rightarrow> f x | None \<Rightarrow> y) (rows t)"
  using assms(1)
proof (induction xs arbitrary: t)
  case (Cons x xs)
  have "List.find (\<lambda>z. tl_id z = tl_id x) xs = None" using Cons.prems by (simp add: find_None_all) (metis imageI)
  with Cons show ?case by (auto simp: save_trade_lead_def assms(2))
qed simp

lemma refresh_registration:
  assumes "ok_table tl_id t"
  shows "rows (fold (\<lambda>l. save_trade_lead (refresh_eligibility now st l)) (list_by_registration t reg) t) =
    map (\<lambda>l. if tl_registration_id l = reg then refresh_eligibility now st l else l) (rows t)"
proof -
  let ?xs = "list_by_registration t reg"
  have dist: "distinct (map tl_id (rows t))" using assms by (simp add: ok_table_def wf_table_def)
  then have "distinct (map tl_id ?xs)"
    by (simp add: list_by_registration_def distinct_map) (auto intro: inj_on_subset)
  moreover have "List.find (\<lambda>x. tl_id x = tl_id y) ?xs = (if tl_registration_id y = reg then Some y else None)"
    if "y \<in> set (rows t)" for y
  proof -
    have same: "x = y" if "x \<in> set ?xs" "tl_id x = tl_id y" for x
      using dist \<open>y \<in> set (rows t)\<close> that by (auto simp: in_registration distinct_map dest: inj_onD)
    show ?thesis
    proof (cases "List.find (\<lambda>x. tl_id x = tl_id y) ?xs")
      case None
      with that show ?thesis by (auto simp: find_None_all in_registration)
    next
      case (Some x)
      then have "x \<in> set ?xs" "tl_id x = tl_id y" by (auto dest: find_Some_in)
      with Some same show ?thesis by (auto simp: in_registration)
    qed
  qed
  ultimately show ?thesis
    by (subst rows_fold_save) (auto simp: refresh_eligibility_def intro!: map_cong)
qed

lemma get_document_Some:
  "get_document docs reg key = Some d \<Longrightarrow> d \<in> set (rows docs) \<and> td_registration_id d = reg \<and> td_document_key d = key"
  unfolding get_document_def by (drule find_Some_in) simp

lemma get_document_in:
  assumes "docs_ok docs" and "d \<in> set (rows docs)"
  shows "get_document docs (td_registration_id d) (td_document_key d) = Some d"
proof (cases "get_document docs (td_registration_id d) (td_document_key d)")
  case None
  with assms(2) show ?thesis by (auto simp: get_document_def find_None_all)
next
  case (Some c)
  from get_document_Some [OF Some] assms have "c = d" by (auto simp: docs_ok_def distinct_map dest: inj_onD)
  with Some show ?thesis by simp
qed

lemma upsert_document_ok:
  assumes "docs_ok docs" and new: "td_id d = None \<Longrightarrow> get_document docs (td_registration_id d) (td_document_key d) = None"
    and old: "td_id d \<noteq> None \<Longrightarrow> \<exists>e \<in> set (rows docs). td_id e = td_id d \<and> td_registration_id e = td_registration_id d \<and>
      td_document_key e = td_document_key d"
    and up: "upsert_document now d docs = (d', docs')"
  shows "docs_ok docs'" and "d' \<in> set (rows docs')" and "td_registration_id d' = td_registration_id d"
    and "td_document_key d' = td_document_key d" and "td_storage_key d' = td_storage_key d"
    and "td_file_name d' = td_file_name d" and "td_size_bytes d' = td_size_bytes d"
proof -
  show "td_registration_id d' = td_registration_id d" "td_document_key d' = td_document_key d" "td_storage_key d' = td_storage_key d"
    "td_file_name d' = td_file_name d" "td_size_bytes d' = td_size_bytes d"
    using up by (auto simp: upsert_document_def tbl_insert_def set_td_id_def Let_def split: if_splits)
  have "docs_ok docs' \<and> d' \<in> set (rows docs')"
  proof (cases "td_id d")
    case None
    with up have ins: "tbl_insert set_td_id (d\<lparr>td_uploaded_at := now\<rparr>) docs = (d', docs')" by (simp add: upsert_document_def)
    then have e: "d' = fst (tbl_insert set_td_id (d\<lparr>td_uploaded_at := now\<rparr>) docs)"
        "docs' = snd (tbl_insert set_td_id (d\<lparr>td_uploaded_at := now\<rparr>) docs)" by simp_all
    have "ok_table td_id docs'"
      unfolding e(2) using assms(1) by (intro ok_tbl_insert) (auto simp: docs_ok_def set_td_id_def)
    moreover have "(td_registration_id d, td_document_key d) \<notin> (\<lambda>d. (td_registration_id d, td_document_key d)) ` set (rows docs)"
      using new [OF None] by (auto simp: get_document_def find_None_all)
    ultimately show ?thesis using assms(1) by (simp add: docs_ok_def e set_td_id_def)
  next
    case (Some k)
    with up have u: "d' = d" "docs' = tbl_update td_id d docs" by (auto simp: upsert_document_def)
    from old Some obtain e where e: "e \<in> set (rows docs)" "td_id e = td_id d" "td_registration_id e = td_registration_id d"
      "td_document_key e = td_document_key d" by auto
    have same: "x = e" if "x \<in> set (rows docs)" "td_id x = td_id d" for x
    proof -
      have "inj_on td_id (set (rows docs))" using assms(1) by (simp add: docs_ok_def ok_table_def wf_table_def distinct_map)
      from inj_onD [OF this _ that(1) e(1)] that(2) e(2) show ?thesis by simp
    qed
    have "map (\<lambda>d. (td_registration_id d, td_document_key d)) (rows docs') =
        map (\<lambda>d. (td_registration_id d, td_document_key d)) (rows docs)"
      using e by (auto simp: u dest: same)
    then have "docs_ok docs'"
      unfolding docs_ok_def using assms(1) ok_tbl_update [of td_id docs d] by (simp only: docs_ok_def u(2))
    moreover have "d' \<in> set (rows docs')" using e(1,2) by (simp add: u image_iff) (metis e(2))
    ultimately show ?thesis by simp
  qed
  then show "docs_ok docs'" and "d' \<in> set (rows docs')" by simp_all
qed

text \<open>C23: an accepted upload leaves exactly one document under its registration and key, describing
  the file whose object is in the bucket, and gives every participant of that registration,
  and no one else, the computed status: submitted exactly when every required document of
  the program named in the URL is in. Nothing ties the registration to that program, and a
  status an administrator had approved or rejected is overwritten.\<close>

theorem document_submission:
  assumes ok: "ok_table tl_id (db_leads db)" "docs_ok (db_documents db)"
    and fresh: "\<forall>d \<in> set (rows (db_documents db)). td_storage_key d \<noteq> build_storage_key hex8 (tp_slug p) reg key file_name"
    and submitted: "submit_document now os hex8 p reg key file_name ctype body db = (Inr (doc, st), db')"
  shows "docs_ok (db_documents db') \<and> get_document (db_documents db') reg key = Some doc \<and>
    td_file_name doc = file_name \<and> map_of (db_objects db') (td_storage_key doc) = Some body \<and>
    (st = EligibilitySubmitted \<longleftrightarrow>
      set (required_keys p) \<subseteq> td_document_key ` {d \<in> set (rows (db_documents db')). td_registration_id d = reg}) \<and>
    rows (db_leads db') = map (\<lambda>l. if tl_registration_id l = reg then refresh_eligibility now st l else l) (rows (db_leads db))"
proof -
  let ?k = "build_storage_key hex8 (tp_slug p) reg key file_name"
  let ?new = "\<lparr>td_id = None, td_trade_program_id = default (tp_id p) 0, td_registration_id = reg, td_document_key = key,
      td_storage_key = ?k, td_file_name = file_name, td_content_type = ctype, td_size_bytes = body, td_uploaded_at = now\<rparr>"
  obtain objects where up: "upload_document os ?k body (db_objects db) = Inr objects"
    using submitted by (auto simp: submit_document_def Let_def split: if_splits sum.splits)
  then have put: "map_of objects ?k = Some body"
    by (auto simp: upload_document_def update_conv' split: if_splits)
  obtain d0 objs docs' where d0: "(case get_document (db_documents db) reg key of
        Some d \<Rightarrow> (delete_document os (td_storage_key d) objects, d\<lparr>td_storage_key := ?k, td_file_name := file_name,
          td_content_type := ctype, td_size_bytes := body, td_uploaded_at := now\<rparr>)
      | None \<Rightarrow> (objects, ?new)) = (objs, d0)"
    and ups: "upsert_document now d0 (db_documents db) = (doc, docs')"
    and st: "st = compute_eligibility_status (map td_document_key (list_documents docs' reg)) p"
    and db': "db_documents db' = docs'" "db_objects db' = objs"
      "db_leads db' = fold (\<lambda>l. save_trade_lead (refresh_eligibility now st l)) (list_by_registration (db_leads db) reg) (db_leads db)"
    using submitted up by (auto simp: submit_document_def Let_def split: if_splits prod.splits)
  have f: "td_registration_id d0 = reg" "td_document_key d0 = key" "td_storage_key d0 = ?k" "td_file_name d0 = file_name"
    using d0 by (auto dest: get_document_Some split: option.splits)
  have objs: "map_of objs ?k = Some body"
    using d0 put fresh by (auto simp: delete_document_def delete_conv' dest!: get_document_Some split: option.splits if_splits)
  have new: "get_document (db_documents db) (td_registration_id d0) (td_document_key d0) = None" if "td_id d0 = None"
  proof (rule ccontr)
    assume "\<not> ?thesis"
    then obtain d where d: "get_document (db_documents db) reg key = Some d" using f by auto
    with d0 get_document_Some [OF d] ok(2) that show False by (auto simp: docs_ok_def ok_table_def wf_table_def)
  qed
  have old: "\<exists>e \<in> set (rows (db_documents db)). td_id e = td_id d0 \<and> td_registration_id e = td_registration_id d0 \<and>
      td_document_key e = td_document_key d0" if "td_id d0 \<noteq> None"
  proof (cases "get_document (db_documents db) reg key")
    case None
    then have "d0 = ?new" using d0 by simp
    with that show ?thesis by simp
  next
    case (Some e)
    then have "td_id d0 = td_id e" using d0 by auto
    with get_document_Some [OF Some] f show ?thesis by auto
  qed
  note u = upsert_document_ok [OF ok(2) new old ups]
  have doc: "get_document docs' reg key = Some doc" using get_document_in [OF u(1,2)] u(3,4) f by simp
  have present: "set (map td_document_key (list_documents docs' reg)) =
      td_document_key ` {d \<in> set (rows docs'). td_registration_id d = reg}"
    by (simp add: list_documents_def)
  have "map td_document_key (list_documents docs' reg) \<noteq> []"
    using u(2,3) f(1) by (auto simp: list_documents_def filter_empty_conv dest!: arg_cong [where f = set])
  then have "st = EligibilitySubmitted \<longleftrightarrow> set (required_keys p) \<subseteq> set (map td_document_key (list_documents docs' reg))"
    by (auto simp: st compute_eligibility_status_def)
  with present u doc f objs db' refresh_registration [OF ok(1), of now st reg] show ?thesis by simp
qed

definition witness_store :: object_store where
  "witness_store = \<lparr>os_configured = True, os_put_ok = (\<lambda>_. True), os_delete_ok = (\<lambda>_. True)\<rparr>"

theorem document_submission_witness:
  "\<exists>doc st db'. submit_document 9 witness_store ''0badcafe'' witness_program ''r1'' ''cac'' ''cac.pdf'' None 100
      \<lparr>db_leads = witness_pending, db_documents = empty_table, db_objects = []\<rparr> = (Inr (doc, st), db') \<and>
    get_document (db_documents db') ''r1'' ''cac'' = Some doc"
proof -
  let ?db = "\<lparr>db_leads = witness_pending, db_documents = empty_table, db_objects = []\<rparr>"
  have ok: "ok_table tl_id (db_leads ?db)" "docs_ok (db_documents ?db)"
    by (simp_all add: witness_pending_def ok_table_def wf_table_def docs_ok_def empty_table_def new_trade_lead_def)
  have fresh: "\<forall>d \<in> set (rows (db_documents ?db)). td_storage_key d \<noteq>
      build_storage_key ''0badcafe'' (tp_slug witness_program) ''r1'' ''cac'' ''cac.pdf''" by (simp add: empty_table_def)
  have "''cac'' \<in> set (document_keys witness_program)" by (simp add: document_keys_def witness_program_def)
  moreover have "list_by_registration (db_leads ?db) ''r1'' \<noteq> []"
    by (simp add: list_by_registration_def witness_pending_def new_trade_lead_def)
  ultimately obtain doc st db' where "submit_document 9 witness_store ''0badcafe'' witness_program ''r1'' ''cac'' ''cac.pdf''
      None 100 ?db = (Inr (doc, st), db')"
    by (simp add: submit_document_def Let_def upload_document_def witness_store_def get_document_def
        empty_table_def upsert_document_def tbl_insert_def)
  from document_submission [OF ok fresh this] this show ?thesis by blast
qed

end
