(* ===== verification/Scheduler.thy ===== *)
theory Scheduler
  imports Crm_Sync Deal_Sync Trade
begin

section \<open>Scheduled jobs\<close>

text \<open>
  Model of \<open>app/core/scheduler.py\<close> and \<open>app/jobs/tasks.py\<close>: every job runs under a
  PostgreSQL session advisory lock of its own key, so that of the instances of the service
  that all schedule it only one runs it at a time. A run of a job is a database session,
  numbered by \<open>nat\<close>; \<open>held k\<close> is the session that holds the lock with key \<open>k\<close>.
\<close>

subsection \<open>Jobs and their locks\<close>

datatype job = ReferenceSync | DealSync | TaskSync | EmailSync | DailySnapshot | LeadCrmSync | PackDelivery
  | NogActivitySync | TriageSync | TradeCrmSync

fun lock_key :: "job \<Rightarrow> int" where
  "lock_key ReferenceSync = 17000001"
| "lock_key DealSync = 17000002"
| "lock_key TaskSync = 17000003"
| "lock_key EmailSync = 17000004"
| "lock_key DailySnapshot = 17000005"
| "lock_key LeadCrmSync = 17000006"
| "lock_key PackDelivery = 17000007"
| "lock_key NogActivitySync = 17000008"
| "lock_key TriageSync = 17000009"
| "lock_key TradeCrmSync = 17000010"

type_synonym locks = "int \<Rightarrow> nat option"

text \<open>
  One run as a whole: \<open>fn\<close> is the job's body on the state it works on, \<open>Inl\<close> an
  exception, which is logged and raised again after the lock is released.
\<close>

datatype 'e outcome = JobSkipped | JobDone | JobRaised 'e

definition try_lock :: "int \<Rightarrow> nat \<Rightarrow> locks \<Rightarrow> bool \<times> locks" where
  "try_lock k sid held = (case held k of Some _ \<Rightarrow> (False, held) | None \<Rightarrow> (True, held(k \<mapsto> sid)))"

definition unlock :: "int \<Rightarrow> nat \<Rightarrow> locks \<Rightarrow> locks" where
  "unlock k sid held = (if held k = Some sid then held(k := None) else held)"

definition run_with_advisory_lock ::
    "int \<Rightarrow> nat \<Rightarrow> ('s \<Rightarrow> ('e + unit) \<times> 's) \<Rightarrow> locks \<times> 's \<Rightarrow> 'e outcome \<times> locks \<times> 's" where
  "run_with_advisory_lock k sid fn w =
     (case try_lock k sid (fst w) of
        (False, held) \<Rightarrow> (JobSkipped, held, snd w)
      | (True, held) \<Rightarrow>
          (case fn (snd w) of
             (Inl e, s) \<Rightarrow> (JobRaised e, unlock k sid held, s)
           | (Inr _, s) \<Rightarrow> (JobDone, unlock k sid held, s)))"

subsection \<open>The bodies of the jobs\<close>

text \<open>
  The reference sync publishes its resolver in the instance's \<open>app.state\<close> only when this
  instance ran it. \<open>fetched\<close> is what the CRM answered; what a sync leaves behind when it
  raises is what it had committed.
\<close>

definition reference_sync_body ::
    "time \<Rightarrow> client_error + crm_pipeline list \<times> crm_owner list option \<times> crm_owner list option \<times> deal_reason list
      \<Rightarrow> resolver option \<times> ref_db \<Rightarrow> (client_error + unit) \<times> resolver option \<times> ref_db" where
  "reference_sync_body now fetched w = (case fetched of
     Inl e \<Rightarrow> (Inl e, w)
   | Inr (ps, own, users, reasons) \<Rightarrow>
       (case run_reference_sync now ps own users reasons (snd w) of (r, db') \<Rightarrow> (Inr (), Some r, db')))"

definition reference_sync_job where
  "reference_sync_job sid now fetched = run_with_advisory_lock (lock_key ReferenceSync) sid (reference_sync_body now fetched)"

definition as_run :: "'d session \<times> 'e option \<Rightarrow> ('e + unit) \<times> 'd" where
  "as_run r = (case snd r of Some e \<Rightarrow> (Inl e, committed (fst r)) | None \<Rightarrow> (Inr (), committed (fst r)))"

definition deal_sync_body ::
    "py_env \<Rightarrow> time \<Rightarrow> int list \<Rightarrow> ref_db \<Rightarrow> crm \<Rightarrow> deal_db \<Rightarrow> (sync_error + unit) \<times> deal_db" where
  "deal_sync_body env now view_ids ref c db =
     (case run_deal_sync env now view_ids ref c db of (st, e) \<Rightarrow> as_run (sy_session st, e))"

definition deal_sync_job where
  "deal_sync_job sid env now view_ids ref c =
     run_with_advisory_lock (lock_key DealSync) sid (deal_sync_body env now view_ids ref c)"

definition task_sync_job where
  "task_sync_job sid env now ref db get_tasks =
     run_with_advisory_lock (lock_key TaskSync) sid (\<lambda>ts. as_run (run_task_sync env now ref db get_tasks ts))"

definition email_sync_job where
  "email_sync_job sid env ref db get_convs =
     run_with_advisory_lock (lock_key EmailSync) sid (\<lambda>ems. as_run (run_email_sync env ref db get_convs ems))"

definition daily_snapshot_body ::
    "pydate \<Rightarrow> deal_db \<Rightarrow> (snapshot_key \<times> daily_snapshot) list \<Rightarrow> (unit + unit) \<times> (snapshot_key \<times> daily_snapshot) list" where
  "daily_snapshot_body today db t = (Inr (), committed (run_daily_snapshot today db (open_session t)))"

definition daily_snapshot_job where
  "daily_snapshot_job sid today db = run_with_advisory_lock (lock_key DailySnapshot) sid (daily_snapshot_body today db)"

definition lead_crm_sync_job ::
    "nat \<Rightarrow> time \<Rightarrow> settings \<Rightarrow> crm_upsert \<Rightarrow> campaign table \<Rightarrow> locks \<times> lead table \<times> contact_payload list
      \<Rightarrow> attribute_error outcome \<times> locks \<times> lead table \<times> contact_payload list" where
  "lead_crm_sync_job sid now cfg upsert campaigns = run_with_advisory_lock (lock_key LeadCrmSync) sid
     (\<lambda>w. case sync_pending now cfg upsert 200 campaigns w of
        (Inl e, w') \<Rightarrow> (Inl e, w') | (Inr n, w') \<Rightarrow> (Inr (), w'))"

definition pack_delivery_job ::
    "nat \<Rightarrow> time \<Rightarrow> settings \<Rightarrow> poster \<Rightarrow> campaign table \<Rightarrow> locks \<times> lead table \<times> mail list
      \<Rightarrow> unit outcome \<times> locks \<times> lead table \<times> mail list" where
  "pack_delivery_job sid now cfg post campaigns = run_with_advisory_lock (lock_key PackDelivery) sid
     (\<lambda>w. (Inr (), snd (deliver_pending now cfg post 200 campaigns w)))"

definition triage_sync_job ::
    "nat \<Rightarrow> time \<Rightarrow> (string \<Rightarrow> int option) \<Rightarrow> (int \<Rightarrow> bool option) \<Rightarrow> nat \<Rightarrow> locks \<times> lead table
      \<Rightarrow> unit outcome \<times> locks \<times> lead table" where
  "triage_sync_job sid now parse_int contacted limit = run_with_advisory_lock (lock_key TriageSync) sid
     (\<lambda>t. case sync_triage_from_crm now parse_int contacted limit t of
        (None, t') \<Rightarrow> (Inl (), t') | (Some n, t') \<Rightarrow> (Inr (), t'))"

definition trade_crm_sync_job ::
    "nat \<Rightarrow> time \<Rightarrow> settings \<Rightarrow> crm_upsert \<Rightarrow> trade_program table \<Rightarrow> locks \<times> trade_lead table \<times> contact_payload list
      \<Rightarrow> unit outcome \<times> locks \<times> trade_lead table \<times> contact_payload list" where
  "trade_crm_sync_job sid now cfg upsert programs = run_with_advisory_lock (lock_key TradeCrmSync) sid
     (\<lambda>w. (Inr (), snd (sync_pending_trade now cfg upsert 200 programs w)))"

subsection \<open>Manual triggers\<close>

text \<open>
  The sync endpoints of the admin router run the same bodies without the lock, so they may
  overlap with a scheduled run; an exception is a 500.
\<close>

definition triggered :: "user http \<Rightarrow> ('s \<Rightarrow> ('e + unit) \<times> 's) \<Rightarrow> 's \<Rightarrow> unit http \<times> 's" where
  "triggered caller body w = (case require_role [''admin'', ''superadmin''] caller of
     HttpError n m \<Rightarrow> (HttpError n m, w)
   | HttpOk n u \<Rightarrow> (case body w of
       (Inl e, w') \<Rightarrow> (HttpError 500 ''Internal Server Error'', w')
     | (Inr _, w') \<Rightarrow> (HttpOk 200 (), w')))"

definition trigger_reference_sync where
  "trigger_reference_sync caller now fetched = triggered caller (reference_sync_body now fetched)"

definition trigger_deal_sync where
  "trigger_deal_sync caller env now view_ids ref c = triggered caller (deal_sync_body env now view_ids ref c)"

definition trigger_task_sync where
  "trigger_task_sync caller env now ref db get_tasks =
     triggered caller (\<lambda>ts. as_run (run_task_sync env now ref db get_tasks ts))"

definition trigger_email_sync where
  "trigger_email_sync caller env ref db get_convs =
     triggered caller (\<lambda>ems. as_run (run_email_sync env ref db get_convs ems))"

definition trigger_daily_snapshot where
  "trigger_daily_snapshot caller today db = triggered caller (daily_snapshot_body today db)"

definition trigger_timeline_backfill where
  "trigger_timeline_backfill caller env ref timeline =
     triggered caller (\<lambda>db. as_run (run_timeline_backfill env ref timeline (list_deal_ids_without_events db) db))"

subsection \<open>Runs that overlap\<close>

text \<open>
  The cluster: which session holds which lock, and how far each run is. A run starts by
  trying its lock; a run that holds it ends, normally or not, by releasing it; and a run may
  lose its database connection, which releases the lock while the body, on a session of
  its own, goes on.
\<close>

datatype phase = Idle | Running job | Skipped job | Ended job

record cluster =
  held :: locks
  phase_of :: "nat \<Rightarrow> phase"

definition no_runs :: cluster where
  "no_runs = \<lparr>held = (\<lambda>_. None), phase_of = (\<lambda>_. Idle)\<rparr>"

datatype run_event = Starts nat job | Skips nat job | Ends nat job | LosesLock nat job

inductive cluster_step :: "cluster \<Rightarrow> run_event \<Rightarrow> cluster \<Rightarrow> bool" where
  starts: "phase_of c s = Idle \<Longrightarrow> try_lock (lock_key j) s (held c) = (True, h) \<Longrightarrow>
    cluster_step c (Starts s j) (c\<lparr>held := h, phase_of := (phase_of c)(s := Running j)\<rparr>)"
| skips: "phase_of c s = Idle \<Longrightarrow> try_lock (lock_key j) s (held c) = (False, h) \<Longrightarrow>
    cluster_step c (Skips s j) (c\<lparr>held := h, phase_of := (phase_of c)(s := Skipped j)\<rparr>)"
| ends: "phase_of c s = Running j \<Longrightarrow>
    cluster_step c (Ends s j) (c\<lparr>held := unlock (lock_key j) s (held c), phase_of := (phase_of c)(s := Ended j)\<rparr>)"
| loses_lock: "phase_of c s = Running j \<Longrightarrow> held c (lock_key j) = Some s \<Longrightarrow>
    cluster_step c (LosesLock s j) (c\<lparr>held := (held c)(lock_key j := None)\<rparr>)"

inductive_cases cluster_step_startsE: "cluster_step c (Starts s j) c'"
inductive_cases cluster_step_skipsE: "cluster_step c (Skips s j) c'"
inductive_cases cluster_step_endsE: "cluster_step c (Ends s j) c'"
inductive_cases cluster_step_losesE: "cluster_step c (LosesLock s j) c'"

inductive reachable :: "cluster \<Rightarrow> bool" where
  reachable_start: "reachable no_runs"
| reachable_step: "reachable c \<Longrightarrow> cluster_step c e c' \<Longrightarrow> (\<forall>s j. e \<noteq> LosesLock s j) \<Longrightarrow> reachable c'"

subsection \<open>What the locks promise\<close>

text \<open>
  The abstract machine: the set of jobs that are running. A job starts only when it is not
  running, is skipped only when it is, and ends when it is.
\<close>

inductive exclusive_step :: "job set \<Rightarrow> run_event \<Rightarrow> job set \<Rightarrow> bool" where
  "j \<notin> R \<Longrightarrow> exclusive_step R (Starts s j) (insert j R)"
| "j \<in> R \<Longrightarrow> exclusive_step R (Skips s j) R"
| "j \<in> R \<Longrightarrow> exclusive_step R (Ends s j) (R - {j})"

definition running_jobs :: "cluster \<Rightarrow> job set" where
  "running_jobs c = {j. \<exists>s. phase_of c s = Running j}"

end
