(* ===== verification/Scheduler_Safety.thy ===== *)
theory Scheduler_Safety
  imports Scheduler
begin

section \<open>What the scheduler guarantees\<close>

text \<open>
  The lock and the runs agree in every reachable state, so the cluster refines the machine
  in which a job runs at most once at a time; a lost connection breaks it.
\<close>

lemma lock_key_inject [simp]: "lock_key i = lock_key j \<longleftrightarrow> i = j"
  by (cases i; cases j) simp_all

lemma try_lock_simps:
  "try_lock k s h = (True, h') \<longleftrightarrow> h k = None \<and> h' = h(k \<mapsto> s)"
  "try_lock k s h = (False, h') \<longleftrightarrow> h k \<noteq> None \<and> h' = h"
  by (auto simp: try_lock_def split: option.splits)

text \<open>A run of its own leaves every lock as it found it, whatever its body does.\<close>

lemma run_restores_locks:
  "fst (snd (run_with_advisory_lock k sid fn w)) = fst w"
proof (cases "fst w k")
  case None
  then have "(fst w)(k := None) = fst w" by (simp add: fun_upd_idem)
  with None show ?thesis
    by (auto simp: run_with_advisory_lock_def try_lock_def unlock_def split: prod.splits sum.splits)
qed (simp add: run_with_advisory_lock_def try_lock_def)

lemma run_skips_iff:
  "fst (run_with_advisory_lock k sid fn w) = JobSkipped \<longleftrightarrow> fst w k \<noteq> None"
  by (auto simp: run_with_advisory_lock_def try_lock_def split: prod.splits sum.splits option.splits)

lemma skipped_run_keeps_state:
  "fst w k \<noteq> None \<Longrightarrow> snd (run_with_advisory_lock k sid fn w) = w"
  by (cases w) (auto simp: run_with_advisory_lock_def try_lock_def)

definition lock_inv :: "cluster \<Rightarrow> bool" where
  "lock_inv c \<longleftrightarrow> (\<forall>s j. phase_of c s = Running j \<longleftrightarrow> held c (lock_key j) = Some s)"

lemma lock_invD: "lock_inv c \<Longrightarrow> phase_of c s = Running j \<longleftrightarrow> held c (lock_key j) = Some s"
  by (simp add: lock_inv_def)

lemma lock_inv_step:
  assumes "cluster_step c e c'" and inv: "lock_inv c" and "\<forall>s j. e \<noteq> LosesLock s j"
  shows "lock_inv c'"
  unfolding lock_inv_def
proof (intro allI)
  fix t i
  note agree = lock_invD [OF inv]
  from assms(1) show "phase_of c' t = Running i \<longleftrightarrow> held c' (lock_key i) = Some t"
  proof cases
    case (starts s j h)
    then show ?thesis using agree [of t i] agree [of s i] by (auto simp: try_lock_simps)
  next
    case (skips s j h)
    then show ?thesis using agree [of t i] by (auto simp: try_lock_simps)
  next
    case (ends s j)
    then show ?thesis using agree [of t i] agree [of s i] agree [of s j] by (auto simp: unlock_def)
  qed (use assms(3) in auto)
qed

lemma reachable_lock_inv: "reachable c \<Longrightarrow> lock_inv c"
proof (induction rule: reachable.induct)
  case reachable_start
  show ?case by (simp add: lock_inv_def no_runs_def)
next
  case (reachable_step c e c')
  then show ?case by (blast intro: lock_inv_step)
qed

lemma one_runner: "lock_inv c \<Longrightarrow> phase_of c s = Running j \<Longrightarrow> phase_of c s' = Running j \<Longrightarrow> s = s'"
  by (simp add: lock_inv_def)

lemma running_iff_held: "lock_inv c \<Longrightarrow> j \<in> running_jobs c \<longleftrightarrow> held c (lock_key j) \<noteq> None"
  by (auto simp: lock_inv_def running_jobs_def)

text \<open>Changing the phase of a session that runs no job.\<close>

lemma running_jobs_idle:
  assumes "phase_of c s = Idle" and "phase_of c' = (phase_of c)(s := ph)"
  shows "running_jobs c' = (case ph of Running j \<Rightarrow> insert j (running_jobs c) | _ \<Rightarrow> running_jobs c)"
proof -
  have "i \<in> running_jobs c' \<longleftrightarrow> ph = Running i \<or> i \<in> running_jobs c" for i
    unfolding running_jobs_def mem_Collect_eq assms(2) using assms(1) by (metis fun_upd_apply phase.distinct(1))
  then show ?thesis by (auto split: phase.splits)
qed

text \<open>C24: as long as no run loses its database connection, the instances together behave like one
  that runs each job at most once at a time: a job starts only when it runs nowhere, is
  skipped only because it runs somewhere, and its end frees it; the ten jobs never get in
  each other's way.\<close>

theorem cluster_refines_exclusive_jobs:
  assumes "reachable c" and "cluster_step c e c'" and "\<forall>s j. e \<noteq> LosesLock s j"
  shows "exclusive_step (running_jobs c) e (running_jobs c') \<and>
    (\<forall>s s' j. phase_of c' s = Running j \<longrightarrow> phase_of c' s' = Running j \<longrightarrow> s = s')"
proof -
  have inv: "lock_inv c" by (rule reachable_lock_inv [OF assms(1)])
  from assms(2) have "exclusive_step (running_jobs c) e (running_jobs c')"
  proof cases
    case (starts s j h)
    then have "j \<notin> running_jobs c" using running_iff_held [OF inv] by (simp add: try_lock_simps)
    moreover have "running_jobs c' = insert j (running_jobs c)"
      using starts running_jobs_idle [of c s c' "Running j"] by simp
    ultimately show ?thesis using starts by (auto intro: exclusive_step.intros)
  next
    case (skips s j h)
    then have "j \<in> running_jobs c" using running_iff_held [OF inv] by (simp add: try_lock_simps)
    moreover have "running_jobs c' = running_jobs c" using skips running_jobs_idle [of c s c' "Skipped j"] by simp
    ultimately show ?thesis using skips by (auto intro: exclusive_step.intros)
  next
    case (ends s j)
    then have "j \<in> running_jobs c" by (auto simp: running_jobs_def)
    moreover have "i \<in> running_jobs c' \<longleftrightarrow> i \<in> running_jobs c \<and> i \<noteq> j" for i
    proof -
      have "phase_of c' = (phase_of c)(s := Ended j)" using ends by simp
      then show ?thesis
        unfolding running_jobs_def mem_Collect_eq using ends(3) one_runner [OF inv ends(3)]
        by (metis fun_upd_apply phase.distinct(9) phase.inject(1))
    qed
    then have "running_jobs c' = running_jobs c - {j}" by auto
    ultimately show ?thesis using ends by (auto intro: exclusive_step.intros)
  qed (use assms(3) in auto)
  with one_runner [OF lock_inv_step [OF assms(2) inv assms(3)]] show ?thesis by blast
qed

definition witness_cluster :: cluster where
  "witness_cluster = \<lparr>held = (\<lambda>_. None)(17000002 \<mapsto> 5), phase_of = (\<lambda>_. Idle)(5 := Running DealSync)\<rparr>"

lemma witness_cluster_step: "cluster_step no_runs (Starts 5 DealSync) witness_cluster"
  using starts [of no_runs 5 DealSync "(\<lambda>_. None)(17000002 \<mapsto> 5)"]
  by (simp add: no_runs_def witness_cluster_def try_lock_def)

theorem cluster_refines_exclusive_jobs_witness:
  "\<exists>c. cluster_step witness_cluster (Skips 6 DealSync) c \<and> exclusive_step {DealSync} (Skips 6 DealSync) {DealSync} \<and>
    exclusive_step {} (Starts 5 DealSync) {DealSync}"
proof -
  have r: "reachable witness_cluster"
    by (rule reachable_step [OF reachable_start witness_cluster_step]) simp
  have "cluster_step witness_cluster (Skips 6 DealSync) (witness_cluster\<lparr>phase_of := (phase_of witness_cluster)(6 := Skipped DealSync)\<rparr>)"
    using skips [of witness_cluster 6 DealSync "held witness_cluster"] by (simp add: witness_cluster_def try_lock_def)
  moreover have "running_jobs witness_cluster = {DealSync}" and "running_jobs no_runs = {}"
      and "running_jobs (witness_cluster\<lparr>phase_of := (phase_of witness_cluster)(6 := Skipped DealSync)\<rparr>) = {DealSync}"
    by (auto simp: running_jobs_def witness_cluster_def no_runs_def)
  ultimately show ?thesis
    using cluster_refines_exclusive_jobs [OF r] cluster_refines_exclusive_jobs [OF reachable_start witness_cluster_step]
    by (metis run_event.distinct(5,9))
qed

text \<open>Without that proviso it fails: a run whose connection drops goes on while another starts.\<close>

lemma lost_connection_runs_twice:
  "\<exists>c1 c2 c3. cluster_step no_runs (Starts 5 DealSync) c1 \<and> cluster_step c1 (LosesLock 5 DealSync) c2 \<and>
    cluster_step c2 (Starts 6 DealSync) c3 \<and> phase_of c3 5 = Running DealSync \<and> phase_of c3 6 = Running DealSync"
proof -
  let ?c2 = "witness_cluster\<lparr>held := \<lambda>_. None\<rparr>"
  have "cluster_step witness_cluster (LosesLock 5 DealSync) ?c2"
    using loses_lock [of witness_cluster 5 DealSync] by (simp add: witness_cluster_def fun_upd_idem)
  moreover have "cluster_step ?c2 (Starts 6 DealSync)
      (?c2\<lparr>held := (\<lambda>_. None)(17000002 \<mapsto> 6), phase_of := (phase_of ?c2)(6 := Running DealSync)\<rparr>)"
    using starts [of ?c2 6 DealSync "(\<lambda>_. None)(17000002 \<mapsto> 6)"] by (simp add: witness_cluster_def try_lock_def)
  ultimately show ?thesis using witness_cluster_step
    by (intro exI conjI) (assumption+, simp_all add: witness_cluster_def)
qed

text \<open>
  An instance whose reference sync is skipped, because another instance is running its own,
  keeps the resolver it had: with none, it goes on answering webhooks with 503.
\<close>

lemma skipped_reference_sync_keeps_resolver:
  "h (lock_key ReferenceSync) \<noteq> None \<Longrightarrow> reference_sync_job sid now fetched (h, rs, db) = (JobSkipped, h, rs, db)"
  by (auto simp: reference_sync_job_def reference_sync_body_def run_with_advisory_lock_def try_lock_def)

end
