(* ===== verification/Analytics.thy ===== *)
theory Analytics
  imports Deal_Sync Auth "HOL-Library.Char_ord" "HOL-Library.List_Lexorder" "HOL-Library.Product_Lexorder"
begin

section \<open>The analytics queries\<close>

text \<open>
  Model of \<open>app/repositories/analytics_repo.py\<close> over the view \<open>deals_enriched\<close>.
  A query is a function of the tables; \<open>GROUP BY\<close> is \<open>group_rows\<close>, a \<open>FILTER\<close>
  clause a filter of the group, and an aggregate skips nulls. Numbers are exact rationals,
  instants microseconds, dates compare lexicographically. Where the query asks for no
  order the rows come in the order of the table. The clock of the database, its current
  date and its collation (as the sort key of a text) are fields of \<open>sql_env\<close>.
\<close>

record sql_env =
  sql_now :: time
  sql_today :: pydate
  sql_collate :: "string \<Rightarrow> string"

record an_db =
  an_ref :: ref_db
  an_deals :: deal_db
  an_tasks :: "(int \<times> task_snapshot) list"
  an_emails :: "email_activity list"
  an_daily :: "(snapshot_key \<times> daily_snapshot) list"

record analytics_filters =
  af_business_line :: "string option"
  af_pipeline_id :: "int option"
  af_owner_id :: "int option"
  af_stale_days :: int
  af_as_of :: "pydate option"

definition valid_filters :: "analytics_filters \<Rightarrow> bool" where
  "valid_filters f \<longleftrightarrow> 1 \<le> af_stale_days f \<and> af_stale_days f \<le> 365"

subsection \<open>The view\<close>

record enriched =
  de :: deal_snapshot
  de_stage :: "stage option"
  de_pipeline :: "pipeline option"

definition enrich :: "ref_db \<Rightarrow> deal_snapshot \<Rightarrow> enriched" where
  "enrich ref d = \<lparr>de = d,
     de_stage = Option.bind (ds_stage_id d) (map_of (stages ref)),
     de_pipeline = Option.bind (ds_pipeline_id d) (map_of (pipelines ref))\<rparr>"

definition deals_enriched :: "an_db \<Rightarrow> enriched list" where
  "deals_enriched db = map (enrich (an_ref db)) (map snd (deals (an_deals db)))"

text \<open>The columns of the view that the queries read.\<close>

definition forecast_type :: "enriched \<Rightarrow> string option" where
  "forecast_type r = map_option st_forecast_type (de_stage r)"

definition business_line :: "enriched \<Rightarrow> string option" where
  "business_line r = map_option pl_business_line (de_pipeline r)"

definition line_of :: "enriched \<Rightarrow> string" where
  "line_of r = default (business_line r) ''Unassigned''"

definition time_col :: "string \<Rightarrow> enriched \<Rightarrow> time option" where
  "time_col c r = (case ds_cols (de r) c of Some (CTime t) \<Rightarrow> Some t | _ \<Rightarrow> None)"

definition date_col :: "string \<Rightarrow> enriched \<Rightarrow> pydate option" where
  "date_col c r = (case ds_cols (de r) c of Some (CDate d) \<Rightarrow> Some d | _ \<Rightarrow> None)"

definition int_col :: "string \<Rightarrow> enriched \<Rightarrow> int option" where
  "int_col c r = (case ds_cols (de r) c of Some (CInt i) \<Rightarrow> Some i | _ \<Rightarrow> None)"

definition text_col :: "string \<Rightarrow> enriched \<Rightarrow> string option" where
  "text_col c r = (case ds_cols (de r) c of Some (CStr s) \<Rightarrow> Some s | Some (CJson (JStr s)) \<Rightarrow> Some s | _ \<Rightarrow> None)"

definition VALUE_EXPR :: "enriched \<Rightarrow> rat option" where
  "VALUE_EXPR r = or_else (num_col ''base_currency_amount'' (de r)) (num_col ''amount'' (de r))"

definition is_type :: "string \<Rightarrow> enriched \<Rightarrow> bool" where
  "is_type t r \<longleftrightarrow> forecast_type r = Some t"

definition build_filters :: "analytics_filters \<Rightarrow> int option \<Rightarrow> enriched \<Rightarrow> bool" where
  "build_filters f owner_scope r \<longleftrightarrow>
     (case af_business_line f of None \<Rightarrow> True | Some b \<Rightarrow> business_line r = Some b) \<and>
     (case af_pipeline_id f of None \<Rightarrow> True | Some p \<Rightarrow> ds_pipeline_id (de r) = Some p) \<and>
     (case or_else owner_scope (af_owner_id f) of None \<Rightarrow> True | Some k \<Rightarrow> ds_owner_id (de r) = Some k)"

definition where_rows :: "analytics_filters \<Rightarrow> int option \<Rightarrow> an_db \<Rightarrow> enriched list" where
  "where_rows f owner_scope db = filter (build_filters f owner_scope) (deals_enriched db)"

definition open_where :: "analytics_filters \<Rightarrow> int option \<Rightarrow> an_db \<Rightarrow> enriched list" where
  "open_where f owner_scope db = filter (is_type ''Open'') (where_rows f owner_scope db)"

definition owner_name :: "an_db \<Rightarrow> enriched \<Rightarrow> string" where
  "owner_name db r = (case Option.bind (ds_owner_id (de r)) (map_of (owners (an_ref db))) of
     None \<Rightarrow> ''Unassigned'' | Some w \<Rightarrow> ow_display_name w)"

subsection \<open>SQL aggregates\<close>

definition dict_keys :: "'k list \<Rightarrow> 'k list" where
  "dict_keys ks = rev (remdups (rev ks))"

definition group_rows :: "('r \<Rightarrow> 'k) \<Rightarrow> 'r list \<Rightarrow> ('k \<times> 'r list) list" where
  "group_rows key rs = map (\<lambda>k. (k, filter (\<lambda>r. key r = k) rs)) (dict_keys (map key rs))"

definition sql_count :: "('r \<Rightarrow> bool) \<Rightarrow> 'r list \<Rightarrow> nat" where
  "sql_count p rs = length (filter p rs)"

text \<open>\<open>coalesce(sum(v) FILTER (WHERE p), 0)\<close>\<close>

definition sql_sum :: "('r \<Rightarrow> bool) \<Rightarrow> ('r \<Rightarrow> 'n :: monoid_add option) \<Rightarrow> 'r list \<Rightarrow> 'n" where
  "sql_sum p v rs = sum_list (List.map_filter v (filter p rs))"

definition sql_avg :: "('r \<Rightarrow> bool) \<Rightarrow> ('r \<Rightarrow> rat option) \<Rightarrow> 'r list \<Rightarrow> rat option" where
  "sql_avg p v rs = (case List.map_filter v (filter p rs) of [] \<Rightarrow> None
     | xs \<Rightarrow> Some (sum_list xs / of_nat (length xs)))"

text \<open>\<open>greatest\<close> and \<open>max\<close> skip nulls and are null on nothing else.\<close>

definition greatest :: "'t :: linorder option list \<Rightarrow> 't option" where
  "greatest xs = (case List.map_filter id xs of [] \<Rightarrow> None | y # ys \<Rightarrow> Some (fold max ys y))"

definition least :: "'t :: linorder list \<Rightarrow> 't option" where
  "least xs = (case xs of [] \<Rightarrow> None | y # ys \<Rightarrow> Some (fold min ys y))"

text \<open>\<open>ORDER BY e NULLS LAST\<close>, stable.\<close>

definition order_nulls_last :: "('r \<Rightarrow> 'k :: linorder option) \<Rightarrow> 'r list \<Rightarrow> 'r list" where
  "order_nulls_last e rs =
     sort_key (\<lambda>r. the (e r)) (filter (\<lambda>r. e r \<noteq> None) rs) @ filter (\<lambda>r. e r = None) rs"

definition days_since :: "sql_env \<Rightarrow> time \<Rightarrow> rat" where
  "days_since env t = of_int (sql_now env - t) / 86400000000"

subsection \<open>Freshness\<close>

definition get_last_activity_at :: "an_db \<Rightarrow> int \<Rightarrow> time option" where
  "get_last_activity_at db k = greatest
     [Option.bind (map_of (deals (an_deals db)) k) (\<lambda>d. time_col ''stage_updated_at'' (enrich (an_ref db) d)),
      greatest (map (\<lambda>t. greatest [tk_due_date t, tk_completed_date t])
        (filter (\<lambda>t. tk_deal_id t = Some k) (map snd (an_tasks db)))),
      greatest (map (Some \<circ> em_conversation_time) (filter (\<lambda>e. em_deal_id e = k) (an_emails db))),
      greatest (map (Some \<circ> ev_occurred_at) (filter (\<lambda>e. ev_deal_id e = k) (deal_events (an_deals db))))]"

definition get_data_as_of :: "an_db \<Rightarrow> time option" where
  "get_data_as_of db = greatest (map (Some \<circ> ds_last_synced_at \<circ> snd) (deals (an_deals db)))"

record data_freshness_row =
  fr_deals_synced_at :: "time option"
  fr_reference_synced_at :: "time option"
  fr_tasks_synced_at :: "time option"
  fr_email_last_activity_at :: "time option"

definition get_data_freshness :: "an_db \<Rightarrow> data_freshness_row" where
  "get_data_freshness db =
     \<lparr>fr_deals_synced_at = get_data_as_of db,
      fr_reference_synced_at = greatest
        [greatest (map (Some \<circ> pl_updated_at \<circ> snd) (pipelines (an_ref db))),
         greatest (map (Some \<circ> ow_updated_at \<circ> snd) (owners (an_ref db)))],
      fr_tasks_synced_at = greatest (map (Some \<circ> tk_last_synced_at \<circ> snd) (an_tasks db)),
      fr_email_last_activity_at = greatest (map (Some \<circ> em_conversation_time) (an_emails db))\<rparr>"

subsection \<open>Overview, funnel, active pipeline, revenue\<close>

record health_counts =
  hc_business_line :: string
  hc_total_deals :: nat
  hc_open_deals :: nat
  hc_open_value :: rat
  hc_won_deals :: nat
  hc_won_value :: rat
  hc_lost_deals :: nat

definition health_row :: "string \<times> enriched list \<Rightarrow> health_counts" where
  "health_row g =
     \<lparr>hc_business_line = fst g, hc_total_deals = length (snd g),
      hc_open_deals = sql_count (is_type ''Open'') (snd g),
      hc_open_value = sql_sum (is_type ''Open'') VALUE_EXPR (snd g),
      hc_won_deals = sql_count (is_type ''Closed Won'') (snd g),
      hc_won_value = sql_sum (is_type ''Closed Won'') VALUE_EXPR (snd g),
      hc_lost_deals = sql_count (is_type ''Closed Lost'') (snd g)\<rparr>"

definition get_overview :: "sql_env \<Rightarrow> analytics_filters \<Rightarrow> int option \<Rightarrow> an_db \<Rightarrow> health_counts list" where
  "get_overview env f scope db = sort_key (sql_collate env \<circ> hc_business_line)
     (map health_row (group_rows line_of (where_rows f scope db)))"

record funnel_row =
  fn_business_line :: string
  fn_pipeline_id :: "int option"
  fn_pipeline_name :: "string option"
  fn_stage_id :: "int option"
  fn_stage_name :: "string option"
  fn_stage_position :: "int option"
  fn_forecast_type :: "string option"
  fn_deal_count :: nat
  fn_total_value :: rat

text \<open>
  The grouping columns: in \<open>GROUP BY\<close> the name \<open>business_line\<close> is the column of the
  view, in \<open>ORDER BY\<close> it is the output column.
\<close>

type_synonym funnel_key =
  "string option \<times> int option \<times> string option \<times> int option \<times> string option \<times> int option \<times> string option"

definition funnel_key :: "enriched \<Rightarrow> funnel_key" where
  "funnel_key r = (business_line r, ds_pipeline_id (de r), map_option pl_name (de_pipeline r),
     ds_stage_id (de r), map_option st_name (de_stage r), map_option st_position (de_stage r), forecast_type r)"

fun mk_funnel_row :: "funnel_key \<times> enriched list \<Rightarrow> funnel_row" where
  "mk_funnel_row ((b, p, pn, s, sn, pos, ft), g) =
     \<lparr>fn_business_line = default b ''Unassigned'', fn_pipeline_id = p, fn_pipeline_name = pn,
      fn_stage_id = s, fn_stage_name = sn, fn_stage_position = pos, fn_forecast_type = ft,
      fn_deal_count = length g, fn_total_value = sql_sum (\<lambda>_. True) VALUE_EXPR g\<rparr>"

definition get_pipeline_funnel :: "sql_env \<Rightarrow> analytics_filters \<Rightarrow> int option \<Rightarrow> an_db \<Rightarrow> funnel_row list" where
  "get_pipeline_funnel env f scope db =
     sort_key (sql_collate env \<circ> fn_business_line)
       (order_nulls_last (map_option (sql_collate env) \<circ> fn_pipeline_name)
         (order_nulls_last fn_stage_position
           (map mk_funnel_row (group_rows funnel_key (where_rows f scope db)))))"

definition exclude_reason :: "enriched \<Rightarrow> string option" where
  "exclude_reason r =
     (let st = default (map_option py_lower (text_col ''cf_deal_status'' r)) []
      in if contains ''dead'' st \<or> contains ''duplicate'' st then Some ''dead/duplicate''
         else case int_col ''age_days'' r of
           Some n \<Rightarrow> (if n > 730 then Some ''dormant (age > 730d)'' else None)
         | None \<Rightarrow> None)"

definition get_active_pipeline ::
    "analytics_filters \<Rightarrow> int option \<Rightarrow> an_db \<Rightarrow> (int \<times> rat option \<times> string option) list" where
  "get_active_pipeline f scope db =
     map (\<lambda>r. (ds_deal_id (de r), VALUE_EXPR r, exclude_reason r)) (open_where f scope db)"

record revenue_row =
  rv_business_line :: string
  rv_close_month :: "string option"
  rv_won_value :: rat
  rv_open_value :: rat
  rv_weighted_open_value :: rat

definition pad :: "nat \<Rightarrow> int \<Rightarrow> string" where
  "pad n i = (let s = show_int i in replicate (n - length s) (CHR ''0'') @ s)"

fun to_char_month :: "pydate \<Rightarrow> string" where
  "to_char_month (y, m, d) = pad 4 y @ ''-'' @ pad 2 m"

definition weighted_value :: "enriched \<Rightarrow> rat option" where
  "weighted_value r = map_option (\<lambda>v. v * default (Option.bind (de_stage r) st_probability) 0 / 100) (VALUE_EXPR r)"

fun mk_revenue_row :: "(string option \<times> string option) \<times> enriched list \<Rightarrow> revenue_row" where
  "mk_revenue_row ((b, m), g) =
     \<lparr>rv_business_line = default b ''Unassigned'', rv_close_month = m,
      rv_won_value = sql_sum (is_type ''Closed Won'') VALUE_EXPR g,
      rv_open_value = sql_sum (is_type ''Open'') VALUE_EXPR g,
      rv_weighted_open_value = sql_sum (is_type ''Open'') weighted_value g\<rparr>"

definition get_revenue_forecast :: "sql_env \<Rightarrow> analytics_filters \<Rightarrow> int option \<Rightarrow> an_db \<Rightarrow> revenue_row list" where
  "get_revenue_forecast env f scope db =
     sort_key (sql_collate env \<circ> rv_business_line)
       (order_nulls_last (map_option (sql_collate env) \<circ> rv_close_month)
         (map mk_revenue_row
           (group_rows (\<lambda>r. (business_line r, map_option to_char_month (date_col ''expected_close_date'' r)))
             (where_rows f scope db))))"

subsection \<open>Staleness and accountability\<close>

text \<open>The correlated subqueries on a row of the view.\<close>

definition tasks_of :: "an_db \<Rightarrow> enriched \<Rightarrow> task_snapshot list" where
  "tasks_of db r = filter (\<lambda>t. tk_deal_id t = Some (ds_deal_id (de r))) (map snd (an_tasks db))"

definition emails_of :: "an_db \<Rightarrow> enriched \<Rightarrow> email_activity list" where
  "emails_of db r = filter (\<lambda>e. em_deal_id e = ds_deal_id (de r)) (an_emails db)"

definition events_of :: "an_db \<Rightarrow> enriched \<Rightarrow> deal_event list" where
  "events_of db r = filter (\<lambda>e. ev_deal_id e = ds_deal_id (de r)) (deal_events (an_deals db))"

definition LAST_ACTIVITY :: "an_db \<Rightarrow> enriched \<Rightarrow> time option" where
  "LAST_ACTIVITY db r = greatest
     [time_col ''stage_updated_at'' r,
      greatest (map (\<lambda>t. greatest [tk_due_date t, tk_completed_date t]) (tasks_of db r)),
      greatest (map (Some \<circ> em_conversation_time) (emails_of db r)),
      greatest (map (Some \<circ> ev_occurred_at) (events_of db r))]"

definition is_open_task :: "task_snapshot \<Rightarrow> bool" where
  "is_open_task t \<longleftrightarrow> tk_status t = ''open''"

definition HAS_OPEN_TASK :: "an_db \<Rightarrow> enriched \<Rightarrow> bool" where
  "HAS_OPEN_TASK db r \<longleftrightarrow> (\<exists>t \<in> set (tasks_of db r). is_open_task t)"

definition OVERDUE_TASKS :: "sql_env \<Rightarrow> an_db \<Rightarrow> enriched \<Rightarrow> nat" where
  "OVERDUE_TASKS env db r = sql_count (\<lambda>t. is_open_task t \<and>
     (case tk_due_date t of None \<Rightarrow> False | Some due \<Rightarrow> due < sql_now env)) (tasks_of db r)"

definition HAS_FOLLOW_UP_DATE :: "an_db \<Rightarrow> enriched \<Rightarrow> bool" where
  "HAS_FOLLOW_UP_DATE db r \<longleftrightarrow> date_col ''expected_close_date'' r \<noteq> None \<or>
     (\<exists>t \<in> set (tasks_of db r). is_open_task t \<and> tk_due_date t \<noteq> None)"

definition since_move :: "sql_env \<Rightarrow> enriched \<Rightarrow> rat option" where
  "since_move env r = map_option (days_since env) (time_col ''stage_updated_at'' r)"

definition since_activity :: "sql_env \<Rightarrow> an_db \<Rightarrow> enriched \<Rightarrow> rat option" where
  "since_activity env db r = map_option (days_since env) (LAST_ACTIVITY db r)"

record staleness_row =
  sl_deal_id :: int
  sl_stage_name :: string
  sl_owner_name :: string
  sl_value :: "rat option"
  sl_since_move :: "rat option"
  sl_since_activity :: "rat option"

definition stage_name :: "enriched \<Rightarrow> string" where
  "stage_name r = default (map_option st_name (de_stage r)) ''Unknown''"

definition get_staleness :: "sql_env \<Rightarrow> analytics_filters \<Rightarrow> int option \<Rightarrow> an_db \<Rightarrow> staleness_row list" where
  "get_staleness env f scope db = map (\<lambda>r.
     \<lparr>sl_deal_id = ds_deal_id (de r), sl_stage_name = stage_name r, sl_owner_name = owner_name db r,
      sl_value = VALUE_EXPR r, sl_since_move = since_move env r, sl_since_activity = since_activity env db r\<rparr>)
     (open_where f scope db)"

record owner_row =
  or_owner_id :: "int option"
  or_owner_name :: string
  or_total_deals :: nat
  or_open_deals :: nat
  or_won_deals :: nat
  or_lost_deals :: nat
  or_open_value :: rat
  or_won_value :: rat
  or_stale_value :: rat
  or_no_next_action :: nat
  or_no_follow_up_date :: nat
  or_overdue_tasks :: nat
  or_no_recent_activity :: nat
  or_deals_progressed :: nat
  or_last_crm_update :: "time option"

definition days_us :: "int \<Rightarrow> time" where
  "days_us n = n * 86400000000"

definition progressed_recently :: "sql_env \<Rightarrow> int \<Rightarrow> an_db \<Rightarrow> enriched \<Rightarrow> bool" where
  "progressed_recently env stale_days db r \<longleftrightarrow>
     (\<exists>e \<in> set (events_of db r). ev_type e = StageChange \<and> ev_occurred_at e > sql_now env - days_us stale_days)"

definition longer_than :: "int \<Rightarrow> rat option \<Rightarrow> bool" where
  "longer_than n d = (case d of None \<Rightarrow> False | Some x \<Rightarrow> x > of_int n)"

definition mk_owner_row ::
    "sql_env \<Rightarrow> int \<Rightarrow> an_db \<Rightarrow> (int option \<times> string) \<times> enriched list \<Rightarrow> owner_row" where
  "mk_owner_row env stale_days db g =
     (let rs = snd g; opens = filter (is_type ''Open'') rs in
     \<lparr>or_owner_id = fst (fst g), or_owner_name = snd (fst g), or_total_deals = length rs,
      or_open_deals = length opens,
      or_won_deals = sql_count (is_type ''Closed Won'') rs,
      or_lost_deals = sql_count (is_type ''Closed Lost'') rs,
      or_open_value = sql_sum (is_type ''Open'') VALUE_EXPR rs,
      or_won_value = sql_sum (is_type ''Closed Won'') VALUE_EXPR rs,
      or_stale_value = sql_sum (\<lambda>r. longer_than stale_days (since_move env r)) VALUE_EXPR opens,
      or_no_next_action = sql_count (\<lambda>r. \<not> HAS_OPEN_TASK db r) opens,
      or_no_follow_up_date = sql_count (\<lambda>r. \<not> HAS_FOLLOW_UP_DATE db r) opens,
      or_overdue_tasks = sql_sum (\<lambda>_. True) (Some \<circ> OVERDUE_TASKS env db) opens,
      or_no_recent_activity =
        sql_count (\<lambda>r. default (since_activity env db r) 1000000000 > of_int stale_days) opens,
      or_deals_progressed = sql_count (progressed_recently env stale_days db) opens,
      or_last_crm_update = greatest (map (time_col ''stage_updated_at'') rs)\<rparr>)"

definition by_owner_key :: "an_db \<Rightarrow> enriched \<Rightarrow> int option \<times> string" where
  "by_owner_key db r = (ds_owner_id (de r), owner_name db r)"

definition get_owner_accountability ::
    "sql_env \<Rightarrow> analytics_filters \<Rightarrow> int option \<Rightarrow> an_db \<Rightarrow> owner_row list" where
  "get_owner_accountability env f scope db = sort_key (sql_collate env \<circ> or_owner_name)
     (map (mk_owner_row env (af_stale_days f) db) (group_rows (by_owner_key db) (where_rows f scope db)))"

record next_actions_row =
  na_open_deals :: nat
  na_with_next_task :: nat
  na_with_follow_up_date :: nat
  na_with_recent_activity :: nat
  na_overdue_tasks :: nat

definition get_next_actions ::
    "sql_env \<Rightarrow> analytics_filters \<Rightarrow> int option \<Rightarrow> an_db \<Rightarrow> next_actions_row" where
  "get_next_actions env f scope db = (let rs = open_where f scope db in
     \<lparr>na_open_deals = length rs,
      na_with_next_task = sql_count (HAS_OPEN_TASK db) rs,
      na_with_follow_up_date = sql_count (HAS_FOLLOW_UP_DATE db) rs,
      na_with_recent_activity =
        sql_count (\<lambda>r. default (since_activity env db r) 1000000000 \<le> of_int (af_stale_days f)) rs,
      na_overdue_tasks = sql_sum (\<lambda>_. True) (Some \<circ> OVERDUE_TASKS env db) rs\<rparr>)"

subsection \<open>Loss reasons and ageing\<close>

definition reason_name :: "an_db \<Rightarrow> enriched \<Rightarrow> string option" where
  "reason_name db r = map_option dr_name
     (Option.bind (int_col ''lost_reason_id'' r) (map_of (deal_reasons (an_ref db))))"

record loss_row =
  ls_reason :: string
  ls_lost_deals :: nat
  ls_lost_value :: rat

definition get_loss_reasons :: "analytics_filters \<Rightarrow> int option \<Rightarrow> an_db \<Rightarrow> loss_row list" where
  "get_loss_reasons f scope db = map (\<lambda>(n, g).
     \<lparr>ls_reason = default n [], ls_lost_deals = length g, ls_lost_value = sql_sum (\<lambda>_. True) VALUE_EXPR g\<rparr>)
     (group_rows (reason_name db) (filter (is_type ''Closed Lost'') (where_rows f scope db)))"

datatype ageing_group = ByStage | ByOwner

definition ageing_key :: "ageing_group \<Rightarrow> an_db \<Rightarrow> enriched \<Rightarrow> string" where
  "ageing_key grp db r = (case grp of ByOwner \<Rightarrow> owner_name db r | ByStage \<Rightarrow> stage_name r)"

record ageing_row =
  ag_key :: string
  ag_bucket_0_30 :: nat
  ag_bucket_30_90 :: nat
  ag_bucket_90_365 :: nat
  ag_bucket_365_plus :: nat

definition aged :: "(int \<Rightarrow> bool) \<Rightarrow> enriched \<Rightarrow> bool" where
  "aged p r = (case int_col ''age_days'' r of None \<Rightarrow> False | Some n \<Rightarrow> p n)"

definition mk_ageing_row :: "string \<times> enriched list \<Rightarrow> ageing_row" where
  "mk_ageing_row g = \<lparr>ag_key = fst g,
     ag_bucket_0_30 = sql_count (aged (\<lambda>n. n < 30)) (snd g),
     ag_bucket_30_90 = sql_count (aged (\<lambda>n. n \<ge> 30 \<and> n < 90)) (snd g),
     ag_bucket_90_365 = sql_count (aged (\<lambda>n. n \<ge> 90 \<and> n < 365)) (snd g),
     ag_bucket_365_plus = sql_count (aged (\<lambda>n. n \<ge> 365)) (snd g)\<rparr>"

definition get_ageing ::
    "sql_env \<Rightarrow> analytics_filters \<Rightarrow> int option \<Rightarrow> ageing_group \<Rightarrow> an_db \<Rightarrow> ageing_row list" where
  "get_ageing env f scope grp db = sort_key (sql_collate env \<circ> ag_key)
     (map mk_ageing_row (group_rows (ageing_key grp db) (open_where f scope db)))"

definition LOSS_CATEGORY_BY_REASON :: "string dict" where
  "LOSS_CATEGORY_BY_REASON =
     [(''price is too high'', ''pricing''), (''opted our rival'', ''competitor''),
      (''no proper follow-up'', ''poor follow-up''), (''appointment missed'', ''poor follow-up''),
      (''need only in future'', ''timing''), (''product not satisfying'', ''product mismatch''),
      (''not interested'', ''wrong target''), (''no requirement'', ''wrong target''),
      (''junk lead'', ''wrong target''), (''test'', ''uncategorised'')]"

definition categorize_loss_reason :: "string \<Rightarrow> string" where
  "categorize_loss_reason reason =
     (if py_strip reason = [] then ''no reason recorded''
      else default (map_of LOSS_CATEGORY_BY_REASON (py_lower (py_strip reason))) ''uncategorised'')"

subsection \<open>Data quality\<close>

record data_quality =
  dq_total_deals :: nat
  dq_missing_owner :: nat
  dq_missing_stage :: nat
  dq_missing_pipeline :: nat
  dq_missing_value :: nat
  dq_duplicate_name_deals :: nat

text \<open>\<open>lower(trim(name))\<close>: SQL's \<open>trim\<close> removes blanks only.\<close>

definition sql_trim :: "string \<Rightarrow> string" where
  "sql_trim s = rev (dropWhile ((=) CHR '' '') (rev (dropWhile ((=) CHR '' '') s)))"

definition name_key :: "enriched \<Rightarrow> string option" where
  "name_key r = map_option (py_lower \<circ> sql_trim) (text_col ''name'' r)"

definition get_data_quality :: "analytics_filters \<Rightarrow> int option \<Rightarrow> an_db \<Rightarrow> data_quality" where
  "get_data_quality f scope db = (let rs = where_rows f scope db in
     \<lparr>dq_total_deals = length rs,
      dq_missing_owner = sql_count (\<lambda>r. ds_owner_id (de r) = None) rs,
      dq_missing_stage = sql_count (\<lambda>r. ds_stage_id (de r) = None) rs,
      dq_missing_pipeline = sql_count (\<lambda>r. ds_pipeline_id (de r) = None) rs,
      dq_missing_value = sql_count (\<lambda>r. num_col ''base_currency_amount'' (de r) = None \<and>
        num_col ''amount'' (de r) = None) rs,
      dq_duplicate_name_deals = sum_list (filter (\<lambda>c. c > 1) (map (length \<circ> snd)
        (group_rows name_key (filter (\<lambda>r. text_col ''name'' r \<noteq> None) rs))))\<rparr>)"

subsection \<open>Trends, response times, renewals\<close>

record trend_row =
  tr_snapshot_date :: pydate
  tr_pipeline_name :: string
  tr_stage_name :: string
  tr_stage_position :: int
  tr_stage_id :: int
  tr_deal_count :: nat
  tr_total_value :: rat

definition get_trends_rows :: "analytics_filters \<Rightarrow> an_db \<Rightarrow> trend_row list" where
  "get_trends_rows f db = sort_key tr_snapshot_date (List.map_filter (\<lambda>((d, p, s), row).
     case (map_of (pipelines (an_ref db)) p, map_of (stages (an_ref db)) s) of
       (Some pl, Some st) \<Rightarrow>
         (if (case af_business_line f of None \<Rightarrow> True | Some b \<Rightarrow> pl_business_line pl = b) \<and>
             (case af_pipeline_id f of None \<Rightarrow> True | Some q \<Rightarrow> p = q)
          then Some \<lparr>tr_snapshot_date = d, tr_pipeline_name = pl_name pl, tr_stage_name = st_name st,
            tr_stage_position = st_position st, tr_stage_id = s, tr_deal_count = dy_deal_count row,
            tr_total_value = dy_total_value row\<rparr>
          else None)
     | _ \<Rightarrow> None) (an_daily db))"

definition first_outgoing :: "an_db \<Rightarrow> enriched \<Rightarrow> time option" where
  "first_outgoing db r =
     least (map em_conversation_time (filter (\<lambda>e. em_direction e = ''outgoing'') (emails_of db r)))"

definition had_outreach :: "an_db \<Rightarrow> enriched \<Rightarrow> bool" where
  "had_outreach db r \<longleftrightarrow> first_outgoing db r \<noteq> None \<and> time_col ''deal_created_at'' r \<noteq> None"

definition response_days :: "an_db \<Rightarrow> enriched \<Rightarrow> rat option" where
  "response_days db r = (case (first_outgoing db r, time_col ''deal_created_at'' r) of
     (Some t, Some c) \<Rightarrow> Some (of_int (t - c) / 86400000000) | _ \<Rightarrow> None)"

record response_row =
  rt_owner_id :: "int option"
  rt_owner_name :: string
  rt_deals_with_outreach :: nat
  rt_deals_without_outreach :: nat
  rt_avg_first_response_days :: "rat option"

definition mk_response_row :: "an_db \<Rightarrow> (int option \<times> string) \<times> enriched list \<Rightarrow> response_row" where
  "mk_response_row db g =
     \<lparr>rt_owner_id = fst (fst g), rt_owner_name = snd (fst g),
      rt_deals_with_outreach = sql_count (had_outreach db) (snd g),
      rt_deals_without_outreach = sql_count (\<lambda>r. first_outgoing db r = None) (snd g),
      rt_avg_first_response_days =
        sql_avg (\<lambda>r. case response_days db r of None \<Rightarrow> False | Some x \<Rightarrow> x \<ge> 0) (response_days db) (snd g)\<rparr>"

definition get_response_times ::
    "sql_env \<Rightarrow> analytics_filters \<Rightarrow> int option \<Rightarrow> an_db \<Rightarrow> response_row list" where
  "get_response_times env f scope db = sort_key (sql_collate env \<circ> rt_owner_name)
     (map (mk_response_row db) (group_rows (by_owner_key db) (where_rows f scope db)))"

record renewal_deal =
  rn_deal_id :: int
  rn_name :: "string option"
  rn_owner_id :: "int option"
  rn_business_line :: string
  rn_pipeline_name :: "string option"
  rn_cf_project :: "string option"
  rn_term_end_date :: pydate
  rn_days_until_expiry :: int
  rn_value :: "rat option"

definition renewal_due :: "sql_env \<Rightarrow> int \<Rightarrow> enriched \<Rightarrow> bool" where
  "renewal_due env within_days r = (case date_col ''cf_term_end_date'' r of None \<Rightarrow> False
     | Some d \<Rightarrow> \<not> is_type ''Closed Lost'' r \<and>
         epoch_day d \<le> epoch_day (sql_today env) + within_days \<and> epoch_day d \<ge> epoch_day (sql_today env) - 30)"

definition mk_renewal :: "sql_env \<Rightarrow> enriched \<Rightarrow> renewal_deal" where
  "mk_renewal env r = (let d = the (date_col ''cf_term_end_date'' r) in
     \<lparr>rn_deal_id = ds_deal_id (de r), rn_name = text_col ''name'' r, rn_owner_id = ds_owner_id (de r),
      rn_business_line = line_of r, rn_pipeline_name = map_option pl_name (de_pipeline r),
      rn_cf_project = text_col ''cf_project'' r, rn_term_end_date = d,
      rn_days_until_expiry = epoch_day d - epoch_day (sql_today env),
      rn_value = or_else (num_col ''cf_total_lease_amount'' (de r)) (VALUE_EXPR r)\<rparr>)"

definition get_renewals ::
    "sql_env \<Rightarrow> analytics_filters \<Rightarrow> int option \<Rightarrow> int \<Rightarrow> an_db \<Rightarrow> renewal_deal list" where
  "get_renewals env f scope within_days db = sort_key rn_term_end_date
     (map (mk_renewal env) (filter (renewal_due env within_days) (where_rows f scope db)))"

end
