(* ===== verification/Analytics_Api.thy ===== *)
theory Analytics_Api
  imports Analytics
begin

section \<open>The analytics endpoints\<close>

text \<open>
  Model of \<open>app/api/v1/endpoints/analytics.py\<close>. Every route runs as \<open>get_current_user\<close>
  and \<open>get_owner_scope\<close> let it; the answer carries the watermark \<open>data_as_of\<close>.
  \<open>/website\<close>, which reads a Google API, is not modelled.
\<close>

subsection \<open>Rounding and Python dicts\<close>

text \<open>\<open>round(x, 1)\<close> on the exact quotient: half to even.\<close>

definition round_half_even :: "rat \<Rightarrow> int" where
  "round_half_even x = (let f = \<lfloor>x\<rfloor>; d = x - of_int f in
     if d < 1 / 2 then f else if d > 1 / 2 then f + 1 else if even f then f else f + 1)"

definition round1 :: "rat \<Rightarrow> rat" where
  "round1 x = of_int (round_half_even (10 * x)) / 10"

definition win_rate :: "nat \<Rightarrow> nat \<Rightarrow> rat option" where
  "win_rate won lost = (if won + lost = 0 then None else Some (of_nat won / of_nat (won + lost)))"

definition pct :: "nat \<Rightarrow> nat \<Rightarrow> rat" where
  "pct part whole = (if whole = 0 then 0 else round1 (100 * of_nat part / of_nat whole))"

text \<open>
  A \<open>defaultdict(lambda: [0, 0.0])\<close> filled row by row: \<open>bump k n v\<close> adds to the count
  and to the value of a key, new keys at the end.
\<close>

definition bump :: "'k \<Rightarrow> nat \<Rightarrow> rat \<Rightarrow> ('k \<times> nat \<times> rat) list \<Rightarrow> ('k \<times> nat \<times> rat) list" where
  "bump k n v d = (case map_of d k of None \<Rightarrow> d @ [(k, n, v)]
     | Some (m, w) \<Rightarrow> AList.update k (m + n, w + v) d)"

definition tally :: "('r \<Rightarrow> 'k) \<Rightarrow> ('r \<Rightarrow> nat) \<Rightarrow> ('r \<Rightarrow> rat) \<Rightarrow> 'r list \<Rightarrow> ('k \<times> nat \<times> rat) list" where
  "tally key n v rs = fold (\<lambda>r. bump (key r) (n r) (v r)) rs []"

subsection \<open>Responses\<close>

record 'b analytics_response =
  ar_data_as_of :: "time option"
  ar_body :: 'b

text \<open>
  Authentication first, then the owner scope, then the query parameters; a parameter out
  of range is a 422.
\<close>

definition with_scope :: "user http \<Rightarrow> bool \<Rightarrow> (int option \<Rightarrow> 'b) \<Rightarrow> an_db \<Rightarrow> 'b analytics_response http" where
  "with_scope caller params_ok body db = http_then (get_owner_scope caller) (\<lambda>scope.
     if params_ok then HttpOk 200 \<lparr>ar_data_as_of = get_data_as_of db, ar_body = body scope\<rparr>
     else HttpError 422 ''Unprocessable Entity'')"

definition data_freshness :: "user http \<Rightarrow> an_db \<Rightarrow> data_freshness_row analytics_response http" where
  "data_freshness caller db = http_then caller (\<lambda>u.
     HttpOk 200 \<lparr>ar_data_as_of = get_data_as_of db, ar_body = get_data_freshness db\<rparr>)"

definition leads_status :: "user http \<Rightarrow> an_db \<Rightarrow> bool analytics_response http" where
  "leads_status caller db = http_then caller (\<lambda>u.
     HttpOk 200 \<lparr>ar_data_as_of = get_data_as_of db, ar_body = False\<rparr>)"

definition lead_source :: "user http \<Rightarrow> analytics_filters \<Rightarrow> an_db \<Rightarrow> bool analytics_response http" where
  "lead_source caller f db = with_scope caller (valid_filters f) (\<lambda>scope. False) db"

record business_line_health =
  bh_counts :: health_counts
  bh_win_rate :: "rat option"
  bh_is_blended :: bool

definition to_health :: "health_counts \<Rightarrow> business_line_health" where
  "to_health r = \<lparr>bh_counts = r, bh_win_rate = win_rate (hc_won_deals r) (hc_lost_deals r), bh_is_blended = False\<rparr>"

definition blended :: "health_counts list \<Rightarrow> business_line_health" where
  "blended rs = (let total = (\<lambda>g. sum_list (map g rs)) in
     \<lparr>bh_counts = \<lparr>hc_business_line = ''All business lines'', hc_total_deals = total hc_total_deals,
        hc_open_deals = total hc_open_deals, hc_open_value = sum_list (map hc_open_value rs),
        hc_won_deals = total hc_won_deals, hc_won_value = sum_list (map hc_won_value rs),
        hc_lost_deals = total hc_lost_deals\<rparr>,
      bh_win_rate = win_rate (total hc_won_deals) (total hc_lost_deals), bh_is_blended = True\<rparr>)"

definition with_blended :: "health_counts list \<Rightarrow> business_line_health list" where
  "with_blended rs = map to_health rs @ (if rs = [] then [] else [blended rs])"

definition overview ::
    "sql_env \<Rightarrow> user http \<Rightarrow> analytics_filters \<Rightarrow> an_db \<Rightarrow> business_line_health list analytics_response http" where
  "overview env caller f db =
     with_scope caller (valid_filters f) (\<lambda>scope. with_blended (get_overview env f scope db)) db"

definition pipeline_report ::
    "sql_env \<Rightarrow> user http \<Rightarrow> analytics_filters \<Rightarrow> an_db \<Rightarrow> funnel_row list analytics_response http" where
  "pipeline_report env caller f db =
     with_scope caller (valid_filters f) (\<lambda>scope. get_pipeline_funnel env f scope db) db"

record active_pipeline_body =
  ap_live_deals :: nat
  ap_live_value :: rat
  ap_excluded_count :: nat
  ap_excluded :: "(int \<times> string) list"

definition mk_active :: "(int \<times> rat option \<times> string option) list \<Rightarrow> active_pipeline_body" where
  "mk_active rows =
     (let live = filter (\<lambda>(k, v, reason). reason = None) rows;
          excluded = filter (\<lambda>(k, v, reason). reason \<noteq> None) rows in
     \<lparr>ap_live_deals = length live, ap_live_value = sum_list (map (\<lambda>(k, v, reason). default v 0) live),
      ap_excluded_count = length excluded,
      ap_excluded = map (\<lambda>(k, v, reason). (k, the reason)) excluded\<rparr>)"

definition active_pipeline ::
    "user http \<Rightarrow> analytics_filters \<Rightarrow> an_db \<Rightarrow> active_pipeline_body analytics_response http" where
  "active_pipeline caller f db =
     with_scope caller (valid_filters f) (\<lambda>scope. mk_active (get_active_pipeline f scope db)) db"

definition revenue ::
    "sql_env \<Rightarrow> user http \<Rightarrow> analytics_filters \<Rightarrow> an_db \<Rightarrow> revenue_row list analytics_response http" where
  "revenue env caller f db =
     with_scope caller (valid_filters f) (\<lambda>scope. get_revenue_forecast env f scope db) db"

record staleness_body =
  sb_stale_days :: int
  sb_open_deals :: nat
  sb_stale_by_stage_move :: nat
  sb_stale_value :: rat
  sb_no_activity :: nat
  sb_by_stage :: "(string \<times> nat \<times> rat) list"
  sb_by_owner :: "(string \<times> nat \<times> rat) list"

definition by_value :: "(string \<times> nat \<times> rat) list \<Rightarrow> (string \<times> nat \<times> rat) list" where
  "by_value d = sort_key (\<lambda>(k, n, v). - v) d"

definition mk_staleness :: "int \<Rightarrow> staleness_row list \<Rightarrow> staleness_body" where
  "mk_staleness threshold rows =
     (let stale = filter (\<lambda>r. longer_than threshold (sl_since_move r)) rows;
          value = (\<lambda>r. default (sl_value r) 0) in
     \<lparr>sb_stale_days = threshold, sb_open_deals = length rows, sb_stale_by_stage_move = length stale,
      sb_stale_value = sum_list (map value stale),
      sb_no_activity = length (filter (\<lambda>r. longer_than threshold (sl_since_activity r)) rows),
      sb_by_stage = by_value (tally sl_stage_name (\<lambda>_. 1) value stale),
      sb_by_owner = by_value (tally sl_owner_name (\<lambda>_. 1) value stale)\<rparr>)"

definition staleness ::
    "sql_env \<Rightarrow> user http \<Rightarrow> analytics_filters \<Rightarrow> an_db \<Rightarrow> staleness_body analytics_response http" where
  "staleness env caller f db = with_scope caller (valid_filters f)
     (\<lambda>scope. mk_staleness (af_stale_days f) (get_staleness env f scope db)) db"

definition owners_report ::
    "sql_env \<Rightarrow> user http \<Rightarrow> analytics_filters \<Rightarrow> an_db \<Rightarrow> (owner_row \<times> rat option) list analytics_response http" where
  "owners_report env caller f db = with_scope caller (valid_filters f)
     (\<lambda>scope. map (\<lambda>r. (r, win_rate (or_won_deals r) (or_lost_deals r))) (get_owner_accountability env f scope db)) db"

record next_actions_body =
  nb_row :: next_actions_row
  nb_with_next_task_pct :: rat
  nb_with_follow_up_date_pct :: rat
  nb_with_recent_activity_pct :: rat

definition mk_next_actions :: "next_actions_row \<Rightarrow> next_actions_body" where
  "mk_next_actions r = \<lparr>nb_row = r,
     nb_with_next_task_pct = pct (na_with_next_task r) (na_open_deals r),
     nb_with_follow_up_date_pct = pct (na_with_follow_up_date r) (na_open_deals r),
     nb_with_recent_activity_pct = pct (na_with_recent_activity r) (na_open_deals r)\<rparr>"

definition next_actions ::
    "sql_env \<Rightarrow> user http \<Rightarrow> analytics_filters \<Rightarrow> an_db \<Rightarrow> next_actions_body analytics_response http" where
  "next_actions env caller f db = with_scope caller (valid_filters f)
     (\<lambda>scope. mk_next_actions (get_next_actions env f scope db)) db"

record loss_reasons_body =
  lb_total_lost :: nat
  lb_no_reason_pct :: rat
  lb_categories :: "(string \<times> nat \<times> rat) list"

definition mk_loss_reasons :: "loss_row list \<Rightarrow> loss_reasons_body" where
  "mk_loss_reasons rows =
     (let total = sum_list (map ls_lost_deals rows);
          no_reason = sum_list (map ls_lost_deals (filter (\<lambda>r. ls_reason r = []) rows)) in
     \<lparr>lb_total_lost = total, lb_no_reason_pct = pct no_reason total,
      lb_categories = sort_key (\<lambda>(k, n, v). - int n)
        (tally (categorize_loss_reason \<circ> ls_reason) ls_lost_deals ls_lost_value rows)\<rparr>)"

definition loss_reasons ::
    "user http \<Rightarrow> analytics_filters \<Rightarrow> an_db \<Rightarrow> loss_reasons_body analytics_response http" where
  "loss_reasons caller f db =
     with_scope caller (valid_filters f) (\<lambda>scope. mk_loss_reasons (get_loss_reasons f scope db)) db"

definition ageing ::
    "sql_env \<Rightarrow> user http \<Rightarrow> analytics_filters \<Rightarrow> an_db \<Rightarrow> (ageing_row list \<times> ageing_row list) analytics_response http" where
  "ageing env caller f db = with_scope caller (valid_filters f)
     (\<lambda>scope. (get_ageing env f scope ByStage db, get_ageing env f scope ByOwner db)) db"

definition data_quality_report ::
    "user http \<Rightarrow> analytics_filters \<Rightarrow> an_db \<Rightarrow> data_quality analytics_response http" where
  "data_quality_report caller f db =
     with_scope caller (valid_filters f) (\<lambda>scope. get_data_quality f scope db) db"

record renewals_body =
  rb_within_days :: int
  rb_upcoming_count :: nat
  rb_overdue_count :: nat
  rb_total_value :: rat
  rb_renewals :: "renewal_deal list"

definition mk_renewals :: "int \<Rightarrow> renewal_deal list \<Rightarrow> renewals_body" where
  "mk_renewals within_days ds = (let overdue = length (filter (\<lambda>d. rn_days_until_expiry d < 0) ds) in
     \<lparr>rb_within_days = within_days, rb_upcoming_count = length ds - overdue, rb_overdue_count = overdue,
      rb_total_value = sum_list (map (\<lambda>d. default (rn_value d) 0) ds), rb_renewals = ds\<rparr>)"

definition renewals ::
    "sql_env \<Rightarrow> user http \<Rightarrow> analytics_filters \<Rightarrow> int \<Rightarrow> an_db \<Rightarrow> renewals_body analytics_response http" where
  "renewals env caller f within_days db =
     with_scope caller (valid_filters f \<and> 1 \<le> within_days \<and> within_days \<le> 1095)
       (\<lambda>scope. mk_renewals within_days (get_renewals env f scope within_days db)) db"

subsection \<open>Trends\<close>

record stage_trend =
  sg_pipeline_name :: string
  sg_stage_name :: string
  sg_stage_position :: int
  sg_current_deal_count :: nat
  sg_current_value :: rat
  sg_prev_deal_count :: nat
  sg_prev_value :: rat
  sg_value_delta :: rat

record trends_body =
  tb_current_date :: "pydate option"
  tb_comparison_date :: "pydate option"
  tb_series :: "(pydate \<times> nat \<times> rat) list"
  tb_week_over_week :: "stage_trend list"

text \<open>The dict comprehension over the rows of one day: of two rows of a stage the later counts.\<close>

definition rows_by_stage :: "pydate option \<Rightarrow> trend_row list \<Rightarrow> (int \<times> trend_row) list" where
  "rows_by_stage day rows = fold (\<lambda>r. AList.update (tr_stage_id r) r)
     (filter (\<lambda>r. Some (tr_snapshot_date r) = day) rows) []"

definition mk_stage_trend :: "(int \<times> trend_row) list \<Rightarrow> int \<times> trend_row \<Rightarrow> stage_trend" where
  "mk_stage_trend previous e =
     (let row = snd e; prev = map_of previous (fst e);
          prev_value = default (map_option tr_total_value prev) 0 in
     \<lparr>sg_pipeline_name = tr_pipeline_name row, sg_stage_name = tr_stage_name row,
      sg_stage_position = tr_stage_position row, sg_current_deal_count = tr_deal_count row,
      sg_current_value = tr_total_value row,
      sg_prev_deal_count = default (map_option tr_deal_count prev) 0, sg_prev_value = prev_value,
      sg_value_delta = tr_total_value row - prev_value\<rparr>)"

definition mk_trends :: "trend_row list \<Rightarrow> trends_body" where
  "mk_trends rows =
     (let series_map = tally tr_snapshot_date tr_deal_count tr_total_value rows;
          series = sort_key fst series_map;
          current_date = (case series of [] \<Rightarrow> None | _ \<Rightarrow> Some (fst (last series)));
          comparison_date = Option.bind current_date (\<lambda>c.
            greatest (map Some (filter (\<lambda>d. epoch_day d \<le> epoch_day c - 7) (map fst series))));
          current = rows_by_stage current_date rows;
          previous = (if comparison_date = None then [] else rows_by_stage comparison_date rows) in
     \<lparr>tb_current_date = current_date, tb_comparison_date = comparison_date, tb_series = series,
      tb_week_over_week = sort_key (\<lambda>r. (sg_pipeline_name r, sg_stage_position r))
        (map (mk_stage_trend previous) current)\<rparr>)"

definition trends ::
    "user http \<Rightarrow> analytics_filters \<Rightarrow> an_db \<Rightarrow> trends_body analytics_response http" where
  "trends caller f db = with_scope caller (valid_filters f) (\<lambda>scope. mk_trends (get_trends_rows f db)) db"

subsection \<open>Response times\<close>

definition outreach_sum :: "response_row list \<Rightarrow> rat" where
  "outreach_sum rs = sum_list (List.map_filter (\<lambda>r.
     map_option (\<lambda>a. a * of_nat (rt_deals_with_outreach r)) (rt_avg_first_response_days r)) rs)"

definition overall_response :: "response_row list \<Rightarrow> rat option" where
  "overall_response rs = (let total = sum_list (map rt_deals_with_outreach rs) in
     if total = 0 then None else Some (round1 (outreach_sum rs / of_nat total)))"

definition response_times ::
    "sql_env \<Rightarrow> user http \<Rightarrow> analytics_filters \<Rightarrow> an_db
      \<Rightarrow> (rat option \<times> response_row list) analytics_response http" where
  "response_times env caller f db = with_scope caller (valid_filters f)
     (\<lambda>scope. let rs = get_response_times env f scope db in (overall_response rs, rs)) db"

end
