(* ===== verification/Analytics_Safety.thy ===== *)
theory Analytics_Safety
  imports Analytics_Api "HOL-Library.Multiset"
begin

section \<open>What the analytics answers promise\<close>

text \<open>
  Grouping and tallying lose nothing, so the parts of a report add up to its totals; and a
  representative's reports depend on nothing but the deals linked to them.
\<close>

subsection \<open>Aggregation\<close>

lemma set_dict_keys [simp]: "set (dict_keys ks) = set ks"
  by (simp add: dict_keys_def)

lemma distinct_dict_keys [simp]: "distinct (dict_keys ks)"
  by (simp add: dict_keys_def)

lemma map_fst_group_rows [simp]: "map fst (group_rows key rs) = dict_keys (map key rs)"
  by (simp add: group_rows_def comp_def)

lemma in_group_rowsD: "g \<in> set (group_rows key rs) \<Longrightarrow> set (snd g) \<subseteq> set rs"
  by (auto simp: group_rows_def)

lemma sum_over_keys:
  fixes w :: "'r \<Rightarrow> 'n :: comm_monoid_add"
  assumes "finite K" "key ` set rs \<subseteq> K"
  shows "(\<Sum>k\<in>K. sum_list (map w (filter (\<lambda>r. key r = k) rs))) = sum_list (map w rs)"
  using assms(2)
proof (induction rs)
  case (Cons r rs)
  have "(\<Sum>k\<in>K. sum_list (map w (filter (\<lambda>r. key r = k) (r # rs)))) =
      (\<Sum>k\<in>K. (if k = key r then w r else 0) + sum_list (map w (filter (\<lambda>r. key r = k) rs)))"
    by (rule sum.cong) auto
  also have "\<dots> = (\<Sum>k\<in>K. if k = key r then w r else 0) + sum_list (map w rs)"
    using Cons by (simp add: sum.distrib)
  finally show ?case using Cons.prems assms(1) by simp
qed simp

lemma sum_group_rows:
  fixes w :: "'r \<Rightarrow> 'n :: comm_monoid_add"
  shows "sum_list (map (\<lambda>g. sum_list (map w (snd g))) (group_rows key rs)) = sum_list (map w rs)"
proof -
  have "sum_list (map (\<lambda>g. sum_list (map w (snd g))) (group_rows key rs)) =
      sum_list (map (\<lambda>k. sum_list (map w (filter (\<lambda>r. key r = k) rs))) (dict_keys (map key rs)))"
    by (simp add: group_rows_def comp_def)
  also have "\<dots> = (\<Sum>k\<in>set (dict_keys (map key rs)). sum_list (map w (filter (\<lambda>r. key r = k) rs)))"
    by (rule sum_list_distinct_conv_sum_set) (rule distinct_dict_keys)
  also have "\<dots> = sum_list (map w rs)" by (rule sum_over_keys) simp_all
  finally show ?thesis .
qed

lemma sum_list_sort_key:
  fixes w :: "'r \<Rightarrow> 'n :: comm_monoid_add"
  shows "sum_list (map w (sort_key k rs)) = sum_list (map w rs)"
  by (metis mset_map mset_sort sum_mset_sum_list)

lemma sql_count_sum: "sql_count p rs = sum_list (map (\<lambda>r. if p r then 1 else 0) rs)"
  by (induction rs) (simp_all add: sql_count_def)

lemma sql_sum_sum:
  "sql_sum p v rs = sum_list (map (\<lambda>r. if p r then default (v r) 0 else 0) rs)"
  by (induction rs) (auto simp: sql_sum_def List.map_filter_def default_def split: option.splits)

lemma length_sum: "length rs = sum_list (map (\<lambda>_. 1) rs)"
  by (induction rs) simp_all

text \<open>\<open>tally\<close>: what a loop adds to its dict is what the dict holds.\<close>

lemma map_fst_bump: "map fst (bump k n v d) = (if k \<in> fst ` set d then map fst d else map fst d @ [k])"
  by (auto simp: bump_def update_keys split: option.splits dest: map_of_SomeD simp: map_of_eq_None_iff)

lemma distinct_bump: "distinct (map fst d) \<Longrightarrow> distinct (map fst (bump k n v d))"
  by (simp add: map_fst_bump)

lemma sum_update:
  fixes w :: "'v \<Rightarrow> 'n :: ab_group_add"
  shows "distinct (map fst d) \<Longrightarrow> map_of d k = Some old \<Longrightarrow>
    sum_list (map (w \<circ> snd) (AList.update k new d)) = sum_list (map (w \<circ> snd) d) - w old + w new"
  by (induction d) (auto split: if_splits simp: algebra_simps)

lemma sum_bump_value:
  "distinct (map fst d) \<Longrightarrow> sum_list (map (snd \<circ> snd) (bump k n v d)) = sum_list (map (snd \<circ> snd) d) + v"
  by (auto simp: bump_def sum_update split: option.splits)

lemma sum_bump_count:
  assumes "distinct (map fst d)"
  shows "int (sum_list (map (fst \<circ> snd) (bump k n v d))) = int (sum_list (map (fst \<circ> snd) d)) + int n"
proof (cases "map_of d k")
  case (Some old)
  have "sum_list (map ((int \<circ> fst) \<circ> snd) (AList.update k (fst old + n, snd old + v) d)) =
      sum_list (map ((int \<circ> fst) \<circ> snd) d) + int n"
    using sum_update [OF assms Some, of "int \<circ> fst" "(fst old + n, snd old + v)"] by simp
  moreover have "int (sum_list (map (fst \<circ> snd) e)) = sum_list (map ((int \<circ> fst) \<circ> snd) e)" for e :: "('a \<times> nat \<times> rat) list"
    by (induction e) simp_all
  moreover have "old = (fst old, snd old)" by simp
  ultimately show ?thesis using Some by (auto simp: bump_def comp_def split: prod.splits)
qed (simp add: bump_def)

lemma fold_bump:
  assumes "distinct (map fst d)"
  shows "distinct (map fst (fold (\<lambda>r. bump (key r) (n r) (v r)) rs d)) \<and>
    sum_list (map (fst \<circ> snd) (fold (\<lambda>r. bump (key r) (n r) (v r)) rs d)) =
      sum_list (map (fst \<circ> snd) d) + sum_list (map n rs) \<and>
    sum_list (map (snd \<circ> snd) (fold (\<lambda>r. bump (key r) (n r) (v r)) rs d)) =
      sum_list (map (snd \<circ> snd) d) + sum_list (map v rs)"
  using assms
proof (induction rs arbitrary: d)
  case (Cons r rs)
  have "sum_list (map (fst \<circ> snd) (bump (key r) (n r) (v r) d)) = sum_list (map (fst \<circ> snd) d) + n r"
    using sum_bump_count [OF Cons.prems, of "key r" "n r" "v r"] by linarith
  then show ?case
    using Cons.IH [OF distinct_bump [OF Cons.prems]] sum_bump_value [OF Cons.prems, of "key r" "n r" "v r"] by (simp add: comp_def)
qed simp

lemma distinct_tally: "distinct (map fst (tally key n v rs))"
  using fold_bump [of "[]" key n v rs] by (simp add: tally_def)

lemma sum_tally:
  "sum_list (map (fst \<circ> snd) (tally key n v rs)) = sum_list (map n rs)"
  "sum_list (map (snd \<circ> snd) (tally key n v rs)) = sum_list (map v rs)"
  using fold_bump [of "[]" key n v rs] by (simp_all add: tally_def)

subsection \<open>The owner scope\<close>

definition own_deals :: "int \<Rightarrow> an_db \<Rightarrow> (int \<times> deal_snapshot) list" where
  "own_deals k db = filter (\<lambda>(i, d). ds_owner_id d = Some k) (deals (an_deals db))"

definition own_ids :: "int \<Rightarrow> an_db \<Rightarrow> int set" where
  "own_ids k db = ds_deal_id ` snd ` set (own_deals k db)"

text \<open>What a representative may learn: their deals, what happened on them, the reference data.\<close>

record own_data =
  own_deal_rows :: "(int \<times> deal_snapshot) list"
  own_tasks :: "(int \<times> task_snapshot) list"
  own_emails :: "email_activity list"
  own_events :: "deal_event list"
  own_ref :: ref_db
  own_watermark :: "time option"

definition own_view :: "int \<Rightarrow> an_db \<Rightarrow> own_data" where
  "own_view k db = \<lparr>own_deal_rows = own_deals k db,
     own_tasks = filter (\<lambda>(i, t). \<exists>j \<in> own_ids k db. tk_deal_id t = Some j) (an_tasks db),
     own_emails = filter (\<lambda>e. em_deal_id e \<in> own_ids k db) (an_emails db),
     own_events = filter (\<lambda>e. ev_deal_id e \<in> own_ids k db) (deal_events (an_deals db)),
     own_ref = an_ref db, own_watermark = get_data_as_of db\<rparr>"

lemma rep_rows:
  "where_rows f (Some k) db =
     filter (build_filters f (Some k)) (map (enrich (an_ref db)) (map snd (own_deals k db)))"
proof -
  have "build_filters f (Some k) r \<Longrightarrow> ds_owner_id (de r) = Some k" for r
    by (simp add: build_filters_def)
  moreover have "de (enrich ref d) = d" for ref d by (simp add: enrich_def)
  ultimately have sel: "build_filters f (Some k) (enrich ref d) \<Longrightarrow> ds_owner_id d = Some k" for ref d by metis
  have "filter (build_filters f (Some k)) (map (enrich ref) (map snd ds)) =
      filter (build_filters f (Some k)) (map (enrich ref) (map snd (filter (\<lambda>(i, d). ds_owner_id d = Some k) ds)))"
    for ref ds
    by (induction ds) (auto dest: sel)
  then show ?thesis by (simp add: where_rows_def deals_enriched_def own_deals_def)
qed

lemma own_viewD:
  assumes "own_view k db1 = own_view k db2"
  shows "own_deals k db1 = own_deals k db2" "an_ref db1 = an_ref db2" "get_data_as_of db1 = get_data_as_of db2"
    "own_ids k db1 = own_ids k db2"
  using assms by (simp_all add: own_view_def own_ids_def)

lemma rep_rows_eq: "own_view k db1 = own_view k db2 \<Longrightarrow> where_rows f (Some k) db1 = where_rows f (Some k) db2"
  using own_viewD(1,2) [of k db1 db2] by (simp add: rep_rows)

lemma rep_row_own: "r \<in> set (where_rows f (Some k) db) \<Longrightarrow> ds_deal_id (de r) \<in> own_ids k db"
proof -
  assume "r \<in> set (where_rows f (Some k) db)"
  then obtain d where d: "d \<in> snd ` set (own_deals k db)" and "r = enrich (an_ref db) d"
    by (auto simp: rep_rows)
  then have "de r = d" by (simp add: enrich_def)
  with d show "ds_deal_id (de r) \<in> own_ids k db" by (simp add: own_ids_def)
qed

lemma filter_subset:
  assumes "filter P xs = filter P ys" and "\<And>x. Q x \<Longrightarrow> P x"
  shows "filter Q xs = filter Q ys"
proof -
  have "filter Q zs = filter Q (filter P zs)" for zs
    using assms(2) by (induction zs) auto
  then show ?thesis using assms(1) by metis
qed

lemma filter_map_snd: "filter Q (map snd xs) = map snd (filter (\<lambda>(i, x). Q x) xs)"
  by (induction xs) auto

text \<open>On a row of the representative every correlated subquery sees the same rows.\<close>

lemma rep_subqueries:
  assumes eq: "own_view k db1 = own_view k db2" and r: "r \<in> set (where_rows f (Some k) db1)"
  shows "tasks_of db1 r = tasks_of db2 r" "emails_of db1 r = emails_of db2 r" "events_of db1 r = events_of db2 r"
proof -
  have own: "ds_deal_id (de r) \<in> own_ids k db1" by (rule rep_row_own [OF r])
  have views: "filter (\<lambda>(i, t). \<exists>j \<in> own_ids k db1. tk_deal_id t = Some j) (an_tasks db1) =
      filter (\<lambda>(i, t). \<exists>j \<in> own_ids k db1. tk_deal_id t = Some j) (an_tasks db2)"
    "filter (\<lambda>e. em_deal_id e \<in> own_ids k db1) (an_emails db1) = filter (\<lambda>e. em_deal_id e \<in> own_ids k db1) (an_emails db2)"
    "filter (\<lambda>e. ev_deal_id e \<in> own_ids k db1) (deal_events (an_deals db1)) =
      filter (\<lambda>e. ev_deal_id e \<in> own_ids k db1) (deal_events (an_deals db2))"
    using eq unfolding own_view_def own_viewD(4) [OF eq] by simp_all
  have "filter (\<lambda>(i, t). tk_deal_id t = Some (ds_deal_id (de r))) (an_tasks db1) =
      filter (\<lambda>(i, t). tk_deal_id t = Some (ds_deal_id (de r))) (an_tasks db2)"
    by (rule filter_subset [OF views(1)]) (use own in auto)
  then show "tasks_of db1 r = tasks_of db2 r" by (simp add: tasks_of_def filter_map_snd)
  show "emails_of db1 r = emails_of db2 r"
    unfolding emails_of_def by (rule filter_subset [OF views(2)]) (use own in simp)
  show "events_of db1 r = events_of db2 r"
    unfolding events_of_def by (rule filter_subset [OF views(3)]) (use own in simp)
qed

lemma sql_count_cong: "(\<And>r. r \<in> set rs \<Longrightarrow> p r = q r) \<Longrightarrow> sql_count p rs = sql_count q rs"
  by (simp add: sql_count_def cong: filter_cong)

lemma map_filter_cong: "(\<And>x. x \<in> set xs \<Longrightarrow> v x = w x) \<Longrightarrow> List.map_filter v xs = List.map_filter w xs"
  by (induction xs) (auto simp: List.map_filter_simps split: option.splits)

lemma map_filter_filter_cong:
  assumes "\<And>r. r \<in> set rs \<Longrightarrow> p r = q r" and "\<And>r. r \<in> set rs \<Longrightarrow> v r = w r"
  shows "List.map_filter v (filter p rs) = List.map_filter w (filter q rs)"
proof -
  have "filter p rs = filter q rs" using assms(1) by (rule filter_cong [OF refl])
  then show ?thesis using assms(2) by (auto intro: map_filter_cong)
qed

lemma sql_sum_cong:
  "(\<And>r. r \<in> set rs \<Longrightarrow> p r = q r) \<Longrightarrow> (\<And>r. r \<in> set rs \<Longrightarrow> v r = w r) \<Longrightarrow> sql_sum p v rs = sql_sum q w rs"
  unfolding sql_sum_def by (rule arg_cong [OF map_filter_filter_cong])

lemma sql_avg_cong:
  "(\<And>r. r \<in> set rs \<Longrightarrow> p r = q r) \<Longrightarrow> (\<And>r. r \<in> set rs \<Longrightarrow> v r = w r) \<Longrightarrow> sql_avg p v rs = sql_avg q w rs"
  unfolding sql_avg_def by (simp only: map_filter_filter_cong [of rs p q v w])

lemma map_groups_cong:
  assumes "\<And>k rs'. set rs' \<subseteq> set rs \<Longrightarrow> h (k, rs') = h' (k, rs')"
  shows "map h (group_rows key rs) = map h' (group_rows key rs)"
proof (rule map_cong [OF refl])
  fix g
  assume "g \<in> set (group_rows key rs)"
  then have "set (snd g) \<subseteq> set rs" by (rule in_group_rowsD)
  then show "h g = h' g" using assms [of "snd g" "fst g"] by simp
qed

text \<open>The functions of a row that look into other tables, on the rows of two databases.\<close>

lemma rep_row_functions:
  assumes eq: "own_view k db1 = own_view k db2" and r: "r \<in> set (where_rows f (Some k) db1)"
  shows "since_activity env db1 r = since_activity env db2 r" "HAS_OPEN_TASK db1 r = HAS_OPEN_TASK db2 r"
    "HAS_FOLLOW_UP_DATE db1 r = HAS_FOLLOW_UP_DATE db2 r" "OVERDUE_TASKS env db1 r = OVERDUE_TASKS env db2 r"
    "progressed_recently env n db1 r = progressed_recently env n db2 r"
    "first_outgoing db1 r = first_outgoing db2 r"
  using rep_subqueries [OF eq r]
  by (simp_all add: since_activity_def LAST_ACTIVITY_def HAS_OPEN_TASK_def HAS_FOLLOW_UP_DATE_def
      OVERDUE_TASKS_def progressed_recently_def first_outgoing_def)

lemma rep_owner_names:
  assumes "own_view k db1 = own_view k db2"
  shows "owner_name db1 = owner_name db2" "by_owner_key db1 = by_owner_key db2"
    "ageing_key g db1 = ageing_key g db2" "reason_name db1 = reason_name db2"
proof -
  show names: "owner_name db1 = owner_name db2" by (simp add: fun_eq_iff owner_name_def own_viewD [OF assms])
  show "by_owner_key db1 = by_owner_key db2" by (simp add: fun_eq_iff by_owner_key_def names)
  show "ageing_key g db1 = ageing_key g db2" by (simp add: fun_eq_iff ageing_key_def names split: ageing_group.splits)
  show "reason_name db1 = reason_name db2" by (simp add: fun_eq_iff reason_name_def own_viewD [OF assms])
qed

lemma rep_open_rows: "set (open_where f s db) \<subseteq> set (where_rows f s db)"
  by (auto simp: open_where_def)

lemma rep_owner_row:
  assumes eq: "own_view k db1 = own_view k db2" and rs: "set rs \<subseteq> set (where_rows f (Some k) db1)"
  shows "mk_owner_row env n db1 (key, rs) = mk_owner_row env n db2 (key, rs)"
proof -
  have "r \<in> set (filter (is_type ''Open'') rs) \<Longrightarrow> r \<in> set (where_rows f (Some k) db1)" for r
    using rs by auto
  note row = rep_row_functions [OF eq this]
  show ?thesis
    unfolding mk_owner_row_def Let_def
    by (intro owner_row.ext_inject [THEN iffD2] conjI sql_count_cong sql_sum_cong refl)
      (simp_all add: row del: set_filter)
qed

lemma rep_response_row:
  assumes eq: "own_view k db1 = own_view k db2" and rs: "set rs \<subseteq> set (where_rows f (Some k) db1)"
  shows "mk_response_row db1 (key, rs) = mk_response_row db2 (key, rs)"
proof -
  have "first_outgoing db1 r = first_outgoing db2 r" if "r \<in> set rs" for r
    by (rule rep_row_functions(6) [OF eq]) (use rs that in auto)
  then show ?thesis
    unfolding mk_response_row_def had_outreach_def response_days_def
    by (intro response_row.ext_inject [THEN iffD2] conjI sql_count_cong sql_avg_cong refl) simp_all
qed

lemma with_scope_rep:
  assumes "us_role u = ''rep''" "us_owner_id u = Some k" "own_view k db1 = own_view k db2"
    and "b1 (Some k) = b2 (Some k)"
  shows "with_scope (HttpOk n u) ok b1 db1 = with_scope (HttpOk n u) ok b2 db2"
  using assms(1,2,4) own_viewD(3) [OF assms(3)] by (simp add: with_scope_def get_owner_scope_def)

lemma rep_next_actions:
  assumes eq: "own_view k db1 = own_view k db2"
  shows "get_next_actions env f (Some k) db1 = get_next_actions env f (Some k) db2"
proof -
  have rows: "open_where f (Some k) db2 = open_where f (Some k) db1"
    by (simp add: open_where_def rep_rows_eq [OF eq])
  have "r \<in> set (open_where f (Some k) db1) \<Longrightarrow> r \<in> set (where_rows f (Some k) db1)" for r
    using rep_open_rows by auto
  note row = rep_row_functions [OF eq this]
  show ?thesis unfolding get_next_actions_def Let_def rows
    by (intro next_actions_row.ext_inject [THEN iffD2] conjI sql_count_cong sql_sum_cong refl) (simp_all add: row)
qed

lemma rep_staleness:
  assumes eq: "own_view k db1 = own_view k db2"
  shows "get_staleness env f (Some k) db1 = get_staleness env f (Some k) db2"
proof -
  have rows: "open_where f (Some k) db2 = open_where f (Some k) db1"
    by (simp add: open_where_def rep_rows_eq [OF eq])
  have "since_activity env db1 r = since_activity env db2 r" if "r \<in> set (open_where f (Some k) db1)" for r
    by (rule rep_row_functions(1) [OF eq]) (use rep_open_rows that in auto)
  then show ?thesis by (simp add: get_staleness_def rows rep_owner_names(1) [OF eq])
qed

text \<open>C25: a representative linked to an owner sees nothing of other owners' deals: every report
  but the trends is the same on two databases that agree on the deals linked to that
  owner, on the tasks, e-mails and events of those deals, on the reference data and on
  the watermark, whatever filters the request carries.\<close>

theorem rep_sees_only_own_deals:
  assumes u: "us_role u = ''rep''" "us_owner_id u = Some k" and eq: "own_view k db1 = own_view k db2"
  shows "overview env (HttpOk n u) f db1 = overview env (HttpOk n u) f db2 \<and>
    pipeline_report env (HttpOk n u) f db1 = pipeline_report env (HttpOk n u) f db2 \<and>
    active_pipeline (HttpOk n u) f db1 = active_pipeline (HttpOk n u) f db2 \<and>
    revenue env (HttpOk n u) f db1 = revenue env (HttpOk n u) f db2 \<and>
    staleness env (HttpOk n u) f db1 = staleness env (HttpOk n u) f db2 \<and>
    owners_report env (HttpOk n u) f db1 = owners_report env (HttpOk n u) f db2 \<and>
    next_actions env (HttpOk n u) f db1 = next_actions env (HttpOk n u) f db2 \<and>
    loss_reasons (HttpOk n u) f db1 = loss_reasons (HttpOk n u) f db2 \<and>
    ageing env (HttpOk n u) f db1 = ageing env (HttpOk n u) f db2 \<and>
    data_quality_report (HttpOk n u) f db1 = data_quality_report (HttpOk n u) f db2 \<and>
    response_times env (HttpOk n u) f db1 = response_times env (HttpOk n u) f db2 \<and>
    renewals env (HttpOk n u) f w db1 = renewals env (HttpOk n u) f w db2"
proof -
  note rows = rep_rows_eq [OF eq, symmetric] and names = rep_owner_names [OF eq, symmetric]
  have "get_owner_accountability env f (Some k) db1 = get_owner_accountability env f (Some k) db2"
    unfolding get_owner_accountability_def rows names
    by (rule arg_cong [OF map_groups_cong]) (rule rep_owner_row [OF eq], simp add: rows)
  moreover have "get_response_times env f (Some k) db1 = get_response_times env f (Some k) db2"
    unfolding get_response_times_def rows names
    by (rule arg_cong [OF map_groups_cong]) (rule rep_response_row [OF eq], simp add: rows)
  ultimately show ?thesis
    unfolding overview_def pipeline_report_def active_pipeline_def revenue_def staleness_def owners_report_def
      next_actions_def loss_reasons_def ageing_def data_quality_report_def response_times_def renewals_def
    by (intro conjI with_scope_rep [OF u eq])
      (simp_all add: rep_staleness [OF eq] rep_next_actions [OF eq] get_overview_def get_pipeline_funnel_def
        get_active_pipeline_def get_revenue_forecast_def get_loss_reasons_def get_ageing_def open_where_def
        get_data_quality_def get_renewals_def rows names)
qed

subsection \<open>Reports that add up\<close>

lemma sum_report:
  fixes w :: "'r \<Rightarrow> 'n :: comm_monoid_add"
  assumes "\<And>k g. h (mk (k, g)) = sum_list (map w g)"
  shows "sum_list (map h (sort_key ord (map mk (group_rows key rs)))) = sum_list (map w rs)"
proof -
  have "h (mk g) = sum_list (map w (snd g))" for g by (cases g) (simp add: assms)
  then show ?thesis by (simp add: sum_list_sort_key comp_def sum_group_rows)
qed

lemma health_row_simps:
  "hc_total_deals (health_row (k, g)) = sum_list (map (\<lambda>_. 1) g)"
  "hc_open_deals (health_row (k, g)) = sum_list (map (\<lambda>r. if is_type ''Open'' r then 1 else 0) g)"
  "hc_won_deals (health_row (k, g)) = sum_list (map (\<lambda>r. if is_type ''Closed Won'' r then 1 else 0) g)"
  "hc_lost_deals (health_row (k, g)) = sum_list (map (\<lambda>r. if is_type ''Closed Lost'' r then 1 else 0) g)"
  "hc_open_value (health_row (k, g)) = sum_list (map (\<lambda>r. if is_type ''Open'' r then default (VALUE_EXPR r) 0 else 0) g)"
  "hc_won_value (health_row (k, g)) = sum_list (map (\<lambda>r. if is_type ''Closed Won'' r then default (VALUE_EXPR r) 0 else 0) g)"
  by (simp_all add: health_row_def sql_count_sum sql_sum_sum length_sum)

lemma overview_sums:
  "sum_list (map hc_total_deals (get_overview env f s db)) = length (where_rows f s db)"
  "sum_list (map hc_open_deals (get_overview env f s db)) = sql_count (is_type ''Open'') (where_rows f s db)"
  "sum_list (map hc_won_deals (get_overview env f s db)) = sql_count (is_type ''Closed Won'') (where_rows f s db)"
  "sum_list (map hc_lost_deals (get_overview env f s db)) = sql_count (is_type ''Closed Lost'') (where_rows f s db)"
  unfolding get_overview_def sql_count_sum
  by (simp_all only: length_sum [of "where_rows f s db"] sum_report [where mk = health_row, OF health_row_simps(1)]
      sum_report [where mk = health_row, OF health_row_simps(2)] sum_report [where mk = health_row, OF health_row_simps(3)]
      sum_report [where mk = health_row, OF health_row_simps(4)])

lemma overview_values:
  "sum_list (map hc_open_value (get_overview env f s db)) = sql_sum (is_type ''Open'') VALUE_EXPR (where_rows f s db)"
  "sum_list (map hc_won_value (get_overview env f s db)) = sql_sum (is_type ''Closed Won'') VALUE_EXPR (where_rows f s db)"
  unfolding get_overview_def sql_sum_sum
  by (simp_all only: sum_report [where mk = health_row, OF health_row_simps(5)]
      sum_report [where mk = health_row, OF health_row_simps(6)])

lemma overview_lines:
  "set (map hc_business_line (get_overview env f s db)) = line_of ` set (where_rows f s db)"
  "distinct (map hc_business_line (get_overview env f s db))"
proof -
  have "hc_business_line \<circ> health_row = fst" by (simp add: fun_eq_iff health_row_def)
  then have keys: "map hc_business_line (map health_row (group_rows line_of rs)) = dict_keys (map line_of rs)" for rs
    by (simp only: map_map [of hc_business_line health_row] map_fst_group_rows)
  show "set (map hc_business_line (get_overview env f s db)) = line_of ` set (where_rows f s db)"
    unfolding get_overview_def set_map set_sort using arg_cong [OF keys, of set "where_rows f s db"] by (simp add: image_image)
  show "distinct (map hc_business_line (get_overview env f s db))"
    using distinct_dict_keys [of "map line_of (where_rows f s db)"] unfolding get_overview_def keys [symmetric]
    by (simp only: distinct_map distinct_sort set_sort)
qed

text \<open>C27: the overview counts every deal the request selects exactly once: there is one line per
  business line (deals of none under Unassigned), and the closing blended line counts
  exactly the selected deals and sums exactly their values.\<close>

theorem overview_counts_every_deal_once:
  assumes "get_owner_scope caller = HttpOk m scope" "valid_filters f" "where_rows f scope db \<noteq> []"
  shows "\<exists>ls t. overview env caller f db = HttpOk 200 \<lparr>ar_data_as_of = get_data_as_of db, ar_body = ls @ [t]\<rparr> \<and>
    distinct (map (hc_business_line \<circ> bh_counts) ls) \<and>
    set (map (hc_business_line \<circ> bh_counts) ls) = line_of ` set (where_rows f scope db) \<and>
    hc_total_deals (bh_counts t) = length (where_rows f scope db) \<and>
    hc_open_deals (bh_counts t) = sql_count (is_type ''Open'') (where_rows f scope db) \<and>
    hc_won_deals (bh_counts t) = sql_count (is_type ''Closed Won'') (where_rows f scope db) \<and>
    hc_lost_deals (bh_counts t) = sql_count (is_type ''Closed Lost'') (where_rows f scope db) \<and>
    hc_open_value (bh_counts t) = sql_sum (is_type ''Open'') VALUE_EXPR (where_rows f scope db) \<and>
    hc_won_value (bh_counts t) = sql_sum (is_type ''Closed Won'') VALUE_EXPR (where_rows f scope db)"
proof (intro exI conjI)
  let ?rows = "get_overview env f scope db"
  have "?rows \<noteq> []" using assms(3) overview_lines(1) [of env f scope db] by auto
  then show "overview env caller f db = HttpOk 200 \<lparr>ar_data_as_of = get_data_as_of db,
      ar_body = map to_health ?rows @ [blended ?rows]\<rparr>"
    using assms(1,2) by (simp add: overview_def with_scope_def with_blended_def)
  have lines: "map (hc_business_line \<circ> bh_counts) (map to_health ?rows) = map hc_business_line ?rows"
    by (simp add: to_health_def)
  show "distinct (map (hc_business_line \<circ> bh_counts) (map to_health ?rows))"
    unfolding lines by (rule overview_lines)
  show "set (map (hc_business_line \<circ> bh_counts) (map to_health ?rows)) = line_of ` set (where_rows f scope db)"
    unfolding lines by (rule overview_lines)
qed (simp_all add: blended_def overview_sums overview_values)

lemma sum_if_filter: "sum_list (map (\<lambda>r. if p r \<and> q r then w r else 0) rs) =
    sum_list (map (\<lambda>r. if q r then w r else (0 :: 'n :: monoid_add)) (filter p rs))"
  by (induction rs) auto

lemma owner_row_simps:
  "or_open_deals (mk_owner_row env n db (k, g)) = sum_list (map (\<lambda>r. if is_type ''Open'' r then 1 else 0) g)"
  "or_stale_value (mk_owner_row env n db (k, g)) =
    sum_list (map (\<lambda>r. if is_type ''Open'' r \<and> longer_than n (since_move env r) then default (VALUE_EXPR r) 0 else 0) g)"
  "or_no_recent_activity (mk_owner_row env n db (k, g)) = sum_list (map (\<lambda>r. if is_type ''Open'' r \<and>
    default (since_activity env db r) 1000000000 > of_int n then 1 else 0) g)"
  by (simp_all add: mk_owner_row_def Let_def sql_count_sum [unfolded sql_count_def] sql_count_sum sql_sum_sum
      sum_if_filter)

lemma sum_if: "sum_list (map (\<lambda>r. if q r then w r else (0 :: 'n :: monoid_add)) rs) = sum_list (map w (filter q rs))"
  by (induction rs) auto

lemma owner_sums:
  "sum_list (map or_open_deals (get_owner_accountability env f s db)) = length (open_where f s db)"
  "sum_list (map or_stale_value (get_owner_accountability env f s db)) =
    sum_list (map (\<lambda>r. default (VALUE_EXPR r) 0)
      (filter (\<lambda>r. longer_than (af_stale_days f) (since_move env r)) (open_where f s db)))"
  "sum_list (map or_no_recent_activity (get_owner_accountability env f s db)) =
    sql_count (\<lambda>r. default (since_activity env db r) 1000000000 > of_int (af_stale_days f)) (open_where f s db)"
  unfolding get_owner_accountability_def
  by (simp_all only: sum_report [where mk = "mk_owner_row env (af_stale_days f) db", OF owner_row_simps(1)]
      sum_report [where mk = "mk_owner_row env (af_stale_days f) db", OF owner_row_simps(2)]
      sum_report [where mk = "mk_owner_row env (af_stale_days f) db", OF owner_row_simps(3)]
      open_where_def sum_if_filter sum_if)
    (simp_all add: length_sum sql_count_def)

lemma no_activity_split:
  assumes "n < 1000000000"
  shows "sql_count (\<lambda>r. default (a r) 1000000000 > of_int n) rs =
    sql_count (\<lambda>r. longer_than n (a r)) rs + sql_count (\<lambda>r. a r = None) rs"
  using assms by (induction rs) (auto simp: sql_count_def longer_than_def default_def split: option.splits)

lemma mk_staleness_of_rows:
  "sb_open_deals (mk_staleness n (get_staleness env f s db)) = length (open_where f s db)"
  "sb_stale_by_stage_move (mk_staleness n (get_staleness env f s db)) =
    sql_count (\<lambda>r. longer_than n (since_move env r)) (open_where f s db)"
  "sb_stale_value (mk_staleness n (get_staleness env f s db)) = sum_list (map (\<lambda>r. default (VALUE_EXPR r) 0)
    (filter (\<lambda>r. longer_than n (since_move env r)) (open_where f s db)))"
  "sb_no_activity (mk_staleness n (get_staleness env f s db)) =
    sql_count (\<lambda>r. longer_than n (since_activity env db r)) (open_where f s db)"
  by (simp_all add: mk_staleness_def get_staleness_def sql_count_def filter_map comp_def Let_def)

lemma staleness_tallies:
  "sum_list (map (fst \<circ> snd) (sb_by_stage (mk_staleness n rs))) = sb_stale_by_stage_move (mk_staleness n rs)"
  "sum_list (map (fst \<circ> snd) (sb_by_owner (mk_staleness n rs))) = sb_stale_by_stage_move (mk_staleness n rs)"
  "sum_list (map (snd \<circ> snd) (sb_by_stage (mk_staleness n rs))) = sb_stale_value (mk_staleness n rs)"
  "sum_list (map (snd \<circ> snd) (sb_by_owner (mk_staleness n rs))) = sb_stale_value (mk_staleness n rs)"
  by (simp_all add: mk_staleness_def by_value_def Let_def sum_list_sort_key sum_tally sum_list_triv)

text \<open>C26: the accountability reports agree. Broken down by stage or by owner, the stale deals and
  their value add up to the totals of the staleness report; the owners' open deals and
  stale values add up to the same; with recent activity and without make up the open
  deals. Only the staleness report's own no-activity figure is smaller than the owners'
  together: it leaves out exactly the open deals that never had any activity.\<close>

theorem accountability_reports_agree:
  assumes caller: "get_owner_scope caller = HttpOk m scope" and valid: "valid_filters f"
  shows "\<exists>s os na. staleness env caller f db = HttpOk 200 \<lparr>ar_data_as_of = get_data_as_of db, ar_body = s\<rparr> \<and>
    owners_report env caller f db = HttpOk 200 \<lparr>ar_data_as_of = get_data_as_of db, ar_body = os\<rparr> \<and>
    next_actions env caller f db = HttpOk 200 \<lparr>ar_data_as_of = get_data_as_of db, ar_body = na\<rparr> \<and>
    sum_list (map (fst \<circ> snd) (sb_by_stage s)) = sb_stale_by_stage_move s \<and>
    sum_list (map (fst \<circ> snd) (sb_by_owner s)) = sb_stale_by_stage_move s \<and>
    sum_list (map (snd \<circ> snd) (sb_by_stage s)) = sb_stale_value s \<and>
    sum_list (map (snd \<circ> snd) (sb_by_owner s)) = sb_stale_value s \<and>
    sum_list (map (or_stale_value \<circ> fst) os) = sb_stale_value s \<and>
    sum_list (map (or_open_deals \<circ> fst) os) = sb_open_deals s \<and>
    sb_open_deals s = na_open_deals (nb_row na) \<and>
    sum_list (map (or_no_recent_activity \<circ> fst) os) + na_with_recent_activity (nb_row na) = sb_open_deals s \<and>
    sum_list (map (or_no_recent_activity \<circ> fst) os) =
      sb_no_activity s + sql_count (\<lambda>r. since_activity env db r = None) (open_where f scope db)"
proof -
  let ?s = "mk_staleness (af_stale_days f) (get_staleness env f scope db)"
  let ?os = "map (\<lambda>r. (r, win_rate (or_won_deals r) (or_lost_deals r))) (get_owner_accountability env f scope db)"
  let ?na = "mk_next_actions (get_next_actions env f scope db)"
  have os: "map (h \<circ> fst) ?os = map h (get_owner_accountability env f scope db)" for h :: "owner_row \<Rightarrow> 'h"
    by simp
  have n: "af_stale_days f < 1000000000" using valid by (simp add: valid_filters_def)
  have "sql_count (\<lambda>r. x r > of_int k) rs + sql_count (\<lambda>r. x r \<le> of_int k) rs = length rs"
    for x :: "enriched \<Rightarrow> rat" and k rs
    by (induction rs) (auto simp: sql_count_def)
  then have recent: "sum_list (map (or_no_recent_activity \<circ> fst) ?os) + na_with_recent_activity (nb_row ?na) = sb_open_deals ?s"
    by (simp only: os owner_sums mk_staleness_of_rows) (simp add: mk_next_actions_def get_next_actions_def Let_def)
  have "sum_list (map (or_no_recent_activity \<circ> fst) ?os) =
      sb_no_activity ?s + sql_count (\<lambda>r. since_activity env db r = None) (open_where f scope db)"
    by (simp only: os owner_sums mk_staleness_of_rows no_activity_split [OF n])
  with recent show ?thesis
    using caller valid
    by (intro exI [of _ ?s] exI [of _ ?os] exI [of _ ?na] conjI)
      (simp_all only: os owner_sums mk_staleness_of_rows staleness_tallies,
       simp_all add: staleness_def owners_report_def next_actions_def with_scope_def mk_next_actions_def
        get_next_actions_def Let_def)
qed

subsection \<open>Response times\<close>

lemma response_days_None: "response_days db r = None \<longleftrightarrow> \<not> had_outreach db r"
  by (auto simp: response_days_def had_outreach_def split: option.splits)

lemma map_filter_length: "length (List.map_filter v rs) = sql_count (\<lambda>r. v r \<noteq> None) rs"
  by (induction rs) (auto simp: List.map_filter_simps sql_count_def split: option.splits)

lemma map_filter_sum: "sum_list (List.map_filter v rs) = sum_list (map (\<lambda>r. default (v r) (0 :: 'n :: monoid_add)) rs)"
  by (induction rs) (auto simp: List.map_filter_simps default_def split: option.splits)

lemma outreach_count: "sql_count (had_outreach db) rs = length (List.map_filter (response_days db) rs)"
  by (simp add: map_filter_length response_days_None)

text \<open>An owner's average times its weight is the owner's total, when the average is over the deals counted.\<close>

lemma owner_total:
  assumes "\<And>r x. r \<in> set rs \<Longrightarrow> response_days db r = Some x \<Longrightarrow> x \<ge> 0"
  shows "default (map_option (\<lambda>a. a * of_nat (rt_deals_with_outreach (mk_response_row db (key, rs))))
      (rt_avg_first_response_days (mk_response_row db (key, rs)))) 0 =
    sum_list (map (\<lambda>r. default (response_days db r) 0) rs)"
proof -
  let ?xs = "List.map_filter (response_days db) rs"
  have "filter (\<lambda>r. case response_days db r of None \<Rightarrow> False | Some x \<Rightarrow> x \<ge> 0) rs =
      filter (\<lambda>r. response_days db r \<noteq> None) rs"
    by (rule filter_cong [OF refl]) (use assms in \<open>auto split: option.splits\<close>)
  moreover have "List.map_filter v (filter (\<lambda>r. v r \<noteq> None) zs) = List.map_filter v zs"
    for v :: "enriched \<Rightarrow> rat option" and zs
    by (induction zs) (auto simp: List.map_filter_simps)
  ultimately have "rt_avg_first_response_days (mk_response_row db (key, rs)) =
      (case ?xs of [] \<Rightarrow> None | xs \<Rightarrow> Some (sum_list xs / of_nat (length xs)))"
    by (simp add: mk_response_row_def sql_avg_def)
  moreover have "rt_deals_with_outreach (mk_response_row db (key, rs)) = length ?xs"
    by (simp add: mk_response_row_def outreach_count)
  ultimately have "default (map_option (\<lambda>a. a * of_nat (rt_deals_with_outreach (mk_response_row db (key, rs))))
      (rt_avg_first_response_days (mk_response_row db (key, rs)))) 0 = sum_list ?xs"
    by (cases ?xs) (simp_all add: default_def)
  then show ?thesis by (simp add: map_filter_sum)
qed

text \<open>The overall response time is the mean over the deals with outreach, provided no deal's
  first outgoing e-mail precedes the deal's creation.\<close>

theorem overall_response_is_deal_mean:
  assumes "get_owner_scope caller = HttpOk m scope" "valid_filters f"
    and "\<And>r x. r \<in> set (where_rows f scope db) \<Longrightarrow> response_days db r = Some x \<Longrightarrow> x \<ge> 0"
  shows "response_times env caller f db = HttpOk 200 \<lparr>ar_data_as_of = get_data_as_of db,
    ar_body = (map_option round1 (sql_avg (\<lambda>r. True) (response_days db) (where_rows f scope db)),
      get_response_times env f scope db)\<rparr>"
proof -
  let ?rows = "where_rows f scope db" and ?os = "get_response_times env f scope db"
  have "outreach_sum ?os = sum_list (map (\<lambda>o'. default (map_option (\<lambda>a. a * of_nat (rt_deals_with_outreach o'))
      (rt_avg_first_response_days o')) 0) ?os)"
    by (simp add: outreach_sum_def map_filter_sum)
  also have "\<dots> = sum_list (map (\<lambda>g. sum_list (map (\<lambda>r. default (response_days db r) 0) (snd g)))
      (group_rows (by_owner_key db) ?rows))"
    unfolding get_response_times_def sum_list_sort_key map_map comp_def
  proof (intro arg_cong [where f = sum_list] map_cong refl)
    fix g
    assume "g \<in> set (group_rows (by_owner_key db) ?rows)"
    then have "set (snd g) \<subseteq> set ?rows" by (rule in_group_rowsD)
    with assms(3) have "\<And>r x. r \<in> set (snd g) \<Longrightarrow> response_days db r = Some x \<Longrightarrow> x \<ge> 0" by blast
    then show "default (map_option (\<lambda>a. a * of_nat (rt_deals_with_outreach (mk_response_row db g)))
        (rt_avg_first_response_days (mk_response_row db g))) 0 =
        sum_list (map (\<lambda>r. default (response_days db r) 0) (snd g))"
      using owner_total [of "snd g" db "fst g"] by simp
  qed
  also have "\<dots> = sum_list (List.map_filter (response_days db) ?rows)"
    by (simp add: sum_group_rows map_filter_sum)
  finally have total: "outreach_sum ?os = sum_list (List.map_filter (response_days db) ?rows)" .
  have "rt_deals_with_outreach (mk_response_row db (k, g)) = sum_list (map (\<lambda>r. if had_outreach db r then 1 else 0) g)" for k g
    by (simp add: mk_response_row_def sql_count_sum)
  then have "sum_list (map rt_deals_with_outreach ?os) = length (List.map_filter (response_days db) ?rows)"
    unfolding get_response_times_def by (simp only: sum_report [where mk = "mk_response_row db"])
      (simp add: sql_count_sum [symmetric] outreach_count)
  with total have "overall_response ?os = map_option round1 (sql_avg (\<lambda>r. True) (response_days db) ?rows)"
    by (cases "List.map_filter (response_days db) ?rows") (simp_all add: overall_response_def sql_avg_def Let_def)
  with assms(1,2) show ?thesis by (simp add: response_times_def with_scope_def)
qed

subsection \<open>Concrete reports\<close>

definition sample_deal :: "int \<Rightarrow> int \<Rightarrow> time \<Rightarrow> deal_snapshot" where
  "sample_deal k ow created = \<lparr>ds_deal_id = k, ds_pipeline_id = Some 1, ds_stage_id = Some 2, ds_owner_id = Some ow,
     ds_cols = [''base_currency_amount'' \<mapsto> CNum 100, ''deal_created_at'' \<mapsto> CTime created,
       ''stage_updated_at'' \<mapsto> CTime created],
     ds_updated_at = 0, ds_last_synced_at = 0\<rparr>"

definition sample_mail :: "int \<Rightarrow> time \<Rightarrow> email_activity" where
  "sample_mail k t = \<lparr>em_deal_id = k, em_direction = ''outgoing'', em_conversation_time = t,
     em_subject = None, em_raw_payload = []\<rparr>"

definition sample_ref :: ref_db where
  "sample_ref = \<lparr>
     pipelines = [(1, \<lparr>pl_id = 1, pl_name = ''Leasing'', pl_business_line = ''Leasing'', pl_is_default = True,
       pl_is_active = True, pl_view_id = None, pl_updated_at = 0\<rparr>)],
     stages = [(2, \<lparr>st_id = 2, st_pipeline_id = 1, st_name = ''New'', st_position = 1,
       st_forecast_type = ''Open'', st_probability = None, st_updated_at = 0\<rparr>)],
     owners = [], deal_reasons = []\<rparr>"

definition sample_db :: "deal_snapshot list \<Rightarrow> email_activity list \<Rightarrow> an_db" where
  "sample_db ds ems = \<lparr>an_ref = sample_ref,
     an_deals = \<lparr>deals = map (\<lambda>d. (ds_deal_id d, d)) ds, deal_events = []\<rparr>,
     an_tasks = [], an_emails = ems, an_daily = []\<rparr>"

definition no_filters :: analytics_filters where
  "no_filters = \<lparr>af_business_line = None, af_pipeline_id = None, af_owner_id = None, af_stale_days = 30, af_as_of = None\<rparr>"

definition sample_env :: sql_env where
  "sample_env = \<lparr>sql_now = 40 * 86400000000, sql_today = (2026, 1, 1), sql_collate = id\<rparr>"

definition sample_user :: "string \<Rightarrow> int option \<Rightarrow> user" where
  "sample_user role ow = \<lparr>us_email = ''a@b'', us_role = role, us_owner_id = ow, us_hashed_password = None,
     us_must_change_password = False\<rparr>"

definition day :: time where "day = 86400000000"

theorem rep_sees_only_own_deals_witness:
  "overview sample_env (HttpOk 200 (sample_user ''rep'' (Some 7))) no_filters (sample_db [sample_deal 1 7 0] []) =
   overview sample_env (HttpOk 200 (sample_user ''rep'' (Some 7))) no_filters
     (sample_db [sample_deal 1 7 0, sample_deal 2 8 0] [sample_mail 2 5])"
proof -
  let ?u = "sample_user ''rep'' (Some 7)"
  have own: "own_deals 7 (sample_db [sample_deal 1 7 0] []) = [(1, sample_deal 1 7 0)]"
    "own_deals 7 (sample_db [sample_deal 1 7 0, sample_deal 2 8 0] [sample_mail 2 5]) = [(1, sample_deal 1 7 0)]"
    by (simp_all add: own_deals_def sample_db_def sample_deal_def)
  have "own_view 7 (sample_db [sample_deal 1 7 0] []) =
      own_view 7 (sample_db [sample_deal 1 7 0, sample_deal 2 8 0] [sample_mail 2 5])"
    unfolding own_view_def own_ids_def own
    by (simp add: sample_db_def sample_mail_def sample_deal_def get_data_as_of_def greatest_def map_filter_simps)
  moreover have "us_role ?u = ''rep''" "us_owner_id ?u = Some 7" by (simp_all add: sample_user_def)
  ultimately show ?thesis using rep_sees_only_own_deals by blast
qed

theorem overview_counts_every_deal_once_witness:
  "\<exists>ls t. overview sample_env (HttpOk 200 (sample_user ''admin'' None)) no_filters
      (sample_db [sample_deal 1 7 0, sample_deal 2 8 0] []) = HttpOk 200 \<lparr>ar_data_as_of = Some 0, ar_body = ls @ [t]\<rparr> \<and>
    hc_open_deals (bh_counts t) = 2 \<and> hc_open_value (bh_counts t) = 200"
proof -
  let ?db = "sample_db [sample_deal 1 7 0, sample_deal 2 8 0] []"
  have "where_rows no_filters None ?db \<noteq> []" "valid_filters no_filters"
    "get_owner_scope (HttpOk 200 (sample_user ''admin'' None)) = HttpOk 200 None"
    "sql_count (is_type ''Open'') (where_rows no_filters None ?db) = 2"
    "sql_sum (is_type ''Open'') VALUE_EXPR (where_rows no_filters None ?db) = 200"
    "get_data_as_of ?db = Some 0"
    by code_simp+
  then show ?thesis using overview_counts_every_deal_once [of _ 200 None no_filters ?db sample_env] by metis
qed

theorem accountability_reports_agree_witness:
  "\<exists>s os. staleness sample_env (HttpOk 200 (sample_user ''admin'' None)) no_filters
      (sample_db [sample_deal 1 7 0, sample_deal 2 8 (20 * day)] []) = HttpOk 200 \<lparr>ar_data_as_of = Some 0, ar_body = s\<rparr> \<and>
    owners_report sample_env (HttpOk 200 (sample_user ''admin'' None)) no_filters
      (sample_db [sample_deal 1 7 0, sample_deal 2 8 (20 * day)] []) = HttpOk 200 \<lparr>ar_data_as_of = Some 0, ar_body = os\<rparr> \<and>
    sum_list (map (or_stale_value \<circ> fst) os) = sb_stale_value s"
proof -
  let ?db = "sample_db [sample_deal 1 7 0, sample_deal 2 8 (20 * day)] []"
  have "valid_filters no_filters" "get_data_as_of ?db = Some 0"
    "get_owner_scope (HttpOk 200 (sample_user ''admin'' None)) = HttpOk 200 None"
    by code_simp+
  then show ?thesis using accountability_reports_agree [of _ 200 None no_filters sample_env ?db] by metis
qed

theorem overall_response_is_deal_mean_witness:
  "\<exists>os. response_times sample_env (HttpOk 200 (sample_user ''admin'' None)) no_filters
      (sample_db [sample_deal 1 7 0, sample_deal 2 8 0] [sample_mail 1 (2 * day), sample_mail 2 (5 * day)]) =
    HttpOk 200 \<lparr>ar_data_as_of = Some 0, ar_body = (Some (7 / 2), os)\<rparr>"
proof -
  let ?db = "sample_db [sample_deal 1 7 0, sample_deal 2 8 0] [sample_mail 1 (2 * day), sample_mail 2 (5 * day)]"
  have "list_all (\<lambda>r. case response_days ?db r of None \<Rightarrow> True | Some x \<Rightarrow> x \<ge> 0) (where_rows no_filters None ?db)"
    by code_simp
  then have "x \<ge> 0" if "r \<in> set (where_rows no_filters None ?db)" "response_days ?db r = Some x" for r x
    using that by (force simp: list_all_iff)
  moreover have "valid_filters no_filters" "get_data_as_of ?db = Some 0"
    "get_owner_scope (HttpOk 200 (sample_user ''admin'' None)) = HttpOk 200 None"
    "map_option round1 (sql_avg (\<lambda>r. True) (response_days ?db) (where_rows no_filters None ?db)) = Some (7 / 2)"
    by code_simp+
  ultimately show ?thesis
    using overall_response_is_deal_mean [of "HttpOk 200 (sample_user ''admin'' None)" 200 None no_filters ?db sample_env] by simp
qed

text \<open>
  Without that proviso the overall figure is neither the mean over the deals with outreach
  nor the mean over the deals the averages are taken of: an owner's average leaves out the
  deals written to before they were created, its weight counts them. With response times
  of -10 and 4 days for one owner and 10 for another the answer is 6.
\<close>

lemma overall_response_misweighted:
  "let db = sample_db [sample_deal 1 7 (10 * day), sample_deal 2 7 0, sample_deal 3 8 0]
      [sample_mail 1 0, sample_mail 2 (4 * day), sample_mail 3 (10 * day)];
       rows = where_rows no_filters None db
   in overall_response (get_response_times sample_env no_filters None db) = Some 6 \<and>
     sql_avg (\<lambda>r. True) (response_days db) rows = Some (4 / 3) \<and>
     sql_avg (\<lambda>r. default (response_days db r) 0 \<ge> 0) (response_days db) rows = Some 7"
  by code_simp

text \<open>
  A stage that held deals a week ago and holds none today has no row in today's roll-up, so
  the comparison by stage leaves it out: the deltas show only growth here, while the
  series fell from 100 to 20.
\<close>

lemma trends_leave_out_emptied_stages:
  "let row = \<lambda>d s v. \<lparr>tr_snapshot_date = (2026, 1, d), tr_pipeline_name = ''Leasing'', tr_stage_name = ''x'',
        tr_stage_position = s, tr_stage_id = s, tr_deal_count = 1, tr_total_value = v\<rparr>;
       t = mk_trends [row 1 1 90, row 1 2 10, row 8 2 20]
   in tb_series t = [((2026, 1, 1), 2, 100), ((2026, 1, 8), 1, 20)] \<and>
     map sg_value_delta (tb_week_over_week t) = [10]"
  by code_simp

end
