(* ===== verification/Contact_Activity.thy ===== *)
theory Contact_Activity
  imports Campaigns_Api Deal_Sync Client Analytics_Api
begin

section \<open>Outreach on campaign contacts\<close>

text \<open>
  Model of \<open>app/models/contact_activity.py\<close>, \<open>app/repositories/contact_activity_repo.py\<close>,
  \<open>app/services/nog_activity_sync.py\<close> and the activities endpoint of
  \<open>app/api/v1/endpoints/campaigns.py\<close>. The table is keyed by its unique \<open>source_key\<close>;
  what the CRM answers is \<open>activity_crm\<close>. A run that pages for ever is \<open>None\<close>.
\<close>

definition ACTIVITY_CALL :: string where "ACTIVITY_CALL = ''call''"
definition ACTIVITY_EMAIL :: string where "ACTIVITY_EMAIL = ''email''"
definition ACTIVITY_MEETING :: string where "ACTIVITY_MEETING = ''meeting''"
definition ACTIVITY_NOTE :: string where "ACTIVITY_NOTE = ''note''"

record contact_activity =
  ca_campaign_id :: int
  ca_contact_id :: int
  ca_contact_name :: "string option"
  ca_owner_id :: "int option"
  ca_owner_name :: "string option"
  ca_prospect_tier :: "string option"
  ca_activity_type :: string
  ca_direction :: "string option"
  ca_occurred_at :: time
  ca_subject :: "string option"
  ca_source_key :: string
  ca_raw :: "json dict"
  ca_created_at :: time

type_synonym activities = "(string \<times> contact_activity) list"

subsection \<open>Repository\<close>

text \<open>The row carries the data; \<open>created_at\<close> is the database's default on an insert.\<close>

definition upsert_activity :: "time \<Rightarrow> contact_activity \<Rightarrow> activities \<Rightarrow> activities" where
  "upsert_activity now a t = AList.update (ca_source_key a)
     (case map_of t (ca_source_key a) of
        None \<Rightarrow> a\<lparr>ca_created_at := now\<rparr>
      | Some old \<Rightarrow> a\<lparr>ca_created_at := ca_created_at old\<rparr>) t"

definition UNASSIGNED :: string where "UNASSIGNED = ''Unassigned''"

definition scoped :: "int \<Rightarrow> time \<Rightarrow> time \<Rightarrow> string option \<Rightarrow> string option \<Rightarrow> contact_activity \<Rightarrow> bool" where
  "scoped campaign_id start fin own tier a \<longleftrightarrow>
     ca_campaign_id a = campaign_id \<and> start \<le> ca_occurred_at a \<and> ca_occurred_at a \<le> fin \<and>
     (if own = Some UNASSIGNED then ca_owner_name a = None
      else if truthy own then ca_owner_name a = own else True) \<and>
     (truthy tier \<longrightarrow> ca_prospect_tier a = tier)"

definition owner_label :: "contact_activity \<Rightarrow> string" where
  "owner_label a = default (ca_owner_name a) UNASSIGNED"

definition summary_by_owner :: "(contact_activity \<Rightarrow> bool) \<Rightarrow> activities \<Rightarrow> (string \<times> string \<times> nat) list" where
  "summary_by_owner sel t = map (\<lambda>((w, k), g). (w, k, length g))
     (group_rows (\<lambda>a. (owner_label a, ca_activity_type a)) (filter sel (map snd t)))"

definition list_activities :: "(contact_activity \<Rightarrow> bool) \<Rightarrow> nat \<Rightarrow> activities \<Rightarrow> contact_activity list" where
  "list_activities sel limit t = take limit (sort_key (\<lambda>a. - ca_occurred_at a) (filter sel (map snd t)))"

definition distinct_owners :: "int \<Rightarrow> activities \<Rightarrow> string list" where
  "distinct_owners campaign_id t =
     sort (remdups (map owner_label (filter (\<lambda>a. ca_campaign_id a = campaign_id) (map snd t))))"

subsection \<open>What the CRM answers\<close>

text \<open>\<open>ce_id\<close>, \<open>cn_id\<close>, \<open>csa_id\<close> are the ids as text, the way the source key prints them.\<close>

record crm_email =
  ce_id :: string
  ce_conversation_time :: "string option"
  ce_direction :: "string option"
  ce_subject :: "string option"
  ce_raw :: "json dict"

record crm_note =
  cn_id :: string
  cn_created_at :: "string option"
  cn_updated_at :: "string option"
  cn_description :: "string option"
  cn_raw :: "json dict"

record crm_sales_activity =
  csa_id :: string
  csa_target_type :: "string option"
  csa_target_id :: "int option"
  csa_created_at :: "string option"
  csa_start_date :: "string option"
  csa_type_id :: "int option"
  csa_title :: "string option"
  csa_raw :: "json dict"

record activity_crm =
  ay_users :: "client_error + (string option \<times> string option \<times> int option) list"
  ay_bucket :: "string \<Rightarrow> string \<Rightarrow> nat \<Rightarrow> client_error + int page"
  ay_conversations :: "int \<Rightarrow> client_error + crm_email list"
  ay_notes :: "int \<Rightarrow> client_error + crm_note list"
  ay_types :: "client_error + (int option \<times> string option) list"
  ay_sales :: "nat \<Rightarrow> client_error + crm_sales_activity page"

definition OWNER_CHOICES :: "string list" where
  "OWNER_CHOICES = [''Jennifer Obute'', ''Clinton Osuji'', ''Karim'']"

definition TIERS :: "string list" where
  "TIERS = [''Strategic'', ''Standard'']"

definition HEAVY_ACTIVITY_FIELDS :: "string list" where
  "HEAVY_ACTIVITY_FIELDS = [''html_content'', ''current_html_content'', ''display_content'',
     ''shrink_content'', ''attachments'', ''conversation_meta'', ''collab_context'']"

text \<open>
  The dict is filled value by value, so a contact found under two values keeps the later.
\<close>

fun bucket_map ::
    "(string \<Rightarrow> nat \<Rightarrow> client_error + int page) \<Rightarrow> string list \<Rightarrow> (int \<times> string) list
      \<Rightarrow> (client_error + (int \<times> string) list) option" where
  "bucket_map fetch [] out = Some (Inr out)"
| "bucket_map fetch (v # vs) out =
     (case paginate_total_from (fetch v) 1 0 of
        None \<Rightarrow> None
      | Some (ids, Some e) \<Rightarrow> Some (Inl e)
      | Some (ids, None) \<Rightarrow> bucket_map fetch vs (fold (\<lambda>i. AList.update i v) ids out))"

definition activity_type_map :: "(int option \<times> string option) list \<Rightarrow> (int option \<times> string) list" where
  "activity_type_map ts = fold (\<lambda>(i, n). AList.update i
     (if contains ''meet'' (py_lower (or_list n [])) then ACTIVITY_MEETING else ACTIVITY_CALL)) ts []"

text \<open>\<open>x or y\<close> of two optional strings.\<close>

definition or_str :: "string option \<Rightarrow> string option \<Rightarrow> string option" where
  "or_str x y = (if truthy x then x else y)"

definition owners_by_name :: "(string option \<times> string option \<times> int option) list \<Rightarrow> (string option \<times> int option) list" where
  "owners_by_name us = fold (\<lambda>(display, name, i). AList.update (or_str display name) i) us []"

subsection \<open>One activity\<close>

text \<open>\<open>_base\<close>: what every activity of a contact carries, whatever its kind.\<close>

record attribution =
  at_campaign_id :: int
  at_owners :: "(string option \<times> int option) list"
  at_owner_map :: "(int \<times> string) list"
  at_tier_map :: "(int \<times> string) list"
  at_contacts :: "(int \<times> lead) list"

definition contact_name :: "attribution \<Rightarrow> int \<Rightarrow> string" where
  "contact_name at' cid = (case map_of (rev (at_contacts at')) cid of None \<Rightarrow> []
     | Some l \<Rightarrow> py_strip (ld_first_name l @ '' '' @ ld_last_name l))"

definition base :: "attribution \<Rightarrow> int \<Rightarrow> contact_activity" where
  "base at' cid = (let w = map_of (at_owner_map at') cid; nm = contact_name at' cid in
     \<lparr>ca_campaign_id = at_campaign_id at', ca_contact_id = cid,
      ca_contact_name = (if nm = [] then None else Some nm),
      ca_owner_id = (if truthy w then default (map_of (at_owners at') w) None else None),
      ca_owner_name = w, ca_prospect_tier = map_of (at_tier_map at') cid,
      ca_activity_type = [], ca_direction = None, ca_occurred_at = 0, ca_subject = None,
      ca_source_key = [], ca_raw = [], ca_created_at = 0\<rparr>)"

definition light :: "json dict \<Rightarrow> json dict" where
  "light raw = filter (\<lambda>(k, v). k \<notin> set HEAVY_ACTIVITY_FIELDS) raw"

definition email_row :: "py_env \<Rightarrow> attribution \<Rightarrow> int \<Rightarrow> crm_email \<Rightarrow> py_error + contact_activity option" where
  "email_row env at' cid e = rbind (parse_iso_timestamp env (ce_conversation_time e)) (\<lambda>ts.
     Inr (map_option (\<lambda>t. (base at' cid)\<lparr>ca_activity_type := ACTIVITY_EMAIL, ca_direction := ce_direction e,
       ca_occurred_at := t, ca_subject := ce_subject e, ca_source_key := ''email:'' @ ce_id e,
       ca_raw := light (ce_raw e)\<rparr>) ts))"

definition note_row :: "py_env \<Rightarrow> attribution \<Rightarrow> int \<Rightarrow> crm_note \<Rightarrow> py_error + contact_activity option" where
  "note_row env at' cid n = rbind (parse_iso_timestamp env (or_str (cn_created_at n) (cn_updated_at n))) (\<lambda>ts.
     let desc = take 200 (py_strip (or_list (cn_description n) [])) in
     Inr (map_option (\<lambda>t. (base at' cid)\<lparr>ca_activity_type := ACTIVITY_NOTE,
       ca_occurred_at := t, ca_subject := (if desc = [] then None else Some desc),
       ca_source_key := ''note:'' @ cn_id n, ca_raw := light (cn_raw n)\<rparr>) ts))"

definition sales_row ::
    "py_env \<Rightarrow> attribution \<Rightarrow> (int option \<times> string) list \<Rightarrow> crm_sales_activity \<Rightarrow> py_error + contact_activity option" where
  "sales_row env at' types s =
     (if csa_target_type s \<noteq> Some ''Contact'' then Inr None
      else case csa_target_id s of
        None \<Rightarrow> Inr None
      | Some cid \<Rightarrow>
          if cid \<notin> fst ` set (at_contacts at') then Inr None
          else rbind (parse_iso_timestamp env (or_str (csa_created_at s) (csa_start_date s))) (\<lambda>ts.
            Inr (map_option (\<lambda>t. (base at' cid)\<lparr>
              ca_activity_type := default (map_of types (csa_type_id s)) ACTIVITY_CALL,
              ca_occurred_at := t, ca_subject := csa_title s, ca_source_key := ''sa:'' @ csa_id s,
              ca_raw := light (csa_raw s)\<rparr>) ts)))"

subsection \<open>The sync\<close>

record activity_state =
  as_session :: "activities session"
  as_counters :: "(string \<times> nat) list"

definition count_up :: "string \<Rightarrow> (string \<times> nat) list \<Rightarrow> (string \<times> nat) list" where
  "count_up k cs = AList.update k (default (map_of cs k) 0 + 1) cs"

definition no_counts :: "(string \<times> nat) list" where
  "no_counts = [(''contacts'', 0), (''email'', 0), (''note'', 0), (''call'', 0), (''meeting'', 0)]"

definition store_activity ::
    "time \<Rightarrow> py_error + contact_activity option \<Rightarrow> activity_state \<Rightarrow> activity_state \<times> sync_error option" where
  "store_activity now r st = (case r of
     Inl e \<Rightarrow> (st, Some (ParseError e))
   | Inr None \<Rightarrow> (st, None)
   | Inr (Some a) \<Rightarrow> (st\<lparr>as_session := modify (upsert_activity now a) (as_session st),
        as_counters := count_up (ca_activity_type a) (as_counters st)\<rparr>, None))"

text \<open>Sequencing of two steps that may raise.\<close>

definition and_then :: "'s \<times> 'e option \<Rightarrow> ('s \<Rightarrow> 's \<times> 'e option) \<Rightarrow> 's \<times> 'e option" where
  "and_then r f = (case r of (st, Some e) \<Rightarrow> (st, Some e) | (st, None) \<Rightarrow> f st)"

definition fetched :: "client_error + 'a list \<Rightarrow> ('a list \<Rightarrow> 's \<Rightarrow> 's \<times> sync_error option) \<Rightarrow> 's \<Rightarrow> 's \<times> sync_error option" where
  "fetched r f st = (case r of Inl e \<Rightarrow> (st, Some (ClientError e)) | Inr xs \<Rightarrow> f xs st)"

definition commit_activities :: "activity_state \<Rightarrow> activity_state" where
  "commit_activities st = st\<lparr>as_session := commit (as_session st)\<rparr>"

definition sync_contact ::
    "py_env \<Rightarrow> time \<Rightarrow> activity_crm \<Rightarrow> attribution \<Rightarrow> int \<Rightarrow> activity_state \<Rightarrow> activity_state \<times> sync_error option" where
  "sync_contact env now c at' cid st =
     and_then (fetched (ay_conversations c cid)
       (\<lambda>es. for_each (\<lambda>e. store_activity now (email_row env at' cid e)) es None) st) (\<lambda>st.
     and_then (fetched (ay_notes c cid)
       (\<lambda>ns. for_each (\<lambda>n. store_activity now (note_row env at' cid n)) ns None) st) (\<lambda>st.
     (commit_activities (st\<lparr>as_counters := count_up ''contacts'' (as_counters st)\<rparr>), None)))"

definition sync_sales ::
    "py_env \<Rightarrow> time \<Rightarrow> activity_crm \<Rightarrow> attribution \<Rightarrow> activity_state \<Rightarrow> (activity_state \<times> sync_error option) option" where
  "sync_sales env now c at' st = (case ay_types c of
     Inl e \<Rightarrow> Some (st, Some (ClientError e))
   | Inr ts \<Rightarrow> map_option (\<lambda>(ss, fin).
       and_then (for_each (\<lambda>s. store_activity now (sales_row env at' (activity_type_map ts) s)) ss
         (map_option ClientError fin) st) (\<lambda>st. (commit_activities st, None)))
       (iter_sales_activities (ay_sales c)))"

definition NOG_SLUG :: string where "NOG_SLUG = ''nog-2026''"

text \<open>
  \<open>int(lead.crm_contact_id)\<close> is \<open>parse_int\<close>; one id that is no number ends the run
  before anything is written.
\<close>

definition nog_contacts :: "(string \<Rightarrow> int option) \<Rightarrow> int \<Rightarrow> lead table \<Rightarrow> py_error + (int \<times> lead) list" where
  "nog_contacts parse_int campaign_id t = parse_all (\<lambda>l. case parse_int (the (ld_crm_contact_id l)) of
       None \<Rightarrow> Inl (ValueError ''invalid literal for int()'') | Some cid \<Rightarrow> Inr (cid, l))
     (filter (\<lambda>l. ld_campaign_id l = campaign_id \<and> ld_crm_contact_id l \<noteq> None) (rows t))"

definition run_attribution ::
    "(string \<Rightarrow> int option) \<Rightarrow> activity_crm \<Rightarrow> nat option \<Rightarrow> int \<Rightarrow> lead table \<Rightarrow> (sync_error + attribution) option" where
  "run_attribution parse_int c limit campaign_id t = (case ay_users c of
     Inl e \<Rightarrow> Some (Inl (ClientError e))
   | Inr us \<Rightarrow> Option.bind (bucket_map (ay_bucket c ''cf_owner'') OWNER_CHOICES []) (\<lambda>r. case r of
       Inl e \<Rightarrow> Some (Inl (ClientError e))
     | Inr om \<Rightarrow> map_option (\<lambda>r. case r of
         Inl e \<Rightarrow> Inl (ClientError e)
       | Inr tm \<Rightarrow> (case nog_contacts parse_int campaign_id t of
           Inl e \<Rightarrow> Inl (ParseError e)
         | Inr cs \<Rightarrow> Inr \<lparr>at_campaign_id = campaign_id, at_owners = owners_by_name us, at_owner_map = om,
             at_tier_map = tm, at_contacts = (case limit of None \<Rightarrow> cs | Some n \<Rightarrow> take n cs)\<rparr>))
         (bucket_map (ay_bucket c ''cf_prospect_tier'') TIERS [])))"

definition sync_activities ::
    "py_env \<Rightarrow> time \<Rightarrow> activity_crm \<Rightarrow> attribution \<Rightarrow> activities \<Rightarrow> (activity_state \<times> sync_error option) option" where
  "sync_activities env now c at' acts =
     (case for_each (\<lambda>(cid, l). sync_contact env now c at' cid) (at_contacts at') None
         \<lparr>as_session = open_session acts, as_counters = no_counts\<rparr> of
        (st, Some e) \<Rightarrow> Some (st, Some e)
      | (st, None) \<Rightarrow> sync_sales env now c at' st)"

definition run_nog_activity_sync ::
    "py_env \<Rightarrow> time \<Rightarrow> (string \<Rightarrow> int option) \<Rightarrow> activity_crm \<Rightarrow> nat option \<Rightarrow> campaign table \<Rightarrow> lead table
      \<Rightarrow> activities \<Rightarrow> (activity_state \<times> sync_error option) option" where
  "run_nog_activity_sync env now parse_int c limit campaigns t acts =
     (case Option.bind (get_by_slug campaigns NOG_SLUG) cg_id of
        None \<Rightarrow> Some (\<lparr>as_session = open_session acts, as_counters = [(''contacts'', 0)]\<rparr>, None)
      | Some k \<Rightarrow> Option.bind (run_attribution parse_int c limit k t) (\<lambda>r. case r of
          Inl e \<Rightarrow> Some (\<lparr>as_session = open_session acts, as_counters = no_counts\<rparr>, Some e)
        | Inr at' \<Rightarrow> sync_activities env now c at' acts))"

subsection \<open>The activities endpoint\<close>

record owner_summary =
  os_owner_name :: string
  os_call :: nat
  os_email :: nat
  os_meeting :: nat
  os_note :: nat
  os_total :: nat

definition new_summary :: "string \<Rightarrow> owner_summary" where
  "new_summary w = \<lparr>os_owner_name = w, os_call = 0, os_email = 0, os_meeting = 0, os_note = 0, os_total = 0\<rparr>"

text \<open>\<open>setattr\<close> with the name of a known kind; any other kind counts in the total only.\<close>

definition set_kind :: "string \<Rightarrow> nat \<Rightarrow> owner_summary \<Rightarrow> owner_summary" where
  "set_kind k n s =
     (if k = ACTIVITY_CALL then s\<lparr>os_call := n\<rparr> else if k = ACTIVITY_EMAIL then s\<lparr>os_email := n\<rparr>
      else if k = ACTIVITY_MEETING then s\<lparr>os_meeting := n\<rparr> else if k = ACTIVITY_NOTE then s\<lparr>os_note := n\<rparr> else s)"

definition add_group :: "string \<times> string \<times> nat \<Rightarrow> (string \<times> owner_summary) list \<Rightarrow> (string \<times> owner_summary) list" where
  "add_group g d = (case g of (w, k, n) \<Rightarrow>
     (let s = set_kind k n (default (map_of d w) (new_summary w))
      in AList.update w (s\<lparr>os_total := os_total s + n\<rparr>) d))"

record activities_body =
  cb_summary :: "owner_summary list"
  cb_owners :: "string list"
  cb_tiers :: "string list"
  cb_rows :: "contact_activity list"
  cb_total :: nat

definition activity_window :: "time \<Rightarrow> pydate option \<Rightarrow> pydate option \<Rightarrow> time \<times> time" where
  "activity_window now fro to =
     (wall_clock (default fro (2000, 1, 1)) 0 0 0 0,
      case to of None \<Rightarrow> now | Some d \<Rightarrow> wall_clock d 23 59 59 999999)"

definition campaign_activities ::
    "time \<Rightarrow> user http \<Rightarrow> int \<Rightarrow> pydate option \<Rightarrow> pydate option \<Rightarrow> string option \<Rightarrow> string option
      \<Rightarrow> campaign table \<Rightarrow> activities \<Rightarrow> activities_body http" where
  "campaign_activities now caller k fro to own tier campaigns acts =
     http_then (require_role EVENTS_VIEW_ROLES caller) (\<lambda>u. http_then (require_campaign campaigns k) (\<lambda>c.
       let (start, fin) = activity_window now fro to;
           sel = scoped k start fin own tier;
           grouped = summary_by_owner sel acts
       in HttpOk 200
         \<lparr>cb_summary = sort_key (\<lambda>s. - int (os_total s)) (map snd (fold add_group grouped [])),
          cb_owners = distinct_owners k acts, cb_tiers = [''Strategic'', ''Standard''],
          cb_rows = list_activities sel 500 acts,
          cb_total = sum_list (map (snd \<circ> snd) grouped)\<rparr>))"

end
