(* ===== verification/Contact_Activity_Safety.thy ===== *)
theory Contact_Activity_Safety
  imports Contact_Activity Analytics_Safety Lead_Safety
begin

section \<open>What the activity sync and its report guarantee\<close>

subsection \<open>Upserting the same rows again\<close>

definition created_in :: "time \<Rightarrow> activities \<Rightarrow> string \<Rightarrow> time" where
  "created_in now t k = (case map_of t k of None \<Rightarrow> now | Some old \<Rightarrow> ca_created_at old)"

lemma upsert_activity_alt:
  "upsert_activity now a t = AList.update (ca_source_key a) (a\<lparr>ca_created_at := created_in now t (ca_source_key a)\<rparr>) t"
  by (simp add: upsert_activity_def created_in_def split: option.split)

abbreviation upsert_all :: "time \<Rightarrow> contact_activity list \<Rightarrow> activities \<Rightarrow> activities" where
  "upsert_all now us t \<equiv> fold (upsert_activity now) us t"

lemma map_of_upsert:
  "map_of (upsert_activity now a t) k =
    (if k = ca_source_key a then Some (a\<lparr>ca_created_at := created_in now t k\<rparr>) else map_of t k)"
  by (simp add: upsert_activity_alt update_conv)

lemma keys_upsert:
  "map fst (upsert_activity now a t) =
    (if ca_source_key a \<in> fst ` set t then map fst t else map fst t @ [ca_source_key a])"
  by (simp add: upsert_activity_alt update_keys)

lemma key_set_upsert: "fst ` set (upsert_activity now a t) = insert (ca_source_key a) (fst ` set t)"
  using arg_cong [OF keys_upsert, of set now a t] by auto

lemma upsert_all_value:
  "map_of (upsert_all now us t) k = (case List.find (\<lambda>a. ca_source_key a = k) (rev us) of
     None \<Rightarrow> map_of t k | Some a \<Rightarrow> Some (a\<lparr>ca_created_at := created_in now t k\<rparr>))"
proof (induction us rule: rev_induct)
  case (snoc b us)
  then have "created_in now (upsert_all now us t) k = created_in now t k"
    by (simp add: created_in_def split: option.splits)
  with snoc show ?case by (auto simp: map_of_upsert)
qed simp

lemma upsert_all_keys: "fst ` set (upsert_all now us t) = fst ` set t \<union> ca_source_key ` set us"
  by (induction us arbitrary: t) (auto simp: key_set_upsert)

lemma upsert_all_distinct: "distinct (map fst t) \<Longrightarrow> distinct (map fst (upsert_all now us t))"
  by (induction us arbitrary: t) (simp_all add: keys_upsert)

lemma upsert_all_known_keys:
  "ca_source_key ` set us \<subseteq> fst ` set t \<Longrightarrow> map fst (upsert_all now us t) = map fst t"
proof (induction us arbitrary: t)
  case (Cons a us)
  then have "map fst (upsert_activity now a t) = map fst t" by (simp add: keys_upsert)
  moreover from this have "fst ` set (upsert_activity now a t) = fst ` set t" by (metis set_map)
  ultimately show ?case using Cons by simp
qed simp

lemma alist_eqI:
  assumes "map fst xs = map fst ys" and "distinct (map fst xs)" and "\<And>k. map_of xs k = map_of ys k"
  shows "xs = ys"
proof -
  have "length xs = length ys" using assms(1) by (metis length_map)
  then show ?thesis using assms
  proof (induction xs ys rule: list_induct2)
    case (Cons x xs y ys)
    have key: "fst x = fst y" and keys: "map fst xs = map fst ys" using Cons.prems(1) by simp_all
    have new: "fst x \<notin> fst ` set xs" using Cons.prems(2) by simp
    have "snd x = snd y" using Cons.prems(3) [of "fst x"] key by (cases x; cases y) simp
    moreover have "map_of xs k = map_of ys k" for k
    proof (cases "k = fst x")
      case True
      have "fst ` set ys = fst ` set xs" using keys by (metis set_map)
      with True new have "map_of xs k = None" "map_of ys k = None" by (simp_all add: map_of_eq_None_iff)
      then show ?thesis by simp
    next
      case False
      with Cons.prems(3) [of k] key show ?thesis by (cases x; cases y) simp
    qed
    ultimately show ?case using Cons key keys by (simp add: prod_eq_iff)
  qed simp
qed

lemma upsert_all_again:
  assumes "distinct (map fst t)"
  shows "upsert_all now' us (upsert_all now us t) = upsert_all now us t"
proof (rule alist_eqI)
  let ?t = "upsert_all now us t"
  have "ca_source_key ` set us \<subseteq> fst ` set ?t" using upsert_all_keys [of now us t] by blast
  then show "map fst (upsert_all now' us ?t) = map fst ?t" by (rule upsert_all_known_keys)
  show "distinct (map fst (upsert_all now' us ?t))" by (intro upsert_all_distinct assms)
  show "map_of (upsert_all now' us ?t) k = map_of ?t k" for k
  proof (cases "List.find (\<lambda>a. ca_source_key a = k) (rev us)")
    case None
    then show ?thesis by (simp add: upsert_all_value [of now' us ?t])
  next
    case (Some a)
    then have "map_of ?t k = Some (a\<lparr>ca_created_at := created_in now t k\<rparr>)" by (simp add: upsert_all_value)
    moreover from this have "created_in now' ?t k = created_in now t k" by (simp add: created_in_def)
    ultimately show ?thesis using Some by (simp add: upsert_all_value [of now' us ?t])
  qed
qed

subsection \<open>What a step writes\<close>

text \<open>
  A step of the sync takes the rows it writes, and the exception it may raise, from the CRM
  alone: neither depends on the table it works on nor on the clock.
\<close>

definition writes :: "(time \<Rightarrow> activity_state \<Rightarrow> activity_state \<times> sync_error option)
    \<Rightarrow> contact_activity list \<Rightarrow> sync_error option \<Rightarrow> bool" where
  "writes f us e \<longleftrightarrow> (\<forall>now st. snd (f now st) = e \<and>
     working (as_session (fst (f now st))) = upsert_all now us (working (as_session st)))"

lemma writes_store: "\<exists>us e. writes (\<lambda>now. store_activity now r) us e"
proof -
  consider (bad) x where "r = Inl x" | (none) "r = Inr None" | (row) a where "r = Inr (Some a)"
    by (metis obj_sumE option.exhaust)
  then show ?thesis
  proof cases
    case bad
    then have "writes (\<lambda>now. store_activity now r) [] (Some (ParseError x))" by (simp add: writes_def store_activity_def)
    then show ?thesis by blast
  next
    case none
    then have "writes (\<lambda>now. store_activity now r) [] None" by (simp add: writes_def store_activity_def)
    then show ?thesis by blast
  next
    case row
    then have "writes (\<lambda>now. store_activity now r) [a] None" by (simp add: writes_def store_activity_def)
    then show ?thesis by blast
  qed
qed

lemma writes_then:
  assumes "\<exists>us e. writes f us e" and "\<exists>us e. writes g us e"
  shows "\<exists>us e. writes (\<lambda>now st. and_then (f now st) (g now)) us e"
proof -
  obtain us e vs e' where f: "writes f us e" and g: "writes g vs e'" using assms by blast
  have f': "f now st = (fst (f now st), e)" for now st using f by (metis writes_def prod.collapse)
  show ?thesis
  proof (cases e)
    case None
    have "and_then (f now st) (g now) = g now (fst (f now st))" for now st
      by (subst f') (simp add: and_then_def None)
    then have "writes (\<lambda>now st. and_then (f now st) (g now)) (us @ vs) e'"
      using f g by (simp add: writes_def)
    then show ?thesis by blast
  next
    case (Some x)
    have "and_then (f now st) (g now) = f now st" for now st
      by (subst (1 2) f') (simp add: and_then_def Some)
    then have "writes (\<lambda>now st. and_then (f now st) (g now)) us e"
      using f by (simp add: writes_def)
    then show ?thesis by blast
  qed
qed

lemma for_each_Cons: "for_each step (x # xs) fin st = and_then (step x st) (for_each step xs fin)"
  by (simp add: and_then_def)

lemma writes_for_each:
  assumes "\<And>x. \<exists>us e. writes (\<lambda>now. step now x) us e"
  shows "\<exists>us e. writes (\<lambda>now. for_each (step now) xs fin) us e"
proof (induction xs)
  case Nil
  have "writes (\<lambda>now. for_each (step now) [] fin) [] fin" by (simp add: writes_def)
  then show ?case by blast
next
  case (Cons x xs)
  have "(\<lambda>now. for_each (step now) (x # xs) fin) = (\<lambda>now st. and_then (step now x st) (for_each (step now) xs fin))"
    by (intro ext) (rule for_each_Cons)
  then show ?case using writes_then [OF assms Cons] by (simp only:)
qed

lemma writes_nothing:
  "(\<And>now st. snd (f now st) = e \<and> working (as_session (fst (f now st))) = working (as_session st)) \<Longrightarrow>
    \<exists>us e. writes f us e"
  by (intro exI [of _ "[]"] exI [of _ e]) (simp add: writes_def)

lemma writes_fetched:
  assumes "\<And>xs. \<exists>us e. writes (\<lambda>now. f now xs) us e"
  shows "\<exists>us e. writes (\<lambda>now. fetched r (f now)) us e"
proof (cases r)
  case (Inl x)
  then show ?thesis by (intro writes_nothing [of _ "Some (ClientError x)"]) (simp add: fetched_def)
next
  case (Inr xs)
  then show ?thesis using assms [of xs] by (simp add: fetched_def writes_def)
qed

lemma writes_contact: "\<exists>us e. writes (\<lambda>now. sync_contact env now c at' cid) us e"
  unfolding sync_contact_def
  by (intro writes_then writes_fetched writes_for_each writes_store writes_nothing [of _ None])
    (simp add: commit_activities_def)

lemma writes_sales:
  assumes "ay_types c = Inr ts" "iter_sales_activities (ay_sales c) = Some (ss, fin)"
  shows "\<exists>us e. writes (\<lambda>now st. the (sync_sales env now c at' st)) us e"
proof -
  have "\<exists>us e. writes (\<lambda>now st. and_then (for_each (\<lambda>s. store_activity now (sales_row env at' (activity_type_map ts) s)) ss
      (map_option ClientError fin) st) (\<lambda>st. (commit_activities st, None))) us e"
    by (intro writes_then writes_for_each writes_store writes_nothing [of _ None]) (simp add: commit_activities_def)
  then show ?thesis using assms by (simp add: sync_sales_def)
qed

lemma and_commit_None:
  assumes "and_then r (\<lambda>st. (commit_activities st, None)) = (st', None)"
  shows "committed (as_session st') = working (as_session st')"
  using assms by (auto simp: and_then_def commit_activities_def split: prod.splits option.splits)

lemma synced_committed:
  assumes "sync_activities env now c at' acts = Some (st, None)"
  shows "committed (as_session st) = working (as_session st)"
  using assms
  by (auto simp: sync_activities_def sync_sales_def split: prod.splits option.splits sum.splits dest: and_commit_None)

text \<open>A run that comes through writes the same rows whenever the CRM answers the same.\<close>

lemma synced_rows:
  assumes "sync_activities env now c at' acts = Some (st, None)"
  shows "\<exists>us. \<forall>now acts. \<exists>st. sync_activities env now c at' acts = Some (st, None) \<and>
    working (as_session st) = upsert_all now us acts"
proof -
  let ?loop = "\<lambda>now. for_each (\<lambda>(cid, l). sync_contact env now c at' cid) (at_contacts at') None"
  let ?start = "\<lambda>acts. \<lparr>as_session = open_session acts, as_counters = no_counts\<rparr>"
  have "\<exists>us e. writes (\<lambda>now. (\<lambda>(cid, l). sync_contact env now c at' cid) x) us e" for x
    using writes_contact by (cases x) simp
  then have "\<exists>us e. writes ?loop us e" by (rule writes_for_each)
  then obtain us e where loop: "writes ?loop us e" by blast
  then have "snd (?loop now st) = e" for now st by (simp add: writes_def)
  then have step: "?loop now st = (fst (?loop now st), e)" for now st by (metis prod.collapse)
  have e: "e = None"
    using assms step [of now "?start acts"] by (cases e) (simp_all add: sync_activities_def split: prod.splits)
  then have run: "sync_activities env now c at' acts = sync_sales env now c at' (fst (?loop now (?start acts)))" for now acts
    unfolding sync_activities_def by (subst step) simp
  from assms obtain ts ss fin where sales: "ay_types c = Inr ts" "iter_sales_activities (ay_sales c) = Some (ss, fin)"
    unfolding run by (auto simp: sync_sales_def split: sum.splits)
  then have total: "sync_sales env now c at' st = Some (the (sync_sales env now c at' st))" for now st
    by (simp add: sync_sales_def)
  obtain vs e' where out: "writes (\<lambda>now st. the (sync_sales env now c at' st)) vs e'" using writes_sales [OF sales] by blast
  have "snd (the (sync_activities env now c at' acts)) = e'" using out unfolding run by (simp add: writes_def)
  with assms have e': "e' = None" by simp
  have "\<exists>st. sync_activities env now c at' acts = Some (st, None) \<and>
      working (as_session st) = upsert_all now (us @ vs) acts" for now acts
  proof -
    let ?mid = "fst (?loop now (?start acts))"
    have "sync_sales env now c at' ?mid = Some (fst (the (sync_sales env now c at' ?mid)), None)"
      using out e' total [of now ?mid] unfolding writes_def by (metis prod.collapse)
    moreover have "working (as_session (fst (the (sync_sales env now c at' ?mid)))) = upsert_all now (us @ vs) acts"
      using out loop by (simp add: writes_def)
    ultimately show ?thesis unfolding run by blast
  qed
  then show ?thesis by blast
qed

text \<open>C28: the activity sync is safe to repeat: when a run has come through, another run over the same
  leads and the same answers of the CRM comes through as well and leaves every row as it
  is, the time of its first recording included.\<close>

theorem activity_sync_is_idempotent:
  assumes "distinct (map fst acts)"
    and "run_nog_activity_sync env now parse_int c limit campaigns t acts = Some (st, None)"
  shows "\<exists>st'. run_nog_activity_sync env now' parse_int c limit campaigns t (committed (as_session st)) = Some (st', None) \<and>
    committed (as_session st') = committed (as_session st) \<and> distinct (map fst (committed (as_session st)))"
proof (cases "Option.bind (get_by_slug campaigns NOG_SLUG) cg_id")
  case None
  with assms show ?thesis by (auto simp: run_nog_activity_sync_def)
next
  case (Some k)
  with assms(2) obtain r where r: "run_attribution parse_int c limit k t = Some r"
      and "(case r of Inl e \<Rightarrow> Some (\<lparr>as_session = open_session acts, as_counters = no_counts\<rparr>, Some e)
        | Inr at' \<Rightarrow> sync_activities env now c at' acts) = Some (st, None)"
    by (auto simp: run_nog_activity_sync_def bind_eq_Some_conv)
  then obtain at' where at': "run_attribution parse_int c limit k t = Some (Inr at')"
      and run: "sync_activities env now c at' acts = Some (st, None)"
    by (cases r) auto
  from synced_rows [OF run] obtain us where us: "\<And>now acts. \<exists>st. sync_activities env now c at' acts = Some (st, None) \<and>
      working (as_session st) = upsert_all now us acts" by blast
  have first: "committed (as_session st) = upsert_all now us acts"
    using us [of now acts] run synced_committed [OF run] by simp
  obtain st' where again: "sync_activities env now' c at' (committed (as_session st)) = Some (st', None)"
      and "working (as_session st') = upsert_all now' us (committed (as_session st))"
    using us by blast
  then have "committed (as_session st') = committed (as_session st)"
    using synced_committed [OF again] upsert_all_again [OF assms(1)] by (simp add: first)
  with again Some at' upsert_all_distinct [OF assms(1)] show ?thesis
    by (simp add: run_nog_activity_sync_def first)
qed

subsection \<open>The report\<close>

text \<open>What the loop over the groups has in its dict: per owner, each kind's count is that of its group.\<close>

definition kind_sum :: "string \<Rightarrow> string \<Rightarrow> (string \<times> string \<times> nat) list \<Rightarrow> nat" where
  "kind_sum w k gs = sum_list (map (\<lambda>(w', k', n). if w' = w \<and> k' = k then n else 0) gs)"

definition ACTIVITY_KINDS :: "string list" where
  "ACTIVITY_KINDS = [ACTIVITY_CALL, ACTIVITY_EMAIL, ACTIVITY_MEETING, ACTIVITY_NOTE]"

definition tallied :: "(string \<times> string \<times> nat) list \<Rightarrow> string \<times> owner_summary \<Rightarrow> bool" where
  "tallied gs e \<longleftrightarrow> os_owner_name (snd e) = fst e \<and>
     os_call (snd e) = kind_sum (fst e) ACTIVITY_CALL gs \<and> os_email (snd e) = kind_sum (fst e) ACTIVITY_EMAIL gs \<and>
     os_meeting (snd e) = kind_sum (fst e) ACTIVITY_MEETING gs \<and> os_note (snd e) = kind_sum (fst e) ACTIVITY_NOTE gs \<and>
     os_total (snd e) = os_call (snd e) + os_email (snd e) + os_meeting (snd e) + os_note (snd e)"

lemma kinds_distinct [simp]:
  "ACTIVITY_CALL \<noteq> ACTIVITY_EMAIL" "ACTIVITY_CALL \<noteq> ACTIVITY_MEETING" "ACTIVITY_CALL \<noteq> ACTIVITY_NOTE"
  "ACTIVITY_EMAIL \<noteq> ACTIVITY_CALL" "ACTIVITY_EMAIL \<noteq> ACTIVITY_MEETING" "ACTIVITY_EMAIL \<noteq> ACTIVITY_NOTE"
  "ACTIVITY_MEETING \<noteq> ACTIVITY_CALL" "ACTIVITY_MEETING \<noteq> ACTIVITY_EMAIL" "ACTIVITY_MEETING \<noteq> ACTIVITY_NOTE"
  "ACTIVITY_NOTE \<noteq> ACTIVITY_CALL" "ACTIVITY_NOTE \<noteq> ACTIVITY_EMAIL" "ACTIVITY_NOTE \<noteq> ACTIVITY_MEETING"
  by (simp_all add: ACTIVITY_CALL_def ACTIVITY_EMAIL_def ACTIVITY_MEETING_def ACTIVITY_NOTE_def)

lemma kind_sum_fresh: "(w, k) \<notin> (\<lambda>(w, k, n). (w, k)) ` set gs \<Longrightarrow> kind_sum w k gs = 0"
  by (induction gs) (auto simp: kind_sum_def)

lemma kind_sum_snoc: "kind_sum w k (gs @ [(w', k', n)]) = kind_sum w k gs + (if w' = w \<and> k' = k then n else 0)"
  by (simp add: kind_sum_def)

lemma tallied_new: "w \<notin> fst ` set gs \<Longrightarrow> tallied gs (w, new_summary w)"
proof -
  assume "w \<notin> fst ` set gs"
  then have "(w, k) \<notin> (\<lambda>(w, k, n). (w, k)) ` set gs" for k by force
  then show ?thesis by (simp add: tallied_def new_summary_def kind_sum_fresh)
qed

lemma tallied_add:
  assumes "tallied gs (w, s)" "(w, k) \<notin> (\<lambda>(w, k, n). (w, k)) ` set gs" "k \<in> set ACTIVITY_KINDS"
  shows "tallied (gs @ [(w, k, n)]) (w, (set_kind k n s)\<lparr>os_total := os_total (set_kind k n s) + n\<rparr>)"
  using assms(1,3) kind_sum_fresh [OF assms(2)]
  by (auto simp: ACTIVITY_KINDS_def tallied_def set_kind_def kind_sum_snoc)

lemma tallied_other: "tallied gs (w, s) \<Longrightarrow> w' \<noteq> w \<Longrightarrow> tallied (gs @ [(w', k, n)]) (w, s)"
  by (simp add: tallied_def kind_sum_snoc)

lemma int_sum_list_comp: "sum_list (map (int \<circ> f \<circ> g) xs) = int (sum_list (map (f \<circ> g) xs))"
  by (induction xs) simp_all

lemma key_set_update: "fst ` set (AList.update k v d) = insert k (fst ` set d)"
  using arg_cong [OF update_keys, of set k v d] by auto

lemma update_new: "k \<notin> fst ` set d \<Longrightarrow> AList.update k v d = d @ [(k, v)]"
  by (induction d) auto

lemma fold_add_group:
  assumes "distinct (map (\<lambda>(w, k, n). (w, k)) gs)" and "(fst \<circ> snd) ` set gs \<subseteq> set ACTIVITY_KINDS"
  shows "distinct (map fst (fold add_group gs [])) \<and> fst ` set (fold add_group gs []) = fst ` set gs \<and>
    (\<forall>w s. map_of (fold add_group gs []) w = Some s \<longrightarrow> tallied gs (w, s)) \<and>
    sum_list (map (os_total \<circ> snd) (fold add_group gs [])) = sum_list (map (snd \<circ> snd) gs)"
  using assms
proof (induction gs rule: rev_induct)
  case (snoc g gs)
  obtain w k n where g: "g = (w, k, n)" by (cases g) auto
  let ?d = "fold add_group gs []"
  let ?old = "default (map_of ?d w) (new_summary w)"
  let ?new = "(set_kind k n ?old)\<lparr>os_total := os_total (set_kind k n ?old) + n\<rparr>"
  have "distinct (map (\<lambda>(w, k, n). (w, k)) gs)" and "(fst \<circ> snd) ` set gs \<subseteq> set ACTIVITY_KINDS"
    using snoc.prems by simp_all
  note ih = snoc.IH [OF this]
  from ih have IH: "distinct (map fst ?d)" "fst ` set ?d = fst ` set gs"
      "\<And>v s. map_of ?d v = Some s \<Longrightarrow> tallied gs (v, s)"
      "sum_list (map (os_total \<circ> snd) ?d) = sum_list (map (snd \<circ> snd) gs)" by blast+
  have fresh: "(w, k) \<notin> (\<lambda>(w, k, n). (w, k)) ` set gs" and kind: "k \<in> set ACTIVITY_KINDS"
    using snoc.prems by (auto simp: g)
  have "tallied gs (w, ?old)"
  proof (cases "map_of ?d w")
    case None
    then have "w \<notin> fst ` set gs" using IH(2) by (simp add: map_of_eq_None_iff)
    with None show ?thesis by (simp add: default_def tallied_new)
  next
    case (Some s)
    with IH(3) [OF this] show ?thesis by (simp add: default_def)
  qed
  then have new: "tallied (gs @ [g]) (w, ?new)" using tallied_add [OF _ fresh kind] by (simp add: g)
  have step: "fold add_group (gs @ [g]) [] = AList.update w ?new ?d" by (simp add: g add_group_def Let_def)
  have total: "os_total ?new = os_total ?old + n" by (simp add: set_kind_def)
  have tot: "sum_list (map (os_total \<circ> snd) (AList.update w ?new ?d)) = sum_list (map (os_total \<circ> snd) ?d) + n"
  proof (cases "map_of ?d w")
    case None
    then have "AList.update w ?new ?d = ?d @ [(w, ?new)]"
      by (intro update_new) (simp add: map_of_eq_None_iff)
    with None total show ?thesis by (simp add: default_def new_summary_def)
  next
    case (Some s)
    have "sum_list (map ((int \<circ> os_total) \<circ> snd) (AList.update w ?new ?d)) =
        sum_list (map ((int \<circ> os_total) \<circ> snd) ?d) - int (os_total s) + int (os_total ?new)"
      using sum_update [OF IH(1) Some, of "int \<circ> os_total" ?new] by simp
    then have "int (sum_list (map (os_total \<circ> snd) (AList.update w ?new ?d))) =
        int (sum_list (map (os_total \<circ> snd) ?d)) + int n"
      using total Some by (simp add: default_def int_sum_list_comp)
    then show ?thesis by linarith
  qed
  show ?case
    unfolding step
  proof (intro conjI allI impI)
    show "distinct (map fst (AList.update w ?new ?d))" using IH(1) by (rule distinct_update)
    show "fst ` set (AList.update w ?new ?d) = fst ` set (gs @ [g])" using IH(2) by (auto simp: key_set_update g)
    show "tallied (gs @ [g]) (v, s)" if "map_of (AList.update w ?new ?d) v = Some s" for v s
      using that new IH(3) [of v s] tallied_other [of gs v s w] by (auto simp: update_conv g split: if_splits)
    show "sum_list (map (os_total \<circ> snd) (AList.update w ?new ?d)) = sum_list (map (snd \<circ> snd) (gs @ [g]))"
      unfolding tot IH(4) by (simp add: g)
  qed
qed simp

lemma group_row_key: "g \<in> set (group_rows key rs) \<Longrightarrow> r \<in> set (snd g) \<Longrightarrow> key r = fst g"
  by (auto simp: group_rows_def)

lemma summary_kind_sum:
  "kind_sum w k (summary_by_owner sel t) =
    length (filter (\<lambda>a. owner_label a = w \<and> ca_activity_type a = k) (filter sel (map snd t)))"
proof -
  let ?key = "\<lambda>a. (owner_label a, ca_activity_type a)" and ?rs = "filter sel (map snd t)"
  let ?one = "\<lambda>a. if ?key a = (w, k) then 1 else 0 :: nat"
  have "kind_sum w k (summary_by_owner sel t) =
      sum_list (map (\<lambda>g. if fst g = (w, k) then length (snd g) else 0) (group_rows ?key ?rs))"
    by (simp add: kind_sum_def summary_by_owner_def comp_def case_prod_beta prod_eq_iff)
  also have "\<dots> = sum_list (map (\<lambda>g. sum_list (map ?one (snd g))) (group_rows ?key ?rs))"
  proof (intro arg_cong [where f = sum_list] map_cong refl)
    fix g
    assume "g \<in> set (group_rows ?key ?rs)"
    then have "map ?one (snd g) = map (\<lambda>_. if fst g = (w, k) then 1 else 0) (snd g)"
      using group_row_key [of g ?key ?rs] by (intro map_cong) auto
    then show "(if fst g = (w, k) then length (snd g) else 0) = sum_list (map ?one (snd g))"
      by (simp only:) (simp add: sum_list_triv)
  qed
  also have "\<dots> = sum_list (map ?one ?rs)" by (rule sum_group_rows)
  also have "\<dots> = length (filter (\<lambda>a. owner_label a = w \<and> ca_activity_type a = k) ?rs)"
    using sql_count_sum [of "\<lambda>a. ?key a = (w, k)" ?rs] by (simp add: sql_count_def)
  finally show ?thesis .
qed

lemma summary_total: "sum_list (map (snd \<circ> snd) (summary_by_owner sel t)) = length (filter sel (map snd t))"
  using sum_group_rows [of "\<lambda>_. 1 :: nat" "\<lambda>a. (owner_label a, ca_activity_type a)" "filter sel (map snd t)"]
  by (simp add: summary_by_owner_def comp_def case_prod_beta sum_list_triv)

lemma summary_keys: "map (\<lambda>(w, k, n). (w, k)) (summary_by_owner sel t) =
    dict_keys (map (\<lambda>a. (owner_label a, ca_activity_type a)) (filter sel (map snd t)))"
  by (simp add: summary_by_owner_def group_rows_def comp_def case_prod_beta)

text \<open>C8: for a caller with the role and a known campaign, the activities report accounts for every
  activity in its window, owner and tier filters exactly once (where only the four kinds the sync
  writes are stored): each owner appears once, each count is the number of that owner's activities
  of that kind, the four counts make up the owner's total, the owners' totals add up to the
  total, which is the number of the activities, and the rows are the newest of them, newest
  first, up to 500.\<close>

theorem activity_report_accounts_for_all:
  fixes now fro to own tier k acts
  defines "window \<equiv> activity_window now fro to"
  defines "shown \<equiv> filter (scoped k (fst window) (snd window) own tier) (map snd acts)"
  assumes "require_role EVENTS_VIEW_ROLES caller = HttpOk n u" "require_campaign campaigns k = HttpOk m c"
    and kinds: "ca_activity_type ` set shown \<subseteq> set ACTIVITY_KINDS"
  shows "\<exists>b. campaign_activities now caller k fro to own tier campaigns acts = HttpOk 200 b \<and>
    cb_total b = length shown \<and> sum_list (map os_total (cb_summary b)) = cb_total b \<and>
    (\<exists>rest. mset (cb_rows b @ rest) = mset shown \<and> length (cb_rows b) = min 500 (cb_total b) \<and>
      sorted_wrt (\<lambda>x y. ca_occurred_at y \<le> ca_occurred_at x) (cb_rows b @ rest)) \<and>
    distinct (map os_owner_name (cb_summary b)) \<and>
    (\<forall>s \<in> set (cb_summary b). os_total s = os_call s + os_email s + os_meeting s + os_note s \<and>
      os_call s = length (filter (\<lambda>a. owner_label a = os_owner_name s \<and> ca_activity_type a = ACTIVITY_CALL) shown) \<and>
      os_email s = length (filter (\<lambda>a. owner_label a = os_owner_name s \<and> ca_activity_type a = ACTIVITY_EMAIL) shown) \<and>
      os_meeting s = length (filter (\<lambda>a. owner_label a = os_owner_name s \<and> ca_activity_type a = ACTIVITY_MEETING) shown) \<and>
      os_note s = length (filter (\<lambda>a. owner_label a = os_owner_name s \<and> ca_activity_type a = ACTIVITY_NOTE) shown))"
proof -
  let ?sel = "scoped k (fst window) (snd window) own tier"
  let ?gs = "summary_by_owner ?sel acts"
  let ?d = "fold add_group ?gs []"
  have keys: "distinct (map (\<lambda>(w, k, n). (w, k)) ?gs)" unfolding summary_keys by (rule distinct_dict_keys)
  have "(fst \<circ> snd) ` set ?gs = snd ` set (map (\<lambda>(w, k, n). (w, k)) ?gs)"
    by (simp add: image_image case_prod_beta)
  also have "\<dots> = ca_activity_type ` set shown" unfolding summary_keys shown_def by (simp add: image_image)
  finally have "(fst \<circ> snd) ` set ?gs \<subseteq> set ACTIVITY_KINDS" using kinds by simp
  note fold_add_group [OF keys this]
  then have d: "distinct (map fst ?d)" "\<And>w s. map_of ?d w = Some s \<Longrightarrow> tallied ?gs (w, s)"
      "sum_list (map (os_total \<circ> snd) ?d) = sum_list (map (snd \<circ> snd) ?gs)" by blast+
  have entry: "tallied ?gs e" if "e \<in> set ?d" for e
    using d(2) [of "fst e" "snd e"] d(1) that by simp
  let ?b = "\<lparr>cb_summary = sort_key (\<lambda>s. - int (os_total s)) (map snd ?d), cb_owners = distinct_owners k acts,
    cb_tiers = [''Strategic'', ''Standard''], cb_rows = list_activities ?sel 500 acts,
    cb_total = sum_list (map (snd \<circ> snd) ?gs)\<rparr>"
  have "campaign_activities now caller k fro to own tier campaigns acts = HttpOk 200 ?b"
    using assms(3,4) by (simp add: campaign_activities_def window_def case_prod_beta Let_def)
  moreover have total: "cb_total ?b = length shown" by (simp only: activities_body.simps summary_total shown_def)
  moreover have "sum_list (map os_total (cb_summary ?b)) = cb_total ?b"
    using d(3) by (simp add: sum_list_sort_key comp_def)
  moreover have "\<exists>rest. mset (cb_rows ?b @ rest) = mset shown \<and> length (cb_rows ?b) = min 500 (cb_total ?b) \<and>
      sorted_wrt (\<lambda>x y. ca_occurred_at y \<le> ca_occurred_at x) (cb_rows ?b @ rest)"
  proof (intro exI conjI)
    let ?s = "sort_key (\<lambda>a. - ca_occurred_at a) shown"
    have s: "cb_rows ?b @ drop 500 ?s = ?s" by (simp add: list_activities_def shown_def)
    show "mset (cb_rows ?b @ drop 500 ?s) = mset shown" unfolding s by simp
    show "length (cb_rows ?b) = min 500 (cb_total ?b)" unfolding total by (simp add: list_activities_def shown_def)
    have "sorted (map (\<lambda>a. - ca_occurred_at a) ?s)" by simp
    then show "sorted_wrt (\<lambda>x y. ca_occurred_at y \<le> ca_occurred_at x) (cb_rows ?b @ drop 500 ?s)"
      unfolding s sorted_map by simp
  qed
  moreover have "distinct (map os_owner_name (cb_summary ?b))"
  proof -
    have "map os_owner_name (map snd ?d) = map fst ?d" using entry by (simp add: tallied_def)
    then have "distinct (map os_owner_name (map snd ?d))" using d(1) by (simp only:)
    then show ?thesis unfolding activities_body.simps by (simp only: distinct_map distinct_sort set_sort)
  qed
  moreover have "os_total s = os_call s + os_email s + os_meeting s + os_note s \<and>
      os_call s = length (filter (\<lambda>a. owner_label a = os_owner_name s \<and> ca_activity_type a = ACTIVITY_CALL) shown) \<and>
      os_email s = length (filter (\<lambda>a. owner_label a = os_owner_name s \<and> ca_activity_type a = ACTIVITY_EMAIL) shown) \<and>
      os_meeting s = length (filter (\<lambda>a. owner_label a = os_owner_name s \<and> ca_activity_type a = ACTIVITY_MEETING) shown) \<and>
      os_note s = length (filter (\<lambda>a. owner_label a = os_owner_name s \<and> ca_activity_type a = ACTIVITY_NOTE) shown)"
    if "s \<in> set (cb_summary ?b)" for s
  proof -
    from that obtain e where "e \<in> set ?d" "s = snd e" by auto
    with entry have "tallied ?gs e" by blast
    then show ?thesis unfolding tallied_def summary_kind_sum shown_def [symmetric] \<open>s = snd e\<close> by auto
  qed
  ultimately show ?thesis by blast
qed

subsection \<open>A concrete run\<close>

definition sample_note :: crm_note where
  "sample_note = \<lparr>cn_id = ''9'', cn_created_at = Some ''2026-01-05T10:00:00Z'', cn_updated_at = None,
     cn_description = Some '' Called back '', cn_raw = []\<rparr>"

definition sample_crm :: activity_crm where
  "sample_crm = \<lparr>ay_users = Inr [(Some ''Karim'', None, Some 3)],
     ay_bucket = (\<lambda>a v page. Inr \<lparr>pg_items = (if v = ''Karim'' \<and> page = 1 then [77] else []), pg_total = None, pg_has_next = False\<rparr>),
     ay_conversations = (\<lambda>_. Inr []), ay_notes = (\<lambda>_. Inr [sample_note]),
     ay_types = Inr [], ay_sales = (\<lambda>_. Inr \<lparr>pg_items = [], pg_total = None, pg_has_next = False\<rparr>)\<rparr>"

definition sample_nog :: "campaign table" where
  "sample_nog = \<lparr>rows = [witness_campaign\<lparr>cg_slug := NOG_SLUG\<rparr>], next_id = 2\<rparr>"

definition sample_contacts :: "lead table" where
  "sample_contacts = \<lparr>rows = [witness_lead\<lparr>ld_crm_contact_id := Some ''77''\<rparr>], next_id = 2\<rparr>"

definition sample_py :: py_env where
  "sample_py = \<lparr>tz_offset = (\<lambda>_. 0), local_offset = (\<lambda>_. 0), py_float = (\<lambda>_. None)\<rparr>"

definition sample_run :: "time \<Rightarrow> activities \<Rightarrow> (activity_state \<times> sync_error option) option" where
  "sample_run now = run_nog_activity_sync sample_py now (\<lambda>s. if s = ''77'' then Some 77 else None) sample_crm None
     sample_nog sample_contacts"

text \<open>The note of contact 77 is recorded once, for Karim, with its text stripped.\<close>

lemma sample_run_result:
  "map_option (\<lambda>(st, e). (e, map (\<lambda>(k, a). (k, ca_owner_name a, ca_owner_id a, ca_subject a, ca_created_at a))
      (committed (as_session st)))) (sample_run 50 []) =
   Some (None, [(''note:9'', Some ''Karim'', Some 3, Some ''Called back'', 50)])"
  by code_simp

theorem activity_sync_is_idempotent_witness:
  "\<exists>st st'. sample_run 50 [] = Some (st, None) \<and> sample_run 90 (committed (as_session st)) = Some (st', None) \<and>
    committed (as_session st') = committed (as_session st) \<and> map fst (committed (as_session st)) = [''note:9'']"
proof -
  obtain st where st: "sample_run 50 [] = Some (st, None)" and keys: "map fst (committed (as_session st)) = [''note:9'']"
    using sample_run_result by (auto split: prod.splits)
  then show ?thesis
    using activity_sync_is_idempotent [of "[]" _ 50 _ sample_crm None sample_nog sample_contacts st 90]
    unfolding sample_run_def by fastforce
qed

definition sample_activity :: "string \<Rightarrow> string option \<Rightarrow> string \<Rightarrow> string \<times> contact_activity" where
  "sample_activity key w kind = (key, \<lparr>ca_campaign_id = 1, ca_contact_id = 77, ca_contact_name = None, ca_owner_id = None,
     ca_owner_name = w, ca_prospect_tier = None, ca_activity_type = kind, ca_direction = None,
     ca_occurred_at = 1767225600000000, ca_subject = None, ca_source_key = key, ca_raw = [], ca_created_at = 0\<rparr>)"

theorem activity_report_accounts_for_all_witness:
  "\<exists>b. campaign_activities 2000000000000000 (HttpOk 200 (sample_user ''admin'' None)) 1 None None None None sample_nog
      [sample_activity ''note:1'' None ACTIVITY_NOTE, sample_activity ''sa:2'' (Some ''Karim'') ACTIVITY_CALL,
       sample_activity ''sa:3'' (Some ''Karim'') ACTIVITY_MEETING] = HttpOk 200 b \<and>
    cb_total b = 3 \<and> sum_list (map os_total (cb_summary b)) = 3"
proof -
  let ?acts = "[sample_activity ''note:1'' None ACTIVITY_NOTE, sample_activity ''sa:2'' (Some ''Karim'') ACTIVITY_CALL,
       sample_activity ''sa:3'' (Some ''Karim'') ACTIVITY_MEETING]"
  let ?win = "activity_window 2000000000000000 None None"
  let ?shown = "filter (scoped 1 (fst ?win) (snd ?win) None None) (map snd ?acts)"
  have caller: "require_role EVENTS_VIEW_ROLES (HttpOk 200 (sample_user ''admin'' None)) = HttpOk 200 (sample_user ''admin'' None)"
    by (simp add: require_role_def EVENTS_VIEW_ROLES_def ADMIN_ROLES_def sample_user_def)
  have campaign: "require_campaign sample_nog 1 = HttpOk 200 (witness_campaign\<lparr>cg_slug := NOG_SLUG\<rparr>)"
    by (simp add: require_campaign_def get_campaign_def tbl_get_def sample_nog_def witness_campaign_def)
  have shown: "length ?shown = 3" and kinds: "ca_activity_type ` set ?shown \<subseteq> set ACTIVITY_KINDS" by code_simp+
  obtain b where "campaign_activities 2000000000000000 (HttpOk 200 (sample_user ''admin'' None)) 1 None None None None sample_nog ?acts = HttpOk 200 b"
    and "cb_total b = length ?shown" and "sum_list (map os_total (cb_summary b)) = cb_total b"
    using activity_report_accounts_for_all [OF caller campaign kinds] by blast
  then show ?thesis unfolding shown by (intro exI [of _ b]) (simp only: simp_thms)
qed

end
