(* ===== verification/Agent.thy ===== *)
theory Agent
  imports Client
begin

section \<open>The logging agent\<close>

text \<open>
  Model of \<open>app/services/agent_logging.py\<close>, \<open>app/schemas/agent.py\<close> and
  \<open>app/api/v1/endpoints/agent.py\<close>. The CRM's answers are \<open>agent_crm\<close>; what was written
  to it is a list of \<open>agent_write\<close>, in order. A date and time with its offset is the pair
  of its wall clock and the offset, in microseconds; \<open>isoformat\<close> is its text.
\<close>

record agent_env =
  ae_lagos :: "int \<Rightarrow> int"
  ae_lagos_now :: int

record agent_deal =
  ad_id :: "int option"
  ad_pipeline_id :: "int option"
  ad_name :: "string option"
  ad_account :: "string option"
  ad_owner_id :: "int option"

datatype agent_write =
    NoteWritten int string
  | TaskWritten int string "int \<times> int" "int option"

fun written_on :: "agent_write \<Rightarrow> int" where
  "written_on (NoteWritten k txt) = k"
| "written_on (TaskWritten k title due own) = k"

record agent_crm =
  gc_deal :: "int \<Rightarrow> client_error + agent_deal"
  gc_pipeline_ids :: "int \<Rightarrow> int yielded"
  gc_create_note :: "int \<Rightarrow> string \<Rightarrow> client_error + int option"
  gc_create_task :: "int \<Rightarrow> string \<Rightarrow> int \<times> int \<Rightarrow> int option \<Rightarrow> client_error + int option"

datatype agent_error =
    PipelineNotAllowedError
  | DealNotFoundError
  | AgentValueError
  | AgentKeyError
  | AgentClientError client_error

record log_result =
  lr_deal_id :: int
  lr_deal_name :: string
  lr_note_id :: "int option"
  lr_task_id :: "int option"
  lr_confirmation :: string

definition VALID_INTENTS :: "string list" where
  "VALID_INTENTS = [''note'', ''task'', ''note+task'']"

subsection \<open>Due dates and the confirmation\<close>

definition day_us :: int where "day_us = 86400000000"

definition resolve_due :: "agent_env \<Rightarrow> string option \<Rightarrow> (int \<times> int) option" where
  "resolve_due env due_date =
     (if truthy due_date
      then map_option (\<lambda>(w, off). (w, default off (ae_lagos env w)))
        (case datetime_fromisoformat (the due_date) of
           Some d \<Rightarrow> Some d
         | None \<Rightarrow> datetime_fromisoformat (the due_date @ ''T17:00:00''))
      else let w = (ae_lagos_now env div day_us + 1) * day_us + 17 * 3600 * 1000000
        in Some (w, ae_lagos env w))"

text \<open>The check mark is written as its three bytes.\<close>

definition confirmation ::
    "string \<Rightarrow> int option \<Rightarrow> string option \<Rightarrow> int option \<Rightarrow> string option \<Rightarrow> string" where
  "confirmation deal_name note_id task_title task_id due_date =
     (let parts = (if note_id \<noteq> None then [''note''] else []) @
        (if task_id \<noteq> None then [''task \"'' @ default task_title ''None'' @ ''\"'' @
           (if truthy due_date then '' due '' @ the due_date else [])] else [])
      in [CHR 0xE2, CHR 0x9C, CHR 0x85] @ '' Logged on \"'' @ deal_name @ ''\": '' @
         (if parts = [] then ''nothing'' else py_join '' + '' parts) @ ''.'')"

subsection \<open>Finding the deal\<close>

text \<open>The search of one pipeline: the first deal whose name or account contains the hint.\<close>

fun search_ids :: "agent_crm \<Rightarrow> string \<Rightarrow> int list \<Rightarrow> agent_error + agent_deal option" where
  "search_ids c hint [] = Inr None"
| "search_ids c hint (k # ks) =
     (case gc_deal c k of
        Inl e \<Rightarrow> Inl (AgentClientError e)
      | Inr d \<Rightarrow>
          (let nm = py_lower (or_list (ad_name d) []); acc = py_lower (or_list (ad_account d) [])
           in if contains hint nm \<or> (acc \<noteq> [] \<and> contains hint acc) then Inr (Some d)
              else search_ids c hint ks))"

text \<open>\<open>allowed\<close> is the set of the settings in the order Python iterates over it.\<close>

fun search_pipelines :: "agent_crm \<Rightarrow> string \<Rightarrow> int list \<Rightarrow> agent_error + agent_deal option" where
  "search_pipelines c hint [] = Inr None"
| "search_pipelines c hint (p # ps) =
     (case search_ids c hint (fst (gc_pipeline_ids c p)) of
        Inl e \<Rightarrow> Inl e
      | Inr (Some d) \<Rightarrow> Inr (Some d)
      | Inr None \<Rightarrow> (case snd (gc_pipeline_ids c p) of
           Some e \<Rightarrow> Inl (AgentClientError e)
         | None \<Rightarrow> search_pipelines c hint ps))"

definition resolve_deal ::
    "agent_crm \<Rightarrow> int option \<Rightarrow> string option \<Rightarrow> int list \<Rightarrow> agent_error + agent_deal" where
  "resolve_deal c deal_id deal_hint allowed = (case deal_id of
     Some k \<Rightarrow> (case gc_deal c k of
         Inl e \<Rightarrow> Inl (AgentClientError e)
       | Inr d \<Rightarrow> (if ad_id d = None then Inl DealNotFoundError else Inr d))
   | None \<Rightarrow>
       if truthy deal_hint
       then rbind (search_pipelines c (py_lower (the deal_hint)) allowed) (\<lambda>r. case r of
         Some d \<Rightarrow> Inr d | None \<Rightarrow> Inl DealNotFoundError)
       else Inl DealNotFoundError)"

subsection \<open>Writing the note and the task\<close>

record agent_request =
  aq_intent :: string
  aq_deal_id :: "int option"
  aq_deal_hint :: "string option"
  aq_note_text :: "string option"
  aq_task_title :: "string option"
  aq_due_date :: "string option"
  aq_owner_id :: "int option"

definition valid_agent_request :: "agent_request \<Rightarrow> bool" where
  "valid_agent_request q \<longleftrightarrow> aq_intent q \<in> set VALID_INTENTS \<and>
     (aq_deal_id q \<noteq> None \<or> truthy (aq_deal_hint q)) \<and>
     (aq_intent q \<in> {''note'', ''note+task''} \<longrightarrow> truthy (aq_note_text q)) \<and>
     (aq_intent q \<in> {''task'', ''note+task''} \<longrightarrow> truthy (aq_task_title q))"

definition or_id :: "int option \<Rightarrow> int option \<Rightarrow> int option" where
  "or_id x y = (case x of None \<Rightarrow> y | Some k \<Rightarrow> if k = 0 then y else Some k)"

definition wants_note :: "agent_request \<Rightarrow> bool" where
  "wants_note q \<longleftrightarrow> aq_intent q \<in> {''note'', ''note+task''} \<and> truthy (aq_note_text q)"

definition wants_task :: "agent_request \<Rightarrow> bool" where
  "wants_task q \<longleftrightarrow> aq_intent q \<in> {''task'', ''note+task''} \<and> truthy (aq_task_title q)"

definition write_note ::
    "agent_crm \<Rightarrow> int \<Rightarrow> agent_request \<Rightarrow> (agent_error + int option) \<times> agent_write list" where
  "write_note c did q =
     (if wants_note q
      then case gc_create_note c did (the (aq_note_text q)) of
          Inl e \<Rightarrow> (Inl (AgentClientError e), [])
        | Inr i \<Rightarrow> (Inr i, [NoteWritten did (the (aq_note_text q))])
      else (Inr None, []))"

definition write_task ::
    "agent_env \<Rightarrow> agent_crm \<Rightarrow> int \<Rightarrow> int option \<Rightarrow> agent_request \<Rightarrow> (agent_error + int option) \<times> agent_write list" where
  "write_task env c did own q =
     (if wants_task q
      then case resolve_due env (aq_due_date q) of
          None \<Rightarrow> (Inl AgentValueError, [])
        | Some due \<Rightarrow>
            (case gc_create_task c did (the (aq_task_title q)) due own of
               Inl e \<Rightarrow> (Inl (AgentClientError e), [])
             | Inr i \<Rightarrow> (Inr i, [TaskWritten did (the (aq_task_title q)) due own]))
      else (Inr None, []))"

definition log_on_deal ::
    "agent_env \<Rightarrow> agent_crm \<Rightarrow> int \<Rightarrow> agent_deal \<Rightarrow> agent_request \<Rightarrow> (agent_error + log_result) \<times> agent_write list" where
  "log_on_deal env c did deal q =
     (let deal_name = or_list (ad_name deal) (show_int did);
          task_owner = or_id (aq_owner_id q) (ad_owner_id deal)
      in case write_note c did q of
           (Inl e, ws) \<Rightarrow> (Inl e, ws)
         | (Inr note_id, ws) \<Rightarrow>
             (case write_task env c did task_owner q of
                (Inl e, vs) \<Rightarrow> (Inl e, ws @ vs)
              | (Inr task_id, vs) \<Rightarrow>
                  (Inr \<lparr>lr_deal_id = did, lr_deal_name = deal_name, lr_note_id = note_id, lr_task_id = task_id,
                     lr_confirmation = confirmation deal_name note_id (aq_task_title q) task_id (aq_due_date q)\<rparr>, ws @ vs)))"

definition log_activity ::
    "agent_env \<Rightarrow> int list \<Rightarrow> agent_crm \<Rightarrow> agent_request \<Rightarrow> (agent_error + log_result) \<times> agent_write list" where
  "log_activity env allowed c q =
     (if aq_intent q \<notin> set VALID_INTENTS then (Inl AgentValueError, [])
      else case resolve_deal c (aq_deal_id q) (aq_deal_hint q) allowed of
        Inl e \<Rightarrow> (Inl e, [])
      | Inr deal \<Rightarrow>
          (case ad_id deal of
             None \<Rightarrow> (Inl AgentKeyError, [])
           | Some did \<Rightarrow>
               if (case ad_pipeline_id deal of None \<Rightarrow> False | Some p \<Rightarrow> p \<in> set allowed)
               then log_on_deal env c did deal q
               else (Inl PipelineNotAllowedError, [])))"

subsection \<open>The webhook\<close>

text \<open>The body is validated before the handler runs; only two of its exceptions are mapped.\<close>

definition agent_log ::
    "agent_env \<Rightarrow> string \<Rightarrow> int list \<Rightarrow> agent_crm \<Rightarrow> string option \<Rightarrow> agent_request \<Rightarrow> log_result http \<times> agent_write list" where
  "agent_log env secret allowed c x_agent_secret q =
     (if \<not> valid_agent_request q then (HttpError 422 ''Unprocessable Entity'', [])
      else if secret = [] then (HttpError 503 ''Agent webhook is not configured'', [])
      else if x_agent_secret \<noteq> Some secret then (HttpError 401 ''Invalid agent secret'', [])
      else case log_activity env allowed c q of
        (Inl PipelineNotAllowedError, ws) \<Rightarrow> (HttpError 403 ''not in allowed'', ws)
      | (Inl DealNotFoundError, ws) \<Rightarrow> (HttpError 404 ''not found'', ws)
      | (Inl _, ws) \<Rightarrow> (HttpError 500 ''Internal Server Error'', ws)
      | (Inr r, ws) \<Rightarrow> (HttpOk 200 r, ws))"

end
