(* ===== verification/Agent_Safety.thy ===== *)
theory Agent_Safety
  imports Agent
begin

section \<open>What the logging agent may write\<close>

subsection \<open>Due dates\<close>

text \<open>
  A bare date is midnight, not 17:00: \<open>datetime.fromisoformat\<close> takes it, so the fallback
  that would add the hour is never reached.
\<close>

lemma bare_date_is_midnight:
  assumes "date_fromisoformat s = Some d" and "length s = 10"
  shows "resolve_due env (Some s) = Some (wall_clock d 0 0 0 0, ae_lagos env (wall_clock d 0 0 0 0))"
proof -
  have "s \<noteq> []" using assms(2) by auto
  then show ?thesis using assms by (simp add: resolve_due_def datetime_fromisoformat_def default_def truthy_def)
qed

lemma no_date_is_tomorrow:
  "\<not> truthy d \<Longrightarrow> resolve_due env d = (let w = (ae_lagos_now env div day_us + 1) * day_us + 17 * 3600 * 1000000
    in Some (w, ae_lagos env w))"
  by (simp add: resolve_due_def)

subsection \<open>Writes\<close>

lemma write_note_cases:
  "write_note c did q = (r, ws) \<Longrightarrow> written_on ` set ws \<subseteq> {did} \<and>
    (\<forall>i. r = Inr i \<longrightarrow> ws = (if wants_note q then [NoteWritten did (the (aq_note_text q))] else []))"
  by (auto simp: write_note_def split: if_splits sum.splits)

lemma write_task_cases:
  "write_task env c did own q = (r, ws) \<Longrightarrow> written_on ` set ws \<subseteq> {did} \<and>
    (\<forall>i. r = Inr i \<longrightarrow> ws = (if wants_task q
      then [TaskWritten did (the (aq_task_title q)) (the (resolve_due env (aq_due_date q))) own] else []))"
  by (auto simp: write_task_def split: if_splits sum.splits option.splits)

lemma log_on_deal_writes: "written_on ` set (snd (log_on_deal env c did deal q)) \<subseteq> {did}"
proof -
  obtain n ws t vs where nt: "write_note c did q = (n, ws)"
    and tsk: "write_task env c did (or_id (aq_owner_id q) (ad_owner_id deal)) q = (t, vs)" by fastforce
  with write_note_cases [OF nt] write_task_cases [OF tsk] show ?thesis
    by (auto simp: log_on_deal_def Let_def split: sum.splits)
qed

text \<open>A write means that the guard was passed.\<close>

lemma log_activity_writes:
  assumes "snd (log_activity env allowed c q) \<noteq> []"
  obtains d k p where "resolve_deal c (aq_deal_id q) (aq_deal_hint q) allowed = Inr d" "ad_id d = Some k"
    "ad_pipeline_id d = Some p" "p \<in> set allowed" "log_activity env allowed c q = log_on_deal env c k d q"
  using assms by (auto simp: log_activity_def split: if_splits sum.splits option.splits)

lemma agent_log_activity:
  assumes "agent_log env secret allowed c hdr q = (resp, ws)" and "ws \<noteq> [] \<or> (\<exists>n r. resp = HttpOk n r)"
  shows "secret \<noteq> [] \<and> hdr = Some secret \<and> ws = snd (log_activity env allowed c q) \<and>
    (\<forall>n r. resp = HttpOk n r \<longrightarrow> fst (log_activity env allowed c q) = Inr r)"
  using assms by (auto simp: agent_log_def split: if_splits prod.splits sum.splits agent_error.splits)

text \<open>C29: the pipeline allow-list cannot be got round: whatever the webhook is asked and whatever the CRM
  answers, something is written only on the secret's bearer's behalf and only on the one deal the
  request resolved to, which the CRM placed in an allowed pipeline. A success means that
  exactly the requested note and task, in that order, were written on that deal, the task with
  the requested owner, or else the deal's, and the requested due date: the instant given; midnight
  in Lagos for a bare date (the function's docstring says 17:00); tomorrow 17:00 without a date.\<close>

theorem agent_writes_only_in_allowed_pipelines:
  assumes log: "agent_log env secret allowed c hdr q = (resp, ws)"
  shows "(ws \<noteq> [] \<longrightarrow> secret \<noteq> [] \<and> hdr = Some secret \<and>
      (\<exists>d k p. resolve_deal c (aq_deal_id q) (aq_deal_hint q) allowed = Inr d \<and> ad_id d = Some k \<and>
        ad_pipeline_id d = Some p \<and> p \<in> set allowed \<and> written_on ` set ws = {k})) \<and>
    (\<forall>n r. resp = HttpOk n r \<longrightarrow> (\<exists>d. resolve_deal c (aq_deal_id q) (aq_deal_hint q) allowed = Inr d \<and>
      ad_id d = Some (lr_deal_id r) \<and>
      ws = (if wants_note q then [NoteWritten (lr_deal_id r) (the (aq_note_text q))] else []) @
        (if wants_task q then [TaskWritten (lr_deal_id r) (the (aq_task_title q)) (the (resolve_due env (aq_due_date q)))
           (or_id (aq_owner_id q) (ad_owner_id d))] else []))) \<and>
    (\<forall>s day. aq_due_date q = Some s \<and> length s = 10 \<and> date_fromisoformat s = Some day \<longrightarrow>
      resolve_due env (aq_due_date q) = Some (wall_clock day 0 0 0 0, ae_lagos env (wall_clock day 0 0 0 0))) \<and>
    (\<not> truthy (aq_due_date q) \<longrightarrow> resolve_due env (aq_due_date q) =
      (let w = (ae_lagos_now env div day_us + 1) * day_us + 17 * 3600 * 1000000 in Some (w, ae_lagos env w)))"
proof (intro conjI impI allI)
  assume ws: "ws \<noteq> []"
  note log' = agent_log_activity [OF log disjI1, OF ws]
  then show "secret \<noteq> []" "hdr = Some secret" by blast+
  have act: "ws = snd (log_activity env allowed c q)" using log' by blast
  with ws have "snd (log_activity env allowed c q) \<noteq> []" by simp
  then obtain d k p where d: "resolve_deal c (aq_deal_id q) (aq_deal_hint q) allowed = Inr d"
      "ad_id d = Some k" "ad_pipeline_id d = Some p" "p \<in> set allowed"
    and on: "log_activity env allowed c q = log_on_deal env c k d q"
    by (rule log_activity_writes)
  have "written_on ` set ws \<subseteq> {k}" unfolding act on by (rule log_on_deal_writes)
  moreover have "written_on ` set ws \<noteq> {}" using ws by simp
  ultimately have on_k: "written_on ` set ws = {k}" using subset_singletonD by metis
  show "\<exists>d k p. resolve_deal c (aq_deal_id q) (aq_deal_hint q) allowed = Inr d \<and> ad_id d = Some k \<and>
      ad_pipeline_id d = Some p \<and> p \<in> set allowed \<and> written_on ` set ws = {k}"
    by (intro exI [of _ d] exI [of _ k] exI [of _ p] conjI d on_k)
next
  fix n r
  assume ok: "resp = HttpOk n r"
  then have "ws = snd (log_activity env allowed c q)" "fst (log_activity env allowed c q) = Inr r"
    using agent_log_activity [OF log] by auto
  then obtain d k where d: "resolve_deal c (aq_deal_id q) (aq_deal_hint q) allowed = Inr d" "ad_id d = Some k"
    and on: "log_on_deal env c k d q = (Inr r, ws)"
    by (auto simp: log_activity_def prod_eq_iff split: if_splits sum.splits option.splits)
  moreover obtain x vs where nt: "write_note c k q = (x, vs)" by fastforce
  moreover obtain y us where tsk: "write_task env c k (or_id (aq_owner_id q) (ad_owner_id d)) q = (y, us)" by fastforce
  ultimately have "lr_deal_id r = k" "ws = (if wants_note q then [NoteWritten k (the (aq_note_text q))] else []) @
      (if wants_task q then [TaskWritten k (the (aq_task_title q)) (the (resolve_due env (aq_due_date q)))
         (or_id (aq_owner_id q) (ad_owner_id d))] else [])"
    using write_note_cases [OF nt] write_task_cases [OF tsk]
    by (auto simp: log_on_deal_def Let_def split: sum.splits)
  with d show "\<exists>d. resolve_deal c (aq_deal_id q) (aq_deal_hint q) allowed = Inr d \<and> ad_id d = Some (lr_deal_id r) \<and>
      ws = (if wants_note q then [NoteWritten (lr_deal_id r) (the (aq_note_text q))] else []) @
        (if wants_task q then [TaskWritten (lr_deal_id r) (the (aq_task_title q)) (the (resolve_due env (aq_due_date q)))
           (or_id (aq_owner_id q) (ad_owner_id d))] else [])" by blast
next
  fix s day
  assume "aq_due_date q = Some s \<and> length s = 10 \<and> date_fromisoformat s = Some day"
  then show "resolve_due env (aq_due_date q) = Some (wall_clock day 0 0 0 0, ae_lagos env (wall_clock day 0 0 0 0))"
    using bare_date_is_midnight by simp
qed (rule no_date_is_tomorrow)

subsection \<open>Failures\<close>

text \<open>
  The note is written before the due date is looked at: a due date that is none leaves the
  note behind, answers 500, and a retry writes the note again.
\<close>

lemma bad_due_date_leaves_note:
  assumes "gc_create_note c did (the (aq_note_text q)) = Inr i" "wants_note q" "wants_task q"
    and "resolve_due env (aq_due_date q) = None"
  shows "log_on_deal env c did d q = (Inl AgentValueError, [NoteWritten did (the (aq_note_text q))])"
  using assms by (simp add: log_on_deal_def write_note_def write_task_def Let_def)

text \<open>The CRM's 404 for an unknown deal id is an exception of the client: the answer is 500, not 404.\<close>

lemma unknown_deal_is_500:
  assumes "gc_deal c k = Inl (HttpStatusError 404 x)" "aq_deal_id q = Some k" "valid_agent_request q" "secret \<noteq> []"
  shows "agent_log env secret allowed c (Some secret) q = (HttpError 500 ''Internal Server Error'', [])"
  using assms by (simp add: agent_log_def log_activity_def resolve_deal_def valid_agent_request_def)

definition sample_agent_deal :: agent_deal where
  "sample_agent_deal = \<lparr>ad_id = Some 5, ad_pipeline_id = Some 17000075034, ad_name = Some ''Test'',
     ad_account = None, ad_owner_id = Some 3\<rparr>"

definition sample_agent_crm :: agent_crm where
  "sample_agent_crm = \<lparr>gc_deal = (\<lambda>_. Inr sample_agent_deal), gc_pipeline_ids = (\<lambda>_. ([5], None)),
     gc_create_note = (\<lambda>_ _. Inr (Some 8)), gc_create_task = (\<lambda>_ _ _ _. Inr (Some 9))\<rparr>"

definition sample_agent_request :: agent_request where
  "sample_agent_request = \<lparr>aq_intent = ''note+task'', aq_deal_id = None, aq_deal_hint = Some ''TES'',
     aq_note_text = Some ''met'', aq_task_title = Some ''call'', aq_due_date = Some ''2026-01-05'', aq_owner_id = None\<rparr>"

definition sample_agent_env :: agent_env where
  "sample_agent_env = \<lparr>ae_lagos = (\<lambda>_. 3600000000), ae_lagos_now = 0\<rparr>"

theorem agent_writes_only_in_allowed_pipelines_witness:
  "\<exists>ws. snd (agent_log sample_agent_env ''s'' [17000075034] sample_agent_crm (Some ''s'') sample_agent_request) = ws \<and>
    ws \<noteq> [] \<and> written_on ` set ws = {5} \<and>
    ws = [NoteWritten 5 ''met'', TaskWritten 5 ''call'' (1767571200000000, 3600000000) (Some 3)]"
proof -
  let ?r = "agent_log sample_agent_env ''s'' [17000075034] sample_agent_crm (Some ''s'') sample_agent_request"
  have ws: "snd ?r = [NoteWritten 5 ''met'', TaskWritten 5 ''call'' (1767571200000000, 3600000000) (Some 3)]"
    and deal: "resolve_deal sample_agent_crm (aq_deal_id sample_agent_request) (aq_deal_hint sample_agent_request)
      [17000075034] = Inr sample_agent_deal" by code_simp+
  have "written_on ` set (snd ?r) = {5}"
    using agent_writes_only_in_allowed_pipelines [of sample_agent_env "''s''" "[17000075034]" sample_agent_crm
        "Some ''s''" sample_agent_request "fst ?r" "snd ?r"] deal ws
    by (simp only: prod.collapse) (auto simp: sample_agent_deal_def)
  with ws show ?thesis by simp
qed

end
