(* ===== verification/Lead_Export.thy ===== *)
theory Lead_Export
  imports Contact_Activity
begin

section \<open>The CSV export of a campaign's leads\<close>

text \<open>
  Model of \<open>app/services/lead_export.py\<close> and of the export endpoint of
  \<open>app/api/v1/endpoints/campaigns.py\<close>. \<open>csv.writer\<close> is modelled with its defaults:
  fields are quoted when they must be, quotes doubled, rows ended by CR LF.
\<close>

subsection \<open>ISO format of an instant\<close>

text \<open>The civil date of a day number, the inverse of \<open>epoch_day\<close>.\<close>

definition civil :: "int \<Rightarrow> pydate" where
  "civil n =
     (let z = n + 719468; era = z div 146097; doe = z mod 146097;
          yoe = (doe - doe div 1460 + doe div 36524 - doe div 146096) div 365;
          doy = doe - (365 * yoe + yoe div 4 - yoe div 100);
          mp = (5 * doy + 2) div 153;
          m = (if mp < 10 then mp + 3 else mp - 9)
      in (yoe + era * 400 + (if m \<le> 2 then 1 else 0), m, doy - (153 * mp + 2) div 5 + 1))"

definition isoformat :: "time \<Rightarrow> string" where
  "isoformat t =
     (let us = t mod 1000000; s = t div 1000000; tod = s mod 86400 in
      case civil (s div 86400) of (y, m, d) \<Rightarrow>
        pad 4 y @ ''-'' @ pad 2 m @ ''-'' @ pad 2 d @ ''T'' @ pad 2 (tod div 3600) @ '':'' @
        pad 2 (tod div 60 mod 60) @ '':'' @ pad 2 (tod mod 60) @
        (if us = 0 then [] else ''.'' @ pad 6 us) @ ''+00:00'')"

subsection \<open>Rows\<close>

definition EXPORT_FIELDS :: "string list" where
  "EXPORT_FIELDS = [''id'', ''captured_at'', ''created_at'', ''first_name'', ''last_name'', ''email'', ''phone'',
     ''company'', ''job_title'', ''source'', ''device_id'', ''timing'', ''interests'', ''requested_materials'',
     ''tags'', ''inspection_requested'', ''inspection_type'', ''marketing_opt_in'', ''consent_status'',
     ''consent_at'', ''crm_sync_status'', ''crm_contact_id'', ''pack_delivery_status'', ''pack_delivered_at'',
     ''pack_delivered_materials'']"

definition fmt_time :: "time option \<Rightarrow> string" where
  "fmt_time t = (case t of None \<Rightarrow> [] | Some x \<Rightarrow> isoformat x)"

definition fmt_list :: "string list option \<Rightarrow> string" where
  "fmt_list xs = (case xs of None \<Rightarrow> [] | Some ys \<Rightarrow> py_join ''; '' ys)"

definition fmt_str :: "string option \<Rightarrow> string" where
  "fmt_str s = default s []"

definition fmt_bool :: "bool \<Rightarrow> string" where
  "fmt_bool b = (if b then ''True'' else ''False'')"

definition csv_cells :: "lead \<Rightarrow> string list" where
  "csv_cells l =
     [(case ld_id l of None \<Rightarrow> [] | Some k \<Rightarrow> show_int k), fmt_time (ld_captured_at l), isoformat (ld_created_at l),
      ld_first_name l, ld_last_name l, ld_email l, ld_phone l, ld_company l, fmt_str (ld_job_title l), ld_source l,
      fmt_str (ld_device_id l), fmt_str (ld_timing l), fmt_list (ld_interests l), fmt_list (ld_requested_materials l),
      fmt_list (ld_tags l), fmt_bool (ld_inspection_requested l), fmt_str (ld_inspection_type l),
      fmt_bool (ld_marketing_opt_in l), fmt_bool (ld_consent_status l), fmt_time (ld_consent_at l),
      crm_status_name (ld_crm_sync_status l), fmt_str (ld_crm_contact_id l),
      pack_status_name (ld_pack_delivery_status l), fmt_time (ld_pack_delivered_at l),
      fmt_list (ld_pack_delivered_materials l)]"

subsection \<open>csv.writer\<close>

definition DQUOTE :: char where "DQUOTE = CHR 0x22"
definition COMMA :: char where "COMMA = CHR 0x2C"
definition CR :: char where "CR = CHR 0x0D"
definition LF :: char where "LF = CHR 0x0A"

definition must_quote :: "string \<Rightarrow> bool" where
  "must_quote f \<longleftrightarrow> (\<exists>c \<in> set f. c = COMMA \<or> c = DQUOTE \<or> c = CR \<or> c = LF)"

definition escape :: "string \<Rightarrow> string" where
  "escape f = concat (map (\<lambda>c. if c = DQUOTE then [DQUOTE, DQUOTE] else [c]) f)"

definition csv_field :: "string \<Rightarrow> string" where
  "csv_field f = (if must_quote f then [DQUOTE] @ escape f @ [DQUOTE] else f)"

definition writerow :: "string list \<Rightarrow> string" where
  "writerow fs = py_join [COMMA] (map csv_field fs) @ [CR, LF]"

definition leads_to_csv :: "lead list \<Rightarrow> string" where
  "leads_to_csv ls = writerow EXPORT_FIELDS @ concat (map (\<lambda>l. writerow (csv_cells l)) ls)"

definition api_export_leads_csv :: "user http \<Rightarrow> int \<Rightarrow> campaign table \<Rightarrow> lead table \<Rightarrow> (string \<times> string) http" where
  "api_export_leads_csv caller k campaigns t =
     http_then (require_role EVENTS_VIEW_ROLES caller) (\<lambda>u. http_then (require_campaign campaigns k) (\<lambda>c.
       HttpOk 200 (cg_slug c @ ''-leads.csv'',
         leads_to_csv (list_for_campaign (no_filter\<lparr>f_campaign_id := Some k\<rparr>) 100000 0 t))))"

subsection \<open>What reads it back\<close>

text \<open>
  The reference: a reader of comma-separated text with quoted fields, one character at a
  time.
\<close>

datatype csv_mode = FieldStart | Plain | Quoted | QuoteSeen

fun read_csv :: "csv_mode \<Rightarrow> string \<Rightarrow> string list \<Rightarrow> string list list \<Rightarrow> string \<Rightarrow> string list list" where
  "read_csv m f r rs [] = rs"
| "read_csv Quoted f r rs (c # cs) =
     (if c = DQUOTE then read_csv QuoteSeen f r rs cs else read_csv Quoted (f @ [c]) r rs cs)"
| "read_csv m f r rs (c # cs) =
     (if c = COMMA then read_csv FieldStart [] (r @ [f]) rs cs
      else if c = LF then read_csv FieldStart [] [] (rs @ [r @ [f]]) cs
      else if c = CR then read_csv m f r rs cs
      else if c = DQUOTE then read_csv Quoted (if m = QuoteSeen then f @ [c] else f) r rs cs
      else read_csv Plain (f @ [c]) r rs cs)"

definition parse_csv :: "string \<Rightarrow> string list list" where
  "parse_csv s = read_csv FieldStart [] [] [] s"

end
