(* ===== verification/Lead_Export_Safety.thy ===== *)
theory Lead_Export_Safety
  imports Lead_Export
begin

section \<open>The export can be read back\<close>

lemma separators [simp]:
  "DQUOTE \<noteq> COMMA" "DQUOTE \<noteq> CR" "DQUOTE \<noteq> LF" "COMMA \<noteq> CR" "COMMA \<noteq> LF" "CR \<noteq> LF"
  "COMMA \<noteq> DQUOTE" "CR \<noteq> DQUOTE" "LF \<noteq> DQUOTE" "CR \<noteq> COMMA" "LF \<noteq> COMMA" "LF \<noteq> CR"
  by (simp_all add: DQUOTE_def COMMA_def CR_def LF_def)

lemma read_escape: "read_csv Quoted g r rs (escape f @ DQUOTE # rest) = read_csv QuoteSeen (g @ f) r rs rest"
  by (induction f arbitrary: g) (simp_all add: escape_def)

lemma must_quote_Cons:
  "must_quote (c # f) \<longleftrightarrow> c = COMMA \<or> c = DQUOTE \<or> c = CR \<or> c = LF \<or> must_quote f"
  by (auto simp: must_quote_def)

text \<open>An unquoted field is taken as it stands up to its separator.\<close>

lemma read_plain:
  assumes "\<not> must_quote f" and "m = FieldStart \<or> m = Plain"
  shows "read_csv m g r rs (f @ COMMA # rest) = read_csv FieldStart [] (r @ [g @ f]) rs rest"
    and "read_csv m g r rs (f @ CR # LF # rest) = read_csv FieldStart [] [] (rs @ [r @ [g @ f]]) rest"
  using assms by (induction f arbitrary: g m) (auto simp: must_quote_Cons)

lemma read_field:
  "read_csv FieldStart [] r rs (csv_field f @ COMMA # rest) = read_csv FieldStart [] (r @ [f]) rs rest"
  "read_csv FieldStart [] r rs (csv_field f @ CR # LF # rest) = read_csv FieldStart [] [] (rs @ [r @ [f]]) rest"
  using read_plain [of f FieldStart "[]"] read_escape [of "[]" r rs f] by (auto simp: csv_field_def)

lemma read_row:
  "fs \<noteq> [] \<Longrightarrow> read_csv FieldStart [] r rs (writerow fs @ rest) = read_csv FieldStart [] [] (rs @ [r @ fs]) rest"
proof (induction fs arbitrary: r)
  case (Cons f fs)
  then show ?case by (cases fs) (simp_all add: writerow_def read_field)
qed simp

lemma read_rows:
  "(\<And>x. x \<in> set xs \<Longrightarrow> to_cells x \<noteq> []) \<Longrightarrow>
    read_csv FieldStart [] [] rs (concat (map (\<lambda>x. writerow (to_cells x)) xs)) = rs @ map to_cells xs"
  by (induction xs arbitrary: rs) (simp_all add: read_row)

text \<open>C30: the export loses nothing: a reader of quoted comma-separated text gets back the header and,
  row by row, exactly the cells of every lead, whatever commas, quotes and line breaks a
  visitor typed into the form.\<close>

theorem csv_export_roundtrip:
  "parse_csv (leads_to_csv ls) = EXPORT_FIELDS # map csv_cells ls"
proof -
  have "EXPORT_FIELDS \<noteq> []" by (simp add: EXPORT_FIELDS_def)
  moreover have "csv_cells l \<noteq> []" for l by (simp add: csv_cells_def)
  ultimately show ?thesis by (simp add: parse_csv_def leads_to_csv_def read_row read_rows)
qed

text \<open>Every row has a cell for every column of the header.\<close>

lemma csv_row_width: "length (csv_cells l) = length EXPORT_FIELDS"
  by (simp add: csv_cells_def EXPORT_FIELDS_def)

lemma isoformat_examples:
  "isoformat 0 = ''1970-01-01T00:00:00+00:00''"
  "isoformat 1767607200000001 = ''2026-01-05T10:00:00.000001+00:00''"
  by code_simp+

end
