(* ===== verification/Prospecting.thy ===== *)
theory Prospecting
  imports Crm_Sync Campaigns_Api Client
begin

section \<open>AI lead generation: scoring and prospecting\<close>

text \<open>
  Model of \<open>app/services/icp_scoring.py\<close>, \<open>app/services/lead_prospecting.py\<close> and the
  prospecting webhook of \<open>app/api/v1/endpoints/webhooks.py\<close>. The language model's answer
  (its text, or \<open>None\<close> when the request fails or has another shape), \<open>json.loads\<close>, the
  e-mail validator and the contact service are arguments. The texts of the prompts are not
  modelled, the values filled into them are.
\<close>

subsection \<open>Which rubric\<close>

definition RESIDENTIAL_SUBSTRING :: string where "RESIDENTIAL_SUBSTRING = ''resid''"
definition OFFICE_SUBSTRING :: string where "OFFICE_SUBSTRING = ''offic''"
definition VALID_TIERS :: "string list" where "VALID_TIERS = [''Tier 1'', ''Tier 2'', ''Tier 3'', ''Skip'']"

definition is_residential_only :: "lead \<Rightarrow> bool" where
  "is_residential_only l =
     (let is = map py_lower (or_list (ld_interests l) [])
      in (\<exists>i \<in> set is. contains RESIDENTIAL_SUBSTRING i) \<and> \<not> (\<exists>i \<in> set is. contains OFFICE_SUBSTRING i))"

definition json_or :: "json \<Rightarrow> json \<Rightarrow> json" where
  "json_or x y = (if json_truthy x then x else y)"

text \<open>\<open>(lead.responses or {}).get("enrichment") or {}\<close>; a value that is no object has no \<open>get\<close>.\<close>

definition enrichment :: "lead \<Rightarrow> json dict option" where
  "enrichment l = (let e = json_get (ld_responses l) ''enrichment'' in
     if \<not> json_truthy e then Some [] else case e of JObj d \<Rightarrow> Some d | _ \<Rightarrow> None)"

text \<open>\<open>", ".join(...)\<close> of a JSON value: a list of strings, or the characters of a
  string, or the keys of an object; anything else raises.\<close>

fun json_join :: "json \<Rightarrow> string option" where
  "json_join (JList xs) = (if list_all (\<lambda>x. case x of JStr s \<Rightarrow> True | _ \<Rightarrow> False) xs
     then Some (py_join '', '' (List.map_filter (\<lambda>x. case x of JStr s \<Rightarrow> Some s | _ \<Rightarrow> None) xs)) else None)"
| "json_join (JStr s) = Some (py_join '', '' (map (\<lambda>c. [c]) s))"
| "json_join (JObj d) = Some (py_join '', '' (map fst d))"
| "json_join _ = None"

definition format_lead_data :: "lead \<Rightarrow> json dict option" where
  "format_lead_data l = Option.bind (enrichment l) (\<lambda>e.
     let known = (\<lambda>k d. json_or (json_get e k) (JStr d)) in
     map_option (\<lambda>kw.
       [(''name'', JStr (py_strip (ld_first_name l @ '' '' @ ld_last_name l))),
        (''job_title'', JStr (or_list (ld_job_title l) ''Unknown'')),
        (''company'', JStr (or_list (Some (ld_company l)) ''Unknown'')),
        (''interests'', JStr (or_list (Some (py_join '', '' (or_list (ld_interests l) []))) ''None stated'')),
        (''requested_materials'', JStr (or_list (Some (py_join '', '' (or_list (ld_requested_materials l) []))) ''None'')),
        (''timing'', JStr (or_list (ld_timing l) ''Not stated'')),
        (''industry'', known ''industry'' ''Unknown''),
        (''estimated_num_employees'', known ''estimated_num_employees'' ''Unknown''),
        (''annual_revenue'', json_or (json_get e ''organization_revenue_printed'')
           (known ''annual_revenue_printed'' ''Unknown'')),
        (''country'', known ''country'' ''Unknown''), (''city'', known ''city'' ''Unknown''),
        (''founded_year'', known ''founded_year'' ''Unknown''),
        (''short_description'', known ''short_description'' ''None available''),
        (''keywords'', JStr (or_list (Some kw) ''None''))])
       (json_join (json_or (json_get e ''keywords'') (JList []))))"

subsection \<open>The model's answer\<close>

fun until_fence :: "string \<Rightarrow> string" where
  "until_fence [] = []"
| "until_fence (c # cs) = (if starts_with ''```'' (c # cs) then [] else c # until_fence cs)"

definition strip_prefix :: "string \<Rightarrow> string \<Rightarrow> string" where
  "strip_prefix p s = (if starts_with p s then drop (length p) s else s)"

definition unfenced :: "string \<Rightarrow> string" where
  "unfenced content = (let text = py_strip content in
     if starts_with ''```'' text then py_strip (strip_prefix ''json'' (until_fence (drop 3 text))) else text)"

definition parse_json_response :: "(string \<Rightarrow> json option) \<Rightarrow> string \<Rightarrow> json option" where
  "parse_json_response json_loads content = json_loads (unfenced content)"

record icp_result =
  ir_industry_score :: int
  ir_financial_capacity_score :: int
  ir_footprint_score :: int
  ir_trigger_score :: int
  ir_icp_score :: int
  ir_lead_tier :: string
  ir_trigger_event :: string
  ir_rationale :: string
  ir_residential :: bool

text \<open>An \<open>int\<close> field takes integers, booleans, whole floats and decimal texts (\<open>to_int\<close>) in its range.\<close>

definition lax_int :: "(string \<Rightarrow> int option) \<Rightarrow> json \<Rightarrow> int option" where
  "lax_int to_int j = (case j of JInt i \<Rightarrow> Some i | JBool b \<Rightarrow> Some (if b then 1 else 0)
     | JFloat r \<Rightarrow> (if of_int \<lfloor>r\<rfloor> = r then Some \<lfloor>r\<rfloor> else None) | JStr s \<Rightarrow> to_int s | _ \<Rightarrow> None)"

definition ranged :: "(string \<Rightarrow> int option) \<Rightarrow> json dict \<Rightarrow> string \<Rightarrow> int \<Rightarrow> int option" where
  "ranged to_int d k hi = Option.bind (lax_int to_int (json_get d k)) (\<lambda>i. if 0 \<le> i \<and> i \<le> hi then Some i else None)"

definition strict_str :: "json dict \<Rightarrow> string \<Rightarrow> string option" where
  "strict_str d k = (case json_get d k of JStr s \<Rightarrow> Some s | _ \<Rightarrow> None)"

definition mk_icp_result :: "(string \<Rightarrow> int option) \<Rightarrow> bool \<Rightarrow> json dict \<Rightarrow> icp_result option" where
  "mk_icp_result to_int residential d =
     (case (ranged to_int d ''industry_score'' 30, ranged to_int d ''financial_capacity_score'' 25,
            ranged to_int d ''footprint_score'' 30, ranged to_int d ''trigger_score'' 15,
            ranged to_int d ''icp_score'' 100,
            strict_str d ''lead_tier'', strict_str d ''trigger_event'', strict_str d ''rationale'') of
        (Some a, Some b, Some f, Some t, Some s, Some tier, Some ev, Some ra) \<Rightarrow> Some
          \<lparr>ir_industry_score = a, ir_financial_capacity_score = b, ir_footprint_score = f, ir_trigger_score = t,
           ir_icp_score = s, ir_lead_tier = tier, ir_trigger_event = ev, ir_rationale = ra, ir_residential = residential\<rparr>
      | _ \<Rightarrow> None)"

text \<open>\<open>None\<close> is an exception; every caller catches them all.\<close>

definition score_lead ::
    "(string \<Rightarrow> json option) \<Rightarrow> (string \<Rightarrow> int option) \<Rightarrow> (bool \<Rightarrow> json dict \<Rightarrow> string option) \<Rightarrow> lead \<Rightarrow> icp_result option" where
  "score_lead json_loads to_int ask l = (let residential = is_residential_only l in
     Option.bind (format_lead_data l) (\<lambda>prompt.
     Option.bind (ask residential prompt) (\<lambda>content.
     Option.bind (parse_json_response json_loads content) (\<lambda>j.
     Option.bind (case j of JObj d \<Rightarrow> mk_icp_result to_int residential d | _ \<Rightarrow> None) (\<lambda>r.
     if ir_lead_tier r \<in> set VALID_TIERS then Some r else None)))))"

subsection \<open>Company signals\<close>

definition PROSPECTING_CAMPAIGN_SLUG :: string where "PROSPECTING_CAMPAIGN_SLUG = ''ai-prospecting''"

record company_signal =
  sg_organization :: "json dict"
  sg_trigger_event :: "string option"
  sg_trigger_type :: "string option"
  sg_article_url :: "string option"
  sg_industry_sector :: "string option"
  sg_lead_tier :: "string option"
  sg_icp_score :: "int option"

record prospect_contact =
  pc_first_name :: string
  pc_last_name :: string
  pc_email :: string
  pc_professional_title :: "string option"
  pc_linkedin_url :: "string option"
  pc_country :: "string option"
  pc_drafts :: "(string option \<times> string option) list"

record prospect_result =
  pr_domain :: "string option"
  pr_received :: nat
  pr_deduped_out :: nat
  pr_created :: nat
  pr_lead_ids :: "int option list"

datatype prospect_error =
    ProspectClientError client_error
  | ProspectTypeError
  | ProspectValidationError
  | ProspectCaptureError capture_error

text \<open>\<open>ProspectContact(**raw)\<close>: \<open>email_str\<close> is pydantic's \<open>EmailStr\<close>, which normalises; a draft is a subject and a body.\<close>

definition optional_str :: "json dict \<Rightarrow> string \<Rightarrow> string option option" where
  "optional_str d k = (case json_get d k of JNull \<Rightarrow> Some None | JStr s \<Rightarrow> Some (Some s) | _ \<Rightarrow> None)"

fun all_some :: "'a option list \<Rightarrow> 'a list option" where
  "all_some [] = Some []"
| "all_some (x # xs) = Option.bind x (\<lambda>y. map_option ((#) y) (all_some xs))"

definition DRAFT_FIELDS :: "(string \<times> string) list" where
  "DRAFT_FIELDS = [(''email_1_subject'', ''email_1_body''), (''email_2_subject'', ''email_2_body''),
     (''email_3_subject'', ''email_3_body''), (''email_4_subject'', ''email_4_body'')]"

definition parse_contact :: "(string \<Rightarrow> string option) \<Rightarrow> json \<Rightarrow> prospect_contact option" where
  "parse_contact email_str raw = (case raw of
     JObj d \<Rightarrow>
       (case (strict_str d ''first_name'', strict_str d ''last_name'', Option.bind (strict_str d ''email'') email_str,
              optional_str d ''professional_title'', optional_str d ''linkedin_url'', optional_str d ''country'',
              optional_str d ''person_id'',
              all_some (map (\<lambda>(s, b). case (optional_str d s, optional_str d b) of
                (Some x, Some y) \<Rightarrow> Some (x, y) | _ \<Rightarrow> None) DRAFT_FIELDS)) of
          (Some f, Some l, Some e, Some t, Some u, Some c, Some _, Some ds) \<Rightarrow> Some
            \<lparr>pc_first_name = f, pc_last_name = l, pc_email = e, pc_professional_title = t, pc_linkedin_url = u,
             pc_country = c, pc_drafts = ds\<rparr>
        | _ \<Rightarrow> None)
   | _ \<Rightarrow> None)"

text \<open>\<open>data if isinstance(data, list) else data.get("contacts", [])\<close>, then a loop over it.\<close>

fun raw_contacts :: "json \<Rightarrow> prospect_error + json list" where
  "raw_contacts (JList xs) = Inr xs"
| "raw_contacts (JObj d) = (case map_of d ''contacts'' of
     None \<Rightarrow> Inr []
   | Some (JList xs) \<Rightarrow> Inr xs
   | Some (JObj e) \<Rightarrow> Inr (map (JStr \<circ> fst) e)
   | Some (JStr s) \<Rightarrow> Inr (map (\<lambda>c. JStr [c]) s)
   | Some _ \<Rightarrow> Inl ProspectTypeError)"
| "raw_contacts _ = Inl ProspectTypeError"

record prospect_env =
  pv_now :: time
  pv_rival :: "lead table \<Rightarrow> lead table"
  pv_email_str :: "string \<Rightarrow> string option"
  pv_poc_url :: string
  pv_sync_enabled :: bool
  pv_poc :: "string \<Rightarrow> client_error + json"
  pv_crm_lookup :: "string \<Rightarrow> client_error + bool"
  pv_score :: "lead \<Rightarrow> icp_result option"

definition fetch_contacts :: "prospect_env \<Rightarrow> string \<Rightarrow> prospect_error + prospect_contact list" where
  "fetch_contacts pv domain =
     (if pv_poc_url pv = [] then Inr []
      else case pv_poc pv domain of
        Inl e \<Rightarrow> Inl (ProspectClientError e)
      | Inr data \<Rightarrow> rbind (raw_contacts data) (\<lambda>rs. Inr (List.map_filter (parse_contact (pv_email_str pv)) rs)))"

definition is_known_to_crm :: "prospect_env \<Rightarrow> string \<Rightarrow> prospect_error + bool" where
  "is_known_to_crm pv email =
     (if \<not> pv_sync_enabled pv then Inr False
      else case pv_crm_lookup pv email of Inl e \<Rightarrow> Inl (ProspectClientError e) | Inr b \<Rightarrow> Inr b)"

definition json_str :: "string option \<Rightarrow> json" where
  "json_str x = (case x of None \<Rightarrow> JNull | Some s \<Rightarrow> JStr s)"

text \<open>
  The request built from a contact, \<open>None\<close> when its validation fails: the company must be a
  text too.
\<close>

definition prospect_request :: "prospect_env \<Rightarrow> company_signal \<Rightarrow> prospect_contact \<Rightarrow> lead_request option" where
  "prospect_request pv sg c =
     (case json_or (json_get (sg_organization sg) ''name'') (JStr ''Unknown'') of
        JStr company \<Rightarrow>
          (let q = \<lparr>lq_first_name = pc_first_name c, lq_last_name = pc_last_name c,
             lq_email = py_lower (py_strip (pc_email c)), lq_phone = None, lq_company = company,
             lq_job_title = pc_professional_title c, lq_source = ''ai_prospecting'', lq_device_id = None,
             lq_timing = None, lq_interests = None, lq_requested_materials = None, lq_inspection_requested = False,
             lq_inspection_type = None, lq_marketing_opt_in = False, lq_consent_status = False, lq_captured_at = None,
             lq_responses =
               [(''enrichment'', JObj (sg_organization sg)), (''trigger_event'', json_str (sg_trigger_event sg)),
                (''trigger_type'', json_str (sg_trigger_type sg)), (''article_url'', json_str (sg_article_url sg)),
                (''industry_sector'', json_str (sg_industry_sector sg)),
                (''n8n_prescore'', case sg_icp_score sg of None \<Rightarrow> JNull | Some i \<Rightarrow> JInt i),
                (''n8n_prescore_tier'', json_str (sg_lead_tier sg)), (''linkedin_url'', json_str (pc_linkedin_url c)),
                (''country'', json_str (pc_country c)),
                (''drafted_outreach'', JList (map (\<lambda>(s, b). JObj [(''subject'', json_str s), (''body'', json_str b)]) (pc_drafts c)))]\<rparr>
           in if valid_lead_request (\<lambda>s. pv_email_str pv s \<noteq> None) q then Some q else None)
      | _ \<Rightarrow> None)"

definition scored :: "prospect_env \<Rightarrow> lead \<Rightarrow> lead table \<Rightarrow> lead table" where
  "scored pv l t = (case pv_score pv l of
     None \<Rightarrow> t
   | Some r \<Rightarrow> update_lead (l\<lparr>ld_icp_score := Some (ir_icp_score r), ld_icp_tier := Some (ir_lead_tier r),
       ld_icp_rationale := Some (ir_rationale r)\<rparr>) t)"

fun ingest_contacts ::
    "prospect_env \<Rightarrow> campaign table \<Rightarrow> int \<Rightarrow> company_signal \<Rightarrow> prospect_contact list \<Rightarrow> prospect_result \<Rightarrow> lead table
      \<Rightarrow> (prospect_error + prospect_result) \<times> lead table" where
  "ingest_contacts pv campaigns k sg [] res t = (Inr res, t)"
| "ingest_contacts pv campaigns k sg (c # cs) res t =
     (let email = py_lower (py_strip (pc_email c));
          known = (if get_by_campaign_email t k email \<noteq> None then Inr True else is_known_to_crm pv email)
      in case known of
        Inl e \<Rightarrow> (Inl e, t)
      | Inr True \<Rightarrow> ingest_contacts pv campaigns k sg cs (res\<lparr>pr_deduped_out := pr_deduped_out res + 1\<rparr>) t
      | Inr False \<Rightarrow>
          (case prospect_request pv sg c of
             None \<Rightarrow> (Inl ProspectValidationError, t)
           | Some q \<Rightarrow>
               (case capture_lead (pv_now pv) (pv_rival pv) campaigns PROSPECTING_CAMPAIGN_SLUG q t of
                  Inl e \<Rightarrow> (Inl (ProspectCaptureError e), t)
                | Inr (l, t') \<Rightarrow> ingest_contacts pv campaigns k sg cs
                    (res\<lparr>pr_created := pr_created res + 1, pr_lead_ids := pr_lead_ids res @ [ld_id l]\<rparr>) (scored pv l t'))))"

definition ingest_company_signal ::
    "prospect_env \<Rightarrow> campaign table \<Rightarrow> company_signal \<Rightarrow> lead table \<Rightarrow> (prospect_error + prospect_result) \<times> lead table" where
  "ingest_company_signal pv campaigns sg t =
     (case json_or (json_get (sg_organization sg) ''primary_domain'') (JStr []) of
        JStr s \<Rightarrow>
          (let domain = py_lower (py_strip s);
               none = \<lparr>pr_domain = None, pr_received = 0, pr_deduped_out = 0, pr_created = 0, pr_lead_ids = []\<rparr>
           in if domain = [] then (Inr none, t)
              else case get_by_slug campaigns PROSPECTING_CAMPAIGN_SLUG of
                None \<Rightarrow> (Inr (none\<lparr>pr_domain := Some domain\<rparr>), t)
              | Some c \<Rightarrow>
                  (case fetch_contacts pv domain of
                     Inl e \<Rightarrow> (Inl e, t)
                   | Inr cs \<Rightarrow> ingest_contacts pv campaigns (default (cg_id c) 0) sg cs
                       (none\<lparr>pr_domain := Some domain, pr_received := length cs\<rparr>) t))
      | _ \<Rightarrow> (Inl ProspectTypeError, t))"

text \<open>The webhook: an empty configured secret lets every caller in.\<close>

definition prospecting_company_signal ::
    "prospect_env \<Rightarrow> string \<Rightarrow> string option \<Rightarrow> campaign table \<Rightarrow> company_signal \<Rightarrow> lead table \<Rightarrow> prospect_result http \<times> lead table" where
  "prospecting_company_signal pv secret hdr campaigns sg t =
     (if secret \<noteq> [] \<and> hdr \<noteq> Some secret then (HttpError 401 ''Invalid webhook secret'', t)
      else case ingest_company_signal pv campaigns sg t of
        (Inl e, t') \<Rightarrow> (HttpError 500 ''Internal Server Error'', t')
      | (Inr r, t') \<Rightarrow> (HttpOk 200 r, t'))"

end
