(* ===== verification/Prospecting_Safety.thy ===== *)
theory Prospecting_Safety
  imports Prospecting Lead_Safety
begin

section \<open>What prospecting guarantees\<close>

subsection \<open>Scores\<close>

lemma ranged_bounds: "ranged to_int d k hi = Some i \<Longrightarrow> 0 \<le> i \<and> i \<le> hi"
  by (auto simp: ranged_def bind_eq_Some_conv split: if_splits)

lemma mk_icp_result_range:
  "mk_icp_result to_int residential d = Some r \<Longrightarrow> 0 \<le> ir_icp_score r \<and> ir_icp_score r \<le> 100 \<and> ir_residential r = residential"
  unfolding mk_icp_result_def by (auto split: option.splits dest: ranged_bounds)

lemma accepted_score_in_range:
  assumes "score_lead json_loads to_int ask l = Some r"
  shows "0 \<le> ir_icp_score r \<and> ir_icp_score r \<le> 100 \<and> ir_lead_tier r \<in> set VALID_TIERS \<and>
    ir_residential r = is_residential_only l"
proof -
  obtain j where j: "(case j of JObj d \<Rightarrow> mk_icp_result to_int (is_residential_only l) d | _ \<Rightarrow> None) = Some r"
    and tier: "ir_lead_tier r \<in> set VALID_TIERS"
    using assms unfolding score_lead_def Let_def bind_eq_Some_conv by (metis option.distinct(1) option.inject)
  from j obtain d where "mk_icp_result to_int (is_residential_only l) d = Some r" by (cases j) auto
  with tier mk_icp_result_range show ?thesis by blast
qed

text \<open>
  The tier mapping the prompt calls mandatory is left to the model: 90 points with the tier
  Skip are accepted.
\<close>

lemma tier_is_not_checked:
  "score_lead (\<lambda>_. Some (JObj [(''industry_score'', JInt 30), (''financial_capacity_score'', JInt 25),
      (''footprint_score'', JInt 30), (''trigger_score'', JInt 5), (''icp_score'', JInt 90),
      (''lead_tier'', JStr ''Skip''), (''trigger_event'', JStr ''x''), (''rationale'', JStr ''y'')]))
    (\<lambda>_. None) (\<lambda>_ _. Some ''json'') (new_lead 1 ''a@b'') =
   Some \<lparr>ir_industry_score = 30, ir_financial_capacity_score = 25, ir_footprint_score = 30, ir_trigger_score = 5,
     ir_icp_score = 90, ir_lead_tier = ''Skip'', ir_trigger_event = ''x'', ir_rationale = ''y'', ir_residential = False\<rparr>"
  by code_simp

subsection \<open>E-mail addresses\<close>

lemma is_space_lower [simp]: "is_space (lower_char c) = is_space c"
proof (cases "CHR ''A'' \<le> c \<and> c \<le> CHR ''Z''")
  case True
  then have "65 \<le> (of_char c :: nat)" and "(of_char c :: nat) \<le> 90" by (simp_all add: less_eq_char_def)
  moreover from this have "(of_char (char_of (of_char c + 32 :: nat)) :: nat) = of_char c + 32" by (simp add: of_char_of)
  ultimately show ?thesis using True by (simp add: lower_char_def is_space_def Let_def)
qed (auto simp: lower_char_def)

lemma dropWhile_lower: "dropWhile is_space (map lower_char s) = map lower_char (dropWhile is_space s)"
  by (induction s) simp_all

lemma strip_lower: "py_strip (py_lower s) = py_lower (py_strip s)"
  by (simp add: py_strip_def py_lower_def dropWhile_lower rev_map)

lemma dropWhile_idem: "dropWhile p (dropWhile p s) = dropWhile p s"
  by (induction s) simp_all

lemma dropWhile_rev_dropWhile:
  "dropWhile p (rev (dropWhile p (rev (dropWhile p s)))) = rev (dropWhile p (rev (dropWhile p s)))"
proof (cases "dropWhile p s")
  case (Cons c cs)
  then have "\<not> p c" by (metis dropWhile_eq_Cons_conv)
  then have "dropWhile p (rev cs @ [c]) = dropWhile p (rev cs) @ [c]"
    by (induction "rev cs" rule: list.induct) (auto simp: dropWhile_append)
  with Cons \<open>\<not> p c\<close> show ?thesis by simp
next
  case Nil
  then show ?thesis by (simp only: rev.simps dropWhile.simps)
qed

lemma strip_idem: "py_strip (py_strip s) = py_strip s"
  unfolding py_strip_def dropWhile_rev_dropWhile rev_rev_ident by (simp add: dropWhile_idem)

text \<open>The address the ingest looks up is the address the capture looks up.\<close>

lemma norm_email_again: "norm_email (py_lower (py_strip s)) = py_lower (py_strip s)"
  by (simp add: norm_email_def strip_lower strip_idem)

subsection \<open>The ingest\<close>

lemma prospect_request_fields:
  assumes "prospect_request pv sg c = Some q"
  shows "lq_email q = py_lower (py_strip (pc_email c))" "lq_consent_status q = False" "lq_requested_materials q = None"
    "lq_first_name q = pc_first_name c" "lq_last_name q = pc_last_name c" "lq_job_title q = pc_professional_title c"
  using assms by (auto simp: prospect_request_def Let_def split: json.splits if_splits)

text \<open>A capture of an address the table does not hold adds one row at the end.\<close>

lemma capture_new_row:
  assumes ok: "ok_leads t" and camp: "get_by_slug campaigns slug = Some c"
    and new: "get_by_campaign_email t (default (cg_id c) 0) (norm_email (lq_email q)) = None"
    and run: "capture_lead now (\<lambda>t. t) campaigns slug q t = Inr (l, t')"
  shows "ok_leads t' \<and> rows t' = rows t @ [l] \<and> ld_campaign_id l = default (cg_id c) 0 \<and>
    ld_crm_sync_status l = CrmPending \<and> ld_email l = norm_email (lq_email q) \<and> ld_first_name l = lq_first_name q \<and>
    ld_last_name l = lq_last_name q \<and> ld_job_title l = lq_job_title q"
proof -
  from run obtain created where "capture_lead_created now (\<lambda>t. t) campaigns slug q t = Inr ((l, created), t')"
    by (auto simp: capture_lead_def rbind_eq_Inr_iff)
  then show ?thesis
  proof (rule capture_cases)
    fix c' :: campaign
    assume "get_by_slug campaigns slug = Some c'"
    with camp have c': "c' = c" by simp
    assume "(\<exists>e. get_by_campaign_email t (default (cg_id c') 0) (norm_email (lq_email q)) = Some e \<and>
          l = merge_payload now c' q (Some e) e \<and> \<not> created \<and> t' = update_lead l t)
      \<or> (created \<and> get_by_campaign_email t (default (cg_id c') 0) (norm_email (lq_email q)) = None \<and>
          create_lead now (merge_payload now c' q None (new_lead (default (cg_id c') 0) (norm_email (lq_email q)))) t
            = Some (l, t'))
      \<or> (\<exists>e c''. \<not> created \<and> get_by_campaign_email t (default (cg_id c') 0) (norm_email (lq_email q)) = None \<and>
          get_by_campaign_email t (default (cg_id c') 0) (norm_email (lq_email q)) = Some e \<and>
          l = merge_payload now c'' q (Some e) e \<and> t' = update_lead l t)"
    with new have "create_lead now (merge_payload now c q None (new_lead (default (cg_id c) 0) (norm_email (lq_email q)))) t
        = Some (l, t')" unfolding c' by auto
    note row = create_lead_Some [OF ok this]
    then show ?thesis by (simp add: set_ld_id_def new_lead_def)
  qed
qed

text \<open>Scoring writes the new row back and leaves the others alone.\<close>

lemma scored_row:
  assumes ok: "ok_leads t" and rows: "rows t = xs @ [l]"
  shows "\<exists>l'. ok_leads (scored pv l t) \<and> rows (scored pv l t) = xs @ [l'] \<and> ld_campaign_id l' = ld_campaign_id l \<and>
    ld_crm_sync_status l' = ld_crm_sync_status l \<and> ld_email l' = ld_email l \<and> ld_first_name l' = ld_first_name l \<and>
    ld_last_name l' = ld_last_name l \<and> ld_job_title l' = ld_job_title l \<and> ld_id l' = ld_id l"
proof (cases "pv_score pv l")
  case None
  with ok rows show ?thesis by (simp add: scored_def)
next
  case (Some r)
  let ?l = "l\<lparr>ld_icp_score := Some (ir_icp_score r), ld_icp_tier := Some (ir_lead_tier r), ld_icp_rationale := Some (ir_rationale r)\<rparr>"
  have "distinct (map ld_id (rows t))" using ok by (simp add: ok_leads_def ok_table_def wf_table_def)
  then have "map (\<lambda>x. if ld_id x = ld_id ?l then ?l else x) xs = xs"
    unfolding rows by (intro map_eq_if_not_in) auto
  then have "rows (scored pv l t) = xs @ [?l]"
    using Some rows by (simp add: scored_def update_lead_def)
  moreover have "ok_leads (scored pv l t)"
    using ok_update_lead(1) [OF ok, of l ?l] Some rows by (simp add: scored_def)
  ultimately show ?thesis by auto
qed

text \<open>The address a contact is stored under, and the addresses of a list in the order they first occur.\<close>

definition contact_address :: "prospect_contact \<Rightarrow> string" where
  "contact_address c = py_lower (py_strip (pc_email c))"

definition first_addresses :: "prospect_contact list \<Rightarrow> string list" where
  "first_addresses cs = rev (remdups (rev (map contact_address cs)))"

lemma remdups_snoc: "remdups (xs @ [x]) = filter (\<lambda>y. y \<noteq> x) (remdups xs) @ [x]"
  by (induction xs) auto

lemma first_addresses_Cons:
  "first_addresses (c # cs) = contact_address c # filter (\<lambda>e. e \<noteq> contact_address c) (first_addresses cs)"
  by (simp add: first_addresses_def remdups_snoc rev_filter)

text \<open>The row of a contact: its address and name, in the campaign, queued for the CRM.\<close>

definition row_of_contact :: "int \<Rightarrow> prospect_contact list \<Rightarrow> lead \<Rightarrow> bool" where
  "row_of_contact k cs l \<longleftrightarrow> ld_campaign_id l = k \<and> ld_crm_sync_status l = CrmPending \<and>
     (case List.find (\<lambda>c. contact_address c = ld_email l) cs of
        None \<Rightarrow> False
      | Some c \<Rightarrow> ld_first_name l = pc_first_name c \<and> ld_last_name l = pc_last_name c \<and>
          ld_job_title l = pc_professional_title c)"

lemma row_of_contact_skip: "row_of_contact k cs l \<Longrightarrow> ld_email l \<noteq> contact_address c \<Longrightarrow> row_of_contact k (c # cs) l"
  by (simp add: row_of_contact_def)

abbreviation new_address :: "prospect_env \<Rightarrow> int \<Rightarrow> lead table \<Rightarrow> string \<Rightarrow> bool" where
  "new_address pv k t e \<equiv> get_by_campaign_email t k e = None \<and> is_known_to_crm pv e = Inr False"

lemma get_by_campaign_email_append:
  "rows t' = rows t @ [l] \<Longrightarrow> ld_campaign_id l = k \<Longrightarrow>
    get_by_campaign_email t' k e = None \<longleftrightarrow> get_by_campaign_email t k e = None \<and> e \<noteq> ld_email l"
  by (auto simp: get_by_campaign_email_def find_None_all)

lemma ingest_contacts_accounts:
  assumes "ok_leads t" "get_by_slug campaigns PROSPECTING_CAMPAIGN_SLUG = Some c" "pv_rival pv = (\<lambda>t. t)"
    and "ingest_contacts pv campaigns (default (cg_id c) 0) sg cs res t = (Inr r, t')"
  shows "ok_leads t' \<and> pr_received r = pr_received res \<and> pr_domain r = pr_domain res \<and>
    pr_deduped_out r + pr_created r = pr_deduped_out res + pr_created res + length cs \<and>
    (\<exists>new. rows t' = rows t @ new \<and> pr_created r = pr_created res + length new \<and>
      pr_lead_ids r = pr_lead_ids res @ map ld_id new \<and>
      map ld_email new = filter (new_address pv (default (cg_id c) 0) t) (first_addresses cs) \<and>
      (\<forall>l \<in> set new. row_of_contact (default (cg_id c) 0) cs l))"
  using assms(1,4)
proof (induction cs arbitrary: res t)
  case Nil
  then show ?case by (simp add: first_addresses_def)
next
  case (Cons x cs)
  let ?k = "default (cg_id c) 0" and ?e = "contact_address x"
  let ?known = "if get_by_campaign_email t ?k ?e \<noteq> None then Inr True else is_known_to_crm pv ?e"
  note step = Cons.prems(2) [unfolded ingest_contacts.simps Let_def, folded contact_address_def]
  consider (err) e where "?known = Inl e" | (dup) "?known = Inr True" | (new) "?known = Inr False"
    by (metis (full_types) obj_sumE)
  then show ?case
  proof cases
    case err
    with step show ?thesis by simp
  next
    case dup
    with step have "ingest_contacts pv campaigns ?k sg cs (res\<lparr>pr_deduped_out := pr_deduped_out res + 1\<rparr>) t = (Inr r, t')"
      by simp
    note IH = Cons.IH [OF Cons.prems(1) this]
    have old: "\<not> new_address pv ?k t ?e" using dup by (auto split: if_splits)
    then have fl: "filter (new_address pv ?k t) (first_addresses (x # cs)) = filter (new_address pv ?k t) (first_addresses cs)"
      unfolding first_addresses_Cons by (auto simp: filter_filter intro!: filter_cong)
    from IH obtain new where new: "rows t' = rows t @ new" "pr_created r = pr_created res + length new"
        "pr_lead_ids r = pr_lead_ids res @ map ld_id new"
        "map ld_email new = filter (new_address pv ?k t) (first_addresses cs)" "\<forall>l \<in> set new. row_of_contact ?k cs l" by auto
    have "ld_email l \<noteq> ?e" if "l \<in> set new" for l
    proof -
      have "ld_email l \<in> set (map ld_email new)" using that by simp
      then have "new_address pv ?k t (ld_email l)" unfolding new(4) by simp
      with old show ?thesis by metis
    qed
    with new(5) have "\<forall>l \<in> set new. row_of_contact ?k (x # cs) l" using row_of_contact_skip by blast
    with IH new(1-4) show ?thesis unfolding fl by auto
  next
    case new
    then have none: "get_by_campaign_email t ?k ?e = None" and crm: "is_known_to_crm pv ?e = Inr False" by (auto split: if_splits)
    from new step obtain q l t1 where q: "prospect_request pv sg x = Some q"
      and cap: "capture_lead (pv_now pv) (pv_rival pv) campaigns PROSPECTING_CAMPAIGN_SLUG q t = Inr (l, t1)"
      and rest: "ingest_contacts pv campaigns ?k sg cs
        (res\<lparr>pr_created := pr_created res + 1, pr_lead_ids := pr_lead_ids res @ [ld_id l]\<rparr>) (scored pv l t1) = (Inr r, t')"
      by (auto split: option.splits sum.splits)
    have addr: "norm_email (lq_email q) = ?e"
      by (simp add: prospect_request_fields [OF q] norm_email_again contact_address_def)
    with none have "get_by_campaign_email t ?k (norm_email (lq_email q)) = None" by simp
    from capture_new_row [OF Cons.prems(1) assms(2) this cap [unfolded assms(3)]]
    have row: "ok_leads t1" "rows t1 = rows t @ [l]" "ld_campaign_id l = ?k" "ld_crm_sync_status l = CrmPending"
      "ld_email l = ?e" "ld_first_name l = pc_first_name x" "ld_last_name l = pc_last_name x"
      "ld_job_title l = pc_professional_title x"
      by (simp_all add: norm_email_again contact_address_def prospect_request_fields [OF q])
    obtain l' where l': "ok_leads (scored pv l t1)" "rows (scored pv l t1) = rows t @ [l']"
        "ld_campaign_id l' = ?k" "ld_crm_sync_status l' = CrmPending" "ld_email l' = ?e" "ld_id l' = ld_id l"
        "ld_first_name l' = pc_first_name x" "ld_last_name l' = pc_last_name x" "ld_job_title l' = pc_professional_title x"
      using scored_row [OF row(1,2), of pv] row(3-8) by auto
    have later: "new_address pv ?k (scored pv l t1) e \<longleftrightarrow> new_address pv ?k t e \<and> e \<noteq> ?e" for e
      using get_by_campaign_email_append [OF l'(2,3), of e] l'(5) by auto
    from Cons.IH [OF l'(1) rest] obtain new where n: "ok_leads t'" "pr_received r = pr_received res" "pr_domain r = pr_domain res"
        "pr_deduped_out r + pr_created r = pr_deduped_out res + (pr_created res + 1) + length cs"
        "rows t' = rows (scored pv l t1) @ new" "pr_created r = pr_created res + 1 + length new"
        "pr_lead_ids r = (pr_lead_ids res @ [ld_id l]) @ map ld_id new"
        "map ld_email new = filter (new_address pv ?k (scored pv l t1)) (first_addresses cs)"
        "\<forall>l \<in> set new. row_of_contact ?k cs l" by auto
    have "ld_email m \<noteq> ?e" if "m \<in> set new" for m
    proof -
      have "ld_email m \<in> set (map ld_email new)" using that by simp
      then show ?thesis unfolding n(8) later by simp
    qed
    with n(9) have "\<forall>m \<in> set new. row_of_contact ?k (x # cs) m" using row_of_contact_skip by blast
    moreover have "row_of_contact ?k (x # cs) l'" using l'(3-9) by (simp add: row_of_contact_def)
    moreover have "map ld_email (l' # new) = filter (new_address pv ?k t) (first_addresses (x # cs))"
    proof -
      have "filter (new_address pv ?k (scored pv l t1)) es = filter (\<lambda>e. e \<noteq> ?e \<and> new_address pv ?k t e) es" for es
        by (rule filter_cong [OF refl]) (use later in blast)
      then show ?thesis unfolding first_addresses_Cons using n(8) none crm by (simp add: l'(5) filter_filter conj_ac)
    qed
    ultimately show ?thesis using n(1-7) l'(2,6) by (intro conjI exI [of _ "l' # new"]) auto
  qed
qed

text \<open>C31: an answered signal accounts for every contact fetched for its domain (none without a domain):
  each is either counted as known or stored. Stored are exactly the addresses, in their order,
  each once, that the prospecting campaign does not hold and the CRM lookup does not know: each as
  one new row of the campaign under the contact's address, name and title, queued for the CRM
  and listed in the answer. Every row that was there is unchanged and one row per campaign and
  e-mail remains; and while the campaign is switched off for the CRM the scheduled push sends none
  of the new rows. (The campaign exists, the table respects its keys, and no other request
  writes leads meanwhile.)\<close>

theorem prospecting_accounts_for_every_contact:
  assumes ok: "ok_leads t" and camp: "get_by_slug campaigns PROSPECTING_CAMPAIGN_SLUG = Some c"
    and rival: "pv_rival pv = (\<lambda>t. t)" and off: "cfg_crm_sync_enabled (cg_config c) = Some False"
    and run: "ingest_company_signal pv campaigns sg t = (Inr r, t')"
  shows "ok_leads t' \<and>
    (\<exists>s cs new. json_or (json_get (sg_organization sg) ''primary_domain'') (JStr []) = JStr s \<and>
      (if py_lower (py_strip s) = [] then cs = [] else fetch_contacts pv (py_lower (py_strip s)) = Inr cs) \<and>
      pr_received r = length cs \<and> pr_received r = pr_deduped_out r + pr_created r \<and>
      rows t' = rows t @ new \<and> length new = pr_created r \<and> map ld_id new = pr_lead_ids r \<and>
      map ld_email new = filter (\<lambda>e. get_by_campaign_email t (default (cg_id c) 0) e = None \<and>
        is_known_to_crm pv e = Inr False) (first_addresses cs) \<and>
      (\<forall>l \<in> set new. row_of_contact (default (cg_id c) 0) cs l \<and>
        (\<forall>now cfg upsert w. snd (snd (sync_lead now cfg upsert False c l w)) = snd w)))"
proof -
  have silent: "snd (snd (sync_lead now cfg upsert False c l w)) = snd w" for now cfg upsert l w
    using off by (simp add: sync_lead_def sync_allowed_def default_def Let_def)
  obtain s where s: "json_or (json_get (sg_organization sg) ''primary_domain'') (JStr []) = JStr s"
    using run by (auto simp: ingest_company_signal_def split: json.splits)
  let ?d = "py_lower (py_strip s)"
  show ?thesis
  proof (cases "?d = []")
    case True
    with run s camp have "t' = t" "pr_received r = 0" "pr_deduped_out r = 0" "pr_created r = 0" "pr_lead_ids r = []"
      by (auto simp: ingest_company_signal_def)
    with ok s True show ?thesis by (intro conjI exI [of _ s] exI [of _ "[]"]) (simp_all add: first_addresses_def)
  next
    case False
    with run s camp obtain cs where cs: "fetch_contacts pv ?d = Inr cs"
      and ing: "ingest_contacts pv campaigns (default (cg_id c) 0) sg cs
        \<lparr>pr_domain = Some ?d, pr_received = length cs, pr_deduped_out = 0, pr_created = 0, pr_lead_ids = []\<rparr> t = (Inr r, t')"
      by (auto simp: ingest_company_signal_def Let_def split: sum.splits)
    from ingest_contacts_accounts [OF ok camp rival ing] obtain new where
      "ok_leads t'" "pr_received r = length cs" "pr_deduped_out r + pr_created r = length cs" "rows t' = rows t @ new"
      "length new = pr_created r" "map ld_id new = pr_lead_ids r"
      "map ld_email new = filter (new_address pv (default (cg_id c) 0) t) (first_addresses cs)"
      "\<forall>l \<in> set new. row_of_contact (default (cg_id c) 0) cs l" by auto
    with s False cs silent show ?thesis by (intro conjI exI [of _ s] exI [of _ cs] exI [of _ new]) simp_all
  qed
qed

definition prospect_campaign :: campaign where
  "prospect_campaign = witness_campaign\<lparr>cg_slug := PROSPECTING_CAMPAIGN_SLUG,
     cg_config := witness_config\<lparr>cfg_crm_sync_enabled := Some False\<rparr>\<rparr>"

definition prospect_contact_json :: "string \<Rightarrow> string \<Rightarrow> json" where
  "prospect_contact_json first email = JObj [(''first_name'', JStr first), (''last_name'', JStr ''Obi''), (''email'', JStr email)]"

definition sample_prospects :: "json list \<Rightarrow> prospect_env" where
  "sample_prospects cs = \<lparr>pv_now = 5, pv_rival = (\<lambda>t. t), pv_email_str = Some, pv_poc_url = ''n8n'', pv_sync_enabled = False,
     pv_poc = (\<lambda>_. Inr (JList cs)), pv_crm_lookup = (\<lambda>_. Inr False), pv_score = (\<lambda>_. None)\<rparr>"

definition sample_signal :: company_signal where
  "sample_signal = \<lparr>sg_organization = [(''primary_domain'', JStr ''x.ng''), (''name'', JStr ''X'')], sg_trigger_event = None,
     sg_trigger_type = None, sg_article_url = None, sg_industry_sector = None, sg_lead_tier = None, sg_icp_score = None\<rparr>"

lemma sample_prospect_run:
  "map_sum (\<lambda>e. e) (\<lambda>r. (pr_received r, pr_deduped_out r, pr_created r)) (fst (ingest_company_signal
      (sample_prospects [prospect_contact_json ''Ada'' ''A@x.ng'', prospect_contact_json ''Ada'' '' a@x.ng'', JNull])
      \<lparr>rows = [prospect_campaign], next_id = 2\<rparr> sample_signal empty_table)) = Inr (2, 1, 1)"
  by code_simp

theorem prospecting_accounts_for_every_contact_witness:
  "\<exists>r t'. ingest_company_signal
      (sample_prospects [prospect_contact_json ''Ada'' ''A@x.ng'', prospect_contact_json ''Ada'' '' a@x.ng'', JNull])
      \<lparr>rows = [prospect_campaign], next_id = 2\<rparr> sample_signal empty_table = (Inr r, t') \<and>
    pr_received r = 2 \<and> pr_received r = pr_deduped_out r + pr_created r \<and> pr_created r = 1 \<and>
    length (rows t') = 1"
proof -
  let ?pv = "sample_prospects [prospect_contact_json ''Ada'' ''A@x.ng'', prospect_contact_json ''Ada'' '' a@x.ng'', JNull]"
  let ?cs = "\<lparr>rows = [prospect_campaign], next_id = 2\<rparr> :: campaign table"
  obtain r where r: "fst (ingest_company_signal ?pv ?cs sample_signal empty_table) = Inr r" "pr_received r = 2" "pr_created r = 1"
    using sample_prospect_run by (cases "fst (ingest_company_signal ?pv ?cs sample_signal empty_table)") auto
  then have run: "ingest_company_signal ?pv ?cs sample_signal empty_table =
      (Inr r, snd (ingest_company_signal ?pv ?cs sample_signal empty_table))" by (metis prod.collapse)
  have "get_by_slug ?cs PROSPECTING_CAMPAIGN_SLUG = Some prospect_campaign" "pv_rival ?pv = (\<lambda>t. t)"
    "cfg_crm_sync_enabled (cg_config prospect_campaign) = Some False"
    by (simp_all add: get_by_slug_def prospect_campaign_def sample_prospects_def)
  from prospecting_accounts_for_every_contact [OF ok_empty_leads this run] obtain new where
    "pr_received r = pr_deduped_out r + pr_created r" "length new = pr_created r"
    "rows (snd (ingest_company_signal ?pv ?cs sample_signal empty_table)) = rows (empty_table :: lead table) @ new" by blast
  with r run show ?thesis by (intro exI conjI) (auto simp: empty_table_def)
qed

text \<open>
  The contact model takes any text for a name, the lead model wants 1 to 120 characters: one
  contact with an empty first name ends the batch with an exception, and the contacts after
  it are never stored, although a malformed entry is meant to cost only itself.
\<close>

lemma one_bad_contact_blocks_batch:
  "ingest_company_signal (sample_prospects [prospect_contact_json [] ''b@x.ng'', prospect_contact_json ''Ada'' ''a@x.ng''])
     \<lparr>rows = [prospect_campaign], next_id = 2\<rparr> sample_signal empty_table = (Inl ProspectValidationError, empty_table)"
  by code_simp

end
