(* ===== verification/Mail_Templates.thy ===== *)
theory Mail_Templates
  imports Pack_Delivery Lead_Export
begin

section \<open>The markup the mails share\<close>

text \<open>
  Model of the HTML helpers of \<open>app/services/campaign_mailer.py\<close>. An f-string is the
  concatenation of its parts, in the order and with the line breaks of the source; characters
  outside ASCII are their UTF-8 bytes. What is put into the markup is put there as it is:
  no helper escapes it.
\<close>

definition nl :: string where "nl = [CHR 0x0A]"
definition sq :: string where "sq = [CHR 0x27]"
definition black_star :: string where "black_star = [CHR 0xE2, CHR 0x9C, CHR 0xA6]"
definition mid_dot :: string where "mid_dot = [CHR 0xC2, CHR 0xB7]"

subsection \<open>Palettes\<close>

definition GOLD :: "string" where
  \<open>GOLD =
     ''#c79a3a''\<close>

definition BG :: "string" where
  \<open>BG =
     ''#0c0d0f''\<close>

definition CARD :: "string" where
  \<open>CARD =
     ''#131418''\<close>

definition INNER :: "string" where
  \<open>INNER =
     ''#0c0d0f''\<close>

definition DIVIDER :: "string" where
  \<open>DIVIDER =
     ''#1e2028''\<close>

definition WHITE :: "string" where
  \<open>WHITE =
     ''#ffffff''\<close>

definition MUTED :: "string" where
  \<open>MUTED =
     ''#d1d5db''\<close>

definition DIM :: "string" where
  \<open>DIM =
     ''#4b5563''\<close>

definition LABEL_GRAY :: "string" where
  \<open>LABEL_GRAY =
     ''#6b7280''\<close>

definition C_CREAM :: "string" where
  \<open>C_CREAM =
     ''#f0ede6''\<close>

definition C_INK :: "string" where
  \<open>C_INK =
     ''#111110''\<close>

definition C_INK_SOFT :: "string" where
  \<open>C_INK_SOFT =
     ''#444442''\<close>

definition C_MUTED :: "string" where
  \<open>C_MUTED =
     ''#888885''\<close>

definition C_GOLD :: "string" where
  \<open>C_GOLD =
     ''#c9a84c''\<close>

definition C_GOLD_DK :: "string" where
  \<open>C_GOLD_DK =
     ''#b8960c''\<close>

definition C_LINE :: "string" where
  \<open>C_LINE =
     ''#e0ddd6''\<close>

definition C_PANEL :: "string" where
  \<open>C_PANEL =
     ''#f4f1eb''\<close>

definition C_STRIP :: "string" where
  \<open>C_STRIP =
     ''#1a1a18''\<close>

definition C_FOOT :: "string" where
  \<open>C_FOOT =
     ''#0d0d0c''\<close>

definition C_HERO_BG :: "string" where
  \<open>C_HERO_BG =
     ''#111110''\<close>

definition SERIF :: "string" where
  \<open>SERIF =
     ''Georgia,'Times New Roman',serif''\<close>

definition SANS :: "string" where
  \<open>SANS =
     (concat [sq, ''Helvetica Neue',Helvetica,Arial,sans-serif''])\<close>

subsection \<open>The dark card\<close>

definition brand_label :: "string \<Rightarrow> string" where
  \<open>brand_label txt =
     (concat [''<div style="color:'', GOLD, '';font-size:9px;font-weight:700;letter-spacing:0.14em;text-transform:uppercase;margin-bottom:6px">'', txt, ''</div>''])\<close>

definition brand_divider :: "string" where
  \<open>brand_divider =
     (concat [''<div style="height:1px;background:'', DIVIDER, '';margin:0 0 20px"></div>''])\<close>

definition wtc_header :: "string \<Rightarrow> string" where
  \<open>wtc_header subtitle =
     (concat [''      <table width="100%" cellpadding="0" cellspacing="0">'', nl,
      ''        <tr><td style="background:'', BG, '';padding:36px 40px 0;text-align:center">'', nl,
      ''          <div style="color:'', GOLD,
      '';font-size:10px;font-weight:700;letter-spacing:0.2em;text-transform:uppercase;margin-bottom:12px">WORLD TRADE CENTER</div>'', nl,
      ''          <div style="color:'', WHITE, '';font-size:30px;font-weight:800;margin-bottom:10px">WTC Abuja</div>'', nl,
      ''          <div style="color:'', GOLD, '';font-size:14px;margin-bottom:28px">'', subtitle, ''</div>'', nl,
      ''          <div style="height:1px;background:linear-gradient(to right,transparent,'', GOLD, '' 20%,'', GOLD, '' 80%,transparent)"></div>'', nl,
      ''        </td></tr>'', nl,
      ''      </table>''])\<close>

definition wtc_footer :: "string \<Rightarrow> string \<Rightarrow> string" where
  \<open>wtc_footer campaign_name captured_at =
     (concat [''      <table width="100%" cellpadding="0" cellspacing="0">'', nl,
      ''        <tr><td style="background:'', BG, '';border-top:1px solid '', DIVIDER, '';padding:22px 40px;text-align:center">'', nl,
      ''          <div style="color:'', DIM, '';font-size:12px;margin-bottom:4px">Captured via WTC Abuja Concierge App</div>'', nl,
      ''          <div style="color:'', DIM, '';font-size:12px;margin-bottom:14px">'', captured_at, '' &middot; '', campaign_name, ''</div>'', nl,
      ''          <div style="color:'', GOLD,
      '';font-size:9px;font-weight:700;letter-spacing:0.2em;text-transform:uppercase">WORLD TRADE CENTER ABUJA</div>'', nl,
      ''        </td></tr>'', nl,
      ''      </table>''])\<close>

definition wrap_card :: "string \<Rightarrow> string" where
  \<open>wrap_card body_html =
     (concat [''<div style="background:'', BG, '';margin:0;padding:32px 16px;font-family:Arial,Helvetica,sans-serif">'', nl,
      ''  <table width="100%" cellpadding="0" cellspacing="0" style="max-width:600px;margin:0 auto">'', nl,
      ''    <tr><td style="background:'', CARD, '';border-radius:16px;overflow:hidden">'', nl,
      body_html, nl,
      ''    </td></tr>'', nl,
      ''  </table>'', nl,
      ''</div>''])\<close>

subsection \<open>The light shell\<close>

definition HEAD_HTML :: "string" where
  \<open>HEAD_HTML =
     (concat [''<!DOCTYPE html>'', nl,
      ''<html><head><meta charset="UTF-8"><meta name="viewport" content="width=device-width,initial-scale=1"><style>@media only screen and (max-width:480px){.wtc-row-text{display:block!important;width:100%!important;}.wtc-row-btn{display:block!important;width:100%!important;padding-left:0!important;text-align:left!important;}.wtc-btn{margin:14px 0 0 0!important;width:100%!important;}.wtc-btn a{display:block!important;text-align:center!important;}}</style></head>''])\<close>

definition c_button :: "string \<Rightarrow> string \<Rightarrow> bool \<Rightarrow> string" where
  \<open>c_button url label gold =
     (let bg = (if gold then C_GOLD_DK else C_INK) in
      (concat [''<table role="presentation" cellpadding="0" cellspacing="0" border="0" class="wtc-btn" style="display:inline-block;margin:6px 0 0 8px;"><tr><td bgcolor="'',
      bg, ''" style="border-radius:2px;"><a href="'', url, ''" target="_blank" style="display:inline-block;padding:11px 22px;font-family:'', SANS,
      '';font-size:10px;font-weight:700;letter-spacing:0.1em;white-space:nowrap;text-transform:uppercase;color:#ffffff;text-decoration:none;">'', label,
      '' &#8595;</a></td></tr></table>'']))\<close>

definition c_brand :: "string \<Rightarrow> string" where
  \<open>c_brand logo_url =
     (if logo_url \<noteq> [] then
      (concat [''<img src="'', logo_url, ''" width="160" alt="World Trade Center Abuja" style="width:160px;height:auto;display:block;border:0;">''])
     else
      (concat [''<span style="font-family:'', SANS,
      '';font-size:11px;font-weight:700;letter-spacing:0.22em;text-transform:uppercase;color:#ffffff;">World Trade Center <span style="color:'', C_GOLD,
      '';">Abuja</span></span>'']))\<close>

definition c_header_inner :: "string \<Rightarrow> string \<Rightarrow> string \<Rightarrow> nat \<Rightarrow> bool \<Rightarrow> string" where
  \<open>c_header_inner tag heading_html logo_url spacer_height show_label =
     (concat [''            <table width="100%" cellpadding="0" cellspacing="0" border="0" role="presentation">'', nl,
      ''              <tr>'', nl,
      ''                <td style="padding:30px 40px 34px;">'', nl,
      ''                  <table width="100%" cellpadding="0" cellspacing="0" border="0" role="presentation">'', nl,
      ''                    <tr>'', nl,
      ''                      <td align="left" style="vertical-align:middle;">'', c_brand logo_url, ''</td>'', nl,
      ''                      <td align="right" style="vertical-align:middle;">'', nl,
      ''                        <span style="font-family:'', SANS,
      '';font-size:9px;font-weight:700;letter-spacing:0.2em;text-transform:uppercase;color:rgba(255,255,255,0.55);">'', tag, ''</span>'', nl,
      ''                      </td>'', nl,
      ''                    </tr>'', nl,
      ''                  </table>'', nl,
      ''                  <div style="font-size:0;line-height:0;height:'', show_nat spacer_height, ''px;">&nbsp;</div>'', nl,
      ''                  '',
      (if show_label then (concat [''<p style="font-family:'', SANS, '';font-size:8px;font-weight:700;letter-spacing:0.2em;text-transform:uppercase;color:'', C_GOLD,
      '';margin:0 0 8px;">World Trade Center &middot; Abuja</p>'']) else []), nl,
      ''                  '',
      (if heading_html \<noteq> [] then (concat [''<p style="font-family:'', SERIF, '';font-size:27px;font-weight:400;color:#ffffff;line-height:1.15;margin:0;">'', heading_html, ''</p>'']) else []), nl,
      ''                </td>'', nl,
      ''              </tr>'', nl,
      ''            </table>''])\<close>

text \<open>Without a hero picture the header is a plain dark cell.\<close>

definition c_header :: "string \<Rightarrow> string \<Rightarrow> string \<Rightarrow> string \<Rightarrow> nat \<Rightarrow> bool \<Rightarrow> string" where
  \<open>c_header tag heading_html hero_url logo_url spacer_height show_label =
     (if hero_url = [] then
      (concat [''        <tr>'', nl,
      ''          <td bgcolor="'', C_HERO_BG, ''" style="background:'', C_HERO_BG, '';border-radius:4px 4px 0 0;">'', nl,
      c_header_inner tag heading_html logo_url spacer_height show_label, nl,
      ''          </td>'', nl,
      ''        </tr>''])
     else
      (concat [''        <tr>'', nl,
      ''          <td background="'', hero_url, ''" bgcolor="'', C_HERO_BG, ''" valign="bottom" style="background-color:'', C_HERO_BG,
      '';background-image:url('', sq, hero_url, sq, '');background-position:center;background-size:cover;border-radius:4px 4px 0 0;">'', nl,
      ''            <!--[if gte mso 9]>'', nl,
      ''            <v:rect xmlns:v="urn:schemas-microsoft-com:vml" fill="true" stroke="false" style="width:600px;height:300px;">'', nl,
      ''            <v:fill type="frame" src="'', hero_url, ''" color="'', C_HERO_BG, ''" />'', nl,
      ''            <v:textbox inset="0,0,0,0">'', nl,
      ''            <![endif]-->'', nl,
      c_header_inner tag heading_html logo_url spacer_height show_label, nl,
      ''            <!--[if gte mso 9]>'', nl,
      ''            </v:textbox>'', nl,
      ''            </v:rect>'', nl,
      ''            <![endif]-->'', nl,
      ''          </td>'', nl,
      ''        </tr>'']))\<close>

definition c_footer :: "string \<Rightarrow> string \<Rightarrow> string \<Rightarrow> string" where
  \<open>c_footer contact_lead_in footer_note_html footer_email =
     (concat [''        <tr>'', nl,
      ''          <td style="background:'', C_STRIP, '';padding:24px 48px;">'', nl,
      ''            <table width="100%" cellpadding="0" cellspacing="0" border="0" role="presentation">'', nl,
      ''              <tr>'', nl,
      ''                <td style="vertical-align:middle;">'', nl,
      ''                  <p style="font-family:'', SANS, '';font-size:11px;color:#8f8f8b;margin:0 0 4px;">'', contact_lead_in, ''</p>'', nl,
      ''                  <a href="mailto:'', footer_email, ''" style="font-family:'', SANS, '';font-size:12px;color:'', C_GOLD,
      '';font-weight:600;text-decoration:none;">'', footer_email, ''</a>'', nl,
      ''                </td>'', nl,
      ''                <td align="right" style="vertical-align:middle;">'', nl,
      ''                  <a href="https://wtcabuja.com" style="font-family:'', SANS,
      '';font-size:8px;letter-spacing:0.1em;text-transform:uppercase;color:'', C_GOLD, '';text-decoration:none;">wtcabuja.com</a>'', nl,
      ''                </td>'', nl,
      ''              </tr>'', nl,
      ''            </table>'', nl,
      ''          </td>'', nl,
      ''        </tr>'', nl,
      ''        <tr>'', nl,
      ''          <td style="background:'', C_FOOT, '';padding:20px 48px;border-radius:0 0 4px 4px;">'', nl,
      ''            <p style="font-family:'', SANS, '';font-size:9px;color:#4a4a46;line-height:1.7;margin:0;">'', footer_note_html, ''</p>'', nl,
      ''          </td>'', nl,
      ''        </tr>''])\<close>

text \<open>The keyword arguments of \<open>_c_shell\<close> are a record; \<open>shell\<close> has its defaults.\<close>

record c_shell_args =
  sh_tag :: string
  sh_heading_html :: string
  sh_body_html :: string
  sh_contact_lead_in :: string
  sh_footer_note_html :: string
  sh_hero_url :: string
  sh_logo_url :: string
  sh_footer_email :: string
  sh_hero_spacer_height :: nat
  sh_hero_show_label :: bool

definition shell :: "string \<Rightarrow> string \<Rightarrow> string \<Rightarrow> string \<Rightarrow> string \<Rightarrow> string \<Rightarrow> string \<Rightarrow> c_shell_args" where
  "shell tag heading_html body_html contact_lead_in footer_note_html hero_url logo_url =
     \<lparr>sh_tag = tag, sh_heading_html = heading_html, sh_body_html = body_html,
      sh_contact_lead_in = contact_lead_in, sh_footer_note_html = footer_note_html,
      sh_hero_url = hero_url, sh_logo_url = logo_url, sh_footer_email = ''enquiries@wtcabuja.com'',
      sh_hero_spacer_height = 88, sh_hero_show_label = True\<rparr>"

definition c_shell :: "c_shell_args \<Rightarrow> string" where
  \<open>c_shell s =
     (concat [''<body style="margin:0;padding:0;background:'', C_CREAM, '';">'', nl,
      ''  <table width="100%" cellpadding="0" cellspacing="0" border="0" role="presentation" style="background:'', C_CREAM, '';">'', nl,
      ''    <tr>'', nl,
      ''      <td align="center" style="padding:40px 16px;">'', nl,
      ''        <table width="600" cellpadding="0" cellspacing="0" border="0" role="presentation" style="max-width:600px;width:100%;">'', nl,
      c_header (sh_tag s) (sh_heading_html s) (sh_hero_url s) (sh_logo_url s) (sh_hero_spacer_height s) (sh_hero_show_label s), nl,
      ''          <tr>'', nl,
      ''            <td style="background:#ffffff;padding:40px 48px 36px;">'', nl,
      sh_body_html s, nl,
      ''            </td>'', nl,
      ''          </tr>'', nl,
      c_footer (sh_contact_lead_in s) (sh_footer_note_html s) (sh_footer_email s), nl,
      ''        </table>'', nl,
      ''      </td>'', nl,
      ''    </tr>'', nl,
      ''  </table>'', nl,
      ''</body>''])\<close>

subsection \<open>Download rows\<close>

definition btn_label :: "nat \<Rightarrow> nat \<Rightarrow> string" where
  "btn_label i n = (if n > 1 then ''Download '' @ show_nat (i + 1) else ''Download'')"

text \<open>\<open>config["materials_display"][label]\<close>; a key the object lacks is \<open>None\<close>.\<close>

record display_meta =
  dm_eyebrow :: "string option"
  dm_title :: "string option"
  dm_description :: "string option"
  dm_featured :: bool

definition no_meta :: display_meta where
  "no_meta = \<lparr>dm_eyebrow = None, dm_title = None, dm_description = None, dm_featured = False\<rparr>"

definition material_title :: "display_meta dict \<Rightarrow> string \<Rightarrow> string" where
  "material_title display label = default (dm_title (default (map_of display label) no_meta)) label"

definition material_buttons :: "bool \<Rightarrow> string list \<Rightarrow> string" where
  "material_buttons featured urls =
     concat (map (\<lambda>(i, u). c_button u (btn_label i (length urls)) featured) (enumerate 0 urls))"

definition description_html :: "display_meta \<Rightarrow> string" where
  \<open>description_html meta =
     (if default (dm_description meta) [] \<noteq> [] then (concat [''<p style="font-family:'', SANS, '';font-size:11px;color:'', C_MUTED, '';margin:4px 0 0;line-height:1.5;">'', default (dm_description meta) [],
      ''</p>'']) else [])\<close>

definition material_row_inner :: "display_meta dict \<Rightarrow> string \<Rightarrow> string list \<Rightarrow> string" where
  \<open>material_row_inner display label urls =
     (let meta = default (map_of display label) no_meta in
      (concat [''                    <table width="100%" cellpadding="0" cellspacing="0" border="0" role="presentation">'', nl,
      ''                      <tr>'', nl,
      ''                        <td class="wtc-row-text" style="vertical-align:middle;">'', nl,
      ''                          <p style="font-family:'', SANS, '';font-size:8px;font-weight:700;letter-spacing:0.18em;text-transform:uppercase;color:'',
      C_GOLD_DK, '';margin:0 0 4px;">'', default (dm_eyebrow meta) ''Document'', ''</p>'', nl,
      ''                          <p style="font-family:'', SERIF, '';font-size:16px;color:'', C_INK, '';margin:0;">'', material_title display label,
      ''</p>'', nl,
      ''                          '', description_html meta, nl,
      ''                        </td>'', nl,
      ''                        <td class="wtc-row-btn" align="right" style="vertical-align:middle;padding-left:16px;">'',
      material_buttons (dm_featured meta) urls, ''</td>'', nl,
      ''                      </tr>'', nl,
      ''                    </table>'']))\<close>

definition material_row :: "display_meta dict \<Rightarrow> string \<Rightarrow> string list \<Rightarrow> string" where
  \<open>material_row display label urls =
     (if dm_featured (default (map_of display label) no_meta) then
      (concat [''<tr><td style="border-top:1px solid '', C_LINE,
      '';padding-top:22px;"><table width="100%" cellpadding="0" cellspacing="0" border="0" role="presentation"><tr><td style="background:'', C_PANEL,
      '';border-radius:3px;padding:20px 22px;">'', material_row_inner display label urls, ''</td></tr></table></td></tr>''])
     else
      (concat [''<tr><td style="border-top:1px solid '', C_LINE, '';padding:22px 0 20px;">'', material_row_inner display label urls, ''</td></tr>'']))\<close>

definition material_rows :: "(string \<times> string list) list \<Rightarrow> display_meta dict \<Rightarrow> string" where
  "material_rows docs display = py_join nl (map (\<lambda>(label, urls). material_row display label urls) docs)"

end
