(* ===== verification/Campaign_Mail.thy ===== *)
theory Campaign_Mail
  imports Mail_Templates
begin

section \<open>The mails of a campaign\<close>

text \<open>
  Model of the \<open>build_*_email\<close> functions of \<open>app/services/campaign_mailer.py\<close>: subject,
  HTML and plain text of the internal notification, the digital pack, the viewing
  confirmation, the application confirmation and the reconnect mail. The copy that a
  campaign's \<open>config\<close> overrides is a record of optional texts, \<open>None\<close> for a key that is
  absent; \<open>Pack_Delivery\<close> says who is sent what.
\<close>

record mail_body =
  mb_subject :: string
  mb_html :: string
  mb_text :: string

record pack_copy =
  pk_subject :: "string option"
  pk_intro :: "string option"
  pk_event_line :: "string option"
  pk_hero_url :: "string option"
  pk_logo_url :: "string option"

record viewing_copy =
  vw_subject :: "string option"
  vw_intro :: "string option"
  vw_brochure_url :: "string option"

record application_copy =
  ac_subject :: "string option"
  ac_programme_name :: "string option"
  ac_eligibility :: "string list"
  ac_contact_email :: "string option"
  ac_contact_phone :: "string option"
  ac_response_days :: "string option"
  ac_slot_limit :: "int option"
  ac_hero_url :: "string option"
  ac_logo_url :: "string option"

record mail_copy =
  mc_pack :: pack_copy
  mc_display :: "display_meta dict"
  mc_viewing :: viewing_copy
  mc_application :: application_copy

definition greeting_of :: "string \<Rightarrow> string" where
  "greeting_of first_name = (if first_name \<noteq> [] then concat [''Hello '', first_name, '',''] else ''Hello,'')"

definition py_rstrip :: "string \<Rightarrow> string" where
  "py_rstrip s = rev (dropWhile is_space (rev s))"

text \<open>\<open>strftime("%-d %B %Y, %H:%M")\<close> of an instant in UTC.\<close>

definition MONTHS :: "string list" where
  "MONTHS = [''January'', ''February'', ''March'', ''April'', ''May'', ''June'', ''July'',
     ''August'', ''September'', ''October'', ''November'', ''December'']"

definition two_digits :: "int \<Rightarrow> string" where
  "two_digits n = (if n < 10 then ''0'' @ show_int n else show_int n)"

definition mail_time :: "time \<Rightarrow> string" where
  "mail_time t = (case civil (t div 86400000000) of (y, m, d) \<Rightarrow>
     concat [show_int d, '' '', MONTHS ! nat (m - 1), '' '', show_int y, '', '',
       two_digits (t div 3600000000 mod 24), '':'', two_digits (t div 60000000 mod 60)])"

subsection \<open>Internal notification\<close>

definition full_name_of :: "string \<Rightarrow> string \<Rightarrow> string" where
  "full_name_of first last' = or_list (Some (py_join '' '' (filter (\<lambda>s. s \<noteq> []) [first, last']))) ''Unknown''"

definition notified_at :: "time \<Rightarrow> time option \<Rightarrow> string" where
  "notified_at now captured = mail_time (default captured now)"

definition materials_text :: "string list \<Rightarrow> string" where
  "materials_text ms = (if ms = [] then ''  None''
     else py_join nl (map (\<lambda>x. concat [''  '', black_star, '' '', x]) ms))"

definition notification_text :: "time \<Rightarrow> lead \<Rightarrow> campaign \<Rightarrow> string" where
  \<open>notification_text now l c =
     (concat [''New Lead Notification '', em_dash, '' '', cg_name c, nl,
      replicate 50 (CHR ''=''), nl,
      nl,
      ''Name:    '', full_name_of (ld_first_name l) (ld_last_name l), nl,
      ''Company: '', or_list (Some (ld_company l)) ''Not provided'', nl,
      ''Title:   '', or_list (ld_job_title l) ''Not provided'', nl,
      ''Timing:  '', or_list (ld_timing l) ''Not provided'', nl,
      ''Email:   '', ld_email l, nl,
      (if ld_phone l \<noteq> [] then (concat [''Phone:   '', ld_phone l, nl]) else []), nl,
      ''Materials requested:'', nl,
      materials_text (or_list (ld_requested_materials l) []), nl,
      nl,
      ''Inspection: '', (if ld_inspection_requested l then ''YES'' else ''NO''), nl,
      ''Marketing:  '', (if ld_marketing_opt_in l then ''OPT-IN'' else ''NO''), nl,
      nl,
      ''Captured: '', notified_at now (ld_captured_at l), '' via WTC Abuja Concierge App'', nl,
      ''Campaign: '', cg_name c, nl])\<close>

definition phone_line :: "string \<Rightarrow> string" where
  \<open>phone_line phone =
     (if phone \<noteq> [] then (concat [''<div style="color:'', GOLD, '';font-size:14px;margin-top:6px">&#128241; '', phone, ''</div>'']) else [])\<close>

definition materials_items :: "string list \<Rightarrow> string" where
  \<open>materials_items ms =
     (if ms \<noteq> [] then concat (map (\<lambda>x. (concat [''<div style="color:'', MUTED, '';font-size:14px;margin-bottom:10px"><span style="color:'', GOLD, '';margin-right:10px">&#10022;</span>'', x,
      ''</div>''])) ms)
     else (concat [''<div style="color:'', LABEL_GRAY, '';font-size:14px">None requested</div>'']))\<close>

definition materials_block :: "lead \<Rightarrow> string" where
  \<open>materials_block l =
     (concat [''          <div style="background:'', INNER, '';border-radius:10px;padding:20px 24px;margin:20px 0">'', nl,
      ''            '', (brand_label ''MATERIALS''), nl,
      ''            '', materials_items (or_list (ld_requested_materials l) []), nl,
      ''          </div>''])\<close>

definition notification_body :: "time \<Rightarrow> lead \<Rightarrow> campaign \<Rightarrow> string" where
  \<open>notification_body now l c =
     (concat [(wtc_header ''New Lead Notification''), nl,
      ''      <table width="100%" cellpadding="0" cellspacing="0">'', nl,
      ''        <tr><td style="padding:32px 40px">'', nl,
      ''          <table width="100%" cellpadding="0" cellspacing="0" style="margin-bottom:20px">'', nl,
      ''            <tr>'', nl,
      ''              <td width="50%" style="vertical-align:top;padding-right:16px">'', nl,
      ''                '', (brand_label ''NAME''), nl,
      ''                <div style="color:'', WHITE, '';font-size:16px;font-weight:700;line-height:1.35">'',
      full_name_of (ld_first_name l) (ld_last_name l), ''</div>'', nl,
      ''              </td>'', nl,
      ''              <td width="50%" style="vertical-align:top;padding-left:16px">'', nl,
      ''                '', (brand_label ''COMPANY''), nl,
      ''                <div style="color:'', WHITE, '';font-size:16px;font-weight:700;line-height:1.35">'',
      or_list (Some (ld_company l)) ''Not provided'', ''</div>'', nl,
      ''              </td>'', nl,
      ''            </tr>'', nl,
      ''          </table>'', nl,
      ''          '', brand_divider, nl,
      ''          <table width="100%" cellpadding="0" cellspacing="0" style="margin-bottom:20px">'', nl,
      ''            <tr>'', nl,
      ''              <td width="50%" style="vertical-align:top;padding-right:16px">'', nl,
      ''                '', (brand_label ''TITLE''), nl,
      ''                <div style="color:'', MUTED, '';font-size:14px">'', or_list (ld_job_title l) ''Not provided'', ''</div>'', nl,
      ''              </td>'', nl,
      ''              <td width="50%" style="vertical-align:top;padding-left:16px">'', nl,
      ''                '', (brand_label ''TIMING''), nl,
      ''                <div style="color:'', MUTED, '';font-size:14px">'', or_list (ld_timing l) ''Not provided'', ''</div>'', nl,
      ''              </td>'', nl,
      ''            </tr>'', nl,
      ''          </table>'', nl,
      ''          '', brand_divider, nl,
      ''          '', (brand_label ''CONTACT''), nl,
      ''          <div style="color:'', GOLD, '';font-size:14px"><a href="mailto:'', ld_email l, ''" style="color:'', GOLD,
      '';text-decoration:none">&#9993; '', ld_email l, ''</a></div>'', nl,
      ''          '', phone_line (ld_phone l), nl,
      ''          '', materials_block l, nl,
      ''          <table width="100%" cellpadding="0" cellspacing="0" style="margin-top:20px">'', nl,
      ''            <tr>'', nl,
      ''              <td width="50%" style="padding-right:6px">'', nl,
      ''                <div style="background:#1a1c22;border-radius:8px;padding:12px;text-align:center;color:'', LABEL_GRAY,
      '';font-size:11px;font-weight:700;letter-spacing:0.05em">&#128273; INSPECTION: '', (if ld_inspection_requested l then ''YES'' else ''NO''),
      ''</div>'', nl,
      ''              </td>'', nl,
      ''              <td width="50%" style="padding-left:6px">'', nl,
      ''                <div style="background:'', (if ld_marketing_opt_in l then GOLD else ''#1a1c22''),
      '';border-radius:8px;padding:12px;text-align:center;color:'', (if ld_marketing_opt_in l then ''#15181e'' else LABEL_GRAY),
      '';font-size:11px;font-weight:700;letter-spacing:0.05em">&#128226; MARKETING: '', (if ld_marketing_opt_in l then ''OPT-IN'' else ''NO''), ''</div>'', nl,
      ''              </td>'', nl,
      ''            </tr>'', nl,
      ''          </table>'', nl,
      ''        </td></tr>'', nl,
      ''      </table>'', nl,
      (wtc_footer (cg_name c) (notified_at now (ld_captured_at l)))])\<close>

definition build_lead_notification_email :: "time \<Rightarrow> lead \<Rightarrow> campaign \<Rightarrow> mail_body" where
  \<open>build_lead_notification_email now l c =
     \<lparr>mb_subject = (concat [''New Lead: '', full_name_of (ld_first_name l) (ld_last_name l), '' '', em_dash, '' '', cg_name c]),
      mb_html = wrap_card (notification_body now l c), mb_text = notification_text now l c\<rparr>\<close>

subsection \<open>Digital pack\<close>

definition PACK_SUBJECT :: "string" where
  \<open>PACK_SUBJECT =
     ''Your WTC Abuja Digital Pack''\<close>

definition PACK_INTRO :: "string" where
  \<open>PACK_INTRO =
     (concat [''Thank you for your interest in World Trade Center Abuja. As requested, your materials are below '', em_dash, '' tap any button to download.''])\<close>

text \<open>The download lines of the plain-text part, for one material.\<close>

definition material_text_lines :: "display_meta dict \<Rightarrow> string \<times> string list \<Rightarrow> string list" where
  "material_text_lines display doc = (case doc of (label, urls) \<Rightarrow>
     (material_title display label @ '':'') #
     map (\<lambda>(i, u). concat [''  '', btn_label i (length urls), '': '', u]) (enumerate 0 urls))"

definition pack_text :: "lead \<Rightarrow> mail_copy \<Rightarrow> (string \<times> string list) list \<Rightarrow> string" where
  "pack_text l cp docs = py_rstrip (py_join nl
     ([greeting_of (ld_first_name l), [], default (pk_intro (mc_pack cp)) PACK_INTRO, []]
      @ concat (map (\<lambda>d. material_text_lines (mc_display cp) d @ [[]]) docs)
      @ [''Questions? enquiries@wtcabuja.com''])) @ nl"

definition pack_body :: "lead \<Rightarrow> mail_copy \<Rightarrow> (string \<times> string list) list \<Rightarrow> string" where
  \<open>pack_body l cp docs =
     (concat [''              <p style="font-family:'', SANS, '';font-size:15px;color:'', C_INK, '';line-height:1.6;margin:0 0 8px;">'',
      greeting_of (ld_first_name l), ''</p>'', nl,
      ''              <p style="font-family:'', SANS, '';font-size:14px;color:'', C_INK_SOFT, '';line-height:1.7;margin:0 0 32px;">'',
      default (pk_intro (mc_pack cp)) PACK_INTRO, ''</p>'', nl,
      ''              <table width="100%" cellpadding="0" cellspacing="0" border="0" role="presentation">'', nl,
      material_rows docs (mc_display cp), nl,
      ''              </table>''])\<close>

definition pack_footer_note :: "mail_copy \<Rightarrow> string" where
  \<open>pack_footer_note cp =
     (let event_line = default (pk_event_line (mc_pack cp)) [] in py_join ''<br>''
      ((if event_line \<noteq> [] then [(concat [''Captured via WTC Abuja Concierge App &nbsp;&middot;&nbsp; '', event_line])] else [])
       @ [''World Trade Center Abuja &nbsp;&middot;&nbsp; Central Business District, Abuja, Nigeria'',
          ''If a download link doesn't open, reply to this email and we'll assist.'']))\<close>

definition build_pack_email :: "lead \<Rightarrow> mail_copy \<Rightarrow> (string \<times> string list) list \<Rightarrow> mail_body" where
  \<open>build_pack_email l cp docs =
     \<lparr>mb_subject = default (pk_subject (mc_pack cp)) PACK_SUBJECT,
      mb_html = concat [HEAD_HTML, c_shell (shell ''Digital Pack'' ''Your materials<br>are ready.'' (pack_body l cp docs)
        ''Questions? We're here.'' (pack_footer_note cp) (default (pk_hero_url (mc_pack cp)) []) (default (pk_logo_url (mc_pack cp)) [])), ''</html>''],
      mb_text = pack_text l cp docs\<rparr>\<close>

subsection \<open>Viewing confirmation\<close>

definition VIEWING_SUBJECT :: "string" where
  \<open>VIEWING_SUBJECT =
     ''Your WTC Abuja Viewing Request''\<close>

definition VIEWING_INTRO :: "string" where
  \<open>VIEWING_INTRO =
     ''Thank you for requesting a viewing at World Trade Center Abuja. A member of our team will be in touch with you shortly to confirm the details and arrange a time that works for you.''\<close>

definition VIEWING_STEPS :: "(string \<times> string) list" where
  \<open>VIEWING_STEPS =
     [(''Confirmation call'', ''Our team will contact you to confirm a convenient date and time for your private viewing.''),
      (''Private tour'', (concat [''A dedicated host will walk you through the offices, residences, and clubhouse '', em_dash, '' tailored to your interests.''])),
      (''Tailored proposal'', (concat [''Following your visit, we'll prepare a proposal specific to your requirements '', em_dash, '' whether office, residence, or both.'']))]\<close>

definition viewing_step :: "nat \<Rightarrow> string \<Rightarrow> string \<Rightarrow> string" where
  \<open>viewing_step i title desc =
     (concat [''                  <tr>'', nl,
      ''                    <td style="vertical-align:top;width:34px;padding:0 0 16px;">'', nl,
      ''                      <table role="presentation" cellpadding="0" cellspacing="0" border="0"><tr>'', nl,
      ''                        <td width="22" height="22" align="center" bgcolor="'', C_INK, ''" style="border-radius:11px;font-family:'', SERIF,
      '';font-size:11px;color:'', C_GOLD, '';line-height:22px;">'', show_nat i, ''</td>'', nl,
      ''                      </tr></table>'', nl,
      ''                    </td>'', nl,
      ''                    <td style="vertical-align:top;padding:0 0 16px 4px;">'', nl,
      ''                      <p style="font-family:'', SANS, '';font-size:12px;font-weight:700;color:'', C_INK, '';margin:0 0 3px;">'', title, ''</p>'', nl,
      ''                      <p style="font-family:'', SANS, '';font-size:12px;color:'', C_MUTED, '';line-height:1.5;margin:0;">'', desc, ''</p>'', nl,
      ''                    </td>'', nl,
      ''                  </tr>''])\<close>

definition steps_html :: string where
  "steps_html = py_join nl (map (\<lambda>(i, (title, desc)). viewing_step i title desc) (enumerate 1 VIEWING_STEPS))"

definition docs_block :: "string \<Rightarrow> string \<Rightarrow> string" where
  \<open>docs_block docs_rows brochure_url =
     (if docs_rows \<noteq> [] then
      (concat [''              <p style="font-family:'', SANS, '';font-size:8px;font-weight:700;letter-spacing:0.18em;text-transform:uppercase;color:'', C_GOLD_DK,
      '';margin:0 0 4px;">Before your visit</p>'', nl,
      ''              <p style="font-family:'', SANS, '';font-size:13px;color:'', C_INK_SOFT,
      '';line-height:1.6;margin:0 0 4px;">Your documents are ready '', em_dash, '' tap any button to download.</p>'', nl,
      ''              <table width="100%" cellpadding="0" cellspacing="0" border="0" role="presentation">'', nl,
      docs_rows, nl,
      ''              </table>''])
     else if brochure_url \<noteq> [] then
      (concat [''              <table width="100%" cellpadding="0" cellspacing="0" border="0" role="presentation" style="margin-top:8px;">'', nl,
      ''                <tr>'', nl,
      ''                  <td style="background:'', C_PANEL, '';border-radius:3px;padding:22px 24px;">'', nl,
      ''                    <table width="100%" cellpadding="0" cellspacing="0" border="0" role="presentation">'', nl,
      ''                      <tr>'', nl,
      ''                        <td class="wtc-row-text" style="vertical-align:middle;">'', nl,
      ''                          <p style="font-family:'', SANS, '';font-size:8px;font-weight:700;letter-spacing:0.14em;text-transform:uppercase;color:'',
      C_GOLD_DK, '';margin:0 0 5px;">Prepare for your visit</p>'', nl,
      ''                          <p style="font-family:'', SERIF, '';font-size:15px;color:'', C_INK, '';margin:0 0 4px;">Download the full brochure</p>'', nl,
      ''                          <p style="font-family:'', SANS, '';font-size:11px;color:'', C_MUTED,
      '';line-height:1.5;margin:0;">Offices, residences, clubhouse and infrastructure '', em_dash, '' everything in one document.</p>'', nl,
      ''                        </td>'', nl,
      ''                        <td class="wtc-row-btn" align="right" style="vertical-align:middle;padding-left:16px;">'',
      c_button brochure_url ''Download'' False, ''</td>'', nl,
      ''                      </tr>'', nl,
      ''                    </table>'', nl,
      ''                  </td>'', nl,
      ''                </tr>'', nl,
      ''              </table>''])
     else [])\<close>

definition viewing_body :: "lead \<Rightarrow> mail_copy \<Rightarrow> (string \<times> string list) list \<Rightarrow> string" where
  \<open>viewing_body l cp docs =
     (concat [''              <p style="font-family:'', SANS, '';font-size:15px;color:'', C_INK, '';line-height:1.6;margin:0 0 8px;">'',
      greeting_of (ld_first_name l), ''</p>'', nl,
      ''              <p style="font-family:'', SANS, '';font-size:14px;color:'', C_INK_SOFT, '';line-height:1.7;margin:0 0 32px;">'',
      default (vw_intro (mc_viewing cp)) VIEWING_INTRO, ''</p>'', nl,
      ''              <p style="font-family:'', SANS, '';font-size:8px;font-weight:700;letter-spacing:0.18em;text-transform:uppercase;color:'', C_GOLD_DK,
      '';margin:0 0 18px;padding-top:22px;border-top:1px solid '', C_LINE, '';">Your viewing experience</p>'', nl,
      ''              <table width="100%" cellpadding="0" cellspacing="0" border="0" role="presentation" style="margin-bottom:24px;">'', nl,
      steps_html, nl,
      ''              </table>'', nl,
      docs_block (material_rows docs (mc_display cp)) (default (vw_brochure_url (mc_viewing cp)) [])])\<close>

definition viewing_domain :: "string" where
  \<open>viewing_domain =
     (concat [''<a href="https://wtcabuja.com" style="color:'', C_GOLD, '';text-decoration:none;">wtcabuja.com</a>''])\<close>

definition VIEWING_FOOTER_NOTE :: "string" where
  \<open>VIEWING_FOOTER_NOTE =
     (concat [''You are receiving this because you requested a viewing at '', viewing_domain,
      ''.<br>World Trade Center Abuja &nbsp;&middot;&nbsp; Central Business District, Abuja, Nigeria''])\<close>

definition viewing_text :: "lead \<Rightarrow> mail_copy \<Rightarrow> (string \<times> string list) list \<Rightarrow> string" where
  "viewing_text l cp docs = (let brochure_url = default (vw_brochure_url (mc_viewing cp)) [] in py_join nl
     ([greeting_of (ld_first_name l), [], default (vw_intro (mc_viewing cp)) VIEWING_INTRO, [], ''Your viewing experience:'']
      @ map (\<lambda>(i, (title, desc)). concat [''  '', show_nat i, ''. '', title, '' '', em_dash, '' '', desc]) (enumerate 1 VIEWING_STEPS)
      @ (if docs \<noteq> [] then [[], concat [''Before your visit '', em_dash, '' your documents:'']] @ concat (map (material_text_lines (mc_display cp)) docs)
         else if brochure_url \<noteq> [] then [[], ''Download the full brochure: '' @ brochure_url]
         else [])
      @ [[], ''Questions? enquiries@wtcabuja.com'']) @ nl)"

definition build_viewing_booking_email :: "lead \<Rightarrow> campaign \<Rightarrow> mail_copy \<Rightarrow> mail_body" where
  \<open>build_viewing_booking_email l c cp = (let docs = all_materials (cg_config c) in
     \<lparr>mb_subject = default (vw_subject (mc_viewing cp)) VIEWING_SUBJECT,
      mb_html = concat [HEAD_HTML, c_shell (shell ''Viewing Request'' ''Your viewing request<br>has been received.'' (viewing_body l cp docs)
        ''Can't wait? Reach us directly.'' (VIEWING_FOOTER_NOTE) (default (pk_hero_url (mc_pack cp)) []) (default (pk_logo_url (mc_pack cp)) [])), ''</html>''],
      mb_text = viewing_text l cp docs\<rparr>)\<close>

subsection \<open>Application confirmation\<close>

definition APPLICATION_SUBJECT :: "string" where
  \<open>APPLICATION_SUBJECT =
     ''Your WTC Abuja Application Has Been Received''\<close>

text \<open>The copy with its fallbacks; a limit of zero is no limit.\<close>

definition ac_programme :: "application_copy \<Rightarrow> string" where
  "ac_programme cf = default (ac_programme_name cf) ''the programme''"

definition ac_email :: "application_copy \<Rightarrow> string" where
  "ac_email cf = default (ac_contact_email cf) ''enquiries@wtcabuja.com''"

definition ac_phone :: "application_copy \<Rightarrow> string" where
  "ac_phone cf = default (ac_contact_phone cf) []"

definition ac_days :: "application_copy \<Rightarrow> string" where
  "ac_days cf = default (ac_response_days cf) ''a few''"

definition ac_slots :: "application_copy \<Rightarrow> int" where
  "ac_slots cf = default (ac_slot_limit cf) 0"

definition status_line :: "application_copy \<Rightarrow> string" where
  \<open>status_line cf =
     (concat [''We'll be in touch within '', ac_days cf, '' business days to confirm your status.'',
      (if ac_slots cf \<noteq> 0 then (concat ['' Slots are limited to '', show_int (ac_slots cf), '' companies for this cohort, so we encourage prompt follow-through.'']) else [])])\<close>

definition application_text :: "string \<Rightarrow> application_copy \<Rightarrow> string" where
  \<open>application_text greet cf = py_join nl
      ([greet,
        [],
        (concat [''Thank you for applying to '', ac_programme cf,
      ''. Your application has been received, and our admissions team will now review it against our eligibility criteria:''])]
       @ (if ac_eligibility cf \<noteq> [] then [] # map (\<lambda>x. ''  - '' @ x) (ac_eligibility cf) else [])
       @ [[],
        (concat [''In the meantime, if you'd like to speak with a Trade Services representative '', em_dash,
      '' whether you have questions about eligibility, the programme structure, or the registration process '', em_dash, '' feel free to reach out:'']),
        [],
        (concat [''  Email: '', ac_email cf])]
       @ (if ac_phone cf \<noteq> [] then [(concat [''  Phone: '', ac_phone cf])] else [])
       @ [[],
        (concat [''We'll be in touch within '', ac_days cf, '' business days to confirm your status.'',
      (if ac_slots cf \<noteq> 0 then (concat ['' Slots are limited to '', show_int (ac_slots cf), '' companies for this cohort, so we encourage prompt follow-through.'']) else [])]),
        [],
        ''Warm regards,'',
        ''WTC Abuja Team'']) @ nl\<close>

definition eligibility_row :: "string \<Rightarrow> string" where
  \<open>eligibility_row x =
     (concat [''                  <tr>'', nl,
      ''                    <td style="vertical-align:top;width:20px;padding:0 0 10px;">'', nl,
      ''                      <span style="font-family:'', SANS, '';font-size:13px;color:'', C_GOLD_DK, '';">&#10003;</span>'', nl,
      ''                    </td>'', nl,
      ''                    <td style="vertical-align:top;padding:0 0 10px;">'', nl,
      ''                      <p style="font-family:'', SANS, '';font-size:13px;color:'', C_INK_SOFT, '';line-height:1.5;margin:0;">'', x, ''</p>'', nl,
      ''                    </td>'', nl,
      ''                  </tr>''])\<close>

definition eligibility_rows :: "string list \<Rightarrow> string" where
  "eligibility_rows xs = py_join nl (map eligibility_row xs)"

definition eligibility_html :: "string list \<Rightarrow> string" where
  \<open>eligibility_html xs =
     (if xs \<noteq> [] then
      (concat [''              <p style="font-family:'', SANS, '';font-size:8px;font-weight:700;letter-spacing:0.18em;text-transform:uppercase;color:'', C_GOLD_DK,
      '';margin:0 0 14px;padding-top:22px;border-top:1px solid '', C_LINE, '';">Eligibility criteria</p>'', nl,
      ''              <table width="100%" cellpadding="0" cellspacing="0" border="0" role="presentation" style="margin-bottom:8px;">'', nl,
      eligibility_rows xs, nl,
      ''              </table>''])
     else [])\<close>

definition contact_html :: "application_copy \<Rightarrow> string" where
  \<open>contact_html cf =
     (concat [''              <table width="100%" cellpadding="0" cellspacing="0" border="0" role="presentation" style="margin-top:8px;">'', nl,
      ''                <tr>'', nl,
      ''                  <td style="background:'', C_PANEL, '';border-radius:3px;padding:22px 24px;">'', nl,
      ''                    <p style="font-family:'', SANS, '';font-size:8px;font-weight:700;letter-spacing:0.14em;text-transform:uppercase;color:'',
      C_GOLD_DK, '';margin:0 0 8px;">Questions before we're in touch?</p>'', nl,
      ''                    <p style="font-family:'', SANS, '';font-size:12px;color:'', C_INK_SOFT,
      '';line-height:1.6;margin:0 0 6px;">Reach a Trade Services representative directly '', em_dash,
      '' eligibility, programme structure, or registration.</p>'', nl,
      ''                    <p style="font-family:'', SANS, '';font-size:13px;margin:0;">'', nl,
      ''                      <a href="mailto:'', ac_email cf, ''" style="color:'', C_GOLD_DK, '';font-weight:600;text-decoration:none;">'', ac_email cf,
      ''</a>'', nl,
      ''                      '',
      (if ac_phone cf \<noteq> [] then (concat [''&nbsp;&middot;&nbsp;<span style="color:'', C_INK_SOFT, '';">'', ac_phone cf, ''</span>'']) else []), nl,
      ''                    </p>'', nl,
      ''                  </td>'', nl,
      ''                </tr>'', nl,
      ''              </table>''])\<close>

definition application_body :: "string \<Rightarrow> application_copy \<Rightarrow> string" where
  \<open>application_body greet cf =
     (concat [''              <p style="font-family:'', SANS, '';font-size:15px;color:'', C_INK, '';line-height:1.6;margin:0 0 8px;">'', greet, ''</p>'', nl,
      ''              <p style="font-family:'', SANS, '';font-size:14px;color:'', C_INK_SOFT,
      '';line-height:1.7;margin:0 0 4px;">Thank you for applying to '', ac_programme cf,
      ''. Your application has been received, and our admissions team will now review it against our eligibility criteria:</p>'', nl,
      eligibility_html (ac_eligibility cf), nl,
      contact_html cf, nl,
      ''              <p style="font-family:'', SANS, '';font-size:12px;color:'', C_INK_SOFT,
      '';line-height:1.7;margin:20px 0 0;padding-top:20px;border-top:1px solid '', C_LINE, '';">'', status_line cf, ''</p>''])\<close>

definition APPLICATION_FOOTER_NOTE :: "string" where
  \<open>APPLICATION_FOOTER_NOTE =
     (concat [''You are receiving this because you applied through '', viewing_domain,
      ''.<br>WTC Abuja Trade Services &nbsp;&middot;&nbsp; Central Business District, Abuja, Nigeria''])\<close>

text \<open>\<open>greeting_name\<close> is the name of a second participant; an empty one counts as absent.\<close>

definition build_application_confirmation_email :: "lead \<Rightarrow> application_copy \<Rightarrow> string option \<Rightarrow> mail_body" where
  \<open>build_application_confirmation_email l cf greeting_name =
     (let greet = (if truthy greeting_name then concat [''Hello '', default greeting_name [], '',''] else greeting_of (ld_first_name l)) in
     \<lparr>mb_subject = default (ac_subject cf) APPLICATION_SUBJECT,
      mb_html = concat [HEAD_HTML, c_shell ((shell ''Application Received'' ''Your application<br>has been received.'' (application_body greet cf)
        ''Can't wait? Reach us directly.'' (APPLICATION_FOOTER_NOTE) (default (ac_hero_url cf) []) (default (ac_logo_url cf) []))
        \<lparr>sh_footer_email := ac_email cf\<rparr>), ''</html>''],
      mb_text = application_text greet cf\<rparr>)\<close>

subsection \<open>Reconnect\<close>

definition RECONNECT_INTRO :: "string" where
  \<open>RECONNECT_INTRO =
     ''Thanks for stopping by the WTC Abuja stand during NOG last week.''\<close>

definition RECONNECT_RECAP :: "string" where
  \<open>RECONNECT_RECAP =
     ''Below is a short recap of the week. We would be delighted to welcome you for a tour of WTC Abuja at your convenience. Please let us know a suitable date and time, and we'll be happy to make the necessary arrangements.''\<close>

definition reconnect_greeting :: "string \<Rightarrow> string" where
  \<open>reconnect_greeting first =
     (if first \<noteq> [] then (concat [''Dear '', first, '','']) else ''Dear guest,'')\<close>

definition reconnect_subject :: "string \<Rightarrow> string" where
  \<open>reconnect_subject first =
     (if first \<noteq> [] then (concat [''Good to reconnect after NOG, '', first]) else ''Good to reconnect after NOG'')\<close>

definition reconnect_text :: "string \<Rightarrow> string \<Rightarrow> string" where
  \<open>reconnect_text first image_url =
     (concat [reconnect_greeting first, nl,
      nl,
      RECONNECT_INTRO, nl,
      nl,
      RECONNECT_RECAP, nl,
      nl,
      ''See the recap: '', image_url, nl,
      nl,
      ''Warm regards,'', nl,
      ''The WTC Abuja Team'', nl,
      ''enquiries@wtcabuja.com'', nl])\<close>

definition image_block :: "string \<Rightarrow> string" where
  \<open>image_block image_url =
     (if image_url \<noteq> [] then (concat [''<table width="100%" cellpadding="0" cellspacing="0" border="0" role="presentation" style="margin:8px 0 4px;"><tr><td><img src="'', image_url,
      ''" width="504" alt="World Trade Center Abuja '', em_dash,
      '' NOG week recap" style="width:100%;max-width:504px;height:auto;display:block;border:0;border-radius:3px;"></td></tr></table>'']) else [])\<close>

definition reconnect_body :: "string \<Rightarrow> string \<Rightarrow> string" where
  \<open>reconnect_body first image_url =
     (concat [''              <p style="font-family:'', SANS, '';font-size:15px;color:'', C_INK, '';line-height:1.6;margin:0 0 8px;">'', reconnect_greeting first,
      ''</p>'', nl,
      ''              <p style="font-family:'', SANS, '';font-size:14px;color:'', C_INK_SOFT, '';line-height:1.7;margin:0 0 18px;">'', RECONNECT_INTRO,
      ''</p>'', nl,
      ''              <p style="font-family:'', SANS, '';font-size:14px;color:'', C_INK_SOFT, '';line-height:1.7;margin:0 0 24px;">'', RECONNECT_RECAP,
      ''</p>'', nl,
      image_block image_url, nl,
      ''              <p style="font-family:'', SANS, '';font-size:14px;color:'', C_INK_SOFT,
      '';line-height:1.7;margin:24px 0 0;">Warm regards,<br><span style="color:'', C_INK, '';font-weight:600;">The WTC Abuja Team</span></p>''])\<close>

definition reconnect_html :: "string \<Rightarrow> string \<Rightarrow> string" where
  \<open>reconnect_html first image_url =
     (concat [HEAD_HTML, ''<body style="margin:0;padding:0;background:'', C_CREAM, '';">'', nl,
      ''  <table width="100%" cellpadding="0" cellspacing="0" border="0" role="presentation" style="background:'', C_CREAM, '';">'', nl,
      ''    <tr>'', nl,
      ''      <td align="center" style="padding:40px 16px;">'', nl,
      ''        <table width="600" cellpadding="0" cellspacing="0" border="0" role="presentation" style="max-width:600px;width:100%;">'', nl,
      ''          <tr>'', nl,
      ''            <td style="background:#ffffff;padding:40px 48px;border-radius:4px;">'', nl,
      reconnect_body first image_url, nl,
      ''            </td>'', nl,
      ''          </tr>'', nl,
      ''        </table>'', nl,
      ''      </td>'', nl,
      ''    </tr>'', nl,
      ''  </table>'', nl,
      ''</body></html>''])\<close>

definition build_reconnect_email :: "lead \<Rightarrow> string \<Rightarrow> mail_body" where
  "build_reconnect_email l image_url = (let first = py_strip (ld_first_name l) in
     \<lparr>mb_subject = reconnect_subject first, mb_html = reconnect_html first image_url,
      mb_text = reconnect_text first image_url\<rparr>)"

end
