(* ===== verification/Trade_Mail.thy ===== *)
theory Trade_Mail
  imports Campaign_Mail Trade
begin

section \<open>The mails of a trade programme\<close>

text \<open>
  Model of the mail builders of \<open>app/services/trade_mailer.py\<close>: the confirmation every
  participant gets and the notification of the team, whose details are whatever the
  registration form sent. The printed form of a JSON value that is no text, number or
  truth value is the parameter \<open>repr\<close>.
\<close>

definition py_str :: "(json \<Rightarrow> string) \<Rightarrow> json \<Rightarrow> string" where
  "py_str repr j = (case j of JStr s \<Rightarrow> s | JInt i \<Rightarrow> show_int i
     | JBool b \<Rightarrow> (if b then ''True'' else ''False'') | JNull \<Rightarrow> ''None'' | _ \<Rightarrow> repr j)"

text \<open>\<open>str.title\<close>: a letter after a non-letter is upper case, any other letter lower case.\<close>

definition is_alpha :: "char \<Rightarrow> bool" where
  "is_alpha ch \<longleftrightarrow> CHR ''a'' \<le> lower_char ch \<and> lower_char ch \<le> CHR ''z''"

definition upper_char :: "char \<Rightarrow> char" where
  "upper_char ch = (if CHR ''a'' \<le> ch \<and> ch \<le> CHR ''z'' then char_of (of_char ch - 32 :: nat) else ch)"

fun title_from :: "bool \<Rightarrow> string \<Rightarrow> string" where
  "title_from after [] = []"
| "title_from after (ch # s) = (if after then lower_char ch else upper_char ch) # title_from (is_alpha ch) s"

definition py_title :: "string \<Rightarrow> string" where
  "py_title s = title_from False s"

subsection \<open>Application confirmation\<close>

definition trade_eligibility_row :: "string \<Rightarrow> string" where
  \<open>trade_eligibility_row x =
     (concat [''                  <tr>'', nl,
      ''                    <td style="vertical-align:top;width:20px;padding:0 0 10px;">'', nl,
      ''                      <span style="font-family:'', SANS, '';font-size:13px;color:'', C_GOLD_DK, '';">&#8226;</span>'', nl,
      ''                    </td>'', nl,
      ''                    <td style="vertical-align:top;padding:0 0 10px;">'', nl,
      ''                      <p style="font-family:'', SANS, '';font-size:13px;color:'', C_INK_SOFT, '';line-height:1.5;margin:0;">'', x, ''</p>'', nl,
      ''                    </td>'', nl,
      ''                  </tr>''])\<close>

definition trade_eligibility_html :: "string list \<Rightarrow> string" where
  \<open>trade_eligibility_html xs =
     (if xs \<noteq> [] then
      (concat [''              <p style="font-family:'', SANS, '';font-size:8px;font-weight:700;letter-spacing:0.18em;text-transform:uppercase;color:'', C_GOLD_DK,
      '';margin:0 0 14px;padding-top:22px;border-top:1px solid '', C_LINE, '';">What we'll review</p>'', nl,
      ''              <table width="100%" cellpadding="0" cellspacing="0" border="0" role="presentation" style="margin-bottom:8px;">'', nl,
      py_join nl (map trade_eligibility_row xs), nl,
      ''              </table>''])
     else [])\<close>

definition trade_contact_html :: "application_copy \<Rightarrow> string" where
  \<open>trade_contact_html cf =
     (concat [''              <table width="100%" cellpadding="0" cellspacing="0" border="0" role="presentation" style="margin-top:8px;">'', nl,
      ''                <tr>'', nl,
      ''                  <td style="background:'', C_PANEL, '';border-radius:3px;padding:22px 24px;">'', nl,
      ''                    <p style="font-family:'', SANS, '';font-size:8px;font-weight:700;letter-spacing:0.14em;text-transform:uppercase;color:'',
      C_GOLD_DK, '';margin:0 0 8px;">Questions before we're in touch?</p>'', nl,
      ''                    <p style="font-family:'', SANS, '';font-size:12px;color:'', C_INK_SOFT,
      '';line-height:1.6;margin:0 0 6px;">Reach a Trade Services representative directly '', em_dash,
      '' eligibility, programme structure, or registration.</p>'', nl,
      ''                    <p style="font-family:'', SANS, '';font-size:13px;margin:0;">'', nl,
      ''                      <a href="mailto:'', ac_email cf, ''" style="color:'', C_GOLD_DK, '';font-weight:600;text-decoration:none;">'', ac_email cf,
      ''</a>'', nl,
      ''                      '',
      (if ac_phone cf \<noteq> [] then (concat [''&nbsp;&middot;&nbsp;<span style="color:'', C_INK_SOFT, '';">'', ac_phone cf, ''</span>'']) else []), nl,
      ''                    </p>'', nl,
      ''                  </td>'', nl,
      ''                </tr>'', nl,
      ''              </table>''])\<close>

definition trade_application_body :: "string \<Rightarrow> application_copy \<Rightarrow> string" where
  \<open>trade_application_body greet cf =
     (concat [''              <p style="font-family:'', SANS, '';font-size:15px;color:'', C_INK, '';line-height:1.6;margin:0 0 8px;">'', greet, ''</p>'', nl,
      ''              <p style="font-family:'', SANS, '';font-size:14px;color:'', C_INK_SOFT,
      '';line-height:1.7;margin:0 0 4px;">Thank you for applying to '', ac_programme cf,
      ''. Your application has been received, and our admissions team will now review it against our eligibility criteria:</p>'', nl,
      trade_eligibility_html (ac_eligibility cf), nl,
      trade_contact_html cf, nl,
      ''              <p style="font-family:'', SANS, '';font-size:12px;color:'', C_INK_SOFT,
      '';line-height:1.7;margin:20px 0 0;padding-top:20px;border-top:1px solid '', C_LINE, '';">'', status_line cf, ''</p>''])\<close>

definition TRADE_FOOTER_NOTE :: "string" where
  \<open>TRADE_FOOTER_NOTE =
     (concat [''You are receiving this because you applied through '', viewing_domain,
      ''.<br>WTC Abuja Trade Services &nbsp;&middot;&nbsp; Central Business District, Abuja, Nigeria''])\<close>

text \<open>The words of the plain-text part are those of the campaign version, \<open>application_text\<close>.\<close>

definition build_trade_confirmation_email :: "trade_lead \<Rightarrow> application_copy \<Rightarrow> mail_body" where
  \<open>build_trade_confirmation_email l cf =
     (let greet = greeting_of (tl_first_name l); hero_url = default (ac_hero_url cf) [];
          s = shell ''Application Received'' (if hero_url \<noteq> [] then [] else ''Your application<br>has been received.'') (trade_application_body greet cf)
        ''Can't wait? Reach us directly.'' TRADE_FOOTER_NOTE hero_url (default (ac_logo_url cf) [])
      in \<lparr>mb_subject = default (ac_subject cf) APPLICATION_SUBJECT,
      mb_html = concat [HEAD_HTML, c_shell (s\<lparr>sh_footer_email := ac_email cf,
        sh_hero_spacer_height := (if hero_url \<noteq> [] then 208 else 88),
        sh_hero_show_label := (hero_url = [])\<rparr>), ''</html>''],
      mb_text = application_text greet cf\<rparr>)\<close>

subsection \<open>Notification of the team\<close>

definition NOTIFICATION_EXCLUDED_RESPONSE_KEYS :: "string list" where
  "NOTIFICATION_EXCLUDED_RESPONSE_KEYS =
     [''second_participant'', ''consent_terms'', ''consent_data_processing'', ''consent_liability_waiver'', ''consent_photo_video'']"

definition format_notification_label :: "string \<Rightarrow> string" where
  "format_notification_label key = py_title (map (\<lambda>ch. if ch = CHR ''_'' then CHR '' '' else ch) key)"

definition format_notification_value :: "(json \<Rightarrow> string) \<Rightarrow> json \<Rightarrow> string" where
  "format_notification_value repr v = (case v of
     JBool b \<Rightarrow> (if b then ''Yes'' else ''No'')
   | JList vs \<Rightarrow> (if vs \<noteq> [] then py_join '', '' (map (py_str repr) vs) else em_dash)
   | JNull \<Rightarrow> em_dash
   | _ \<Rightarrow> (if v = JStr [] then em_dash else py_str repr v))"

definition notification_detail_items :: "(json \<Rightarrow> string) \<Rightarrow> trade_lead \<Rightarrow> (string \<times> string) list" where
  "notification_detail_items repr l =
     map (\<lambda>(k, v). (format_notification_label k, format_notification_value repr v))
       (filter (\<lambda>(k, v). k \<notin> set NOTIFICATION_EXCLUDED_RESPONSE_KEYS \<and> v \<noteq> JNull \<and> v \<noteq> JStr [] \<and> v \<noteq> JList [])
         (tl_responses l))"

definition ljust :: "nat \<Rightarrow> string \<Rightarrow> string" where
  "ljust n s = s @ replicate (n - length s) (CHR '' '')"

fun pairs_of :: "'a list \<Rightarrow> ('a \<times> 'a option) list" where
  "pairs_of [] = []"
| "pairs_of [x] = [(x, None)]"
| "pairs_of (x # y # zs) = (x, Some y) # pairs_of zs"

text \<open>\<open>x or "Not provided"\<close> of a value that may be of any type.\<close>

definition provided :: "(json \<Rightarrow> string) \<Rightarrow> json \<Rightarrow> string" where
  "provided repr j = (if json_truthy j then py_str repr j else ''Not provided'')"

definition required_labels :: "trade_program \<Rightarrow> string list" where
  "required_labels p = map (\<lambda>d. default (rd_label d) (rd_key d)) (filter rd_required (pc_required_documents (tp_config p)))"

definition second_text :: "trade_lead option \<Rightarrow> string" where
  \<open>second_text second =
     (case second of None \<Rightarrow> ''None''
     | Some s \<Rightarrow> (concat [tl_first_name s, '' '', tl_last_name s, '' <'', or_list (Some (tl_email s)) ''no email'', ''>'']))\<close>

definition second_html :: "trade_lead option \<Rightarrow> string" where
  \<open>second_html second =
     (case second of None \<Rightarrow> (concat [''<div style="color:'', LABEL_GRAY, '';font-size:14px">None</div>''])
     | Some s \<Rightarrow> (concat [''<div style="color:'', MUTED, '';font-size:14px">'', tl_first_name s, '' '', tl_last_name s, '' &lt;'', or_list (Some (tl_email s)) ''no email'',
      ''&gt;</div>'']))\<close>

definition trade_notification_text :: "(json \<Rightarrow> string) \<Rightarrow> time \<Rightarrow> trade_lead \<Rightarrow> trade_lead option \<Rightarrow> trade_program \<Rightarrow> string" where
  \<open>trade_notification_text repr now l second p =
     (concat [''New '', tp_name p, '' Application'', nl,
      replicate 50 (CHR ''=''), nl,
      nl,
      ''Name:            '', full_name_of (tl_first_name l) (tl_last_name l), nl,
      ''Company:         '', or_list (tl_company l) ''Not provided'', nl,
      ''Title:           '', provided repr (tl_job_title l), nl,
      ''Email:           '', tl_email l, nl,
      (if json_truthy (tl_phone l) then (concat [''Phone:           '', py_str repr (tl_phone l), nl]) else []),
      concat (map (\<lambda>(label, v). concat [ljust 17 (label @ '':''), v, nl]) (notification_detail_items repr l)), ''2nd participant: '',
      second_text second, nl,
      nl,
      ''Required documents outstanding until submitted: '', or_list (Some (py_join '', '' (required_labels p))) ''None'', nl,
      nl,
      ''Registration ID: '', tl_registration_id l, nl,
      ''Captured: '', notified_at now (tl_captured_at l), '' via wtcabuja.com'', nl])\<close>

definition trade_phone_line :: "string \<Rightarrow> string" where
  \<open>trade_phone_line phone =
     (concat [''<div style="color:'', GOLD, '';font-size:14px;margin-top:6px">&#128241; '', phone, ''</div>''])\<close>

definition docs_html :: "string list \<Rightarrow> string" where
  \<open>docs_html ds =
     (if ds \<noteq> [] then concat (map (\<lambda>d. (concat [''<div style="color:'', MUTED, '';font-size:14px;margin-bottom:6px"><span style="color:'', GOLD, '';margin-right:10px">&#10022;</span>'', d,
      ''</div>''])) ds)
     else (concat [''<div style="color:'', LABEL_GRAY, '';font-size:14px">None configured</div>'']))\<close>

definition detail_row :: "string \<times> string \<Rightarrow> (string \<times> string) option \<Rightarrow> string" where
  \<open>detail_row a b =
     (concat [''            <tr>'', nl,
      ''              <td width="50%" style="vertical-align:top;padding-right:16px;padding-bottom:20px">'', nl,
      ''                '', brand_label (fst a), nl,
      ''                <div style="color:'', MUTED, '';font-size:14px">'', snd a, ''</div>'', nl,
      ''              </td>'', nl,
      ''              <td width="50%" style="vertical-align:top;padding-left:16px;padding-bottom:20px">'', nl,
      ''                '',
      (case b of None \<Rightarrow> [] | Some c \<Rightarrow> (concat [brand_label (fst c), ''<div style="color:'', MUTED, '';font-size:14px">'', snd c, ''</div>''])), nl,
      ''              </td>'', nl,
      ''            </tr>''])\<close>

definition detail_html :: "(string \<times> string) list \<Rightarrow> string" where
  \<open>detail_html items =
     (if items \<noteq> [] then (concat [''          <table width="100%" cellpadding="0" cellspacing="0" style="margin-bottom:20px">'', nl,
      py_join nl (map (\<lambda>(a, b). detail_row a b) (pairs_of items)), nl,
      ''          </table>'', nl,
      ''          '', brand_divider]) else [])\<close>

definition trade_notification_body :: "(json \<Rightarrow> string) \<Rightarrow> time \<Rightarrow> trade_lead \<Rightarrow> trade_lead option \<Rightarrow> trade_program \<Rightarrow> string" where
  \<open>trade_notification_body repr now l second p =
     (concat [(wtc_header (concat [''New '', tp_name p, '' Application''])), nl,
      ''      <table width="100%" cellpadding="0" cellspacing="0">'', nl,
      ''        <tr><td style="padding:32px 40px">'', nl,
      ''          <table width="100%" cellpadding="0" cellspacing="0" style="margin-bottom:20px">'', nl,
      ''            <tr>'', nl,
      ''              <td width="50%" style="vertical-align:top;padding-right:16px">'', nl,
      ''                '', (brand_label ''NAME''), nl,
      ''                <div style="color:'', WHITE, '';font-size:16px;font-weight:700;line-height:1.35">'',
      full_name_of (tl_first_name l) (tl_last_name l), ''</div>'', nl,
      ''              </td>'', nl,
      ''              <td width="50%" style="vertical-align:top;padding-left:16px">'', nl,
      ''                '', (brand_label ''COMPANY''), nl,
      ''                <div style="color:'', WHITE, '';font-size:16px;font-weight:700;line-height:1.35">'', or_list (tl_company l) ''Not provided'',
      ''</div>'', nl,
      ''              </td>'', nl,
      ''            </tr>'', nl,
      ''          </table>'', nl,
      ''          '', brand_divider, nl,
      ''          <table width="100%" cellpadding="0" cellspacing="0" style="margin-bottom:20px">'', nl,
      ''            <tr>'', nl,
      ''              <td width="50%" style="vertical-align:top;padding-right:16px">'', nl,
      ''                '', (brand_label ''TITLE''), nl,
      ''                <div style="color:'', MUTED, '';font-size:14px">'', provided repr (tl_job_title l), ''</div>'', nl,
      ''              </td>'', nl,
      ''              <td width="50%"></td>'', nl,
      ''            </tr>'', nl,
      ''          </table>'', nl,
      ''          '', brand_divider, nl,
      detail_html (notification_detail_items repr l), nl,
      ''          '', (brand_label ''CONTACT''), nl,
      ''          <div style="color:'', GOLD, '';font-size:14px"><a href="mailto:'', tl_email l, ''" style="color:'', GOLD,
      '';text-decoration:none">&#9993; '', tl_email l, ''</a></div>'', nl,
      ''          '', (if json_truthy (tl_phone l) then trade_phone_line (py_str repr (tl_phone l)) else []), nl,
      ''          <div style="margin-top:20px">'', nl,
      ''            '', (brand_label ''2ND PARTICIPANT''), nl,
      ''            '', second_html second, nl,
      ''          </div>'', nl,
      ''          <div style="background:'', INNER, '';border-radius:10px;padding:20px 24px;margin:20px 0">'', nl,
      ''            '', (brand_label ''REQUIRED DOCUMENTS''), nl,
      ''            '', docs_html (required_labels p), nl,
      ''          </div>'', nl,
      ''          <div style="border-top:1px solid '', DIVIDER, '';padding-top:16px;margin-top:4px">'', nl,
      ''            '', (brand_label ''REGISTRATION ID''), nl,
      ''            <div style="color:'', LABEL_GRAY, '';font-size:12px;font-family:monospace">'', tl_registration_id l, ''</div>'', nl,
      ''          </div>'', nl,
      ''        </td></tr>'', nl,
      ''      </table>'', nl,
      ''      <table width="100%" cellpadding="0" cellspacing="0">'', nl,
      ''        <tr><td style="background:'', BG, '';border-top:1px solid '', DIVIDER, '';padding:22px 40px;text-align:center">'', nl,
      ''          <div style="color:'', DIM, '';font-size:12px;margin-bottom:4px">Captured via wtcabuja.com &middot; '', tp_name p,
      '' application form</div>'', nl,
      ''          <div style="color:'', DIM, '';font-size:12px;margin-bottom:14px">'', notified_at now (tl_captured_at l), '' &middot; '', tp_name p,
      ''</div>'', nl,
      ''          <div style="color:'', GOLD,
      '';font-size:9px;font-weight:700;letter-spacing:0.2em;text-transform:uppercase">WORLD TRADE CENTER ABUJA</div>'', nl,
      ''        </td></tr>'', nl,
      ''      </table>''])\<close>

text \<open>The primary is the first marked so, or the first of the list, which is never empty.\<close>

definition build_trade_notification_email ::
    "(json \<Rightarrow> string) \<Rightarrow> time \<Rightarrow> trade_lead list \<Rightarrow> trade_program \<Rightarrow> mail_body" where
  \<open>build_trade_notification_email repr now participants p =
     (let l = default (List.find tl_is_primary participants) (hd participants);
          second = List.find (\<lambda>x. \<not> tl_is_primary x) participants
      in \<lparr>mb_subject = (concat [''New '', tp_name p, '' Application: '', full_name_of (tl_first_name l) (tl_last_name l), '' '', em_dash, '' '',
      or_list (tl_company l) ''Not provided'']),
      mb_html = wrap_card (trade_notification_body repr now l second p),
      mb_text = trade_notification_text repr now l second p\<rparr>)\<close>

end
