(* ===== verification/Mail_Safety.thy ===== *)
theory Mail_Safety
  imports Trade_Mail Lead_Safety "HOL-Library.Sublist"
begin

section \<open>What the mails offer\<close>

text \<open>
  The links a reader of a mail finds are the values of its \<open>href\<close> attributes. The lemmas
  follow the concatenations of the templates piece by piece: \<open>frag s ls\<close> says that the
  piece \<open>s\<close> contributes the links \<open>ls\<close> wherever it stands.
\<close>

definition HREF :: string where \<open>HREF = ''href="''\<close>

definition quoted :: "string \<Rightarrow> string" where
  "quoted s = takeWhile (\<lambda>ch. ch \<noteq> CHR 0x22) s"

fun links :: "string \<Rightarrow> string list" where
  "links [] = []"
| "links (ch # s) = (if starts_with HREF (ch # s) then [quoted (drop 5 s)] else []) @ links s"

definition frag :: "string \<Rightarrow> string list \<Rightarrow> bool" where
  "frag s ls \<longleftrightarrow> (\<forall>r. links (s @ r) = ls @ links r)"

text \<open>A piece that ends inside no attribute and in no beginning of \<open>href="\<close>.\<close>

fun closed :: "string \<Rightarrow> bool" where
  "closed [] = True"
| "closed (ch # s) \<longleftrightarrow> (if starts_with HREF (ch # s) then CHR 0x22 \<in> set (drop 5 s) else \<not> starts_with (ch # s) HREF) \<and> closed s"

definition clean :: "string \<Rightarrow> bool" where
  "clean s \<longleftrightarrow> CHR 0x22 \<notin> set s"

text \<open>An address without quotes that does not itself end in \<open>href=\<close>.\<close>

definition link_ok :: "string \<Rightarrow> bool" where
  "link_ok u \<longleftrightarrow> clean u \<and> \<not> starts_with (rev ''href='') (rev u)"

subsection \<open>Pieces\<close>

lemma starts_with_longer:
  "length p \<le> length s \<Longrightarrow> starts_with p (s @ r) = starts_with p s"
  by (induction p s rule: starts_with.induct) auto

lemma starts_with_shorter:
  "starts_with p (s @ r) \<Longrightarrow> length s \<le> length p \<Longrightarrow> starts_with s p"
  by (induction p s rule: starts_with.induct) auto

lemma starts_with_split:
  "starts_with p (s @ r) \<Longrightarrow> \<not> starts_with p s \<Longrightarrow> starts_with s p"
  by (metis le_cases starts_with_longer starts_with_shorter)

lemma starts_with_mono: "starts_with p s \<Longrightarrow> starts_with p (s @ r)"
  by (induction p s rule: starts_with.induct) auto

lemma quoted_append: "CHR 0x22 \<in> set s \<Longrightarrow> quoted (s @ r) = quoted s"
  by (simp add: quoted_def takeWhile_append1)

lemma frag_links: "closed s \<Longrightarrow> links (s @ r) = links s @ links r"
proof (induction s)
  case (Cons ch s)
  then have rest: "links (s @ r) = links s @ links r" by simp
  show ?case
  proof (cases "starts_with HREF (ch # s)")
    case True
    with Cons.prems have "CHR 0x22 \<in> set (drop 5 s)" by simp
    moreover have "5 \<le> length s" using calculation by (cases "length s < 5") auto
    ultimately have "quoted (drop 5 (s @ r)) = quoted (drop 5 s)" by (simp add: quoted_append)
    moreover have "starts_with HREF (ch # s @ r)" using starts_with_mono [OF True, of r] by simp
    ultimately show ?thesis using True rest by (simp del: starts_with.simps)
  next
    case False
    with Cons.prems have "\<not> starts_with (ch # s) HREF" by simp
    with False have "\<not> starts_with HREF (ch # s @ r)" using starts_with_split [of HREF "ch # s" r] by auto
    with False rest show ?thesis by (simp del: starts_with.simps)
  qed
qed simp

lemma frag_closed: "closed s \<Longrightarrow> frag s (links s)"
  by (simp add: frag_def frag_links)

lemma frag_append: "frag s ls \<Longrightarrow> frag t ms \<Longrightarrow> frag (s @ t) (ls @ ms)"
  by (simp add: frag_def)

text \<open>What may follow a text without quotes for no link to begin inside it.\<close>

definition safe_start :: "string \<Rightarrow> bool" where
  \<open>safe_start s \<longleftrightarrow> s \<noteq> [] \<and> hd s \<notin> set ''ref="''\<close>

lemma starts_with_hits: "starts_with p (v @ a # t) \<Longrightarrow> a \<notin> set p \<Longrightarrow> starts_with p v"
  by (induction p v rule: starts_with.induct) auto

lemma no_link_in_clean:
  assumes "clean v" and "v \<noteq> []" and "safe_start s"
  shows "\<not> starts_with HREF (v @ s)"
proof
  assume h: "starts_with HREF (v @ s)"
  obtain a s' where s: "s = a # s'" and a: \<open>a \<notin> set ''ref="''\<close>
    using assms(3) by (cases s) (auto simp: safe_start_def)
  obtain c v' where v: "v = c # v'" using assms(2) by (cases v) auto
  from h have \<open>starts_with ''ref="'' (v' @ a # s')\<close> by (simp add: HREF_def v s)
  then have \<open>starts_with ''ref="'' v'\<close> using a by (rule starts_with_hits)
  then have "CHR 0x22 \<in> set v'" by (auto simp: starts_with_iff)
  with assms(1) v show False by (simp add: clean_def)
qed

lemma links_clean: "clean v \<Longrightarrow> safe_start s \<Longrightarrow> links (v @ s) = links s"
proof (induction v)
  case (Cons c v)
  then have "\<not> starts_with HREF ((c # v) @ s)" by (intro no_link_in_clean) auto
  moreover have "clean v" using Cons.prems(1) by (simp add: clean_def)
  ultimately show ?case using Cons by (simp del: starts_with.simps)
qed simp

lemma frag_clean:
  assumes "clean v" and "safe_start s" and "frag s ls"
  shows "frag (v @ s) ls"
  unfolding frag_def
proof
  fix r
  have "safe_start (s @ r)" using assms(2) by (cases s) (auto simp: safe_start_def)
  then show "links ((v @ s) @ r) = ls @ links r"
    using links_clean [OF assms(1), of "s @ r"] assms(3) by (simp add: frag_def)
qed

lemma only_href_before_quote:
  assumes "starts_with HREF (v @ CHR 0x22 # t)" and "clean v"
  shows "v = ''href=''"
proof -
  have "starts_with ''href='' (v @ CHR 0x22 # t)" using assms(1) by (auto simp: HREF_def starts_with_iff)
  then have "starts_with ''href='' v" by (rule starts_with_hits) simp
  then obtain w where v: "v = ''href='' @ w" by (auto simp: starts_with_iff)
  with assms show ?thesis by (cases w) (auto simp: HREF_def clean_def)
qed

lemma links_in_address:
  assumes "link_ok u"
  shows "links (u @ CHR 0x22 # t) = links t"
proof -
  have "links (w @ CHR 0x22 # t) = links t" if "\<exists>p. u = p @ w" for w
    using that
  proof (induction w)
    case Nil
    then show ?case by (simp add: HREF_def)
  next
    case (Cons c w)
    then obtain p where u: "u = p @ c # w" by blast
    then have "u = (p @ [c]) @ w" by simp
    then have IH: "links (w @ CHR 0x22 # t) = links t" using Cons.IH by blast
    have "\<not> starts_with HREF ((c # w) @ CHR 0x22 # t)"
    proof
      assume "starts_with HREF ((c # w) @ CHR 0x22 # t)"
      moreover have "clean (c # w)" using assms u by (simp add: link_ok_def clean_def)
      ultimately have "c # w = ''href=''" by (rule only_href_before_quote)
      then have "rev u = rev ''href='' @ rev p" using u by simp
      then have "starts_with (rev ''href='') (rev u)" by (simp only: starts_with_append)
      with assms show False by (simp add: link_ok_def)
    qed
    then show ?case using IH by (simp del: starts_with.simps)
  qed
  then show ?thesis by (metis append_Nil)
qed

lemma frag_link: "link_ok u \<Longrightarrow> frag (HREF @ u @ [CHR 0x22]) [u]"
proof -
  assume u: "link_ok u"
  have q: "quoted (u @ CHR 0x22 # r) = u" for r
    using u by (auto simp: quoted_def link_ok_def clean_def takeWhile_append)
  have "links (HREF @ u @ CHR 0x22 # r) = u # links (u @ CHR 0x22 # r)" for r
    by (simp add: HREF_def q)
  then show ?thesis by (simp add: frag_def links_in_address [OF u])
qed

subsection \<open>Evaluating literals\<close>

text \<open>\<open>flow s ls\<close>: a closed piece with these links. The equations go by the bits of a character.\<close>

definition flow :: "string \<Rightarrow> string list \<Rightarrow> bool" where
  "flow s ls \<longleftrightarrow> closed s \<and> links s = ls"

lemma flow_Nil: "flow [] ls \<longleftrightarrow> ls = []"
  by (auto simp: flow_def)

lemma flow_skip: "c \<noteq> CHR ''h'' \<Longrightarrow> flow (c # s) ls = flow s ls"
  by (auto simp: flow_def HREF_def)

lemma flow_char:
  "flow (Char True b1 b2 b3 b4 b5 b6 b7 # s) ls = flow s ls"
  "flow (Char b0 True b2 b3 b4 b5 b6 b7 # s) ls = flow s ls"
  "flow (Char b0 b1 True b3 b4 b5 b6 b7 # s) ls = flow s ls"
  "flow (Char b0 b1 b2 False b4 b5 b6 b7 # s) ls = flow s ls"
  "flow (Char b0 b1 b2 b3 True b5 b6 b7 # s) ls = flow s ls"
  "flow (Char b0 b1 b2 b3 b4 False b6 b7 # s) ls = flow s ls"
  "flow (Char b0 b1 b2 b3 b4 b5 False b7 # s) ls = flow s ls"
  "flow (Char b0 b1 b2 b3 b4 b5 b6 True # s) ls = flow s ls"
  by (rule flow_skip; simp)+

lemma flow_h:
  \<open>flow (CHR ''h'' # s) ls \<longleftrightarrow>
     (if starts_with ''ref="'' s then CHR 0x22 \<in> set (drop 5 s) \<and> ls \<noteq> [] \<and> hd ls = quoted (drop 5 s) \<and> flow s (tl ls)
      else \<not> starts_with s ''ref="'' \<and> flow s ls)\<close>
  by (cases ls) (auto simp: flow_def HREF_def)

text \<open>\<open>opens t s\<close>: the piece ends by opening a link that begins with \<open>t\<close>.\<close>

definition opens :: "string \<Rightarrow> string \<Rightarrow> bool" where
  "opens t s \<longleftrightarrow> (\<exists>p. s = p @ HREF @ t \<and> flow p [])"

lemma opens_skip:
  assumes "c \<noteq> CHR ''h''" shows "opens t (c # s) = opens t s"
proof
  assume "opens t (c # s)"
  then obtain p where p: "c # s = p @ HREF @ t" "flow p []" by (auto simp: opens_def)
  then obtain p' where "p = c # p'" using assms by (cases p) (auto simp: HREF_def)
  with p assms show "opens t s" by (auto simp: opens_def flow_skip)
next
  assume "opens t s"
  then obtain p where "s = p @ HREF @ t" "flow p []" by (auto simp: opens_def)
  with assms have "c # s = (c # p) @ HREF @ t \<and> flow (c # p) []" by (simp add: flow_skip)
  then show "opens t (c # s)" unfolding opens_def by blast
qed

lemma opens_char:
  "opens t (Char True b1 b2 b3 b4 b5 b6 b7 # s) = opens t s"
  "opens t (Char b0 True b2 b3 b4 b5 b6 b7 # s) = opens t s"
  "opens t (Char b0 b1 True b3 b4 b5 b6 b7 # s) = opens t s"
  "opens t (Char b0 b1 b2 False b4 b5 b6 b7 # s) = opens t s"
  "opens t (Char b0 b1 b2 b3 True b5 b6 b7 # s) = opens t s"
  "opens t (Char b0 b1 b2 b3 b4 False b6 b7 # s) = opens t s"
  "opens t (Char b0 b1 b2 b3 b4 b5 False b7 # s) = opens t s"
  "opens t (Char b0 b1 b2 b3 b4 b5 b6 True # s) = opens t s"
  by (rule opens_skip; simp)+

lemma opens_here: \<open>s = ''ref="'' @ t \<Longrightarrow> opens t (CHR ''h'' # s)\<close>
  by (auto simp: opens_def HREF_def flow_Nil)

lemma opens_h:
  assumes "c \<noteq> CHR ''r''" and "c \<noteq> CHR ''h''"
  shows "opens t (CHR ''h'' # c # s) = opens t (c # s)"
proof
  assume "opens t (CHR ''h'' # c # s)"
  then obtain p where p: "CHR ''h'' # c # s = p @ HREF @ t" "flow p []" by (auto simp: opens_def)
  with assms obtain p' where p': "p = CHR ''h'' # p'" by (cases p) (auto simp: HREF_def)
  with p have "c # s = p' @ HREF @ t" by simp
  moreover have "flow p' []" using p(2) by (auto simp: p' flow_def HREF_def split: if_splits)
  ultimately show "opens t (c # s)" by (auto simp: opens_def)
next
  assume "opens t (c # s)"
  then obtain p where p: "c # s = p @ HREF @ t" "flow p []" by (auto simp: opens_def)
  with assms obtain p' where p': "p = c # p'" by (cases p) (auto simp: HREF_def)
  with p(2) assms have "flow (CHR ''h'' # p) []" by (simp add: flow_def HREF_def)
  with p(1) show "opens t (CHR ''h'' # c # s)" unfolding opens_def by (metis append_Cons)
qed

lemmas flow_eval = flow_Nil flow_char flow_h opens_char opens_h opens_here starts_with.simps char.inject
  simp_thms if_True if_False append.simps list.inject list.distinct

subsection \<open>Concatenations\<close>

lemma frag_nil: "frag (concat []) []"
  by (simp add: frag_def)

lemma frag_empty: "frag [] []"
  by (simp add: frag_def)

lemma frag_flow: "flow x ls \<Longrightarrow> frag x ls"
  using frag_closed [of x] by (auto simp: flow_def)

lemma frag_sub: "frag x ks \<Longrightarrow> frag (concat xs) ls \<Longrightarrow> frag (concat (x # xs)) (ks @ ls)"
  using frag_append [of x ks "concat xs" ls] by simp

lemma frag_lit: "frag x [] \<Longrightarrow> frag (concat xs) ls \<Longrightarrow> frag (concat (x # xs)) ls"
  using frag_sub [of x "[]" xs ls] by simp

lemma frag_txt: "clean v \<Longrightarrow> safe_start (concat xs) \<Longrightarrow> frag (concat xs) ls \<Longrightarrow> frag (concat (v # xs)) ls"
  using frag_clean [of v "concat xs" ls] by simp

lemma frag_open:
  assumes u: "link_ok (t @ u)" and x: "opens t x" and y: "y = CHR 0x22 # y'" and rest: "frag (concat (y' # xs)) ls"
  shows "frag (concat (x # u # y # xs)) ((t @ u) # ls)"
proof -
  obtain p where p: "x = p @ HREF @ t" "flow p []" using x by (auto simp: opens_def)
  have "frag (p @ (HREF @ (t @ u) @ [CHR 0x22]) @ concat (y' # xs)) ([] @ [t @ u] @ ls)"
    by (intro frag_append frag_link u rest frag_flow p(2))
  moreover have "concat (x # u # y # xs) = p @ (HREF @ (t @ u) @ [CHR 0x22]) @ concat (y' # xs)"
    by (simp add: p y)
  ultimately show ?thesis by (simp only: append_Nil append_Cons)
qed

text \<open>The value of another attribute, or of \<open>url('...')\<close>.\<close>

lemma frag_attr:
  assumes u: "link_ok u" and y: "y = CHR 0x22 # y'" and rest: "frag (concat (y' # xs)) ls"
  shows "frag (concat (u # y # xs)) ls"
  using links_in_address [OF u] rest by (simp add: y frag_def)

lemma frag_if: "(b \<Longrightarrow> frag x ls) \<Longrightarrow> (\<not> b \<Longrightarrow> frag y ls) \<Longrightarrow> frag (if b then x else y) ls"
  by simp

subsection \<open>The shell\<close>

lemma palette:
  "frag SANS []" "frag SERIF []" "frag nl []" "frag sq []" "frag C_CREAM []" "frag C_INK []" "frag C_INK_SOFT []" "frag C_MUTED []"
  "frag C_GOLD []" "frag C_GOLD_DK []" "frag C_LINE []" "frag C_PANEL []" "frag C_STRIP []" "frag C_FOOT []"
  "frag C_HERO_BG []"
  by (rule frag_flow, simp only: SANS_def SERIF_def nl_def sq_def C_CREAM_def C_INK_def C_INK_SOFT_def C_MUTED_def
        C_GOLD_def C_GOLD_DK_def C_LINE_def C_PANEL_def C_STRIP_def C_FOOT_def C_HERO_BG_def
        concat.simps flow_eval)+

lemma frag_c_button:
  assumes "link_ok url" and "clean label"
  shows "frag (c_button url label g) [url]"
proof -
  have u: "link_ok ([] @ url)" using assms(1) by simp
  have "frag (c_button url label g) [[] @ url]"
    unfolding c_button_def Let_def
    by (cases g; simp only: if_True if_False;
      (rule frag_nil | (rule frag_lit, ((rule palette | (rule frag_flow, (simp only: flow_eval; fail))); fail))
       | (rule frag_open [OF u], (simp only: flow_eval; fail), rule refl)
       | (rule frag_txt, (rule assms), (simp add: safe_start_def; fail)))+)
  then show ?thesis by simp
qed

lemma clean_show_nat: "clean (show_nat n)"
proof (induction n rule: show_nat.induct)
  case (1 n)
  have "char_of (48 + k) \<noteq> CHR 0x22" if "k < 10" for k :: nat
  proof
    assume "char_of (48 + k) = CHR 0x22"
    then have "of_char (char_of (48 + k)) = (of_char (CHR 0x22) :: nat)" by simp
    with that show False by simp
  qed
  from this [of n] this [of "n mod 10"] 1 show ?case
    by (subst show_nat.simps) (auto simp: clean_def)
qed

lemma clean_link: "link_ok u \<Longrightarrow> clean u"
  by (simp add: link_ok_def)

lemma frag_c_brand:
  assumes "link_ok logo_url"
  shows "frag (c_brand logo_url) []"
  unfolding c_brand_def
  by ((rule frag_nil | rule frag_empty
       | (rule frag_attr, rule assms, rule refl)
       | rule palette | (rule frag_flow, (simp only: flow_eval; fail)) | rule frag_if | rule frag_lit)+)

lemma frag_c_header_inner:
  assumes "frag tag []" and "frag heading []" and "link_ok logo_url"
  shows "frag (c_header_inner tag heading logo_url n show_label) []"
  unfolding c_header_inner_def
  by ((rule frag_nil | rule frag_empty | (rule frag_txt, rule clean_show_nat, (simp add: safe_start_def nl_def sq_def; fail))
       | rule palette | rule assms frag_c_brand | (rule frag_flow, (simp only: flow_eval; fail)) | rule frag_if | rule frag_lit)+)

lemma frag_c_header:
  assumes "frag tag []" and "frag heading []" and "link_ok logo_url" and "link_ok hero_url"
  shows "frag (c_header tag heading hero_url logo_url n show_label) []"
  unfolding c_header_def
  by ((rule frag_nil | rule frag_empty | (rule frag_txt, rule clean_link [OF assms(4)], (simp add: safe_start_def nl_def sq_def; fail))
       | (rule frag_attr, rule assms, rule refl)
       | rule palette | rule assms frag_c_header_inner | (rule frag_flow, (simp only: flow_eval; fail)) | rule frag_if | rule frag_lit)+)


lemma home_link: \<open>frag ''                  <a href="https://wtcabuja.com" style="font-family:'' [''https://wtcabuja.com'']\<close>
  by (rule frag_flow, simp only: flow_eval) (simp add: quoted_def)

lemma frag_c_footer:
  assumes "frag lead_in []" and "frag foot []" and "clean email" and "link_ok (''mailto:'' @ email)"
  shows "frag (c_footer lead_in foot email) [''mailto:'' @ email, ''https://wtcabuja.com'']"
proof -
  have "frag (c_footer lead_in foot email) ((''mailto:'' @ email) # ([''https://wtcabuja.com''] @ []))"
    unfolding c_footer_def
    by ((rule frag_nil | rule frag_empty | (rule frag_txt, rule assms(3), (simp add: safe_start_def nl_def sq_def; fail))
       | (rule frag_open [OF assms(4)], (simp only: flow_eval; fail), rule refl)
       | rule frag_sub [OF home_link]
       | rule palette | rule assms(1,2) | (rule frag_flow, (simp only: flow_eval; fail)) | rule frag_if | rule frag_lit)+)
  then show ?thesis by simp
qed

lemma frag_c_shell:
  assumes "frag (sh_tag s) []" and "frag (sh_heading_html s) []" and "frag (sh_body_html s) ls"
    and "frag (sh_contact_lead_in s) []" and "frag (sh_footer_note_html s) []"
    and "link_ok (sh_logo_url s)" and "link_ok (sh_hero_url s)"
    and "clean (sh_footer_email s)" and "link_ok (''mailto:'' @ sh_footer_email s)"
  shows "frag (c_shell s) (ls @ [''mailto:'' @ sh_footer_email s, ''https://wtcabuja.com''])"
proof -
  note f = frag_c_footer [OF assms(4,5,8,9)]
  have "frag (c_shell s) (ls @ ([''mailto:'' @ sh_footer_email s, ''https://wtcabuja.com''] @ []))"
    unfolding c_shell_def
    by ((rule frag_nil | rule frag_empty
       | rule frag_sub [OF f] | rule frag_sub [OF assms(3)]
       | rule palette | rule frag_c_header [OF assms(1,2,6,7)] | (rule frag_flow, (simp only: flow_eval; fail)) | rule frag_if | rule frag_lit)+)
  then show ?thesis by simp
qed

subsection \<open>Download rows\<close>

definition clean_meta :: "display_meta \<Rightarrow> bool" where
  "clean_meta m \<longleftrightarrow> clean (default (dm_eyebrow m) []) \<and> clean (default (dm_title m) []) \<and> clean (default (dm_description m) [])"

lemma clean_append [simp]: "clean (s @ t) \<longleftrightarrow> clean s \<and> clean t"
  by (auto simp: clean_def)

lemma clean_btn_label: "clean (btn_label i n)"
  using clean_show_nat [of "i + 1"] by (auto simp: btn_label_def clean_def)

lemma clean_eyebrow: "clean_meta m \<Longrightarrow> clean (default (dm_eyebrow m) ''Document'')"
  by (cases "dm_eyebrow m") (auto simp: clean_meta_def clean_def)

lemma frag_map_concat:
  assumes "\<And>x. x \<in> set xs \<Longrightarrow> frag (f x) (g x)"
  shows "frag (concat (map f xs)) (concat (map g xs))"
  using assms by (induction xs) (auto simp: frag_def)

lemma frag_join:
  assumes "\<And>x. x \<in> set xs \<Longrightarrow> frag (f x) (g x)" and "frag sep []"
  shows "frag (py_join sep (map f xs)) (concat (map g xs))"
  using assms
proof (induction xs rule: induct_list012)
  case (3 x y zs)
  then have "frag (f x @ sep @ py_join sep (map f (y # zs))) (g x @ [] @ concat (map g (y # zs)))"
    by (intro frag_append) auto
  then show ?case by simp
qed (simp_all add: frag_empty)

lemma frag_material_buttons:
  assumes "\<forall>u \<in> set urls. link_ok u"
  shows "frag (material_buttons featured urls) urls"
proof -
  have "frag (material_buttons featured urls) (concat (map (\<lambda>(i, u). [u]) (enumerate 0 urls)))"
    unfolding material_buttons_def
  proof (rule frag_map_concat)
    fix p assume "p \<in> set (enumerate 0 urls)"
    then have "snd p \<in> snd ` set (enumerate 0 urls)" by (rule imageI)
    then have u: "snd p \<in> set urls" by (simp flip: set_map)
    obtain i v where "p = (i, v)" by (rule prod.exhaust)
    with u assms show "frag (case p of (i, u) \<Rightarrow> c_button u (btn_label i (length urls)) featured) (case p of (i, u) \<Rightarrow> [u])"
      by (simp add: frag_c_button clean_btn_label)
  qed
  moreover have "concat (map (\<lambda>(i, u). [u]) (enumerate 0 urls)) = urls"
  proof -
    have "concat (map (\<lambda>(i, u). [u]) ps) = map snd ps" for ps :: "(nat \<times> string) list" by (induction ps) auto
    then show ?thesis by simp
  qed
  ultimately show ?thesis by simp
qed

lemma frag_description:
  assumes "clean_meta meta"
  shows "frag (description_html meta) []"
proof -
  have d: "clean (default (dm_description meta) [])" using assms by (simp add: clean_meta_def)
  show ?thesis
  unfolding description_html_def
  by ((rule frag_nil | rule frag_empty | (rule frag_txt, rule d, (simp add: safe_start_def nl_def sq_def; fail))
       | rule palette | (rule frag_flow, (simp only: flow_eval; fail)) | rule frag_if | rule frag_lit)+)
qed

lemma frag_material_row:
  assumes "clean label" and "clean_meta (default (map_of display label) no_meta)" and "\<forall>u \<in> set urls. link_ok u"
  shows "frag (material_row display label urls) urls"
proof -
  define meta where "meta = default (map_of display label) no_meta"
  have m: "clean_meta meta" using assms(2) by (simp add: meta_def)
  have t: "clean (material_title display label)"
    using m assms(1) by (cases "dm_title meta") (auto simp: material_title_def clean_meta_def meta_def)
  note facts = clean_eyebrow [OF m] t
  note buttons = frag_material_buttons [OF assms(3)]
  have "frag (material_row_inner display label urls) (urls @ [])"
    unfolding material_row_inner_def Let_def meta_def [symmetric]
    by ((rule frag_nil | rule frag_empty | (rule frag_txt, rule facts, (simp add: safe_start_def nl_def sq_def; fail))
       | rule frag_sub [OF buttons]
       | rule palette | rule frag_description [OF m] | (rule frag_flow, (simp only: flow_eval; fail)) | rule frag_if | rule frag_lit)+)
  then have inner: "frag (material_row_inner display label urls) urls" by simp
  have "frag (material_row display label urls) (urls @ [])"
    unfolding material_row_def meta_def [symmetric]
    by ((rule frag_nil | rule frag_empty
       | rule frag_sub [OF inner]
       | rule palette | (rule frag_flow, (simp only: flow_eval; fail)) | rule frag_if | rule frag_lit)+)
  then show ?thesis by simp
qed


subsection \<open>The digital pack\<close>

definition clean_docs :: "display_meta dict \<Rightarrow> (string \<times> string list) list \<Rightarrow> bool" where
  "clean_docs display docs \<longleftrightarrow> list_all (\<lambda>(label, urls). clean label \<and>
     clean_meta (default (map_of display label) no_meta) \<and> list_all link_ok urls) docs"

definition clean_pack_copy :: "pack_copy \<Rightarrow> bool" where
  "clean_pack_copy k \<longleftrightarrow> clean (default (pk_intro k) []) \<and> clean (default (pk_event_line k) []) \<and>
     link_ok (default (pk_hero_url k) []) \<and> link_ok (default (pk_logo_url k) [])"

lemma frag_material_rows:
  assumes "clean_docs display docs"
  shows "frag (material_rows docs display) (concat (map snd docs))"
proof -
  have "frag (material_rows docs display) (concat (map (\<lambda>(label, urls). urls) docs))"
    unfolding material_rows_def
  proof (rule frag_join)
    fix d assume d: "d \<in> set docs"
    obtain label urls where "d = (label, urls)" by (rule prod.exhaust)
    with d assms show "frag (case d of (label, urls) \<Rightarrow> material_row display label urls) (case d of (label, urls) \<Rightarrow> urls)"
      by (auto simp: clean_docs_def list_all_iff intro!: frag_material_row)
  qed (rule palette)
  then show ?thesis by (simp add: case_prod_unfold cond_case_prod_eta)
qed

lemma frag_greeting:
  assumes "clean name" shows "frag (greeting_of name) []"
  unfolding greeting_of_def by ((rule frag_nil | rule frag_empty | (rule frag_txt, rule assms, (simp add: safe_start_def nl_def sq_def; fail))
       | rule palette | (rule frag_flow, (simp only: flow_eval; fail)) | rule frag_if | rule frag_lit)+)

lemma clean_pack_intro: "clean_pack_copy k \<Longrightarrow> clean (default (pk_intro k) PACK_INTRO)"
  by (cases "pk_intro k") (simp_all add: clean_pack_copy_def PACK_INTRO_def em_dash_def clean_def)

lemma frag_pack_body:
  assumes "frag (greeting_of (ld_first_name l)) ks" and "clean_pack_copy (mc_pack cp)" and "clean_docs (mc_display cp) docs"
  shows "frag (pack_body l cp docs) (ks @ concat (map snd docs))"
proof -
  note intro = clean_pack_intro [OF assms(2)]
  note docs = frag_material_rows [OF assms(3)]
  have "frag (pack_body l cp docs) (ks @ (concat (map snd docs) @ []))"
    unfolding pack_body_def
    by ((rule frag_nil | rule frag_empty | (rule frag_txt, rule intro, (simp add: safe_start_def nl_def sq_def; fail))
       | rule frag_sub [OF docs] | rule frag_sub [OF assms(1)]
       | rule palette | (rule frag_flow, (simp only: flow_eval; fail)) | rule frag_if | rule frag_lit)+)
  then show ?thesis by simp
qed

lemma frag_pack_footer_note:
  assumes "clean_pack_copy (mc_pack cp)"
  shows "frag (pack_footer_note cp) []"
proof -
  define event_line where "event_line = default (pk_event_line (mc_pack cp)) []"
  have e: "clean event_line" using assms by (simp add: clean_pack_copy_def event_line_def)
  show ?thesis
  proof (cases "event_line = []")
    case True
    then have "pack_footer_note cp = concat [''World Trade Center Abuja &nbsp;&middot;&nbsp; Central Business District, Abuja, Nigeria'', ''<br>'',
        ''If a download link doesn't open, reply to this email and we'll assist.'']"
      by (simp add: pack_footer_note_def event_line_def)
    also have "frag \<dots> []" by ((rule frag_nil | rule frag_empty
       | rule palette | (rule frag_flow, (simp only: flow_eval; fail)) | rule frag_if | rule frag_lit)+)
    finally show ?thesis .
  next
    case False
    then have "pack_footer_note cp = concat [''Captured via WTC Abuja Concierge App &nbsp;&middot;&nbsp; '', event_line, ''<br>'',
        ''World Trade Center Abuja &nbsp;&middot;&nbsp; Central Business District, Abuja, Nigeria'', ''<br>'',
        ''If a download link doesn't open, reply to this email and we'll assist.'']"
      by (simp add: pack_footer_note_def event_line_def)
    also have "frag \<dots> []" by ((rule frag_nil | rule frag_empty | (rule frag_txt, rule e, (simp add: safe_start_def nl_def sq_def; fail))
       | rule palette | (rule frag_flow, (simp only: flow_eval; fail)) | rule frag_if | rule frag_lit)+)
    finally show ?thesis .
  qed
qed

lemma frag_head: "frag HEAD_HTML []"
  unfolding HEAD_HTML_def by ((rule frag_nil | rule frag_empty
       | rule palette | (rule frag_flow, (simp only: flow_eval; fail)) | rule frag_if | rule frag_lit)+)

lemma frag_pack_html:
  assumes "frag (greeting_of (ld_first_name l)) ks" and "clean_pack_copy (mc_pack cp)" and "clean_docs (mc_display cp) docs"
  shows "frag (mb_html (build_pack_email l cp docs))
    (ks @ concat (map snd docs) @ [''mailto:enquiries@wtcabuja.com'', ''https://wtcabuja.com''])"
proof -
  define s where "s = shell ''Digital Pack'' ''Your materials<br>are ready.'' (pack_body l cp docs)
        ''Questions? We're here.'' (pack_footer_note cp) (default (pk_hero_url (mc_pack cp)) []) (default (pk_logo_url (mc_pack cp)) [])"
  have shell: "frag (c_shell s) ((ks @ concat (map snd docs)) @ [''mailto:'' @ sh_footer_email s, ''https://wtcabuja.com''])"
  proof (rule frag_c_shell)
    show "frag (sh_tag s) []" "frag (sh_heading_html s) []" "frag (sh_contact_lead_in s) []"
      by (rule frag_flow, simp only: s_def shell_def c_shell_args.simps flow_eval)+
    show "frag (sh_body_html s) (ks @ concat (map snd docs))"
      using frag_pack_body [OF assms] by (simp add: s_def shell_def)
    show "frag (sh_footer_note_html s) []"
      using frag_pack_footer_note [OF assms(2)] by (simp add: s_def shell_def)
    show "link_ok (sh_logo_url s)" "link_ok (sh_hero_url s)"
      using assms(2) by (simp_all add: s_def shell_def clean_pack_copy_def)
    show "clean (sh_footer_email s)" "link_ok (''mailto:'' @ sh_footer_email s)"
      by (simp_all add: s_def shell_def clean_def link_ok_def)
  qed
  have tail: "frag ''</html>'' []" by (rule frag_flow, simp only: flow_eval)
  have "mb_html (build_pack_email l cp docs) = concat [HEAD_HTML, c_shell s, ''</html>'']"
    by (simp add: build_pack_email_def s_def)
  then show ?thesis
    using frag_append [OF frag_head frag_append [OF shell tail]] by (simp add: s_def shell_def)
qed

lemma links_of_frag: "frag s ls \<Longrightarrow> links s = ls"
  unfolding frag_def by (drule spec [of _ "[]"]) simp

lemma sublist_behind: "sublist x t \<Longrightarrow> sublist x (p @ t)"
  by (metis sublist_append_leftI sublist_order.order_trans)

lemma sublist_before: "sublist x t \<Longrightarrow> sublist x (t @ p)"
  by (metis sublist_append_rightI sublist_order.order_trans)

lemma sublist_concat: "x \<in> set xs \<Longrightarrow> sublist x (concat xs)"
  by (metis concat.simps(2) concat_append split_list sublist_appendI)

lemma py_rstrip_id: "t \<noteq> [] \<Longrightarrow> \<not> is_space (last t) \<Longrightarrow> py_rstrip (s @ t) = s @ t"
  by (cases t rule: rev_cases) (simp_all add: py_rstrip_def)

lemma py_join_snoc: "xs \<noteq> [] \<Longrightarrow> py_join sep (xs @ [x]) = py_join sep xs @ sep @ x"
  by (induction sep xs rule: py_join.induct) auto

lemma join_has_line: "x \<in> set xs \<Longrightarrow> sublist x (py_join sep xs)"
proof (induction sep xs rule: py_join.induct)
  case (3 sep a b xs)
  then show ?case
    by (cases "x = a") (auto intro: sublist_behind)
qed auto

lemma pack_text_has_link:
  assumes "(label, urls) \<in> set docs" and "u \<in> set urls"
  shows "sublist ('': '' @ u) (pack_text l cp docs)"
proof -
  have "u \<in> snd ` set (enumerate 0 urls)" using assms(2) by (simp flip: set_map)
  then obtain i where i: "(i, u) \<in> set (enumerate 0 urls)" by force
  define line where "line = concat [''  '', btn_label i (length urls), '': '', u]"
  have "line \<in> set (material_text_lines (mc_display cp) (label, urls))"
    using i by (force simp: material_text_lines_def line_def)
  then have "line \<in> set (concat (map (\<lambda>d. material_text_lines (mc_display cp) d @ [[]]) docs))"
    using assms(1) by auto
  then have "sublist line (py_join nl ([greeting_of (ld_first_name l), [], default (pk_intro (mc_pack cp)) PACK_INTRO, []]
      @ concat (map (\<lambda>d. material_text_lines (mc_display cp) d @ [[]]) docs)
      @ [''Questions? enquiries@wtcabuja.com'']))" (is "sublist _ ?text")
    by (intro join_has_line) simp
  moreover have "py_rstrip ?text = ?text"
    by (simp only: append_assoc [symmetric] py_join_snoc append_is_Nil_conv list.distinct simp_thms)
      (rule py_rstrip_id; simp add: is_space_def)
  ultimately have "sublist line (pack_text l cp docs)"
    by (simp only: pack_text_def sublist_before)
  moreover have "sublist ('': '' @ u) line"
    unfolding line_def by (simp only: concat.simps append_Nil2 sublist_behind sublist_order.order_refl)
  ultimately show ?thesis by (rule sublist_order.order_trans [rotated])
qed

subsection \<open>Properties\<close>

lemma pack_mail_text: "mb_text (build_pack_email l cp docs) = pack_text l cp docs"
  by (simp add: build_pack_email_def)

text \<open>C32: let a digital pack be sent to a visitor whose first name holds no quotation mark, in a campaign
  whose copy (introduction, event line, image addresses), document labels, headings and
  descriptions hold none either and whose image and document addresses do not end in href=. Then
  the links of the mail's HTML are exactly the download addresses of the deliverable materials
  the lead asked for, in order, and the two of the footer; each address stands in the
  plain-text part too, the mail goes to the lead, and the lead records the materials.\<close>

theorem pack_mail_links_exactly:
  assumes sent: "pack_outcome now cfg post c l sent = (l', sent @ [m])"
    and name: "clean (ld_first_name l)" and copy: "clean_pack_copy (mc_pack cp)"
    and docs: "clean_docs (mc_display cp) (deliverable_materials l c)"
  shows "links (mb_html (build_pack_email l cp (ml_docs m))) =
      concat (map snd (deliverable_materials l c)) @ [''mailto:enquiries@wtcabuja.com'', ''https://wtcabuja.com''] \<and>
    (\<forall>(label, urls) \<in> set (deliverable_materials l c). \<forall>u \<in> set urls. sublist ('': '' @ u) (mb_text (build_pack_email l cp (ml_docs m)))) \<and>
    ld_pack_delivered_materials l' = Some (map fst (deliverable_materials l c)) \<and> ml_to m = ld_email l"
proof -
  from sent have m: "ml_docs m = deliverable_materials l c" "ml_to m = ld_email l"
      "l' = mark_sent now (deliverable_materials l c) l"
    by (auto simp: pack_outcome_def Let_def send_campaign_email_def pack_mail_def split: if_splits)
  have "links (mb_html (build_pack_email l cp (ml_docs m))) = [] @ concat (map snd (deliverable_materials l c)) @
      [''mailto:enquiries@wtcabuja.com'', ''https://wtcabuja.com'']"
    unfolding m by (rule links_of_frag [OF frag_pack_html [OF frag_greeting [OF name] copy docs]])
  moreover have "ld_pack_delivered_materials l' = Some (map fst (deliverable_materials l c))"
    by (simp add: m(3) mark_sent_def flag_crm_refresh_def)
  moreover have "\<forall>(label, urls) \<in> set (deliverable_materials l c). \<forall>u \<in> set urls. sublist ('': '' @ u) (mb_text (build_pack_email l cp (ml_docs m)))"
    unfolding m(1) pack_mail_text by (clarify, rule pack_text_has_link)
  ultimately show ?thesis using m(2) by (simp only: append_Nil simp_thms)
qed

definition plain_copy :: mail_copy where
  "plain_copy = \<lparr>mc_pack = \<lparr>pk_subject = None, pk_intro = None, pk_event_line = Some ''NOG 2026'',
       pk_hero_url = Some ''https://h'', pk_logo_url = None\<rparr>,
     mc_display = [(''Brochure'', \<lparr>dm_eyebrow = None, dm_title = Some ''The brochure'', dm_description = None, dm_featured = True\<rparr>)],
     mc_viewing = \<lparr>vw_subject = None, vw_intro = None, vw_brochure_url = None\<rparr>,
     mc_application = \<lparr>ac_subject = None, ac_programme_name = None, ac_eligibility = [], ac_contact_email = None,
       ac_contact_phone = None, ac_response_days = None, ac_slot_limit = None, ac_hero_url = None, ac_logo_url = None\<rparr>\<rparr>"

theorem pack_mail_links_exactly_witness:
  "\<exists>m. snd (pack_outcome 9 witness_settings (\<lambda>_ _. True) witness_campaign witness_lead []) = [m] \<and>
     links (mb_html (build_pack_email witness_lead plain_copy (ml_docs m))) =
       [''https://b'', ''mailto:enquiries@wtcabuja.com'', ''https://wtcabuja.com'']"
proof -
  have docs: "deliverable_materials witness_lead witness_campaign = [(''Brochure'', [''https://b''])]" by code_simp
  define m where "m = hd (snd (pack_outcome 9 witness_settings (\<lambda>_ _. True) witness_campaign witness_lead []))"
  have snd: "snd (pack_outcome 9 witness_settings (\<lambda>_ _. True) witness_campaign witness_lead []) = [m]"
    by (simp add: m_def pack_outcome_def docs send_campaign_email_def witness_settings_def Let_def)
  then have run: "pack_outcome 9 witness_settings (\<lambda>_ _. True) witness_campaign witness_lead [] =
      (fst (pack_outcome 9 witness_settings (\<lambda>_ _. True) witness_campaign witness_lead []), [] @ [m])"
    by (metis append_Nil prod.collapse)
  have name: "clean (ld_first_name witness_lead)" by code_simp
  have copy: "clean_pack_copy (mc_pack plain_copy)" by code_simp
  have cd: "clean_docs (mc_display plain_copy) (deliverable_materials witness_lead witness_campaign)"
    unfolding docs by code_simp
  have "links (mb_html (build_pack_email witness_lead plain_copy (ml_docs m))) =
      concat (map snd (deliverable_materials witness_lead witness_campaign)) @ [''mailto:enquiries@wtcabuja.com'', ''https://wtcabuja.com'']"
    using pack_mail_links_exactly [OF run name copy cd] by (rule conjunct1)
  with snd show ?thesis by (simp add: docs)
qed

text \<open>A name is part of the page as it was typed: one that is a link becomes the first link of the mail.\<close>

lemma name_becomes_link:
  assumes "ld_first_name l = concat [''<a href='', [CHR 0x22], ''https://evil.example'', [CHR 0x22], ''>'']"
    and "clean_pack_copy (mc_pack cp)" and "clean_docs (mc_display cp) docs"
  shows "hd (links (mb_html (build_pack_email l cp docs))) = ''https://evil.example''"
proof -
  have eq: "greeting_of (ld_first_name l) = ''Hello <a href='' @ [CHR 0x22] @ ''https://evil.example'' @ [CHR 0x22] @ ''>,''"
    by (simp add: greeting_of_def assms(1))
  have "frag (greeting_of (ld_first_name l)) [''https://evil.example'']"
    unfolding eq by (rule frag_flow) (simp add: flow_def HREF_def quoted_def)
  from links_of_frag [OF frag_pack_html [OF this assms(2,3)]] show ?thesis
    by (simp only: append_Cons list.sel)
qed

lemma company_is_not_escaped: "ld_company l \<noteq> [] \<Longrightarrow> sublist (ld_company l) (mb_html (build_lead_notification_email now l c))"
proof -
  assume "ld_company l \<noteq> []"
  then have "or_list (Some (ld_company l)) ''Not provided'' = ld_company l" by (cases "ld_company l") auto
  then have "sublist (ld_company l) (notification_body now l c)"
    unfolding notification_body_def by (intro sublist_concat) simp
  then have "sublist (ld_company l) (wrap_card (notification_body now l c))"
    unfolding wrap_card_def by (intro sublist_order.order_trans [OF _ sublist_concat]) auto
  then show ?thesis by (simp add: build_lead_notification_email_def)
qed


end
