(* ===== verification/Web_Analytics.thy ===== *)
theory Web_Analytics
  imports Analytics_Api
begin

section \<open>Website analytics\<close>

text \<open>
  Model of \<open>app/services/web_analytics.py\<close>, \<open>app/schemas/web_analytics.py\<close> and the endpoint
  \<open>/analytics/website\<close>. The Google Analytics client is a record of functions: whether it
  can be built from the service account, the answer to a batch of reports and to a realtime
  report (the left side is the text of the exception), \<open>float\<close> of a cell, and the text its
  rows raise for a missing column. Seconds of the monotonic clock are rationals.
\<close>

subsection \<open>Requests and reports\<close>

record date_range =
  dr_start_date :: string
  dr_end_date :: string

datatype order_by = ByMetric string | ByDimension string

record report_request =
  rq_date_ranges :: "date_range list"
  rq_dimensions :: "string list"
  rq_metrics :: "string list"
  rq_order_bys :: "order_by list"
  rq_limit :: "nat option"

record ga_row =
  gr_dimension_values :: "string list"
  gr_metric_values :: "string list"

type_synonym ga_report = "ga_row list"

record ga_api =
  ga_connect :: "string + unit"
  ga_batch_run_reports :: "report_request list \<Rightarrow> string + ga_report list"
  ga_run_realtime_report :: "string \<Rightarrow> nat option \<Rightarrow> string + ga_report"
  ga_float :: "string \<Rightarrow> string + rat"
  ga_index_error :: string

definition LIST_INDEX_ERROR :: string where "LIST_INDEX_ERROR = ''list index out of range''"

definition get_or :: "string \<Rightarrow> 'a list \<Rightarrow> nat \<Rightarrow> string + 'a" where
  "get_or e xs i = (if i < length xs then Inr (xs ! i) else Inl e)"

fun rmap :: "('a \<Rightarrow> 'e + 'b) \<Rightarrow> 'a list \<Rightarrow> 'e + 'b list" where
  "rmap f [] = Inr []"
| "rmap f (x # xs) = rbind (f x) (\<lambda>y. rbind (rmap f xs) (\<lambda>ys. Inr (y # ys)))"

subsection \<open>Answers\<close>

record web_kpi =
  wk_active_users :: int
  wk_sessions :: int
  wk_page_views :: int
  wk_avg_session_duration_s :: rat
  wk_event_count :: int
  wk_key_events :: int
  wk_active_users_prev :: int
  wk_sessions_prev :: int
  wk_page_views_prev :: int
  wk_avg_session_duration_prev_s :: rat
  wk_event_count_prev :: int
  wk_key_events_prev :: int

record web_time_point =
  wt_date :: string
  wt_active_users :: int
  wt_sessions :: int
  wt_active_users_prev :: int
  wt_sessions_prev :: int

type_synonym web_row = "string \<times> int"

record web_realtime =
  wr_active_users :: int
  wr_per_minute :: "int list"
  wr_by_country :: "web_row list"

record website_analytics_response =
  ws_status_code :: nat
  ws_configured :: bool
  ws_days :: int
  ws_error :: "string option"
  ws_kpi :: "web_kpi option"
  ws_timeseries :: "web_time_point list"
  ws_top_pages :: "web_row list"
  ws_events :: "web_row list"
  ws_countries :: "web_row list"
  ws_channels :: "web_row list"
  ws_realtime :: "web_realtime option"

definition bare_response :: "bool \<Rightarrow> int \<Rightarrow> website_analytics_response" where
  "bare_response configured days = \<lparr>ws_status_code = 200, ws_configured = configured, ws_days = days,
     ws_error = None, ws_kpi = None, ws_timeseries = [], ws_top_pages = [], ws_events = [],
     ws_countries = [], ws_channels = [], ws_realtime = None\<rparr>"

subsection \<open>Cells\<close>

definition iso :: "string \<Rightarrow> string" where
  "iso d = (if length d = 8 then take 4 d @ ''-'' @ take 2 (drop 4 d) @ ''-'' @ take 2 (drop 6 d) else d)"

text \<open>\<open>int\<close> of a float cuts the fraction off.\<close>

definition truncate :: "rat \<Rightarrow> int" where
  "truncate x = (if 0 \<le> x then \<lfloor>x\<rfloor> else \<lceil>x\<rceil>)"

definition cell_int :: "ga_api \<Rightarrow> string \<Rightarrow> string + int" where
  "cell_int ga v = rbind (ga_float ga v) (\<lambda>x. Inr (truncate x))"

definition dimension :: "ga_api \<Rightarrow> ga_row \<Rightarrow> nat \<Rightarrow> string + string" where
  "dimension ga row i = get_or (ga_index_error ga) (gr_dimension_values row) i"

definition metric :: "ga_api \<Rightarrow> ga_row \<Rightarrow> nat \<Rightarrow> string + int" where
  "metric ga row i = rbind (get_or (ga_index_error ga) (gr_metric_values row) i) (cell_int ga)"

text \<open>A row of a list: its first dimension and its first metric.\<close>

definition top_row :: "ga_api \<Rightarrow> ga_row \<Rightarrow> string + web_row" where
  "top_row ga row = rbind (dimension ga row 0) (\<lambda>d. rbind (metric ga row 0) (\<lambda>n. Inr (d, n)))"

subsection \<open>The last thirty minutes\<close>

text \<open>A minute that is out of range is left out before its count is read.\<close>

fun minute_counts :: "ga_api \<Rightarrow> ga_row list \<Rightarrow> int list \<Rightarrow> string + int list" where
  "minute_counts ga [] counts = Inr counts"
| "minute_counts ga (row # rs) counts =
     rbind (rbind (dimension ga row 0) (cell_int ga)) (\<lambda>idx.
       if 0 \<le> idx \<and> idx < 30
       then rbind (metric ga row 0) (\<lambda>n. minute_counts ga rs (counts[nat idx := n]))
       else minute_counts ga rs counts)"

definition realtime :: "ga_api \<Rightarrow> web_realtime option" where
  "realtime ga = (case
     rbind (ga_run_realtime_report ga ''country'' (Some 10)) (\<lambda>countries.
     rbind (rmap (top_row ga) countries) (\<lambda>by_country.
     rbind (ga_run_realtime_report ga ''minutesAgo'' None) (\<lambda>minutes.
     rbind (minute_counts ga minutes (replicate 30 0)) (\<lambda>counts.
       Inr \<lparr>wr_active_users = sum_list (map snd by_country),
         wr_per_minute = map (\<lambda>k. counts ! (29 - k)) [0..<30], wr_by_country = by_country\<rparr>))))
     of Inl e \<Rightarrow> None | Inr r \<Rightarrow> Some r)"

subsection \<open>The panel\<close>

definition current_range :: "int \<Rightarrow> date_range" where
  "current_range days = \<lparr>dr_start_date = show_int days @ ''daysAgo'', dr_end_date = ''today''\<rparr>"

definition previous_range :: "int \<Rightarrow> date_range" where
  "previous_range days = \<lparr>dr_start_date = show_int (2 * days) @ ''daysAgo'', dr_end_date = show_int (days + 1) @ ''daysAgo''\<rparr>"

definition KPI_METRICS :: "string list" where
  "KPI_METRICS = [''activeUsers'', ''sessions'', ''screenPageViews'', ''averageSessionDuration'', ''eventCount'', ''keyEvents'']"

definition series_request :: "date_range \<Rightarrow> report_request" where
  "series_request r = \<lparr>rq_date_ranges = [r], rq_dimensions = [''date''], rq_metrics = [''activeUsers'', ''sessions''],
     rq_order_bys = [ByDimension ''date''], rq_limit = None\<rparr>"

definition top_request :: "int \<Rightarrow> string \<Rightarrow> string \<Rightarrow> report_request" where
  "top_request days d m = \<lparr>rq_date_ranges = [current_range days], rq_dimensions = [d], rq_metrics = [m],
     rq_order_bys = [ByMetric m], rq_limit = Some 10\<rparr>"

definition panel_requests :: "int \<Rightarrow> report_request list" where
  "panel_requests days =
     [\<lparr>rq_date_ranges = [current_range days, previous_range days], rq_dimensions = [], rq_metrics = KPI_METRICS,
        rq_order_bys = [], rq_limit = None\<rparr>,
      series_request (current_range days), series_request (previous_range days),
      top_request days ''pageTitle'' ''screenPageViews'', top_request days ''eventName'' ''eventCount'',
      top_request days ''country'' ''activeUsers'', top_request days ''sessionDefaultChannelGroup'' ''sessions'']"

text \<open>At most five requests go into one call.\<close>

function chunks :: "nat \<Rightarrow> 'a list \<Rightarrow> 'a list list" where
  "chunks n xs = (if xs = [] \<or> n = 0 then [] else take n xs # chunks n (drop n xs))"
  by pat_completeness auto
termination by (relation "measure (\<lambda>(n, xs). length xs)") auto

declare chunks.simps [simp del]

definition fetch_reports :: "ga_api \<Rightarrow> report_request list \<Rightarrow> string + ga_report list" where
  "fetch_reports ga requests = rbind (rmap (ga_batch_run_reports ga) (chunks 5 requests)) (\<lambda>rs. Inr (concat rs))"

definition range_vals :: "ga_report \<Rightarrow> string \<Rightarrow> string list" where
  "range_vals rows key = (case List.find (\<lambda>row. gr_dimension_values row \<noteq> [] \<and> gr_dimension_values row ! 0 = key) rows of
     None \<Rightarrow> replicate 6 ''0'' | Some row \<Rightarrow> gr_metric_values row)"

definition val_int :: "ga_api \<Rightarrow> string list \<Rightarrow> nat \<Rightarrow> string + int" where
  "val_int ga vs i = rbind (get_or LIST_INDEX_ERROR vs i) (cell_int ga)"

definition val_round :: "ga_api \<Rightarrow> string list \<Rightarrow> nat \<Rightarrow> string + rat" where
  "val_round ga vs i = rbind (get_or LIST_INDEX_ERROR vs i) (\<lambda>v. rbind (ga_float ga v) (\<lambda>x. Inr (round1 x)))"

definition kpi_of :: "ga_api \<Rightarrow> string list \<Rightarrow> string list \<Rightarrow> string + web_kpi" where
  "kpi_of ga cur prev =
     rbind (val_int ga cur 0) (\<lambda>u. rbind (val_int ga cur 1) (\<lambda>s. rbind (val_int ga cur 2) (\<lambda>v.
     rbind (val_round ga cur 3) (\<lambda>d. rbind (val_int ga cur 4) (\<lambda>e. rbind (val_int ga cur 5) (\<lambda>k.
     rbind (val_int ga prev 0) (\<lambda>u'. rbind (val_int ga prev 1) (\<lambda>s'. rbind (val_int ga prev 2) (\<lambda>v'.
     rbind (val_round ga prev 3) (\<lambda>d'. rbind (val_int ga prev 4) (\<lambda>e'. rbind (val_int ga prev 5) (\<lambda>k'.
       Inr \<lparr>wk_active_users = u, wk_sessions = s, wk_page_views = v, wk_avg_session_duration_s = d,
         wk_event_count = e, wk_key_events = k, wk_active_users_prev = u', wk_sessions_prev = s',
         wk_page_views_prev = v', wk_avg_session_duration_prev_s = d', wk_event_count_prev = e',
         wk_key_events_prev = k'\<rparr>))))))))))))"

definition series_cur :: "ga_api \<Rightarrow> ga_row \<Rightarrow> string + (string \<times> int \<times> int)" where
  "series_cur ga row = rbind (dimension ga row 0) (\<lambda>d. rbind (metric ga row 0) (\<lambda>u. rbind (metric ga row 1) (\<lambda>s.
     Inr (iso d, u, s))))"

definition series_prev :: "ga_api \<Rightarrow> ga_row \<Rightarrow> string + (int \<times> int)" where
  "series_prev ga row = rbind (metric ga row 0) (\<lambda>u. rbind (metric ga row 1) (\<lambda>s. Inr (u, s)))"

text \<open>The overlay: the value of the previous window at the same position of its list.\<close>

definition overlay :: "(string \<times> int \<times> int) list \<Rightarrow> (int \<times> int) list \<Rightarrow> web_time_point list" where
  "overlay cur prev = map (\<lambda>(idx, d, u, s).
     let (pu, ps) = (if idx < length prev then prev ! idx else (0, 0))
     in \<lparr>wt_date = d, wt_active_users = u, wt_sessions = s, wt_active_users_prev = pu, wt_sessions_prev = ps\<rparr>)
     (enumerate 0 cur)"

definition report :: "ga_report list \<Rightarrow> nat \<Rightarrow> string + ga_report" where
  "report r i = get_or LIST_INDEX_ERROR r i"

definition run_blocking :: "ga_api \<Rightarrow> int \<Rightarrow> string + website_analytics_response" where
  "run_blocking ga days =
     rbind (fetch_reports ga (panel_requests days)) (\<lambda>r.
     rbind (report r 0) (\<lambda>r0.
     rbind (kpi_of ga (range_vals r0 ''date_range_0'') (range_vals r0 ''date_range_1'')) (\<lambda>kpi.
     rbind (report r 1) (\<lambda>r1. rbind (rmap (series_cur ga) r1) (\<lambda>cur.
     rbind (report r 2) (\<lambda>r2. rbind (rmap (series_prev ga) r2) (\<lambda>prev.
     rbind (report r 3) (\<lambda>r3. rbind (rmap (top_row ga) r3) (\<lambda>pages.
     rbind (report r 4) (\<lambda>r4. rbind (rmap (top_row ga) r4) (\<lambda>events.
     rbind (report r 5) (\<lambda>r5. rbind (rmap (top_row ga) r5) (\<lambda>countries.
     rbind (report r 6) (\<lambda>r6. rbind (rmap (top_row ga) r6) (\<lambda>channels.
       Inr ((bare_response True days)\<lparr>ws_kpi := Some kpi, ws_timeseries := overlay cur prev, ws_top_pages := pages,
         ws_events := events, ws_countries := countries, ws_channels := channels, ws_realtime := realtime ga\<rparr>))))))))))))))))"

subsection \<open>The cache\<close>

record ga_settings =
  gs_property_id :: string
  gs_service_account_json :: string

definition is_configured :: "ga_settings \<Rightarrow> bool" where
  "is_configured s = (gs_property_id s \<noteq> [] \<and> gs_service_account_json s \<noteq> [])"

text \<open>The globals of the module: whether the client was built, and what is cached per number
  of days, with the time at which its request began.\<close>

record web_state =
  wb_client :: bool
  wb_cache :: "int \<Rightarrow> (rat \<times> website_analytics_response) option"

definition CACHE_TTL_S :: rat where "CACHE_TTL_S = 120"

definition cached :: "rat \<Rightarrow> int \<Rightarrow> web_state \<Rightarrow> website_analytics_response option" where
  "cached now days w = (case wb_cache w days of
     None \<Rightarrow> None
   | Some (since, r) \<Rightarrow> (if now - since < CACHE_TTL_S then Some r else None))"

definition get_client :: "ga_api \<Rightarrow> web_state \<Rightarrow> (string + unit) \<times> web_state" where
  "get_client ga w = (if wb_client w then (Inr (), w) else
     (case ga_connect ga of Inl e \<Rightarrow> (Inl e, w) | Inr _ \<Rightarrow> (Inr (), w\<lparr>wb_client := True\<rparr>)))"

text \<open>What the request does behind the lookup: the blocking call in a thread, and the second
  locked section.\<close>

definition compute :: "ga_api \<Rightarrow> rat \<Rightarrow> int \<Rightarrow> web_state \<Rightarrow> website_analytics_response \<times> web_state" where
  "compute ga now days w =
     (let (conn, w') = get_client ga w in
      case rbind conn (\<lambda>_. run_blocking ga days) of
        Inl e \<Rightarrow> ((bare_response True days)\<lparr>ws_error := Some (take 300 e)\<rparr>, w')
      | Inr r \<Rightarrow> (r, w'\<lparr>wb_cache := (wb_cache w')(days := Some (now, r))\<rparr>))"

definition get_website_analytics ::
    "ga_settings \<Rightarrow> ga_api \<Rightarrow> rat \<Rightarrow> int \<Rightarrow> web_state \<Rightarrow> website_analytics_response \<times> web_state" where
  "get_website_analytics s ga now days w =
     (if \<not> is_configured s then (bare_response False days, w)
      else case cached now days w of Some r \<Rightarrow> (r, w) | None \<Rightarrow> compute ga now days w)"

text \<open>FastAPI checks the bounds of \<open>days\<close> before the endpoint runs.\<close>

definition website_analytics ::
    "ga_settings \<Rightarrow> ga_api \<Rightarrow> rat \<Rightarrow> int \<Rightarrow> web_state \<Rightarrow> website_analytics_response http \<times> web_state" where
  "website_analytics s ga now days w =
     (if 1 \<le> days \<and> days \<le> 365
      then (case get_website_analytics s ga now days w of (r, w') \<Rightarrow> (HttpOk 200 r, w'))
      else (HttpError 422 ''days'', w))"

subsection \<open>Requests at the same time\<close>

text \<open>
  A request looks into the cache at its beginning; one that misses waits for Google and
  stores its result whenever it comes. Between the two, other requests run. \<open>Begin\<close> and
  \<open>Finish\<close> are the two halves; the pending requests are kept with the time they began.
\<close>

datatype origin = Setup_Hint | From_Cache | From_Google

record web_sys =
  wy_clock :: rat
  wy_state :: web_state
  wy_pending :: "(rat \<times> int) list"
  wy_answers :: "(origin \<times> rat \<times> int \<times> website_analytics_response) list"

definition answer :: "origin \<Rightarrow> rat \<Rightarrow> int \<Rightarrow> website_analytics_response \<Rightarrow> web_sys \<Rightarrow> web_sys" where
  "answer orig began days r y = y\<lparr>wy_answers := wy_answers y @ [(orig, began, days, r)]\<rparr>"

inductive web_step :: "ga_settings \<Rightarrow> web_sys \<Rightarrow> web_sys \<Rightarrow> bool" for s where
  tick: "wy_clock y \<le> t \<Longrightarrow> web_step s y (y\<lparr>wy_clock := t\<rparr>)"
| unconfigured: "\<not> is_configured s \<Longrightarrow>
    web_step s y (answer Setup_Hint (wy_clock y) days (bare_response False days) y)"
| hit: "is_configured s \<Longrightarrow> cached (wy_clock y) days (wy_state y) = Some r \<Longrightarrow>
    web_step s y (answer From_Cache (wy_clock y) days r y)"
| miss: "is_configured s \<Longrightarrow> cached (wy_clock y) days (wy_state y) = None \<Longrightarrow>
    web_step s y (y\<lparr>wy_pending := (wy_clock y, days) # wy_pending y\<rparr>)"
| finish: "(t, days) \<in> set (wy_pending y) \<Longrightarrow> compute ga t days (wy_state y) = (r, w') \<Longrightarrow>
    web_step s y (answer From_Google t days r
      (y\<lparr>wy_state := w', wy_pending := remove1 (t, days) (wy_pending y)\<rparr>))"

definition web_start :: web_sys where
  "web_start = \<lparr>wy_clock = 0, wy_state = \<lparr>wb_client = False, wb_cache = (\<lambda>_. None)\<rparr>, wy_pending = [], wy_answers = []\<rparr>"

end
