(* ===== verification/Web_Safety.thy ===== *)
theory Web_Safety
  imports Web_Analytics
begin

section \<open>What the website panel shows\<close>

text \<open>
  The cache under concurrent requests (an invariant of \<open>web_step\<close>), the calls made to
  Google, and three places where the panel shows something else than it says.
\<close>

subsection \<open>The cache\<close>

lemma run_blocking_data:
  "run_blocking ga days = Inr r \<Longrightarrow> ws_days r = days \<and> ws_error r = None \<and> ws_configured r \<and> ws_status_code r = 200 \<and> ws_kpi r \<noteq> None"
  by (auto simp: run_blocking_def rbind_eq_Inr_iff bare_response_def)

lemma compute_cases:
  assumes "compute ga now days w = (r, w')"
  obtains (failed) e where "r = (bare_response True days)\<lparr>ws_error := Some e\<rparr>" "wb_cache w' = wb_cache w"
  | (stored) "run_blocking ga days = Inr r" "wb_cache w' = (wb_cache w)(days := Some (now, r))"
proof -
  obtain conn w1 where g: "get_client ga w = (conn, w1)" by fastforce
  then have c: "wb_cache w1 = wb_cache w" by (auto simp: get_client_def split: if_splits sum.splits)
  show ?thesis
  proof (cases "rbind conn (\<lambda>_. run_blocking ga days)")
    case (Inl e) with assms g c failed show ?thesis by (auto simp: compute_def)
  next
    case (Inr x)
    then have "run_blocking ga days = Inr x" by (auto simp: rbind_eq_Inr_iff)
    with assms g c Inr stored show ?thesis by (auto simp: compute_def)
  qed
qed

text \<open>What holds in every state: pending requests and cached results are of the past, a cached
  result was answered to the request that computed it, and every answer keeps its promise.\<close>

definition fresh :: "web_sys \<Rightarrow> rat \<Rightarrow> int \<Rightarrow> website_analytics_response \<Rightarrow> bool" where
  "fresh y now days r = (\<exists>t. (From_Google, t, days, r) \<in> set (wy_answers y) \<and> t \<le> now \<and> now - t < CACHE_TTL_S \<and>
     ws_error r = None \<and> ws_kpi r \<noteq> None)"

definition past_ok :: "web_sys \<Rightarrow> bool" where
  "past_ok y = (\<forall>t d. (t, d) \<in> set (wy_pending y) \<longrightarrow> t \<le> wy_clock y)"

definition cache_ok :: "web_sys \<Rightarrow> bool" where
  "cache_ok y = (\<forall>d t r. wb_cache (wy_state y) d = Some (t, r) \<longrightarrow> t \<le> wy_clock y \<and>
     (From_Google, t, d, r) \<in> set (wy_answers y) \<and> ws_error r = None \<and> ws_kpi r \<noteq> None)"

definition good_answer :: "web_sys \<Rightarrow> origin \<times> rat \<times> int \<times> website_analytics_response \<Rightarrow> bool" where
  "good_answer y = (\<lambda>(orig, now, d, r). ws_days r = d \<and> ws_status_code r = 200 \<and> (orig = From_Cache \<longrightarrow> fresh y now d r))"

definition web_inv :: "web_sys \<Rightarrow> bool" where
  "web_inv y = (past_ok y \<and> cache_ok y \<and> list_all (good_answer y) (wy_answers y))"

lemma answer_simps [simp]:
  "wy_answers (answer orig t d r y) = wy_answers y @ [(orig, t, d, r)]"
  "wy_pending (answer orig t d r y) = wy_pending y" "wy_clock (answer orig t d r y) = wy_clock y"
  "wy_state (answer orig t d r y) = wy_state y"
  by (simp_all add: answer_def)

lemma bare_simps [simp]: "ws_days (bare_response b d) = d" "ws_status_code (bare_response b d) = 200"
  by (simp_all add: bare_response_def)

lemma fresh_mono: "fresh y now d r \<Longrightarrow> set (wy_answers y) \<subseteq> set (wy_answers y') \<Longrightarrow> fresh y' now d r"
  unfolding fresh_def by blast

lemma good_answers_extend:
  assumes "list_all (good_answer y) (wy_answers y)" and "wy_answers y' = wy_answers y @ xs" and "list_all (good_answer y') xs"
  shows "list_all (good_answer y') (wy_answers y')"
proof -
  have "good_answer y x \<Longrightarrow> good_answer y' x" for x
    using fresh_mono [of y _ _ _ y'] assms(2) by (auto simp: good_answer_def)
  with assms show ?thesis by (auto simp: list_all_iff)
qed

lemma cache_ok_mono:
  assumes "cache_ok y" and "wb_cache (wy_state y') = wb_cache (wy_state y)" and "wy_clock y \<le> wy_clock y'"
    and "set (wy_answers y) \<subseteq> set (wy_answers y')"
  shows "cache_ok y'"
  unfolding cache_ok_def
proof (intro allI impI)
  fix d t and r :: website_analytics_response
  assume "wb_cache (wy_state y') d = Some (t, r)"
  with assms(1,2) have "t \<le> wy_clock y \<and> (From_Google, t, d, r) \<in> set (wy_answers y) \<and> ws_error r = None \<and> ws_kpi r \<noteq> None"
    unfolding cache_ok_def by metis
  with assms(3,4) show "t \<le> wy_clock y' \<and> (From_Google, t, d, r) \<in> set (wy_answers y') \<and> ws_error r = None \<and> ws_kpi r \<noteq> None"
    by (meson order_trans subsetD)
qed

lemma web_inv_finish:
  assumes inv: "web_inv y" and pending: "(t, days) \<in> set (wy_pending y)" and run: "compute ga t days (wy_state y) = (r, w')"
    and y': "y' = answer From_Google t days r (y\<lparr>wy_state := w', wy_pending := remove1 (t, days) (wy_pending y)\<rparr>)"
  shows "web_inv y'"
proof -
  have past: "t \<le> wy_clock y" using inv pending unfolding web_inv_def past_ok_def by blast
  have r: "ws_days r = days \<and> ws_status_code r = 200"
    using run by (rule compute_cases) (auto dest: run_blocking_data)
  have "past_ok y'" using inv set_remove1_subset [of "(t, days)" "wy_pending y"]
    unfolding web_inv_def past_ok_def y' by (simp only: answer_simps) auto
  moreover have "cache_ok y'"
    using run
  proof (rule compute_cases)
    fix e assume "wb_cache w' = wb_cache (wy_state y)"
    then show ?thesis by - (rule cache_ok_mono [of y], use inv in \<open>simp_all add: y' web_inv_def subset_insertI\<close>)
  next
    assume ok: "run_blocking ga days = Inr r" and w': "wb_cache w' = (wb_cache (wy_state y))(days := Some (t, r))"
    show ?thesis unfolding cache_ok_def
    proof (intro allI impI)
      fix d u and x :: website_analytics_response
      assume c: "wb_cache (wy_state y') d = Some (u, x)"
      show "u \<le> wy_clock y' \<and> (From_Google, u, d, x) \<in> set (wy_answers y') \<and> ws_error x = None \<and> ws_kpi x \<noteq> None"
      proof (cases "d = days")
        case True with c w' past run_blocking_data [OF ok] show ?thesis by (simp add: y')
      next
        case False
        with c w' have "wb_cache (wy_state y) d = Some (u, x)" by (simp add: y')
        with inv have "u \<le> wy_clock y \<and> (From_Google, u, d, x) \<in> set (wy_answers y) \<and> ws_error x = None \<and> ws_kpi x \<noteq> None"
          unfolding web_inv_def cache_ok_def by blast
        then show ?thesis by (simp add: y')
      qed
    qed
  qed
  moreover have "list_all (good_answer y') (wy_answers y')"
    by (rule good_answers_extend [of y _ "[(From_Google, t, days, r)]"]) (use inv r in \<open>simp_all add: web_inv_def y' good_answer_def\<close>)
  ultimately show ?thesis by (simp add: web_inv_def)
qed

lemma web_inv_keep:
  assumes "web_inv y" and "wb_cache (wy_state y') = wb_cache (wy_state y)" and "wy_clock y \<le> wy_clock y'"
    and "wy_answers y' = wy_answers y @ xs" and "list_all (good_answer y') xs" and "past_ok y'"
  shows "web_inv y'"
  unfolding web_inv_def
proof (intro conjI)
  show "cache_ok y'" by (rule cache_ok_mono [of y]) (use assms in \<open>simp_all add: web_inv_def\<close>)
  show "list_all (good_answer y') (wy_answers y')" by (rule good_answers_extend [of y _ xs]) (use assms in \<open>simp_all add: web_inv_def\<close>)
qed (rule assms(6))

lemma web_inv_hit:
  assumes inv: "web_inv y" and c: "cached (wy_clock y) days (wy_state y) = Some r"
  shows "web_inv (answer From_Cache (wy_clock y) days r y)" (is "web_inv ?y")
proof -
  obtain t where t: "wb_cache (wy_state y) days = Some (t, r)" "wy_clock y - t < CACHE_TTL_S"
    using c by (auto simp: cached_def split: option.splits if_splits)
  with inv have k: "t \<le> wy_clock y" "(From_Google, t, days, r) \<in> set (wy_answers y)" "ws_error r = None" "ws_kpi r \<noteq> None"
    unfolding web_inv_def cache_ok_def by blast+
  with inv have g: "good_answer y (From_Google, t, days, r)" unfolding web_inv_def list_all_iff by blast
  have "fresh ?y (wy_clock y) days r" using k t(2) by (auto simp: fresh_def)
  with g have "good_answer ?y (From_Cache, wy_clock y, days, r)" by (simp add: good_answer_def)
  moreover have "past_ok ?y" using inv by (simp add: web_inv_def past_ok_def)
  ultimately show ?thesis using inv by - (rule web_inv_keep [of y ?y "[(From_Cache, wy_clock y, days, r)]"], simp_all)
qed

lemma web_inv_step:
  assumes step: "web_step s y y'" and inv: "web_inv y"
  shows "web_inv y'"
  using step
proof cases
  case (tick t)
  have "past_ok y'" using inv tick unfolding web_inv_def past_ok_def by (simp, meson order_trans)
  with inv tick show ?thesis by - (rule web_inv_keep [of y y' "[]"], simp_all)
next
  case (unconfigured days)
  have "past_ok y'" using inv unconfigured by (simp add: web_inv_def past_ok_def)
  with inv unconfigured show ?thesis
    by - (rule web_inv_keep [of y y' "[(Setup_Hint, wy_clock y, days, bare_response False days)]"], (simp_all add: good_answer_def))
next
  case (hit days r)
  with inv web_inv_hit show ?thesis by blast
next
  case (miss days)
  have "past_ok y'" using inv miss(1) by (auto simp: web_inv_def past_ok_def)
  with inv miss(1) show ?thesis by - (rule web_inv_keep [of y y' "[]"], simp_all)
next
  case (finish t days ga r w')
  with inv web_inv_finish show ?thesis by blast
qed

text \<open>C33: however the requests of the website panel are interleaved, an answer is a 200 for the
  number of days it was asked for, and one that is served from the cache is data, not an
  error, which a request that began less than two minutes before got from Google.\<close>

theorem web_panel_cache_is_fresh:
  assumes "(web_step s)\<^sup>*\<^sup>* web_start y" and "(orig, now, days, r) \<in> set (wy_answers y)"
  shows "ws_days r = days \<and> ws_status_code r = 200 \<and>
    (orig = From_Cache \<longrightarrow> (\<exists>t. (From_Google, t, days, r) \<in> set (wy_answers y) \<and> t \<le> now \<and> now - t < 120 \<and>
       ws_error r = None \<and> ws_kpi r \<noteq> None))"
proof -
  from assms(1) have "web_inv y"
  proof (induction rule: rtranclp_induct)
    case base show ?case by (simp add: web_inv_def web_start_def past_ok_def cache_ok_def)
  next
    case (step y z) then show ?case by (blast intro: web_inv_step)
  qed
  with assms(2) have "good_answer y (orig, now, days, r)" unfolding web_inv_def list_all_iff by blast
  then show ?thesis by (simp add: good_answer_def fresh_def CACHE_TTL_S_def)
qed

definition quiet_site :: ga_api where
  "quiet_site = \<lparr>ga_connect = Inr (), ga_batch_run_reports = (\<lambda>rs. Inr (map (\<lambda>_. []) rs)),
     ga_run_realtime_report = (\<lambda>_ _. Inl ''quota''), ga_float = (\<lambda>_. Inr 0), ga_index_error = []\<rparr>"

definition ga_witness :: ga_settings where
  "ga_witness = \<lparr>gs_property_id = ''1'', gs_service_account_json = ''x''\<rparr>"

theorem web_panel_cache_is_fresh_witness:
  "\<exists>y r. (web_step ga_witness)\<^sup>*\<^sup>* web_start y \<and> (From_Cache, 100, 28, r) \<in> set (wy_answers y) \<and>
     ws_days r = 28 \<and> (\<exists>t. (From_Google, t, 28, r) \<in> set (wy_answers y) \<and> 100 - t < 120 \<and> ws_error r = None)"
proof -
  define y1 where "y1 = web_start\<lparr>wy_pending := [(0, 28)]\<rparr>"
  obtain r w' where c: "compute quiet_site 0 28 (wy_state web_start) = (r, w')" by fastforce
  have "case run_blocking quiet_site 28 of Inl _ \<Rightarrow> False | Inr _ \<Rightarrow> True" by code_simp
  then obtain x where run: "run_blocking quiet_site 28 = Inr x" by (auto split: sum.splits)
  have conn: "ga_connect quiet_site = Inr ()" by (simp add: quiet_site_def)
  have w': "r = x" "wb_cache w' 28 = Some (0, r)"
    using c by (simp_all add: compute_def get_client_def web_start_def run conn, auto)
  define y2 where "y2 = answer From_Google 0 28 r (y1\<lparr>wy_state := w', wy_pending := []\<rparr>)"
  define y3 where "y3 = y2\<lparr>wy_clock := 100\<rparr>"
  have conf: "is_configured ga_witness" by (simp add: is_configured_def ga_witness_def)
  have s1: "web_step ga_witness web_start y1"
    using web_step.miss [OF conf, of web_start 28] by (simp add: y1_def web_start_def cached_def)
  have s2: "web_step ga_witness y1 y2"
    using web_step.finish [of 0 28 y1 quiet_site r w' ga_witness] c by (simp add: y1_def y2_def)
  have s3: "web_step ga_witness y2 y3"
    using web_step.tick [of y2 100 ga_witness] by (simp add: y3_def y2_def y1_def web_start_def)
  have "cached (wy_clock y3) 28 (wy_state y3) = Some r"
    using w'(2) by (simp add: cached_def y3_def y2_def CACHE_TTL_S_def)
  from web_step.hit [OF conf this] have s4: "web_step ga_witness y3 (answer From_Cache 100 28 r y3)"
    by (simp add: y3_def)
  have "(web_step ga_witness)\<^sup>*\<^sup>* web_start y2"
    using rtranclp.rtrancl_into_rtrancl [where r = "web_step ga_witness", OF r_into_rtranclp [where r = "web_step ga_witness", OF s1] s2] .
  then have "(web_step ga_witness)\<^sup>*\<^sup>* web_start y3"
    using s3 by (rule rtranclp.rtrancl_into_rtrancl)
  then have reach: "(web_step ga_witness)\<^sup>*\<^sup>* web_start (answer From_Cache 100 28 r y3)"
    using s4 by (rule rtranclp.rtrancl_into_rtrancl)
  have hit: "(From_Cache, 100, 28, r) \<in> set (wy_answers (answer From_Cache 100 28 r y3))" by simp
  from web_panel_cache_is_fresh [OF reach hit] reach hit show ?thesis by blast
qed

subsection \<open>What is asked of Google\<close>

lemma concat_chunks: "0 < n \<Longrightarrow> concat (chunks n xs) = xs"
  by (induction n xs rule: chunks.induct) (subst chunks.simps, auto)

lemma chunks_bound: "c \<in> set (chunks n xs) \<Longrightarrow> c \<noteq> [] \<and> length c \<le> n"
proof (induction n xs rule: chunks.induct)
  case (1 n xs)
  then show ?case by (subst (asm) (2) chunks.simps) (auto split: if_splits)
qed

lemma panel_calls: "map length (chunks 5 (panel_requests days)) = [5, 2]"
  by (simp add: panel_requests_def chunks.simps)

text \<open>GA reads \<open>NdaysAgo\<close> as that day and both ends of a range as part of it.\<close>

inductive days_ago :: "string \<Rightarrow> int \<Rightarrow> bool" where
  "days_ago ''today'' 0"
| "days_ago (show_int n @ ''daysAgo'') n"

lemma windows_differ_by_a_day:
  "days_ago (dr_start_date (current_range days)) days \<and> days_ago (dr_end_date (current_range days)) 0 \<and>
   days_ago (dr_start_date (previous_range days)) (2 * days) \<and> days_ago (dr_end_date (previous_range days)) (days + 1) \<and>
   days - 0 + 1 = (2 * days - (days + 1) + 1) + (1::int)"
  by (simp add: current_range_def previous_range_def days_ago.intros)

text \<open>Google leaves out the days without traffic, so a gap in the previous window moves the
  overlay: the visits of the eighth stand at the second, the counterpart of the seventh.\<close>

definition plain_ga :: ga_api where
  "plain_ga = quiet_site\<lparr>ga_float := (\<lambda>v. if v = ''7'' then Inr 7 else Inr 1)\<rparr>"

lemma gap_shifts_overlay:
  "rbind (rmap (series_cur plain_ga) [\<lparr>gr_dimension_values = [''20260109''], gr_metric_values = [''1'', ''1'']\<rparr>,
       \<lparr>gr_dimension_values = [''20260110''], gr_metric_values = [''1'', ''1'']\<rparr>]) (\<lambda>cur.
     rbind (rmap (series_prev plain_ga) [\<lparr>gr_dimension_values = [''20260108''], gr_metric_values = [''7'', ''7'']\<rparr>]) (\<lambda>prev.
       Inr (map (\<lambda>p. (wt_date p, wt_active_users_prev p)) (overlay cur prev)))) =
   Inr [(''2026-01-09'', 7), (''2026-01-10'', 0)]"
  by code_simp

text \<open>The number of users right now is the sum over the ten busiest countries only.\<close>

lemma realtime_shape:
  assumes "realtime ga = Some r"
  shows "wr_active_users r = sum_list (map snd (wr_by_country r))" and "length (wr_per_minute r) = 30"
  using assms by (auto simp: realtime_def rbind_def split: sum.splits)

definition eleven_countries :: ga_api where
  "eleven_countries = plain_ga\<lparr>ga_run_realtime_report := (\<lambda>d lim.
     let rows = replicate 11 \<lparr>gr_dimension_values = [d], gr_metric_values = [''1'']\<rparr>
     in Inr (if d = ''country'' then take (default lim 11) rows else []))\<rparr>"

lemma realtime_counts_ten_countries: "map_option wr_active_users (realtime eleven_countries) = Some 10"
  by code_simp

text \<open>A failure is answered, not raised, and not cached: the next request asks again.\<close>

lemma failure_is_not_cached:
  assumes "is_configured s" "wb_cache w days = None" "run_blocking ga days = Inl e" "1 \<le> days" "days \<le> 365"
  shows "\<exists>r w'. website_analytics s ga now days w = (HttpOk 200 r, w') \<and> ws_error r \<noteq> None \<and> wb_cache w' days = None"
  using assms by (auto simp: website_analytics_def get_website_analytics_def cached_def compute_def get_client_def Let_def split: sum.splits)

end
