(* ===== verification/Service.thy ===== *)
theory Service
  imports Config Scheduler Contact_Activity Trade_Mail
begin

section \<open>The service as a whole\<close>

text \<open>
  The rest of \<open>app/freshsales/client.py\<close> (the calls behind the transport and the JSON they
  send), the transactional mails of \<open>app/services/mailer.py\<close>, the object store of
  \<open>app/services/trade_storage.py\<close>, the start and the job table of \<open>app/main.py\<close> with the
  remaining job of \<open>app/jobs/tasks.py\<close>, and the health endpoints. The HTTP transport is an
  argument: what attempt \<open>n\<close> of a request ends in.
\<close>

subsection \<open>Calls to the CRM\<close>

datatype http_request = Get string | Post string json

record transport =
  tp_env :: py_env
  tp_backoff :: "nat \<Rightarrow> rat"
  tp_send :: "http_request \<Rightarrow> nat \<Rightarrow> client_error + json"

definition client_get :: "transport \<Rightarrow> string \<Rightarrow> client_error + json" where
  "client_get tp path = fst (request_get (tp_env tp) (tp_backoff tp) (tp_send tp (Get path)))"

definition client_post :: "transport \<Rightarrow> string \<Rightarrow> json \<Rightarrow> client_error + json" where
  "client_post tp path body = fst (request_post (tp_env tp) (tp_backoff tp) (tp_send tp (Post path body)))"

text \<open>\<open>data.get(key, data)\<close>: an answer that is no object has no \<open>get\<close>.\<close>

definition unwrap :: "string \<Rightarrow> json \<Rightarrow> client_error + json" where
  "unwrap k data = (case data of JObj d \<Rightarrow> Inr (default (map_of d k) data) | _ \<Rightarrow> Inl (OtherError ''AttributeError''))"

definition deal_pipelines :: string where "deal_pipelines = API @ ''/selector/deal_pipelines''"
definition owners_path :: string where "owners_path = API @ ''/selector/owners''"
definition deal_reasons :: string where "deal_reasons = API @ ''/selector/deal_reasons''"
definition notes_path :: string where "notes_path = API @ ''/notes''"
definition tasks_path :: string where "tasks_path = API @ ''/tasks''"
definition contacts_path :: string where "contacts_path = API @ ''/contacts''"
definition contact_upsert :: string where "contact_upsert = API @ ''/contacts/upsert''"

definition note_body :: "int \<Rightarrow> string \<Rightarrow> json" where
  "note_body deal_id description = JObj [(''note'', JObj [(''description'', JStr description),
     (''targetable_type'', JStr ''Deal''), (''targetable_id'', JInt deal_id)])]"

definition task_body :: "int \<Rightarrow> string \<Rightarrow> string \<Rightarrow> int \<Rightarrow> json" where
  "task_body deal_id title due_date owner_id = JObj [(''task'', JObj [(''title'', JStr title),
     (''due_date'', JStr due_date), (''owner_id'', JInt owner_id),
     (''targetable_type'', JStr ''Deal''), (''targetable_id'', JInt deal_id)])]"

definition create_note :: "transport \<Rightarrow> int \<Rightarrow> string \<Rightarrow> client_error + json" where
  "create_note tp deal_id description =
     rbind (client_post tp notes_path (note_body deal_id description)) (unwrap ''note'')"

definition create_task :: "transport \<Rightarrow> int \<Rightarrow> string \<Rightarrow> string \<Rightarrow> int \<Rightarrow> client_error + json" where
  "create_task tp deal_id title due_date owner_id =
     rbind (client_post tp tasks_path (task_body deal_id title due_date owner_id)) (unwrap ''task'')"

text \<open>The body a contact payload stands for.\<close>

definition payload_json :: "contact_payload \<Rightarrow> json" where
  "payload_json p = JObj [(''unique_identifier'', JObj [(''emails'', cp_unique_email p)]),
     (''contact'', JObj ([(''first_name'', cp_first_name p), (''last_name'', cp_last_name p),
        (''emails'', JList [JObj [(''value'', cp_email_value p), (''is_primary'', JBool True)]]),
        (''mobile_number'', cp_mobile_number p), (''job_title'', cp_job_title p),
        (''tags'', JList (map JStr (cp_tags p))), (''lead_source_id'', JInt (cp_lead_source_id p)),
        (''lifecycle_stage_id'', JInt (cp_lifecycle_stage_id p)), (''custom_field'', JObj (cp_custom_field p))] @
        (case cp_contact_status_id p of None \<Rightarrow> [] | Some n \<Rightarrow> [(''contact_status_id'', JInt n)])))]"

definition upsert_contact :: "transport \<Rightarrow> json \<Rightarrow> client_error + json" where
  "upsert_contact tp payload = rbind (client_post tp contact_upsert payload) (unwrap ''contact'')"

text \<open>\<open>(data.get("contacts") or {}).get("contacts") or []\<close>; \<open>contacts[0]\<close> of a list.\<close>

definition contacts_of :: "json \<Rightarrow> client_error + json list option" where
  "contacts_of data = (case data of
     JObj d \<Rightarrow> (let inner = json_get d ''contacts'' in
       if \<not> json_truthy inner then Inr None
       else case inner of
         JObj e \<Rightarrow> (let cs = json_get e ''contacts'' in
           if \<not> json_truthy cs then Inr None
           else case cs of JList xs \<Rightarrow> Inr (Some xs) | JStr s \<Rightarrow> Inr (Some (map (\<lambda>c. JStr [c]) s))
             | _ \<Rightarrow> Inl (OtherError ''TypeError''))
       | _ \<Rightarrow> Inl (OtherError ''AttributeError''))
   | _ \<Rightarrow> Inl (OtherError ''AttributeError''))"

definition client_lookup_contact :: "transport \<Rightarrow> string \<Rightarrow> client_error + json option" where
  "client_lookup_contact tp email = lookup_contact (rbind (client_get tp (lookup_contact_by_email email)) contacts_of)"

definition get_pipelines :: "transport \<Rightarrow> client_error + json" where "get_pipelines tp = client_get tp deal_pipelines"
definition get_owners :: "transport \<Rightarrow> client_error + json" where "get_owners tp = client_get tp owners_path"
definition get_deal_reasons :: "transport \<Rightarrow> client_error + json" where "get_deal_reasons tp = client_get tp deal_reasons"

definition client_get_deal :: "transport \<Rightarrow> int \<Rightarrow> client_error + json" where
  "client_get_deal tp deal_id = rbind (client_get tp (deal_detail deal_id)) (unwrap ''deal'')"

definition get_contact :: "transport \<Rightarrow> int \<Rightarrow> client_error + json" where
  "get_contact tp contact_id = rbind (client_get tp (contact_detail contact_id)) (unwrap ''contact'')"

definition get_deal_tasks :: "transport \<Rightarrow> int \<Rightarrow> client_error + json" where
  "get_deal_tasks tp deal_id = client_get tp (deal_tasks deal_id)"

definition get_deal_conversations :: "transport \<Rightarrow> int \<Rightarrow> client_error + json" where
  "get_deal_conversations tp deal_id = client_get tp (deal_conversations deal_id)"

definition get_contact_conversations :: "transport \<Rightarrow> int \<Rightarrow> client_error + json" where
  "get_contact_conversations tp contact_id = client_get tp (contact_conversations contact_id)"

definition get_contact_notes :: "transport \<Rightarrow> int \<Rightarrow> client_error + json" where
  "get_contact_notes tp contact_id = client_get tp (contact_notes contact_id)"

text \<open>How often the request of a call reaches the server.\<close>

definition attempts :: "transport \<Rightarrow> http_request \<Rightarrow> nat" where
  "attempts tp r = length (snd (with_retry (tp_env tp) (tp_backoff tp) (tp_send tp r) 1)) + 1"

subsection \<open>Transactional mail\<close>

text \<open>\<open>post\<close> is whether SendGrid accepts the JSON; an HTTP error is its refusal.\<close>

definition email_payload :: "app_settings \<Rightarrow> string \<Rightarrow> mail_body \<Rightarrow> string option \<Rightarrow> string option \<Rightarrow> json" where
  "email_payload s to b from_email from_name = JObj
     [(''personalizations'', JList [JObj [(''to'', JList [JObj [(''email'', JStr to)]])]]),
      (''from'', JObj [(''email'', JStr (or_list from_email (as_mail_from_email s))),
                       (''name'', JStr (or_list from_name (as_mail_from_name s)))]),
      (''subject'', JStr (mb_subject b)),
      (''content'', JList [JObj [(''type'', JStr ''text/plain''), (''value'', JStr (mb_text b))],
                           JObj [(''type'', JStr ''text/html''), (''value'', JStr (mb_html b))]])]"

definition send_email ::
    "app_settings \<Rightarrow> (json \<Rightarrow> bool) \<Rightarrow> string \<Rightarrow> mail_body \<Rightarrow> string option \<Rightarrow> string option \<Rightarrow> json list \<Rightarrow> bool \<times> json list" where
  "send_email s post to b from_email from_name sent =
     (if as_sendgrid_api_key s = [] then (False, sent)
      else let payload = email_payload s to b from_email from_name
        in if post payload then (True, sent @ [payload]) else (False, sent))"

definition rstrip_slash :: "string \<Rightarrow> string" where
  "rstrip_slash s = rev (dropWhile (\<lambda>c. c = CHR ''/'') (rev s))"

definition login_url :: "app_settings \<Rightarrow> string" where
  \<open>login_url s =
     (concat [rstrip_slash (as_frontend_base_url s), ''/admin/login''])\<close>

definition invite_text :: "app_settings \<Rightarrow> string \<Rightarrow> string \<Rightarrow> string" where
  \<open>invite_text s to temp =
     (concat [''You've been invited to the RB Properties sales dashboard.'', nl,
      nl,
      ''Sign in at: '', login_url s, nl,
      ''Email:    '', to, nl,
      ''Temporary password: '', temp, nl,
      nl,
      ''You'll be asked to set your own password the first time you sign in.'', nl])\<close>

definition invite_html :: "app_settings \<Rightarrow> string \<Rightarrow> string \<Rightarrow> string" where
  \<open>invite_html s to temp =
     (concat [''<div style="font-family:Arial,Helvetica,sans-serif;max-width:560px;margin:auto;color:#15181e">'', nl,
      ''  <h2 style="margin-bottom:4px">Welcome to the sales dashboard</h2>'', nl,
      ''  <p>You've been invited to the RB Properties sales intelligence dashboard.</p>'', nl,
      ''  <div style="background:#f4f6f8;border-radius:8px;padding:16px;margin:16px 0">'', nl,
      ''    <table style="border-collapse:collapse;width:100%">'', nl,
      ''      <tr><td style="padding:6px 0;color:#666">Email</td>'', nl,
      ''          <td style="padding:6px 0;font-weight:600">'', to, ''</td></tr>'', nl,
      ''      <tr><td style="padding:6px 0;color:#666">Temporary password</td>'', nl,
      ''          <td style="padding:6px 0;font-weight:600;letter-spacing:.04em">'', temp, ''</td></tr>'', nl,
      ''    </table>'', nl,
      ''  </div>'', nl,
      ''  <p style="margin:16px 0">'', nl,
      ''    <a href="'', login_url s, ''"'', nl,
      ''       style="display:inline-block;background:#c79a3a;color:#15181e;text-decoration:none;'', nl,
      ''              font-weight:600;padding:12px 22px;border-radius:10px">Sign in</a>'', nl,
      ''  </p>'', nl,
      ''  <p style="color:#666;font-size:13px">'', nl,
      ''    You'll be asked to set your own password the first time you sign in.'', nl,
      ''  </p>'', nl,
      ''</div>'', nl])\<close>

definition invite_mail :: "app_settings \<Rightarrow> string \<Rightarrow> string \<Rightarrow> mail_body" where
  "invite_mail s to temp = \<lparr>mb_subject = ''Your RB Properties sales dashboard access'',
     mb_html = invite_html s to temp, mb_text = invite_text s to temp\<rparr>"

definition send_invite_email ::
    "app_settings \<Rightarrow> (json \<Rightarrow> bool) \<Rightarrow> string \<Rightarrow> string \<Rightarrow> json list \<Rightarrow> bool \<times> json list" where
  "send_invite_email s post to temp sent = send_email s post to (invite_mail s to temp) None None sent"

subsection \<open>The object store\<close>

record put_request =
  pr_bucket :: string
  pr_key :: string
  pr_content_type :: string

definition put_object :: "app_settings \<Rightarrow> string \<Rightarrow> string option \<Rightarrow> put_request" where
  "put_object s key content_type = \<lparr>pr_bucket = as_trade_documents_bucket s, pr_key = key,
     pr_content_type = or_list content_type ''application/octet-stream''\<rparr>"

record presign_request =
  ps_bucket :: string
  ps_key :: string
  ps_disposition :: string
  ps_expires_in :: int

definition PRESIGNED_URL_TTL_SECONDS :: int where "PRESIGNED_URL_TTL_SECONDS = 300"

definition presigned_url :: "app_settings \<Rightarrow> string \<Rightarrow> string \<Rightarrow> presign_request" where
  "presigned_url s key file_name = \<lparr>ps_bucket = as_trade_documents_bucket s, ps_key = key,
     ps_disposition = concat [''attachment; filename='', [CHR 0x22], file_name, [CHR 0x22]],
     ps_expires_in = PRESIGNED_URL_TTL_SECONDS\<rparr>"

definition get_download_url :: "(presign_request \<Rightarrow> string) \<Rightarrow> app_settings \<Rightarrow> string \<Rightarrow> string \<Rightarrow> string option" where
  "get_download_url sign s key file_name =
     (if supabase_s3_configured s then Some (sign (presigned_url s key file_name)) else None)"

subsection \<open>Jobs\<close>

definition nog_activity_sync_job ::
    "nat \<Rightarrow> py_env \<Rightarrow> time \<Rightarrow> (string \<Rightarrow> int option) \<Rightarrow> activity_crm \<Rightarrow> campaign table \<Rightarrow> lead table
      \<Rightarrow> locks \<times> activities \<Rightarrow> (sync_error outcome \<times> locks \<times> activities) option" where
  "nog_activity_sync_job sid env now parse c campaigns t w =
     map_option (\<lambda>(st, e). run_with_advisory_lock (lock_key NogActivitySync) sid
         (\<lambda>_. as_run (as_session st, e)) w)
       (if fst (try_lock (lock_key NogActivitySync) sid (fst w))
        then run_nog_activity_sync env now parse c None campaigns t (snd w)
        else Some (\<lparr>as_session = open_session (snd w), as_counters = []\<rparr>, None))"

text \<open>When a job runs: every so many minutes, or at an hour of the day in a time zone
  (\<open>None\<close> is the zone of the process).\<close>

datatype trigger = Interval int | Cron int int "string option"

record scheduled_job =
  sj_job :: job
  sj_trigger :: trigger
  sj_id :: string

definition scheduled_jobs :: "app_settings \<Rightarrow> scheduled_job list" where
  "scheduled_jobs s = (if \<not> as_run_scheduler s then [] else
     [\<lparr>sj_job = ReferenceSync, sj_trigger = Interval (60 * as_reference_sync_interval_hours s), sj_id = ''reference_sync''\<rparr>,
      \<lparr>sj_job = DealSync, sj_trigger = Cron 3 0 (Some ''Africa/Lagos''), sj_id = ''deal_sync''\<rparr>,
      \<lparr>sj_job = TaskSync, sj_trigger = Interval (as_activity_sync_interval_minutes s), sj_id = ''task_sync''\<rparr>,
      \<lparr>sj_job = EmailSync, sj_trigger = Interval (as_activity_sync_interval_minutes s), sj_id = ''email_sync''\<rparr>,
      \<lparr>sj_job = DailySnapshot, sj_trigger = Cron 1 0 None, sj_id = ''daily_snapshot''\<rparr>,
      \<lparr>sj_job = LeadCrmSync, sj_trigger = Interval (as_lead_crm_sync_interval_minutes s), sj_id = ''lead_crm_sync''\<rparr>,
      \<lparr>sj_job = PackDelivery, sj_trigger = Interval (as_pack_delivery_interval_minutes s), sj_id = ''pack_delivery''\<rparr>,
      \<lparr>sj_job = TriageSync, sj_trigger = Interval (as_triage_sync_interval_minutes s), sj_id = ''triage_sync''\<rparr>,
      \<lparr>sj_job = TradeCrmSync, sj_trigger = Interval (as_lead_crm_sync_interval_minutes s), sj_id = ''trade_crm_sync''\<rparr>] @
     (if as_nog_activity_sync_enabled s
      then [\<lparr>sj_job = NogActivitySync, sj_trigger = Cron 4 0 (Some ''Africa/Lagos''), sj_id = ''nog_activity_sync''\<rparr>]
      else []))"

text \<open>The state the application starts with: the resolver of the reference sync, if that ran
  and succeeded. A failure is logged and the application starts without one.\<close>

definition startup ::
    "app_settings \<Rightarrow> (client_error + resolver) \<Rightarrow> resolver option" where
  "startup s synced = (if as_sync_on_startup s
     then (case synced of Inl e \<Rightarrow> None | Inr r \<Rightarrow> Some r) else None)"

subsection \<open>Health\<close>

definition liveness :: "string http" where
  "liveness = HttpOk 200 ''ok''"

text \<open>\<open>ping_database\<close> runs \<open>SELECT 1\<close>; a database that cannot be reached raises.\<close>

definition ping_database :: "string + int \<Rightarrow> string + bool" where
  "ping_database answer = rbind answer (\<lambda>n. Inr (n = 1))"

definition readiness :: "string + int \<Rightarrow> string http" where
  "readiness answer = (case ping_database answer of
     Inl e \<Rightarrow> HttpError 500 ''Internal Server Error''
   | Inr up \<Rightarrow> (if up then HttpOk 200 ''ok'' else HttpError 503 ''database unavailable''))"

subsection \<open>Facts\<close>

lemma waits_bound: "n \<le> MAX_ATTEMPTS \<Longrightarrow> length (snd (with_retry env backoff send n)) \<le> MAX_ATTEMPTS - n"
proof (induction env backoff send n rule: with_retry.induct)
  case (1 env backoff send n)
  then show ?case
    by (subst with_retry.simps) (auto split: sum.splits prod.splits)
qed

text \<open>A write that the server performs but whose answer is lost is performed again: a note
  can be written four times, and the call still succeeds.\<close>

lemma attempts_bound: "1 \<le> attempts tp r \<and> attempts tp r \<le> 4"
  using waits_bound [of 1 "tp_env tp" "tp_backoff tp" "tp_send tp r"] by (simp add: attempts_def MAX_ATTEMPTS_def)

lemma note_is_written_again:
  assumes "\<And>n. tp_send tp (Post notes_path (note_body d txt)) n = (if n < 4 then Inl TransportError else Inr (JObj [(''note'', JObj [])]))"
  shows "attempts tp (Post notes_path (note_body d txt)) = 4" and "create_note tp d txt = Inr (JObj [])"
  using assms by (simp_all add: attempts_def create_note_def client_post_def request_post_def unwrap_def with_retry.simps MAX_ATTEMPTS_def)

lemma job_ids_distinct: "distinct (map sj_id (scheduled_jobs s)) \<and> distinct (map sj_job (scheduled_jobs s))"
  by (simp add: scheduled_jobs_def)

lemma every_job_scheduled: "as_run_scheduler s \<Longrightarrow> as_nog_activity_sync_enabled s \<Longrightarrow> j \<in> sj_job ` set (scheduled_jobs s)"
  by (cases j) (auto simp: scheduled_jobs_def)

text \<open>A database that is down is a 500, not the 503 the endpoint means to give.\<close>

lemma unreachable_database_is_500: "http_status (readiness (Inl e)) = 500"
  by (simp add: readiness_def ping_database_def)

end
