(* ===== verification/Rep_Import.thy ===== *)
theory Rep_Import
  imports Service
begin

section \<open>Import of the leads the sales reps wrote down\<close>

text \<open>
  Model of \<open>scripts/import_rep_leads.py\<close>: a workbook with one sheet per rep is parsed, its rows
  are cleaned and written to the campaign's leads, one e-mail address at a time. Downloading
  and unzipping the workbook and parsing its XML are libraries; the model starts from the
  elements of the sheets. \<open>int_float\<close> is \<open>int(float(x))\<close>, \<open>valid_email\<close> the e-mail validator.
\<close>

subsection \<open>The workbook\<close>

record xml_cell =
  xc_ref :: string
  xc_type :: "string option"
  xc_value :: "string option option"
  xc_inline :: "string list option"

text \<open>The column of a reference like \<open>AB12\<close>; without capital letters \<open>re.match\<close> gives no match.\<close>

definition is_capital :: "char \<Rightarrow> bool" where
  "is_capital ch \<longleftrightarrow> CHR ''A'' \<le> ch \<and> ch \<le> CHR ''Z''"

definition col_index :: "string \<Rightarrow> int option" where
  "col_index ref = (let letters = takeWhile is_capital ref in
     if letters = [] then None else Some (foldl (\<lambda>n ch. n * 26 + (of_char ch - 64)) 0 letters - 1))"

definition py_index :: "'a list \<Rightarrow> int \<Rightarrow> 'a option" where
  "py_index xs i = (if 0 \<le> i \<and> i < int (length xs) then Some (xs ! nat i)
     else if - int (length xs) \<le> i \<and> i < 0 then Some (xs ! nat (i + int (length xs))) else None)"

definition cell_value :: "string list \<Rightarrow> xml_cell \<Rightarrow> string option" where
  "cell_value shared c = (case (xc_type c = Some ''s'', xc_value c, xc_inline c) of
     (True, Some v, _) \<Rightarrow> (case v of None \<Rightarrow> None | Some txt \<Rightarrow>
        (case parse_int txt of Inl e \<Rightarrow> None | Inr i \<Rightarrow> py_index shared i))
   | (_, _, Some ts) \<Rightarrow> Some (concat ts)
   | (_, Some v, None) \<Rightarrow> Some (default v [])
   | (_, None, None) \<Rightarrow> Some [])"

text \<open>A later cell of the same column replaces an earlier one; gaps are empty.\<close>

fun read_cells :: "string list \<Rightarrow> xml_cell list \<Rightarrow> (int \<times> string) list option" where
  "read_cells shared [] = Some []"
| "read_cells shared (c # cs) = Option.bind (col_index (xc_ref c)) (\<lambda>i. Option.bind (cell_value shared c) (\<lambda>v.
     map_option (\<lambda>rest. (i, v) # rest) (read_cells shared cs)))"

definition sheet_row :: "string list \<Rightarrow> xml_cell list \<Rightarrow> string list option" where
  "sheet_row shared cs = map_option (\<lambda>cells. map (\<lambda>i. default (map_of (rev cells) (int i)) [])
     [0..<nat (Max (insert (- 1) (set (map fst cells))) + 1)]) (read_cells shared cs)"

subsection \<open>Cleaning\<close>

definition is_word :: "char \<Rightarrow> bool" where
  "is_word ch \<longleftrightarrow> is_alpha ch \<or> is_digit ch \<or> ch = CHR ''_''"

text \<open>\<open>\s*-?\s*DAY\b\<close> at the front, in any case.\<close>

definition day_here :: "string \<Rightarrow> bool" where
  "day_here s = (let t = dropWhile is_space s; t' = (case t of [] \<Rightarrow> [] | c # r \<Rightarrow> if c = CHR ''-'' then r else t);
       u = dropWhile is_space t'
     in starts_with ''day'' (py_lower u) \<and> (case drop 3 u of [] \<Rightarrow> True | c # _ \<Rightarrow> \<not> is_word c))"

fun before_day :: "string \<Rightarrow> string" where
  "before_day [] = []"
| "before_day (c # s) = (if day_here (c # s) then [] else c # before_day s)"

definition rep_name :: "string \<Rightarrow> string" where
  "rep_name tab = py_title (py_strip (before_day tab))"

text \<open>The words between white space.\<close>

fun words_from :: "string \<Rightarrow> string \<Rightarrow> string list" where
  "words_from w [] = (if w = [] then [] else [w])"
| "words_from w (c # s) = (if is_space c then (if w = [] then words_from [] s else w # words_from [] s)
     else words_from (w @ [c]) s)"

definition py_words :: "string \<Rightarrow> string list" where "py_words s = words_from [] s"

definition HONORIFICS :: "string list" where
  "HONORIFICS = [''dr'', ''engr'', ''mr'', ''mrs'', ''ms'', ''miss'', ''alh'', ''alhaji'', ''sir'', ''prof'',
     ''barr'', ''chief'', ''capt'', ''hon'', ''pastor'', ''rev'', ''mallam'', ''mal'', ''arc'']"

definition strip_chars :: "string \<Rightarrow> string \<Rightarrow> string" where
  "strip_chars cs s = rev (dropWhile (\<lambda>c. c \<in> set cs) (rev (dropWhile (\<lambda>c. c \<in> set cs) s)))"

definition is_honorific :: "string \<Rightarrow> bool" where
  "is_honorific tok \<longleftrightarrow> py_lower (rev (dropWhile (\<lambda>c. c = CHR ''.'') (rev tok))) \<in> set HONORIFICS"

fun drop_honorifics :: "string list \<Rightarrow> string list" where
  "drop_honorifics (a # b # ts) = (if is_honorific a then drop_honorifics (b # ts) else a # b # ts)"
| "drop_honorifics ts = ts"

definition split_name :: "string \<Rightarrow> string \<times> string" where
  "split_name raw =
     (let name = py_strip (hd (py_split (CHR '','') raw));
          spaced = concat (map (\<lambda>c. if c = CHR ''.'' then ''. '' else [c]) name)
      in case drop_honorifics (py_words spaced) of
           [] \<Rightarrow> ([], []) | [t] \<Rightarrow> (t, em_dash) | t # ts \<Rightarrow> (t, py_join '' '' ts))"

text \<open>\<open>^[^@\s]+@[^@\s]+\.[^@\s]+$\<close>; \<open>$\<close> also matches before a final line break.\<close>

definition email_shape :: "string \<Rightarrow> bool" where
  "email_shape s = (case split_char (CHR ''@'') s of None \<Rightarrow> False
     | Some (user, host) \<Rightarrow> user \<noteq> [] \<and> CHR ''@'' \<notin> set host \<and> list_all (\<lambda>c. \<not> is_space c) s \<and>
         CHR ''.'' \<in> set (butlast (tl host)))"

definition email_re :: "string \<Rightarrow> bool" where
  "email_re s = (email_shape s \<or> (s \<noteq> [] \<and> last s = CHR 0x0A \<and> email_shape (butlast s)))"

definition clean_email :: "string \<Rightarrow> string option" where
  "clean_email raw = (let email = py_lower (strip_chars ''/.,;:'' (py_strip raw)) in
     if email_re email then Some email
     else List.find email_re (map (strip_chars ''/.,;:'') (py_words email)))"

datatype int_float_error = NotANumber | TooLarge

text \<open>\<open>[0-9.]+E[0-9]+\<close> in any case, or \<open>[0-9]+\.[0-9]+\<close>.\<close>

definition float_shape :: "string \<Rightarrow> bool" where
  "float_shape s =
     ((case split_char (CHR ''e'') (py_lower s) of None \<Rightarrow> False
       | Some (m, x) \<Rightarrow> m \<noteq> [] \<and> list_all (\<lambda>c. is_digit c \<or> c = CHR ''.'') m \<and> x \<noteq> [] \<and> list_all is_digit x) \<or>
      (case split_char (CHR ''.'') s of None \<Rightarrow> False
       | Some (a, b) \<Rightarrow> a \<noteq> [] \<and> list_all is_digit a \<and> b \<noteq> [] \<and> list_all is_digit b))"

definition normal_phone :: "bool \<Rightarrow> string \<Rightarrow> string" where
  "normal_phone had_plus digits =
     (if digits = [] then []
      else if length digits = 11 \<and> hd digits = CHR ''0'' then digits
      else if length digits = 10 \<and> hd digits \<in> set ''789'' then CHR ''0'' # digits
      else if starts_with ''234'' digits then CHR ''+'' # digits
      else if had_plus \<or> 11 \<le> length digits then CHR ''+'' # digits
      else digits)"

text \<open>A number too large for \<open>int\<close> of a float raises \<open>OverflowError\<close>, which is not caught: \<open>None\<close>.\<close>

definition clean_phone :: "(string \<Rightarrow> int_float_error + int) \<Rightarrow> string \<Rightarrow> string option" where
  "clean_phone int_float raw =
     (let val = py_strip raw in
      if val = [] then Some []
      else map_option (\<lambda>v. normal_phone (hd val = CHR ''+'') (filter is_digit v))
        (if float_shape val
         then (case int_float val of Inr n \<Rightarrow> Some (show_int n) | Inl NotANumber \<Rightarrow> Some val | Inl TooLarge \<Rightarrow> None)
         else Some val))"

definition rep_interests :: "string \<Rightarrow> string list" where
  "rep_interests support = (let s = py_lower support in
     (if contains ''office'' s then [''Office Leasing''] else []) @
     (if contains ''resid'' s then [''Executive Residences''] else []))"

definition wants_tour :: "string \<Rightarrow> bool" where
  "wants_tour tour \<longleftrightarrow> starts_with ''yes'' (py_lower (py_strip tour))"

subsection \<open>From a row to a request\<close>

definition PACK_MATERIALS :: "string list" where
  "PACK_MATERIALS = [''Corporate Prospectus'', ''Office Floorplates'', ''Residence Floorplans'']"

text \<open>Noon of 7 July 2026 and the start of 8 July, in microseconds.\<close>

definition CAPTURED_AT :: time where "CAPTURED_AT = 1783425600000000"
definition IMPORT_RUN_DAY :: time where "IMPORT_RUN_DAY = 1783468800000000"
definition DATA_START_ROW :: nat where "DATA_START_ROW = 4"

datatype 'a row_result = Row 'a | Skip string | Crash

definition padded :: "nat \<Rightarrow> string list \<Rightarrow> string list" where
  "padded n row = take n (row @ replicate n [])"

definition row_to_payload ::
    "(string \<Rightarrow> int_float_error + int) \<Rightarrow> (string \<Rightarrow> bool) \<Rightarrow> string \<Rightarrow> string list \<Rightarrow> lead_request row_result" where
  "row_to_payload int_float valid_email rep row0 =
     (let row = padded 10 row0; raw_name = py_strip (row ! 1) in
      if raw_name = [] then Skip ''no name''
      else case clean_email (row ! 4) of None \<Rightarrow> Skip ''no valid email''
      | Some email \<Rightarrow> (case split_name raw_name of (first, surname) \<Rightarrow>
          if first = [] then Skip ''no name''
          else case clean_phone int_float (row ! 5) of None \<Rightarrow> Crash
          | Some phone \<Rightarrow>
              (let q = \<lparr>lq_first_name = take 120 first, lq_last_name = take 120 surname, lq_email = email,
                  lq_phone = (if phone = [] then None else Some phone),
                  lq_company = take 200 (or_list (Some (py_strip (row ! 2))) em_dash),
                  lq_job_title = (let j = py_strip (row ! 3) in if j = [] then None else Some j),
                  lq_source = ''rep_upload'', lq_device_id = None, lq_timing = None,
                  lq_interests = (let i = rep_interests (row ! 8) in if i = [] then None else Some i),
                  lq_requested_materials = Some PACK_MATERIALS, lq_inspection_requested = wants_tour (row ! 7),
                  lq_inspection_type = None, lq_marketing_opt_in = False, lq_consent_status = True,
                  lq_captured_at = Some CAPTURED_AT,
                  lq_responses = [(''captured_by'', JStr rep), (''raw_name'', JStr raw_name),
                    (''support_needed'', JStr (py_strip (row ! 8))), (''exhibition_visit'', JStr (py_strip (row ! 6))),
                    (''interested_in_tour'', JStr (py_strip (row ! 7))), (''tomorrow_priority'', JStr (py_strip (row ! 9))),
                    (''import_batch'', JStr ''nog-2026-rep-sheet-day1'')]\<rparr>
               in if valid_lead_request valid_email q then Row q else Skip ''invalid email/field'')))"

text \<open>All sheets: the first row with an address counts, the others are listed.\<close>

record collected =
  co_payloads :: "(string \<times> string \<times> lead_request) list"
  co_skipped :: "(string \<times> string \<times> string) list"
  co_merged :: "(string \<times> string) list"

fun collect_rows ::
    "(string list \<Rightarrow> lead_request row_result) \<Rightarrow> string \<Rightarrow> string list list \<Rightarrow> collected \<Rightarrow> collected option" where
  "collect_rows conv rep [] acc = Some acc"
| "collect_rows conv rep (row # rs) acc =
     (if \<forall>c \<in> set row. py_strip c = [] then collect_rows conv rep rs acc
      else case conv row of
        Crash \<Rightarrow> None
      | Skip reason \<Rightarrow> collect_rows conv rep rs (acc\<lparr>co_skipped := co_skipped acc @
          [(rep, or_list (Some (py_strip ((row @ [[], []]) ! 1))) ''(blank)'', reason)]\<rparr>)
      | Row q \<Rightarrow> collect_rows conv rep rs
          (if lq_email q \<in> fst ` set (co_payloads acc)
           then acc\<lparr>co_merged := co_merged acc @ [(lq_email q, rep)]\<rparr>
           else acc\<lparr>co_payloads := co_payloads acc @ [(lq_email q, rep, q)]\<rparr>))"

fun collect_tabs ::
    "(string \<Rightarrow> string list \<Rightarrow> lead_request row_result) \<Rightarrow> (string \<times> string list list) list \<Rightarrow> collected \<Rightarrow> collected option" where
  "collect_tabs conv [] acc = Some acc"
| "collect_tabs conv ((tab, rs) # tabs) acc =
     Option.bind (collect_rows (conv (rep_name tab)) (rep_name tab) (drop DATA_START_ROW rs) acc) (collect_tabs conv tabs)"

definition collect ::
    "(string \<Rightarrow> int_float_error + int) \<Rightarrow> (string \<Rightarrow> bool) \<Rightarrow> (string \<times> string list list) list \<Rightarrow> collected option" where
  "collect int_float valid_email tabs =
     collect_tabs (row_to_payload int_float valid_email) tabs \<lparr>co_payloads = [], co_skipped = [], co_merged = []\<rparr>"

subsection \<open>Writing\<close>

definition with_rep_tag :: "string list option \<Rightarrow> string \<Rightarrow> string list" where
  "with_rep_tag tags rep = (let tag = ''Rep: '' @ rep; ts = or_list tags [] in if tag \<in> set ts then ts else ts @ [tag])"

definition augment_tags :: "string \<Rightarrow> lead \<Rightarrow> bool \<times> lead" where
  "augment_tags rep l = (let ts = with_rep_tag (ld_tags l) rep in
     if ts \<noteq> or_list (ld_tags l) [] then (True, l\<lparr>ld_tags := Some ts\<rparr>) else (False, l))"

definition augment_responses :: "string \<Rightarrow> lead_request \<Rightarrow> lead \<Rightarrow> bool \<times> lead" where
  "augment_responses rep q l = (let resp = ld_responses l in
     if json_truthy (json_get resp ''captured_by'') then (False, l)
     else let r1 = AList.update ''captured_by'' (JStr rep) resp;
              r2 = (if map_of r1 ''import_batch'' \<noteq> None then r1
                    else r1 @ [(''import_batch'', json_get (lq_responses q) ''import_batch'')])
          in (True, l\<lparr>ld_responses := r2\<rparr>))"

definition augment_phone :: "lead_request \<Rightarrow> lead \<Rightarrow> bool \<times> lead" where
  "augment_phone q l = (if truthy (lq_phone q) \<and> ld_phone l = []
     then (True, l\<lparr>ld_phone := or_list (lq_phone q) []\<rparr>) else (False, l))"

definition augment_existing :: "string \<Rightarrow> lead_request \<Rightarrow> lead \<Rightarrow> bool \<times> lead" where
  "augment_existing rep q l =
     (case augment_tags rep l of (c1, l1) \<Rightarrow> case augment_responses rep q l1 of (c2, l2) \<Rightarrow>
      case augment_phone q l2 of (c3, l3) \<Rightarrow> (c1 \<or> c2 \<or> c3, l3))"

record import_counts =
  ic_inserted :: nat
  ic_augmented :: nat
  ic_failed :: nat

text \<open>One address. A campaign that is absent or not active makes the row fail.\<close>

definition import_one ::
    "time \<Rightarrow> campaign table \<Rightarrow> string \<times> string \<times> lead_request \<Rightarrow> import_counts \<times> lead table \<Rightarrow> import_counts \<times> lead table" where
  "import_one now campaigns p w = (case (p, w) of ((_, rep, q), (n, t)) \<Rightarrow>
     (case Option.bind (get_by_slug campaigns NOG_SLUG) cg_id of
        None \<Rightarrow> (n\<lparr>ic_failed := ic_failed n + 1\<rparr>, t)
      | Some k \<Rightarrow>
        (case get_by_campaign_email t k (norm_email (lq_email q)) of
           Some l \<Rightarrow> (case augment_existing rep q l of (changed, l') \<Rightarrow>
             (n\<lparr>ic_augmented := ic_augmented n + 1\<rparr>, if changed then update_lead l' t else t))
         | None \<Rightarrow>
           (case capture_lead_created now id campaigns NOG_SLUG q t of
              Inl e \<Rightarrow> (n\<lparr>ic_failed := ic_failed n + 1\<rparr>, t)
            | Inr ((l, _), t') \<Rightarrow> (n\<lparr>ic_inserted := ic_inserted n + 1\<rparr>,
                update_lead (l\<lparr>ld_tags := Some (with_rep_tag (ld_tags l) rep)\<rparr>) t')))))"

definition import_all ::
    "time \<Rightarrow> campaign table \<Rightarrow> (string \<times> string \<times> lead_request) list \<Rightarrow> lead table \<Rightarrow> import_counts \<times> lead table" where
  "import_all now campaigns ps t =
     fold (import_one now campaigns) ps (\<lparr>ic_inserted = 0, ic_augmented = 0, ic_failed = 0\<rparr>, t)"

text \<open>The script: without \<open>--commit\<close> nothing is written; \<open>None\<close> is a crash while parsing.\<close>

definition rep_import_run ::
    "(string \<Rightarrow> int_float_error + int) \<Rightarrow> (string \<Rightarrow> bool) \<Rightarrow> time \<Rightarrow> campaign table
      \<Rightarrow> (string \<times> string list list) list \<Rightarrow> bool \<Rightarrow> lead table \<Rightarrow> (import_counts option \<times> lead table) option" where
  "rep_import_run int_float valid_email now campaigns tabs do_commit t =
     map_option (\<lambda>c. if do_commit then (case import_all now campaigns (co_payloads c) t of (n, t') \<Rightarrow> (Some n, t'))
       else (None, t)) (collect int_float valid_email tabs)"

subsection \<open>The two repairs\<close>

definition of_batch :: "int \<Rightarrow> lead \<Rightarrow> bool" where
  "of_batch k l \<longleftrightarrow> ld_campaign_id l = k \<and> ld_source l = ''rep_upload'' \<and> IMPORT_RUN_DAY \<le> ld_created_at l"

definition fix_phone :: "(string \<times> string \<times> lead_request) list \<Rightarrow> int \<Rightarrow> lead \<Rightarrow> lead" where
  "fix_phone ps k l = (case map_of ps (ld_email l) of
     Some (_, q) \<Rightarrow> if of_batch k l \<and> truthy (lq_phone q) then l\<lparr>ld_phone := or_list (lq_phone q) []\<rparr> else l
   | None \<Rightarrow> l)"

definition fix_phones :: "(string \<times> string \<times> lead_request) list \<Rightarrow> int \<Rightarrow> lead table \<Rightarrow> lead table" where
  "fix_phones ps k t = fold (\<lambda>l. update_lead (fix_phone ps k l))
     (list_for_campaign (no_filter\<lparr>f_campaign_id := Some k\<rparr>) 100000 0 t) t"

definition backdate_created :: "int \<Rightarrow> lead table \<Rightarrow> lead table" where
  "backdate_created k t = fold (\<lambda>l. if of_batch k l then update_lead (l\<lparr>ld_created_at := CAPTURED_AT\<rparr>) else id)
     (list_for_campaign (no_filter\<lparr>f_campaign_id := Some k\<rparr>) 100000 0 t) t"

end
