(* ===== verification/Rep_Import_Safety.thy ===== *)
theory Rep_Import_Safety
  imports Rep_Import Lead_Safety
begin

section \<open>The import can be run again\<close>

text \<open>
  Cleaning is idempotent; the rows of a sheet are written so that a second run changes
  nothing and a lead that was there is only added to. \<open>finished\<close> says that a row of the
  sheet has nothing left to do; every step keeps it for all rows.
\<close>

subsection \<open>Telephone numbers\<close>

definition phone_shape :: "string \<Rightarrow> bool" where
  "phone_shape s \<longleftrightarrow> list_all is_digit s \<or> (s \<noteq> [] \<and> hd s = CHR ''+'' \<and> tl s \<noteq> [] \<and> list_all is_digit (tl s))"

lemma digit_facts: "is_digit (CHR ''0'')" "\<not> is_digit (CHR ''+'')" "\<not> is_digit (CHR ''.'')"
  by (simp_all add: is_digit_def less_eq_char_def)

lemma digit_code: "is_digit c \<longleftrightarrow> (48::nat) \<le> of_char c \<and> of_char c \<le> (57::nat)"
  by (simp add: is_digit_def less_eq_char_def)

lemma digit_not_space: "is_digit c \<Longrightarrow> \<not> is_space c"
  by (simp add: digit_code is_space_def Let_def)

lemma digit_lower: "is_digit c \<Longrightarrow> lower_char c = c"
  by (simp add: digit_code lower_char_def less_eq_char_def)

lemma filter_digits: "list_all is_digit s \<Longrightarrow> filter is_digit s = s"
  by (induction s) auto

lemma hd_digit: "list_all is_digit s \<Longrightarrow> s \<noteq> [] \<Longrightarrow> hd s \<noteq> CHR ''+''"
  using digit_facts(2) by (cases s) auto

text \<open>What \<open>normal_phone\<close> makes of digits is digits or a plus sign and digits, and made again it is the same.\<close>

lemma normal_phone_fix:
  assumes d: "list_all is_digit d"
  shows "phone_shape (normal_phone pl d)"
    and "normal_phone (hd (normal_phone pl d) = CHR ''+'') (filter is_digit (normal_phone pl d)) = normal_phone pl d"
proof -
  let ?p = "normal_phone pl d" and ?b1 = "length d = 11 \<and> hd d = CHR ''0''"
    and ?b2 = "length d = 10 \<and> hd d \<in> set ''789''"
  consider "d = []" | "d \<noteq> []" "?b1" | "d \<noteq> []" "\<not> ?b1" "?b2"
    | "d \<noteq> []" "\<not> ?b1" "\<not> ?b2" "starts_with ''234'' d \<or> pl \<or> 11 \<le> length d"
    | "d \<noteq> []" "\<not> ?b1" "\<not> ?b2" "\<not> (starts_with ''234'' d \<or> pl \<or> 11 \<le> length d)" by argo
  then have "phone_shape ?p \<and> normal_phone (hd ?p = CHR ''+'') (filter is_digit ?p) = ?p"
  proof cases
    case 1 then show ?thesis by (simp add: normal_phone_def phone_shape_def)
  next
    case 2
    then have p: "normal_phone b d = d" for b by (simp add: normal_phone_def)
    show ?thesis unfolding p by (simp add: filter_digits [OF d] p phone_shape_def d)
  next
    case 3
    then have p: "normal_phone b d = CHR ''0'' # d" for b unfolding normal_phone_def by presburger
    have z: "list_all is_digit (CHR ''0'' # d)" using d digit_facts(1) by simp
    have "normal_phone b (CHR ''0'' # d) = CHR ''0'' # d" for b using 3(3) by (simp add: normal_phone_def)
    then show ?thesis unfolding p filter_digits [OF z] phone_shape_def using z by simp
  next
    case 4
    then have p: "normal_phone b d = CHR ''+'' # d" if "b \<or> b = pl" for b
      using that unfolding normal_phone_def by presburger
    have "filter is_digit (CHR ''+'' # d) = d" using filter_digits [OF d] digit_facts(2) by simp
    then show ?thesis using p [of pl] p [of True] 4(1) d by (simp add: phone_shape_def)
  next
    case 5
    then have "normal_phone pl d = d" "normal_phone False d = d" unfolding normal_phone_def by presburger+
    then show ?thesis using hd_digit [OF d 5(1)] by (simp add: filter_digits [OF d] phone_shape_def d)
  qed
  then show "phone_shape ?p" and "normal_phone (hd ?p = CHR ''+'') (filter is_digit ?p) = ?p" by simp_all
qed

lemma py_strip_solid:
  assumes "list_all (\<lambda>c. \<not> is_space c) s"
  shows "py_strip s = s"
proof -
  have drop: "list_all (\<lambda>c. \<not> is_space c) u \<Longrightarrow> dropWhile is_space u = u" for u by (cases u) auto
  have "list_all (\<lambda>c. \<not> is_space c) (rev s)" using assms by (simp add: list_all_iff)
  then show ?thesis using assms by (simp add: py_strip_def drop)
qed

lemma split_char_None: "c \<notin> set u \<Longrightarrow> split_char c u = None"
  by (induction u) auto

lemma shape_is_plain:
  assumes "phone_shape s"
  shows "list_all (\<lambda>c. is_digit c \<or> c = CHR ''+'') s"
  using assms by (cases s) (auto simp: phone_shape_def list_all_iff)

lemma plus_facts: "\<not> is_space (CHR ''+'')" "lower_char (CHR ''+'') = CHR ''+''"
  by (simp_all add: is_space_def lower_char_def less_eq_char_def Let_def)

lemma plain_is_solid: "list_all (\<lambda>c. is_digit c \<or> c = CHR ''+'') s \<Longrightarrow> list_all (\<lambda>c. \<not> is_space c) s"
  unfolding list_all_iff using digit_not_space plus_facts(1) by blast

lemma plain_no_float:
  assumes "list_all (\<lambda>c. is_digit c \<or> c = CHR ''+'') s"
  shows "\<not> float_shape s"
proof -
  have "CHR ''.'' \<notin> set s" using assms digit_facts(3) by (auto simp: list_all_iff)
  moreover have "py_lower s = s"
    using assms digit_lower plus_facts(2) unfolding py_lower_def list_all_iff by (intro map_idI) blast
  moreover have "CHR ''e'' \<notin> set s" using assms by (auto simp: list_all_iff digit_code)
  ultimately show ?thesis by (simp add: float_shape_def split_char_None)
qed

text \<open>C34: a telephone number of an imported lead is empty, digits, or a plus sign and digits, whatever
  was in the cell, and cleaning it again, as the repair of the numbers does, does not change it.\<close>

theorem clean_phone_normal_form:
  assumes "clean_phone int_float raw = Some p"
  shows "phone_shape p \<and> clean_phone int_float p = Some p"
proof -
  have "\<exists>pl d. list_all is_digit d \<and> p = normal_phone pl d"
  proof (cases "py_strip raw = []")
    case True
    with assms have "p = normal_phone False []" by (simp add: clean_phone_def Let_def normal_phone_def)
    then show ?thesis by (intro exI [of _ False] exI [of _ "[]"]) simp
  next
    case False
    with assms obtain v where "p = normal_phone (hd (py_strip raw) = CHR ''+'') (filter is_digit v)"
      unfolding clean_phone_def Let_def by (auto simp only: if_False map_option_eq_Some)
    moreover have "list_all is_digit (filter is_digit v)" by (simp add: list_all_iff)
    ultimately show ?thesis by blast
  qed
  then obtain pl d where p: "list_all is_digit d" "p = normal_phone pl d" by blast
  note norm = normal_phone_fix [OF p(1), of pl, folded p(2)]
  note plain = shape_is_plain [OF norm(1)]
  have "clean_phone int_float p = Some p"
    unfolding clean_phone_def Let_def py_strip_solid [OF plain_is_solid [OF plain]]
    using plain_no_float [OF plain] norm(2) by simp
  with norm(1) show ?thesis by simp
qed

theorem clean_phone_normal_form_witness:
  "clean_phone (\<lambda>_. Inl NotANumber) '' 802 352-9937'' = Some ''08023529937'' \<and> phone_shape ''08023529937'' \<and>
    clean_phone (\<lambda>_. Inl NotANumber) ''08023529937'' = Some ''08023529937''"
proof -
  have "clean_phone (\<lambda>_. Inl NotANumber) '' 802 352-9937'' = Some ''08023529937''" by code_simp
  from this clean_phone_normal_form [OF this] show ?thesis by blast
qed

subsection \<open>A lead is only added to\<close>

definition CAPTURED_BY :: string where "CAPTURED_BY = ''captured_by''"
definition IMPORT_BATCH :: string where "IMPORT_BATCH = ''import_batch''"

definition enriched :: "lead \<Rightarrow> lead \<Rightarrow> bool" where
  "enriched l l' \<longleftrightarrow> (\<exists>ts resp ph. l' = l\<lparr>ld_tags := ts, ld_responses := resp, ld_phone := ph\<rparr> \<and>
     set (or_list (ld_tags l) []) \<subseteq> set (or_list ts []) \<and>
     (json_truthy (json_get (ld_responses l) CAPTURED_BY) \<longrightarrow> resp = ld_responses l) \<and>
     (\<forall>k v. k \<noteq> CAPTURED_BY \<longrightarrow> map_of (ld_responses l) k = Some v \<longrightarrow> map_of resp k = Some v) \<and>
     (ld_phone l \<noteq> [] \<longrightarrow> ph = ld_phone l))"

lemma enriched_refl: "enriched l l"
  unfolding enriched_def by (intro exI [of _ "ld_tags l"] exI [of _ "ld_responses l"] exI [of _ "ld_phone l"]) simp

lemma enriched_trans: "enriched l m \<Longrightarrow> enriched m n \<Longrightarrow> enriched l n"
  unfolding enriched_def
proof (elim exE conjE)
  fix ts ts' and r r' :: "json dict" and ph ph'
  assume m: "m = l\<lparr>ld_tags := ts, ld_responses := r, ld_phone := ph\<rparr>"
    and n: "n = m\<lparr>ld_tags := ts', ld_responses := r', ld_phone := ph'\<rparr>"
    and t: "set (or_list (ld_tags l) []) \<subseteq> set (or_list ts [])" "set (or_list (ld_tags m) []) \<subseteq> set (or_list ts' [])"
    and c: "json_truthy (json_get (ld_responses l) CAPTURED_BY) \<longrightarrow> r = ld_responses l"
      "json_truthy (json_get (ld_responses m) CAPTURED_BY) \<longrightarrow> r' = ld_responses m"
    and k: "\<forall>k v. k \<noteq> CAPTURED_BY \<longrightarrow> map_of (ld_responses l) k = Some v \<longrightarrow> map_of r k = Some v"
      "\<forall>k v. k \<noteq> CAPTURED_BY \<longrightarrow> map_of (ld_responses m) k = Some v \<longrightarrow> map_of r' k = Some v"
    and p: "ld_phone l \<noteq> [] \<longrightarrow> ph = ld_phone l" "ld_phone m \<noteq> [] \<longrightarrow> ph' = ld_phone m"
  show "\<exists>ts resp ph. n = l\<lparr>ld_tags := ts, ld_responses := resp, ld_phone := ph\<rparr> \<and> set (or_list (ld_tags l) []) \<subseteq> set (or_list ts []) \<and>
      (json_truthy (json_get (ld_responses l) CAPTURED_BY) \<longrightarrow> resp = ld_responses l) \<and>
      (\<forall>k v. k \<noteq> CAPTURED_BY \<longrightarrow> map_of (ld_responses l) k = Some v \<longrightarrow> map_of resp k = Some v) \<and>
      (ld_phone l \<noteq> [] \<longrightarrow> ph = ld_phone l)"
  proof (intro exI [of _ ts'] exI [of _ r'] exI [of _ ph'] conjI)
    show "n = l\<lparr>ld_tags := ts', ld_responses := r', ld_phone := ph'\<rparr>" using m n by simp
    show "set (or_list (ld_tags l) []) \<subseteq> set (or_list ts' [])" using t m by auto
    show "json_truthy (json_get (ld_responses l) CAPTURED_BY) \<longrightarrow> r' = ld_responses l" using c m by auto
    show "\<forall>k v. k \<noteq> CAPTURED_BY \<longrightarrow> map_of (ld_responses l) k = Some v \<longrightarrow> map_of r' k = Some v" using k m by simp
    show "ld_phone l \<noteq> [] \<longrightarrow> ph' = ld_phone l" using p m by auto
  qed
qed

lemma enriched_same [simp]:
  "enriched l l' \<Longrightarrow> ld_id l' = ld_id l \<and> ld_campaign_id l' = ld_campaign_id l \<and> ld_email l' = ld_email l"
  by (auto simp: enriched_def)

lemma tag_step:
  assumes "augment_tags rep l = (c, l')"
  shows "enriched l l'" and "\<not> c \<Longrightarrow> l' = l" and "''Rep: '' @ rep \<in> set (or_list (ld_tags l') [])"
    and "ld_responses l' = ld_responses l" and "ld_phone l' = ld_phone l"
proof -
  let ?tag = "''Rep: '' @ rep" and ?ts = "or_list (ld_tags l) []"
  have or: "xs \<noteq> [] \<Longrightarrow> or_list (Some xs) [] = xs" for xs :: "string list" by (cases xs) auto
  have step: "(c, l') = (if ?tag \<in> set ?ts then (False, l) else (True, l\<lparr>ld_tags := Some (?ts @ [?tag])\<rparr>))"
    using assms unfolding augment_tags_def with_rep_tag_def Let_def by (cases "?tag \<in> set ?ts") simp_all
  consider "?tag \<in> set ?ts" "l' = l" "\<not> c" | "?tag \<notin> set ?ts" "l' = l\<lparr>ld_tags := Some (?ts @ [?tag])\<rparr>" "c"
    using step by (cases "?tag \<in> set ?ts") simp_all
  then have "enriched l l' \<and> (\<not> c \<longrightarrow> l' = l) \<and> ?tag \<in> set (or_list (ld_tags l') []) \<and> ld_responses l' = ld_responses l \<and> ld_phone l' = ld_phone l"
  proof cases
    case 1 then show ?thesis by (simp add: enriched_refl)
  next
    case 2
    have "enriched l l'" unfolding enriched_def 2(2)
      by (intro exI [of _ "Some (?ts @ [?tag])"] exI [of _ "ld_responses l"] exI [of _ "ld_phone l"]) auto
    with 2 show ?thesis by simp
  qed
  then show "enriched l l'" and "\<not> c \<Longrightarrow> l' = l" and "?tag \<in> set (or_list (ld_tags l') [])"
    and "ld_responses l' = ld_responses l" and "ld_phone l' = ld_phone l" by blast+
qed

text \<open>Who captured the lead is settled: someone, or the nameless rep of a sheet called \<open>DAY 1\<close>.\<close>

definition credited :: "string \<Rightarrow> json dict \<Rightarrow> bool" where
  "credited rep resp \<longleftrightarrow> json_truthy (json_get resp CAPTURED_BY) \<or>
     (rep = [] \<and> map_of resp CAPTURED_BY = Some (JStr []) \<and> map_of resp IMPORT_BATCH \<noteq> None)"

lemma keys_differ: "CAPTURED_BY \<noteq> IMPORT_BATCH"
  by (simp add: CAPTURED_BY_def IMPORT_BATCH_def)

lemma response_step:
  assumes "augment_responses rep q l = (c, l')"
  shows "enriched l l'" and "\<not> c \<Longrightarrow> l' = l" and "credited rep (ld_responses l')" and "ld_tags l' = ld_tags l"
    and "ld_phone l' = ld_phone l" and "credited r (ld_responses l) \<Longrightarrow> credited r (ld_responses l')"
    and "credited rep (ld_responses l) \<Longrightarrow> l' = l"
proof -
  let ?r = "ld_responses l"
  let ?r1 = "AList.update CAPTURED_BY (JStr rep) ?r"
  let ?r2 = "if map_of ?r1 IMPORT_BATCH \<noteq> None then ?r1 else ?r1 @ [(IMPORT_BATCH, json_get (lq_responses q) IMPORT_BATCH)]"
  have step: "(c, l') = (if json_truthy (json_get ?r CAPTURED_BY) then (False, l) else (True, l\<lparr>ld_responses := ?r2\<rparr>))"
    using assms unfolding augment_responses_def Let_def CAPTURED_BY_def IMPORT_BATCH_def by auto
  have "(enriched l l' \<and> (\<not> c \<longrightarrow> l' = l) \<and> credited rep (ld_responses l') \<and> ld_tags l' = ld_tags l \<and> ld_phone l' = ld_phone l) \<and>
      (credited r ?r \<longrightarrow> credited r (ld_responses l')) \<and> (credited rep ?r \<longrightarrow> l' = l)"
  proof (cases "json_truthy (json_get ?r CAPTURED_BY)")
    case True
    with step have "l' = l" by simp
    with True show ?thesis by (simp add: enriched_refl credited_def)
  next
    case False
    with step have l': "l' = l\<lparr>ld_responses := ?r2\<rparr>" and c by simp_all
    have by': "map_of ?r2 CAPTURED_BY = Some (JStr rep)" by (simp add: update_conv map_add_Some_iff)
    have batch: "map_of ?r2 IMPORT_BATCH \<noteq> None" by (auto simp: map_add_def split: option.splits)
    have others: "k \<noteq> CAPTURED_BY \<Longrightarrow> map_of ?r k = Some v \<Longrightarrow> map_of ?r2 k = Some v" for k v
      by (simp add: update_conv map_add_Some_iff)
    have "enriched l l'" unfolding enriched_def l'
      by (intro exI [of _ "ld_tags l"] exI [of _ ?r2] exI [of _ "ld_phone l"]) (use False others in auto)
    moreover have "credited rep ?r2"
      using by' batch by (auto simp: credited_def json_get_def)
    moreover have "credited r ?r \<longrightarrow> credited r ?r2"
      using False by' batch by (auto simp: credited_def json_get_def)
    moreover have "credited rep ?r \<longrightarrow> ?r2 = ?r"
      using False by (auto simp: credited_def update_triv)
    ultimately show ?thesis using l' \<open>c\<close> by simp
  qed
  then show "enriched l l'" and "\<not> c \<Longrightarrow> l' = l" and "credited rep (ld_responses l')" and "ld_tags l' = ld_tags l"
    and "ld_phone l' = ld_phone l" and "credited r (ld_responses l) \<Longrightarrow> credited r (ld_responses l')"
    and "credited rep (ld_responses l) \<Longrightarrow> l' = l" by blast+
qed

lemma phone_step:
  assumes "augment_phone q l = (c, l')"
  shows "enriched l l'" and "\<not> c \<Longrightarrow> l' = l" and "truthy (lq_phone q) \<Longrightarrow> ld_phone l' \<noteq> []" and "ld_tags l' = ld_tags l"
    and "ld_responses l' = ld_responses l" and "ld_phone l \<noteq> [] \<Longrightarrow> ld_phone l' \<noteq> []"
    and "(truthy (lq_phone q) \<Longrightarrow> ld_phone l \<noteq> []) \<Longrightarrow> l' = l"
proof -
  consider "l' = l" "\<not> c" "truthy (lq_phone q) \<Longrightarrow> ld_phone l \<noteq> []"
    | "l' = l\<lparr>ld_phone := or_list (lq_phone q) []\<rparr>" "c" "truthy (lq_phone q)" "ld_phone l = []"
    using assms unfolding augment_phone_def by (auto split: if_splits)
  then have "enriched l l' \<and> (\<not> c \<longrightarrow> l' = l) \<and> (truthy (lq_phone q) \<longrightarrow> ld_phone l' \<noteq> []) \<and> ld_tags l' = ld_tags l \<and>
     ld_responses l' = ld_responses l \<and> (ld_phone l \<noteq> [] \<longrightarrow> ld_phone l' \<noteq> []) \<and>
     ((truthy (lq_phone q) \<longrightarrow> ld_phone l \<noteq> []) \<longrightarrow> l' = l)"
  proof cases
    case 1 then show ?thesis by (auto simp: enriched_refl)
  next
    case 2
    have "enriched l l'" unfolding enriched_def 2(1)
      by (intro exI [of _ "ld_tags l"] exI [of _ "ld_responses l"] exI [of _ "or_list (lq_phone q) []"]) (use 2 in auto)
    with 2 show ?thesis by (auto simp: truthy_or_list)
  qed
  then show "enriched l l'" and "\<not> c \<Longrightarrow> l' = l" and "truthy (lq_phone q) \<Longrightarrow> ld_phone l' \<noteq> []" and "ld_tags l' = ld_tags l"
    and "ld_responses l' = ld_responses l" and "ld_phone l \<noteq> [] \<Longrightarrow> ld_phone l' \<noteq> []"
    and "(truthy (lq_phone q) \<Longrightarrow> ld_phone l \<noteq> []) \<Longrightarrow> l' = l" by blast+
qed

text \<open>A row of the sheet has nothing left to do for the lead.\<close>

definition attributed :: "string \<Rightarrow> lead_request \<Rightarrow> lead \<Rightarrow> bool" where
  "attributed rep q l \<longleftrightarrow> ''Rep: '' @ rep \<in> set (or_list (ld_tags l) []) \<and> credited rep (ld_responses l) \<and>
     (truthy (lq_phone q) \<longrightarrow> ld_phone l \<noteq> [])"

lemma augment_enriches:
  assumes "augment_existing rep q l = (c, l')"
  shows "enriched l l'" and "\<not> c \<Longrightarrow> l' = l" and "attributed rep q l'"
    and "attributed r p l \<Longrightarrow> attributed r p l'" and "attributed rep q l \<Longrightarrow> l' = l"
proof -
  obtain c1 l1 c2 l2 c3 where 1: "augment_tags rep l = (c1, l1)" and 2: "augment_responses rep q l1 = (c2, l2)"
    and 3: "augment_phone q l2 = (c3, l')" and c: "c = (c1 \<or> c2 \<or> c3)"
    using assms unfolding augment_existing_def by (auto split: prod.splits)
  note t = tag_step [OF 1] and r = response_step [OF 2] and ph = phone_step [OF 3]
  show "enriched l l'" using t(1) r(1) ph(1) by (blast intro: enriched_trans)
  show "l' = l" if "\<not> c" using that c t(2) r(2) ph(2) by blast
  show "attributed rep q l'" unfolding attributed_def using t(3) r(3,4) ph(3,4,5) by simp
  show "attributed r p l'" if "attributed r p l"
    using that t(1,4,5) r(4,5) r(6) [of r] ph(4,5,6) unfolding attributed_def enriched_def by auto
  show "l' = l" if a: "attributed rep q l"
  proof -
    have "l1 = l" using 1 a unfolding augment_tags_def with_rep_tag_def attributed_def Let_def by simp
    moreover have "l2 = l1" using a r(7) \<open>l1 = l\<close> unfolding attributed_def by blast
    ultimately show ?thesis using a ph(7) unfolding attributed_def by blast
  qed
qed

subsection \<open>One address, all addresses\<close>

definition from_sheet :: "string \<times> string \<times> lead_request \<Rightarrow> bool" where
  "from_sheet p = (case p of (_, rep, q) \<Rightarrow> map_of (lq_responses q) CAPTURED_BY = Some (JStr rep) \<and>
     map_of (lq_responses q) IMPORT_BATCH \<noteq> None)"

definition nog :: "campaign table \<Rightarrow> (campaign \<times> int) option" where
  "nog campaigns = (case get_by_slug campaigns NOG_SLUG of None \<Rightarrow> None
     | Some c \<Rightarrow> (case cg_id c of None \<Rightarrow> None | Some k \<Rightarrow> Some (c, k)))"

definition finished :: "campaign table \<Rightarrow> string \<times> string \<times> lead_request \<Rightarrow> lead table \<Rightarrow> bool" where
  "finished campaigns p t = (case p of (_, rep, q) \<Rightarrow> (case nog campaigns of None \<Rightarrow> True
     | Some (c, k) \<Rightarrow> (case get_by_campaign_email t k (norm_email (lq_email q)) of
          Some l \<Rightarrow> attributed rep q l
        | None \<Rightarrow> cg_status c \<noteq> CampaignActive)))"

definition enriches :: "lead table \<Rightarrow> lead table \<Rightarrow> bool" where
  "enriches t t' \<longleftrightarrow> (\<forall>l \<in> set (rows t). \<exists>l' \<in> set (rows t'). enriched l l')"

lemma enriches_refl: "enriches t t"
  unfolding enriches_def using enriched_refl by blast

lemma enriches_trans: "enriches t u \<Longrightarrow> enriches u v \<Longrightarrow> enriches t v"
  unfolding enriches_def using enriched_trans by meson

lemma ids_distinct: "ok_leads t \<Longrightarrow> x \<in> set (rows t) \<Longrightarrow> y \<in> set (rows t) \<Longrightarrow> ld_id x = ld_id y \<Longrightarrow> x = y"
  by (auto simp: ok_leads_def ok_table_def wf_table_def distinct_map dest: inj_onD)

lemma update_same: "ok_leads t \<Longrightarrow> l \<in> set (rows t) \<Longrightarrow> update_lead l t = t"
proof -
  assume "ok_leads t" and "l \<in> set (rows t)"
  then have "map (\<lambda>x. if ld_id x = ld_id l then l else x) (rows t) = rows t"
    using ids_distinct [of t _ l] by (intro map_idI) auto
  then show ?thesis by (simp add: update_lead_def tbl_update_def)
qed

text \<open>The lookup after one row was rewritten.\<close>

lemma find_after_update:
  assumes ok: "ok_leads t" and e: "e \<in> set (rows t)" and same: "ld_id l = ld_id e" "ld_campaign_id l = ld_campaign_id e" "ld_email l = ld_email e"
  shows "get_by_campaign_email (update_lead l t) k em =
    (if k = ld_campaign_id e \<and> em = ld_email e then Some l else get_by_campaign_email t k em)"
proof (cases "k = ld_campaign_id e \<and> em = ld_email e")
  case True then show ?thesis using ok_update_lead(2) [OF ok e same] by simp
next
  case False
  have row: "x \<in> set (rows t) \<Longrightarrow> (if ld_id x = ld_id l then l else x) = (if x = e then l else x)" for x
    using ids_distinct [OF ok] e same(1) by auto
  have "List.find P (map (\<lambda>x. if x = e then l else x) xs) = List.find P xs" if "\<not> P l" "\<not> P e" for P xs
    using that by (induction xs) auto
  moreover have "rows (update_lead l t) = map (\<lambda>x. if x = e then l else x) (rows t)"
    unfolding update_lead_def rows_tbl_update using row by (intro map_cong) auto
  ultimately show ?thesis using False same unfolding get_by_campaign_email_def by auto
qed

lemma update_enriches:
  assumes ok: "ok_leads t" and e: "e \<in> set (rows t)" and rich: "enriched e l"
  shows "enriches t (update_lead l t)"
  unfolding enriches_def
proof
  fix x assume x: "x \<in> set (rows t)"
  show "\<exists>l' \<in> set (rows (update_lead l t)). enriched x l'"
  proof (cases "x = e")
    case True
    have "l \<in> set (rows (update_lead l t))" using ok_update_lead(3) [OF ok e] rich by simp
    with True rich show ?thesis by blast
  next
    case False
    then have "ld_id x \<noteq> ld_id l" using ids_distinct [OF ok x e] rich by auto
    then have "x \<in> set (rows (update_lead l t))" using x by (force simp: update_lead_def)
    with enriched_refl show ?thesis by blast
  qed
qed

text \<open>What one step may do to the table.\<close>

lemma import_cases:
  assumes "import_one now campaigns (em, rep, q) (n, t) = (n', t')"
  obtains (idle) "t' = t" "nog campaigns = None \<or> (\<exists>c k. nog campaigns = Some (c, k) \<and> cg_status c \<noteq> CampaignActive \<and>
        get_by_campaign_email t k (norm_email (lq_email q)) = None)"
  | (old) c k l b l' where "nog campaigns = Some (c, k)" "get_by_campaign_email t k (norm_email (lq_email q)) = Some l"
      "augment_existing rep q l = (b, l')" "t' = (if b then update_lead l' t else t)"
  | (new) c k l t1 where "nog campaigns = Some (c, k)" "cg_status c = CampaignActive" "get_by_campaign_email t k (norm_email (lq_email q)) = None"
      "create_lead now (merge_payload now c q None (new_lead k (norm_email (lq_email q)))) t = Some (l, t1)"
      "t' = update_lead (l\<lparr>ld_tags := Some (with_rep_tag (ld_tags l) rep)\<rparr>) t1"
proof (cases "nog campaigns")
  case None
  then have "Option.bind (get_by_slug campaigns NOG_SLUG) cg_id = None" by (auto simp: nog_def split: option.splits)
  with assms None idle show ?thesis by (auto simp: import_one_def)
next
  case (Some ck)
  then obtain c k where ck: "nog campaigns = Some (c, k)" by (cases ck) auto
  then have slug: "get_by_slug campaigns NOG_SLUG = Some c" "cg_id c = Some k" by (auto simp: nog_def split: option.splits)
  show ?thesis
  proof (cases "get_by_campaign_email t k (norm_email (lq_email q))")
    case (Some l)
    obtain b l' where "augment_existing rep q l = (b, l')" by fastforce
    with assms slug Some old [OF ck Some] show ?thesis by (auto simp: import_one_def)
  next
    case none: None
    show ?thesis
    proof (cases "cg_status c = CampaignActive")
      case False
      with assms slug none ck idle show ?thesis by (auto simp: import_one_def capture_lead_created_def)
    next
      case True
      have "create_lead now (merge_payload now c q None (new_lead k (norm_email (lq_email q)))) t \<noteq> None"
        using none by (simp add: create_lead_def new_lead_def)
      then obtain l t1 where cr: "create_lead now (merge_payload now c q None (new_lead k (norm_email (lq_email q)))) t = Some (l, t1)" by auto
      have "capture_lead_created now id campaigns NOG_SLUG q t = Inr ((l, True), t1)"
        using True slug none cr by (simp add: capture_lead_created_def Let_def)
      with assms slug none new [OF ck True none cr] show ?thesis by (auto simp: import_one_def)
    qed
  qed
qed

lemma finished_update:
  assumes ok: "ok_leads t" and e: "e \<in> set (rows t)" and same: "ld_id l = ld_id e" "ld_campaign_id l = ld_campaign_id e" "ld_email l = ld_email e"
    and keep: "\<And>r q. attributed r q e \<Longrightarrow> attributed r q l" and fin: "finished campaigns p t"
  shows "finished campaigns p (update_lead l t)"
proof -
  have "get_by_campaign_email t (ld_campaign_id e) (ld_email e) = Some e"
    using ok e get_by_campaign_email_in by (simp add: ok_leads_def)
  note found = this find_after_update [OF ok e same]
  obtain em rep q where p: "p = (em, rep, q)" by (cases p) auto
  show ?thesis
  proof (cases "nog campaigns")
    case None then show ?thesis by (simp add: finished_def p)
  next
    case (Some ck)
    obtain c k where "ck = (c, k)" by fastforce
    then show ?thesis using fin keep [of rep q] found Some
      by (cases "k = ld_campaign_id e \<and> norm_email (lq_email q) = ld_email e") (auto simp: finished_def p)
  qed
qed

lemma import_step:
  assumes ok: "ok_leads t" and run: "import_one now campaigns p (n, t) = (n', t')" and sheet: "from_sheet p"
  shows "ok_leads t' \<and> enriches t t' \<and> finished campaigns p t' \<and> (\<forall>p'. finished campaigns p' t \<longrightarrow> finished campaigns p' t')"
proof -
  obtain em rep q where p: "p = (em, rep, q)" by (cases p) auto
  from run show ?thesis unfolding p
  proof (rule import_cases)
    assume "t' = t" and "nog campaigns = None \<or> (\<exists>c k. nog campaigns = Some (c, k) \<and> cg_status c \<noteq> CampaignActive \<and>
        get_by_campaign_email t k (norm_email (lq_email q)) = None)"
    then show "ok_leads t' \<and> enriches t t' \<and> finished campaigns (em, rep, q) t' \<and> (\<forall>p'. finished campaigns p' t \<longrightarrow> finished campaigns p' t')"
      using ok enriches_refl by (auto simp: finished_def)
  next
    fix c k b and l l' :: lead
    assume c: "nog campaigns = Some (c, k)" and l: "get_by_campaign_email t k (norm_email (lq_email q)) = Some l"
      and aug: "augment_existing rep q l = (b, l')" and t': "t' = (if b then update_lead l' t else t)"
    note in_t = get_by_campaign_email_Some [OF l] and a = augment_enriches [OF aug]
    have t'_eq: "t' = update_lead l' t"
      using t' a(2) update_same [OF ok, of l] in_t by auto
    have same: "ld_id l' = ld_id l" "ld_campaign_id l' = ld_campaign_id l" "ld_email l' = ld_email l" using a(1) by simp_all
    have "finished campaigns (em, rep, q) t'"
      using c a(3) in_t ok_update_lead(2) [OF ok conjunct1 [OF in_t] same] by (simp add: finished_def t'_eq)
    moreover have "finished campaigns p' t \<longrightarrow> finished campaigns p' t'" for p'
      using finished_update [OF ok conjunct1 [OF in_t] same a(4)] by (simp add: t'_eq)
    ultimately show "ok_leads t' \<and> enriches t t' \<and> finished campaigns (em, rep, q) t' \<and> (\<forall>p'. finished campaigns p' t \<longrightarrow> finished campaigns p' t')"
      using ok_update_lead(1) [OF ok conjunct1 [OF in_t] same] update_enriches [OF ok conjunct1 [OF in_t] a(1)] t'_eq by simp
  next
    fix c k and l :: lead and t1
    let ?em = "norm_email (lq_email q)" and ?l = "l\<lparr>ld_tags := Some (with_rep_tag (ld_tags l) rep)\<rparr>"
    assume c: "nog campaigns = Some (c, k)" and active: "cg_status c = CampaignActive" and none: "get_by_campaign_email t k ?em = None"
      and cr: "create_lead now (merge_payload now c q None (new_lead k ?em)) t = Some (l, t1)"
      and t': "t' = update_lead ?l t1"
    note new = create_lead_Some [OF ok cr]
    have l: "ld_campaign_id l = k" "ld_email l = ?em" "ld_responses l = lq_responses q" "ld_phone l = or_list (lq_phone q) []"
      using new(4) by (simp_all add: set_ld_id_def new_lead_def merge_payload_def apply_payload_def recompute_score_def Let_def)
    have same: "ld_id ?l = ld_id l" "ld_campaign_id ?l = ld_campaign_id l" "ld_email ?l = ld_email l" by simp_all
    note found = find_after_update [OF new(1) new(2) same]
    have tag: "''Rep: '' @ rep \<in> set (or_list (ld_tags ?l) [])"
      by (simp add: with_rep_tag_def Let_def)
    have "attributed rep q ?l"
      using sheet tag l(3,4) by (auto simp: attributed_def from_sheet_def p credited_def json_get_def truthy_or_list)
    then have fin: "finished campaigns (em, rep, q) t'" using c found l by (simp add: finished_def t')
    have rows1: "get_by_campaign_email t1 k' e' = (case get_by_campaign_email t k' e' of Some x \<Rightarrow> Some x
        | None \<Rightarrow> if k' = k \<and> e' = ?em then Some l else None)" for k' e'
      using l(1,2) by (simp add: get_by_campaign_email_def new(5) find_append split: option.splits)
    have "finished campaigns p' t \<longrightarrow> finished campaigns p' t'" for p'
    proof
      assume f: "finished campaigns p' t"
      obtain em' r' q' where p': "p' = (em', r', q')" by (cases p') auto
      show "finished campaigns p' t'"
      proof (cases "norm_email (lq_email q') = ?em")
        case True
        with f none c active show ?thesis by (simp add: finished_def p')
      next
        case False
        with f c show ?thesis by (auto simp: finished_def p' t' found l rows1 split: option.splits)
      qed
    qed
    moreover have "enriches t t1" unfolding enriches_def new(5) using enriched_refl by fastforce
    moreover have "enriched l ?l"
      unfolding enriched_def
      by (intro exI [of _ "Some (with_rep_tag (ld_tags l) rep)"] exI [of _ "ld_responses l"] exI [of _ "ld_phone l"])
        (auto simp: with_rep_tag_def Let_def)
    ultimately show "ok_leads t' \<and> enriches t t' \<and> finished campaigns (em, rep, q) t' \<and> (\<forall>p'. finished campaigns p' t \<longrightarrow> finished campaigns p' t')"
      using fin ok_update_lead(1) [OF new(1) new(2) same] update_enriches [OF new(1) new(2)] enriches_trans t' by blast
  qed
qed

lemma row_from_sheet:
  assumes "row_to_payload int_float valid_email rep row = Row q"
  shows "from_sheet (em, rep, q)"
  using assms
  unfolding row_to_payload_def Let_def from_sheet_def CAPTURED_BY_def IMPORT_BATCH_def
  by (simp split: if_splits option.splits prod.splits) (simp split: if_splits | clarsimp)+

lemma collect_rows_from_sheet:
  "(\<And>row q em. conv row = Row q \<Longrightarrow> from_sheet (em, rep, q)) \<Longrightarrow> collect_rows conv rep rs acc = Some c \<Longrightarrow>
     list_all from_sheet (co_payloads acc) \<Longrightarrow> list_all from_sheet (co_payloads c)"
proof (induction rs arbitrary: acc)
  case Nil then show ?case by simp
next
  case (Cons row rs)
  show ?case
  proof (cases "\<forall>x \<in> set row. py_strip x = []")
    case True with Cons show ?thesis by simp
  next
    case False
    show ?thesis
    proof (cases "conv row")
      case Crash with Cons.prems False show ?thesis by simp
    next
      case (Skip r) with Cons.prems False show ?thesis by (auto dest!: Cons.IH [rotated])
    next
      case (Row q)
      then have "from_sheet (lq_email q, rep, q)" by (rule Cons.prems(1))
      with Row Cons.prems False show ?thesis by (auto dest!: Cons.IH [rotated] split: if_splits)
    qed
  qed
qed

lemma collect_from_sheet:
  assumes "collect int_float valid_email tabs = Some c"
  shows "list_all from_sheet (co_payloads c)"
proof -
  have "collect_tabs (row_to_payload int_float valid_email) ts acc = Some c \<Longrightarrow> list_all from_sheet (co_payloads acc) \<Longrightarrow>
      list_all from_sheet (co_payloads c)" for ts acc
  proof (induction ts arbitrary: acc)
    case Nil then show ?case by simp
  next
    case (Cons tr ts)
    obtain tab rs where tr: "tr = (tab, rs)" by (cases tr)
    from Cons.prems(1) obtain acc' where 1: "collect_rows (row_to_payload int_float valid_email (rep_name tab)) (rep_name tab)
          (drop DATA_START_ROW rs) acc = Some acc'" and 2: "collect_tabs (row_to_payload int_float valid_email) ts acc' = Some c"
      by (auto simp: tr bind_eq_Some_conv)
    have "list_all from_sheet (co_payloads acc')"
      using row_from_sheet 1 Cons.prems(2) by (rule collect_rows_from_sheet)
    with Cons.IH [OF 2] show ?case by blast
  qed
  with assms show ?thesis by (simp add: collect_def)
qed

lemma import_all_settles:
  "list_all from_sheet ps \<Longrightarrow> ok_leads t \<Longrightarrow> fold (import_one now campaigns) ps (n, t) = (n', t') \<Longrightarrow>
     ok_leads t' \<and> enriches t t' \<and> list_all (\<lambda>p. finished campaigns p t') ps \<and>
     (\<forall>p. finished campaigns p t \<longrightarrow> finished campaigns p t')"
proof (induction ps arbitrary: n t)
  case Nil then show ?case by (simp add: enriches_refl)
next
  case (Cons p ps)
  obtain m u where u: "import_one now campaigns p (n, t) = (m, u)" by fastforce
  have 1: "ok_leads u \<and> enriches t u \<and> finished campaigns p u \<and> (\<forall>p'. finished campaigns p' t \<longrightarrow> finished campaigns p' u)"
    using import_step [OF Cons.prems(2) u] Cons.prems(1) by simp
  have 2: "ok_leads t' \<and> enriches u t' \<and> list_all (\<lambda>p. finished campaigns p t') ps \<and>
     (\<forall>p. finished campaigns p u \<longrightarrow> finished campaigns p t')"
    using Cons.IH [of u m] Cons.prems(1,3) u 1 by simp
  from 1 2 have "finished campaigns p t'" "\<forall>p'. finished campaigns p' t \<longrightarrow> finished campaigns p' t'" by blast+
  moreover have "enriches t t'" using 1 2 enriches_trans by blast
  ultimately show ?case using 2 by simp
qed

lemma finished_import_idle:
  assumes ok: "ok_leads t" and fin: "finished campaigns p t" and run: "import_one now campaigns p (n, t) = (n', t')"
  shows "t' = t"
proof -
  obtain em rep q where p: "p = (em, rep, q)" by (cases p) auto
  from run show ?thesis unfolding p
  proof (rule import_cases)
    fix c k b and l l' :: lead
    assume c: "nog campaigns = Some (c, k)" and l: "get_by_campaign_email t k (norm_email (lq_email q)) = Some l"
      and aug: "augment_existing rep q l = (b, l')" and t': "t' = (if b then update_lead l' t else t)"
    have "l' = l" using fin c l augment_enriches(5) [OF aug] by (simp add: finished_def p)
    with t' update_same [OF ok, of l] get_by_campaign_email_Some [OF l] show "t' = t" by simp
  next
    fix c k and l :: lead and t1
    assume "nog campaigns = Some (c, k)" "cg_status c = CampaignActive" "get_by_campaign_email t k (norm_email (lq_email q)) = None"
    with fin show "t' = t" by (simp add: finished_def p)
  qed
qed

lemma import_all_idle:
  "ok_leads t \<Longrightarrow> list_all (\<lambda>p. finished campaigns p t) ps \<Longrightarrow> fold (import_one now campaigns) ps (n, t) = (n', t') \<Longrightarrow> t' = t"
proof (induction ps arbitrary: n)
  case Nil then show ?case by simp
next
  case (Cons p ps)
  obtain m u where u: "import_one now campaigns p (n, t) = (m, u)" by fastforce
  have "u = t" using finished_import_idle [OF Cons.prems(1) _ u] Cons.prems(2) by simp
  with Cons.IH [of m] Cons.prems u show ?case by simp
qed

text \<open>C35: the import of the reps' sheet only adds to what is there, and can be run again: every lead
  of the table is kept with its key, its tags, its telephone number, its answers and who
  captured it, one row per campaign and e-mail remains, and a second run of the same sheet,
  at any time, leaves the table as it is.\<close>

theorem rep_import_is_safe_to_rerun:
  assumes ok: "ok_leads t"
    and run: "rep_import_run int_float valid_email now campaigns tabs True t = Some (n, t')"
    and again: "rep_import_run int_float valid_email now2 campaigns tabs True t' = Some (n2, t2)"
  shows "ok_leads t' \<and> enriches t t' \<and> t2 = t'"
proof -
  from run obtain c where c: "collect int_float valid_email tabs = Some c" by (auto simp: rep_import_run_def)
  obtain m u where 1: "import_all now campaigns (co_payloads c) t = (m, u)" by fastforce
  obtain m2 u2 where 2: "import_all now2 campaigns (co_payloads c) t' = (m2, u2)" by fastforce
  have "u = t'" "u2 = t2" using run again c 1 2 by (simp_all add: rep_import_run_def)
  note 1 = 1 [unfolded this] and 2 = 2 [unfolded this]
  note s = import_all_settles [OF collect_from_sheet [OF c] ok 1 [unfolded import_all_def]]
  from s import_all_idle [OF _ _ 2 [unfolded import_all_def]] show ?thesis by blast
qed

definition witness_tabs :: "(string \<times> string list list) list" where
  "witness_tabs = [(''FAVOUR- DAY 1'', [[], [], [], [], [[], ''Engr.Vincent Agoha,MNSE'', ''Acme'', [], ''V@acme.ng/'', ''8023529937'',
     [], ''Yes'', ''office space'', []]])]"

theorem rep_import_is_safe_to_rerun_witness:
  "\<exists>n t' n2. rep_import_run (\<lambda>_. Inl NotANumber) (\<lambda>_. True) 7 witness_campaigns witness_tabs True empty_table = Some (n, t') \<and>
     rep_import_run (\<lambda>_. Inl NotANumber) (\<lambda>_. True) 9 witness_campaigns witness_tabs True t' = Some (n2, t') \<and>
     map (\<lambda>l. (ld_first_name l, ld_last_name l, ld_phone l)) (rows t') = [(''Vincent'', ''Agoha'', ''08023529937'')]"
proof -
  let ?run = "\<lambda>now. rep_import_run (\<lambda>_. Inl NotANumber) (\<lambda>_. True) now witness_campaigns witness_tabs True"
  have "map_option (\<lambda>(n, t). map (\<lambda>l. (ld_first_name l, ld_last_name l, ld_phone l)) (rows t)) (?run 7 empty_table) =
      Some [(''Vincent'', ''Agoha'', ''08023529937'')]" by code_simp
  then obtain n t' where 1: "?run 7 empty_table = Some (n, t')"
    and r: "map (\<lambda>l. (ld_first_name l, ld_last_name l, ld_phone l)) (rows t') = [(''Vincent'', ''Agoha'', ''08023529937'')]"
    by (auto simp: map_option_eq_Some)
  have "?run 9 t' \<noteq> None" using 1 by (auto simp: rep_import_run_def)
  then obtain n2 t2 where 2: "?run 9 t' = Some (n2, t2)" by fastforce
  have "t2 = t'" using rep_import_is_safe_to_rerun [OF ok_empty_leads 1 2] by blast
  with 1 2 r show ?thesis by (intro exI [of _ n] exI [of _ t'] exI [of _ n2]) simp
qed

subsection \<open>Order of the repairs, and one bad cell\<close>

text \<open>Backdating puts a lead before the day by which the repair of the numbers knows its batch.\<close>

lemma backdated_is_not_repaired: "fix_phone ps k (l\<lparr>ld_created_at := CAPTURED_AT\<rparr>) = l\<lparr>ld_created_at := CAPTURED_AT\<rparr>"
  by (simp add: fix_phone_def of_batch_def CAPTURED_AT_def IMPORT_RUN_DAY_def split: option.splits prod.splits)

text \<open>A number too large for a float in one cell ends the import before anything is written.\<close>

lemma one_huge_number_ends_import:
  "rep_import_run (\<lambda>_. Inl TooLarge) (\<lambda>_. True) now campaigns
     [(''FAVOUR- DAY 1'', [[], [], [], [], [[], ''Ada Obi'', [], [], ''a@x.ng'', ''9E999''], [[], ''Bo Eze'', [], [], ''b@x.ng'', []]])] b t = None"
proof -
  have "collect (\<lambda>_. Inl TooLarge) (\<lambda>_. True) [(''FAVOUR- DAY 1'', [[], [], [], [], [[], ''Ada Obi'', [], [], ''a@x.ng'', ''9E999''],
      [[], ''Bo Eze'', [], [], ''b@x.ng'', []]])] = None" by code_simp
  then show ?thesis by (simp add: rep_import_run_def)
qed

end
