(* ===== verification/Lead_Scripts.thy ===== *)
theory Lead_Scripts
  imports Rep_Import Prospecting
begin

section \<open>Maintenance of the leads\<close>

text \<open>
  Model of the scripts \<open>enrich_leads.py\<close>, \<open>score_leads_icp.py\<close>, \<open>send_nog_reconnect.py\<close>,
  \<open>assign_owners.py\<close>, \<open>backfill_engagement_scores.py\<close>, \<open>backfill_icp_crm_fields.py\<close> and
  \<open>backfill_nog_crm_fields.py\<close>. A script loads the leads once and then writes single columns
  of them, while the service goes on: \<open>rival i\<close> is what the service does to the table before
  the \<open>i\<close>-th write. What Apollo, the language model and SendGrid answer are arguments.
\<close>

subsection \<open>Writing one column\<close>

definition set_responses :: "lead \<Rightarrow> json dict \<Rightarrow> lead table \<Rightarrow> lead table" where
  "set_responses l r t = t\<lparr>rows := map (\<lambda>x. if ld_id x = ld_id l then x\<lparr>ld_responses := r\<rparr> else x) (rows t)\<rparr>"

definition set_icp :: "icp_result \<Rightarrow> lead \<Rightarrow> lead \<Rightarrow> lead" where
  "set_icp r l x = (if ld_id x = ld_id l
     then x\<lparr>ld_icp_score := Some (ir_icp_score r), ld_icp_tier := Some (ir_lead_tier r), ld_icp_rationale := Some (ir_rationale r)\<rparr>
     else x)"

definition apply_result :: "icp_result \<Rightarrow> lead \<Rightarrow> lead table \<Rightarrow> lead table" where
  "apply_result r l t = t\<lparr>rows := map (set_icp r l) (rows t)\<rparr>"

text \<open>\<open>select(Lead).order_by(Lead.id)\<close>, with a limit if it is given and not zero.\<close>

definition leads_by_id :: "nat option \<Rightarrow> lead table \<Rightarrow> lead list" where
  "leads_by_id limit t = (let ls = sort_key (\<lambda>l. default (ld_id l) 0) (rows t)
     in case limit of None \<Rightarrow> ls | Some n \<Rightarrow> if n = 0 then ls else take n ls)"

text \<open>\<open>d.setdefault(key, []).append(x)\<close>.\<close>

fun append_to :: "'k \<Rightarrow> 'a \<Rightarrow> ('k \<times> 'a list) list \<Rightarrow> ('k \<times> 'a list) list" where
  "append_to k x [] = [(k, [x])]"
| "append_to k x ((k', xs) # d) = (if k' = k then (k', xs @ [x]) # d else (k', xs) # append_to k x d)"

subsection \<open>Firmographic data\<close>

definition FREE_EMAIL_DOMAINS :: "string list" where
  "FREE_EMAIL_DOMAINS = [''gmail.com'', ''yahoo.com'', ''hotmail.com'', ''outlook.com'', ''icloud.com'', ''aol.com'',
     ''yahoo.co.uk'', ''live.com'', ''protonmail.com'', ''ymail.com'', ''googlemail.com'', ''msn.com'']"

definition KEPT_FIELDS :: "string list" where
  "KEPT_FIELDS = [''estimated_num_employees'', ''annual_revenue'', ''annual_revenue_printed'',
     ''organization_revenue_printed'', ''industry'', ''industries'', ''keywords'', ''country'', ''city'',
     ''linkedin_url'', ''short_description'', ''founded_year'', ''publicly_traded_symbol'']"

text \<open>\<open>email.rsplit("@", 1)[-1]\<close>.\<close>

definition after_at :: "string \<Rightarrow> string" where
  "after_at e = rev (takeWhile (\<lambda>c. c \<noteq> CHR ''@'') (rev e))"

definition domain_from_email :: "string \<Rightarrow> string option" where
  "domain_from_email e = (let d = py_lower (py_strip (after_at e)) in
     if d = [] \<or> d \<in> set FREE_EMAIL_DOMAINS then None else Some d)"

text \<open>One answer of Apollo: its status and its body as JSON (\<open>None\<close>: none), or a failure of the transport.\<close>

datatype apollo_answer = ApolloAnswer nat "json option" | ApolloUnreachable

datatype apollo_outcome = OrgFound "json dict" | OrgUnknown | Retryable | QuotaExhausted | OrgError

definition read_org :: "json option \<Rightarrow> apollo_outcome" where
  "read_org body = (case body of Some (JObj d) \<Rightarrow> (let org = json_get d ''organization'' in
       if \<not> json_truthy org then OrgUnknown
       else case org of JObj o' \<Rightarrow> OrgFound (List.map_filter (\<lambda>k. if json_get o' k = JNull then None else Some (k, json_get o' k)) KEPT_FIELDS)
         | _ \<Rightarrow> OrgError)
     | _ \<Rightarrow> OrgError)"

definition apollo_once :: "apollo_answer \<Rightarrow> apollo_outcome" where
  "apollo_once a = (case a of ApolloUnreachable \<Rightarrow> OrgError
     | ApolloAnswer code body \<Rightarrow>
         if code = 429 then Retryable else if code \<in> {401, 403} then QuotaExhausted
         else if 500 \<le> code then Retryable else if \<not> (200 \<le> code \<and> code < 300) then OrgError else read_org body)"

text \<open>Four attempts; the last retryable error is raised.\<close>

fun enrich_attempts :: "nat \<Rightarrow> (nat \<Rightarrow> apollo_answer) \<Rightarrow> nat \<Rightarrow> apollo_outcome" where
  "enrich_attempts 0 ask n = OrgError"
| "enrich_attempts (Suc k) ask n = (case apollo_once (ask n) of
     Retryable \<Rightarrow> enrich_attempts k ask (Suc n) | r \<Rightarrow> r)"

definition enrich_domain :: "(nat \<Rightarrow> apollo_answer) \<Rightarrow> apollo_outcome" where
  "enrich_domain ask = enrich_attempts 4 ask 1"

fun group_by_domain :: "lead list \<Rightarrow> (string \<times> lead list) list \<Rightarrow> (string \<times> lead list) list" where
  "group_by_domain [] d = d"
| "group_by_domain (l # ls) d = group_by_domain ls (case (if ld_email l = [] then None else domain_from_email (ld_email l)) of
     None \<Rightarrow> d | Some k \<Rightarrow> append_to k l d)"

definition unenriched :: "lead list \<Rightarrow> lead list" where
  "unenriched ls = filter (\<lambda>l. map_of (ld_responses l) ''enrichment'' = None) ls"

record enrich_counts =
  ec_found :: nat
  ec_not_found :: nat
  ec_failed :: nat

definition enrichment_of :: "json dict \<Rightarrow> string \<Rightarrow> string \<Rightarrow> json" where
  "enrichment_of org dom_name stamp = JObj (AList.update ''enriched_at'' (JStr stamp) (AList.update ''domain'' (JStr dom_name) org))"

text \<open>The answers written are those that were read at the start.\<close>

definition write_enrichment :: "json \<Rightarrow> lead \<Rightarrow> lead table \<Rightarrow> lead table" where
  "write_enrichment e l t = set_responses l (AList.update ''enrichment'' e (ld_responses l)) t"

fun enrich_groups ::
    "(string \<Rightarrow> nat \<Rightarrow> apollo_answer) \<Rightarrow> (nat \<Rightarrow> string) \<Rightarrow> (nat \<Rightarrow> lead table \<Rightarrow> lead table) \<Rightarrow> nat
      \<Rightarrow> (string \<times> lead list) list \<Rightarrow> enrich_counts \<times> lead table \<Rightarrow> enrich_counts \<times> lead table" where
  "enrich_groups apollo stamp rival i [] w = w"
| "enrich_groups apollo stamp rival i ((d, g) # gs) (n, t) = (let t1 = rival i t in
     case enrich_domain (apollo d) of
       QuotaExhausted \<Rightarrow> (n, t1)
     | OrgFound org \<Rightarrow> enrich_groups apollo stamp rival (Suc i) gs (n\<lparr>ec_found := ec_found n + length g\<rparr>,
         fold (write_enrichment (enrichment_of org d (stamp i))) g t1)
     | OrgUnknown \<Rightarrow> enrich_groups apollo stamp rival (Suc i) gs (n\<lparr>ec_not_found := ec_not_found n + length g\<rparr>, t1)
     | _ \<Rightarrow> enrich_groups apollo stamp rival (Suc i) gs (n\<lparr>ec_failed := ec_failed n + length g\<rparr>, t1))"

definition enrich_run ::
    "string \<Rightarrow> (string \<Rightarrow> nat \<Rightarrow> apollo_answer) \<Rightarrow> (nat \<Rightarrow> string) \<Rightarrow> (nat \<Rightarrow> lead table \<Rightarrow> lead table) \<Rightarrow> bool \<Rightarrow> nat option
      \<Rightarrow> lead table \<Rightarrow> enrich_counts option \<times> lead table" where
  "enrich_run api_key apollo stamp rival do_commit limit t =
     (if \<not> do_commit \<or> api_key = [] then (None, t)
      else case enrich_groups apollo stamp rival 0 (group_by_domain (unenriched (leads_by_id limit t)) [])
        (\<lparr>ec_found = 0, ec_not_found = 0, ec_failed = 0\<rparr>, t) of (n, t') \<Rightarrow> (Some n, t'))"

subsection \<open>ICP scores\<close>

definition NO_DATA_RESULT :: icp_result where
  "NO_DATA_RESULT = \<lparr>ir_industry_score = 0, ir_financial_capacity_score = 0, ir_footprint_score = 0, ir_trigger_score = 0,
     ir_icp_score = 0, ir_lead_tier = ''Skip'', ir_trigger_event = ''None identified'',
     ir_rationale = concat [''No company data available (personal/free email address, or the domain returned nothing from Apollo) '',
       em_dash, '' scored per the rubric's own 'no company data available' anchor rather than guessing.''],
     ir_residential = False\<rparr>"

text \<open>The key of a lead's company; a value without hash or an \<open>enrichment\<close> that is no object raises.\<close>

definition company_key :: "lead \<Rightarrow> json option" where
  "company_key l = (case json_get (ld_responses l) ''enrichment'' of
     JObj e \<Rightarrow> (let k = json_or (json_get e ''domain'') (JStr (after_at (ld_email l)))
       in case k of JList _ \<Rightarrow> None | JObj _ \<Rightarrow> None | _ \<Rightarrow> Some k)
   | _ \<Rightarrow> None)"

fun split_pending :: "lead list \<Rightarrow> lead list \<Rightarrow> (json \<times> lead list) list \<Rightarrow> (lead list \<times> (json \<times> lead list) list) option" where
  "split_pending [] nd d = Some (nd, d)"
| "split_pending (l # ls) nd d =
     (if \<not> json_truthy (json_get (ld_responses l) ''enrichment'') then split_pending ls (nd @ [l]) d
      else Option.bind (company_key l) (\<lambda>k. split_pending ls nd (append_to k l d)))"

definition unscored :: "lead list \<Rightarrow> lead list" where
  "unscored ls = filter (\<lambda>l. ld_icp_score l = None) ls"

text \<open>One call per company, with its first lead; the result goes to all of them.\<close>

fun score_groups ::
    "(lead \<Rightarrow> icp_result option) \<Rightarrow> (json \<times> lead list) list \<Rightarrow> nat \<times> nat \<times> lead table \<Rightarrow> nat \<times> nat \<times> lead table" where
  "score_groups score [] w = w"
| "score_groups score ((d, g) # gs) (ok, failed, t) = (case score (hd g) of
     None \<Rightarrow> score_groups score gs (ok, failed + length g, t)
   | Some r \<Rightarrow> score_groups score gs (ok + length g, failed, fold (apply_result r) g t))"

text \<open>\<open>None\<close>: the script ends with an exception before it writes.\<close>

definition score_run ::
    "string \<Rightarrow> (lead \<Rightarrow> icp_result option) \<Rightarrow> bool \<Rightarrow> nat option \<Rightarrow> lead table \<Rightarrow> ((nat \<times> nat) option \<times> lead table) option" where
  "score_run api_key score do_commit limit t =
     (if do_commit \<and> api_key = [] then Some (None, t)
      else Option.bind (split_pending (unscored (leads_by_id limit t)) [] []) (\<lambda>(nd, d).
        if \<not> do_commit then Some (None, t)
        else case score_groups score d (0, 0, fold (apply_result NO_DATA_RESULT) nd t) of
          (ok, failed, t') \<Rightarrow> Some (Some (ok + length nd, failed), t')))"

subsection \<open>The reconnect broadcast\<close>

definition SENT_KEY :: string where "SENT_KEY = ''reconnect_sent_at''"

definition reconnect_valid_email :: "string \<Rightarrow> bool" where
  "reconnect_valid_email e \<longleftrightarrow> e \<noteq> [] \<and> email_re (py_strip e)"

definition reconnect_eligible :: "bool \<Rightarrow> nat option \<Rightarrow> lead list \<Rightarrow> lead list" where
  "reconnect_eligible resend limit ls =
     (let es = filter (\<lambda>l. reconnect_valid_email (ld_email l) \<and> (resend \<or> \<not> json_truthy (json_get (ld_responses l) SENT_KEY))) ls
      in case limit of None \<Rightarrow> es | Some n \<Rightarrow> take n es)"

fun reconnect_sends ::
    "settings \<Rightarrow> poster \<Rightarrow> string list \<Rightarrow> (nat \<Rightarrow> string) \<Rightarrow> (nat \<Rightarrow> lead table \<Rightarrow> lead table) \<Rightarrow> nat \<Rightarrow> lead list
      \<Rightarrow> nat \<times> nat \<times> lead table \<times> mail list \<Rightarrow> nat \<times> nat \<times> lead table \<times> mail list" where
  "reconnect_sends cfg post cc stamp rival i [] w = w"
| "reconnect_sends cfg post cc stamp rival i (l # ls) (sent, failed, t, mails) = (let t1 = rival i t in
     case send_reconnect cfg post cc l mails of
       (True, mails') \<Rightarrow> reconnect_sends cfg post cc stamp rival (Suc i) ls
         (sent + 1, failed, set_responses l (AList.update SENT_KEY (JStr (stamp i)) (ld_responses l)) t1, mails')
     | (False, mails') \<Rightarrow> reconnect_sends cfg post cc stamp rival (Suc i) ls (sent, failed + 1, t1, mails'))"

definition reconnect_run ::
    "settings \<Rightarrow> poster \<Rightarrow> campaign table \<Rightarrow> string \<Rightarrow> bool \<Rightarrow> bool \<Rightarrow> nat option \<Rightarrow> string list \<Rightarrow> (nat \<Rightarrow> string)
      \<Rightarrow> (nat \<Rightarrow> lead table \<Rightarrow> lead table) \<Rightarrow> lead table \<times> mail list \<Rightarrow> (nat \<times> nat) option \<times> lead table \<times> mail list" where
  "reconnect_run cfg post campaigns image_url do_commit resend limit cc stamp rival w =
     (case Option.bind (get_by_slug campaigns NOG_SLUG) cg_id of
        None \<Rightarrow> (None, w)
      | Some k \<Rightarrow> if \<not> do_commit \<or> image_url = [] then (None, w)
          else (case reconnect_sends cfg post cc stamp rival 0
              (reconnect_eligible resend limit (list_for_campaign (no_filter\<lparr>f_campaign_id := Some k\<rparr>) 100000 0 (fst w)))
              (0, 0, w) of (sent, failed, w') \<Rightarrow> (Some (sent, failed), w')))"

text \<open>\<open>--test\<close>: one mail for a lead that is never stored, so it carries no lead id.\<close>

definition send_test ::
    "settings \<Rightarrow> poster \<Rightarrow> campaign table \<Rightarrow> string \<Rightarrow> string \<Rightarrow> string list \<Rightarrow> mail list \<Rightarrow> mail list" where
  "send_test cfg post campaigns to_email first_name cc mails = (case get_by_slug campaigns NOG_SLUG of
     None \<Rightarrow> mails
   | Some c \<Rightarrow> snd (send_reconnect cfg post cc
       ((new_lead (default (cg_id c) 0) to_email)\<lparr>ld_first_name := first_name\<rparr>) mails))"

subsection \<open>Backfills\<close>

definition score_bucket :: "int \<Rightarrow> string" where
  "score_bucket n = (if n < 20 then ''0-19'' else if n < 40 then ''20-39'' else if n < 60 then ''40-59''
     else if n < 80 then ''60-79'' else ''80-100'')"

definition backfill_engagement :: "time \<Rightarrow> bool \<Rightarrow> lead table \<Rightarrow> string list \<times> lead table" where
  "backfill_engagement now do_commit t =
     (map (\<lambda>l. score_bucket (engagement_score now l)) (leads_by_id None t),
      if do_commit then t\<lparr>rows := map (recompute_score now) (rows t)\<rparr> else t)"

fun resync :: "time \<Rightarrow> settings \<Rightarrow> crm_upsert \<Rightarrow> campaign table \<Rightarrow> lead list \<Rightarrow> nat \<times> nat \<times> lead table \<times> contact_payload list
      \<Rightarrow> (attribute_error + unit) \<times> nat \<times> nat \<times> lead table \<times> contact_payload list" where
  "resync now cfg upsert campaigns [] w = (Inr (), w)"
| "resync now cfg upsert campaigns (l # ls) (synced, failed, w) = (case get_campaign campaigns (ld_campaign_id l) of
     None \<Rightarrow> resync now cfg upsert campaigns ls (synced, failed, w)
   | Some c \<Rightarrow> (case sync_lead now cfg upsert False c l w of
       (Inl e, w') \<Rightarrow> (Inl e, synced, failed, w')
     | (Inr l', w') \<Rightarrow> (if ld_crm_sync_status l' = CrmSynced then resync now cfg upsert campaigns ls (synced + 1, failed, w')
         else resync now cfg upsert campaigns ls (synced, failed + 1, w'))))"

definition backfill_icp_crm_fields ::
    "time \<Rightarrow> settings \<Rightarrow> crm_upsert \<Rightarrow> campaign table \<Rightarrow> lead table \<times> contact_payload list
      \<Rightarrow> (attribute_error + unit) \<times> nat \<times> nat \<times> lead table \<times> contact_payload list" where
  "backfill_icp_crm_fields now cfg upsert campaigns w =
     (if \<not> freshsales_lead_sync_enabled cfg then (Inr (), 0, 0, w)
      else resync now cfg upsert campaigns (filter (\<lambda>l. ld_crm_sync_status l = CrmSynced) (rows (fst w))) (0, 0, w))"

text \<open>Without the campaign, \<open>campaign.id\<close> raises.\<close>

definition backfill_nog_crm_fields ::
    "time \<Rightarrow> settings \<Rightarrow> crm_upsert \<Rightarrow> campaign table \<Rightarrow> lead table \<times> contact_payload list
      \<Rightarrow> ((attribute_error + unit) \<times> nat \<times> nat \<times> lead table \<times> contact_payload list) option" where
  "backfill_nog_crm_fields now cfg upsert campaigns w =
     (if \<not> freshsales_lead_sync_enabled cfg then Some (Inr (), 0, 0, w)
      else map_option (\<lambda>k. resync now cfg upsert campaigns (of_campaign k (fst w)) (0, 0, w))
        (Option.bind (get_by_slug campaigns NOG_SLUG) cg_id))"

subsection \<open>Owners\<close>

definition REP_TO_OWNER :: "(string \<times> int) list" where
  "REP_TO_OWNER = [(''jennifer'', 17000094102), (''clinton'', 17000101584)]"

definition REP_TO_OWNER_NAME :: "(string \<times> string) list" where
  "REP_TO_OWNER_NAME = [(''jennifer'', ''Jennifer Obute''), (''clinton'', ''Clinton Osuji'')]"

definition sheet_cell :: "string list \<Rightarrow> nat \<Rightarrow> string" where
  "sheet_cell row i = (if i < length row then py_strip (row ! i) else [])"

definition norm_cell :: "string \<Rightarrow> string" where
  "norm_cell s = py_lower (py_strip s)"

text \<open>A dash, or the em dash read as Latin script.\<close>

definition is_placeholder_name :: "string \<Rightarrow> bool" where
  "is_placeholder_name s \<longleftrightarrow> py_strip s \<in> {[], ''-'', em_dash, Leads.en_dash,
     [CHR 0xC3, CHR 0xA2, CHR 0xE2, CHR 0x82, CHR 0xAC, CHR 0xE2, CHR 0x80, CHR 0x9D]}"

definition leads_named :: "lead list \<Rightarrow> string \<times> string \<Rightarrow> lead list" where
  "leads_named ls n = filter (\<lambda>l. (norm_cell (ld_first_name l), norm_cell (ld_last_name l)) = n) ls"

definition leads_first_named :: "lead list \<Rightarrow> string \<Rightarrow> lead list" where
  "leads_first_named ls n = filter (\<lambda>l. norm_cell (ld_first_name l) = n) ls"

definition first_and_company :: "lead list \<Rightarrow> string list \<Rightarrow> lead option \<times> string" where
  "first_and_company ls row =
     (case filter (\<lambda>l. norm_cell (ld_company l) = norm_cell (sheet_cell row 3)) (leads_first_named ls (norm_cell (sheet_cell row 0))) of
        [] \<Rightarrow> (None, ''no match'') | [l] \<Rightarrow> (Some l, ''first+company'')
      | hits \<Rightarrow> (None, ''ambiguous first+company ('' @ show_nat (length hits) @ '' hits)''))"

definition match_lead :: "lead list \<Rightarrow> string list \<Rightarrow> lead option \<times> string" where
  "match_lead ls row =
     (if is_placeholder_name (sheet_cell row 1) then first_and_company ls row
      else case leads_named ls (norm_cell (sheet_cell row 0), norm_cell (sheet_cell row 1)) of
        [] \<Rightarrow> first_and_company ls row
      | [l] \<Rightarrow> (Some l, ''name'')
      | hits \<Rightarrow> (case filter (\<lambda>l. norm_cell (ld_company l) = norm_cell (sheet_cell row 3)) hits of
          [l] \<Rightarrow> (Some l, ''name+company'')
        | cs \<Rightarrow> (None, ''ambiguous ('' @ show_nat (length hits) @ '' name-hits, '' @ show_nat (length cs) @ '' company-hits)'')))"

record owner_plan =
  op_planned :: "(lead \<times> int \<times> string \<times> string) list"
  op_unresolved :: "(string list \<times> string) list"
  op_bad_rep :: "string list list"

fun plan_owners :: "lead list \<Rightarrow> string list list \<Rightarrow> owner_plan \<Rightarrow> owner_plan" where
  "plan_owners ls [] p = p"
| "plan_owners ls (row # rs) p = (let rep = norm_cell (sheet_cell row 4) in
     plan_owners ls rs (case map_of REP_TO_OWNER rep of
       None \<Rightarrow> p\<lparr>op_bad_rep := op_bad_rep p @ [row]\<rparr>
     | Some owner \<Rightarrow> (case match_lead ls row of
         (None, why) \<Rightarrow> p\<lparr>op_unresolved := op_unresolved p @ [(row, why)]\<rparr>
       | (Some l, how) \<Rightarrow> p\<lparr>op_planned := op_planned p @ [(l, owner, rep, how)]\<rparr>)))"

definition owner_payload :: "lead \<times> int \<times> string \<times> string \<Rightarrow> json" where
  "owner_payload p = (case p of (l, owner, rep, _) \<Rightarrow> JObj [(''unique_identifier'', JObj [(''emails'', JStr (ld_email l))]),
     (''contact'', JObj [(''owner_id'', JInt owner),
        (''custom_field'', JObj [(''cf_owner'', JStr (default (map_of REP_TO_OWNER_NAME rep) []))])])])"

text \<open>The script on the sheet's rows, header included: the plan, and the bodies sent with
  \<open>--commit\<close>. A known owner the CRM no longer has ends it.\<close>

definition assign_owners_run ::
    "string list list \<Rightarrow> string \<Rightarrow> int list \<Rightarrow> int \<Rightarrow> lead table \<Rightarrow> bool \<Rightarrow> nat option \<Rightarrow> (owner_plan \<times> json list) option" where
  "assign_owners_run sheet api_key live_owners k t do_commit limit =
     (if sheet = [] \<or> api_key = [] \<or> (\<exists>(rep, o') \<in> set REP_TO_OWNER. o' \<notin> set live_owners) then None
      else let p = plan_owners (of_campaign k t) (tl sheet) \<lparr>op_planned = [], op_unresolved = [], op_bad_rep = []\<rparr>;
               todo = (case limit of None \<Rightarrow> op_planned p | Some n \<Rightarrow> take n (op_planned p))
        in Some (p, if do_commit then map owner_payload todo else []))"

end
