(* ===== verification/Lead_Scripts_Safety.thy ===== *)
theory Lead_Scripts_Safety
  imports Lead_Scripts Rep_Import_Safety
begin

section \<open>What the maintenance scripts leave behind\<close>

text \<open>
  The broadcast mails each lead at most once over two runs; the enrichment adds one key and
  nothing else, unless the service writes in between; and what the scripts record is lost
  or frozen by what other parts of the program do.
\<close>

subsection \<open>Column writes\<close>

lemma set_responses_ids: "map ld_id (rows (set_responses l r t)) = map ld_id (rows t)"
  by (simp add: set_responses_def)

lemma set_responses_row:
  "x \<in> set (rows t) \<Longrightarrow> (if ld_id x = ld_id l then x\<lparr>ld_responses := r\<rparr> else x) \<in> set (rows (set_responses l r t))"
  by (auto simp: set_responses_def)

lemma json_get_update: "json_get (AList.update k v d) k' = (if k' = k then v else json_get d k')"
  by (simp add: json_get_def update_conv')

subsection \<open>One reconnect mail per lead\<close>

text \<open>A stamped lead: no row with its key is without the stamp.\<close>

definition stamped :: "lead table \<Rightarrow> int option \<Rightarrow> bool" where
  "stamped t k \<longleftrightarrow> (\<forall>x \<in> set (rows t). ld_id x = k \<longrightarrow> json_truthy (json_get (ld_responses x) SENT_KEY))"

lemma stamped_set_responses:
  assumes "s \<noteq> []"
  shows "stamped (set_responses l (AList.update SENT_KEY (JStr s) d) t) (ld_id l)"
    and "stamped t k \<Longrightarrow> stamped (set_responses l (AList.update SENT_KEY (JStr s) d) t) k"
  using assms by (auto simp: stamped_def set_responses_def json_get_update)

lemma send_reconnect_cases:
  "send_reconnect cfg post cc l ms = (True, ms') \<Longrightarrow> \<exists>m. ms' = ms @ [m] \<and> ml_lead_id m = ld_id l"
  "send_reconnect cfg post cc l ms = (False, ms') \<Longrightarrow> ms' = ms"
  by (auto simp: send_reconnect_def send_campaign_email_def Let_def split: if_splits)

lemma send_reconnect_accepted:
  "wtc_sendgrid_api_key cfg \<noteq> [] \<Longrightarrow> (\<And>ms m. post ms m) \<Longrightarrow> fst (send_reconnect cfg post cc l ms)"
  by (simp add: send_reconnect_def send_campaign_email_def Let_def)

text \<open>What other requests may do to the leads between two statements of the script: add rows and change
  rows, but not delete one or take back a stamp. (A re-submission does take it back, see below.)\<close>

definition keeps_stamps :: "(lead table \<Rightarrow> lead table) \<Rightarrow> bool" where
  "keeps_stamps f \<longleftrightarrow> (\<forall>t. (distinct (map ld_id (rows t)) \<longrightarrow> distinct (map ld_id (rows (f t)))) \<and>
     set (map ld_id (rows t)) \<subseteq> set (map ld_id (rows (f t))) \<and>
     (\<forall>k \<in> set (map ld_id (rows t)). stamped t k \<longrightarrow> stamped (f t) k))"

lemma keeps_stampsD:
  assumes "keeps_stamps f"
  shows "distinct (map ld_id (rows t)) \<Longrightarrow> distinct (map ld_id (rows (f t)))"
    and "set (map ld_id (rows t)) \<subseteq> set (map ld_id (rows (f t)))"
    and "k \<in> set (map ld_id (rows t)) \<Longrightarrow> stamped t k \<Longrightarrow> stamped (f t) k"
  using assms unfolding keeps_stamps_def by blast+

lemma keeps_stamps_id: "keeps_stamps (\<lambda>t. t)"
  by (simp add: keeps_stamps_def)

lemma reconnect_sends_shape:
  assumes stamp: "\<And>i. stamp i \<noteq> []" and rival: "\<And>i. keeps_stamps (rival i)"
  shows "reconnect_sends cfg post cc stamp rival i ls (a, b, t, ms) = (a', b', t', ms') \<Longrightarrow>
    set (map ld_id ls) \<subseteq> set (map ld_id (rows t)) \<Longrightarrow>
    \<exists>new. ms' = ms @ new \<and> subseq (map ml_lead_id new) (map ld_id ls) \<and>
      (wtc_sendgrid_api_key cfg \<noteq> [] \<and> (\<forall>ms m. post ms m) \<longrightarrow> map ml_lead_id new = map ld_id ls) \<and>
      (\<forall>k \<in> set (map ml_lead_id new). stamped t' k) \<and>
      (\<forall>k \<in> set (map ld_id (rows t)). stamped t k \<longrightarrow> stamped t' k) \<and>
      set (map ld_id (rows t)) \<subseteq> set (map ld_id (rows t')) \<and>
      (distinct (map ld_id (rows t)) \<longrightarrow> distinct (map ld_id (rows t')))"
proof (induction ls arbitrary: i a b t ms)
  case Nil then show ?case by simp
next
  case (Cons l ls)
  note keep = keeps_stampsD [where t = t, OF rival [of i]]
  have "set (map ld_id ls) \<subseteq> set (map ld_id (rows t))" using Cons.prems(2) by simp
  then have sub: "set (map ld_id ls) \<subseteq> set (map ld_id (rows (rival i t)))" using keep(2) by (rule order_trans)
  obtain ok ms1 where send: "send_reconnect cfg post cc l ms = (ok, ms1)" by fastforce
  show ?case
  proof (cases ok)
    case False
    have "ms1 = ms" using send send_reconnect_cases(2) False by simp
    then have "reconnect_sends cfg post cc stamp rival (Suc i) ls (a, b + 1, rival i t, ms) = (a', b', t', ms')"
      using Cons.prems send False by (simp add: Let_def)
    from Cons.IH [OF this sub] obtain new where new: "ms' = ms @ new" "subseq (map ml_lead_id new) (map ld_id ls)"
      "\<forall>k \<in> set (map ml_lead_id new). stamped t' k"
      "\<forall>k \<in> set (map ld_id (rows (rival i t))). stamped (rival i t) k \<longrightarrow> stamped t' k"
      "set (map ld_id (rows (rival i t))) \<subseteq> set (map ld_id (rows t'))"
      "distinct (map ld_id (rows (rival i t))) \<longrightarrow> distinct (map ld_id (rows t'))" by blast
    have "\<not> (wtc_sendgrid_api_key cfg \<noteq> [] \<and> (\<forall>ms m. post ms m))"
      using send_reconnect_accepted [of cfg post cc l ms] send False by auto
    moreover have "\<forall>k \<in> set (map ld_id (rows t)). stamped t k \<longrightarrow> stamped t' k" using keep(2,3) new(4) by blast
    ultimately show ?thesis using new(1-3,6) keep(1) order_trans [OF keep(2) new(5)]
      by (intro exI [of _ new] conjI) (simp_all only: subseq_Cons' simp_thms list.map, blast+)
  next
    case True
    with send have "send_reconnect cfg post cc l ms = (True, ms1)" by simp
    then obtain m where m: "ms1 = ms @ [m]" "ml_lead_id m = ld_id l" using send_reconnect_cases(1) by blast
    let ?t = "set_responses l (AList.update SENT_KEY (JStr (stamp i)) (ld_responses l)) (rival i t)"
    have "reconnect_sends cfg post cc stamp rival (Suc i) ls (a + 1, b, ?t, ms1) = (a', b', t', ms')"
      using Cons.prems send True by (simp add: Let_def)
    moreover have ids: "map ld_id (rows ?t) = map ld_id (rows (rival i t))" by (rule set_responses_ids)
    ultimately obtain new where new: "ms' = ms1 @ new" "subseq (map ml_lead_id new) (map ld_id ls)"
        "wtc_sendgrid_api_key cfg \<noteq> [] \<and> (\<forall>ms m. post ms m) \<longrightarrow> map ml_lead_id new = map ld_id ls"
        "\<forall>k \<in> set (map ml_lead_id new). stamped t' k"
        "\<forall>k \<in> set (map ld_id (rows (rival i t))). stamped ?t k \<longrightarrow> stamped t' k"
        "set (map ld_id (rows (rival i t))) \<subseteq> set (map ld_id (rows t'))"
        "distinct (map ld_id (rows (rival i t))) \<longrightarrow> distinct (map ld_id (rows t'))"
      using Cons.IH [of "Suc i" "a + 1" b ?t ms1] sub unfolding ids by blast
    have "ld_id l \<in> set (map ld_id (rows t))" using Cons.prems(2) by simp
    then have "ld_id l \<in> set (map ld_id (rows (rival i t)))" using keep(2) by (rule subsetD [rotated])
    then have "stamped t' (ld_id l)" using new(5) stamped_set_responses(1) [OF stamp] by blast
    moreover have "\<forall>k \<in> set (map ld_id (rows t)). stamped t k \<longrightarrow> stamped t' k"
      using new(5) stamped_set_responses(2) [OF stamp] keep(2,3) by blast
    ultimately show ?thesis using new(1-4,6,7) m keep(1,2) by (intro exI [of _ "m # new"]) auto
  qed
qed

lemma subseq_facts: "subseq xs ys \<Longrightarrow> set xs \<subseteq> set ys \<and> (distinct ys \<longrightarrow> distinct xs)"
  by (induction rule: list_emb.induct) auto

lemma reconnect_eligible_sub: "subseq (reconnect_eligible False limit ls) ls"
  unfolding reconnect_eligible_def Let_def
  by (cases limit) (auto intro: subseq_order.order_trans [OF take_is_prefix [THEN prefix_imp_subseq]])

lemma campaign_ids_distinct:
  "distinct (map ld_id (rows t)) \<Longrightarrow> distinct (map ld_id (list_for_campaign f n o' t))"
  by (auto simp: list_for_campaign_def page_of_def distinct_map inj_on_def distinct_take distinct_drop
      dest!: in_set_takeD in_set_dropD)

lemma reconnect_eligible_unstamped:
  "l \<in> set (reconnect_eligible False limit ls) \<Longrightarrow> l \<in> set ls \<and> \<not> json_truthy (json_get (ld_responses l) SENT_KEY)"
  unfolding reconnect_eligible_def Let_def by (cases limit) (auto dest: in_set_takeD)

text \<open>C36: the broadcast can be run again: over two runs without \<open>--resend\<close>, whatever failed in the
  first and whatever limits they were given, no lead is mailed twice, and each run mails only leads
  of its own list: those of the campaign with a valid address and no stamp, up to the limit; when
  the mail service takes every mail, the first run mails exactly these, in order. Other requests
  may write leads during the runs and between them, as long as they delete none and take back no
  stamp. (The campaign exists, the image is configured, ids are distinct and stamps non-empty.)\<close>

theorem reconnect_mails_each_lead_once:
  assumes keys: "distinct (map ld_id (rows t))" and stamps: "\<And>i. stamp i \<noteq> []" "\<And>i. stamp2 i \<noteq> []"
    and others: "\<And>i. keeps_stamps (rival i)" "\<And>i. keeps_stamps (rival2 i)" "keeps_stamps meanwhile"
    and camp: "Option.bind (get_by_slug campaigns NOG_SLUG) cg_id = Some k" and img: "img \<noteq> []"
    and run: "reconnect_run cfg post campaigns img True False limit cc stamp rival (t, ms) = (r, t', ms')"
    and again: "reconnect_run cfg post2 campaigns img True False limit2 cc stamp2 rival2 (meanwhile t', ms') = (r2, t2, ms2)"
  shows "let listed = \<lambda>t. list_for_campaign (no_filter\<lparr>f_campaign_id := Some k\<rparr>) 100000 0 t in
    \<exists>n1 n2. ms' = ms @ n1 \<and> ms2 = ms' @ n2 \<and> distinct (map ml_lead_id (n1 @ n2)) \<and>
      subseq (map ml_lead_id n1) (map ld_id (reconnect_eligible False limit (listed t))) \<and>
      subseq (map ml_lead_id n2) (map ld_id (reconnect_eligible False limit2 (listed (meanwhile t')))) \<and>
      (wtc_sendgrid_api_key cfg \<noteq> [] \<and> (\<forall>ms m. post ms m) \<longrightarrow>
        map ml_lead_id n1 = map ld_id (reconnect_eligible False limit (listed t)))"
proof -
  let ?ls = "\<lambda>t. list_for_campaign (no_filter\<lparr>f_campaign_id := Some k\<rparr>) 100000 0 t"
  obtain a b where 1: "reconnect_sends cfg post cc stamp rival 0 (reconnect_eligible False limit (?ls t)) (0, 0, t, ms) = (a, b, t', ms')"
    using run camp img by (auto simp: reconnect_run_def split: prod.splits)
  obtain a2 b2 where 2: "reconnect_sends cfg post2 cc stamp2 rival2 0 (reconnect_eligible False limit2 (?ls (meanwhile t')))
      (0, 0, meanwhile t', ms') = (a2, b2, t2, ms2)"
    using again camp img by (auto simp: reconnect_run_def split: prod.splits)
  have in_rows: "l \<in> set (?ls u) \<Longrightarrow> l \<in> set (rows u)" for l u
    by (auto simp: list_for_campaign_def page_of_def dest!: in_set_takeD in_set_dropD)
  have known: "set (map ld_id (reconnect_eligible False lim (?ls u))) \<subseteq> set (map ld_id (rows u))" for lim u
    using reconnect_eligible_unstamped in_rows by (auto dest!: reconnect_eligible_unstamped in_rows)
  from reconnect_sends_shape [OF stamps(1) others(1) 1 known] obtain n1 where n1: "ms' = ms @ n1"
      "subseq (map ml_lead_id n1) (map ld_id (reconnect_eligible False limit (?ls t)))"
      "wtc_sendgrid_api_key cfg \<noteq> [] \<and> (\<forall>ms m. post ms m) \<longrightarrow>
        map ml_lead_id n1 = map ld_id (reconnect_eligible False limit (?ls t))"
      "\<forall>k \<in> set (map ml_lead_id n1). stamped t' k"
      "set (map ld_id (rows t)) \<subseteq> set (map ld_id (rows t'))" "distinct (map ld_id (rows t'))" using keys by blast
  from reconnect_sends_shape [OF stamps(2) others(2) 2 known] obtain n2 where n2: "ms2 = ms' @ n2"
      "subseq (map ml_lead_id n2) (map ld_id (reconnect_eligible False limit2 (?ls (meanwhile t'))))" by blast
  have dist: "distinct (map ml_lead_id ns)"
    if "subseq (map ml_lead_id ns) (map ld_id (reconnect_eligible False lim (?ls u)))" "distinct (map ld_id (rows u))" for ns lim u
  proof -
    have "subseq (map ml_lead_id ns) (map ld_id (?ls u))"
      using that(1) subseq_map [OF reconnect_eligible_sub] subseq_order.order_trans by blast
    with subseq_facts campaign_ids_distinct [OF that(2)] show ?thesis by blast
  qed
  have "i \<notin> set (map ml_lead_id n2)" if i: "i \<in> set (map ml_lead_id n1)" for i
  proof
    assume "i \<in> set (map ml_lead_id n2)"
    then have "i \<in> set (map ld_id (reconnect_eligible False limit2 (?ls (meanwhile t'))))" using n2(2) subseq_facts by blast
    then obtain l where l: "l \<in> set (reconnect_eligible False limit2 (?ls (meanwhile t')))" "ld_id l = i" by auto
    from reconnect_eligible_unstamped [OF l(1)] in_rows
    have row: "l \<in> set (rows (meanwhile t'))" "\<not> json_truthy (json_get (ld_responses l) SENT_KEY)" by blast+
    have "i \<in> set (map ld_id (rows t))" using i n1(2) subseq_facts known by blast
    then have "stamped (meanwhile t') i" using keeps_stampsD(3) [OF others(3)] n1(4,5) i by blast
    with row l(2) show False unfolding stamped_def by blast
  qed
  then have "distinct (map ml_lead_id (n1 @ n2))"
    using dist [OF n1(2) keys] dist [OF n2(2) keeps_stampsD(1) [OF others(3) n1(6)]] by auto
  then show ?thesis unfolding Let_def using n1(1-3) n2 by blast
qed

theorem reconnect_mails_each_lead_once_witness:
  "\<exists>r t' ms' r2 t2 ms2. reconnect_run witness_settings (\<lambda>_ _. True) witness_campaigns ''https://i'' True False None [] (\<lambda>_. ''now'')
       (\<lambda>_ t. t) (\<lparr>rows = [witness_lead], next_id = 2\<rparr>, []) = (r, t', ms') \<and>
     reconnect_run witness_settings (\<lambda>_ _. True) witness_campaigns ''https://i'' True False None [] (\<lambda>_. ''now'') (\<lambda>_ t. t) (t', ms') = (r2, t2, ms2) \<and>
     map ml_lead_id ms' = [Some 1] \<and> distinct (map ml_lead_id ms2)"
proof -
  let ?run = "reconnect_run witness_settings (\<lambda>_ _. True) witness_campaigns ''https://i'' True False None [] (\<lambda>_. ''now'') (\<lambda>_ t. t)"
  obtain r t' ms' where 1: "?run (\<lparr>rows = [witness_lead], next_id = 2\<rparr>, []) = (r, t', ms')" using prod_cases3 by blast
  obtain r2 t2 ms2 where 2: "?run (t', ms') = (r2, t2, ms2)" using prod_cases3 by blast
  have all: "list_for_campaign (no_filter\<lparr>f_campaign_id := Some 1\<rparr>) 100000 0 \<lparr>rows = [witness_lead], next_id = 2\<rparr> = [witness_lead]"
    by (simp add: list_for_campaign_def page_of_def apply_filters_def no_filter_def when_given_def witness_lead_def new_lead_def)
  have elig: "reconnect_eligible False None [witness_lead] = [witness_lead]" by code_simp
  have camp: "Option.bind (get_by_slug witness_campaigns NOG_SLUG) cg_id = Some 1" by code_simp
  have key: "wtc_sendgrid_api_key witness_settings \<noteq> []" and id: "ld_id witness_lead = Some 1"
    by (simp_all add: witness_settings_def witness_lead_def)
  note spec = reconnect_mails_each_lead_once [where meanwhile = "\<lambda>t. t", OF _ _ _ keeps_stamps_id keeps_stamps_id keeps_stamps_id
    camp _ 1 2, unfolded Let_def all elig]
  have "map ml_lead_id ms' = [Some 1] \<and> distinct (map ml_lead_id ms2)"
    using spec key id by auto
  then show ?thesis using 1 2
    by (intro exI [of _ r] exI [of _ t'] exI [of _ ms'] exI [of _ r2] exI [of _ t2] exI [of _ ms2]) simp
qed

subsection \<open>What does not last\<close>

text \<open>A visitor who submits the form again loses the stamp, since a capture replaces the answers:
  the next run mails them again.\<close>

lemma resubmission_reopens_reconnect:
  assumes "json_get (lq_responses q) SENT_KEY = JNull" and "reconnect_valid_email (ld_email l)"
  shows "reconnect_eligible False None [merge_payload now c q (Some l) l] = [merge_payload now c q (Some l) l]"
  using assms by (simp add: reconnect_eligible_def)

text \<open>The enrichment writes the answers it read at the start: one that a submission brought in
  the meantime is gone.\<close>

lemma enrichment_overwrites_answers:
  assumes "x \<in> set (rows (write_enrichment e l (rival i t)))" and "ld_id x = ld_id l"
    and "json_get (ld_responses l) k = JNull" and "k \<noteq> ''enrichment''"
  shows "json_get (ld_responses x) k = JNull"
  using assms by (auto simp: write_enrichment_def set_responses_def json_get_update split: if_splits)

lemma enrichment_adds_one_key:
  assumes "x \<in> set (rows (write_enrichment e l t))"
  shows "x \<in> set (rows t) \<or> (\<exists>y \<in> set (rows t). x = y\<lparr>ld_responses := AList.update ''enrichment'' e (ld_responses l)\<rparr>)"
  using assms by (auto simp: write_enrichment_def set_responses_def split: if_splits)

text \<open>The result for a company is that of its first lead, for every lead of it.\<close>

lemma set_icp_id [simp]: "ld_id (set_icp r l x) = ld_id x"
  by (simp add: set_icp_def)

lemma fold_apply_result:
  "rows (fold (apply_result r) g t) = map (\<lambda>x. if ld_id x \<in> ld_id ` set g then set_icp r x x else x) (rows t)"
proof (induction g arbitrary: t)
  case (Cons l g)
  have "(if ld_id y \<in> ld_id ` set g then set_icp r y y else y) = (if ld_id x \<in> ld_id ` set (l # g) then set_icp r x x else x)"
    if "y = set_icp r l x" for x y
    using that by (auto simp: set_icp_def)
  then show ?case unfolding fold.simps o_apply Cons.IH by (simp add: apply_result_def)
qed simp

lemma company_has_the_score_of_its_first_lead:
  assumes "score_groups score [(d, l # ls)] (0, 0, t) = (n, m, t')" and "score l = Some r"
    and "x \<in> set (rows t')" and "ld_id x \<in> ld_id ` set ls"
  shows "ld_icp_score x = Some (ir_icp_score r) \<and> ld_icp_tier x = Some (ir_lead_tier r)"
proof -
  have t': "t' = fold (apply_result r) (l # ls) t" using assms(1,2) by simp
  from assms(3) obtain y where y: "y \<in> set (rows t)" "x = (if ld_id y \<in> ld_id ` set (l # ls) then set_icp r y y else y)"
    unfolding t' fold_apply_result by auto
  with assms(4) have "x = set_icp r y y" by (auto split: if_splits)
  then show ?thesis by (simp add: set_icp_def)
qed

text \<open>A lead that had no data when it was scored is not looked at again when it has.\<close>

lemma no_data_score_is_final: "unscored [(set_icp NO_DATA_RESULT l l)\<lparr>ld_responses := r\<rparr>] = []"
  by (simp add: unscored_def set_icp_def)

text \<open>A lead that was pushed by hand from a campaign that is not pushed is marked as skipped
  by the script that means to refresh it, and nothing is sent.\<close>

lemma backfill_skips_hand_pushed_lead:
  assumes "get_campaign campaigns (ld_campaign_id l) = Some c" and "cfg_crm_sync_enabled (cg_config c) = Some False"
  shows "resync now cfg upsert campaigns [l] (0, 0, t, calls) =
    (Inr (), 0, 1, update_lead (l\<lparr>ld_crm_sync_status := CrmSkipped\<rparr>) t, calls)"
  using assms by (simp add: sync_lead_def sync_allowed_def Let_def)

text \<open>No push of a lead names an owner.\<close>

lemma push_names_no_owner:
  "\<exists>u d. payload_json (build_contact_payload l c) = JObj [u, (''contact'', JObj d)] \<and> map_of d ''owner_id'' = None"
  by (auto simp: payload_json_def build_contact_payload_def Let_def)

text \<open>A row of the assignment sheet is matched to a lead only if no other fits as well.\<close>

lemma first_and_company_unique:
  "first_and_company ls row = (Some l, how) \<Longrightarrow> how = ''first+company'' \<and>
     filter (\<lambda>x. norm_cell (ld_company x) = norm_cell (sheet_cell row 3)) (leads_first_named ls (norm_cell (sheet_cell row 0))) = [l]"
  by (auto simp: first_and_company_def split: list.splits)

lemma match_lead_unique:
  assumes "match_lead ls row = (Some l, how)"
  shows "l \<in> set ls \<and> norm_cell (ld_first_name l) = norm_cell (sheet_cell row 0) \<and>
    (how = ''name'' \<longrightarrow> (\<forall>x \<in> set ls. norm_cell (ld_first_name x) = norm_cell (ld_first_name l) \<and>
        norm_cell (ld_last_name x) = norm_cell (ld_last_name l) \<longrightarrow> x = l)) \<and>
    (how \<noteq> ''name'' \<longrightarrow> norm_cell (ld_company l) = norm_cell (sheet_cell row 3))"
proof -
  have single: "l \<in> set xs \<and> P l \<and> (\<forall>x \<in> set xs. P x \<longrightarrow> x = l)" if "filter P xs = [l]" for P xs
  proof -
    from that have "{x \<in> set xs. P x} = {l}" by (metis set_filter list.set(1,2))
    then show ?thesis by blast
  qed
  let ?n = "(norm_cell (sheet_cell row 0), norm_cell (sheet_cell row 1))"
  let ?co = "\<lambda>x. norm_cell (ld_company x) = norm_cell (sheet_cell row 3)"
  consider "first_and_company ls row = (Some l, how)"
    | "leads_named ls ?n = [l]" "how = ''name''"
    | "filter ?co (leads_named ls ?n) = [l]" "how = ''name+company''"
    using assms unfolding match_lead_def by (auto split: if_splits list.splits)
  then show ?thesis
  proof cases
    case 1
    from first_and_company_unique [OF this] single [of ?co "leads_first_named ls (norm_cell (sheet_cell row 0))"]
    show ?thesis by (auto simp: leads_first_named_def)
  next
    case 2
    with single [of "\<lambda>x. (norm_cell (ld_first_name x), norm_cell (ld_last_name x)) = ?n" ls]
    show ?thesis unfolding leads_named_def by auto
  next
    case 3
    with single [of ?co "leads_named ls ?n"] show ?thesis by (auto simp: leads_named_def)
  qed
qed

end
