(* ===== verification/Trade_Scripts.thy ===== *)
theory Trade_Scripts
  imports Trade Email_Events Config Client
begin

section \<open>Scripts over the trade tables\<close>

text \<open>
  Model of \<open>scripts/transfer_export_launchpad.py\<close> (the registrations of a campaign become
  participants of a trade program), \<open>import_trade_leads.py\<close> (a spreadsheet of participants)
  and \<open>cleanup_trade_test_data.py\<close>. The tokenised rows of the CSV file, the fresh
  registration ids and the answers of the CRM are arguments; \<open>bind\<close> is, as in \<open>Trade\<close>,
  what the driver makes of a value for a column. A run without \<open>--commit\<close> writes nothing.
\<close>

subsection \<open>The transfer of a campaign\<close>

definition SOURCE_CAMPAIGN_SLUG :: string where "SOURCE_CAMPAIGN_SLUG = ''export-launchpad-2026''"
definition TRADE_PROGRAM_SLUG :: string where "TRADE_PROGRAM_SLUG = ''export-launchpad-2026''"

definition TRANSFER_KEYS :: "string list" where
  "TRANSFER_KEYS =
     [''company_founded'', ''industry_sector'', ''sector_specification'', ''sector_other'',
      ''ownership'', ''operating_currency'', ''fiscal_year_start'', ''employee_count'',
      ''sources_internationally'', ''source_countries'', ''sells_internationally'',
      ''sales_countries'', ''topics_of_interest'', ''consent_terms'',
      ''consent_data_processing'', ''consent_liability_waiver'', ''consent_photo_video'',
      ''cohort_date'', ''wtc_location'', ''registered_address'', ''city'', ''postal_code'',
      ''country'']"

definition transfer_id :: "lead \<Rightarrow> string" where
  "transfer_id l = ''campaign-lead-'' @ show_int (default (ld_id l) 0)"

definition transfer_shared :: "json dict \<Rightarrow> json dict" where
  "transfer_shared responses = map (\<lambda>k. (k, json_get responses k)) TRANSFER_KEYS"

text \<open>The middle name comes from the answers as they are; binding it is left to the insert.\<close>

definition build_primary :: "lead \<Rightarrow> int \<Rightarrow> json dict \<Rightarrow> trade_lead" where
  "build_primary l program_id shared =
     (new_trade_lead program_id (transfer_id l) 1 True (norm_email (ld_email l)))
       \<lparr>tl_first_name := ld_first_name l, tl_last_name := ld_last_name l,
        tl_phone := (if ld_phone l = [] then JNull else JStr (ld_phone l)),
        tl_job_title := json_opt (ld_job_title l), tl_company := Some (ld_company l),
        tl_source := ''campaign_transfer'', tl_captured_at := ld_captured_at l,
        tl_responses := ld_responses l, tl_crm_sync_status := CrmSynced,
        tl_crm_synced_at := ld_crm_synced_at l, tl_crm_contact_id := ld_crm_contact_id l,
        tl_crm_error := ld_crm_error l, tl_opened_at := ld_pack_opened_at l,
        tl_opened_count := ld_pack_opened_count l,
        tl_clicked_materials := ld_pack_clicked_materials l, tl_shared := shared\<rparr>"

definition collision_warning :: "string \<Rightarrow> string" where
  "collision_warning email = concat [''2nd participant email '', [CHR 0x27], email, [CHR 0x27],
     '' matches the primary'', [CHR 0x27], ''s '', em_dash, '' dropping it (kept in responses) to avoid a duplicate-email row'']"

definition build_second_participant ::
    "lead \<Rightarrow> int \<Rightarrow> string \<Rightarrow> json dict \<Rightarrow> attribute_error + (trade_lead \<times> string option) option" where
  "build_second_participant l program_id primary_email shared =
     rbind (second_object (ld_responses l)) (\<lambda>second.
     rbind (stripped second ''first_name'') (\<lambda>first_name.
     rbind (stripped second ''last_name'') (\<lambda>last_name.
       if first_name = [] \<and> last_name = [] then Inr None
       else rbind (stripped second ''email'') (\<lambda>e.
         let email = py_lower e; clash = email \<noteq> [] \<and> email = primary_email;
             phone = json_get second ''phone''
         in Inr (Some
           ((new_trade_lead program_id (transfer_id l) 2 False (if clash then [] else email))
              \<lparr>tl_first_name := non_empty_or first_name em_dash, tl_last_name := non_empty_or last_name em_dash,
               tl_phone := (if json_truthy phone then phone else JNull),
               tl_job_title := json_get second ''job_title'', tl_company := Some (ld_company l),
               tl_source := ''campaign_transfer'', tl_responses := second,
               tl_crm_sync_status := CrmPending, tl_shared := shared\<rparr>,
            if clash then Some (collision_warning email) else None))))))"

record transfer =
  xf_lead :: lead
  xf_primary :: trade_lead
  xf_second :: "trade_lead option"
  xf_warning :: "string option"

definition plan_transfer :: "int \<Rightarrow> lead \<Rightarrow> attribute_error + transfer" where
  "plan_transfer program_id l =
     (let shared = transfer_shared (ld_responses l); primary = build_primary l program_id shared in
      rbind (build_second_participant l program_id (tl_email primary) shared) (\<lambda>s.
        Inr \<lparr>xf_lead = l, xf_primary = primary, xf_second = map_option fst s,
             xf_warning = Option.bind s snd\<rparr>))"

text \<open>How many registrations are there already, and what is to be created for the others.\<close>

fun plan_transfers :: "int \<Rightarrow> trade_lead table \<Rightarrow> lead list \<Rightarrow> attribute_error + nat \<times> transfer list" where
  "plan_transfers program_id t [] = Inr (0, [])"
| "plan_transfers program_id t (l # ls) =
     (if list_by_registration t (transfer_id l) \<noteq> []
      then rbind (plan_transfers program_id t ls) (\<lambda>(n, xs). Inr (Suc n, xs))
      else rbind (plan_transfer program_id l) (\<lambda>x.
        rbind (plan_transfers program_id t ls) (\<lambda>(n, xs). Inr (n, x # xs))))"

text \<open>\<open>UPDATE email_events SET trade_lead_id = ... WHERE lead_id = ...\<close> and its row count.\<close>

definition repoint :: "int option \<Rightarrow> int option \<Rightarrow> email_event table \<Rightarrow> nat \<times> email_event table" where
  "repoint lead_id trade_id t =
     (length (filter (\<lambda>e. Some (ee_lead_id e) = lead_id) (rows t)),
      t\<lparr>rows := map (\<lambda>e. if Some (ee_lead_id e) = lead_id then e\<lparr>ee_trade_lead_id := trade_id\<rparr> else e) (rows t)\<rparr>)"

definition text_column :: "db_bind \<Rightarrow> string \<Rightarrow> json \<Rightarrow> string option option" where
  "text_column bind k j = (case bind k j of
     Some JNull \<Rightarrow> Some None | Some (JStr s) \<Rightarrow> Some (Some s) | _ \<Rightarrow> None)"

definition create_primary ::
    "time \<Rightarrow> db_bind \<Rightarrow> transfer \<Rightarrow> trade_lead table \<Rightarrow> trade_error + trade_lead \<times> trade_lead table" where
  "create_primary now bind x t =
     (case text_column bind ''middle_name'' (json_get (ld_responses (xf_lead x)) ''middle_name'') of
        None \<Rightarrow> Inl DataError
      | Some m \<Rightarrow> create_trade_lead now bind ((xf_primary x)\<lparr>tl_middle_name := m\<rparr>) t)"

text \<open>
  Every \<open>create_lead\<close> commits. The update of the events is only flushed: the next commit,
  of the second participant, of the next primary or of the end, makes it permanent, and a
  failing one takes it back. The third component is what the open transaction sees.
\<close>

record transfer_counts =
  xc_primaries :: nat
  xc_seconds :: nat
  xc_events :: nat

fun create_transfers ::
    "time \<Rightarrow> db_bind \<Rightarrow> transfer list \<Rightarrow> transfer_counts \<Rightarrow> trade_lead table \<times> email_event table
      \<Rightarrow> email_event table \<Rightarrow> (trade_error + transfer_counts) \<times> trade_lead table \<times> email_event table" where
  "create_transfers now bind [] n (t, ev) pending = (Inr n, t, pending)"
| "create_transfers now bind (x # xs) n (t, ev) pending =
     (case create_primary now bind x t of
        Inl e \<Rightarrow> (Inl e, t, ev)
      | Inr (primary, t1) \<Rightarrow>
          (let (k, ev1) = repoint (ld_id (xf_lead x)) (tl_id primary) pending;
               n1 = n\<lparr>xc_primaries := xc_primaries n + 1, xc_events := xc_events n + k\<rparr>
           in case xf_second x of
                None \<Rightarrow> create_transfers now bind xs n1 (t1, pending) ev1
              | Some s \<Rightarrow> (case create_trade_lead now bind s t1 of
                    Inl e \<Rightarrow> (Inl e, t1, pending)
                  | Inr (s', t2) \<Rightarrow>
                      create_transfers now bind xs (n1\<lparr>xc_seconds := xc_seconds n1 + 1\<rparr>) (t2, ev1) ev1)))"

datatype transfer_end = SourceMissing | ProgramMissing | PlanFailed | TransferDryRun nat "transfer list"
  | TransferFailed trade_error | Transferred transfer_counts

definition source_leads :: "campaign table \<Rightarrow> lead table \<Rightarrow> lead list" where
  "source_leads campaigns leads = (case get_by_slug campaigns SOURCE_CAMPAIGN_SLUG of
     None \<Rightarrow> []
   | Some c \<Rightarrow> list_for_campaign (no_filter\<lparr>f_campaign_id := Some (default (cg_id c) 0)\<rparr>) 100000 0 leads)"

definition transfer_run ::
    "time \<Rightarrow> db_bind \<Rightarrow> bool \<Rightarrow> campaign table \<Rightarrow> lead table \<Rightarrow> trade_program table
      \<Rightarrow> trade_lead table \<times> email_event table \<Rightarrow> transfer_end \<times> trade_lead table \<times> email_event table" where
  "transfer_run now bind commit campaigns leads programs db =
     (case get_by_slug campaigns SOURCE_CAMPAIGN_SLUG of
        None \<Rightarrow> (SourceMissing, db)
      | Some c \<Rightarrow> (case get_program_by_slug programs TRADE_PROGRAM_SLUG of
          None \<Rightarrow> (ProgramMissing, db)
        | Some p \<Rightarrow> (case plan_transfers (default (tp_id p) 0) (fst db) (source_leads campaigns leads) of
            Inl e \<Rightarrow> (PlanFailed, db)
          | Inr (already, xs) \<Rightarrow>
              if \<not> commit then (TransferDryRun already xs, db)
              else (case create_transfers now bind xs \<lparr>xc_primaries = 0, xc_seconds = 0, xc_events = 0\<rparr> db (snd db) of
                (Inl e, db') \<Rightarrow> (TransferFailed e, db')
              | (Inr n, db') \<Rightarrow> (Transferred n, db')))))"

definition archive_source :: "time \<Rightarrow> campaign table \<Rightarrow> campaign table" where
  "archive_source now campaigns = (case get_by_slug campaigns SOURCE_CAMPAIGN_SLUG of
     None \<Rightarrow> campaigns
   | Some c \<Rightarrow> if cg_status c = CampaignArchived then campaigns
       else update_campaign now (c\<lparr>cg_status := CampaignArchived\<rparr>) campaigns)"

subsection \<open>Participants from a spreadsheet\<close>

definition REQUIRED_COLUMNS :: "string list" where
  "REQUIRED_COLUMNS = [''first_name'', ''last_name'', ''email'']"

text \<open>
  \<open>csv.DictReader\<close>: a short row lacks its last columns (\<open>None\<close>), of two columns with one
  name the later counts, an empty line is skipped, and the fields beyond the header are a list
  under the key \<open>None\<close>, which has no \<open>strip\<close>.
\<close>

definition clean_row :: "string list \<Rightarrow> string list \<Rightarrow> attribute_error + string dict" where
  "clean_row header row =
     (if length row > length header then Inl AttributeError
      else Inr (fold (\<lambda>(k, v). AList.update k (py_strip v))
        (zip header (row @ replicate (length header - length row) [])) []))"

datatype sheet_error = MissingColumns "string list" | UnreadableRow

fun clean_rows :: "string list \<Rightarrow> string list list \<Rightarrow> attribute_error + string dict list" where
  "clean_rows header [] = Inr []"
| "clean_rows header (r # rs) =
     rbind (clean_row header r) (\<lambda>d. rbind (clean_rows header rs) (\<lambda>ds. Inr (d # ds)))"

definition sheet_rows :: "string list list \<Rightarrow> sheet_error + string dict list" where
  "sheet_rows file =
     (let header = (case file of [] \<Rightarrow> [] | h # _ \<Rightarrow> h);
          missing = filter (\<lambda>c. c \<notin> set header) REQUIRED_COLUMNS
      in if missing \<noteq> [] then Inl (MissingColumns missing)
         else case clean_rows header (filter (\<lambda>r. r \<noteq> []) (tl file)) of
           Inl e \<Rightarrow> Inl UnreadableRow | Inr ds \<Rightarrow> Inr ds)"

definition row_field :: "string dict \<Rightarrow> string \<Rightarrow> string" where
  "row_field r k = default (map_of r k) []"

definition row_email :: "string dict \<Rightarrow> string" where
  "row_email r = py_lower (row_field r ''email'')"

definition complete_row :: "string dict \<Rightarrow> bool" where
  "complete_row r \<longleftrightarrow> row_field r ''first_name'' \<noteq> [] \<and> row_field r ''last_name'' \<noteq> [] \<and> row_email r \<noteq> []"

definition importable :: "trade_lead table \<Rightarrow> int \<Rightarrow> string dict \<Rightarrow> bool" where
  "importable t program_id r \<longleftrightarrow> complete_row r \<and> get_by_program_email t program_id (row_email r) = None"

definition optional_text :: "string dict \<Rightarrow> string \<Rightarrow> string option" where
  "optional_text r k = (if row_field r k = [] then None else Some (row_field r k))"

definition SHEET_SHARED :: "string list" where
  "SHEET_SHARED = [''registered_address'', ''city'', ''postal_code'', ''country'', ''company_founded'',
     ''industry_sector'', ''sector_specification'', ''sector_other'', ''operating_currency'',
     ''fiscal_year_start'', ''employee_count'', ''sources_internationally'', ''sells_internationally'',
     ''cohort_date'', ''wtc_location'']"

definition sheet_lead :: "int \<Rightarrow> string \<Rightarrow> string dict \<Rightarrow> trade_lead" where
  "sheet_lead program_id hex12 r =
     (new_trade_lead program_id (''sheet-import-'' @ hex12) 1 True (row_email r))
       \<lparr>tl_first_name := row_field r ''first_name'', tl_middle_name := optional_text r ''middle_name'',
        tl_last_name := row_field r ''last_name'', tl_phone := json_opt (optional_text r ''phone''),
        tl_job_title := json_opt (optional_text r ''job_title''), tl_company := optional_text r ''company'',
        tl_shared := map (\<lambda>k. (k, json_opt (optional_text r k))) SHEET_SHARED,
        tl_source := ''sheet_import'', tl_responses := map (\<lambda>(k, v). (k, JStr v)) r\<rparr>"

fun create_sheet ::
    "time \<Rightarrow> db_bind \<Rightarrow> (nat \<Rightarrow> string) \<Rightarrow> int \<Rightarrow> string dict list \<Rightarrow> nat \<Rightarrow> trade_lead table
      \<Rightarrow> (trade_error + nat) \<times> trade_lead table" where
  "create_sheet now bind uuids program_id [] n t = (Inr n, t)"
| "create_sheet now bind uuids program_id (r # rs) n t =
     (case create_trade_lead now bind (sheet_lead program_id (uuids n) r) t of
        Inl e \<Rightarrow> (Inl e, t)
      | Inr (l, t') \<Rightarrow> create_sheet now bind uuids program_id rs (Suc n) t')"

datatype sheet_end = SheetUnread sheet_error | SheetNoProgram | SheetDryRun "string dict list"
  | SheetFailed trade_error | SheetDone nat

definition sheet_run ::
    "time \<Rightarrow> db_bind \<Rightarrow> (nat \<Rightarrow> string) \<Rightarrow> bool \<Rightarrow> trade_program table \<Rightarrow> string list list \<Rightarrow> trade_lead table
      \<Rightarrow> sheet_end \<times> trade_lead table" where
  "sheet_run now bind uuids commit programs file t =
     (case sheet_rows file of
        Inl e \<Rightarrow> (SheetUnread e, t)
      | Inr ds \<Rightarrow> (case get_program_by_slug programs TRADE_PROGRAM_SLUG of
          None \<Rightarrow> (SheetNoProgram, t)
        | Some p \<Rightarrow>
            (let k = default (tp_id p) 0; todo = filter (importable t k) ds in
             if \<not> commit then (SheetDryRun todo, t)
             else case create_sheet now bind uuids k todo 0 t of
               (Inl e, t') \<Rightarrow> (SheetFailed e, t')
             | (Inr n, t') \<Rightarrow> (SheetDone n, t'))))"

subsection \<open>Removal of test registrations\<close>

definition KEEP_REGISTRATION_IDS :: "string list" where
  "KEEP_REGISTRATION_IDS = [''campaign-lead-541'']"

definition doomed :: "trade_lead \<Rightarrow> bool" where
  "doomed l \<longleftrightarrow> tl_registration_id l \<notin> set KEEP_REGISTRATION_IDS"

record cleanup_db =
  cu_leads :: "trade_lead table"
  cu_documents :: "trade_document table"
  cu_events :: "email_event table"

text \<open>The rows, in one transaction; the contacts follow, each on its own.\<close>

definition delete_rows :: "cleanup_db \<Rightarrow> cleanup_db" where
  "delete_rows db =
     (let ids = map tl_id (filter doomed (rows (cu_leads db))) in
      \<lparr>cu_leads = tbl_delete (\<lambda>l. tl_id l \<in> set ids) (cu_leads db),
       cu_documents = tbl_delete (\<lambda>d. td_registration_id d \<notin> set KEEP_REGISTRATION_IDS) (cu_documents db),
       cu_events = tbl_delete (\<lambda>e. ee_trade_lead_id e \<noteq> None \<and> ee_trade_lead_id e \<in> set ids) (cu_events db)\<rparr>)"

definition doomed_contacts :: "trade_lead table \<Rightarrow> string list" where
  "doomed_contacts t = map (\<lambda>l. default (tl_crm_contact_id l) [])
     (filter (\<lambda>l. truthy (tl_crm_contact_id l)) (filter doomed (rows t)))"

definition delete_one :: "(int \<Rightarrow> client_error + unit) \<Rightarrow> string \<Rightarrow> bool" where
  "delete_one answer contact_id = (case parse_int contact_id of
     Inl e \<Rightarrow> False
   | Inr k \<Rightarrow> (case delete_contact (answer k) of Inl e \<Rightarrow> False | Inr _ \<Rightarrow> True))"

datatype cleanup_end = NothingToClean | CleanupDryRun "string list" | Cleaned "string list" "string list"

definition cleanup_run ::
    "(int \<Rightarrow> client_error + unit) \<Rightarrow> bool \<Rightarrow> cleanup_db \<Rightarrow> cleanup_end \<times> cleanup_db" where
  "cleanup_run answer commit db =
     (let contacts = doomed_contacts (cu_leads db) in
      if filter doomed (rows (cu_leads db)) = [] then (NothingToClean, db)
      else if \<not> commit then (CleanupDryRun contacts, db)
      else (Cleaned (filter (delete_one answer) contacts) (filter (\<lambda>c. \<not> delete_one answer c) contacts),
            delete_rows db))"

end
