(* ===== verification/Trade_Scripts_Safety.thy ===== *)
theory Trade_Scripts_Safety
  imports Trade_Scripts Trade_Safety
begin

section \<open>What the trade scripts do to the participants\<close>

text \<open>
  A transfer that ends normally has moved every registration and has nothing left to do; the
  ways it stops for good; the same for the spreadsheet; and what the cleanup leaves.
\<close>

subsection \<open>Rows as they are stored\<close>

text \<open>What an insert may change of a row: the columns the driver converts, time and key.\<close>

definition stored_as :: "trade_lead \<Rightarrow> trade_lead \<Rightarrow> bool" where
  "stored_as l r \<longleftrightarrow> (\<exists>shared phone job m c k. tl_id r \<noteq> None \<and>
     r = l\<lparr>tl_shared := shared, tl_phone := phone, tl_job_title := job, tl_middle_name := m,
       tl_created_at := c, tl_id := k\<rparr>)"

lemma stored_as_fields:
  "stored_as l r \<Longrightarrow> tl_registration_id r = tl_registration_id l \<and> tl_email r = tl_email l \<and>
     tl_trade_program_id r = tl_trade_program_id l \<and> tl_is_primary r = tl_is_primary l \<and>
     tl_crm_sync_status r = tl_crm_sync_status l \<and> tl_crm_contact_id r = tl_crm_contact_id l \<and>
     tl_tags r = tl_tags l \<and> tl_first_name r = tl_first_name l \<and> tl_last_name r = tl_last_name l \<and>
     tl_company r = tl_company l \<and> tl_id r \<noteq> None"
  by (auto simp: stored_as_def)

lemma create_trade_lead_appends:
  assumes "create_trade_lead now bind l t = Inr (r, t')"
  shows "rows t' = rows t @ [r]" and "stored_as l r"
proof -
  from assms obtain b where b: "bound bind l = Some b"
    and ins: "tbl_insert set_tl_id (b\<lparr>tl_created_at := now\<rparr>) t = (r, t')"
    by (auto simp: create_trade_lead_def split: option.splits if_splits)
  have r: "r = b\<lparr>tl_created_at := now, tl_id := Some (next_id t)\<rparr>"
    using arg_cong [OF ins, of fst] by (simp add: set_tl_id_def)
  show "rows t' = rows t @ [r]"
    using rows_tbl_insert(1) [of set_tl_id "b\<lparr>tl_created_at := now\<rparr>" t] by (simp add: ins r set_tl_id_def)
  from b obtain shared phone job
    where "b = l\<lparr>tl_shared := shared, tl_phone := phone, tl_job_title := job\<rparr>" by (rule bound_Some)
  then have "r = l\<lparr>tl_shared := shared, tl_phone := phone, tl_job_title := job,
      tl_middle_name := tl_middle_name l, tl_created_at := now, tl_id := Some (next_id t)\<rparr>"
    by (simp add: r)
  then show "stored_as l r"
    unfolding stored_as_def by (intro exI conjI) (simp, assumption)
qed

lemma create_trade_lead_taken:
  assumes "x \<in> set (rows t)" and "tl_id x \<noteq> None" and "tl_id l = None" and "tl_email l \<noteq> []"
    and "tl_email x = tl_email l" and "tl_trade_program_id x = tl_trade_program_id l"
  shows "\<exists>e. create_trade_lead now bind l t = Inl e"
proof (cases "bound bind l")
  case None
  then show ?thesis by (simp add: create_trade_lead_def)
next
  case (Some b)
  from bound_fields [OF this] assms have "email_taken t b" by (auto simp: email_taken_iff)
  with Some show ?thesis by (simp add: create_trade_lead_def)
qed

lemma in_registrationI:
  "x \<in> set (rows t) \<Longrightarrow> tl_registration_id x = reg \<Longrightarrow> list_by_registration t reg \<noteq> []"
  using in_registration [of x t reg] by (metis emptyE empty_set)

subsection \<open>The transfer\<close>

lemma transfer_keys_agree: "TRANSFER_KEYS = SHARED_RESPONSE_KEYS"
  by (simp only: TRANSFER_KEYS_def SHARED_RESPONSE_KEYS_def)

lemma create_primary_stored:
  assumes "create_primary now bind x t = Inr (r, t')"
  shows "rows t' = rows t @ [r]" and "stored_as (xf_primary x) r"
proof -
  from assms obtain m where c: "create_trade_lead now bind ((xf_primary x)\<lparr>tl_middle_name := m\<rparr>) t = Inr (r, t')"
    by (auto simp: create_primary_def split: option.splits)
  from c show "rows t' = rows t @ [r]" by (rule create_trade_lead_appends)
  have "stored_as ((xf_primary x)\<lparr>tl_middle_name := m\<rparr>) r" by (rule create_trade_lead_appends(2) [OF c])
  then show "stored_as (xf_primary x) r" unfolding stored_as_def by fastforce
qed

text \<open>The rows one planned registration becomes.\<close>

definition stored_group :: "transfer \<Rightarrow> trade_lead list \<Rightarrow> bool" where
  "stored_group x rs \<longleftrightarrow> (\<exists>r. stored_as (xf_primary x) r \<and>
     (case xf_second x of None \<Rightarrow> rs = [r] | Some s \<Rightarrow> \<exists>q. stored_as s q \<and> rs = [r, q]))"

lemma create_transfers_Inr:
  "create_transfers now bind xs n db pending = (Inr m, t', ev') \<Longrightarrow>
     \<exists>groups. rows t' = rows (fst db) @ concat groups \<and> list_all2 stored_group xs groups"
proof (induction now bind xs n db pending rule: create_transfers.induct)
  case (1 now bind n t ev pending)
  then show ?case by simp
next
  case (2 now bind x xs n t ev pending)
  from 2(3) obtain r t1 where p: "create_primary now bind x t = Inr (r, t1)"
    by (cases "create_primary now bind x t") auto
  obtain k ev1 where rp: "repoint (ld_id (xf_lead x)) (tl_id r) pending = (k, ev1)" by fastforce
  note r = create_primary_stored [OF p]
  let ?n = "n\<lparr>xc_primaries := xc_primaries n + 1, xc_events := xc_events n + k\<rparr>"
  show ?case
  proof (cases "xf_second x")
    case None
    from 2(3) p rp None have "create_transfers now bind xs ?n (t1, pending) ev1 = (Inr m, t', ev')"
      by (simp add: Let_def)
    from 2(1) [OF p refl rp [symmetric] refl refl None this [folded None]] obtain groups
      where "rows t' = rows t1 @ concat groups" "list_all2 stored_group xs groups" by auto
    moreover have "stored_group x [r]" using r None by (simp add: stored_group_def)
    ultimately show ?thesis using r by (intro exI [of _ "[r] # groups"]) simp
  next
    case (Some s)
    from 2(3) p rp Some obtain s' t2 where c: "create_trade_lead now bind s t1 = Inr (s', t2)"
      by (cases "create_trade_lead now bind s t1") (auto simp: Let_def)
    from 2(3) p rp Some c
    have "create_transfers now bind xs (?n\<lparr>xc_seconds := xc_seconds ?n + 1\<rparr>) (t2, ev1) ev1 = (Inr m, t', ev')"
      by (simp add: Let_def)
    from 2(2) [OF p refl rp [symmetric] refl refl Some c refl this] obtain groups
      where "rows t' = rows t2 @ concat groups" "list_all2 stored_group xs groups" by auto
    moreover have "stored_group x [r, s']" using r create_trade_lead_appends [OF c] Some by (simp add: stored_group_def)
    ultimately show ?thesis using r create_trade_lead_appends [OF c] by (intro exI [of _ "[r, s'] # groups"]) simp
  qed
qed

text \<open>The script's second participant is the one the service makes of the same answers.\<close>

lemma build_second_agrees:
  assumes "build_second_participant l k e shared = Inr o'"
  shows "case o' of None \<Rightarrow> second_participant_from_responses (ld_responses l) e = Inr None
    | Some (s, w) \<Rightarrow> \<exists>sk. second_participant_from_responses (ld_responses l) e = Inr (Some sk) \<and>
        tl_first_name s = sk_first_name sk \<and> tl_last_name s = sk_last_name sk \<and> tl_email s = sk_email sk \<and>
        tl_company s = Some (ld_company l)"
proof -
  from assms obtain second f n where d: "second_object (ld_responses l) = Inr second"
    "stripped second ''first_name'' = Inr f" "stripped second ''last_name'' = Inr n"
    by (auto simp: build_second_participant_def rbind_eq_Inr_iff)
  show ?thesis
  proof (cases "f = [] \<and> n = []")
    case True
    with assms d show ?thesis by (auto simp: build_second_participant_def second_participant_from_responses_def)
  next
    case False
    with assms d obtain m where "stripped second ''email'' = Inr m"
      by (auto simp: build_second_participant_def rbind_eq_Inr_iff)
    with assms d False show ?thesis
      by (auto simp: build_second_participant_def second_participant_from_responses_def Let_def new_trade_lead_def)
  qed
qed

lemma build_second_shape:
  assumes "build_second_participant l k e shared = Inr (Some (s, w))"
  shows "tl_registration_id s = transfer_id l \<and> tl_trade_program_id s = k \<and> \<not> tl_is_primary s \<and>
    tl_crm_sync_status s = CrmPending \<and> tl_crm_contact_id s = None \<and> tl_tags s = None \<and> tl_id s = None"
  using assms by (auto simp: build_second_participant_def rbind_eq_Inr_iff new_trade_lead_def Let_def split: if_splits)

text \<open>What a planned registration will be stored as.\<close>

lemma plan_transfer_shape:
  assumes "plan_transfer k l = Inr x"
  shows "xf_lead x = l" and "xf_primary x = build_primary l k (transfer_shared (ld_responses l))"
    and "xf_second x = Some s \<Longrightarrow> tl_registration_id s = transfer_id l \<and> tl_trade_program_id s = k \<and>
      \<not> tl_is_primary s \<and> tl_crm_sync_status s = CrmPending \<and> tl_crm_contact_id s = None \<and> tl_tags s = None \<and> tl_id s = None"
  using assms by (auto simp: plan_transfer_def Let_def rbind_eq_Inr_iff dest: build_second_shape)

text \<open>The rows a registration of the source campaign is moved to: the primary, who keeps the CRM
  contact and counts as synced, and, exactly when the answers name a second participant, that one.\<close>

definition moved :: "int \<Rightarrow> lead \<Rightarrow> trade_lead list \<Rightarrow> bool" where
  "moved k l rs \<longleftrightarrow> list_all (\<lambda>r. tl_registration_id r = transfer_id l \<and> tl_trade_program_id r = k \<and>
       tl_company r = Some (ld_company l) \<and> tl_tags r = None) rs \<and>
     (\<exists>r qs. rs = r # qs \<and> tl_is_primary r \<and> tl_email r = norm_email (ld_email l) \<and>
       tl_first_name r = ld_first_name l \<and> tl_last_name r = ld_last_name l \<and>
       tl_crm_sync_status r = CrmSynced \<and> tl_crm_contact_id r = ld_crm_contact_id l \<and>
       (case second_participant_from_responses (ld_responses l) (norm_email (ld_email l)) of
          Inl _ \<Rightarrow> False
        | Inr None \<Rightarrow> qs = []
        | Inr (Some sk) \<Rightarrow> (\<exists>q. qs = [q] \<and> \<not> tl_is_primary q \<and> tl_email q = sk_email sk \<and>
            tl_first_name q = sk_first_name sk \<and> tl_last_name q = sk_last_name sk \<and>
            tl_crm_sync_status q = CrmPending \<and> tl_crm_contact_id q = None)))"

lemma build_primary_fields:
  "tl_registration_id (build_primary l k sh) = transfer_id l" "tl_trade_program_id (build_primary l k sh) = k"
  "tl_company (build_primary l k sh) = Some (ld_company l)" "tl_tags (build_primary l k sh) = None"
  "tl_is_primary (build_primary l k sh)" "tl_email (build_primary l k sh) = norm_email (ld_email l)"
  "tl_first_name (build_primary l k sh) = ld_first_name l" "tl_last_name (build_primary l k sh) = ld_last_name l"
  "tl_crm_sync_status (build_primary l k sh) = CrmSynced" "tl_crm_contact_id (build_primary l k sh) = ld_crm_contact_id l"
  by (simp_all add: build_primary_def new_trade_lead_def)

lemma stored_group_moved:
  assumes plan: "plan_transfer k l = Inr x" and g: "stored_group x rs"
  shows "moved k l rs"
proof -
  let ?sh = "transfer_shared (ld_responses l)"
  from plan obtain o' where b: "build_second_participant l k (norm_email (ld_email l)) ?sh = Inr o'"
    and x: "xf_primary x = build_primary l k ?sh" "xf_second x = map_option fst o'"
    by (auto simp: plan_transfer_def Let_def rbind_eq_Inr_iff build_primary_fields)
  from g obtain r where r: "stored_as (build_primary l k ?sh) r"
    and rs: "case map_option fst o' of None \<Rightarrow> rs = [r] | Some s \<Rightarrow> \<exists>q. stored_as s q \<and> rs = [r, q]"
    unfolding stored_group_def x by blast
  note rf = stored_as_fields [OF r, unfolded build_primary_fields]
  show ?thesis
  proof (cases o')
    case None
    with build_second_agrees [OF b] rs rf show ?thesis by (simp add: moved_def build_primary_fields)
  next
    case (Some p)
    obtain s w where p: "p = (s, w)" by fastforce
    from rs Some p obtain q where q: "stored_as s q" "rs = [r, q]" by auto
    from build_second_agrees [OF b] Some p obtain sk where
      sk: "second_participant_from_responses (ld_responses l) (norm_email (ld_email l)) = Inr (Some sk)"
      and f: "tl_first_name s = sk_first_name sk" "tl_last_name s = sk_last_name sk" "tl_email s = sk_email sk"
        "tl_company s = Some (ld_company l)" by auto
    note shape = build_second_shape [OF b [unfolded Some p]]
    from stored_as_fields [OF q(1)] shape f rf q(2) sk show ?thesis
      by (simp add: moved_def build_primary_fields)
  qed
qed

lemma plan_transfers_Inr:
  "plan_transfers k t ls = Inr (n, xs) \<Longrightarrow>
     list_all2 (\<lambda>l x. plan_transfer k l = Inr x) (filter (\<lambda>l. list_by_registration t (transfer_id l) = []) ls) xs"
proof (induction ls arbitrary: n xs)
  case Nil
  then show ?case by simp
next
  case (Cons l ls)
  show ?case
  proof (cases "list_by_registration t (transfer_id l) = []")
    case True
    with Cons.prems obtain x ys where "plan_transfer k l = Inr x" "plan_transfers k t ls = Inr (n, ys)" "xs = x # ys"
      by (auto simp: rbind_eq_Inr_iff)
    with Cons.IH [of n ys] True show ?thesis by simp
  next
    case False
    with Cons.prems obtain m where "plan_transfers k t ls = Inr (m, xs)" by (auto simp: rbind_eq_Inr_iff)
    with Cons.IH [of m xs] False show ?thesis by simp
  qed
qed

lemma plan_transfers_settled:
  "\<forall>l \<in> set ls. list_by_registration t (transfer_id l) \<noteq> [] \<Longrightarrow> plan_transfers k t ls = Inr (length ls, [])"
  by (induction ls) auto

lemma list_by_registration_append:
  assumes "rows t' = rows t @ new" and "list_by_registration t reg \<noteq> []"
  shows "list_by_registration t' reg \<noteq> []"
proof -
  from assms(2) obtain x where "x \<in> set (list_by_registration t reg)" by (meson last_in_set)
  with assms(1) have "x \<in> set (list_by_registration t' reg)" by (simp add: in_registration)
  then show ?thesis by auto
qed

definition zero_counts :: transfer_counts where
  "zero_counts = \<lparr>xc_primaries = 0, xc_seconds = 0, xc_events = 0\<rparr>"

lemma transfer_run_Transferred:
  assumes "transfer_run now bind True campaigns leads programs db = (Transferred n, db')"
  obtains c p already xs where "get_by_slug campaigns SOURCE_CAMPAIGN_SLUG = Some c"
    and "get_program_by_slug programs TRADE_PROGRAM_SLUG = Some p"
    and "plan_transfers (default (tp_id p) 0) (fst db) (source_leads campaigns leads) = Inr (already, xs)"
    and "create_transfers now bind xs zero_counts db (snd db) = (Inr n, db')"
  using assms by (auto simp: transfer_run_def zero_counts_def split: option.splits sum.splits prod.splits)

text \<open>C37: a transfer that ends normally leaves every existing participant row as it was and adds, in the
  order of the source campaign's leads (its first hundred thousand), the rows of each registration
  that had none: the primary, with the lead's name, e-mail and company, who carries the CRM
  contact of the lead and counts as synced, so is never pushed; and, exactly when the answers name a
  second participant, that one, pending. A registration that has any row already is taken for
  done. A later run on the same leads finds nothing to do and changes nothing.\<close>

theorem transfer_is_complete_and_final:
  assumes run: "transfer_run now bind True campaigns leads programs db = (Transferred n, db')"
  shows "\<exists>p groups. get_program_by_slug programs TRADE_PROGRAM_SLUG = Some p \<and>
     rows (fst db') = rows (fst db) @ concat groups \<and>
     list_all2 (moved (default (tp_id p) 0))
       (filter (\<lambda>l. list_by_registration (fst db) (transfer_id l) = []) (source_leads campaigns leads)) groups \<and>
     transfer_run later bind2 True campaigns leads programs db' = (Transferred zero_counts, db')"
proof -
  from run obtain c p already xs where cp: "get_by_slug campaigns SOURCE_CAMPAIGN_SLUG = Some c"
    "get_program_by_slug programs TRADE_PROGRAM_SLUG = Some p"
    and plan: "plan_transfers (default (tp_id p) 0) (fst db) (source_leads campaigns leads) = Inr (already, xs)"
    and created: "create_transfers now bind xs zero_counts db (snd db) = (Inr n, db')"
    by (rule transfer_run_Transferred)
  let ?k = "default (tp_id p) 0" and ?todo = "filter (\<lambda>l. list_by_registration (fst db) (transfer_id l) = []) (source_leads campaigns leads)"
  from created obtain groups where rows: "rows (fst db') = rows (fst db) @ concat groups"
    and stored: "list_all2 stored_group xs groups"
    using create_transfers_Inr [of now bind xs zero_counts db "snd db" n "fst db'" "snd db'"] by auto
  have all: "list_all2 (moved ?k) ?todo groups"
    using list_all2_trans [OF _ plan_transfers_Inr [OF plan] stored] stored_group_moved by blast
  have settled: "list_by_registration (fst db') (transfer_id l) \<noteq> []" if l: "l \<in> set (source_leads campaigns leads)" for l
  proof (cases "list_by_registration (fst db) (transfer_id l) = []")
    case True
    with l have "l \<in> set ?todo" by simp
    with all obtain rs where rs: "rs \<in> set groups" "moved ?k l rs"
      by (metis in_set_conv_nth list_all2_conv_all_nth)
    have "rs \<noteq> []" and ids: "list_all (\<lambda>r. tl_registration_id r = transfer_id l) rs"
      using rs(2) unfolding moved_def by (blast, blast intro: list.pred_mono_strong)
    then have "hd rs \<in> set rs" by simp
    with ids obtain r where "r \<in> set rs" "tl_registration_id r = transfer_id l" by (auto simp: list_all_iff)
    with rs(1) rows show ?thesis by (intro in_registrationI [of r]) auto
  next
    case False
    with rows show ?thesis by (rule list_by_registration_append)
  qed
  have "transfer_run later bind2 True campaigns leads programs db' = (Transferred zero_counts, db')"
    using plan_transfers_settled [of "source_leads campaigns leads" "fst db'" "default (tp_id p) 0"] settled
    by (cases db') (simp add: transfer_run_def cp zero_counts_def)
  with cp rows all show ?thesis by blast
qed

definition export_campaigns :: "campaign table" where
  "export_campaigns = \<lparr>rows = [witness_campaign\<lparr>cg_slug := SOURCE_CAMPAIGN_SLUG\<rparr>], next_id = 2\<rparr>"

definition export_programs :: "trade_program table" where
  "export_programs = \<lparr>rows = [witness_program\<lparr>tp_slug := TRADE_PROGRAM_SLUG\<rparr>], next_id = 5\<rparr>"

definition export_lead :: lead where
  "export_lead = witness_lead\<lparr>ld_crm_contact_id := Some ''77'', ld_responses :=
     [(''second_participant'', JObj [(''first_name'', JStr ''Chi''), (''email'', JStr ''Chi@x.ng'')])]\<rparr>"

theorem transfer_is_complete_and_final_witness:
  "\<exists>n db'. transfer_run 9 accept_all True export_campaigns \<lparr>rows = [export_lead], next_id = 2\<rparr> export_programs
       (empty_table, empty_table) = (Transferred n, db') \<and> xc_seconds n = 1 \<and>
     map tl_email (rows (fst db')) = [''ada@x.ng'', ''chi@x.ng''] \<and>
     transfer_run 10 accept_all True export_campaigns \<lparr>rows = [export_lead], next_id = 2\<rparr> export_programs db' =
       (Transferred zero_counts, db')"
proof -
  let ?leads = "\<lparr>rows = [export_lead], next_id = 2\<rparr>"
  have camp: "get_by_slug export_campaigns SOURCE_CAMPAIGN_SLUG = Some (witness_campaign\<lparr>cg_slug := SOURCE_CAMPAIGN_SLUG\<rparr>)"
    and prog: "get_program_by_slug export_programs TRADE_PROGRAM_SLUG = Some (witness_program\<lparr>tp_slug := TRADE_PROGRAM_SLUG\<rparr>)"
    and ids: "cg_id witness_campaign = Some 1" "tp_id witness_program = Some 4"
    by (simp_all add: export_campaigns_def export_programs_def get_by_slug_def get_program_by_slug_def
        witness_campaign_def witness_program_def)
  have src: "source_leads export_campaigns ?leads = [export_lead]"
    by (simp add: source_leads_def camp ids list_for_campaign_def page_of_def apply_filters_def no_filter_def
        when_given_def export_lead_def witness_lead_def new_lead_def)
  have "case plan_transfer 4 export_lead of Inr x \<Rightarrow> tl_email (xf_primary x) = ''ada@x.ng'' \<and> tl_id (xf_primary x) = None \<and>
      (case xf_second x of Some s \<Rightarrow> tl_email s = ''chi@x.ng'' \<and> tl_id s = None | None \<Rightarrow> False) | Inl _ \<Rightarrow> False"
    by code_simp
  then obtain x s where x: "plan_transfer 4 export_lead = Inr x"
    and second: "xf_second x = Some s" and emails: "tl_email (xf_primary x) = ''ada@x.ng''" "tl_email s = ''chi@x.ng''"
    and keys: "tl_id (xf_primary x) = None" "tl_id s = None"
    by (auto split: sum.splits option.splits)
  have fresh: "list_by_registration empty_table reg = []" for reg
    by (simp add: list_by_registration_def empty_table_def)
  note lead = plan_transfer_shape(1) [OF x]
  define r where "r = (xf_primary x)\<lparr>tl_middle_name := None, tl_created_at := 9, tl_id := Some 1\<rparr>"
  have first: "create_primary 9 accept_all x empty_table = Inr (r, \<lparr>rows = [r], next_id = 2\<rparr>)"
    by (simp add: create_primary_def lead export_lead_def json_get_def accept_all_def text_column_def
        create_trade_lead_def email_taken_def tbl_insert_def set_tl_id_def empty_table_def Let_def r_def witness_lead_def new_lead_def
        bound_accept_all [unfolded accept_all_def])
  have snd_row: "\<exists>q u. create_trade_lead 9 accept_all s \<lparr>rows = [r], next_id = 2\<rparr> = Inr (q, u) \<and> tl_email q = ''chi@x.ng'' \<and> rows u = [r, q]"
    by (simp add: create_trade_lead_def email_taken_def tbl_insert_def set_tl_id_def Let_def r_def emails)
  then obtain q u where q: "create_trade_lead 9 accept_all s \<lparr>rows = [r], next_id = 2\<rparr> = Inr (q, u)"
    "tl_email q = ''chi@x.ng''" "rows u = [r, q]" by blast
  have "\<exists>n ev. transfer_run 9 accept_all True export_campaigns ?leads export_programs (empty_table, empty_table) =
      (Transferred n, u, ev) \<and> xc_seconds n = 1"
    by (simp add: transfer_run_def camp prog ids src x fresh first second q repoint_def Let_def)
  then obtain n ev where run: "transfer_run 9 accept_all True export_campaigns ?leads export_programs (empty_table, empty_table) =
      (Transferred n, u, ev)" and n: "xc_seconds n = 1" by blast
  from transfer_is_complete_and_final [OF run, of 10 accept_all] have "transfer_run 10 accept_all True export_campaigns ?leads
      export_programs (u, ev) = (Transferred zero_counts, u, ev)" by blast
  with run n q show ?thesis by (intro exI [of _ n] exI [of _ "(u, ev)"]) (simp add: r_def emails)
qed

subsection \<open>How a transfer stops\<close>

text \<open>
  A registrant whose e-mail the program already has, as another company's second participant or
  from the new form, ends the run with a unique violation; the registration is planned again
  by the next run, which ends there too, so none behind it is ever transferred.
\<close>

lemma taken_email_blocks_transfer:
  assumes plan: "plan_transfer k l = Inr x" and e: "norm_email (ld_email l) \<noteq> []"
    and row: "r \<in> set (rows t)" "tl_id r \<noteq> None" "tl_trade_program_id r = k" "tl_email r = norm_email (ld_email l)"
  shows "\<exists>e. create_transfers now bind (x # xs) n (t, ev) ev = (Inl e, t, ev)"
proof -
  have "\<exists>e. create_primary now bind x t = Inl e"
  proof (cases "text_column bind ''middle_name'' (json_get (ld_responses (xf_lead x)) ''middle_name'')")
    case (Some m)
    have "\<exists>e. create_trade_lead now bind ((xf_primary x)\<lparr>tl_middle_name := m\<rparr>) t = Inl e"
      using plan_transfer_shape(2) [OF plan] row e
      by (intro create_trade_lead_taken [of r]) (auto simp: build_primary_def new_trade_lead_def)
    with Some show ?thesis by (simp add: create_primary_def)
  qed (simp add: create_primary_def)
  then show ?thesis by auto
qed

text \<open>
  The primary is committed before its second participant is tried. When that insert is
  refused the run ends with the events not repointed, and since the registration now has a row
  every later run counts it as transferred: the second participant is never created.
\<close>

lemma refused_second_is_never_retried:
  assumes plan: "plan_transfer k l = Inr x" and s: "xf_second x = Some s"
    and prim: "create_primary now bind x t = Inr (r, t1)" and refused: "create_trade_lead now bind s t1 = Inl e"
  shows "create_transfers now bind (x # xs) n (t, ev) ev = (Inl e, t1, ev)"
    and "plan_transfers k t1 [l] = Inr (1, [])"
proof -
  obtain c ev1 where "repoint (ld_id (xf_lead x)) (tl_id r) ev = (c, ev1)" by fastforce
  with prim s refused show "create_transfers now bind (x # xs) n (t, ev) ev = (Inl e, t1, ev)"
    by (simp add: Let_def)
  have "tl_registration_id r = transfer_id l"
    using stored_as_fields [OF create_primary_stored(2) [OF prim]] plan_transfer_shape(2) [OF plan]
    by (simp add: build_primary_def new_trade_lead_def)
  then have "list_by_registration t1 (transfer_id l) \<noteq> []"
    using create_primary_stored(1) [OF prim] by (intro in_registrationI [of r]) auto
  then show "plan_transfers k t1 [l] = Inr (1, [])" by (simp add: plan_transfers_settled [of "[l]", simplified])
qed

text \<open>A transferred second participant goes to the CRM with no tag at all, whatever base tags the
  program configures for its contacts.\<close>

lemma transferred_second_is_untagged:
  assumes "plan_transfer k l = Inr x" and "xf_second x = Some s" and "stored_as s r"
    and "trade_contact_payload r p = Inr c"
  shows "cp_tags c = []"
  using assms(4) stored_as_fields [OF assms(3)] plan_transfer_shape(3) [OF assms(1,2)]
  by (auto simp: trade_contact_payload_def rbind_eq_Inr_iff)

text \<open>Archiving twice is archiving once, and takes the campaign out of the active ones.\<close>

lemma archive_source_settles:
  assumes "wf_table cg_id campaigns" and "get_by_slug campaigns SOURCE_CAMPAIGN_SLUG = Some c"
  shows "\<exists>c'. get_by_slug (archive_source now campaigns) SOURCE_CAMPAIGN_SLUG = Some c' \<and> cg_status c' = CampaignArchived"
    and "archive_source later (archive_source now campaigns) = archive_source now campaigns"
proof -
  have find: "List.find (\<lambda>x. cg_slug x = s) (map (\<lambda>x. if cg_id x = cg_id d then d else x) xs) = Some d"
    if "List.find (\<lambda>x. cg_slug x = s) xs = Some y" "cg_id d = cg_id y" "cg_slug d = s" "distinct (map cg_id xs)" for s d y and xs :: "campaign list"
    using that
  proof (induction xs)
    case (Cons a xs)
    show ?case
    proof (cases "cg_slug a = s")
      case True
      with Cons.prems show ?thesis by simp
    next
      case False
      with Cons.prems have y: "y \<in> set xs" using find_Some_in [of "\<lambda>x. cg_slug x = s" xs y] by simp
      with Cons.prems have "cg_id a \<noteq> cg_id d" by force
      with False Cons show ?thesis by simp
    qed
  qed simp
  show "\<exists>c'. get_by_slug (archive_source now campaigns) SOURCE_CAMPAIGN_SLUG = Some c' \<and> cg_status c' = CampaignArchived"
  proof (cases "cg_status c = CampaignArchived")
    case True
    with assms(2) show ?thesis by (simp add: archive_source_def)
  next
    case False
    have slug: "cg_slug c = SOURCE_CAMPAIGN_SLUG" using assms(2) find_Some_in by (fastforce simp: get_by_slug_def)
    from False find [of _ _ c "c\<lparr>cg_status := CampaignArchived, cg_updated_at := now\<rparr>"] assms slug
    show ?thesis by (simp add: archive_source_def update_campaign_def get_by_slug_def wf_table_def)
  qed
  then show "archive_source later (archive_source now campaigns) = archive_source now campaigns"
    by (subst archive_source_def) auto
qed

subsection \<open>The spreadsheet\<close>

lemma create_sheet_Inr:
  "create_sheet now bind uuids k rs n t = (Inr m, t') \<Longrightarrow>
     \<exists>new. rows t' = rows t @ new \<and> m = n + length rs \<and>
       list_all2 (\<lambda>r x. \<exists>hex. stored_as (sheet_lead k hex r) x) rs new"
proof (induction rs arbitrary: n t)
  case Nil
  then show ?case by simp
next
  case (Cons r rs)
  from Cons.prems obtain x t1 where c: "create_trade_lead now bind (sheet_lead k (uuids n) r) t = Inr (x, t1)"
    by (cases "create_trade_lead now bind (sheet_lead k (uuids n) r) t") auto
  with Cons.prems have "create_sheet now bind uuids k rs (Suc n) t1 = (Inr m, t')" by simp
  from Cons.IH [OF this] obtain new where "rows t' = rows t1 @ new" "m = Suc n + length rs"
    "list_all2 (\<lambda>r x. \<exists>hex. stored_as (sheet_lead k hex r) x) rs new" by blast
  with create_trade_lead_appends [OF c] show ?case by (intro exI [of _ "x # new"]) auto
qed

lemma list_all2_member: "list_all2 P xs ys \<Longrightarrow> x \<in> set xs \<Longrightarrow> \<exists>y \<in> set ys. P x y"
  by (induction rule: list_all2_induct) auto

lemma sheet_lead_stored:
  "stored_as (sheet_lead k hex r) x \<Longrightarrow> tl_email x = row_email r \<and> tl_trade_program_id x = k \<and>
     tl_is_primary x \<and> tl_crm_sync_status x = CrmPending \<and> tl_tags x = None \<and> tl_id x \<noteq> None"
  by (drule stored_as_fields) (simp add: sheet_lead_def new_trade_lead_def)

text \<open>
  An import that ends normally leaves the existing participants alone, one participant for
  every complete row of the file, and nothing for a second import of the file.
\<close>

lemma sheet_import_settles:
  assumes run: "sheet_run now bind uuids True programs file t = (SheetDone n, t')"
  shows "\<exists>p ds new. get_program_by_slug programs TRADE_PROGRAM_SLUG = Some p \<and> sheet_rows file = Inr ds \<and>
    rows t' = rows t @ new \<and> length new = n \<and>
    (\<forall>r \<in> set ds. complete_row r \<longrightarrow> get_by_program_email t' (default (tp_id p) 0) (row_email r) \<noteq> None) \<and>
    sheet_run later bind2 uuids2 True programs file t' = (SheetDone 0, t')"
proof -
  from run obtain ds p where ds: "sheet_rows file = Inr ds" and p: "get_program_by_slug programs TRADE_PROGRAM_SLUG = Some p"
    and c: "create_sheet now bind uuids (default (tp_id p) 0) (filter (importable t (default (tp_id p) 0)) ds) 0 t = (Inr n, t')"
    by (auto simp: sheet_run_def Let_def split: sum.splits option.splits prod.splits)
  let ?k = "default (tp_id p) 0" and ?todo = "filter (importable t (default (tp_id p) 0)) ds"
  from create_sheet_Inr [OF c] obtain new where rows: "rows t' = rows t @ new" and n: "n = length ?todo"
    and all: "list_all2 (\<lambda>r x. \<exists>hex. stored_as (sheet_lead ?k hex r) x) ?todo new" by auto
  have found: "get_by_program_email t' ?k (row_email r) \<noteq> None" if r: "r \<in> set ds" "complete_row r" for r
  proof -
    have "\<exists>x \<in> set (rows t'). tl_trade_program_id x = ?k \<and> tl_email x = row_email r"
    proof (cases "get_by_program_email t ?k (row_email r)")
      case None
      with r have "r \<in> set ?todo" by (simp add: importable_def)
      from list_all2_member [OF all this] obtain x hex where "x \<in> set new" "stored_as (sheet_lead ?k hex r) x" by blast
      with rows sheet_lead_stored show ?thesis by fastforce
    next
      case (Some x)
      with find_Some_in [of _ "rows t" x] rows show ?thesis
        by (fastforce simp: get_by_program_email_def split: if_splits)
    qed
    with r(2) show ?thesis by (auto simp: get_by_program_email_def find_None_all complete_row_def)
  qed
  then have "filter (importable t' ?k) ds = []" by (auto simp: filter_empty_conv importable_def)
  then have "sheet_run later bind2 uuids2 True programs file t' = (SheetDone 0, t')"
    by (simp add: sheet_run_def ds p)
  with ds p rows n found list_all2_lengthD [OF all] show ?thesis by auto
qed

text \<open>The lookups come before the inserts: an e-mail that is twice in the file is planned
  twice, and the second insert ends the import in the middle.\<close>

lemma repeated_email_ends_import:
  assumes same: "row_email r' = row_email r" and e: "row_email r \<noteq> []"
  shows "\<exists>err. fst (create_sheet now bind uuids k (r # r' # rs) n t) = Inl err"
proof (cases "create_trade_lead now bind (sheet_lead k (uuids n) r) t")
  case (Inr xt)
  obtain x t1 where xt: "xt = (x, t1)" by fastforce
  note new = create_trade_lead_appends [OF Inr [unfolded xt]]
  have "\<exists>err. create_trade_lead now bind (sheet_lead k (uuids (Suc n)) r') t1 = Inl err"
    using new(1) sheet_lead_stored [OF new(2)] same e
    by (intro create_trade_lead_taken [of x]) (auto simp: sheet_lead_def new_trade_lead_def)
  with Inr xt show ?thesis by auto
qed simp

text \<open>A row with more fields than the header fails the reading of the whole file.\<close>

lemma overlong_row_is_unreadable:
  "r \<in> set rs \<Longrightarrow> length header < length r \<Longrightarrow> clean_rows header rs = Inl AttributeError"
proof (induction rs)
  case (Cons q rs)
  then show ?case by (cases "clean_row header q") (auto simp: clean_row_def split: if_splits)
qed simp

subsection \<open>The cleanup\<close>

lemma in_doomed_ids:
  assumes "ok_table tl_id t" and "l \<in> set (rows t)"
  shows "tl_id l \<in> tl_id ` {x \<in> set (rows t). doomed x} \<longleftrightarrow> doomed l"
  using assms by (auto simp: ok_table_def wf_table_def distinct_map dest: inj_onD)

text \<open>
  A cleanup with \<open>--commit\<close> that finds something keeps exactly the listed registrations'
  participants and documents; an event that pointed to a kept participant or to none stays,
  every other goes, so no event is left pointing to a deleted row; a second run has nothing to do.
\<close>

lemma cleanup_keeps_exactly_the_listed:
  assumes ok: "ok_table tl_id (cu_leads db)" and some: "filter doomed (rows (cu_leads db)) \<noteq> []"
    and fk: "\<And>e. e \<in> set (rows (cu_events db)) \<Longrightarrow> ee_trade_lead_id e \<noteq> None \<Longrightarrow>
      ee_trade_lead_id e \<in> tl_id ` set (rows (cu_leads db))"
    and run: "cleanup_run answer True db = (r, db')"
  shows "rows (cu_leads db') = filter (\<lambda>l. \<not> doomed l) (rows (cu_leads db))"
    and "\<forall>d \<in> set (rows (cu_documents db')). td_registration_id d \<in> set KEEP_REGISTRATION_IDS"
    and "\<forall>e \<in> set (rows (cu_events db')). ee_trade_lead_id e \<noteq> None \<longrightarrow>
      ee_trade_lead_id e \<in> tl_id ` set (rows (cu_leads db'))"
    and "cleanup_run answer True db' = (NothingToClean, db')"
proof -
  from run some have db': "db' = delete_rows db" by (auto simp: cleanup_run_def Let_def)
  have rows: "rows (cu_leads db') = filter (\<lambda>l. \<not> doomed l) (rows (cu_leads db))"
    using in_doomed_ids [OF ok] by (auto simp: db' delete_rows_def Let_def intro!: filter_cong)
  then show "rows (cu_leads db') = filter (\<lambda>l. \<not> doomed l) (rows (cu_leads db))" .
  show "\<forall>d \<in> set (rows (cu_documents db')). td_registration_id d \<in> set KEEP_REGISTRATION_IDS"
    by (auto simp: db' delete_rows_def Let_def)
  show "\<forall>e \<in> set (rows (cu_events db')). ee_trade_lead_id e \<noteq> None \<longrightarrow>
      ee_trade_lead_id e \<in> tl_id ` set (rows (cu_leads db'))"
    using fk unfolding rows by (auto simp: db' delete_rows_def Let_def image_iff)
  from rows have "filter doomed (rows (cu_leads db')) = []" by simp
  then show "cleanup_run answer True db' = (NothingToClean, db')" by (simp add: cleanup_run_def Let_def)
qed

text \<open>It is said to delete what is on the program, but no program is asked about: whatever
  its \<open>tl_trade_program_id\<close>, a participant goes, and its CRM contact is deleted too.\<close>

lemma cleanup_ignores_the_program:
  assumes ok: "ok_table tl_id (cu_leads db)" and l: "l \<in> set (rows (cu_leads db))" "doomed l"
    and c: "tl_crm_contact_id l = Some c" "c \<noteq> []"
  shows "l \<notin> set (rows (cu_leads (snd (cleanup_run answer True db))))"
    and "c \<in> set (doomed_contacts (cu_leads db))"
proof -
  from l have "filter doomed (rows (cu_leads db)) \<noteq> []" by (auto simp: filter_empty_conv)
  with l show "l \<notin> set (rows (cu_leads (snd (cleanup_run answer True db))))"
    by (auto simp: cleanup_run_def delete_rows_def Let_def)
  from l c show "c \<in> set (doomed_contacts (cu_leads db))"
    by (auto simp: doomed_contacts_def truthy_def intro!: image_eqI [of _ _ l])
qed

end
