(* ===== verification/Seeds.thy ===== *)
theory Seeds
  imports Bookings Auth Trade
begin

section \<open>The seed scripts\<close>

text \<open>
  Model of \<open>scripts/seed_campaigns.py\<close>, \<open>seed_trade_programs.py\<close>, \<open>seed_rooms.py\<close> and
  \<open>seed_user.py\<close>: the configuration the service is set up with, as the JSON the scripts write,
  and the scripts that insert or overwrite its rows. The service's own view of a configuration
  is a record (\<open>Leads\<close>, \<open>Trade\<close>); \<open>campaign_config_of\<close> and \<open>program_config_of\<close> read it from the JSON.
\<close>

subsection \<open>Seeding a table\<close>

text \<open>The first row the script finds is overwritten, else a new one is inserted.\<close>

definition seed_row ::
    "('r \<Rightarrow> int option) \<Rightarrow> (int option \<Rightarrow> 'r \<Rightarrow> 'r) \<Rightarrow> ('r \<Rightarrow> bool) \<Rightarrow> 'r \<Rightarrow> ('r \<Rightarrow> 'r) \<Rightarrow> 'r table \<Rightarrow> 'r table" where
  "seed_row key set_key same new assign t = (case List.find same (rows t) of
     None \<Rightarrow> snd (tbl_insert set_key new t)
   | Some r \<Rightarrow> tbl_update key (assign r) t)"

locale seeder =
  fixes key :: "'r \<Rightarrow> int option" and set_key :: "int option \<Rightarrow> 'r \<Rightarrow> 'r"
    and ident :: "'r \<Rightarrow> string" and spec_ident :: "'s \<Rightarrow> string"
    and make :: "time \<Rightarrow> 's \<Rightarrow> 'r" and assign :: "time \<Rightarrow> 's \<Rightarrow> 'r \<Rightarrow> 'r"
    and seed_one :: "time \<Rightarrow> 's \<Rightarrow> 'r table \<Rightarrow> 'r table"
  assumes key_set: "key (set_key k r) = k"
    and ident_set: "ident (set_key k r) = ident r"
    and ident_make: "ident (make now s) = spec_ident s"
    and key_assign: "key (assign now s r) = key r"
    and ident_assign: "ident (assign now s r) = ident r"
    and assign_make: "assign later s (set_key k (make now s)) = set_key k (make now s)"
    and assign_assign: "assign later s (assign now s r) = assign now s r"
    and seed_one: "seed_one now s t =
      seed_row key set_key (\<lambda>r. ident r = spec_ident s) (make now s) (assign now s) t"
begin

text \<open>The row a spec finds, if any, is as the spec says: seeding would not change it.\<close>

definition settled :: "'s \<Rightarrow> 'r table \<Rightarrow> bool" where
  "settled s t \<longleftrightarrow> (\<exists>r. List.find (\<lambda>r. ident r = spec_ident s) (rows t) = Some r \<and> (\<forall>now. assign now s r = r))"

lemma ok_seed_one: "ok_table key t \<Longrightarrow> ok_table key (seed_one now s t)"
  by (auto simp: seed_one seed_row_def key_set intro: ok_tbl_insert ok_tbl_update split: option.split)

lemma find_replaced:
  assumes "distinct (map key xs)" and "List.find p xs = Some r" and "key d = key r" and "p d"
  shows "List.find p (map (\<lambda>x. if key x = key d then d else x) xs) = Some d"
  using assms
proof (induction xs)
  case (Cons a xs)
  show ?case
  proof (cases "p a")
    case True
    with Cons.prems show ?thesis by simp
  next
    case False
    with Cons.prems have "r \<in> set xs" using find_Some_in [of p xs r] by simp
    with Cons.prems have "key a \<noteq> key d" by force
    with False Cons show ?thesis by simp
  qed
qed simp

lemma find_kept:
  assumes "\<not> p d" and "\<And>x. x \<in> set xs \<Longrightarrow> key x = key d \<Longrightarrow> \<not> p x"
  shows "List.find p (map (\<lambda>x. if key x = key d then d else x) xs) = List.find p xs"
  using assms by (induction xs) auto

lemma seed_one_settles:
  assumes "ok_table key t"
  shows "settled s (seed_one now s t)"
proof (cases "List.find (\<lambda>r. ident r = spec_ident s) (rows t)")
  case None
  then show ?thesis
    by (auto simp: settled_def seed_one seed_row_def find_append ident_set ident_make assign_make)
next
  case (Some r)
  from find_Some_in [OF this] have r: "ident r = spec_ident s" by simp
  have "List.find (\<lambda>r. ident r = spec_ident s) (rows (seed_one now s t)) = Some (assign now s r)"
    using find_replaced [of "rows t" "\<lambda>r. ident r = spec_ident s" r "assign now s r"] assms Some r
    by (simp add: seed_one seed_row_def key_assign ident_assign ok_table_def wf_table_def)
  then show ?thesis by (auto simp: settled_def assign_assign)
qed

lemma seed_one_keeps:
  assumes ok: "ok_table key t" and other: "i \<noteq> spec_ident s"
  shows "List.find (\<lambda>r. ident r = i) (rows (seed_one now s t)) = List.find (\<lambda>r. ident r = i) (rows t)"
proof (cases "List.find (\<lambda>r. ident r = spec_ident s) (rows t)")
  case None
  with other show ?thesis by (auto simp: seed_one seed_row_def find_append ident_set ident_make split: option.split)
next
  case (Some r)
  from find_Some_in [OF this] have r: "r \<in> set (rows t)" "ident r = spec_ident s" by simp_all
  have "\<not> ident x = i" if "x \<in> set (rows t)" "key x = key r" for x
    using that r ok other by (auto simp: ok_table_def wf_table_def distinct_map dest: inj_onD)
  then show ?thesis
    using find_kept [of "\<lambda>r. ident r = i" "assign now s r" "rows t"] Some r other
    by (simp add: seed_one seed_row_def key_assign ident_assign)
qed

lemma seed_one_settled:
  assumes "ok_table key t" and "settled s t"
  shows "seed_one now s t = t"
proof -
  from assms(2) obtain r where r: "List.find (\<lambda>r. ident r = spec_ident s) (rows t) = Some r" "assign now s r = r"
    by (auto simp: settled_def)
  from find_Some_in [OF r(1)] have "r \<in> set (rows t)" by simp
  then have "map (\<lambda>x. if key x = key r then r else x) (rows t) = rows t"
    using assms(1) by (auto simp: ok_table_def wf_table_def distinct_map intro!: map_idI dest: inj_onD)
  with r show ?thesis by (simp add: seed_one seed_row_def tbl_update_def)
qed

lemma ok_seed_all: "ok_table key t \<Longrightarrow> ok_table key (fold (seed_one now) ss t)"
  by (induction ss arbitrary: t) (simp_all add: ok_seed_one)

lemma seed_all_keeps:
  "ok_table key t \<Longrightarrow> i \<notin> set (map spec_ident ss) \<Longrightarrow>
     List.find (\<lambda>r. ident r = i) (rows (fold (seed_one now) ss t)) = List.find (\<lambda>r. ident r = i) (rows t)"
  by (induction ss arbitrary: t) (auto simp: seed_one_keeps ok_seed_one)

lemma seed_all_settles:
  "ok_table key t \<Longrightarrow> distinct (map spec_ident ss) \<Longrightarrow> s \<in> set ss \<Longrightarrow> settled s (fold (seed_one now) ss t)"
proof (induction ss arbitrary: t)
  case (Cons a ss)
  show ?case
  proof (cases "s = a")
    case True
    with Cons.prems seed_all_keeps [of "seed_one now a t" "spec_ident a" ss now] seed_one_settles [of t a now]
    show ?thesis by (simp add: settled_def ok_seed_one)
  next
    case False
    with Cons show ?thesis by (auto simp: ok_seed_one)
  qed
qed simp

text \<open>A second run of a seed script changes nothing, whenever it is made.\<close>

lemma seed_all_idempotent:
  assumes "ok_table key t" and "distinct (map spec_ident ss)"
  shows "fold (seed_one later) ss (fold (seed_one now) ss t) = fold (seed_one now) ss t"
proof -
  have "fold (seed_one later) xs u = u" if "ok_table key u" "\<forall>s \<in> set xs. settled s u" for xs u
    using that by (induction xs) (auto simp: seed_one_settled)
  with assms show ?thesis by (simp add: ok_seed_all seed_all_settles)
qed

end

subsection \<open>Campaigns\<close>

text \<open>\<open>{**base, ...}\<close>.\<close>

definition spread :: "json dict \<Rightarrow> json dict \<Rightarrow> json dict" where
  "spread base over = fold (\<lambda>(k, v). AList.update k v) over base"

definition ASSETS_URL :: string where
  "ASSETS_URL = ''https://uxnddcxhzcjcldpheudk.supabase.co/storage/v1/object/public/campaign-assets''"

definition EMAIL_HERO :: string where
  "EMAIL_HERO = ASSETS_URL @ ''/wtc-bg-hero.jpg''"

definition EMAIL_LOGO :: string where
  "EMAIL_LOGO = ASSETS_URL @ ''/Abuja_WTC-LOGO_HORZ-white.png''"

definition BROCHURE_URL :: string where
  "BROCHURE_URL = ASSETS_URL @ ''/WTC-Abuja-Brochure.pdf''"

definition NOG_2026_CONFIG :: "json dict" where
  "NOG_2026_CONFIG =
     [(''interests'', JList [JStr ''Office Leasing'',
        JStr ''Executive Residences'',
        JStr ''Corporate Accommodation'',
        JStr ''Security & Continuity'',
        JStr ''Clubhouse'',
        JStr ''Location'']),
      (''materials'', JList [JStr ''Corporate Prospectus'',
        JStr ''Office Floorplates'',
        JStr ''Residence Floorplans'']),
      (''timing_options'', JList [JStr ''Immediate'',
        JStr ''0-3 months'',
        JStr ''3-6 months'',
        JStr ''6-12 months'',
        JStr ''Future'']),
      (''materials_assets'', JObj [(''Corporate Prospectus'', JList [JStr BROCHURE_URL]),
        (''Office Floorplates'', JList [JStr ''https://uxnddcxhzcjcldpheudk.supabase.co/storage/v1/object/public/campaign-assets/WTC-Abuja-Office-Floorplate-Email.pdf'']),
        (''Residence Floorplans'', JList [JStr ''https://uxnddcxhzcjcldpheudk.supabase.co/storage/v1/object/public/campaign-assets/WTC-Abuja-Residential-Floorplans-Email.pdf''])]),
      (''digital_pack'', JObj [(''subject'', JStr ''Your WTC Abuja Digital Pack''),
        (''intro'', JStr (concat [''Thank you for visiting the World Trade Center Abuja stand at NOG Energy Week. As requested, your materials are below '', em_dash, '' tap any button to download.''])),
        (''event_line'', JStr (concat [''NOG Energy Week 2026 &middot; 5'', [CHR 0xE2, CHR 0x80, CHR 0x93], ''9 July 2026''])),
        (''hero_url'', JStr EMAIL_HERO),
        (''logo_url'', JStr EMAIL_LOGO)]),
      (''viewing_booking'', JObj [(''subject'', JStr ''Your WTC Abuja Viewing Request''),
        (''intro'', JStr ''Thank you for requesting a viewing at the World Trade Center Abuja stand. A member of our team will be in touch shortly to confirm the details and arrange a time that works for you.''),
        (''brochure_url'', JStr BROCHURE_URL)]),
      (''materials_display'', JObj [(''Corporate Prospectus'', JObj [(''eyebrow'', JStr ''Full Brochure''),
          (''title'', JStr ''Full Development Brochure''),
          (''description'', JStr ''Offices, residences, clubhouse and infrastructure.''),
          (''featured'', JBool True)]),
        (''Office Floorplates'', JObj [(''eyebrow'', JStr ''Office Floorplate''),
          (''title'', JStr ''Grade A Offices''),
          (''description'', JStr (concat [''1,440 m'', [CHR 0xC2, CHR 0xB2], '' typical floor '', [CHR 0xC2, CHR 0xB7], '' Shell & core to Cat B fit-out'']))]),
        (''Residence Floorplans'', JObj [(''eyebrow'', JStr ''Residence Floorplans''),
          (''title'', JStr ''Executive Residences''),
          (''description'', JStr (concat [''1-bed, 2-bed & 3-bed apartments '', [CHR 0xC2, CHR 0xB7], '' Penthouses on request'']))])]),
      (''consent'', JObj [(''required'', JStr ''By submitting this form, you agree that World Trade Center Abuja may contact you about your selected enquiry and send the requested materials.''),
        (''marketing'', JStr ''I would also like to receive WTC Abuja updates, availability news, private invitations and marketing communications. I can opt out at any time.'')]),
      (''base_tags'', JList [JStr ''Stand App'', JStr ''NOG Energy Week 2026'']),
      (''tag_map'', JObj [(''Office Leasing'', JStr ''Office Leasing''),
        (''Executive Residences'', JStr ''Executive Residences''),
        (''Corporate Accommodation'', JStr ''Corporate Accommodation''),
        (''Security & Continuity'', JStr ''Security & Continuity''),
        (''Clubhouse'', JStr ''Clubhouse''),
        (''Location'', JStr ''Location'')]),
      (''digital_pack_tag'', JStr ''Digital Pack''),
      (''inspection_tag'', JStr ''Private Inspection''),
      (''newsletter_tag'', JStr ''Newsletter Opt-In'')]"

definition WTC_WEBSITE_CONFIG :: "json dict" where
  "WTC_WEBSITE_CONFIG = spread NOG_2026_CONFIG
     [(''materials'', JList [JStr ''brochure'', JStr ''office_floorplans'', JStr ''residential_plans'']),
      (''materials_assets'', JObj [(''brochure'', JList [JStr ''https://uxnddcxhzcjcldpheudk.supabase.co/storage/v1/object/public/campaign-assets/WTC-Abuja-Brochure.pdf'']),
        (''office_floorplans'', JList [JStr ''https://uxnddcxhzcjcldpheudk.supabase.co/storage/v1/object/public/campaign-assets/WTC-Abuja-Office-Floorplate-Email.pdf'']),
        (''residential_plans'', JList [JStr ''https://uxnddcxhzcjcldpheudk.supabase.co/storage/v1/object/public/campaign-assets/WTC-Abuja-Residential-Floorplans-Email.pdf''])]),
      (''base_tags'', JList [JStr ''WTC Abuja'', JStr ''Website'']),
      (''tag_map'', JObj [(''offices'', JStr ''Office Leasing''),
        (''residences'', JStr ''Executive Residences''),
        (''both'', JStr ''Office & Residences''),
        (''security'', JStr ''Security & Continuity''),
        (''full'', JStr ''Full Development Tour''),
        (''investment'', JStr ''Investment / Purchase''),
        (''general'', JStr ''General Information'')]),
      (''digital_pack'', JObj [(''subject'', JStr ''Your WTC Abuja Digital Pack''),
        (''intro'', JStr (concat [''Thank you for your interest in World Trade Center Abuja. As requested, your materials are below '', em_dash, '' tap any button to download.''])),
        (''hero_url'', JStr EMAIL_HERO),
        (''logo_url'', JStr EMAIL_LOGO)]),
      (''viewing_booking'', JObj [(''subject'', JStr ''Your WTC Abuja Viewing Request''),
        (''intro'', JStr ''Thank you for requesting a viewing at World Trade Center Abuja. A member of our team will be in touch shortly to confirm the details and arrange a time that works for you.''),
        (''brochure_url'', JStr BROCHURE_URL)]),
      (''materials_display'', JObj [(''brochure'', JObj [(''eyebrow'', JStr ''Full Brochure''),
          (''title'', JStr ''Full Development Brochure''),
          (''description'', JStr ''Offices, residences, clubhouse and infrastructure.''),
          (''featured'', JBool True)]),
        (''office_floorplans'', JObj [(''eyebrow'', JStr ''Office Floorplate''),
          (''title'', JStr ''Grade A Offices''),
          (''description'', JStr (concat [''1,440 m'', [CHR 0xC2, CHR 0xB2], '' typical floor '', [CHR 0xC2, CHR 0xB7], '' Shell & core to Cat B fit-out'']))]),
        (''residential_plans'', JObj [(''eyebrow'', JStr ''Residence Floorplans''),
          (''title'', JStr ''Executive Residences''),
          (''description'', JStr (concat [''1-bed, 2-bed & 3-bed apartments '', [CHR 0xC2, CHR 0xB7], '' Penthouses on request'']))])])]"

definition AI_PROSPECTING_CONFIG :: "json dict" where
  "AI_PROSPECTING_CONFIG =
     [(''base_tags'', JList [JStr ''AI Lead Engine'']), (''crm_sync_enabled'', JBool False)]"

definition EXPORT_LAUNCHPAD_2026_CONFIG :: "json dict" where
  "EXPORT_LAUNCHPAD_2026_CONFIG =
     [(''base_tags'', JList [JStr ''Export Launchpad'', JStr ''2026 First Cohort'']),
      (''lead_notification'', JBool True),
      (''crm_sync_enabled'', JBool False),
      (''application_confirmation'', JObj [(''subject'', JStr ''Your WTC Abuja Application Has Been Received''),
        (''programme_name'', JStr ''the Export Launchpad Bootcamp''),
        (''from_email'', JStr ''Tradeservices@wtcabuja.com''),
        (''from_name'', JStr ''WTC Abuja Trade Services''),
        (''eligibility'', JList [JStr ''Valid CAC business registration'',
          JStr ''A product or service currently sold in the Nigerian market'',
          JStr (concat [''Clear intent to begin exporting within the next 6'', [CHR 0xE2, CHR 0x80, CHR 0x93], ''12 months''])]),
        (''contact_email'', JStr ''Tradeservices@wtcabuja.com''),
        (''contact_phone'', JStr ''09164793000''),
        (''response_days'', JInt 3),
        (''slot_limit'', JInt 20),
        (''hero_url'', JStr ''https://uxnddcxhzcjcldpheudk.supabase.co/storage/v1/object/public/campaign-assets/Export%20LP%20EH.png''),
        (''logo_url'', JStr EMAIL_LOGO)])]"

record campaign_spec =
  sc_slug :: string
  sc_name :: string
  sc_status :: campaign_status
  sc_starts_on :: "pydate option"
  sc_ends_on :: "pydate option"
  sc_timezone :: string
  sc_config :: "json dict"

definition CAMPAIGNS :: "campaign_spec list" where
  "CAMPAIGNS =
    [\<lparr>sc_slug = ''nog-2026'', sc_name = concat [''NOG Energy Week 2026 '', em_dash, '' WTC Abuja Stand''],
      sc_status = CampaignActive, sc_starts_on = Some (2026, 7, 5), sc_ends_on = Some (2026, 7, 9), sc_timezone = ''Africa/Lagos'', sc_config = NOG_2026_CONFIG\<rparr>,
     \<lparr>sc_slug = ''wtcabuja-website'', sc_name = ''WTC Abuja Website'',
      sc_status = CampaignActive, sc_starts_on = Some (2026, 7, 5), sc_ends_on = Some (2056, 7, 9), sc_timezone = ''Africa/Lagos'', sc_config = WTC_WEBSITE_CONFIG\<rparr>,
     \<lparr>sc_slug = ''ai-prospecting'', sc_name = ''AI Lead Generation Engine'',
      sc_status = CampaignActive, sc_starts_on = Some (2026, 7, 27), sc_ends_on = Some (2056, 7, 27), sc_timezone = ''Africa/Lagos'', sc_config = AI_PROSPECTING_CONFIG\<rparr>,
     \<lparr>sc_slug = ''export-launchpad-2026'', sc_name = concat [''Export Launchpad Boot Camp 2026 '', em_dash, '' First Cohort''],
      sc_status = CampaignActive, sc_starts_on = Some (2026, 7, 23), sc_ends_on = Some (2026, 8, 20), sc_timezone = ''Africa/Lagos'', sc_config = EXPORT_LAUNCHPAD_2026_CONFIG\<rparr>]"

text \<open>The keys of a configuration that the service reads.\<close>

fun json_strings :: "json \<Rightarrow> string list" where
  "json_strings (JList xs) = concat (map (\<lambda>x. case x of JStr s \<Rightarrow> [s] | _ \<Rightarrow> []) xs)"
| "json_strings _ = []"

fun json_text :: "json \<Rightarrow> string option" where
  "json_text (JStr s) = Some s"
| "json_text _ = None"

fun json_dict :: "json \<Rightarrow> json dict" where
  "json_dict (JObj d) = d"
| "json_dict _ = []"

text \<open>\<open>config.get(key, True)\<close>: a key that is there counts as what it holds, \<open>None\<close> as false.\<close>

definition json_flag :: "json dict \<Rightarrow> string \<Rightarrow> bool option" where
  "json_flag d k = map_option json_truthy (map_of d k)"

fun json_asset :: "json \<Rightarrow> asset" where
  "json_asset (JStr s) = AssetUrl s"
| "json_asset (JList xs) = AssetUrls (json_strings (JList xs))"
| "json_asset _ = AssetOther"

definition campaign_config_of :: "json dict \<Rightarrow> campaign_config" where
  "campaign_config_of d =
     \<lparr>cfg_base_tags = json_strings (json_get d ''base_tags''),
      cfg_tag_map = map (\<lambda>(k, v). (k, default (json_text v) [])) (json_dict (json_get d ''tag_map'')),
      cfg_digital_pack_tag = json_text (json_get d ''digital_pack_tag''),
      cfg_inspection_tag = json_text (json_get d ''inspection_tag''),
      cfg_newsletter_tag = json_text (json_get d ''newsletter_tag''),
      cfg_materials = json_strings (json_get d ''materials''),
      cfg_materials_assets = map (\<lambda>(k, v). (k, json_asset v)) (json_dict (json_get d ''materials_assets'')),
      cfg_lead_notification = json_truthy (json_get d ''lead_notification''),
      cfg_application_confirmation = json_truthy (json_get d ''application_confirmation''),
      cfg_crm_sync_enabled = json_flag d ''crm_sync_enabled''\<rparr>"

text \<open>
  \<open>Campaign(**spec)\<close>, and \<open>setattr\<close> of the fields: an object none of whose values changes is
  not written, so \<open>updated_at\<close> stays.
\<close>

definition make_campaign :: "time \<Rightarrow> campaign_spec \<Rightarrow> campaign" where
  "make_campaign now s =
     \<lparr>cg_id = None, cg_slug = sc_slug s, cg_name = sc_name s, cg_status = sc_status s,
      cg_starts_on = sc_starts_on s, cg_ends_on = sc_ends_on s, cg_timezone = sc_timezone s,
      cg_config = campaign_config_of (sc_config s), cg_created_at = now, cg_updated_at = now\<rparr>"

definition assign_campaign :: "time \<Rightarrow> campaign_spec \<Rightarrow> campaign \<Rightarrow> campaign" where
  "assign_campaign now s c =
     (let c' = c\<lparr>cg_name := sc_name s, cg_status := sc_status s, cg_starts_on := sc_starts_on s,
        cg_ends_on := sc_ends_on s, cg_timezone := sc_timezone s, cg_config := campaign_config_of (sc_config s)\<rparr>
      in if c' = c then c else c'\<lparr>cg_updated_at := now\<rparr>)"

definition seed_campaign :: "time \<Rightarrow> campaign_spec \<Rightarrow> campaign table \<Rightarrow> campaign table" where
  "seed_campaign now s = seed_row cg_id set_cg_id (\<lambda>c. cg_slug c = sc_slug s) (make_campaign now s) (assign_campaign now s)"

definition seed_campaigns :: "time \<Rightarrow> campaign table \<Rightarrow> campaign table" where
  "seed_campaigns now t = fold (seed_campaign now) CAMPAIGNS t"

interpretation campaign_seed: seeder cg_id set_cg_id cg_slug sc_slug make_campaign assign_campaign seed_campaign
  by unfold_locales (simp_all add: set_cg_id_def make_campaign_def assign_campaign_def seed_campaign_def Let_def)

subsection \<open>Trade programs\<close>

definition KIND_BOOT_CAMP :: string where "KIND_BOOT_CAMP = ''boot_camp''"

definition TRADE_EMAIL_LOGO :: string where
  "TRADE_EMAIL_LOGO = ''https://uxnddcxhzcjcldpheudk.supabase.co/storage/v1/object/public/campaign-assets/Abuja_WTC-LOGO_HORZ-white.png''"

definition EXPORT_LAUNCHPAD_REQUIRED_DOCUMENTS :: "json list" where
  "EXPORT_LAUNCHPAD_REQUIRED_DOCUMENTS =
     [JObj [(''key'', JStr ''cac_certificate''),
       (''label'', JStr ''CAC Certificate''),
       (''required'', JBool True)],
      JObj [(''key'', JStr ''logo''),
       (''label'', JStr ''Company Logo''),
       (''required'', JBool True)],
      JObj [(''key'', JStr ''company_profile''),
       (''label'', JStr ''Company Profile / Brochure''),
       (''required'', JBool False)],
      JObj [(''key'', JStr ''business_plan''),
       (''label'', JStr ''Business Plan''),
       (''required'', JBool False)]]"

definition EXPORT_LAUNCHPAD_CONFIG :: "json dict" where
  "EXPORT_LAUNCHPAD_CONFIG =
     [(''email_template'', JStr ''export_launchpad_confirmation''),
      (''required_documents'', JList EXPORT_LAUNCHPAD_REQUIRED_DOCUMENTS),
      (''base_tags'', JList [JStr ''Export Launchpad'', JStr ''2026 First Cohort'', JStr ''export-launchpad'']),
      (''lead_notification'', JObj [(''enabled'', JBool True), (''to_email'', JStr ''Tradeservices@wtcabuja.com'')]),
      (''company_founded_options'', JList [JStr ''Less than 2 years'',
        JStr ''2-5 years'',
        JStr ''5-9 years'',
        JStr ''10-20 years'',
        JStr ''More than 20 years'']),
      (''topics_of_interest_options'', JList [JStr ''E-Commerce'',
        JStr ''ESG'',
        JStr ''Finance and Tax'',
        JStr ''Managing a Global Workforce'',
        JStr ''Tariff Playbook'',
        JStr ''Supply Chain'',
        JStr ''Export Bootcamp'',
        JStr ''Other'']),
      (''crm_sync_enabled'', JBool True),
      (''application_confirmation'', JObj [(''subject'', JStr ''Your WTC Abuja Application Has Been Received''),
        (''programme_name'', JStr ''the Export Launchpad Bootcamp''),
        (''from_email'', JStr ''Tradeservices@wtcabuja.com''),
        (''from_name'', JStr ''WTC Abuja Trade Services''),
        (''eligibility'', JList [JStr ''Valid CAC business registration'',
          JStr ''A product or service currently sold in the Nigerian market'',
          JStr ''Clear intent to begin exporting within the next 6-12 months'']),
        (''contact_email'', JStr ''Tradeservices@wtcabuja.com''),
        (''contact_phone'', JStr ''09164793000''),
        (''response_days'', JInt 3),
        (''slot_limit'', JInt 20),
        (''hero_url'', JStr ''https://uxnddcxhzcjcldpheudk.supabase.co/storage/v1/object/public/campaign-assets/Export%20LP%20EH.png''),
        (''logo_url'', JStr TRADE_EMAIL_LOGO)])]"

definition MISSION_REQUIRED_DOCUMENTS :: "json list" where
  "MISSION_REQUIRED_DOCUMENTS =
     [JObj [(''key'', JStr ''passport_data_page''),
       (''label'', JStr ''Passport Data Page''),
       (''required'', JBool True)]]"

definition MISSION_BASE_CONFIG :: "json dict" where
  "MISSION_BASE_CONFIG =
     [(''required_documents'', JList MISSION_REQUIRED_DOCUMENTS),
      (''require_admin_approval'', JBool True),
      (''crm_sync_enabled'', JBool True),
      (''crm_lead_source_id'', JNull)]"

definition CANTON_FAIR_CONFIG :: "json dict" where
  "CANTON_FAIR_CONFIG = spread MISSION_BASE_CONFIG
     [(''base_tags'', JList [JStr ''Canton Fair'', JStr ''Trade Mission'', JStr ''canton-fair-2026'']),
      (''lead_notification'', JObj [(''enabled'', JBool True), (''to_email'', JStr ''Tradeservices@wtcabuja.com'')]),
      (''application_confirmation'', JObj [(''subject'', JStr ''Your WTC Abuja Canton Fair Application Has Been Received''),
        (''programme_name'', JStr ''the 140th Canton Fair Trade Mission to Guangzhou, China''),
        (''from_email'', JStr ''Tradeservices@wtcabuja.com''),
        (''from_name'', JStr ''WTC Abuja Trade Services''),
        (''contact_email'', JStr ''Tradeservices@wtcabuja.com''),
        (''contact_phone'', JStr ''09164793000''),
        (''response_days'', JInt 3),
        (''logo_url'', JStr TRADE_EMAIL_LOGO)])]"

definition MUSIAD_EXPO_CONFIG :: "json dict" where
  "MUSIAD_EXPO_CONFIG = spread MISSION_BASE_CONFIG
     [(''base_tags'', JList [JStr ''MUSIAD Expo'', JStr ''Trade Mission'', JStr ''musiad-expo-2026'']),
      (''lead_notification'', JObj [(''enabled'', JBool True), (''to_email'', JStr ''Tradeservices@wtcabuja.com'')]),
      (''application_confirmation'', JObj [(''subject'', JStr ''Your WTC Abuja MUSIAD Expo Application Has Been Received''),
        (''programme_name'', JStr (concat [''the MUSIAD Expo 2026 Trade Mission to Istanbul, T'', [CHR 0xC3, CHR 0xBC], ''rkiye''])),
        (''from_email'', JStr ''Tradeservices@wtcabuja.com''),
        (''from_name'', JStr ''WTC Abuja Trade Services''),
        (''contact_email'', JStr ''Tradeservices@wtcabuja.com''),
        (''contact_phone'', JStr ''09164793000''),
        (''response_days'', JInt 3),
        (''logo_url'', JStr TRADE_EMAIL_LOGO)])]"

definition BELGIUM_LUXEMBOURG_CONFIG :: "json dict" where
  "BELGIUM_LUXEMBOURG_CONFIG = spread MISSION_BASE_CONFIG
     [(''base_tags'', JList [JStr ''Belgium-Luxembourg CBL'',
        JStr ''Trade Mission'',
        JStr ''belgium-luxembourg-2026'']),
      (''lead_notification'', JObj [(''enabled'', JBool True), (''to_email'', JStr ''Tradeservices@wtcabuja.com'')]),
      (''application_confirmation'', JObj [(''subject'', JStr ''Your WTC Abuja Nigeria-Belgium-Luxembourg Business Forum Application Has Been Received''),
        (''programme_name'', JStr (concat [''the 4th High-Level Nigeria'', [CHR 0xE2, CHR 0x80, CHR 0x93], ''Belgium'', [CHR 0xE2, CHR 0x80, CHR 0x93], ''Luxembourg Business Forum in Brussels, Belgium''])),
        (''from_email'', JStr ''Tradeservices@wtcabuja.com''),
        (''from_name'', JStr ''WTC Abuja Trade Services''),
        (''contact_email'', JStr ''Tradeservices@wtcabuja.com''),
        (''contact_phone'', JStr ''09164793000''),
        (''response_days'', JInt 3),
        (''logo_url'', JStr TRADE_EMAIL_LOGO)])]"

definition SPOTLIGHT_NIGERIA_CONFIG :: "json dict" where
  "SPOTLIGHT_NIGERIA_CONFIG =
     [(''required_documents'', JList []),
      (''require_admin_approval'', JBool True),
      (''crm_sync_enabled'', JBool True),
      (''crm_lead_source_id'', JNull),
      (''base_tags'', JList [JStr ''Spotlight Nigeria'',
        JStr ''France'',
        JStr ''Trade Mission'',
        JStr ''spotlight-nigeria-2026'']),
      (''lead_notification'', JObj [(''enabled'', JBool True), (''to_email'', JStr ''Tradeservices@wtcabuja.com'')]),
      (''application_confirmation'', JObj [(''subject'', JStr ''Your WTC Abuja Spotlight Nigeria Application Has Been Received''),
        (''programme_name'', JStr (concat [''Spotlight Nigeria 2026 '', em_dash, '' the Nigeria-France Business & Investment Summit''])),
        (''from_email'', JStr ''Tradeservices@wtcabuja.com''),
        (''from_name'', JStr ''WTC Abuja Trade Services''),
        (''contact_email'', JStr ''Tradeservices@wtcabuja.com''),
        (''contact_phone'', JStr ''09164793000''),
        (''response_days'', JInt 3),
        (''logo_url'', JStr TRADE_EMAIL_LOGO)])]"

record program_spec =
  sp_slug :: string
  sp_name :: string
  sp_kind :: string
  sp_status :: campaign_status
  sp_starts_on :: "pydate option"
  sp_ends_on :: "pydate option"
  sp_timezone :: string
  sp_config :: "json dict"

definition PROGRAMS :: "program_spec list" where
  "PROGRAMS =
    [\<lparr>sp_slug = ''export-launchpad-2026'', sp_name = concat [''Export Launchpad Boot Camp 2026 '', em_dash, '' First Cohort''],
      sp_kind = KIND_BOOT_CAMP, sp_status = CampaignActive, sp_starts_on = Some (2026, 8, 20), sp_ends_on = None, sp_timezone = ''Africa/Lagos'', sp_config = EXPORT_LAUNCHPAD_CONFIG\<rparr>,
     \<lparr>sp_slug = ''canton-fair-2026'', sp_name = concat [''140th Canton Fair Trade Mission '', em_dash, '' Guangzhou, China''],
      sp_kind = KIND_BOOT_CAMP, sp_status = CampaignActive, sp_starts_on = Some (2026, 10, 15), sp_ends_on = Some (2026, 11, 4), sp_timezone = ''Africa/Lagos'', sp_config = CANTON_FAIR_CONFIG\<rparr>,
     \<lparr>sp_slug = ''musiad-expo-2026'', sp_name = concat [''MUSIAD Expo 2026 '', em_dash, '' Istanbul, T'', [CHR 0xC3, CHR 0xBC], ''rkiye''],
      sp_kind = KIND_BOOT_CAMP, sp_status = CampaignActive, sp_starts_on = Some (2026, 9, 23), sp_ends_on = Some (2026, 9, 26), sp_timezone = ''Africa/Lagos'', sp_config = MUSIAD_EXPO_CONFIG\<rparr>,
     \<lparr>sp_slug = ''belgium-luxembourg-2026'', sp_name = concat [''4th High-Level Nigeria'', [CHR 0xE2, CHR 0x80, CHR 0x93], ''Belgium'', [CHR 0xE2, CHR 0x80, CHR 0x93], ''Luxembourg Business Forum (CBL 2026)''],
      sp_kind = KIND_BOOT_CAMP, sp_status = CampaignActive, sp_starts_on = Some (2026, 10, 28), sp_ends_on = Some (2026, 10, 30), sp_timezone = ''Africa/Lagos'', sp_config = BELGIUM_LUXEMBOURG_CONFIG\<rparr>,
     \<lparr>sp_slug = ''spotlight-nigeria-2026'', sp_name = concat [''Spotlight Nigeria 2026 '', em_dash, '' France Trade Mission''],
      sp_kind = KIND_BOOT_CAMP, sp_status = CampaignActive, sp_starts_on = None, sp_ends_on = None, sp_timezone = ''Africa/Lagos'', sp_config = SPOTLIGHT_NIGERIA_CONFIG\<rparr>]"

definition required_document_of :: "json \<Rightarrow> required_document" where
  "required_document_of j = (let d = json_dict j in
     \<lparr>rd_key = default (json_text (json_get d ''key'')) [], rd_label = json_text (json_get d ''label''),
      rd_required = json_truthy (json_get d ''required'')\<rparr>)"

fun json_items :: "json \<Rightarrow> json list" where
  "json_items (JList xs) = xs"
| "json_items _ = []"

fun json_number :: "json \<Rightarrow> int option" where
  "json_number (JInt i) = Some i"
| "json_number _ = None"

definition notified_address :: "json dict \<Rightarrow> string option" where
  "notified_address d = (if json_truthy (json_get d ''enabled'') then json_text (json_get d ''to_email'') else None)"

definition program_config_of :: "json dict \<Rightarrow> program_config" where
  "program_config_of d =
     \<lparr>pc_base_tags = json_strings (json_get d ''base_tags''),
      pc_required_documents = map required_document_of (json_items (json_get d ''required_documents'')),
      pc_application_confirmation = json_truthy (json_get d ''application_confirmation''),
      pc_lead_notification = notified_address (json_dict (json_get d ''lead_notification'')),
      pc_crm_sync_enabled = json_flag d ''crm_sync_enabled'',
      pc_require_admin_approval = json_truthy (json_get d ''require_admin_approval''),
      pc_crm_lead_source_id = json_number (json_get d ''crm_lead_source_id'')\<rparr>"

definition make_program :: "time \<Rightarrow> program_spec \<Rightarrow> trade_program" where
  "make_program now s =
     \<lparr>tp_id = None, tp_slug = sp_slug s, tp_name = sp_name s, tp_kind = sp_kind s, tp_status = sp_status s,
      tp_starts_on = sp_starts_on s, tp_ends_on = sp_ends_on s, tp_timezone = sp_timezone s,
      tp_config = program_config_of (sp_config s), tp_created_at = now, tp_updated_at = now\<rparr>"

definition assign_program :: "time \<Rightarrow> program_spec \<Rightarrow> trade_program \<Rightarrow> trade_program" where
  "assign_program now s p =
     (let p' = p\<lparr>tp_name := sp_name s, tp_kind := sp_kind s, tp_status := sp_status s, tp_starts_on := sp_starts_on s,
        tp_ends_on := sp_ends_on s, tp_timezone := sp_timezone s, tp_config := program_config_of (sp_config s)\<rparr>
      in if p' = p then p else p'\<lparr>tp_updated_at := now\<rparr>)"

definition set_tp_id :: "int option \<Rightarrow> trade_program \<Rightarrow> trade_program" where
  "set_tp_id k p = p\<lparr>tp_id := k\<rparr>"

definition seed_program :: "time \<Rightarrow> program_spec \<Rightarrow> trade_program table \<Rightarrow> trade_program table" where
  "seed_program now s = seed_row tp_id set_tp_id (\<lambda>p. tp_slug p = sp_slug s) (make_program now s) (assign_program now s)"

definition seed_trade_programs :: "time \<Rightarrow> trade_program table \<Rightarrow> trade_program table" where
  "seed_trade_programs now t = fold (seed_program now) PROGRAMS t"

interpretation program_seed: seeder tp_id set_tp_id tp_slug sp_slug make_program assign_program seed_program
  by unfold_locales (simp_all add: set_tp_id_def make_program_def assign_program_def seed_program_def Let_def)

subsection \<open>Rooms\<close>

record room_spec =
  rs_name :: string
  rs_location :: "string option"
  rs_capacity :: "int option"
  rs_description :: "string option"
  rs_room_type :: "string option"
  rs_size_sqm :: "rat option"
  rs_amenities :: "string list option"
  rs_image_url :: "string option"

definition ROOMS :: "room_spec list" where
  "ROOMS =
    [\<lparr>rs_name = ''Executive Boardroom'', rs_location = Some ''12th Floor'', rs_capacity = Some 20,
      rs_description = Some ''Executive boardroom with video conferencing.'',
      rs_room_type = Some ''Boardroom'', rs_size_sqm = Some 85,
      rs_amenities = Some [''Projector'', ''Video Conferencing'', ''Whiteboard'', ''AC'', ''Wi-Fi'', ''Catering Available''],
      rs_image_url = Some ''https://images.unsplash.com/photo-1497366216548-37526070297c''\<rparr>,
     \<lparr>rs_name = ''Conference Hall A'', rs_location = Some ''5th Floor'', rs_capacity = Some 40,
      rs_description = Some ''Large conference hall with stage and PA system.'',
      rs_room_type = Some ''Conference Hall'', rs_size_sqm = Some 140,
      rs_amenities = Some [''Dual Projectors'', ''PA System'', ''Stage'', ''AC'', ''Wi-Fi'', ''Recording Equipment''],
      rs_image_url = Some ''https://images.unsplash.com/photo-1540575467063-178a50c2df87''\<rparr>,
     \<lparr>rs_name = ''Breakout Room B'', rs_location = Some ''3rd Floor'', rs_capacity = Some 8,
      rs_description = Some ''Small meeting room for focused discussions.'',
      rs_room_type = Some ''Meeting Room'', rs_size_sqm = Some 32,
      rs_amenities = Some [''Smart TV'', ''Whiteboard'', ''Video Call Ready'', ''AC'', ''Wi-Fi''],
      rs_image_url = Some ''https://images.unsplash.com/photo-1497366754035-f200968a6e72''\<rparr>]"

definition make_room :: "time \<Rightarrow> room_spec \<Rightarrow> room" where
  "make_room now s =
     \<lparr>r_id = None, r_name = rs_name s, r_location = rs_location s, r_capacity = rs_capacity s,
      r_description = rs_description s, r_room_type = rs_room_type s, r_size_sqm = rs_size_sqm s,
      r_amenities = rs_amenities s, r_image_url = rs_image_url s, r_is_active = True, r_created_at = now\<rparr>"

definition assign_room :: "time \<Rightarrow> room_spec \<Rightarrow> room \<Rightarrow> room" where
  "assign_room now s r =
     r\<lparr>r_location := rs_location s, r_capacity := rs_capacity s, r_description := rs_description s,
       r_room_type := rs_room_type s, r_size_sqm := rs_size_sqm s, r_amenities := rs_amenities s,
       r_image_url := rs_image_url s, r_is_active := True\<rparr>"

definition set_room_id :: "int option \<Rightarrow> room \<Rightarrow> room" where
  "set_room_id k r = r\<lparr>r_id := k\<rparr>"

definition seed_room :: "time \<Rightarrow> room_spec \<Rightarrow> room table \<Rightarrow> room table" where
  "seed_room now s = seed_row r_id set_room_id (\<lambda>r. r_name r = rs_name s) (make_room now s) (assign_room now s)"

definition seed_rooms :: "time \<Rightarrow> room table \<Rightarrow> room table" where
  "seed_rooms now t = fold (seed_room now) ROOMS t"

interpretation room_seed: seeder r_id set_room_id r_name rs_name make_room assign_room seed_room
  by unfold_locales (simp_all add: set_room_id_def make_room_def assign_room_def seed_room_def)

subsection \<open>A user\<close>

definition SEED_ROLES :: "string list" where
  "SEED_ROLES = [''superadmin'', ''gmd'', ''sales_manager'', ''rep'']"

text \<open>
  The script as it is called: the role, a possible owner id and the password that is typed.
  \<open>None\<close> is an exit before anything is written; the hash and the check of the owner's
  foreign key are arguments.
\<close>

definition seed_user_row :: "(string \<Rightarrow> string) \<Rightarrow> string \<Rightarrow> string \<Rightarrow> string \<Rightarrow> int option \<Rightarrow> users \<Rightarrow> users" where
  "seed_user_row hash email role password owner us =
     save_user (case get_user_by_email us email of
        None \<Rightarrow> \<lparr>us_email = email, us_role = role, us_owner_id = owner,
          us_hashed_password = Some (hash password), us_must_change_password = False\<rparr>
      | Some u \<Rightarrow> u\<lparr>us_role := role, us_owner_id := owner, us_hashed_password := Some (hash password)\<rparr>) us"

definition seed_user ::
    "(string \<Rightarrow> string) \<Rightarrow> (int option \<Rightarrow> bool) \<Rightarrow> string \<Rightarrow> string \<Rightarrow> string \<Rightarrow> int option \<Rightarrow> users \<Rightarrow> users option" where
  "seed_user hash owner_ok email role password owner us =
     (if role \<notin> set SEED_ROLES \<or> password = [] \<or> \<not> owner_ok owner then None
      else Some (seed_user_row hash email role password owner us))"

end
