(* ===== verification/Seeds_Safety.thy ===== *)
theory Seeds_Safety
  imports Seeds Trade_Scripts_Safety Rep_Import
begin

section \<open>What the seed scripts guarantee\<close>

text \<open>
  Seeding is idempotent and leaves every other row alone; the seeded configurations are
  consistent with what the service does with them; and what a second run undoes.
\<close>

lemma seed_slugs_distinct:
  "distinct (map sc_slug CAMPAIGNS)" "distinct (map sp_slug PROGRAMS)" "distinct (map rs_name ROOMS)"
  by (code_simp, code_simp, code_simp)

definition campaign_seeded :: "campaign_spec \<Rightarrow> campaign \<Rightarrow> bool" where
  "campaign_seeded s c \<longleftrightarrow> cg_slug c = sc_slug s \<and> cg_status c = sc_status s \<and> cg_config c = campaign_config_of (sc_config s)"

definition program_seeded :: "program_spec \<Rightarrow> trade_program \<Rightarrow> bool" where
  "program_seeded s p \<longleftrightarrow> tp_slug p = sp_slug s \<and> tp_status p = sp_status s \<and> tp_config p = program_config_of (sp_config s)"

lemma assigned_campaign: "campaign_seeded s c'" if "cg_slug c = sc_slug s" and "c' = assign_campaign now s c" for c c'
proof -
  let ?d = "c\<lparr>cg_name := sc_name s, cg_status := sc_status s, cg_starts_on := sc_starts_on s, cg_ends_on := sc_ends_on s,
    cg_timezone := sc_timezone s, cg_config := campaign_config_of (sc_config s)\<rparr>"
  have "campaign_seeded s ?d" using that(1) by (simp add: campaign_seeded_def)
  moreover have "c' = ?d \<or> c' = ?d\<lparr>cg_updated_at := now\<rparr>" using that(2) by (auto simp: assign_campaign_def Let_def)
  ultimately show ?thesis by (auto simp: campaign_seeded_def)
qed

lemma assigned_program: "program_seeded s p'" if "tp_slug p = sp_slug s" and "p' = assign_program now s p" for p p'
proof -
  let ?d = "p\<lparr>tp_name := sp_name s, tp_kind := sp_kind s, tp_status := sp_status s, tp_starts_on := sp_starts_on s,
    tp_ends_on := sp_ends_on s, tp_timezone := sp_timezone s, tp_config := program_config_of (sp_config s)\<rparr>"
  have "program_seeded s ?d" using that(1) by (simp add: program_seeded_def)
  moreover have "p' = ?d \<or> p' = ?d\<lparr>tp_updated_at := now\<rparr>" using that(2) by (auto simp: assign_program_def Let_def)
  ultimately show ?thesis by (auto simp: program_seeded_def)
qed

lemma campaign_settled:
  assumes "campaign_seed.settled s t"
  shows "\<exists>c. get_by_slug t (sc_slug s) = Some c \<and> campaign_seeded s c"
proof -
  from assms obtain c where c: "get_by_slug t (sc_slug s) = Some c" "\<forall>now. assign_campaign now s c = c"
    by (auto simp: campaign_seed.settled_def get_by_slug_def)
  then have "cg_slug c = sc_slug s" using find_Some_in by (fastforce simp: get_by_slug_def)
  from assigned_campaign [OF this, of c 0] c show ?thesis by simp
qed

lemma program_settled:
  assumes "program_seed.settled s t"
  shows "\<exists>p. get_program_by_slug t (sp_slug s) = Some p \<and> program_seeded s p"
proof -
  from assms obtain p where p: "get_program_by_slug t (sp_slug s) = Some p" "\<forall>now. assign_program now s p = p"
    by (auto simp: program_seed.settled_def get_program_by_slug_def)
  then have "tp_slug p = sp_slug s" using find_Some_in by (fastforce simp: get_program_by_slug_def)
  from assigned_program [OF this, of p 0] p show ?thesis by simp
qed

text \<open>C38: after the campaigns are seeded every spec of the script has its campaign, with the
  status and configuration of the spec, a campaign of any other slug is as it was, and seeding
  again, at whatever time, changes nothing; the same for the trade programs.
\<close>

theorem seeding_is_idempotent:
  assumes "ok_table cg_id campaigns" and "ok_table tp_id programs"
  shows "(\<forall>s \<in> set CAMPAIGNS. \<exists>c. get_by_slug (seed_campaigns now campaigns) (sc_slug s) = Some c \<and> campaign_seeded s c) \<and>
    (\<forall>slug. slug \<notin> sc_slug ` set CAMPAIGNS \<longrightarrow> get_by_slug (seed_campaigns now campaigns) slug = get_by_slug campaigns slug) \<and>
    seed_campaigns later (seed_campaigns now campaigns) = seed_campaigns now campaigns \<and>
    (\<forall>s \<in> set PROGRAMS. \<exists>p. get_program_by_slug (seed_trade_programs now programs) (sp_slug s) = Some p \<and> program_seeded s p) \<and>
    (\<forall>slug. slug \<notin> sp_slug ` set PROGRAMS \<longrightarrow>
      get_program_by_slug (seed_trade_programs now programs) slug = get_program_by_slug programs slug) \<and>
    seed_trade_programs later (seed_trade_programs now programs) = seed_trade_programs now programs"
  using campaign_settled [OF campaign_seed.seed_all_settles [OF assms(1) seed_slugs_distinct(1)]]
    campaign_seed.seed_all_keeps [OF assms(1)] campaign_seed.seed_all_idempotent [OF assms(1) seed_slugs_distinct(1)]
    program_settled [OF program_seed.seed_all_settles [OF assms(2) seed_slugs_distinct(2)]]
    program_seed.seed_all_keeps [OF assms(2)] program_seed.seed_all_idempotent [OF assms(2) seed_slugs_distinct(2)]
  by (simp add: seed_campaigns_def seed_trade_programs_def get_by_slug_def get_program_by_slug_def)

theorem seeding_is_idempotent_witness:
  "(\<exists>c. get_by_slug (seed_campaigns 5 empty_table) ''nog-2026'' = Some c \<and> cg_status c = CampaignActive) \<and>
    seed_campaigns 6 (seed_campaigns 5 empty_table) = seed_campaigns 5 empty_table \<and>
    seed_trade_programs 6 (seed_trade_programs 5 empty_table) = seed_trade_programs 5 empty_table"
proof -
  have s: "hd CAMPAIGNS \<in> set CAMPAIGNS" "sc_slug (hd CAMPAIGNS) = ''nog-2026''" "sc_status (hd CAMPAIGNS) = CampaignActive"
    by (simp_all add: CAMPAIGNS_def)
  from seeding_is_idempotent [OF ok_empty_table ok_empty_table, of 5 6] s show ?thesis
    by (metis campaign_seeded_def)
qed

text \<open>Seeding the rooms again changes nothing either, but a room that was taken out of use is
  offered again.\<close>

lemma seed_rooms_idempotent: "ok_table r_id t \<Longrightarrow> seed_rooms later (seed_rooms now t) = seed_rooms now t"
  unfolding seed_rooms_def by (rule room_seed.seed_all_idempotent [OF _ seed_slugs_distinct(3)])

lemma seeded_rooms_are_active:
  assumes "ok_table r_id t" and "s \<in> set ROOMS"
  shows "\<exists>r. List.find (\<lambda>r. r_name r = rs_name s) (rows (seed_rooms now t)) = Some r \<and> r_is_active r"
proof -
  from room_seed.seed_all_settles [OF assms(1) seed_slugs_distinct(3) assms(2)] obtain r
    where "List.find (\<lambda>r. r_name r = rs_name s) (rows (seed_rooms now t)) = Some r" "assign_room 0 s r = r"
    by (auto simp: room_seed.settled_def seed_rooms_def)
  then show ?thesis by (intro exI [of _ r]) (metis assign_room_def room.select_convs(10) room.surjective room.update_convs(10))
qed

text \<open>
  The status is among the fields the script overwrites: the campaign that the transfer
  archived is active again after the next seeding, and takes leads that no transfer reports.
\<close>

lemma reseeding_reopens_archived_campaign:
  assumes "ok_table cg_id campaigns"
  shows "\<exists>c. get_by_slug (seed_campaigns later (archive_source now campaigns)) SOURCE_CAMPAIGN_SLUG = Some c \<and>
    cg_status c = CampaignActive"
proof -
  have ok: "ok_table cg_id (archive_source now campaigns)"
    using assms by (auto simp: archive_source_def update_campaign_def intro: ok_tbl_update split: option.split)
  have s: "last CAMPAIGNS \<in> set CAMPAIGNS" "sc_slug (last CAMPAIGNS) = SOURCE_CAMPAIGN_SLUG" "sc_status (last CAMPAIGNS) = CampaignActive"
    by (simp_all add: CAMPAIGNS_def SOURCE_CAMPAIGN_SLUG_def)
  from campaign_settled [OF campaign_seed.seed_all_settles [OF ok seed_slugs_distinct(1) s(1)], of later] s(2,3)
  show ?thesis by (auto simp: seed_campaigns_def campaign_seeded_def)
qed

subsection \<open>The seeded configurations\<close>

text \<open>Every material a campaign offers has a file to send and its display copy.\<close>

lemma seeded_materials_have_files:
  "\<forall>s \<in> set CAMPAIGNS. let d = sc_config s; cfg = campaign_config_of d in
     list_all (\<lambda>m. map_of (cfg_materials_assets cfg) m \<noteq> None \<and>
       map_of (json_dict (json_get d ''materials_display'')) m \<noteq> None) (cfg_materials cfg)"
  by code_simp

text \<open>The labels the rep import asks for are those of the seeded stand campaign: the whole pack
  of an imported lead can be delivered.\<close>

lemma imported_pack_is_deliverable:
  assumes "ld_requested_materials l = Some PACK_MATERIALS"
  shows "map fst (deliverable_materials l (make_campaign now (hd CAMPAIGNS))) = PACK_MATERIALS"
proof -
  have "map fst (pick_materials (cfg_materials (campaign_config_of NOG_2026_CONFIG))
      (cfg_materials_assets (campaign_config_of NOG_2026_CONFIG)) {} PACK_MATERIALS) = PACK_MATERIALS"
    by code_simp
  with assms show ?thesis by (simp add: deliverable_materials_def make_campaign_def CAMPAIGNS_def)
qed

text \<open>The website inherits what it does not override from the stand: the CRM tags of its packs.\<close>

lemma website_inherits_pack_tag:
  "cfg_digital_pack_tag (campaign_config_of WTC_WEBSITE_CONFIG) = Some ''Digital Pack''"
  "cfg_base_tags (campaign_config_of WTC_WEBSITE_CONFIG) = [''WTC Abuja'', ''Website'']"
  by (code_simp, code_simp)

text \<open>The two campaigns that must not reach the CRM are switched off, no other is.\<close>

lemma switched_off_campaigns:
  "map sc_slug (filter (\<lambda>s. cfg_crm_sync_enabled (campaign_config_of (sc_config s)) = Some False) CAMPAIGNS) =
     [''ai-prospecting'', ''export-launchpad-2026'']"
  by code_simp

text \<open>Every program has the same lead source in the CRM; every one but the boot camp waits for
  an approval.\<close>

lemma seeded_programs:
  "list_all (\<lambda>s. program_lead_source (make_program 0 s) = EXPORT_LAUNCHPAD_COHORT1_LEAD_SOURCE_ID) PROGRAMS"
  "map sp_slug (filter (\<lambda>s. \<not> pc_require_admin_approval (program_config_of (sp_config s))) PROGRAMS) = [''export-launchpad-2026'']"
  by (code_simp, code_simp)

subsection \<open>Users\<close>

text \<open>
  The script knows roles the service does not, and not all of the service's: a user seeded as
  \<open>gmd\<close> or \<open>sales_manager\<close> has a role that no endpoint with a role check accepts and no administrator can give,
  and an \<open>admin\<close> cannot be seeded.
\<close>

lemma seeded_roles_disagree:
  "filter (\<lambda>r. r \<notin> set VALID_ROLES) SEED_ROLES = [''gmd'', ''sales_manager'']"
  "seed_user hash owner_ok email ''admin'' password owner us = None"
  by (simp_all add: SEED_ROLES_def VALID_ROLES_def seed_user_def)

lemma seeded_role_is_refused:
  assumes "seed_user hash owner_ok email ''gmd'' password owner us = Some us'" and "get_user_by_email us' email = Some u"
    and "set roles \<subseteq> set VALID_ROLES" and "\<And>v. get_user_by_email us email = Some v \<Longrightarrow> us_email v = email"
  shows "http_status (require_role roles (HttpOk 200 u)) = 403"
proof -
  have "us_role u = ''gmd''"
    using assms(1,2,4) by (auto simp: seed_user_def seed_user_row_def save_user_def get_user_by_email_def update_conv'
        map_of_SomeD split: if_splits option.splits)
  moreover have "''gmd'' \<notin> set roles" using assms(3) by (auto simp: VALID_ROLES_def)
  ultimately show ?thesis by (simp add: require_role_def)
qed

end
