(* ===== verification/Schema.thy ===== *)
theory Schema
  imports Prelude
begin

section \<open>The schema and the statements that change it\<close>

text \<open>
  The language of the migrations: the tables, indexes and views that PostgreSQL keeps, and one
  constructor for every statement a revision of \<open>alembic/versions\<close> issues, with the effect and the
  errors that PostgreSQL documents for it. \<open>None\<close> is a statement that fails. The contents of the
  tables are read only as far as the revisions depend on them: whether a table may hold rows
  (\<open>sd_live\<close>), which columns were added since and are NULL or their default everywhere
  (\<open>sd_fresh\<close>), and the roles of the dashboard users, which one revision rewrites.
\<close>

subsection \<open>Tables, indexes and views\<close>

datatype sql_type = BigInt_t | Int_t | Varchar_t | Bool_t | Timestamptz_t | Date_t | Numeric_t
  | Float_t | Jsonb_t | Varchar_array_t

datatype server_default = Now_default | False_default | Empty_json_default | Text_default string

record column_def =
  cl_name :: string
  cl_type :: sql_type
  cl_nullable :: bool
  cl_default :: "server_default option"

record foreign_key =
  fk_name :: "string option"
  fk_columns :: "string list"
  fk_table :: string
  fk_target :: "string list"

record table_def =
  td_name :: string
  td_columns :: "column_def list"
  td_keys :: "string list"
  td_foreign :: "foreign_key list"

record index_def =
  ix_name :: string
  ix_table :: string
  ix_columns :: "string list"
  ix_unique :: bool
  ix_method :: "string option"
  ix_where :: "string option"
  ix_valid :: bool

record view_def =
  vw_name :: string
  vw_columns :: "(string \<times> string \<times> string) list"
  vw_joins :: "(string \<times> string) list"

record schema =
  sd_tables :: "table_def list"
  sd_indexes :: "index_def list"
  sd_views :: "view_def list"
  sd_live :: "string list"
  sd_fresh :: "(string \<times> string) list"

definition empty_schema :: schema where
  "empty_schema = \<lparr>sd_tables = [], sd_indexes = [], sd_views = [], sd_live = [], sd_fresh = []\<rparr>"

definition column_of :: "string \<Rightarrow> sql_type \<Rightarrow> bool \<Rightarrow> server_default option \<Rightarrow> column_def" where
  "column_of n t nullable d = \<lparr>cl_name = n, cl_type = t, cl_nullable = nullable, cl_default = d\<rparr>"

definition references :: "string \<Rightarrow> string \<Rightarrow> string \<Rightarrow> foreign_key" where
  "references c t k = \<lparr>fk_name = None, fk_columns = [c], fk_table = t, fk_target = [k]\<rparr>"

definition new_table :: "string \<Rightarrow> column_def list \<Rightarrow> foreign_key list \<Rightarrow> string list \<Rightarrow> table_def" where
  "new_table n cols fks keys = \<lparr>td_name = n, td_columns = cols, td_keys = keys, td_foreign = fks\<rparr>"

definition btree :: "string \<Rightarrow> string \<Rightarrow> string list \<Rightarrow> bool \<Rightarrow> index_def" where
  "btree n t cols uniq = \<lparr>ix_name = n, ix_table = t, ix_columns = cols, ix_unique = uniq,
     ix_method = None, ix_where = None, ix_valid = True\<rparr>"

lemma column_of_fields [simp]:
  "cl_name (column_of n t b d) = n" "cl_type (column_of n t b d) = t"
  "cl_nullable (column_of n t b d) = b" "cl_default (column_of n t b d) = d"
  by (simp_all add: column_of_def)

lemma btree_fields [simp]:
  "ix_name (btree n t cols u) = n" "ix_table (btree n t cols u) = t" "ix_columns (btree n t cols u) = cols"
  "ix_unique (btree n t cols u) = u" "ix_valid (btree n t cols u) = True"
  by (simp_all add: btree_def)

definition email_given :: string where
  "email_given = ''email <> '' @ [CHR 0x27, CHR 0x27]"

subsection \<open>Statements\<close>

datatype view_item = Star string | Item string string string

datatype statement =
    Create_table table_def
  | Drop_table string
  | Add_column string column_def
  | Drop_column string string
  | Create_index bool bool index_def
  | Drop_index bool bool string
  | Create_foreign_key string foreign_key
  | Drop_constraint string string
  | Create_or_replace_view string "view_item list" "(string \<times> string) list"
  | Drop_view_if_exists string
  | Update_role string string
  | Set_timeout string nat

text \<open>
  The two flags of \<open>Create_index\<close> are \<open>CONCURRENTLY\<close> and \<open>IF NOT EXISTS\<close>, those of \<open>Drop_index\<close>
  \<open>CONCURRENTLY\<close> and \<open>IF EXISTS\<close>.
\<close>

definition find_table :: "string \<Rightarrow> schema \<Rightarrow> table_def option" where
  "find_table n s = List.find (\<lambda>t. td_name t = n) (sd_tables s)"

definition relation_names :: "schema \<Rightarrow> string list" where
  "relation_names s = List.map td_name (sd_tables s) @ List.map ix_name (sd_indexes s) @ List.map vw_name (sd_views s)"

definition column_names :: "table_def \<Rightarrow> string list" where
  "column_names t = List.map cl_name (td_columns t)"

definition put_table :: "table_def \<Rightarrow> schema \<Rightarrow> schema" where
  "put_table t s = s\<lparr>sd_tables := List.map (\<lambda>u. if td_name u = td_name t then t else u) (sd_tables s)\<rparr>"

definition viewed :: "string \<Rightarrow> string option \<Rightarrow> schema \<Rightarrow> bool" where
  "viewed t c s = list_ex (\<lambda>v. list_ex (\<lambda>(u, d). u = t \<and> (case c of None \<Rightarrow> True | Some k \<Rightarrow> d = k))
     (List.map (\<lambda>(_, r). r) (vw_columns v) @ vw_joins v)) (sd_views s)"

definition referenced :: "string \<Rightarrow> string option \<Rightarrow> schema \<Rightarrow> bool" where
  "referenced t c s = list_ex (\<lambda>u. td_name u \<noteq> t \<and> list_ex (\<lambda>f. fk_table f = t
     \<and> (case c of None \<Rightarrow> True | Some k \<Rightarrow> k \<in> set (fk_target f))) (td_foreign u)) (sd_tables s)"

definition key_fits :: "foreign_key \<Rightarrow> table_def \<Rightarrow> schema \<Rightarrow> bool" where
  "key_fits f t s = (set (fk_columns f) \<subseteq> set (column_names t) \<and>
     (case find_table (fk_table f) s of None \<Rightarrow> False | Some u \<Rightarrow> td_keys u = fk_target f))"

definition can_create :: "table_def \<Rightarrow> schema \<Rightarrow> bool" where
  "can_create t s = (td_name t \<notin> set (relation_names s) \<and> distinct (column_names t)
     \<and> set (td_keys t) \<subseteq> set (column_names t) \<and> list_all (\<lambda>f. key_fits f t s) (td_foreign t))"

definition can_index :: "index_def \<Rightarrow> schema \<Rightarrow> bool" where
  "can_index i s = (case find_table (ix_table i) s of None \<Rightarrow> False
   | Some t \<Rightarrow> set (ix_columns i) \<subseteq> set (column_names t) \<and> (ix_unique i \<longrightarrow> ix_table i \<notin> set (sd_live s)))"

definition view_item_columns :: "schema \<Rightarrow> view_item \<Rightarrow> (string \<times> string \<times> string) list option" where
  "view_item_columns s i = (case i of
     Star t \<Rightarrow> (case find_table t s of None \<Rightarrow> None
                | Some u \<Rightarrow> Some (List.map (\<lambda>c. (c, t, c)) (column_names u)))
   | Item t c n \<Rightarrow> (case find_table t s of None \<Rightarrow> None
                | Some u \<Rightarrow> if c \<in> set (column_names u) then Some [(n, t, c)] else None))"

fun view_columns :: "schema \<Rightarrow> view_item list \<Rightarrow> (string \<times> string \<times> string) list option" where
  "view_columns s [] = Some []"
| "view_columns s (i # is) = (case (view_item_columns s i, view_columns s is) of
     (Some a, Some b) \<Rightarrow> Some (a @ b) | _ \<Rightarrow> None)"

definition create_view :: "string \<Rightarrow> view_item list \<Rightarrow> (string \<times> string) list \<Rightarrow> schema \<Rightarrow> schema option" where
  "create_view n items joins s = (case view_columns s items of
     None \<Rightarrow> None
   | Some cs \<Rightarrow> let v = \<lparr>vw_name = n, vw_columns = cs, vw_joins = joins\<rparr> in
       if \<not> distinct (List.map fst cs) then None
       else (case List.find (\<lambda>w. vw_name w = n) (sd_views s) of
         Some w \<Rightarrow> if take (length (vw_columns w)) (List.map fst cs) = List.map fst (vw_columns w)
           then Some (s\<lparr>sd_views := List.map (\<lambda>u. if vw_name u = n then v else u) (sd_views s)\<rparr>) else None
       | None \<Rightarrow> if n \<in> set (relation_names s) then None
           else Some (s\<lparr>sd_views := sd_views s @ [v]\<rparr>)))"

text \<open>A column is added last; a NOT NULL one needs a default when the table may hold rows.\<close>

definition add_column :: "string \<Rightarrow> column_def \<Rightarrow> schema \<Rightarrow> schema option" where
  "add_column n c s = (case find_table n s of
     None \<Rightarrow> None
   | Some t \<Rightarrow> if cl_name c \<in> set (column_names t) \<or> n \<in> set (sd_live s) \<and> \<not> cl_nullable c \<and> cl_default c = None
       then None
       else Some ((put_table (t\<lparr>td_columns := td_columns t @ [c]\<rparr>) s)\<lparr>sd_fresh := (n, cl_name c) # sd_fresh s\<rparr>))"

text \<open>
  Dropping a column takes along the indexes and constraints of the table that mention it; a view
  or a foreign key of another table that reads it makes the statement fail.
\<close>

definition without_column :: "string \<Rightarrow> table_def \<Rightarrow> table_def" where
  "without_column c t =
     (let t = t\<lparr>td_columns := filter (\<lambda>d. cl_name d \<noteq> c) (td_columns t)\<rparr>;
          t = (if c \<in> set (td_keys t) then t\<lparr>td_keys := []\<rparr> else t)
      in if list_ex (\<lambda>f. c \<in> set (fk_columns f)) (td_foreign t)
         then t\<lparr>td_foreign := filter (\<lambda>f. c \<notin> set (fk_columns f)) (td_foreign t)\<rparr> else t)"

definition drop_column :: "string \<Rightarrow> string \<Rightarrow> schema \<Rightarrow> schema option" where
  "drop_column n c s = (case find_table n s of
     None \<Rightarrow> None
   | Some t \<Rightarrow> if c \<notin> set (column_names t) \<or> viewed n (Some c) s \<or> referenced n (Some c) s then None
       else Some ((put_table (without_column c t) s)
         \<lparr>sd_fresh := filter (\<lambda>d. d \<noteq> (n, c)) (sd_fresh s),
          sd_indexes := filter (\<lambda>i. \<not> (ix_table i = n \<and> c \<in> set (ix_columns i))) (sd_indexes s)\<rparr>))"

text \<open>A foreign key over rows that are there already is only sure to hold when its columns are still NULL.\<close>

definition add_foreign_key :: "string \<Rightarrow> foreign_key \<Rightarrow> schema \<Rightarrow> schema option" where
  "add_foreign_key n f s = (case find_table n s of
     None \<Rightarrow> None
   | Some t \<Rightarrow> if fk_name f \<noteq> None \<and> list_ex (\<lambda>g. fk_name g = fk_name f) (td_foreign t) \<or> \<not> key_fits f t s
         \<or> n \<in> set (sd_live s) \<and> \<not> list_all (\<lambda>c. (n, c) \<in> set (sd_fresh s)) (fk_columns f)
       then None else Some (put_table (t\<lparr>td_foreign := td_foreign t @ [f]\<rparr>) s))"

definition drop_constraint :: "string \<Rightarrow> string \<Rightarrow> schema \<Rightarrow> schema option" where
  "drop_constraint n k s = (case find_table n s of
     None \<Rightarrow> None
   | Some t \<Rightarrow> if \<not> list_ex (\<lambda>g. fk_name g = Some k) (td_foreign t) then None
       else Some (put_table (t\<lparr>td_foreign := filter (\<lambda>g. fk_name g \<noteq> Some k) (td_foreign t)\<rparr>) s))"

definition drop_table :: "string \<Rightarrow> schema \<Rightarrow> schema option" where
  "drop_table n s = (if find_table n s = None \<or> viewed n None s \<or> referenced n None s then None
   else Some (s\<lparr>sd_tables := filter (\<lambda>t. td_name t \<noteq> n) (sd_tables s),
                sd_indexes := filter (\<lambda>i. ix_table i \<noteq> n) (sd_indexes s),
                sd_live := filter (\<lambda>t. t \<noteq> n) (sd_live s), sd_fresh := filter (\<lambda>d. fst d \<noteq> n) (sd_fresh s)\<rparr>))"

definition create_index :: "bool \<Rightarrow> index_def \<Rightarrow> schema \<Rightarrow> schema option" where
  "create_index if_not_exists i s =
     (if ix_name i \<in> set (relation_names s) then (if if_not_exists then Some s else None)
      else if can_index i s then Some (s\<lparr>sd_indexes := sd_indexes s @ [i]\<rparr>) else None)"

definition drop_index :: "bool \<Rightarrow> string \<Rightarrow> schema \<Rightarrow> schema option" where
  "drop_index if_exists n s =
     (if n \<in> set (List.map ix_name (sd_indexes s))
      then Some (s\<lparr>sd_indexes := filter (\<lambda>i. ix_name i \<noteq> n) (sd_indexes s)\<rparr>)
      else if if_exists then Some s else None)"

definition has_column :: "string \<Rightarrow> string \<Rightarrow> schema \<Rightarrow> bool" where
  "has_column n c s = (case find_table n s of None \<Rightarrow> False | Some t \<Rightarrow> c \<in> set (column_names t))"

fun schema_effect :: "statement \<Rightarrow> schema \<Rightarrow> schema option" where
  "schema_effect (Create_table t) s = (if can_create t s then Some (s\<lparr>sd_tables := sd_tables s @ [t]\<rparr>) else None)"
| "schema_effect (Drop_table n) s = drop_table n s"
| "schema_effect (Add_column n c) s = add_column n c s"
| "schema_effect (Drop_column n c) s = drop_column n c s"
| "schema_effect (Create_index _ if_not_exists i) s = create_index if_not_exists i s"
| "schema_effect (Drop_index _ if_exists n) s = drop_index if_exists n s"
| "schema_effect (Create_foreign_key n f) s = add_foreign_key n f s"
| "schema_effect (Drop_constraint n k) s = drop_constraint n k s"
| "schema_effect (Create_or_replace_view n items joins) s = create_view n items joins s"
| "schema_effect (Drop_view_if_exists n) s = Some (s\<lparr>sd_views := filter (\<lambda>v. vw_name v \<noteq> n) (sd_views s)\<rparr>)"
| "schema_effect (Update_role _ _) s = (if has_column ''dashboard_users'' ''role'' s then Some s else None)"
| "schema_effect (Set_timeout _ _) s = Some s"

text \<open>The rows that matter: a new table is empty, a dropped one takes its rows along.\<close>

fun roles_effect :: "statement \<Rightarrow> string list \<Rightarrow> string list" where
  "roles_effect (Create_table t) rs = (if td_name t = ''dashboard_users'' then [] else rs)"
| "roles_effect (Drop_table n) rs = (if n = ''dashboard_users'' then [] else rs)"
| "roles_effect (Update_role to_role from_role) rs = List.map (\<lambda>r. if r = from_role then to_role else r) rs"
| "roles_effect _ rs = rs"

fun run_statements :: "statement list \<Rightarrow> schema \<Rightarrow> schema option" where
  "run_statements [] s = Some s"
| "run_statements (q # qs) s = (case schema_effect q s of None \<Rightarrow> None | Some u \<Rightarrow> run_statements qs u)"

lemma run_statements_append:
  "run_statements (a @ b) s = (case run_statements a s of None \<Rightarrow> None | Some u \<Rightarrow> run_statements b u)"
  by (induction a arbitrary: s) (auto split: option.splits)

text \<open>Once a revision is in place the service may write to every table.\<close>

definition settle :: "schema \<Rightarrow> schema" where
  "settle s = s\<lparr>sd_live := List.map td_name (sd_tables s), sd_fresh := []\<rparr>"

end
