(* ===== verification/Migrations.thy ===== *)
theory Migrations
  imports Schema
begin

section \<open>The migrations and their runner\<close>

text \<open>
  Every revision of \<open>alembic/versions\<close> with the statements of its \<open>upgrade\<close> and \<open>downgrade\<close>, the
  line they form, and the run that \<open>alembic/env.py\<close> starts: one transaction for all pending
  revisions, which an autocommit block interrupts.
\<close>

datatype step = Transactional statement | Autocommit "statement list"

record migration =
  revision :: string
  down_revision :: "string option"
  upgrade_steps :: "step list"
  downgrade_steps :: "step list"

subsection \<open>Revisions\<close>

paragraph \<open>9ee53e33097f: baseline schema\<close>

definition created_deal_events :: table_def where
  "created_deal_events = new_table ''deal_events''
      [column_of ''id'' BigInt_t False None,
       column_of ''deal_id'' BigInt_t False None,
       column_of ''event_type'' Varchar_t False None,
       column_of ''old_pipeline_id'' BigInt_t True None,
       column_of ''old_stage_id'' BigInt_t True None,
       column_of ''new_pipeline_id'' BigInt_t True None,
       column_of ''new_stage_id'' BigInt_t True None,
       column_of ''old_owner_id'' BigInt_t True None,
       column_of ''new_owner_id'' BigInt_t True None,
       column_of ''occurred_at'' Timestamptz_t False None,
       column_of ''source'' Varchar_t False None,
       column_of ''raw_payload'' Jsonb_t True None]
      [] [''id'']"

definition idx_deal_events_deal :: index_def where
  "idx_deal_events_deal = btree ''idx_deal_events_deal'' ''deal_events'' [''deal_id'', ''occurred_at''] False"

definition created_email_activity :: table_def where
  "created_email_activity = new_table ''email_activity''
      [column_of ''id'' BigInt_t False None,
       column_of ''deal_id'' BigInt_t False None,
       column_of ''direction'' Varchar_t False None,
       column_of ''conversation_time'' Timestamptz_t False None,
       column_of ''subject'' Varchar_t True None,
       column_of ''raw_payload'' Jsonb_t True None]
      [] [''id'']"

definition idx_email_activity_deal :: index_def where
  "idx_email_activity_deal = btree ''idx_email_activity_deal'' ''email_activity'' [''deal_id'', ''conversation_time''] False"

definition created_owners :: table_def where
  "created_owners = new_table ''owners''
      [column_of ''id'' BigInt_t False None,
       column_of ''display_name'' Varchar_t False None,
       column_of ''email'' Varchar_t True None,
       column_of ''is_active'' Bool_t False None,
       column_of ''updated_at'' Timestamptz_t True (Some Now_default)]
      [] [''id'']"

definition created_pipelines :: table_def where
  "created_pipelines = new_table ''pipelines''
      [column_of ''id'' BigInt_t False None,
       column_of ''name'' Varchar_t False None,
       column_of ''business_line'' Varchar_t False None,
       column_of ''is_default'' Bool_t False None,
       column_of ''is_active'' Bool_t False None,
       column_of ''updated_at'' Timestamptz_t True (Some Now_default)]
      [] [''id'']"

definition created_tasks_snapshot :: table_def where
  "created_tasks_snapshot = new_table ''tasks_snapshot''
      [column_of ''task_id'' BigInt_t False None,
       column_of ''deal_id'' BigInt_t True None,
       column_of ''owner_id'' BigInt_t True None,
       column_of ''title'' Varchar_t True None,
       column_of ''status'' Varchar_t True None,
       column_of ''due_date'' Timestamptz_t True None,
       column_of ''completed_date'' Timestamptz_t True None,
       column_of ''last_synced_at'' Timestamptz_t True (Some Now_default)]
      [] [''task_id'']"

definition idx_tasks_owner_status :: index_def where
  "idx_tasks_owner_status = btree ''idx_tasks_owner_status'' ''tasks_snapshot'' [''owner_id'', ''status'', ''due_date''] False"

definition created_dashboard_users :: table_def where
  "created_dashboard_users = new_table ''dashboard_users''
      [column_of ''email'' Varchar_t False None,
       column_of ''role'' Varchar_t False None,
       column_of ''owner_id'' BigInt_t True None]
      [references ''owner_id'' ''owners'' ''id''] [''email'']"

definition created_stages :: table_def where
  "created_stages = new_table ''stages''
      [column_of ''id'' BigInt_t False None,
       column_of ''pipeline_id'' BigInt_t False None,
       column_of ''name'' Varchar_t False None,
       column_of ''position'' Int_t False None,
       column_of ''forecast_type'' Varchar_t False None,
       column_of ''probability'' Numeric_t True None,
       column_of ''updated_at'' Timestamptz_t True (Some Now_default)]
      [references ''pipeline_id'' ''pipelines'' ''id''] [''id'']"

definition created_deals_snapshot :: table_def where
  "created_deals_snapshot = new_table ''deals_snapshot''
      [column_of ''deal_id'' BigInt_t False None,
       column_of ''pipeline_id'' BigInt_t True None,
       column_of ''stage_id'' BigInt_t True None,
       column_of ''owner_id'' BigInt_t True None,
       column_of ''name'' Varchar_t True None,
       column_of ''amount'' Numeric_t True None,
       column_of ''base_currency_amount'' Numeric_t True None,
       column_of ''expected_close_date'' Date_t True None,
       column_of ''stage_updated_at'' Timestamptz_t True None,
       column_of ''age_days'' Int_t True None,
       column_of ''rotten_days'' Int_t True None,
       column_of ''sales_account_id'' BigInt_t True None,
       column_of ''sales_account_name'' Varchar_t True None,
       column_of ''cf_project'' Varchar_t True None,
       column_of ''cf_floor'' Varchar_t True None,
       column_of ''cf_sqm_size'' Numeric_t True None,
       column_of ''cf_product_category'' Varchar_t True None,
       column_of ''cf_term'' Numeric_t True None,
       column_of ''cf_start_date'' Date_t True None,
       column_of ''cf_term_end_date'' Date_t True None,
       column_of ''cf_deal_status'' Varchar_t True None,
       column_of ''cf_total_lease_amount'' Numeric_t True None,
       column_of ''custom_fields'' Jsonb_t True None,
       column_of ''raw_payload'' Jsonb_t True None,
       column_of ''updated_at'' Timestamptz_t True (Some Now_default),
       column_of ''last_synced_at'' Timestamptz_t True (Some Now_default)]
      [references ''owner_id'' ''owners'' ''id'', references ''pipeline_id'' ''pipelines'' ''id'', references ''stage_id'' ''stages'' ''id''] [''deal_id'']"

definition idx_deals_snapshot_owner :: index_def where
  "idx_deals_snapshot_owner = btree ''idx_deals_snapshot_owner'' ''deals_snapshot'' [''owner_id''] False"

definition idx_deals_snapshot_pipeline_stage :: index_def where
  "idx_deals_snapshot_pipeline_stage = btree ''idx_deals_snapshot_pipeline_stage'' ''deals_snapshot'' [''pipeline_id'', ''stage_id''] False"

definition created_pipeline_daily_snapshot :: table_def where
  "created_pipeline_daily_snapshot = new_table ''pipeline_daily_snapshot''
      [column_of ''snapshot_date'' Date_t False None,
       column_of ''pipeline_id'' BigInt_t False None,
       column_of ''stage_id'' BigInt_t False None,
       column_of ''deal_count'' Int_t True None,
       column_of ''total_value'' Numeric_t True None,
       column_of ''total_base_currency_value'' Numeric_t True None]
      [references ''pipeline_id'' ''pipelines'' ''id'', references ''stage_id'' ''stages'' ''id''] [''snapshot_date'', ''pipeline_id'', ''stage_id'']"

definition upgrade_9ee53e33097f :: "step list" where
  "upgrade_9ee53e33097f =
   [Transactional (Create_table created_deal_events),
    Transactional (Create_index False False idx_deal_events_deal),
    Transactional (Create_table created_email_activity),
    Transactional (Create_index False False idx_email_activity_deal),
    Transactional (Create_table created_owners),
    Transactional (Create_table created_pipelines),
    Transactional (Create_table created_tasks_snapshot),
    Transactional (Create_index False False idx_tasks_owner_status),
    Transactional (Create_table created_dashboard_users),
    Transactional (Create_table created_stages),
    Transactional (Create_table created_deals_snapshot),
    Transactional (Create_index False False idx_deals_snapshot_owner),
    Transactional (Create_index False False idx_deals_snapshot_pipeline_stage),
    Transactional (Create_table created_pipeline_daily_snapshot)]"

definition downgrade_9ee53e33097f :: "step list" where
  "downgrade_9ee53e33097f =
   [Transactional (Drop_table ''pipeline_daily_snapshot''),
    Transactional (Drop_index False False ''idx_deals_snapshot_pipeline_stage''),
    Transactional (Drop_index False False ''idx_deals_snapshot_owner''),
    Transactional (Drop_table ''deals_snapshot''),
    Transactional (Drop_table ''stages''),
    Transactional (Drop_table ''dashboard_users''),
    Transactional (Drop_index False False ''idx_tasks_owner_status''),
    Transactional (Drop_table ''tasks_snapshot''),
    Transactional (Drop_table ''pipelines''),
    Transactional (Drop_table ''owners''),
    Transactional (Drop_index False False ''idx_email_activity_deal''),
    Transactional (Drop_table ''email_activity''),
    Transactional (Drop_index False False ''idx_deal_events_deal''),
    Transactional (Drop_table ''deal_events'')]"

definition rev_9ee53e33097f :: migration where
  "rev_9ee53e33097f = \<lparr>revision = ''9ee53e33097f'', down_revision = None,
     upgrade_steps = upgrade_9ee53e33097f, downgrade_steps = downgrade_9ee53e33097f\<rparr>"

paragraph \<open>51283a028465: add pipeline view id\<close>

definition upgrade_51283a028465 :: "step list" where
  "upgrade_51283a028465 =
   [Transactional (Add_column ''pipelines'' (column_of ''view_id'' BigInt_t True None))]"

definition downgrade_51283a028465 :: "step list" where
  "downgrade_51283a028465 =
   [Transactional (Drop_column ''pipelines'' ''view_id'')]"

definition rev_51283a028465 :: migration where
  "rev_51283a028465 = \<lparr>revision = ''51283a028465'', down_revision = Some ''9ee53e33097f'',
     upgrade_steps = upgrade_51283a028465, downgrade_steps = downgrade_51283a028465\<rparr>"

paragraph \<open>f33926afc37b: add hashed password to dashboard users\<close>

definition upgrade_f33926afc37b :: "step list" where
  "upgrade_f33926afc37b =
   [Transactional (Add_column ''dashboard_users'' (column_of ''hashed_password'' Varchar_t True None))]"

definition downgrade_f33926afc37b :: "step list" where
  "downgrade_f33926afc37b =
   [Transactional (Drop_column ''dashboard_users'' ''hashed_password'')]"

definition rev_f33926afc37b :: migration where
  "rev_f33926afc37b = \<lparr>revision = ''f33926afc37b'', down_revision = Some ''51283a028465'',
     upgrade_steps = upgrade_f33926afc37b, downgrade_steps = downgrade_f33926afc37b\<rparr>"

paragraph \<open>ad205b8f1f36: add deal created at lost reason and deals enriched view\<close>

definition upgrade_ad205b8f1f36 :: "step list" where
  "upgrade_ad205b8f1f36 =
   [Transactional (Set_timeout ''statement_timeout'' 0),
    Transactional (Set_timeout ''lock_timeout'' 0),
    Transactional (Add_column ''deals_snapshot'' (column_of ''deal_created_at'' Timestamptz_t True None)),
    Transactional (Add_column ''deals_snapshot'' (column_of ''lost_reason'' Varchar_t True None)),
    Transactional (Add_column ''deals_snapshot'' (column_of ''lost_reason_id'' BigInt_t True None)),
    Transactional (Create_or_replace_view ''deals_enriched''
      [Star ''deals_snapshot'',
       Item ''stages'' ''forecast_type'' ''forecast_type'',
       Item ''stages'' ''probability'' ''stage_probability'',
       Item ''stages'' ''name'' ''stage_name'',
       Item ''stages'' ''position'' ''stage_position'',
       Item ''pipelines'' ''name'' ''pipeline_name'',
       Item ''pipelines'' ''business_line'' ''business_line'']
      [(''deals_snapshot'', ''stage_id''), (''stages'', ''id''), (''deals_snapshot'', ''pipeline_id''), (''pipelines'', ''id'')])]"

definition downgrade_ad205b8f1f36 :: "step list" where
  "downgrade_ad205b8f1f36 =
   [Transactional (Drop_view_if_exists ''deals_enriched''),
    Transactional (Drop_column ''deals_snapshot'' ''lost_reason_id''),
    Transactional (Drop_column ''deals_snapshot'' ''lost_reason''),
    Transactional (Drop_column ''deals_snapshot'' ''deal_created_at'')]"

definition rev_ad205b8f1f36 :: migration where
  "rev_ad205b8f1f36 = \<lparr>revision = ''ad205b8f1f36'', down_revision = Some ''f33926afc37b'',
     upgrade_steps = upgrade_ad205b8f1f36, downgrade_steps = downgrade_ad205b8f1f36\<rparr>"

paragraph \<open>c4e7a1b9d2f3: add analytics indexes\<close>

definition analytics_indexes :: "(string \<times> string list) list" where
  "analytics_indexes =
   [(''idx_deals_snapshot_owner_stage_updated'', [''owner_id'', ''stage_id'', ''stage_updated_at'']),
    (''idx_deals_snapshot_pipeline_close'', [''pipeline_id'', ''expected_close_date'']),
    (''idx_deals_snapshot_created'', [''deal_created_at''])]"

definition upgrade_c4e7a1b9d2f3 :: "step list" where
  "upgrade_c4e7a1b9d2f3 =
   [Autocommit ([Set_timeout ''statement_timeout'' 0,
       Set_timeout ''lock_timeout'' 0] @
      concat (List.map (\<lambda>(n, cols).
       [Drop_index True True n,
        Create_index True True (btree n ''deals_snapshot'' cols False)]) analytics_indexes))]"

definition downgrade_c4e7a1b9d2f3 :: "step list" where
  "downgrade_c4e7a1b9d2f3 =
   [Autocommit ([Drop_index True True ''idx_deals_snapshot_created'',
       Drop_index True True ''idx_deals_snapshot_pipeline_close'',
       Drop_index True True ''idx_deals_snapshot_owner_stage_updated''])]"

definition rev_c4e7a1b9d2f3 :: migration where
  "rev_c4e7a1b9d2f3 = \<lparr>revision = ''c4e7a1b9d2f3'', down_revision = Some ''ad205b8f1f36'',
     upgrade_steps = upgrade_c4e7a1b9d2f3, downgrade_steps = downgrade_c4e7a1b9d2f3\<rparr>"

paragraph \<open>d5f1a9c3b7e2: add deal reasons\<close>

definition created_deal_reasons :: table_def where
  "created_deal_reasons = new_table ''deal_reasons''
      [column_of ''id'' BigInt_t False None,
       column_of ''name'' Varchar_t False None,
       column_of ''updated_at'' Timestamptz_t False (Some Now_default)]
      [] [''id'']"

definition upgrade_d5f1a9c3b7e2 :: "step list" where
  "upgrade_d5f1a9c3b7e2 =
   [Transactional (Create_table created_deal_reasons)]"

definition downgrade_d5f1a9c3b7e2 :: "step list" where
  "downgrade_d5f1a9c3b7e2 =
   [Transactional (Drop_table ''deal_reasons'')]"

definition rev_d5f1a9c3b7e2 :: migration where
  "rev_d5f1a9c3b7e2 = \<lparr>revision = ''d5f1a9c3b7e2'', down_revision = Some ''c4e7a1b9d2f3'',
     upgrade_steps = upgrade_d5f1a9c3b7e2, downgrade_steps = downgrade_d5f1a9c3b7e2\<rparr>"

paragraph \<open>e7c2a4f9b6d1: add rooms and bookings\<close>

definition created_rooms :: table_def where
  "created_rooms = new_table ''rooms''
      [column_of ''id'' BigInt_t False None,
       column_of ''name'' Varchar_t False None,
       column_of ''location'' Varchar_t True None,
       column_of ''capacity'' Int_t True None,
       column_of ''description'' Varchar_t True None,
       column_of ''is_active'' Bool_t False None,
       column_of ''created_at'' Timestamptz_t False (Some Now_default)]
      [] [''id'']"

definition ix_rooms_name :: index_def where
  "ix_rooms_name = btree ''ix_rooms_name'' ''rooms'' [''name''] True"

definition created_bookings :: table_def where
  "created_bookings = new_table ''bookings''
      [column_of ''id'' BigInt_t False None,
       column_of ''room_id'' BigInt_t False None,
       column_of ''booker_name'' Varchar_t False None,
       column_of ''booker_email'' Varchar_t False None,
       column_of ''title'' Varchar_t True None,
       column_of ''start_time'' Timestamptz_t False None,
       column_of ''end_time'' Timestamptz_t False None,
       column_of ''access_code'' Varchar_t False None,
       column_of ''status'' Varchar_t False None,
       column_of ''created_at'' Timestamptz_t False (Some Now_default)]
      [references ''room_id'' ''rooms'' ''id''] [''id'']"

definition idx_bookings_room_time :: index_def where
  "idx_bookings_room_time = btree ''idx_bookings_room_time'' ''bookings'' [''room_id'', ''start_time'', ''end_time''] False"

definition idx_bookings_access_code :: index_def where
  "idx_bookings_access_code = btree ''idx_bookings_access_code'' ''bookings'' [''access_code''] True"

definition upgrade_e7c2a4f9b6d1 :: "step list" where
  "upgrade_e7c2a4f9b6d1 =
   [Transactional (Create_table created_rooms),
    Transactional (Create_index False False ix_rooms_name),
    Transactional (Create_table created_bookings),
    Transactional (Create_index False False idx_bookings_room_time),
    Transactional (Create_index False False idx_bookings_access_code)]"

definition downgrade_e7c2a4f9b6d1 :: "step list" where
  "downgrade_e7c2a4f9b6d1 =
   [Transactional (Drop_index False False ''idx_bookings_access_code''),
    Transactional (Drop_index False False ''idx_bookings_room_time''),
    Transactional (Drop_table ''bookings''),
    Transactional (Drop_index False False ''ix_rooms_name''),
    Transactional (Drop_table ''rooms'')]"

definition rev_e7c2a4f9b6d1 :: migration where
  "rev_e7c2a4f9b6d1 = \<lparr>revision = ''e7c2a4f9b6d1'', down_revision = Some ''d5f1a9c3b7e2'',
     upgrade_steps = upgrade_e7c2a4f9b6d1, downgrade_steps = downgrade_e7c2a4f9b6d1\<rparr>"

paragraph \<open>b8f4d2a6c1e3: add room metadata\<close>

definition upgrade_b8f4d2a6c1e3 :: "step list" where
  "upgrade_b8f4d2a6c1e3 =
   [Transactional (Add_column ''rooms'' (column_of ''room_type'' Varchar_t True None)),
    Transactional (Add_column ''rooms'' (column_of ''size_sqm'' Float_t True None)),
    Transactional (Add_column ''rooms'' (column_of ''amenities'' Varchar_array_t True None)),
    Transactional (Add_column ''rooms'' (column_of ''image_url'' Varchar_t True None))]"

definition downgrade_b8f4d2a6c1e3 :: "step list" where
  "downgrade_b8f4d2a6c1e3 =
   [Transactional (Drop_column ''rooms'' ''image_url''),
    Transactional (Drop_column ''rooms'' ''amenities''),
    Transactional (Drop_column ''rooms'' ''size_sqm''),
    Transactional (Drop_column ''rooms'' ''room_type'')]"

definition rev_b8f4d2a6c1e3 :: migration where
  "rev_b8f4d2a6c1e3 = \<lparr>revision = ''b8f4d2a6c1e3'', down_revision = Some ''e7c2a4f9b6d1'',
     upgrade_steps = upgrade_b8f4d2a6c1e3, downgrade_steps = downgrade_b8f4d2a6c1e3\<rparr>"

paragraph \<open>c1d2e3f4a5b6: add campaigns and leads\<close>

definition created_campaigns :: table_def where
  "created_campaigns = new_table ''campaigns''
      [column_of ''id'' BigInt_t False None,
       column_of ''slug'' Varchar_t False None,
       column_of ''name'' Varchar_t False None,
       column_of ''status'' Varchar_t False None,
       column_of ''starts_on'' Date_t True None,
       column_of ''ends_on'' Date_t True None,
       column_of ''timezone'' Varchar_t False None,
       column_of ''config'' Jsonb_t False (Some Empty_json_default),
       column_of ''created_at'' Timestamptz_t True (Some Now_default),
       column_of ''updated_at'' Timestamptz_t True (Some Now_default)]
      [] [''id'']"

definition ix_campaigns_slug :: index_def where
  "ix_campaigns_slug = btree ''ix_campaigns_slug'' ''campaigns'' [''slug''] True"

definition created_leads :: table_def where
  "created_leads = new_table ''leads''
      [column_of ''id'' BigInt_t False None,
       column_of ''campaign_id'' BigInt_t False None,
       column_of ''first_name'' Varchar_t False None,
       column_of ''last_name'' Varchar_t False None,
       column_of ''email'' Varchar_t False None,
       column_of ''phone'' Varchar_t False None,
       column_of ''company'' Varchar_t False None,
       column_of ''job_title'' Varchar_t True None,
       column_of ''source'' Varchar_t False None,
       column_of ''device_id'' Varchar_t True None,
       column_of ''timing'' Varchar_t True None,
       column_of ''interests'' Varchar_array_t True None,
       column_of ''requested_materials'' Varchar_array_t True None,
       column_of ''tags'' Varchar_array_t True None,
       column_of ''inspection_requested'' Bool_t False None,
       column_of ''inspection_type'' Varchar_t True None,
       column_of ''marketing_opt_in'' Bool_t False None,
       column_of ''consent_status'' Bool_t False None,
       column_of ''consent_at'' Timestamptz_t True None,
       column_of ''captured_at'' Timestamptz_t True None,
       column_of ''created_at'' Timestamptz_t True (Some Now_default),
       column_of ''responses'' Jsonb_t False (Some Empty_json_default),
       column_of ''crm_sync_status'' Varchar_t False None,
       column_of ''crm_synced_at'' Timestamptz_t True None,
       column_of ''crm_contact_id'' Varchar_t True None,
       column_of ''crm_error'' Varchar_t True None]
      [references ''campaign_id'' ''campaigns'' ''id''] [''id'']"

definition idx_leads_campaign_created :: index_def where
  "idx_leads_campaign_created = btree ''idx_leads_campaign_created'' ''leads'' [''campaign_id'', ''created_at''] False"

definition idx_leads_campaign_sync :: index_def where
  "idx_leads_campaign_sync = btree ''idx_leads_campaign_sync'' ''leads'' [''campaign_id'', ''crm_sync_status''] False"

definition idx_leads_campaign_email :: index_def where
  "idx_leads_campaign_email = btree ''idx_leads_campaign_email'' ''leads'' [''campaign_id'', ''email''] True"

definition idx_leads_interests :: index_def where
  "idx_leads_interests = (btree ''idx_leads_interests'' ''leads'' [''interests''] False)\<lparr>ix_method := Some ''gin''\<rparr>"

definition upgrade_c1d2e3f4a5b6 :: "step list" where
  "upgrade_c1d2e3f4a5b6 =
   [Transactional (Create_table created_campaigns),
    Transactional (Create_index False False ix_campaigns_slug),
    Transactional (Create_table created_leads),
    Transactional (Create_index False False idx_leads_campaign_created),
    Transactional (Create_index False False idx_leads_campaign_sync),
    Transactional (Create_index False False idx_leads_campaign_email),
    Transactional (Create_index False False idx_leads_interests)]"

definition downgrade_c1d2e3f4a5b6 :: "step list" where
  "downgrade_c1d2e3f4a5b6 =
   [Transactional (Drop_index False False ''idx_leads_interests''),
    Transactional (Drop_index False False ''idx_leads_campaign_email''),
    Transactional (Drop_index False False ''idx_leads_campaign_sync''),
    Transactional (Drop_index False False ''idx_leads_campaign_created''),
    Transactional (Drop_table ''leads''),
    Transactional (Drop_index False False ''ix_campaigns_slug''),
    Transactional (Drop_table ''campaigns'')]"

definition rev_c1d2e3f4a5b6 :: migration where
  "rev_c1d2e3f4a5b6 = \<lparr>revision = ''c1d2e3f4a5b6'', down_revision = Some ''b8f4d2a6c1e3'',
     upgrade_steps = upgrade_c1d2e3f4a5b6, downgrade_steps = downgrade_c1d2e3f4a5b6\<rparr>"

paragraph \<open>a1b2c3d4e5f6: add must change password to dashboard users\<close>

definition upgrade_a1b2c3d4e5f6 :: "step list" where
  "upgrade_a1b2c3d4e5f6 =
   [Transactional (Add_column ''dashboard_users'' (column_of ''must_change_password'' Bool_t False (Some False_default)))]"

definition downgrade_a1b2c3d4e5f6 :: "step list" where
  "downgrade_a1b2c3d4e5f6 =
   [Transactional (Drop_column ''dashboard_users'' ''must_change_password'')]"

definition rev_a1b2c3d4e5f6 :: migration where
  "rev_a1b2c3d4e5f6 = \<lparr>revision = ''a1b2c3d4e5f6'', down_revision = Some ''c1d2e3f4a5b6'',
     upgrade_steps = upgrade_a1b2c3d4e5f6, downgrade_steps = downgrade_a1b2c3d4e5f6\<rparr>"

paragraph \<open>b2c3d4e5f6a7: remap dashboard user roles to superadmin/admin/hod/team lead/rep\<close>

definition upgrade_b2c3d4e5f6a7 :: "step list" where
  "upgrade_b2c3d4e5f6a7 =
   [Transactional (Update_role ''admin'' ''gmd''),
    Transactional (Update_role ''team_lead'' ''sales_manager'')]"

definition downgrade_b2c3d4e5f6a7 :: "step list" where
  "downgrade_b2c3d4e5f6a7 =
   [Transactional (Update_role ''gmd'' ''admin''),
    Transactional (Update_role ''sales_manager'' ''team_lead'')]"

definition rev_b2c3d4e5f6a7 :: migration where
  "rev_b2c3d4e5f6a7 = \<lparr>revision = ''b2c3d4e5f6a7'', down_revision = Some ''a1b2c3d4e5f6'',
     upgrade_steps = upgrade_b2c3d4e5f6a7, downgrade_steps = downgrade_b2c3d4e5f6a7\<rparr>"

paragraph \<open>d7e9f1a2b3c4: add lead pack delivery\<close>

definition idx_leads_campaign_pack :: index_def where
  "idx_leads_campaign_pack = btree ''idx_leads_campaign_pack'' ''leads'' [''campaign_id'', ''pack_delivery_status''] False"

definition upgrade_d7e9f1a2b3c4 :: "step list" where
  "upgrade_d7e9f1a2b3c4 =
   [Transactional (Add_column ''leads'' (column_of ''pack_delivery_status'' Varchar_t False (Some (Text_default ''not_requested'')))),
    Transactional (Add_column ''leads'' (column_of ''pack_delivered_at'' Timestamptz_t True None)),
    Transactional (Add_column ''leads'' (column_of ''pack_delivered_materials'' Varchar_array_t True None)),
    Transactional (Add_column ''leads'' (column_of ''pack_delivery_error'' Varchar_t True None)),
    Transactional (Create_index False False idx_leads_campaign_pack)]"

definition downgrade_d7e9f1a2b3c4 :: "step list" where
  "downgrade_d7e9f1a2b3c4 =
   [Transactional (Drop_index False False ''idx_leads_campaign_pack''),
    Transactional (Drop_column ''leads'' ''pack_delivery_error''),
    Transactional (Drop_column ''leads'' ''pack_delivered_materials''),
    Transactional (Drop_column ''leads'' ''pack_delivered_at''),
    Transactional (Drop_column ''leads'' ''pack_delivery_status'')]"

definition rev_d7e9f1a2b3c4 :: migration where
  "rev_d7e9f1a2b3c4 = \<lparr>revision = ''d7e9f1a2b3c4'', down_revision = Some ''b2c3d4e5f6a7'',
     upgrade_steps = upgrade_d7e9f1a2b3c4, downgrade_steps = downgrade_d7e9f1a2b3c4\<rparr>"

paragraph \<open>bbb90d835871: add email events tracking\<close>

definition created_email_events :: table_def where
  "created_email_events = new_table ''email_events''
      [column_of ''id'' BigInt_t False None,
       column_of ''lead_id'' BigInt_t False None,
       column_of ''email_kind'' Varchar_t True None,
       column_of ''event_type'' Varchar_t False None,
       column_of ''material'' Varchar_t True None,
       column_of ''url'' Varchar_t True None,
       column_of ''sg_event_id'' Varchar_t False None,
       column_of ''sg_message_id'' Varchar_t True None,
       column_of ''occurred_at'' Timestamptz_t False None,
       column_of ''created_at'' Timestamptz_t True (Some Now_default)]
      [references ''lead_id'' ''leads'' ''id''] [''id'']"

definition idx_email_events_lead :: index_def where
  "idx_email_events_lead = btree ''idx_email_events_lead'' ''email_events'' [''lead_id'', ''occurred_at''] False"

definition idx_email_events_sg_event_id :: index_def where
  "idx_email_events_sg_event_id = btree ''idx_email_events_sg_event_id'' ''email_events'' [''sg_event_id''] True"

definition upgrade_bbb90d835871 :: "step list" where
  "upgrade_bbb90d835871 =
   [Transactional (Create_table created_email_events),
    Transactional (Create_index False False idx_email_events_lead),
    Transactional (Create_index False False idx_email_events_sg_event_id),
    Transactional (Add_column ''leads'' (column_of ''pack_opened_at'' Timestamptz_t True None)),
    Transactional (Add_column ''leads'' (column_of ''pack_opened_count'' Int_t False (Some (Text_default ''0'')))),
    Transactional (Add_column ''leads'' (column_of ''pack_clicked_materials'' Varchar_array_t True None))]"

definition downgrade_bbb90d835871 :: "step list" where
  "downgrade_bbb90d835871 =
   [Transactional (Drop_column ''leads'' ''pack_clicked_materials''),
    Transactional (Drop_column ''leads'' ''pack_opened_count''),
    Transactional (Drop_column ''leads'' ''pack_opened_at''),
    Transactional (Drop_index False False ''idx_email_events_sg_event_id''),
    Transactional (Drop_index False False ''idx_email_events_lead''),
    Transactional (Drop_table ''email_events'')]"

definition rev_bbb90d835871 :: migration where
  "rev_bbb90d835871 = \<lparr>revision = ''bbb90d835871'', down_revision = Some ''d7e9f1a2b3c4'',
     upgrade_steps = upgrade_bbb90d835871, downgrade_steps = downgrade_bbb90d835871\<rparr>"

paragraph \<open>c4f1a2b3d5e6: add contact activity\<close>

definition created_contact_activity :: table_def where
  "created_contact_activity = new_table ''contact_activity''
      [column_of ''id'' BigInt_t False None,
       column_of ''campaign_id'' BigInt_t False None,
       column_of ''contact_id'' BigInt_t False None,
       column_of ''contact_name'' Varchar_t True None,
       column_of ''owner_id'' BigInt_t True None,
       column_of ''owner_name'' Varchar_t True None,
       column_of ''prospect_tier'' Varchar_t True None,
       column_of ''activity_type'' Varchar_t False None,
       column_of ''direction'' Varchar_t True None,
       column_of ''occurred_at'' Timestamptz_t False None,
       column_of ''subject'' Varchar_t True None,
       column_of ''source_key'' Varchar_t False None,
       column_of ''raw'' Jsonb_t True None,
       column_of ''created_at'' Timestamptz_t True (Some Now_default)]
      [] [''id'']"

definition idx_contact_activity_owner :: index_def where
  "idx_contact_activity_owner = btree ''idx_contact_activity_owner'' ''contact_activity'' [''campaign_id'', ''owner_id'', ''occurred_at''] False"

definition idx_contact_activity_tier :: index_def where
  "idx_contact_activity_tier = btree ''idx_contact_activity_tier'' ''contact_activity'' [''campaign_id'', ''prospect_tier'', ''occurred_at''] False"

definition idx_contact_activity_source :: index_def where
  "idx_contact_activity_source = btree ''idx_contact_activity_source'' ''contact_activity'' [''source_key''] True"

definition upgrade_c4f1a2b3d5e6 :: "step list" where
  "upgrade_c4f1a2b3d5e6 =
   [Transactional (Create_table created_contact_activity),
    Transactional (Create_index False False idx_contact_activity_owner),
    Transactional (Create_index False False idx_contact_activity_tier),
    Transactional (Create_index False False idx_contact_activity_source)]"

definition downgrade_c4f1a2b3d5e6 :: "step list" where
  "downgrade_c4f1a2b3d5e6 =
   [Transactional (Drop_index False False ''idx_contact_activity_source''),
    Transactional (Drop_index False False ''idx_contact_activity_tier''),
    Transactional (Drop_index False False ''idx_contact_activity_owner''),
    Transactional (Drop_table ''contact_activity'')]"

definition rev_c4f1a2b3d5e6 :: migration where
  "rev_c4f1a2b3d5e6 = \<lparr>revision = ''c4f1a2b3d5e6'', down_revision = Some ''bbb90d835871'',
     upgrade_steps = upgrade_c4f1a2b3d5e6, downgrade_steps = downgrade_c4f1a2b3d5e6\<rparr>"

paragraph \<open>755cca72bb41: add lead scoring and triage\<close>

definition idx_leads_engagement_score :: index_def where
  "idx_leads_engagement_score = btree ''idx_leads_engagement_score'' ''leads'' [''engagement_score''] False"

definition idx_leads_triage_status :: index_def where
  "idx_leads_triage_status = btree ''idx_leads_triage_status'' ''leads'' [''triage_status''] False"

definition upgrade_755cca72bb41 :: "step list" where
  "upgrade_755cca72bb41 =
   [Transactional (Add_column ''leads'' (column_of ''engagement_score'' Int_t False (Some (Text_default ''0'')))),
    Transactional (Add_column ''leads'' (column_of ''icp_score'' Int_t True None)),
    Transactional (Add_column ''leads'' (column_of ''icp_tier'' Varchar_t True None)),
    Transactional (Add_column ''leads'' (column_of ''icp_rationale'' Varchar_t True None)),
    Transactional (Add_column ''leads'' (column_of ''score_computed_at'' Timestamptz_t True None)),
    Transactional (Add_column ''leads'' (column_of ''triage_status'' Varchar_t False (Some (Text_default ''new'')))),
    Transactional (Add_column ''leads'' (column_of ''triage_at'' Timestamptz_t True None)),
    Transactional (Add_column ''leads'' (column_of ''triage_by'' Varchar_t True None)),
    Transactional (Create_index False False idx_leads_engagement_score),
    Transactional (Create_index False False idx_leads_triage_status)]"

definition downgrade_755cca72bb41 :: "step list" where
  "downgrade_755cca72bb41 =
   [Transactional (Drop_index False False ''idx_leads_triage_status''),
    Transactional (Drop_index False False ''idx_leads_engagement_score''),
    Transactional (Drop_column ''leads'' ''triage_by''),
    Transactional (Drop_column ''leads'' ''triage_at''),
    Transactional (Drop_column ''leads'' ''triage_status''),
    Transactional (Drop_column ''leads'' ''score_computed_at''),
    Transactional (Drop_column ''leads'' ''icp_rationale''),
    Transactional (Drop_column ''leads'' ''icp_tier''),
    Transactional (Drop_column ''leads'' ''icp_score''),
    Transactional (Drop_column ''leads'' ''engagement_score'')]"

definition rev_755cca72bb41 :: migration where
  "rev_755cca72bb41 = \<lparr>revision = ''755cca72bb41'', down_revision = Some ''c4f1a2b3d5e6'',
     upgrade_steps = upgrade_755cca72bb41, downgrade_steps = downgrade_755cca72bb41\<rparr>"

paragraph \<open>e3f5a7c9b1d2: add trade programs and leads\<close>

definition created_trade_programs :: table_def where
  "created_trade_programs = new_table ''trade_programs''
      [column_of ''id'' BigInt_t False None,
       column_of ''slug'' Varchar_t False None,
       column_of ''name'' Varchar_t False None,
       column_of ''kind'' Varchar_t False None,
       column_of ''status'' Varchar_t False None,
       column_of ''starts_on'' Date_t True None,
       column_of ''ends_on'' Date_t True None,
       column_of ''timezone'' Varchar_t False None,
       column_of ''config'' Jsonb_t False (Some Empty_json_default),
       column_of ''created_at'' Timestamptz_t True (Some Now_default),
       column_of ''updated_at'' Timestamptz_t True (Some Now_default)]
      [] [''id'']"

definition ix_trade_programs_slug :: index_def where
  "ix_trade_programs_slug = btree ''ix_trade_programs_slug'' ''trade_programs'' [''slug''] True"

definition created_trade_leads :: table_def where
  "created_trade_leads = new_table ''trade_leads''
      [column_of ''id'' BigInt_t False None,
       column_of ''trade_program_id'' BigInt_t False None,
       column_of ''registration_id'' Varchar_t False None,
       column_of ''participant_index'' Int_t False None,
       column_of ''is_primary'' Bool_t False None,
       column_of ''first_name'' Varchar_t False None,
       column_of ''middle_name'' Varchar_t True None,
       column_of ''last_name'' Varchar_t False None,
       column_of ''email'' Varchar_t False None,
       column_of ''phone'' Varchar_t True None,
       column_of ''job_title'' Varchar_t True None,
       column_of ''company'' Varchar_t True None,
       column_of ''registered_address'' Varchar_t True None,
       column_of ''city'' Varchar_t True None,
       column_of ''postal_code'' Varchar_t True None,
       column_of ''country'' Varchar_t True None,
       column_of ''company_founded'' Varchar_t True None,
       column_of ''industry_sector'' Varchar_t True None,
       column_of ''sector_specification'' Varchar_t True None,
       column_of ''sector_other'' Varchar_t True None,
       column_of ''ownership'' Varchar_array_t True None,
       column_of ''operating_currency'' Varchar_t True None,
       column_of ''fiscal_year_start'' Varchar_t True None,
       column_of ''employee_count'' Varchar_t True None,
       column_of ''sources_internationally'' Varchar_t True None,
       column_of ''source_countries'' Varchar_array_t True None,
       column_of ''sells_internationally'' Varchar_t True None,
       column_of ''sales_countries'' Varchar_array_t True None,
       column_of ''topics_of_interest'' Varchar_array_t True None,
       column_of ''consent_terms'' Bool_t True None,
       column_of ''consent_data_processing'' Bool_t True None,
       column_of ''consent_liability_waiver'' Bool_t True None,
       column_of ''consent_photo_video'' Bool_t True None,
       column_of ''cohort_date'' Varchar_t True None,
       column_of ''wtc_location'' Varchar_t True None,
       column_of ''source'' Varchar_t False None,
       column_of ''tags'' Varchar_array_t True None,
       column_of ''captured_at'' Timestamptz_t True None,
       column_of ''created_at'' Timestamptz_t True (Some Now_default),
       column_of ''responses'' Jsonb_t False (Some Empty_json_default),
       column_of ''crm_sync_status'' Varchar_t False None,
       column_of ''crm_synced_at'' Timestamptz_t True None,
       column_of ''crm_contact_id'' Varchar_t True None,
       column_of ''crm_error'' Varchar_t True None,
       column_of ''opened_at'' Timestamptz_t True None,
       column_of ''opened_count'' Int_t False (Some (Text_default ''0'')),
       column_of ''clicked_materials'' Varchar_array_t True None,
       column_of ''eligibility_status'' Varchar_t False None,
       column_of ''eligibility_submitted_at'' Timestamptz_t True None,
       column_of ''owner_id'' BigInt_t True None]
      [references ''trade_program_id'' ''trade_programs'' ''id'', references ''owner_id'' ''owners'' ''id''] [''id'']"

definition idx_trade_leads_program_email :: index_def where
  "idx_trade_leads_program_email = (btree ''idx_trade_leads_program_email'' ''trade_leads'' [''trade_program_id'', ''email''] True)\<lparr>ix_where := Some email_given\<rparr>"

definition idx_trade_leads_registration :: index_def where
  "idx_trade_leads_registration = btree ''idx_trade_leads_registration'' ''trade_leads'' [''registration_id'', ''participant_index''] False"

definition idx_trade_leads_program_created :: index_def where
  "idx_trade_leads_program_created = btree ''idx_trade_leads_program_created'' ''trade_leads'' [''trade_program_id'', ''created_at''] False"

definition idx_trade_leads_crm_sync :: index_def where
  "idx_trade_leads_crm_sync = btree ''idx_trade_leads_crm_sync'' ''trade_leads'' [''crm_sync_status''] False"

definition idx_email_events_trade_lead :: index_def where
  "idx_email_events_trade_lead = btree ''idx_email_events_trade_lead'' ''email_events'' [''trade_lead_id''] False"

definition upgrade_e3f5a7c9b1d2 :: "step list" where
  "upgrade_e3f5a7c9b1d2 =
   [Transactional (Create_table created_trade_programs),
    Transactional (Create_index False False ix_trade_programs_slug),
    Transactional (Create_table created_trade_leads),
    Transactional (Create_index False False idx_trade_leads_program_email),
    Transactional (Create_index False False idx_trade_leads_registration),
    Transactional (Create_index False False idx_trade_leads_program_created),
    Transactional (Create_index False False idx_trade_leads_crm_sync),
    Transactional (Add_column ''email_events'' (column_of ''trade_lead_id'' BigInt_t True None)),
    Transactional (Create_foreign_key ''email_events'' \<lparr>fk_name = Some ''fk_email_events_trade_lead_id'', fk_columns = [''trade_lead_id''], fk_table = ''trade_leads'', fk_target = [''id'']\<rparr>),
    Transactional (Create_index False False idx_email_events_trade_lead)]"

definition downgrade_e3f5a7c9b1d2 :: "step list" where
  "downgrade_e3f5a7c9b1d2 =
   [Transactional (Drop_index False False ''idx_email_events_trade_lead''),
    Transactional (Drop_constraint ''email_events'' ''fk_email_events_trade_lead_id''),
    Transactional (Drop_column ''email_events'' ''trade_lead_id''),
    Transactional (Drop_index False False ''idx_trade_leads_crm_sync''),
    Transactional (Drop_index False False ''idx_trade_leads_program_created''),
    Transactional (Drop_index False False ''idx_trade_leads_registration''),
    Transactional (Drop_index False False ''idx_trade_leads_program_email''),
    Transactional (Drop_table ''trade_leads''),
    Transactional (Drop_index False False ''ix_trade_programs_slug''),
    Transactional (Drop_table ''trade_programs'')]"

definition rev_e3f5a7c9b1d2 :: migration where
  "rev_e3f5a7c9b1d2 = \<lparr>revision = ''e3f5a7c9b1d2'', down_revision = Some ''755cca72bb41'',
     upgrade_steps = upgrade_e3f5a7c9b1d2, downgrade_steps = downgrade_e3f5a7c9b1d2\<rparr>"

paragraph \<open>a1c4e8f2d5b7: add trade documents\<close>

definition created_trade_documents :: table_def where
  "created_trade_documents = new_table ''trade_documents''
      [column_of ''id'' BigInt_t False None,
       column_of ''trade_program_id'' BigInt_t False None,
       column_of ''registration_id'' Varchar_t False None,
       column_of ''document_key'' Varchar_t False None,
       column_of ''storage_key'' Varchar_t False None,
       column_of ''file_name'' Varchar_t False None,
       column_of ''content_type'' Varchar_t True None,
       column_of ''size_bytes'' BigInt_t False None,
       column_of ''uploaded_at'' Timestamptz_t True (Some Now_default)]
      [references ''trade_program_id'' ''trade_programs'' ''id''] [''id'']"

definition idx_trade_documents_registration_key :: index_def where
  "idx_trade_documents_registration_key = btree ''idx_trade_documents_registration_key'' ''trade_documents'' [''registration_id'', ''document_key''] True"

definition idx_trade_documents_program :: index_def where
  "idx_trade_documents_program = btree ''idx_trade_documents_program'' ''trade_documents'' [''trade_program_id''] False"

definition upgrade_a1c4e8f2d5b7 :: "step list" where
  "upgrade_a1c4e8f2d5b7 =
   [Transactional (Create_table created_trade_documents),
    Transactional (Create_index False False idx_trade_documents_registration_key),
    Transactional (Create_index False False idx_trade_documents_program)]"

definition downgrade_a1c4e8f2d5b7 :: "step list" where
  "downgrade_a1c4e8f2d5b7 =
   [Transactional (Drop_index False False ''idx_trade_documents_program''),
    Transactional (Drop_index False False ''idx_trade_documents_registration_key''),
    Transactional (Drop_table ''trade_documents'')]"

definition rev_a1c4e8f2d5b7 :: migration where
  "rev_a1c4e8f2d5b7 = \<lparr>revision = ''a1c4e8f2d5b7'', down_revision = Some ''e3f5a7c9b1d2'',
     upgrade_steps = upgrade_a1c4e8f2d5b7, downgrade_steps = downgrade_a1c4e8f2d5b7\<rparr>"

paragraph \<open>1b75a10512eb: add trade lead review status\<close>

definition idx_trade_leads_review_status :: index_def where
  "idx_trade_leads_review_status = btree ''idx_trade_leads_review_status'' ''trade_leads'' [''review_status''] False"

definition upgrade_1b75a10512eb :: "step list" where
  "upgrade_1b75a10512eb =
   [Transactional (Add_column ''trade_leads'' (column_of ''review_status'' Varchar_t False (Some (Text_default ''pending'')))),
    Transactional (Add_column ''trade_leads'' (column_of ''reviewed_at'' Timestamptz_t True None)),
    Transactional (Add_column ''trade_leads'' (column_of ''reviewed_by'' Varchar_t True None)),
    Transactional (Create_index False False idx_trade_leads_review_status)]"

definition downgrade_1b75a10512eb :: "step list" where
  "downgrade_1b75a10512eb =
   [Transactional (Drop_index False False ''idx_trade_leads_review_status''),
    Transactional (Drop_column ''trade_leads'' ''reviewed_by''),
    Transactional (Drop_column ''trade_leads'' ''reviewed_at''),
    Transactional (Drop_column ''trade_leads'' ''review_status'')]"

definition rev_1b75a10512eb :: migration where
  "rev_1b75a10512eb = \<lparr>revision = ''1b75a10512eb'', down_revision = Some ''a1c4e8f2d5b7'',
     upgrade_steps = upgrade_1b75a10512eb, downgrade_steps = downgrade_1b75a10512eb\<rparr>"

text \<open>What the statements read of a table and an index.\<close>

lemma created_deal_events_fields [simp]:
  "td_name created_deal_events = ''deal_events''" "td_keys created_deal_events = [''id'']"
  "td_foreign created_deal_events = []"
  "column_names created_deal_events =
     [''id'', ''deal_id'', ''event_type'', ''old_pipeline_id'', ''old_stage_id'',
      ''new_pipeline_id'', ''new_stage_id'', ''old_owner_id'', ''new_owner_id'', ''occurred_at'',
      ''source'', ''raw_payload'']"
  by (simp_all add: created_deal_events_def new_table_def column_names_def)

lemma created_email_activity_fields [simp]:
  "td_name created_email_activity = ''email_activity''" "td_keys created_email_activity = [''id'']"
  "td_foreign created_email_activity = []"
  "column_names created_email_activity =
     [''id'', ''deal_id'', ''direction'', ''conversation_time'', ''subject'',
      ''raw_payload'']"
  by (simp_all add: created_email_activity_def new_table_def column_names_def)

lemma created_owners_fields [simp]:
  "td_name created_owners = ''owners''" "td_keys created_owners = [''id'']"
  "td_foreign created_owners = []"
  "column_names created_owners =
     [''id'', ''display_name'', ''email'', ''is_active'', ''updated_at'']"
  by (simp_all add: created_owners_def new_table_def column_names_def)

lemma created_pipelines_fields [simp]:
  "td_name created_pipelines = ''pipelines''" "td_keys created_pipelines = [''id'']"
  "td_foreign created_pipelines = []"
  "column_names created_pipelines =
     [''id'', ''name'', ''business_line'', ''is_default'', ''is_active'',
      ''updated_at'']"
  by (simp_all add: created_pipelines_def new_table_def column_names_def)

lemma created_tasks_snapshot_fields [simp]:
  "td_name created_tasks_snapshot = ''tasks_snapshot''" "td_keys created_tasks_snapshot = [''task_id'']"
  "td_foreign created_tasks_snapshot = []"
  "column_names created_tasks_snapshot =
     [''task_id'', ''deal_id'', ''owner_id'', ''title'', ''status'',
      ''due_date'', ''completed_date'', ''last_synced_at'']"
  by (simp_all add: created_tasks_snapshot_def new_table_def column_names_def)

lemma created_dashboard_users_fields [simp]:
  "td_name created_dashboard_users = ''dashboard_users''" "td_keys created_dashboard_users = [''email'']"
  "td_foreign created_dashboard_users = [references ''owner_id'' ''owners'' ''id'']"
  "column_names created_dashboard_users =
     [''email'', ''role'', ''owner_id'']"
  by (simp_all add: created_dashboard_users_def new_table_def column_names_def)

lemma created_stages_fields [simp]:
  "td_name created_stages = ''stages''" "td_keys created_stages = [''id'']"
  "td_foreign created_stages = [references ''pipeline_id'' ''pipelines'' ''id'']"
  "column_names created_stages =
     [''id'', ''pipeline_id'', ''name'', ''position'', ''forecast_type'',
      ''probability'', ''updated_at'']"
  by (simp_all add: created_stages_def new_table_def column_names_def)

lemma created_deals_snapshot_fields [simp]:
  "td_name created_deals_snapshot = ''deals_snapshot''" "td_keys created_deals_snapshot = [''deal_id'']"
  "td_foreign created_deals_snapshot = [references ''owner_id'' ''owners'' ''id'', references ''pipeline_id'' ''pipelines'' ''id'', references ''stage_id'' ''stages'' ''id'']"
  "column_names created_deals_snapshot =
     [''deal_id'', ''pipeline_id'', ''stage_id'', ''owner_id'', ''name'',
      ''amount'', ''base_currency_amount'', ''expected_close_date'', ''stage_updated_at'', ''age_days'',
      ''rotten_days'', ''sales_account_id'', ''sales_account_name'', ''cf_project'', ''cf_floor'',
      ''cf_sqm_size'', ''cf_product_category'', ''cf_term'', ''cf_start_date'', ''cf_term_end_date'',
      ''cf_deal_status'', ''cf_total_lease_amount'', ''custom_fields'', ''raw_payload'', ''updated_at'',
      ''last_synced_at'']"
  by (simp_all add: created_deals_snapshot_def new_table_def column_names_def)

lemma created_pipeline_daily_snapshot_fields [simp]:
  "td_name created_pipeline_daily_snapshot = ''pipeline_daily_snapshot''" "td_keys created_pipeline_daily_snapshot = [''snapshot_date'', ''pipeline_id'', ''stage_id'']"
  "td_foreign created_pipeline_daily_snapshot = [references ''pipeline_id'' ''pipelines'' ''id'', references ''stage_id'' ''stages'' ''id'']"
  "column_names created_pipeline_daily_snapshot =
     [''snapshot_date'', ''pipeline_id'', ''stage_id'', ''deal_count'', ''total_value'',
      ''total_base_currency_value'']"
  by (simp_all add: created_pipeline_daily_snapshot_def new_table_def column_names_def)

lemma created_deal_reasons_fields [simp]:
  "td_name created_deal_reasons = ''deal_reasons''" "td_keys created_deal_reasons = [''id'']"
  "td_foreign created_deal_reasons = []"
  "column_names created_deal_reasons =
     [''id'', ''name'', ''updated_at'']"
  by (simp_all add: created_deal_reasons_def new_table_def column_names_def)

lemma created_rooms_fields [simp]:
  "td_name created_rooms = ''rooms''" "td_keys created_rooms = [''id'']"
  "td_foreign created_rooms = []"
  "column_names created_rooms =
     [''id'', ''name'', ''location'', ''capacity'', ''description'',
      ''is_active'', ''created_at'']"
  by (simp_all add: created_rooms_def new_table_def column_names_def)

lemma created_bookings_fields [simp]:
  "td_name created_bookings = ''bookings''" "td_keys created_bookings = [''id'']"
  "td_foreign created_bookings = [references ''room_id'' ''rooms'' ''id'']"
  "column_names created_bookings =
     [''id'', ''room_id'', ''booker_name'', ''booker_email'', ''title'',
      ''start_time'', ''end_time'', ''access_code'', ''status'', ''created_at'']"
  by (simp_all add: created_bookings_def new_table_def column_names_def)

lemma created_campaigns_fields [simp]:
  "td_name created_campaigns = ''campaigns''" "td_keys created_campaigns = [''id'']"
  "td_foreign created_campaigns = []"
  "column_names created_campaigns =
     [''id'', ''slug'', ''name'', ''status'', ''starts_on'',
      ''ends_on'', ''timezone'', ''config'', ''created_at'', ''updated_at'']"
  by (simp_all add: created_campaigns_def new_table_def column_names_def)

lemma created_leads_fields [simp]:
  "td_name created_leads = ''leads''" "td_keys created_leads = [''id'']"
  "td_foreign created_leads = [references ''campaign_id'' ''campaigns'' ''id'']"
  "column_names created_leads =
     [''id'', ''campaign_id'', ''first_name'', ''last_name'', ''email'',
      ''phone'', ''company'', ''job_title'', ''source'', ''device_id'',
      ''timing'', ''interests'', ''requested_materials'', ''tags'', ''inspection_requested'',
      ''inspection_type'', ''marketing_opt_in'', ''consent_status'', ''consent_at'', ''captured_at'',
      ''created_at'', ''responses'', ''crm_sync_status'', ''crm_synced_at'', ''crm_contact_id'',
      ''crm_error'']"
  by (simp_all add: created_leads_def new_table_def column_names_def)

lemma created_email_events_fields [simp]:
  "td_name created_email_events = ''email_events''" "td_keys created_email_events = [''id'']"
  "td_foreign created_email_events = [references ''lead_id'' ''leads'' ''id'']"
  "column_names created_email_events =
     [''id'', ''lead_id'', ''email_kind'', ''event_type'', ''material'',
      ''url'', ''sg_event_id'', ''sg_message_id'', ''occurred_at'', ''created_at'']"
  by (simp_all add: created_email_events_def new_table_def column_names_def)

lemma created_contact_activity_fields [simp]:
  "td_name created_contact_activity = ''contact_activity''" "td_keys created_contact_activity = [''id'']"
  "td_foreign created_contact_activity = []"
  "column_names created_contact_activity =
     [''id'', ''campaign_id'', ''contact_id'', ''contact_name'', ''owner_id'',
      ''owner_name'', ''prospect_tier'', ''activity_type'', ''direction'', ''occurred_at'',
      ''subject'', ''source_key'', ''raw'', ''created_at'']"
  by (simp_all add: created_contact_activity_def new_table_def column_names_def)

lemma created_trade_programs_fields [simp]:
  "td_name created_trade_programs = ''trade_programs''" "td_keys created_trade_programs = [''id'']"
  "td_foreign created_trade_programs = []"
  "column_names created_trade_programs =
     [''id'', ''slug'', ''name'', ''kind'', ''status'',
      ''starts_on'', ''ends_on'', ''timezone'', ''config'', ''created_at'',
      ''updated_at'']"
  by (simp_all add: created_trade_programs_def new_table_def column_names_def)

lemma created_trade_leads_fields [simp]:
  "td_name created_trade_leads = ''trade_leads''" "td_keys created_trade_leads = [''id'']"
  "td_foreign created_trade_leads = [references ''trade_program_id'' ''trade_programs'' ''id'', references ''owner_id'' ''owners'' ''id'']"
  "column_names created_trade_leads =
     [''id'', ''trade_program_id'', ''registration_id'', ''participant_index'', ''is_primary'',
      ''first_name'', ''middle_name'', ''last_name'', ''email'', ''phone'',
      ''job_title'', ''company'', ''registered_address'', ''city'', ''postal_code'',
      ''country'', ''company_founded'', ''industry_sector'', ''sector_specification'', ''sector_other'',
      ''ownership'', ''operating_currency'', ''fiscal_year_start'', ''employee_count'', ''sources_internationally'',
      ''source_countries'', ''sells_internationally'', ''sales_countries'', ''topics_of_interest'', ''consent_terms'',
      ''consent_data_processing'', ''consent_liability_waiver'', ''consent_photo_video'', ''cohort_date'', ''wtc_location'',
      ''source'', ''tags'', ''captured_at'', ''created_at'', ''responses'',
      ''crm_sync_status'', ''crm_synced_at'', ''crm_contact_id'', ''crm_error'', ''opened_at'',
      ''opened_count'', ''clicked_materials'', ''eligibility_status'', ''eligibility_submitted_at'', ''owner_id'']"
  by (simp_all add: created_trade_leads_def new_table_def column_names_def)

lemma created_trade_documents_fields [simp]:
  "td_name created_trade_documents = ''trade_documents''" "td_keys created_trade_documents = [''id'']"
  "td_foreign created_trade_documents = [references ''trade_program_id'' ''trade_programs'' ''id'']"
  "column_names created_trade_documents =
     [''id'', ''trade_program_id'', ''registration_id'', ''document_key'', ''storage_key'',
      ''file_name'', ''content_type'', ''size_bytes'', ''uploaded_at'']"
  by (simp_all add: created_trade_documents_def new_table_def column_names_def)

lemma index_fields [simp]:
  "ix_name idx_deal_events_deal = ''idx_deal_events_deal''" "ix_table idx_deal_events_deal = ''deal_events''"
  "ix_columns idx_deal_events_deal = [''deal_id'', ''occurred_at'']" "ix_unique idx_deal_events_deal = False" "ix_valid idx_deal_events_deal = True"
  "ix_name idx_email_activity_deal = ''idx_email_activity_deal''" "ix_table idx_email_activity_deal = ''email_activity''"
  "ix_columns idx_email_activity_deal = [''deal_id'', ''conversation_time'']" "ix_unique idx_email_activity_deal = False" "ix_valid idx_email_activity_deal = True"
  "ix_name idx_tasks_owner_status = ''idx_tasks_owner_status''" "ix_table idx_tasks_owner_status = ''tasks_snapshot''"
  "ix_columns idx_tasks_owner_status = [''owner_id'', ''status'', ''due_date'']" "ix_unique idx_tasks_owner_status = False" "ix_valid idx_tasks_owner_status = True"
  "ix_name idx_deals_snapshot_owner = ''idx_deals_snapshot_owner''" "ix_table idx_deals_snapshot_owner = ''deals_snapshot''"
  "ix_columns idx_deals_snapshot_owner = [''owner_id'']" "ix_unique idx_deals_snapshot_owner = False" "ix_valid idx_deals_snapshot_owner = True"
  "ix_name idx_deals_snapshot_pipeline_stage = ''idx_deals_snapshot_pipeline_stage''" "ix_table idx_deals_snapshot_pipeline_stage = ''deals_snapshot''"
  "ix_columns idx_deals_snapshot_pipeline_stage = [''pipeline_id'', ''stage_id'']" "ix_unique idx_deals_snapshot_pipeline_stage = False" "ix_valid idx_deals_snapshot_pipeline_stage = True"
  "ix_name ix_rooms_name = ''ix_rooms_name''" "ix_table ix_rooms_name = ''rooms''"
  "ix_columns ix_rooms_name = [''name'']" "ix_unique ix_rooms_name = True" "ix_valid ix_rooms_name = True"
  "ix_name idx_bookings_room_time = ''idx_bookings_room_time''" "ix_table idx_bookings_room_time = ''bookings''"
  "ix_columns idx_bookings_room_time = [''room_id'', ''start_time'', ''end_time'']" "ix_unique idx_bookings_room_time = False" "ix_valid idx_bookings_room_time = True"
  "ix_name idx_bookings_access_code = ''idx_bookings_access_code''" "ix_table idx_bookings_access_code = ''bookings''"
  "ix_columns idx_bookings_access_code = [''access_code'']" "ix_unique idx_bookings_access_code = True" "ix_valid idx_bookings_access_code = True"
  "ix_name ix_campaigns_slug = ''ix_campaigns_slug''" "ix_table ix_campaigns_slug = ''campaigns''"
  "ix_columns ix_campaigns_slug = [''slug'']" "ix_unique ix_campaigns_slug = True" "ix_valid ix_campaigns_slug = True"
  "ix_name idx_leads_campaign_created = ''idx_leads_campaign_created''" "ix_table idx_leads_campaign_created = ''leads''"
  "ix_columns idx_leads_campaign_created = [''campaign_id'', ''created_at'']" "ix_unique idx_leads_campaign_created = False" "ix_valid idx_leads_campaign_created = True"
  "ix_name idx_leads_campaign_sync = ''idx_leads_campaign_sync''" "ix_table idx_leads_campaign_sync = ''leads''"
  "ix_columns idx_leads_campaign_sync = [''campaign_id'', ''crm_sync_status'']" "ix_unique idx_leads_campaign_sync = False" "ix_valid idx_leads_campaign_sync = True"
  "ix_name idx_leads_campaign_email = ''idx_leads_campaign_email''" "ix_table idx_leads_campaign_email = ''leads''"
  "ix_columns idx_leads_campaign_email = [''campaign_id'', ''email'']" "ix_unique idx_leads_campaign_email = True" "ix_valid idx_leads_campaign_email = True"
  "ix_name idx_leads_interests = ''idx_leads_interests''" "ix_table idx_leads_interests = ''leads''"
  "ix_columns idx_leads_interests = [''interests'']" "ix_unique idx_leads_interests = False" "ix_valid idx_leads_interests = True"
  "ix_name idx_leads_campaign_pack = ''idx_leads_campaign_pack''" "ix_table idx_leads_campaign_pack = ''leads''"
  "ix_columns idx_leads_campaign_pack = [''campaign_id'', ''pack_delivery_status'']" "ix_unique idx_leads_campaign_pack = False" "ix_valid idx_leads_campaign_pack = True"
  "ix_name idx_email_events_lead = ''idx_email_events_lead''" "ix_table idx_email_events_lead = ''email_events''"
  "ix_columns idx_email_events_lead = [''lead_id'', ''occurred_at'']" "ix_unique idx_email_events_lead = False" "ix_valid idx_email_events_lead = True"
  "ix_name idx_email_events_sg_event_id = ''idx_email_events_sg_event_id''" "ix_table idx_email_events_sg_event_id = ''email_events''"
  "ix_columns idx_email_events_sg_event_id = [''sg_event_id'']" "ix_unique idx_email_events_sg_event_id = True" "ix_valid idx_email_events_sg_event_id = True"
  "ix_name idx_contact_activity_owner = ''idx_contact_activity_owner''" "ix_table idx_contact_activity_owner = ''contact_activity''"
  "ix_columns idx_contact_activity_owner = [''campaign_id'', ''owner_id'', ''occurred_at'']" "ix_unique idx_contact_activity_owner = False" "ix_valid idx_contact_activity_owner = True"
  "ix_name idx_contact_activity_tier = ''idx_contact_activity_tier''" "ix_table idx_contact_activity_tier = ''contact_activity''"
  "ix_columns idx_contact_activity_tier = [''campaign_id'', ''prospect_tier'', ''occurred_at'']" "ix_unique idx_contact_activity_tier = False" "ix_valid idx_contact_activity_tier = True"
  "ix_name idx_contact_activity_source = ''idx_contact_activity_source''" "ix_table idx_contact_activity_source = ''contact_activity''"
  "ix_columns idx_contact_activity_source = [''source_key'']" "ix_unique idx_contact_activity_source = True" "ix_valid idx_contact_activity_source = True"
  "ix_name idx_leads_engagement_score = ''idx_leads_engagement_score''" "ix_table idx_leads_engagement_score = ''leads''"
  "ix_columns idx_leads_engagement_score = [''engagement_score'']" "ix_unique idx_leads_engagement_score = False" "ix_valid idx_leads_engagement_score = True"
  "ix_name idx_leads_triage_status = ''idx_leads_triage_status''" "ix_table idx_leads_triage_status = ''leads''"
  "ix_columns idx_leads_triage_status = [''triage_status'']" "ix_unique idx_leads_triage_status = False" "ix_valid idx_leads_triage_status = True"
  "ix_name ix_trade_programs_slug = ''ix_trade_programs_slug''" "ix_table ix_trade_programs_slug = ''trade_programs''"
  "ix_columns ix_trade_programs_slug = [''slug'']" "ix_unique ix_trade_programs_slug = True" "ix_valid ix_trade_programs_slug = True"
  "ix_name idx_trade_leads_program_email = ''idx_trade_leads_program_email''" "ix_table idx_trade_leads_program_email = ''trade_leads''"
  "ix_columns idx_trade_leads_program_email = [''trade_program_id'', ''email'']" "ix_unique idx_trade_leads_program_email = True" "ix_valid idx_trade_leads_program_email = True"
  "ix_name idx_trade_leads_registration = ''idx_trade_leads_registration''" "ix_table idx_trade_leads_registration = ''trade_leads''"
  "ix_columns idx_trade_leads_registration = [''registration_id'', ''participant_index'']" "ix_unique idx_trade_leads_registration = False" "ix_valid idx_trade_leads_registration = True"
  "ix_name idx_trade_leads_program_created = ''idx_trade_leads_program_created''" "ix_table idx_trade_leads_program_created = ''trade_leads''"
  "ix_columns idx_trade_leads_program_created = [''trade_program_id'', ''created_at'']" "ix_unique idx_trade_leads_program_created = False" "ix_valid idx_trade_leads_program_created = True"
  "ix_name idx_trade_leads_crm_sync = ''idx_trade_leads_crm_sync''" "ix_table idx_trade_leads_crm_sync = ''trade_leads''"
  "ix_columns idx_trade_leads_crm_sync = [''crm_sync_status'']" "ix_unique idx_trade_leads_crm_sync = False" "ix_valid idx_trade_leads_crm_sync = True"
  "ix_name idx_email_events_trade_lead = ''idx_email_events_trade_lead''" "ix_table idx_email_events_trade_lead = ''email_events''"
  "ix_columns idx_email_events_trade_lead = [''trade_lead_id'']" "ix_unique idx_email_events_trade_lead = False" "ix_valid idx_email_events_trade_lead = True"
  "ix_name idx_trade_documents_registration_key = ''idx_trade_documents_registration_key''" "ix_table idx_trade_documents_registration_key = ''trade_documents''"
  "ix_columns idx_trade_documents_registration_key = [''registration_id'', ''document_key'']" "ix_unique idx_trade_documents_registration_key = True" "ix_valid idx_trade_documents_registration_key = True"
  "ix_name idx_trade_documents_program = ''idx_trade_documents_program''" "ix_table idx_trade_documents_program = ''trade_documents''"
  "ix_columns idx_trade_documents_program = [''trade_program_id'']" "ix_unique idx_trade_documents_program = False" "ix_valid idx_trade_documents_program = True"
  "ix_name idx_trade_leads_review_status = ''idx_trade_leads_review_status''" "ix_table idx_trade_leads_review_status = ''trade_leads''"
  "ix_columns idx_trade_leads_review_status = [''review_status'']" "ix_unique idx_trade_leads_review_status = False" "ix_valid idx_trade_leads_review_status = True"
  by (simp_all add: idx_deal_events_deal_def idx_email_activity_deal_def idx_tasks_owner_status_def idx_deals_snapshot_owner_def idx_deals_snapshot_pipeline_stage_def ix_rooms_name_def idx_bookings_room_time_def idx_bookings_access_code_def ix_campaigns_slug_def idx_leads_campaign_created_def idx_leads_campaign_sync_def idx_leads_campaign_email_def idx_leads_interests_def idx_leads_campaign_pack_def idx_email_events_lead_def idx_email_events_sg_event_id_def idx_contact_activity_owner_def idx_contact_activity_tier_def idx_contact_activity_source_def idx_leads_engagement_score_def idx_leads_triage_status_def ix_trade_programs_slug_def idx_trade_leads_program_email_def idx_trade_leads_registration_def idx_trade_leads_program_created_def idx_trade_leads_crm_sync_def idx_email_events_trade_lead_def idx_trade_documents_registration_key_def idx_trade_documents_program_def idx_trade_leads_review_status_def)

lemmas created_defs =
  created_deal_events_def created_email_activity_def created_owners_def
  created_pipelines_def created_tasks_snapshot_def created_dashboard_users_def
  created_stages_def created_deals_snapshot_def created_pipeline_daily_snapshot_def
  created_deal_reasons_def created_rooms_def created_bookings_def
  created_campaigns_def created_leads_def created_email_events_def
  created_contact_activity_def created_trade_programs_def created_trade_leads_def
  created_trade_documents_def idx_deal_events_deal_def idx_email_activity_deal_def
  idx_tasks_owner_status_def idx_deals_snapshot_owner_def idx_deals_snapshot_pipeline_stage_def
  ix_rooms_name_def idx_bookings_room_time_def idx_bookings_access_code_def
  ix_campaigns_slug_def idx_leads_campaign_created_def idx_leads_campaign_sync_def
  idx_leads_campaign_email_def idx_leads_interests_def idx_leads_campaign_pack_def
  idx_email_events_lead_def idx_email_events_sg_event_id_def idx_contact_activity_owner_def
  idx_contact_activity_tier_def idx_contact_activity_source_def idx_leads_engagement_score_def
  idx_leads_triage_status_def ix_trade_programs_slug_def idx_trade_leads_program_email_def
  idx_trade_leads_registration_def idx_trade_leads_program_created_def idx_trade_leads_crm_sync_def
  idx_email_events_trade_lead_def idx_trade_documents_registration_key_def idx_trade_documents_program_def
  idx_trade_leads_review_status_def

lemmas revision_defs =
  rev_9ee53e33097f_def upgrade_9ee53e33097f_def downgrade_9ee53e33097f_def
  rev_51283a028465_def upgrade_51283a028465_def downgrade_51283a028465_def
  rev_f33926afc37b_def upgrade_f33926afc37b_def downgrade_f33926afc37b_def
  rev_ad205b8f1f36_def upgrade_ad205b8f1f36_def downgrade_ad205b8f1f36_def
  rev_c4e7a1b9d2f3_def upgrade_c4e7a1b9d2f3_def downgrade_c4e7a1b9d2f3_def
  rev_d5f1a9c3b7e2_def upgrade_d5f1a9c3b7e2_def downgrade_d5f1a9c3b7e2_def
  rev_e7c2a4f9b6d1_def upgrade_e7c2a4f9b6d1_def downgrade_e7c2a4f9b6d1_def
  rev_b8f4d2a6c1e3_def upgrade_b8f4d2a6c1e3_def downgrade_b8f4d2a6c1e3_def
  rev_c1d2e3f4a5b6_def upgrade_c1d2e3f4a5b6_def downgrade_c1d2e3f4a5b6_def
  rev_a1b2c3d4e5f6_def upgrade_a1b2c3d4e5f6_def downgrade_a1b2c3d4e5f6_def
  rev_b2c3d4e5f6a7_def upgrade_b2c3d4e5f6a7_def downgrade_b2c3d4e5f6a7_def
  rev_d7e9f1a2b3c4_def upgrade_d7e9f1a2b3c4_def downgrade_d7e9f1a2b3c4_def
  rev_bbb90d835871_def upgrade_bbb90d835871_def downgrade_bbb90d835871_def
  rev_c4f1a2b3d5e6_def upgrade_c4f1a2b3d5e6_def downgrade_c4f1a2b3d5e6_def
  rev_755cca72bb41_def upgrade_755cca72bb41_def downgrade_755cca72bb41_def
  rev_e3f5a7c9b1d2_def upgrade_e3f5a7c9b1d2_def downgrade_e3f5a7c9b1d2_def
  rev_a1c4e8f2d5b7_def upgrade_a1c4e8f2d5b7_def downgrade_a1c4e8f2d5b7_def
  rev_1b75a10512eb_def upgrade_1b75a10512eb_def downgrade_1b75a10512eb_def
  analytics_indexes_def

lemma revision_fields [simp]:
  "revision rev_9ee53e33097f = ''9ee53e33097f''" "down_revision rev_9ee53e33097f = None"
  "revision rev_51283a028465 = ''51283a028465''" "down_revision rev_51283a028465 = Some ''9ee53e33097f''"
  "revision rev_f33926afc37b = ''f33926afc37b''" "down_revision rev_f33926afc37b = Some ''51283a028465''"
  "revision rev_ad205b8f1f36 = ''ad205b8f1f36''" "down_revision rev_ad205b8f1f36 = Some ''f33926afc37b''"
  "revision rev_c4e7a1b9d2f3 = ''c4e7a1b9d2f3''" "down_revision rev_c4e7a1b9d2f3 = Some ''ad205b8f1f36''"
  "revision rev_d5f1a9c3b7e2 = ''d5f1a9c3b7e2''" "down_revision rev_d5f1a9c3b7e2 = Some ''c4e7a1b9d2f3''"
  "revision rev_e7c2a4f9b6d1 = ''e7c2a4f9b6d1''" "down_revision rev_e7c2a4f9b6d1 = Some ''d5f1a9c3b7e2''"
  "revision rev_b8f4d2a6c1e3 = ''b8f4d2a6c1e3''" "down_revision rev_b8f4d2a6c1e3 = Some ''e7c2a4f9b6d1''"
  "revision rev_c1d2e3f4a5b6 = ''c1d2e3f4a5b6''" "down_revision rev_c1d2e3f4a5b6 = Some ''b8f4d2a6c1e3''"
  "revision rev_a1b2c3d4e5f6 = ''a1b2c3d4e5f6''" "down_revision rev_a1b2c3d4e5f6 = Some ''c1d2e3f4a5b6''"
  "revision rev_b2c3d4e5f6a7 = ''b2c3d4e5f6a7''" "down_revision rev_b2c3d4e5f6a7 = Some ''a1b2c3d4e5f6''"
  "revision rev_d7e9f1a2b3c4 = ''d7e9f1a2b3c4''" "down_revision rev_d7e9f1a2b3c4 = Some ''b2c3d4e5f6a7''"
  "revision rev_bbb90d835871 = ''bbb90d835871''" "down_revision rev_bbb90d835871 = Some ''d7e9f1a2b3c4''"
  "revision rev_c4f1a2b3d5e6 = ''c4f1a2b3d5e6''" "down_revision rev_c4f1a2b3d5e6 = Some ''bbb90d835871''"
  "revision rev_755cca72bb41 = ''755cca72bb41''" "down_revision rev_755cca72bb41 = Some ''c4f1a2b3d5e6''"
  "revision rev_e3f5a7c9b1d2 = ''e3f5a7c9b1d2''" "down_revision rev_e3f5a7c9b1d2 = Some ''755cca72bb41''"
  "revision rev_a1c4e8f2d5b7 = ''a1c4e8f2d5b7''" "down_revision rev_a1c4e8f2d5b7 = Some ''e3f5a7c9b1d2''"
  "revision rev_1b75a10512eb = ''1b75a10512eb''" "down_revision rev_1b75a10512eb = Some ''a1c4e8f2d5b7''"
  by (simp_all add: rev_9ee53e33097f_def rev_51283a028465_def rev_f33926afc37b_def rev_ad205b8f1f36_def rev_c4e7a1b9d2f3_def rev_d5f1a9c3b7e2_def rev_e7c2a4f9b6d1_def rev_b8f4d2a6c1e3_def rev_c1d2e3f4a5b6_def rev_a1b2c3d4e5f6_def rev_b2c3d4e5f6a7_def rev_d7e9f1a2b3c4_def rev_bbb90d835871_def rev_c4f1a2b3d5e6_def rev_755cca72bb41_def rev_e3f5a7c9b1d2_def rev_a1c4e8f2d5b7_def rev_1b75a10512eb_def)

text \<open>The revisions in the order of their files.\<close>

definition version_scripts :: "migration list" where
  "version_scripts =
   [rev_1b75a10512eb,
    rev_51283a028465,
    rev_755cca72bb41,
    rev_9ee53e33097f,
    rev_a1b2c3d4e5f6,
    rev_a1c4e8f2d5b7,
    rev_ad205b8f1f36,
    rev_b2c3d4e5f6a7,
    rev_b8f4d2a6c1e3,
    rev_bbb90d835871,
    rev_c1d2e3f4a5b6,
    rev_c4e7a1b9d2f3,
    rev_c4f1a2b3d5e6,
    rev_d5f1a9c3b7e2,
    rev_d7e9f1a2b3c4,
    rev_e3f5a7c9b1d2,
    rev_e7c2a4f9b6d1,
    rev_f33926afc37b]"

subsection \<open>The line of revisions\<close>

text \<open>
  The revisions behind a version, each the one that names the one before as its \<open>down_revision\<close>;
  a branch would have two heads, which \<open>upgrade head\<close> refuses. The fuel is the number of scripts.
\<close>

fun revisions_after :: "nat \<Rightarrow> migration list \<Rightarrow> string option \<Rightarrow> migration list option" where
  "revisions_after 0 ms v = (if list_ex (\<lambda>m. down_revision m = v) ms then None else Some [])"
| "revisions_after (Suc n) ms v = (case filter (\<lambda>m. down_revision m = v) ms of
     [] \<Rightarrow> Some []
   | [m] \<Rightarrow> map_option ((#) m) (revisions_after n ms (Some (revision m)))
   | _ \<Rightarrow> None)"

definition revision_line :: "migration list" where
  "revision_line = (case revisions_after (length version_scripts) version_scripts None of None \<Rightarrow> [] | Some ms \<Rightarrow> ms)"

lemma revision_line_eq:
  "revision_line =
   [rev_9ee53e33097f,
    rev_51283a028465,
    rev_f33926afc37b,
    rev_ad205b8f1f36,
    rev_c4e7a1b9d2f3,
    rev_d5f1a9c3b7e2,
    rev_e7c2a4f9b6d1,
    rev_b8f4d2a6c1e3,
    rev_c1d2e3f4a5b6,
    rev_a1b2c3d4e5f6,
    rev_b2c3d4e5f6a7,
    rev_d7e9f1a2b3c4,
    rev_bbb90d835871,
    rev_c4f1a2b3d5e6,
    rev_755cca72bb41,
    rev_e3f5a7c9b1d2,
    rev_a1c4e8f2d5b7,
    rev_1b75a10512eb]"
  by (simp add: revision_line_def version_scripts_def numeral_eq_Suc)

fun step_statements :: "step \<Rightarrow> statement list" where
  "step_statements (Transactional q) = [q]"
| "step_statements (Autocommit qs) = qs"

definition upgrade_statements :: "migration \<Rightarrow> statement list" where
  "upgrade_statements m = concat (List.map step_statements (upgrade_steps m))"

definition downgrade_statements :: "migration \<Rightarrow> statement list" where
  "downgrade_statements m = concat (List.map step_statements (downgrade_steps m))"

definition upgrade_schema :: "migration \<Rightarrow> schema \<Rightarrow> schema option" where
  "upgrade_schema m s = map_option settle (run_statements (upgrade_statements m) s)"

definition downgrade_schema :: "migration \<Rightarrow> schema \<Rightarrow> schema option" where
  "downgrade_schema m s = map_option settle (run_statements (downgrade_statements m) s)"

fun upgrades :: "migration list \<Rightarrow> schema \<Rightarrow> schema option" where
  "upgrades [] s = Some s"
| "upgrades (m # ms) s = (case upgrade_schema m s of None \<Rightarrow> None | Some u \<Rightarrow> upgrades ms u)"

fun downgrades :: "migration list \<Rightarrow> schema \<Rightarrow> schema option" where
  "downgrades [] s = Some s"
| "downgrades (m # ms) s = (case downgrade_schema m s of None \<Rightarrow> None | Some u \<Rightarrow> downgrades ms u)"

subsection \<open>The run\<close>

text \<open>
  The database as a deployment finds it: the version table, the schema and the roles of the
  dashboard users. A run holds the committed database and the one its transaction sees. Entering an
  autocommit block commits the transaction, each statement in it takes effect at once, and leaving
  it opens the next transaction; the version is stamped after the statements of its revision.
\<close>

record database =
  db_version :: "string option"
  db_schema :: schema
  db_roles :: "string list"

definition empty_database :: database where
  "empty_database = \<lparr>db_version = None, db_schema = empty_schema, db_roles = []\<rparr>"

datatype run_item = Statement statement | Enter_block | Outside statement | Stamp string

fun step_actions :: "step \<Rightarrow> run_item list" where
  "step_actions (Transactional q) = [Statement q]"
| "step_actions (Autocommit qs) = Enter_block # List.map Outside qs"

definition migration_actions :: "migration \<Rightarrow> run_item list" where
  "migration_actions m = concat (List.map step_actions (upgrade_steps m)) @ [Stamp (revision m)]"

definition run_plan :: "migration list \<Rightarrow> run_item list" where
  "run_plan ms = concat (List.map migration_actions ms)"

definition perform :: "statement \<Rightarrow> database \<Rightarrow> database option" where
  "perform q db = (case schema_effect q (db_schema db) of
     None \<Rightarrow> None
   | Some s \<Rightarrow> Some (db\<lparr>db_schema := s, db_roles := roles_effect q (db_roles db)\<rparr>))"

fun run_action :: "run_item \<Rightarrow> database \<times> database \<Rightarrow> (database \<times> database) option" where
  "run_action (Statement q) (committed, work) = map_option (\<lambda>w. (committed, w)) (perform q work)"
| "run_action Enter_block (committed, work) = Some (work, work)"
| "run_action (Outside q) (committed, work) = map_option (\<lambda>w. (w, w)) (perform q work)"
| "run_action (Stamp v) (committed, work) =
     Some (committed, work\<lparr>db_version := Some v, db_schema := settle (db_schema work)\<rparr>)"

fun run_actions :: "run_item list \<Rightarrow> database \<times> database \<Rightarrow> (database \<times> database) option" where
  "run_actions [] s = Some s"
| "run_actions (a # as) s = (case run_action a s of None \<Rightarrow> None | Some u \<Rightarrow> run_actions as u)"

text \<open>
  What a run leaves when it is stopped: the committed database, before any of its actions or
  because one of them failed. A concurrent index build that is stopped leaves its index invalid.
\<close>

definition half_built :: "run_item \<Rightarrow> database \<Rightarrow> database list" where
  "half_built a db = (case a of
     Outside (Create_index True _ i) \<Rightarrow>
       (case perform (Create_index True False (i\<lparr>ix_valid := False\<rparr>)) db of None \<Rightarrow> [] | Some d \<Rightarrow> [d])
   | _ \<Rightarrow> [])"

fun left_behind :: "run_item list \<Rightarrow> database \<times> database \<Rightarrow> database list" where
  "left_behind [] s = [fst s]"
| "left_behind (a # as) s = fst s # half_built a (fst s) @
     (case run_action a s of None \<Rightarrow> [] | Some u \<Rightarrow> left_behind as u)"

text \<open>
  \<open>alembic upgrade head\<close> as the scripts of a release have it: the revisions behind the version of
  the database; a version the scripts do not know ends the run before it starts.
\<close>

definition pending_revisions :: "migration list \<Rightarrow> database \<Rightarrow> migration list option" where
  "pending_revisions ms db = (case db_version db of
     None \<Rightarrow> revisions_after (length ms) ms None
   | Some v \<Rightarrow> if list_ex (\<lambda>m. revision m = v) ms then revisions_after (length ms) ms (Some v) else None)"

definition upgrade_head :: "migration list \<Rightarrow> database \<Rightarrow> database option" where
  "upgrade_head ms db = (case pending_revisions ms db of
     None \<Rightarrow> None
   | Some ps \<Rightarrow> map_option snd (run_actions (run_plan ps) (db, db)))"

definition stopped_upgrades :: "migration list \<Rightarrow> database \<Rightarrow> database list" where
  "stopped_upgrades ms db = (case pending_revisions ms db of
     None \<Rightarrow> [db]
   | Some ps \<Rightarrow> left_behind (run_plan ps) (db, db))"

end
