(* ===== verification/Declared_Tables.thy ===== *)
theory Declared_Tables
  imports Schema
begin

section \<open>The tables the models declare\<close>

text \<open>
  \<open>SQLModel.metadata\<close>, the target that \<open>alembic/env.py\<close> compares the database with: one table for
  every class of \<open>app/models\<close>. A field without a column of its own is nullable exactly when its
  type allows \<open>None\<close>; a \<open>Column(...)\<close> is nullable unless it says otherwise or is part of the key.
\<close>

subsection \<open>Tables\<close>

definition declared_bookings :: table_def where
  "declared_bookings = new_table ''bookings''
      [column_of ''id'' BigInt_t False None,
       column_of ''room_id'' BigInt_t False None,
       column_of ''booker_name'' Varchar_t False None,
       column_of ''booker_email'' Varchar_t False None,
       column_of ''title'' Varchar_t True None,
       column_of ''start_time'' Timestamptz_t False None,
       column_of ''end_time'' Timestamptz_t False None,
       column_of ''access_code'' Varchar_t False None,
       column_of ''status'' Varchar_t False None,
       column_of ''created_at'' Timestamptz_t True (Some Now_default)]
      [references ''room_id'' ''rooms'' ''id''] [''id'']"

definition declared_bookings_indexes :: "index_def list" where
  "declared_bookings_indexes =
     [(btree ''idx_bookings_room_time'' ''bookings'' [''room_id'', ''start_time'', ''end_time''] False),
      (btree ''idx_bookings_access_code'' ''bookings'' [''access_code''] True)]"

definition declared_campaigns :: table_def where
  "declared_campaigns = new_table ''campaigns''
      [column_of ''id'' BigInt_t False None,
       column_of ''slug'' Varchar_t False None,
       column_of ''name'' Varchar_t False None,
       column_of ''status'' Varchar_t False None,
       column_of ''starts_on'' Date_t True None,
       column_of ''ends_on'' Date_t True None,
       column_of ''timezone'' Varchar_t False None,
       column_of ''config'' Jsonb_t False (Some Empty_json_default),
       column_of ''created_at'' Timestamptz_t True (Some Now_default),
       column_of ''updated_at'' Timestamptz_t True (Some Now_default)]
      [] [''id'']"

definition declared_campaigns_indexes :: "index_def list" where
  "declared_campaigns_indexes =
     [(btree ''ix_campaigns_slug'' ''campaigns'' [''slug''] True)]"

definition declared_contact_activity :: table_def where
  "declared_contact_activity = new_table ''contact_activity''
      [column_of ''id'' BigInt_t False None,
       column_of ''campaign_id'' BigInt_t False None,
       column_of ''contact_id'' BigInt_t False None,
       column_of ''contact_name'' Varchar_t True None,
       column_of ''owner_id'' BigInt_t True None,
       column_of ''owner_name'' Varchar_t True None,
       column_of ''prospect_tier'' Varchar_t True None,
       column_of ''activity_type'' Varchar_t False None,
       column_of ''direction'' Varchar_t True None,
       column_of ''occurred_at'' Timestamptz_t False None,
       column_of ''subject'' Varchar_t True None,
       column_of ''source_key'' Varchar_t False None,
       column_of ''raw'' Jsonb_t True None,
       column_of ''created_at'' Timestamptz_t True (Some Now_default)]
      [] [''id'']"

definition declared_contact_activity_indexes :: "index_def list" where
  "declared_contact_activity_indexes =
     [(btree ''idx_contact_activity_owner'' ''contact_activity'' [''campaign_id'', ''owner_id'', ''occurred_at''] False),
      (btree ''idx_contact_activity_tier'' ''contact_activity'' [''campaign_id'', ''prospect_tier'', ''occurred_at''] False),
      (btree ''idx_contact_activity_source'' ''contact_activity'' [''source_key''] True)]"

definition declared_dashboard_users :: table_def where
  "declared_dashboard_users = new_table ''dashboard_users''
      [column_of ''email'' Varchar_t False None,
       column_of ''role'' Varchar_t False None,
       column_of ''owner_id'' BigInt_t True None,
       column_of ''hashed_password'' Varchar_t True None,
       column_of ''must_change_password'' Bool_t False None]
      [references ''owner_id'' ''owners'' ''id''] [''email'']"

definition declared_deals_snapshot :: table_def where
  "declared_deals_snapshot = new_table ''deals_snapshot''
      [column_of ''deal_id'' BigInt_t False None,
       column_of ''pipeline_id'' BigInt_t True None,
       column_of ''stage_id'' BigInt_t True None,
       column_of ''owner_id'' BigInt_t True None,
       column_of ''name'' Varchar_t True None,
       column_of ''amount'' Numeric_t True None,
       column_of ''base_currency_amount'' Numeric_t True None,
       column_of ''expected_close_date'' Date_t True None,
       column_of ''stage_updated_at'' Timestamptz_t True None,
       column_of ''age_days'' Int_t True None,
       column_of ''rotten_days'' Int_t True None,
       column_of ''sales_account_id'' BigInt_t True None,
       column_of ''sales_account_name'' Varchar_t True None,
       column_of ''cf_project'' Varchar_t True None,
       column_of ''cf_floor'' Varchar_t True None,
       column_of ''cf_sqm_size'' Numeric_t True None,
       column_of ''cf_product_category'' Varchar_t True None,
       column_of ''cf_term'' Numeric_t True None,
       column_of ''cf_start_date'' Date_t True None,
       column_of ''cf_term_end_date'' Date_t True None,
       column_of ''cf_deal_status'' Varchar_t True None,
       column_of ''cf_total_lease_amount'' Numeric_t True None,
       column_of ''deal_created_at'' Timestamptz_t True None,
       column_of ''lost_reason'' Varchar_t True None,
       column_of ''lost_reason_id'' BigInt_t True None,
       column_of ''custom_fields'' Jsonb_t True None,
       column_of ''raw_payload'' Jsonb_t True None,
       column_of ''updated_at'' Timestamptz_t True (Some Now_default),
       column_of ''last_synced_at'' Timestamptz_t True (Some Now_default)]
      [references ''pipeline_id'' ''pipelines'' ''id'', references ''stage_id'' ''stages'' ''id'', references ''owner_id'' ''owners'' ''id''] [''deal_id'']"

definition declared_deals_snapshot_indexes :: "index_def list" where
  "declared_deals_snapshot_indexes =
     [(btree ''idx_deals_snapshot_pipeline_stage'' ''deals_snapshot'' [''pipeline_id'', ''stage_id''] False),
      (btree ''idx_deals_snapshot_owner'' ''deals_snapshot'' [''owner_id''] False),
      (btree ''idx_deals_snapshot_owner_stage_updated'' ''deals_snapshot'' [''owner_id'', ''stage_id'', ''stage_updated_at''] False),
      (btree ''idx_deals_snapshot_pipeline_close'' ''deals_snapshot'' [''pipeline_id'', ''expected_close_date''] False),
      (btree ''idx_deals_snapshot_created'' ''deals_snapshot'' [''deal_created_at''] False)]"

definition declared_deal_events :: table_def where
  "declared_deal_events = new_table ''deal_events''
      [column_of ''id'' BigInt_t False None,
       column_of ''deal_id'' BigInt_t False None,
       column_of ''event_type'' Varchar_t False None,
       column_of ''old_pipeline_id'' BigInt_t True None,
       column_of ''old_stage_id'' BigInt_t True None,
       column_of ''new_pipeline_id'' BigInt_t True None,
       column_of ''new_stage_id'' BigInt_t True None,
       column_of ''old_owner_id'' BigInt_t True None,
       column_of ''new_owner_id'' BigInt_t True None,
       column_of ''occurred_at'' Timestamptz_t False None,
       column_of ''source'' Varchar_t False None,
       column_of ''raw_payload'' Jsonb_t True None]
      [] [''id'']"

definition declared_deal_events_indexes :: "index_def list" where
  "declared_deal_events_indexes =
     [(btree ''idx_deal_events_deal'' ''deal_events'' [''deal_id'', ''occurred_at''] False)]"

definition declared_deal_reasons :: table_def where
  "declared_deal_reasons = new_table ''deal_reasons''
      [column_of ''id'' BigInt_t False None,
       column_of ''name'' Varchar_t False None,
       column_of ''updated_at'' Timestamptz_t True (Some Now_default)]
      [] [''id'']"

definition declared_email_activity :: table_def where
  "declared_email_activity = new_table ''email_activity''
      [column_of ''id'' BigInt_t False None,
       column_of ''deal_id'' BigInt_t False None,
       column_of ''direction'' Varchar_t False None,
       column_of ''conversation_time'' Timestamptz_t False None,
       column_of ''subject'' Varchar_t True None,
       column_of ''raw_payload'' Jsonb_t True None]
      [] [''id'']"

definition declared_email_activity_indexes :: "index_def list" where
  "declared_email_activity_indexes =
     [(btree ''idx_email_activity_deal'' ''email_activity'' [''deal_id'', ''conversation_time''] False)]"

definition declared_email_events :: table_def where
  "declared_email_events = new_table ''email_events''
      [column_of ''id'' BigInt_t False None,
       column_of ''lead_id'' BigInt_t False None,
       column_of ''trade_lead_id'' BigInt_t True None,
       column_of ''email_kind'' Varchar_t True None,
       column_of ''event_type'' Varchar_t False None,
       column_of ''material'' Varchar_t True None,
       column_of ''url'' Varchar_t True None,
       column_of ''sg_event_id'' Varchar_t False None,
       column_of ''sg_message_id'' Varchar_t True None,
       column_of ''occurred_at'' Timestamptz_t False None,
       column_of ''created_at'' Timestamptz_t True (Some Now_default)]
      [references ''lead_id'' ''leads'' ''id'', references ''trade_lead_id'' ''trade_leads'' ''id''] [''id'']"

definition declared_email_events_indexes :: "index_def list" where
  "declared_email_events_indexes =
     [(btree ''idx_email_events_lead'' ''email_events'' [''lead_id'', ''occurred_at''] False),
      (btree ''idx_email_events_sg_event_id'' ''email_events'' [''sg_event_id''] True),
      (btree ''idx_email_events_trade_lead'' ''email_events'' [''trade_lead_id''] False)]"

definition declared_leads :: table_def where
  "declared_leads = new_table ''leads''
      [column_of ''id'' BigInt_t False None,
       column_of ''campaign_id'' BigInt_t False None,
       column_of ''first_name'' Varchar_t False None,
       column_of ''last_name'' Varchar_t False None,
       column_of ''email'' Varchar_t False None,
       column_of ''phone'' Varchar_t False None,
       column_of ''company'' Varchar_t False None,
       column_of ''job_title'' Varchar_t True None,
       column_of ''source'' Varchar_t False None,
       column_of ''device_id'' Varchar_t True None,
       column_of ''timing'' Varchar_t True None,
       column_of ''interests'' Varchar_array_t True None,
       column_of ''requested_materials'' Varchar_array_t True None,
       column_of ''tags'' Varchar_array_t True None,
       column_of ''inspection_requested'' Bool_t False None,
       column_of ''inspection_type'' Varchar_t True None,
       column_of ''marketing_opt_in'' Bool_t False None,
       column_of ''consent_status'' Bool_t False None,
       column_of ''consent_at'' Timestamptz_t True None,
       column_of ''captured_at'' Timestamptz_t True None,
       column_of ''created_at'' Timestamptz_t True (Some Now_default),
       column_of ''responses'' Jsonb_t False (Some Empty_json_default),
       column_of ''crm_sync_status'' Varchar_t False None,
       column_of ''crm_synced_at'' Timestamptz_t True None,
       column_of ''crm_contact_id'' Varchar_t True None,
       column_of ''crm_error'' Varchar_t True None,
       column_of ''pack_delivery_status'' Varchar_t False None,
       column_of ''pack_delivered_at'' Timestamptz_t True None,
       column_of ''pack_delivered_materials'' Varchar_array_t True None,
       column_of ''pack_delivery_error'' Varchar_t True None,
       column_of ''pack_opened_at'' Timestamptz_t True None,
       column_of ''pack_opened_count'' Int_t False None,
       column_of ''pack_clicked_materials'' Varchar_array_t True None,
       column_of ''engagement_score'' Int_t False None,
       column_of ''score_computed_at'' Timestamptz_t True None,
       column_of ''icp_score'' Int_t True None,
       column_of ''icp_tier'' Varchar_t True None,
       column_of ''icp_rationale'' Varchar_t True None,
       column_of ''triage_status'' Varchar_t False None,
       column_of ''triage_at'' Timestamptz_t True None,
       column_of ''triage_by'' Varchar_t True None]
      [references ''campaign_id'' ''campaigns'' ''id''] [''id'']"

definition declared_leads_indexes :: "index_def list" where
  "declared_leads_indexes =
     [(btree ''idx_leads_campaign_created'' ''leads'' [''campaign_id'', ''created_at''] False),
      (btree ''idx_leads_campaign_sync'' ''leads'' [''campaign_id'', ''crm_sync_status''] False),
      (btree ''idx_leads_campaign_email'' ''leads'' [''campaign_id'', ''email''] True),
      ((btree ''idx_leads_interests'' ''leads'' [''interests''] False)\<lparr>ix_method := Some ''gin''\<rparr>),
      (btree ''idx_leads_campaign_pack'' ''leads'' [''campaign_id'', ''pack_delivery_status''] False),
      (btree ''idx_leads_engagement_score'' ''leads'' [''engagement_score''] False),
      (btree ''idx_leads_triage_status'' ''leads'' [''triage_status''] False)]"

definition declared_owners :: table_def where
  "declared_owners = new_table ''owners''
      [column_of ''id'' BigInt_t False None,
       column_of ''display_name'' Varchar_t False None,
       column_of ''email'' Varchar_t True None,
       column_of ''is_active'' Bool_t False None,
       column_of ''updated_at'' Timestamptz_t True (Some Now_default)]
      [] [''id'']"

definition declared_pipelines :: table_def where
  "declared_pipelines = new_table ''pipelines''
      [column_of ''id'' BigInt_t False None,
       column_of ''name'' Varchar_t False None,
       column_of ''business_line'' Varchar_t False None,
       column_of ''is_default'' Bool_t False None,
       column_of ''is_active'' Bool_t False None,
       column_of ''view_id'' BigInt_t True None,
       column_of ''updated_at'' Timestamptz_t True (Some Now_default)]
      [] [''id'']"

definition declared_pipeline_daily_snapshot :: table_def where
  "declared_pipeline_daily_snapshot = new_table ''pipeline_daily_snapshot''
      [column_of ''snapshot_date'' Date_t False None,
       column_of ''pipeline_id'' BigInt_t False None,
       column_of ''stage_id'' BigInt_t False None,
       column_of ''deal_count'' Int_t True None,
       column_of ''total_value'' Numeric_t True None,
       column_of ''total_base_currency_value'' Numeric_t True None]
      [references ''pipeline_id'' ''pipelines'' ''id'', references ''stage_id'' ''stages'' ''id''] [''snapshot_date'', ''pipeline_id'', ''stage_id'']"

definition declared_rooms :: table_def where
  "declared_rooms = new_table ''rooms''
      [column_of ''id'' BigInt_t False None,
       column_of ''name'' Varchar_t False None,
       column_of ''location'' Varchar_t True None,
       column_of ''capacity'' Int_t True None,
       column_of ''description'' Varchar_t True None,
       column_of ''room_type'' Varchar_t True None,
       column_of ''size_sqm'' Float_t True None,
       column_of ''amenities'' Varchar_array_t True None,
       column_of ''image_url'' Varchar_t True None,
       column_of ''is_active'' Bool_t False None,
       column_of ''created_at'' Timestamptz_t True (Some Now_default)]
      [] [''id'']"

definition declared_rooms_indexes :: "index_def list" where
  "declared_rooms_indexes =
     [(btree ''ix_rooms_name'' ''rooms'' [''name''] True)]"

definition declared_stages :: table_def where
  "declared_stages = new_table ''stages''
      [column_of ''id'' BigInt_t False None,
       column_of ''pipeline_id'' BigInt_t False None,
       column_of ''name'' Varchar_t False None,
       column_of ''position'' Int_t False None,
       column_of ''forecast_type'' Varchar_t False None,
       column_of ''probability'' Numeric_t True None,
       column_of ''updated_at'' Timestamptz_t True (Some Now_default)]
      [references ''pipeline_id'' ''pipelines'' ''id''] [''id'']"

definition declared_tasks_snapshot :: table_def where
  "declared_tasks_snapshot = new_table ''tasks_snapshot''
      [column_of ''task_id'' BigInt_t False None,
       column_of ''deal_id'' BigInt_t True None,
       column_of ''owner_id'' BigInt_t True None,
       column_of ''title'' Varchar_t True None,
       column_of ''status'' Varchar_t True None,
       column_of ''due_date'' Timestamptz_t True None,
       column_of ''completed_date'' Timestamptz_t True None,
       column_of ''last_synced_at'' Timestamptz_t True (Some Now_default)]
      [] [''task_id'']"

definition declared_tasks_snapshot_indexes :: "index_def list" where
  "declared_tasks_snapshot_indexes =
     [(btree ''idx_tasks_owner_status'' ''tasks_snapshot'' [''owner_id'', ''status'', ''due_date''] False)]"

definition declared_trade_documents :: table_def where
  "declared_trade_documents = new_table ''trade_documents''
      [column_of ''id'' BigInt_t False None,
       column_of ''trade_program_id'' BigInt_t False None,
       column_of ''registration_id'' Varchar_t False None,
       column_of ''document_key'' Varchar_t False None,
       column_of ''storage_key'' Varchar_t False None,
       column_of ''file_name'' Varchar_t False None,
       column_of ''content_type'' Varchar_t True None,
       column_of ''size_bytes'' BigInt_t False None,
       column_of ''uploaded_at'' Timestamptz_t True (Some Now_default)]
      [references ''trade_program_id'' ''trade_programs'' ''id''] [''id'']"

definition declared_trade_documents_indexes :: "index_def list" where
  "declared_trade_documents_indexes =
     [(btree ''idx_trade_documents_registration_key'' ''trade_documents'' [''registration_id'', ''document_key''] True),
      (btree ''idx_trade_documents_program'' ''trade_documents'' [''trade_program_id''] False)]"

definition declared_trade_leads :: table_def where
  "declared_trade_leads = new_table ''trade_leads''
      [column_of ''id'' BigInt_t False None,
       column_of ''trade_program_id'' BigInt_t False None,
       column_of ''registration_id'' Varchar_t False None,
       column_of ''participant_index'' Int_t False None,
       column_of ''is_primary'' Bool_t False None,
       column_of ''first_name'' Varchar_t False None,
       column_of ''middle_name'' Varchar_t True None,
       column_of ''last_name'' Varchar_t False None,
       column_of ''email'' Varchar_t False None,
       column_of ''phone'' Varchar_t True None,
       column_of ''job_title'' Varchar_t True None,
       column_of ''company'' Varchar_t True None,
       column_of ''registered_address'' Varchar_t True None,
       column_of ''city'' Varchar_t True None,
       column_of ''postal_code'' Varchar_t True None,
       column_of ''country'' Varchar_t True None,
       column_of ''company_founded'' Varchar_t True None,
       column_of ''industry_sector'' Varchar_t True None,
       column_of ''sector_specification'' Varchar_t True None,
       column_of ''sector_other'' Varchar_t True None,
       column_of ''ownership'' Varchar_array_t True None,
       column_of ''operating_currency'' Varchar_t True None,
       column_of ''fiscal_year_start'' Varchar_t True None,
       column_of ''employee_count'' Varchar_t True None,
       column_of ''sources_internationally'' Varchar_t True None,
       column_of ''source_countries'' Varchar_array_t True None,
       column_of ''sells_internationally'' Varchar_t True None,
       column_of ''sales_countries'' Varchar_array_t True None,
       column_of ''topics_of_interest'' Varchar_array_t True None,
       column_of ''consent_terms'' Bool_t True None,
       column_of ''consent_data_processing'' Bool_t True None,
       column_of ''consent_liability_waiver'' Bool_t True None,
       column_of ''consent_photo_video'' Bool_t True None,
       column_of ''cohort_date'' Varchar_t True None,
       column_of ''wtc_location'' Varchar_t True None,
       column_of ''source'' Varchar_t False None,
       column_of ''tags'' Varchar_array_t True None,
       column_of ''captured_at'' Timestamptz_t True None,
       column_of ''created_at'' Timestamptz_t True (Some Now_default),
       column_of ''responses'' Jsonb_t False (Some Empty_json_default),
       column_of ''crm_sync_status'' Varchar_t False None,
       column_of ''crm_synced_at'' Timestamptz_t True None,
       column_of ''crm_contact_id'' Varchar_t True None,
       column_of ''crm_error'' Varchar_t True None,
       column_of ''opened_at'' Timestamptz_t True None,
       column_of ''opened_count'' Int_t False None,
       column_of ''clicked_materials'' Varchar_array_t True None,
       column_of ''eligibility_status'' Varchar_t False None,
       column_of ''eligibility_submitted_at'' Timestamptz_t True None,
       column_of ''review_status'' Varchar_t False None,
       column_of ''reviewed_at'' Timestamptz_t True None,
       column_of ''reviewed_by'' Varchar_t True None,
       column_of ''owner_id'' BigInt_t True None]
      [references ''trade_program_id'' ''trade_programs'' ''id'', references ''owner_id'' ''owners'' ''id''] [''id'']"

definition declared_trade_leads_indexes :: "index_def list" where
  "declared_trade_leads_indexes =
     [((btree ''idx_trade_leads_program_email'' ''trade_leads'' [''trade_program_id'', ''email''] True)\<lparr>ix_where := Some email_given\<rparr>),
      (btree ''idx_trade_leads_registration'' ''trade_leads'' [''registration_id'', ''participant_index''] False),
      (btree ''idx_trade_leads_program_created'' ''trade_leads'' [''trade_program_id'', ''created_at''] False),
      (btree ''idx_trade_leads_crm_sync'' ''trade_leads'' [''crm_sync_status''] False),
      (btree ''idx_trade_leads_review_status'' ''trade_leads'' [''review_status''] False)]"

definition declared_trade_programs :: table_def where
  "declared_trade_programs = new_table ''trade_programs''
      [column_of ''id'' BigInt_t False None,
       column_of ''slug'' Varchar_t False None,
       column_of ''name'' Varchar_t False None,
       column_of ''kind'' Varchar_t False None,
       column_of ''status'' Varchar_t False None,
       column_of ''starts_on'' Date_t True None,
       column_of ''ends_on'' Date_t True None,
       column_of ''timezone'' Varchar_t False None,
       column_of ''config'' Jsonb_t False (Some Empty_json_default),
       column_of ''created_at'' Timestamptz_t True (Some Now_default),
       column_of ''updated_at'' Timestamptz_t True (Some Now_default)]
      [] [''id'']"

definition declared_trade_programs_indexes :: "index_def list" where
  "declared_trade_programs_indexes =
     [(btree ''ix_trade_programs_slug'' ''trade_programs'' [''slug''] True)]"

definition metadata :: schema where
  "metadata = \<lparr>sd_tables =
     [declared_bookings,
      declared_campaigns,
      declared_contact_activity,
      declared_dashboard_users,
      declared_deals_snapshot,
      declared_deal_events,
      declared_deal_reasons,
      declared_email_activity,
      declared_email_events,
      declared_leads,
      declared_owners,
      declared_pipelines,
      declared_pipeline_daily_snapshot,
      declared_rooms,
      declared_stages,
      declared_tasks_snapshot,
      declared_trade_documents,
      declared_trade_leads,
      declared_trade_programs],
   sd_indexes =
     declared_bookings_indexes @
     declared_campaigns_indexes @
     declared_contact_activity_indexes @
     declared_deals_snapshot_indexes @
     declared_deal_events_indexes @
     declared_email_activity_indexes @
     declared_email_events_indexes @
     declared_leads_indexes @
     declared_rooms_indexes @
     declared_tasks_snapshot_indexes @
     declared_trade_documents_indexes @
     declared_trade_leads_indexes @
     declared_trade_programs_indexes,
   sd_views = [], sd_live = [], sd_fresh = []\<rparr>"

subsection \<open>Comparing the database with the models\<close>

text \<open>What the table of a model and the table of the same name in the database disagree about.\<close>

datatype difference =
    Missing_table string | Extra_table string
  | Missing_column string string | Extra_column string string
  | Type_differs string string | Null_differs string string | Default_differs string string
  | Keys_differ string | Foreign_keys_differ string
  | Missing_index string | Extra_index string | Index_differs string

definition column_differences :: "string \<Rightarrow> column_def \<Rightarrow> column_def option \<Rightarrow> difference list" where
  "column_differences t c d = (case d of
     None \<Rightarrow> [Missing_column t (cl_name c)]
   | Some e \<Rightarrow> (if cl_type c = cl_type e then [] else [Type_differs t (cl_name c)])
       @ (if cl_nullable c = cl_nullable e then [] else [Null_differs t (cl_name c)])
       @ (if cl_default c = cl_default e then [] else [Default_differs t (cl_name c)]))"

definition find_column :: "string \<Rightarrow> table_def \<Rightarrow> column_def option" where
  "find_column n t = List.find (\<lambda>c. cl_name c = n) (td_columns t)"

definition same_foreign :: "foreign_key \<Rightarrow> foreign_key \<Rightarrow> bool" where
  "same_foreign f g = (fk_columns f = fk_columns g \<and> fk_table f = fk_table g \<and> fk_target f = fk_target g)"

definition table_differences :: "table_def \<Rightarrow> table_def option \<Rightarrow> difference list" where
  "table_differences t d = (case d of
     None \<Rightarrow> [Missing_table (td_name t)]
   | Some e \<Rightarrow> concat (List.map (\<lambda>c. column_differences (td_name t) c (find_column (cl_name c) e)) (td_columns t))
       @ List.map (Extra_column (td_name t)) (filter (\<lambda>n. n \<notin> set (column_names t)) (column_names e))
       @ (if td_keys t = td_keys e then [] else [Keys_differ (td_name t)])
       @ (if list_all (\<lambda>f. list_ex (same_foreign f) (td_foreign e)) (td_foreign t)
            \<and> length (td_foreign t) = length (td_foreign e) then [] else [Foreign_keys_differ (td_name t)]))"

definition index_differences :: "index_def \<Rightarrow> index_def option \<Rightarrow> difference list" where
  "index_differences i d = (case d of
     None \<Rightarrow> [Missing_index (ix_name i)]
   | Some e \<Rightarrow> if i = e then [] else [Index_differs (ix_name i)])"

definition schema_differences :: "schema \<Rightarrow> schema \<Rightarrow> difference list" where
  "schema_differences declared s =
     concat (List.map (\<lambda>t. table_differences t (find_table (td_name t) s)) (sd_tables declared))
     @ List.map Extra_table (filter (\<lambda>n. n \<notin> set (List.map td_name (sd_tables declared))) (List.map td_name (sd_tables s)))
     @ concat (List.map (\<lambda>i. index_differences i (List.find (\<lambda>j. ix_name j = ix_name i) (sd_indexes s))) (sd_indexes declared))
     @ List.map Extra_index (filter (\<lambda>n. n \<notin> set (List.map ix_name (sd_indexes declared))) (List.map ix_name (sd_indexes s)))"

end
