(* ===== verification/Migrations_Safety.thy ===== *)
theory Migrations_Safety
  imports Migrations Declared_Tables
begin

section \<open>What the migrations guarantee\<close>

text \<open>
  The scripts form one line without branches; every revision applies to the schema the one before
  leaves and its downgrade restores that schema; an upgrade that is stopped at any point can be run
  again and reaches the same schema; and what the head disagrees about with the models.
\<close>

subsection \<open>Every downgrade undoes its upgrade\<close>

text \<open>
  One pass over the line evaluates every upgrade and every downgrade; \<open>P\<close> is what the schema at
  its end is asked for.
\<close>

fun each_undone :: "(schema \<Rightarrow> bool) \<Rightarrow> migration list \<Rightarrow> schema \<Rightarrow> bool" where
  "each_undone P [] s = P s"
| "each_undone P (m # ms) s = (case upgrade_schema m s of None \<Rightarrow> False
     | Some u \<Rightarrow> downgrade_schema m u = Some s \<and> each_undone P ms u)"

lemma upgrades_append:
  "upgrades (a @ b) s = (case upgrades a s of None \<Rightarrow> None | Some u \<Rightarrow> upgrades b u)"
  by (induction a arbitrary: s) (auto split: option.splits)

lemma downgrades_append:
  "downgrades (a @ b) s = (case downgrades a s of None \<Rightarrow> None | Some u \<Rightarrow> downgrades b u)"
  by (induction a arbitrary: s) (auto split: option.splits)

lemma each_undone_prefix: "each_undone P (a @ b) s \<Longrightarrow> each_undone (each_undone P b) a s"
  by (induction a arbitrary: s) (auto split: option.splits)

lemma each_undone_reverses:
  "each_undone P ms s \<Longrightarrow> \<exists>u. upgrades ms s = Some u \<and> downgrades (rev ms) u = Some s \<and> P u"
  by (induction ms arbitrary: s) (fastforce split: option.splits simp: downgrades_append)+

definition head_differences :: "difference list" where
  "head_differences =
   [Null_differs ''bookings'' ''created_at'',
    Default_differs ''dashboard_users'' ''must_change_password'',
    Null_differs ''deal_reasons'' ''updated_at'',
    Default_differs ''leads'' ''pack_delivery_status'',
    Default_differs ''leads'' ''pack_opened_count'',
    Default_differs ''leads'' ''engagement_score'',
    Default_differs ''leads'' ''triage_status'',
    Null_differs ''rooms'' ''created_at'',
    Default_differs ''trade_leads'' ''opened_count'',
    Default_differs ''trade_leads'' ''review_status'']"

definition good_head :: "schema \<Rightarrow> bool" where
  "good_head s \<longleftrightarrow> schema_differences metadata s = head_differences \<and> list_all ix_valid (sd_indexes s)"

definition early_revisions :: "migration list" where
  "early_revisions =
     [rev_9ee53e33097f, rev_51283a028465, rev_f33926afc37b, rev_ad205b8f1f36, rev_c4e7a1b9d2f3,
      rev_d5f1a9c3b7e2, rev_e7c2a4f9b6d1, rev_b8f4d2a6c1e3, rev_c1d2e3f4a5b6, rev_a1b2c3d4e5f6,
      rev_b2c3d4e5f6a7, rev_d7e9f1a2b3c4]"

definition late_revisions :: "migration list" where
  "late_revisions =
     [rev_bbb90d835871, rev_c4f1a2b3d5e6, rev_755cca72bb41, rev_e3f5a7c9b1d2, rev_a1c4e8f2d5b7,
      rev_1b75a10512eb]"

lemma early_evaluated: "each_undone (\<lambda>_. True) early_revisions empty_schema"
  by code_simp

lemma late_evaluated: "map_option (each_undone (\<lambda>_. True) late_revisions) (upgrades early_revisions empty_schema) = Some True"
  by code_simp

lemma head_evaluated: "map_option good_head (upgrades (early_revisions @ late_revisions) empty_schema) = Some True"
  by code_simp

lemma each_undone_ups:
  "each_undone (\<lambda>_. True) ms s \<Longrightarrow> upgrades ms s = Some u \<Longrightarrow> P u \<Longrightarrow> each_undone P ms s"
  by (induction ms arbitrary: s) (auto split: option.splits)

lemma each_undone_append: "each_undone (each_undone P b) a s \<Longrightarrow> each_undone P (a @ b) s"
  by (induction a arbitrary: s) (auto split: option.splits)

lemma line_is_undone: "each_undone good_head revision_line empty_schema"
proof -
  have line: "revision_line = early_revisions @ late_revisions"
    by (simp add: revision_line_eq early_revisions_def late_revisions_def)
  obtain u where u: "upgrades early_revisions empty_schema = Some u" "each_undone (\<lambda>_. True) late_revisions u"
    using late_evaluated by auto
  obtain v where v: "upgrades late_revisions u = Some v" "good_head v"
    using head_evaluated u(1) by (auto simp: upgrades_append)
  have "each_undone good_head late_revisions u" using u(2) v by (rule each_undone_ups)
  with early_evaluated u(1) have "each_undone (each_undone good_head late_revisions) early_revisions empty_schema"
    by (rule each_undone_ups)
  then show ?thesis unfolding line by (rule each_undone_append)
qed

lemma line_length: "length revision_line = 18"
  by (simp add: revision_line_eq)

lemma migrations_reach: "\<exists>s. upgrades (take i revision_line) empty_schema = Some s"
proof -
  have "each_undone good_head (take i revision_line @ drop i revision_line) empty_schema"
    using line_is_undone by simp
  from each_undone_reverses [OF each_undone_prefix [OF this]] show ?thesis by blast
qed

text \<open>C39: From every revision the migrations reach every later one, starting from an empty database,
  and downgrading over the same revisions restores the schema exactly, although tables that may
  hold rows get NOT NULL columns, indexes and foreign keys on the way.
\<close>
theorem migrations_are_reversible:
  "\<exists>s t. upgrades (take i revision_line) empty_schema = Some s
     \<and> upgrades (take (i + k) revision_line) empty_schema = Some t
     \<and> upgrades (take k (drop i revision_line)) s = Some t
     \<and> downgrades (rev (take k (drop i revision_line))) t = Some s"
proof -
  let ?a = "take i revision_line" let ?b = "take k (drop i revision_line)"
  let ?c = "drop k (drop i revision_line)"
  have tk: "take (i + k) revision_line = ?a @ ?b" by (simp add: take_add)
  have "each_undone good_head (?a @ ?b @ ?c) empty_schema"
    using line_is_undone by (simp only: append_take_drop_id)
  then obtain s where s: "upgrades ?a empty_schema = Some s" and b: "each_undone good_head (?b @ ?c) s"
    using each_undone_reverses [OF each_undone_prefix] by blast
  obtain t where t: "upgrades ?b s = Some t" "downgrades (rev ?b) t = Some s"
    using each_undone_reverses [OF each_undone_prefix [OF b]] by blast
  show ?thesis unfolding tk using s t by (auto simp: upgrades_append)
qed

text \<open>
  The database the migrations build has the tables, columns, types, keys, foreign keys and
  indexes that the models declare, and no others; the ten columns they disagree about are three
  NOT NULL constraints the models do not declare and seven server defaults they do not mention.
\<close>
lemma head_matches_the_models:
  "\<exists>s. upgrades revision_line empty_schema = Some s \<and> schema_differences metadata s =
     [Null_differs ''bookings'' ''created_at'',
      Default_differs ''dashboard_users'' ''must_change_password'',
      Null_differs ''deal_reasons'' ''updated_at'',
      Default_differs ''leads'' ''pack_delivery_status'',
      Default_differs ''leads'' ''pack_opened_count'',
      Default_differs ''leads'' ''engagement_score'',
      Default_differs ''leads'' ''triage_status'',
      Null_differs ''rooms'' ''created_at'',
      Default_differs ''trade_leads'' ''opened_count'',
      Default_differs ''trade_leads'' ''review_status'']"
  using each_undone_reverses [OF line_is_undone] unfolding good_head_def head_differences_def by blast

subsection \<open>The line of revisions\<close>

definition versions :: "string option list" where
  "versions = None # List.map (\<lambda>m. Some (revision m)) revision_line"

lemma down_versions: "List.map down_revision revision_line = butlast versions"
  by (simp add: revision_line_eq versions_def)

lemma versions_distinct: "distinct versions"
  by (simp add: revision_line_eq versions_def)

lemma scripts_are_the_line: "set version_scripts = set revision_line" "distinct version_scripts"
proof -
  show "set version_scripts = set revision_line"
    by (simp add: revision_line_eq version_scripts_def insert_commute)
  have "distinct (List.map revision version_scripts)"
    by (simp add: version_scripts_def)
  then show "distinct version_scripts" by (simp add: distinct_map)
qed

lemma length_versions: "length versions = 19"
  by (simp add: versions_def line_length)

lemma version_revision: "i < 18 \<Longrightarrow> Some (revision (revision_line ! i)) = versions ! Suc i"
  by (simp add: versions_def line_length)

lemma version_down: "i < 18 \<Longrightarrow> down_revision (revision_line ! i) = versions ! i"
proof -
  assume i: "i < 18"
  have "down_revision (revision_line ! i) = List.map down_revision revision_line ! i"
    using i by (simp add: line_length)
  then show ?thesis using i by (simp add: down_versions nth_butlast length_versions)
qed

lemma version_eq: "i \<le> 18 \<Longrightarrow> j \<le> 18 \<Longrightarrow> versions ! i = versions ! j \<longleftrightarrow> i = j"
  using versions_distinct by (simp add: nth_eq_iff_index_eq length_versions)

text \<open>The scripts of a release are, in any order, the first revisions of the line.\<close>

definition release :: "nat \<Rightarrow> migration list \<Rightarrow> bool" where
  "release n ms \<longleftrightarrow> n \<le> 18 \<and> distinct ms \<and> set ms = set (take n revision_line)"

lemma release_head: "release 18 version_scripts"
  using scripts_are_the_line by (simp add: release_def line_length)

lemma release_iff: "release n ms \<Longrightarrow> m \<in> set ms \<longleftrightarrow> (\<exists>i<n. m = revision_line ! i)"
  by (auto simp: release_def in_set_conv_nth line_length)

lemma filter_single: "distinct xs \<Longrightarrow> x \<in> set xs \<Longrightarrow> (\<forall>y\<in>set xs. P y \<longleftrightarrow> y = x) \<Longrightarrow> filter P xs = [x]"
  by (induction xs) (auto simp: filter_empty_conv)

lemma release_length: "release n ms \<Longrightarrow> length ms = n"
proof -
  assume r: "release n ms"
  have "distinct revision_line" using versions_distinct by (simp add: versions_def distinct_map)
  then have "card (set (take n revision_line)) = n"
    using r by (simp add: distinct_card release_def line_length)
  then show ?thesis using r by (simp add: release_def distinct_card [symmetric])
qed

lemma successor:
  assumes r: "release n ms" and i: "i \<le> 18"
  shows "filter (\<lambda>m. down_revision m = versions ! i) ms = (if i < n then [revision_line ! i] else [])"
proof -
  have n: "n \<le> 18" using r by (simp add: release_def)
  have down: "m \<in> set ms \<Longrightarrow> down_revision m = versions ! i \<longleftrightarrow> i < n \<and> m = revision_line ! i" for m
    using release_iff [OF r] n i version_down version_eq by (metis less_le_trans less_imp_le)
  show ?thesis
  proof (cases "i < n")
    case True
    have "filter (\<lambda>m. down_revision m = versions ! i) ms = [revision_line ! i]"
      using r True release_iff [OF r] down by (intro filter_single) (auto simp: release_def)
    then show ?thesis using True by simp
  qed (auto simp: filter_empty_conv down)
qed

lemma revisions_after_line:
  "release n ms \<Longrightarrow> i \<le> n \<Longrightarrow> n - i \<le> k \<Longrightarrow>
     revisions_after k ms (versions ! i) = Some (drop i (take n revision_line))"
proof (induction k arbitrary: i)
  case 0
  then have n: "n \<le> 18" "i = n" by (auto simp: release_def)
  then have "filter (\<lambda>m. down_revision m = versions ! i) ms = []" using successor [OF 0(1)] by simp
  then show ?case using n by (simp add: list_ex_iff filter_empty_conv)
next
  case (Suc k)
  have n: "n \<le> 18" using Suc.prems by (simp add: release_def)
  have succ: "filter (\<lambda>m. down_revision m = versions ! i) ms = (if i < n then [revision_line ! i] else [])"
    using successor [OF Suc.prems(1)] Suc.prems(2) n by simp
  show ?case
  proof (cases "i < n")
    case True
    then have "revisions_after k ms (versions ! Suc i) = Some (drop (Suc i) (take n revision_line))"
      using Suc.IH Suc.prems by simp
    moreover have "drop i (take n revision_line) = revision_line ! i # drop (Suc i) (take n revision_line)"
      using True n by (subst Cons_nth_drop_Suc [symmetric]) (auto simp: line_length)
    ultimately show ?thesis using succ True n version_revision [of i] by simp
  qed (use succ Suc.prems in auto)
qed

lemma pending_line:
  assumes r: "release n ms" and i: "i \<le> 18" and v: "db_version db = versions ! i"
  shows "pending_revisions ms db = (if i \<le> n then Some (drop i (take n revision_line)) else None)"
proof (cases i)
  case 0
  then show ?thesis using revisions_after_line [OF r, of 0 "length ms"] v release_length [OF r]
    by (simp add: pending_revisions_def versions_def)
next
  case (Suc j)
  have n: "n \<le> 18" using r by (simp add: release_def)
  obtain w where w: "versions ! i = Some w" "w = revision (revision_line ! j)"
    using version_revision [of j] Suc i by (cases "versions ! i") auto
  have same: "revision (revision_line ! k) = w \<longleftrightarrow> k = j" if "k < 18" for k
    using version_revision [of k] version_revision [of j] version_eq [of "Suc k" "Suc j"] that w Suc i by auto
  have "list_ex (\<lambda>m. revision m = w) ms \<longleftrightarrow> (\<exists>k<n. revision (revision_line ! k) = w)"
    using release_iff [OF r] by (auto simp: list_ex_iff)
  also have "\<dots> \<longleftrightarrow> j < n" using same n by (metis less_le_trans w(2))
  finally have "list_ex (\<lambda>m. revision m = w) ms \<longleftrightarrow> j < n" .
  then show ?thesis using v w Suc revisions_after_line [OF r, of i "length ms"] release_length [OF r]
    by (auto simp: pending_revisions_def)
qed

subsection \<open>Stopping and running again\<close>

text \<open>
  The databases a service can come to have: a new one, one that an upgrade of some release left
  when it was stopped or that it finished, and one whose users the service has changed since.
\<close>

inductive deployed :: "database \<Rightarrow> bool" where
  created: "deployed empty_database"
| stopped: "deployed db \<Longrightarrow> release n ms \<Longrightarrow> d \<in> set (stopped_upgrades ms db) \<Longrightarrow> deployed d"
| upgraded: "deployed db \<Longrightarrow> release n ms \<Longrightarrow> upgrade_head ms db = Some d \<Longrightarrow> deployed d"
| served: "deployed db \<Longrightarrow> deployed (db\<lparr>db_roles := roles\<rparr>)"

definition schema_at :: "nat \<Rightarrow> schema" where
  "schema_at i = the (upgrades (take i revision_line) empty_schema)"

lemma upgrades_at: "upgrades (take i revision_line) empty_schema = Some (schema_at i)"
  using migrations_reach [of i] by (auto simp: schema_at_def)

lemma upgrade_at: "i < 18 \<Longrightarrow> upgrade_schema (revision_line ! i) (schema_at i) = Some (schema_at (Suc i))"
  using upgrades_at [of "Suc i"] upgrades_at [of i]
  by (simp add: take_Suc_conv_app_nth line_length upgrades_append split: option.splits)

text \<open>While the analytics indexes are built, any of them may be there, in part and in any order.\<close>

definition index_names :: "string list" where
  "index_names = List.map fst analytics_indexes"

definition plain :: "schema \<Rightarrow> schema" where
  "plain s = s\<lparr>sd_indexes := filter (\<lambda>i. ix_name i \<notin> set index_names) (sd_indexes s)\<rparr>"

definition at_stage :: "nat \<Rightarrow> database \<Rightarrow> bool" where
  "at_stage i db \<longleftrightarrow> db_version db = versions ! i
     \<and> (if i = 4 then plain (db_schema db) = schema_at 4 else db_schema db = schema_at i)"

definition indexable :: "schema \<Rightarrow> bool" where
  "indexable s \<longleftrightarrow> list_all (\<lambda>(n, cols). can_index (btree n ''deals_snapshot'' cols False) s
     \<and> n \<notin> set (relation_names s)) analytics_indexes"

lemma stage_four_evaluated:
  "map_option indexable (upgrades [rev_9ee53e33097f, rev_51283a028465, rev_f33926afc37b, rev_ad205b8f1f36] empty_schema)
     = Some True"
  by code_simp

lemma stage_four: "indexable (schema_at 4)"
  using stage_four_evaluated upgrades_at [of 4] by (simp add: revision_line_eq)

lemma plain_stage: "plain (schema_at 4) = schema_at 4"
proof -
  have "filter (\<lambda>i. ix_name i \<notin> set index_names) (sd_indexes (schema_at 4)) = sd_indexes (schema_at 4)"
    using stage_four
    by (intro filter_True) (fastforce simp: indexable_def index_names_def relation_names_def list_all_iff)
  then show ?thesis by (simp add: plain_def)
qed

definition resumable :: "database \<Rightarrow> bool" where
  "resumable db \<longleftrightarrow> (\<exists>i\<le>18. at_stage i db)"

subsubsection \<open>Runs\<close>

lemma run_actions_append:
  "run_actions (a @ b) s = (case run_actions a s of None \<Rightarrow> None | Some u \<Rightarrow> run_actions b u)"
  by (induction a arbitrary: s) (auto split: option.splits)

lemma left_behind_append:
  "set (left_behind (a @ b) s) \<subseteq> set (left_behind a s)
     \<union> (case run_actions a s of None \<Rightarrow> {} | Some u \<Rightarrow> set (left_behind b u))"
  by (induction a arbitrary: s) (fastforce split: option.splits)+

lemma end_is_left: "run_actions a s = Some u \<Longrightarrow> fst u \<in> set (left_behind a s)"
  by (induction a arbitrary: s) (auto split: option.splits)

lemma left_in_append:
  "d \<in> set (left_behind (a @ b) s) \<Longrightarrow> run_actions a s = Some u \<Longrightarrow>
     d \<in> set (left_behind a s) \<or> d \<in> set (left_behind b u)"
  using left_behind_append [of a b s] by auto

lemma run_in_transaction:
  "run_statements qs (db_schema w) = Some u \<Longrightarrow>
     \<exists>rs. run_actions (List.map Statement qs) (c, w) = Some (c, w\<lparr>db_schema := u, db_roles := rs\<rparr>)"
proof (induction qs arbitrary: w)
  case Nil
  then show ?case by (auto intro: exI [of _ "db_roles w"])
next
  case (Cons q qs)
  then obtain s where s: "schema_effect q (db_schema w) = Some s" "run_statements qs s = Some u"
    by (auto split: option.splits)
  let ?w = "w\<lparr>db_schema := s, db_roles := roles_effect q (db_roles w)\<rparr>"
  have "\<exists>rs. run_actions (List.map Statement qs) (c, ?w) = Some (c, ?w\<lparr>db_schema := u, db_roles := rs\<rparr>)"
    using Cons.IH [of ?w] s by simp
  then show ?case using s by (auto simp: perform_def)
qed

lemma left_in_transaction: "set (left_behind (List.map Statement qs) (c, w)) \<subseteq> {c}"
proof (induction qs arbitrary: w)
  case (Cons q qs)
  then show ?case by (cases "perform q w") (auto simp: half_built_def)
qed auto

lemma run_outside:
  "run_actions (List.map Outside qs) (d, d) = Some (e, e') \<Longrightarrow>
     run_statements qs (db_schema d) = Some (db_schema e) \<and> e' = e"
proof (induction qs arbitrary: d)
  case (Cons q qs)
  then obtain s where s: "schema_effect q (db_schema d) = Some s"
    by (auto simp: perform_def split: option.splits)
  then show ?case using Cons by (fastforce simp: perform_def)
qed auto

fun transactional :: "step \<Rightarrow> bool" where
  "transactional (Transactional _) = True"
| "transactional (Autocommit _) = False"

lemma transactional_actions:
  "list_all transactional ss \<Longrightarrow>
     concat (List.map step_actions ss) = List.map Statement (concat (List.map step_statements ss))"
proof (induction ss)
  case (Cons s ss)
  then show ?case by (cases s) auto
qed simp

lemma one_block:
  "list_all (\<lambda>m. list_all transactional (upgrade_steps m)) (take 4 revision_line)"
  "list_all (\<lambda>m. list_all transactional (upgrade_steps m)) (drop 5 revision_line)"
  by (simp_all add: revision_line_eq rev_9ee53e33097f_def rev_51283a028465_def rev_f33926afc37b_def
      rev_ad205b8f1f36_def rev_d5f1a9c3b7e2_def rev_e7c2a4f9b6d1_def rev_b8f4d2a6c1e3_def
      rev_c1d2e3f4a5b6_def rev_a1b2c3d4e5f6_def rev_b2c3d4e5f6a7_def rev_d7e9f1a2b3c4_def
      rev_bbb90d835871_def rev_c4f1a2b3d5e6_def rev_755cca72bb41_def rev_e3f5a7c9b1d2_def
      rev_a1c4e8f2d5b7_def rev_1b75a10512eb_def upgrade_9ee53e33097f_def upgrade_51283a028465_def
      upgrade_f33926afc37b_def upgrade_ad205b8f1f36_def upgrade_d5f1a9c3b7e2_def
      upgrade_e7c2a4f9b6d1_def upgrade_b8f4d2a6c1e3_def upgrade_c1d2e3f4a5b6_def
      upgrade_a1b2c3d4e5f6_def upgrade_b2c3d4e5f6a7_def upgrade_d7e9f1a2b3c4_def
      upgrade_bbb90d835871_def upgrade_c4f1a2b3d5e6_def upgrade_755cca72bb41_def
      upgrade_e3f5a7c9b1d2_def upgrade_a1c4e8f2d5b7_def upgrade_1b75a10512eb_def)

lemma transactional_revision:
  assumes "i < 18" "i \<noteq> 4"
  shows "list_all transactional (upgrade_steps (revision_line ! i))"
proof (cases "i < 4")
  case True
  then show ?thesis using one_block(1) by (auto simp: list_all_length line_length)
next
  case False
  then have "drop 5 revision_line ! (i - 5) = revision_line ! i" "i - 5 < length (drop 5 revision_line)"
    using assms by (simp_all add: line_length)
  then show ?thesis using one_block(2) by (metis list_all_length)
qed

lemma run_transactional:
  assumes i: "i < 18" "i \<noteq> 4" and w: "at_stage i w"
  shows "\<exists>w'. run_actions (migration_actions (revision_line ! i)) (c, w) = Some (c, w') \<and> at_stage (Suc i) w'
    \<and> set (left_behind (migration_actions (revision_line ! i)) (c, w)) \<subseteq> {c}"
proof -
  let ?m = "revision_line ! i"
  let ?qs = "List.map Statement (upgrade_statements ?m)"
  have acts: "migration_actions ?m = ?qs @ [Stamp (revision ?m)]"
    using transactional_actions [OF transactional_revision [OF i]]
    by (simp add: migration_actions_def upgrade_statements_def)
  have s: "db_schema w = schema_at i" "db_version w = versions ! i" using w i by (auto simp: at_stage_def)
  obtain u where u: "run_statements (upgrade_statements ?m) (db_schema w) = Some u" "settle u = schema_at (Suc i)"
    using upgrade_at [OF i(1)] s by (auto simp: upgrade_schema_def)
  obtain rs where r: "run_actions ?qs (c, w) = Some (c, w\<lparr>db_schema := u, db_roles := rs\<rparr>)"
    using run_in_transaction [OF u(1)] by blast
  let ?w = "w\<lparr>db_schema := settle u, db_roles := rs, db_version := Some (revision ?m)\<rparr>"
  have "at_stage (Suc i) ?w"
    using u(2) version_revision [OF i(1)] plain_stage by (auto simp: at_stage_def)
  moreover have "run_actions (migration_actions ?m) (c, w) = Some (c, ?w)"
    by (simp add: acts run_actions_append r)
  moreover have "set (left_behind (migration_actions ?m) (c, w)) \<subseteq> {c}"
    using left_behind_append [of ?qs "[Stamp (revision ?m)]" "(c, w)"] left_in_transaction [of "upgrade_statements ?m" c w]
    by (auto simp: acts r half_built_def)
  ultimately show ?thesis by blast
qed

subsubsection \<open>The autocommit block\<close>

definition index_pair :: "string \<times> string list \<Rightarrow> statement list" where
  "index_pair p = (case p of (n, cols) \<Rightarrow>
     [Drop_index True True n, Create_index True True (btree n ''deals_snapshot'' cols False)])"

definition pair_index :: "string \<times> string list \<Rightarrow> index_def" where
  "pair_index p = (case p of (n, cols) \<Rightarrow> btree n ''deals_snapshot'' cols False)"

lemma block_steps:
  "upgrade_steps (revision_line ! 4) =
     [Autocommit ([Set_timeout ''statement_timeout'' 0, Set_timeout ''lock_timeout'' 0]
        @ concat (List.map index_pair analytics_indexes))]"
  by (simp add: revision_line_eq rev_c4e7a1b9d2f3_def upgrade_c4e7a1b9d2f3_def index_pair_def cong: map_cong)

lemma index_names_distinct: "distinct (List.map fst analytics_indexes)"
  by (simp add: analytics_indexes_def)

lemma can_index_cong:
  "sd_tables s = sd_tables u \<Longrightarrow> sd_live s = sd_live u \<Longrightarrow> can_index i s = can_index i u"
  by (simp add: can_index_def find_table_def split: option.split)

lemma drop_if_exists: "drop_index True n s = Some (s\<lparr>sd_indexes := filter (\<lambda>i. ix_name i \<noteq> n) (sd_indexes s)\<rparr>)"
proof (cases "n \<in> set (List.map ix_name (sd_indexes s))")
  case False
  then have "filter (\<lambda>i. ix_name i \<noteq> n) (sd_indexes s) = sd_indexes s" by (auto intro: filter_True)
  then show ?thesis using False by (simp add: drop_index_def)
qed (simp add: drop_index_def)

lemma plain_fields:
  assumes "plain s = schema_at 4"
  shows "sd_tables s = sd_tables (schema_at 4)" "sd_live s = sd_live (schema_at 4)" "sd_views s = sd_views (schema_at 4)"
    "filter (\<lambda>i. ix_name i \<notin> set index_names) (sd_indexes s) = sd_indexes (schema_at 4)"
  unfolding assms [symmetric] by (simp_all add: plain_def)

lemma create_after_drop:
  assumes k: "plain s = schema_at 4" and p: "p \<in> set analytics_indexes"
    and gone: "fst p \<notin> set (List.map ix_name (sd_indexes s))"
    and i: "ix_name i = fst p" "ix_table i = ix_table (pair_index p)" "ix_columns i = ix_columns (pair_index p)"
      "ix_unique i = ix_unique (pair_index p)"
  shows "create_index b i s = Some (s\<lparr>sd_indexes := sd_indexes s @ [i]\<rparr>)"
proof -
  obtain n cols where np: "p = (n, cols)" by force
  have "can_index (pair_index p) (schema_at 4)" "n \<notin> set (relation_names (schema_at 4))"
    using stage_four p by (auto simp: indexable_def list_all_iff np pair_index_def)
  moreover have "can_index i s = can_index (pair_index p) (schema_at 4)"
    using can_index_cong [OF plain_fields(1,2) [OF k], of i] i
    by (simp add: can_index_def split: option.split)
  ultimately show ?thesis
    using gone i(1) plain_fields(1,3) [OF k] by (auto simp: create_index_def relation_names_def np)
qed

lemma plain_update:
  "plain s = schema_at 4 \<Longrightarrow> set (List.map ix_name js) \<subseteq> set index_names \<Longrightarrow>
     plain (s\<lparr>sd_indexes := filter (\<lambda>i. ix_name i \<notin> A) (sd_indexes s) @ js\<rparr>) = schema_at 4"
  if "A \<subseteq> set index_names"
proof -
  assume k: "plain s = schema_at 4" and js: "set (List.map ix_name js) \<subseteq> set index_names"
  have "filter (\<lambda>i. ix_name i \<notin> set index_names) js = []" using js by (auto simp: filter_empty_conv)
  moreover have "filter (\<lambda>i. ix_name i \<notin> set index_names) (filter (\<lambda>i. ix_name i \<notin> A) (sd_indexes s))
      = filter (\<lambda>i. ix_name i \<notin> set index_names) (sd_indexes s)"
    using that by (auto intro: filter_cong)
  ultimately show ?thesis using k by (simp add: plain_def)
qed

text \<open>One index: whatever of it is there is dropped, then it is built; in between the rest is as before.\<close>

definition halfway :: "database \<Rightarrow> database \<Rightarrow> bool" where
  "halfway d e \<longleftrightarrow> db_version e = db_version d \<and> plain (db_schema e) = schema_at 4"

definition with_indexes :: "(string \<times> string list) list \<Rightarrow> schema \<Rightarrow> schema" where
  "with_indexes ps s = s\<lparr>sd_indexes := filter (\<lambda>i. ix_name i \<notin> fst ` set ps) (sd_indexes s) @ List.map pair_index ps\<rparr>"

lemma build_index:
  assumes k: "plain (db_schema d) = schema_at 4" and p: "p \<in> set analytics_indexes"
  defines "e \<equiv> d\<lparr>db_schema := with_indexes [p] (db_schema d)\<rparr>"
  shows "run_actions (List.map Outside (index_pair p)) (d, d) = Some (e, e)"
    and "x \<in> set (left_behind (List.map Outside (index_pair p)) (d, d)) \<Longrightarrow> halfway d x"
    and "halfway d e"
proof -
  obtain n cols where np: "p = (n, cols)" by force
  let ?s = "db_schema d"
  let ?t = "?s\<lparr>sd_indexes := filter (\<lambda>i. ix_name i \<notin> {n}) (sd_indexes ?s) @ []\<rparr>"
  have n: "{n} \<subseteq> set index_names" using p by (force simp: index_names_def np)
  have kt: "plain ?t = schema_at 4" using k by (intro plain_update [OF n]) auto
  have gone: "fst p \<notin> set (List.map ix_name (sd_indexes ?t))" by (auto simp: np)
  have named: "ix_name (pair_index p) = fst p" by (simp add: np pair_index_def btree_def)
  have drop: "perform (Drop_index True True n) d = Some (d\<lparr>db_schema := ?t\<rparr>)"
    by (simp add: perform_def drop_if_exists)
  have create: "create_index b (pair_index p\<lparr>ix_valid := v\<rparr>) ?t
      = Some (?s\<lparr>sd_indexes := filter (\<lambda>i. ix_name i \<notin> {n}) (sd_indexes ?s) @ [pair_index p\<lparr>ix_valid := v\<rparr>]\<rparr>)" for b v
    using create_after_drop [OF kt p gone, of "pair_index p\<lparr>ix_valid := v\<rparr>" b] named by simp
  have valid: "pair_index p\<lparr>ix_valid := True\<rparr> = pair_index p" by (simp add: np pair_index_def btree_def)
  have pi: "btree n ''deals_snapshot'' cols False = pair_index p" by (simp add: np pair_index_def)
  have ks: "plain (?s\<lparr>sd_indexes := filter (\<lambda>i. ix_name i \<notin> {n}) (sd_indexes ?s) @ [pair_index p\<lparr>ix_valid := v\<rparr>]\<rparr>) = schema_at 4" for v
    using k named n by (intro plain_update [OF n]) (auto simp: np)
  show "halfway d e" using ks [of True] by (simp add: halfway_def e_def with_indexes_def valid [unfolded np] np)
  show run: "run_actions (List.map Outside (index_pair p)) (d, d) = Some (e, e)"
    using drop create [of True True]
    by (simp add: index_pair_def np pi [unfolded np] perform_def e_def with_indexes_def valid [unfolded np])
  show "halfway d x" if "x \<in> set (left_behind (List.map Outside (index_pair p)) (d, d))"
    using that drop create [of True True] create [of False False] k kt ks [of True] ks [of False]
    by (auto simp: index_pair_def np pi [unfolded np] perform_def half_built_def halfway_def valid [unfolded np])
qed

lemma build_indexes:
  assumes "plain (db_schema d) = schema_at 4" "set ps \<subseteq> set analytics_indexes" "distinct (List.map fst ps)"
  defines "acts \<equiv> List.map Outside (concat (List.map index_pair ps))"
    and "e \<equiv> d\<lparr>db_schema := with_indexes ps (db_schema d)\<rparr>"
  shows "run_actions acts (d, d) = Some (e, e) \<and> (\<forall>x\<in>set (left_behind acts (d, d)). halfway d x)"
  using assms(1-3) unfolding acts_def e_def
proof (induction ps arbitrary: d)
  case Nil
  have "filter (\<lambda>i. True) xs = xs" for xs :: "index_def list" by simp
  then show ?case using Nil by (simp add: with_indexes_def halfway_def)
next
  case (Cons p ps)
  let ?a = "List.map Outside (index_pair p)" let ?b = "List.map Outside (concat (List.map index_pair ps))"
  let ?d = "d\<lparr>db_schema := with_indexes [p] (db_schema d)\<rparr>"
  note one = build_index [OF Cons.prems(1), of p]
  have p: "p \<in> set analytics_indexes" using Cons.prems by simp
  have kd: "plain (db_schema ?d) = schema_at 4" using one(3) [OF p] by (simp add: halfway_def)
  have named: "ix_name (pair_index p) = fst p" by (simp add: pair_index_def btree_def split: prod.split)
  have rest: "run_actions ?b (?d, ?d)
      = Some (?d\<lparr>db_schema := with_indexes ps (db_schema ?d)\<rparr>, ?d\<lparr>db_schema := with_indexes ps (db_schema ?d)\<rparr>)"
    "\<forall>x\<in>set (left_behind ?b (?d, ?d)). halfway ?d x"
    using Cons.IH [OF kd] Cons.prems by auto
  have fresh: "fst p \<notin> fst ` set ps" using Cons.prems by auto
  have "filter (\<lambda>i. ix_name i \<notin> fst ` set ps) (filter (\<lambda>i. ix_name i \<noteq> fst p) xs)
      = filter (\<lambda>i. ix_name i \<noteq> fst p \<and> ix_name i \<notin> fst ` set ps) xs" for xs
    by (auto intro: filter_cong)
  then have same: "with_indexes ps (with_indexes [p] u) = with_indexes (p # ps) u" for u
    using fresh named by (simp add: with_indexes_def)
  have "run_actions (?a @ ?b) (d, d) = Some (d\<lparr>db_schema := with_indexes (p # ps) (db_schema d)\<rparr>,
      d\<lparr>db_schema := with_indexes (p # ps) (db_schema d)\<rparr>)"
    using one(1) [OF p] rest(1) by (simp add: run_actions_append same)
  moreover have "halfway d x" if x: "x \<in> set (left_behind (?a @ ?b) (d, d))" for x
    using left_in_append [OF x one(1) [OF p]] one(2) [OF p] rest(2) by (auto simp: halfway_def)
  ultimately show ?case by simp
qed

lemma run_block:
  assumes w: "at_stage 4 w"
  shows "\<exists>c' w'. run_actions (migration_actions (revision_line ! 4)) (c, w) = Some (c', w')
    \<and> at_stage 5 w' \<and> at_stage 4 c'
    \<and> (\<forall>d\<in>set (left_behind (migration_actions (revision_line ! 4)) (c, w)). d = c \<or> at_stage 4 d)"
proof -
  let ?m = "revision_line ! 4"
  let ?sets = "[Set_timeout ''statement_timeout'' 0, Set_timeout ''lock_timeout'' 0]"
  let ?builds = "concat (List.map index_pair analytics_indexes)"
  let ?e = "\<lambda>d. d\<lparr>db_schema := with_indexes analytics_indexes (db_schema d)\<rparr>"
  let ?w = "(?e w)\<lparr>db_version := Some (revision ?m), db_schema := settle (with_indexes analytics_indexes (db_schema w))\<rparr>"
  have acts: "migration_actions ?m = [Enter_block, Outside (Set_timeout ''statement_timeout'' 0),
      Outside (Set_timeout ''lock_timeout'' 0)] @ List.map Outside ?builds @ [Stamp (revision ?m)]"
    by (simp add: migration_actions_def block_steps)
  have k: "plain (db_schema w) = schema_at 4" and v: "db_version w = versions ! 4"
    using w by (simp_all add: at_stage_def)
  have built: "run_actions (List.map Outside ?builds) (d, d) = Some (?e d, ?e d)
      \<and> (\<forall>x\<in>set (left_behind (List.map Outside ?builds) (d, d)). halfway d x)"
    if "plain (db_schema d) = schema_at 4" for d
    using build_indexes [OF that subset_refl index_names_distinct] .
  have idle: "perform (Set_timeout n x) d = Some d" for n x d by (simp add: perform_def)
  have half: "halfway w d \<Longrightarrow> at_stage 4 d" for d using v by (simp add: halfway_def at_stage_def)
  have run: "run_actions (migration_actions ?m) (c, w) = Some (?e w, ?w)"
    using built [OF k] by (simp add: acts idle run_actions_append)
  have ew: "at_stage 4 (?e w)"
  proof (rule half)
    have "?e w \<in> set (left_behind (List.map Outside ?builds) (w, w))"
      using built [OF k] end_is_left by fastforce
    then show "halfway w (?e w)" using built [OF k] by blast
  qed
  have left: "d = c \<or> at_stage 4 d" if "d \<in> set (left_behind (migration_actions ?m) (c, w))" for d
  proof -
    have "d = c \<or> d = w \<or> d \<in> set (left_behind (List.map Outside ?builds @ [Stamp (revision ?m)]) (w, w))"
      using that by (auto simp: acts idle half_built_def)
    moreover have "d \<in> set (left_behind [Stamp (revision ?m)] (?e w, ?e w)) \<Longrightarrow> d = ?e w"
      by (auto simp: half_built_def)
    ultimately show ?thesis
      using left_in_append [of d "List.map Outside ?builds" _ "(w, w)"] built [OF k] half w ew by blast
  qed
  have fields: "with_indexes analytics_indexes u = with_indexes analytics_indexes (schema_at 4)"
    if "plain u = schema_at 4" for u
    unfolding that [symmetric] by (simp add: with_indexes_def plain_def index_names_def)
  let ?d = "w\<lparr>db_schema := schema_at 4\<rparr>"
  have "run_statements ?builds (schema_at 4) = Some (with_indexes analytics_indexes (schema_at 4))"
    using built [of ?d] run_outside [of ?builds ?d] by (simp add: plain_stage)
  then have "upgrade_schema ?m (schema_at 4) = Some (settle (with_indexes analytics_indexes (schema_at 4)))"
    by (simp add: upgrade_schema_def upgrade_statements_def block_steps)
  then have "schema_at 5 = settle (with_indexes analytics_indexes (db_schema w))"
    using upgrade_at [of 4] fields [OF k] by simp
  then have "at_stage 5 ?w" using version_revision [of 4] by (simp add: at_stage_def)
  then show ?thesis using run ew left by blast
qed

subsubsection \<open>Runs from any stage\<close>

lemma run_migration:
  assumes i: "i < 18" and w: "at_stage i w" and c: "resumable c"
  shows "\<exists>c' w'. run_actions (migration_actions (revision_line ! i)) (c, w) = Some (c', w') \<and> at_stage (Suc i) w'
    \<and> resumable c' \<and> (\<forall>d\<in>set (left_behind (migration_actions (revision_line ! i)) (c, w)). resumable d)"
proof (cases "i = 4")
  case True
  have "at_stage 4 d \<Longrightarrow> resumable d" for d by (auto simp: resumable_def intro: exI [of _ 4])
  then show ?thesis using run_block [of w c] w c True by (fastforce simp: eval_nat_numeral)
next
  case False
  then show ?thesis using run_transactional [OF i False w, of c] c by blast
qed

lemma run_line:
  "i \<le> n \<Longrightarrow> n \<le> 18 \<Longrightarrow> at_stage i w \<Longrightarrow> resumable c \<Longrightarrow>
    \<exists>c' w'. run_actions (run_plan (drop i (take n revision_line))) (c, w) = Some (c', w') \<and> at_stage n w'
      \<and> (\<forall>d\<in>set (left_behind (run_plan (drop i (take n revision_line))) (c, w)). resumable d)"
proof (induction "n - i" arbitrary: i c w)
  case 0
  then show ?case by (simp add: run_plan_def)
next
  case (Suc k)
  let ?a = "migration_actions (revision_line ! i)" let ?b = "run_plan (drop (Suc i) (take n revision_line))"
  have i: "i < n" "i < 18" and k: "k = n - Suc i" using Suc.hyps(2) Suc.prems(2) by auto
  have plan: "run_plan (drop i (take n revision_line)) = ?a @ ?b"
    using i Suc.prems by (subst Cons_nth_drop_Suc [symmetric]) (auto simp: run_plan_def line_length)
  obtain c' w' where one: "run_actions ?a (c, w) = Some (c', w')" "at_stage (Suc i) w'" "resumable c'"
    "\<forall>d\<in>set (left_behind ?a (c, w)). resumable d"
    using run_migration [OF i(2) Suc.prems(3,4)] by blast
  obtain c2 w2 where rest: "run_actions ?b (c', w') = Some (c2, w2)" "at_stage n w2"
    "\<forall>d\<in>set (left_behind ?b (c', w')). resumable d"
    using Suc.hyps(1) [of "Suc i" w' c'] k Suc.prems(2) i one(2,3) by auto
  have "\<forall>d\<in>set (left_behind (?a @ ?b) (c, w)). resumable d"
    using left_in_append [OF _ one(1)] one(4) rest(3) by blast
  then show ?case using one(1) rest(1,2) by (auto simp: plan run_actions_append)
qed

lemma upgrade_from:
  assumes r: "release n ms" and i: "i \<le> 18" and db: "at_stage i db"
  shows "upgrade_head ms db = Some d \<Longrightarrow> at_stage n d"
    and "i \<le> n \<Longrightarrow> \<exists>d. upgrade_head ms db = Some d"
    and "d \<in> set (stopped_upgrades ms db) \<Longrightarrow> resumable d"
proof -
  have v: "db_version db = versions ! i" using db by (simp add: at_stage_def)
  have res: "resumable db" using db i by (auto simp: resumable_def)
  have n: "n \<le> 18" using r by (simp add: release_def)
  note pend = pending_line [OF r i v]
  show "upgrade_head ms db = Some d \<Longrightarrow> at_stage n d" "i \<le> n \<Longrightarrow> \<exists>d. upgrade_head ms db = Some d"
    "d \<in> set (stopped_upgrades ms db) \<Longrightarrow> resumable d"
    using run_line [of i n db db] n db res pend
    by (auto simp: upgrade_head_def stopped_upgrades_def split: if_splits)
qed

lemma at_stage_roles: "at_stage i (db\<lparr>db_roles := rs\<rparr>) = at_stage i db"
  by (simp add: at_stage_def)

lemma deployed_resumable: "deployed db \<Longrightarrow> resumable db"
proof (induction rule: deployed.induct)
  case created
  have "at_stage 0 empty_database" by (simp add: at_stage_def empty_database_def versions_def schema_at_def)
  then show ?case by (auto simp: resumable_def)
next
  case (stopped db n ms d)
  then show ?case using upgrade_from(3) by (auto simp: resumable_def)
next
  case (upgraded db n ms d)
  then have "n \<le> 18" "at_stage n d" using upgrade_from(1) by (auto simp: resumable_def release_def)
  then show ?case by (auto simp: resumable_def)
next
  case (served db roles)
  then show ?case by (simp add: resumable_def at_stage_roles)
qed

text \<open>C40: Whatever upgrades a database has seen, of earlier releases or of this one, finished or
  stopped at any statement, inside the autocommit block and in the middle of a concurrent index
  build included, and whatever the service did to its users in between, \<open>alembic upgrade head\<close>
  succeeds and arrives at the head with the schema of a fresh installation, every index valid.
\<close>
theorem stopped_upgrade_can_be_rerun:
  assumes "deployed db"
  shows "\<exists>d. upgrade_head version_scripts db = Some d \<and> db_version d = Some ''1b75a10512eb''
    \<and> upgrades revision_line empty_schema = Some (db_schema d) \<and> list_all ix_valid (sd_indexes (db_schema d))"
proof -
  obtain i where i: "i \<le> 18" "at_stage i db" using deployed_resumable [OF assms] by (auto simp: resumable_def)
  obtain d where d: "upgrade_head version_scripts db = Some d" "at_stage 18 d"
    using upgrade_from(1,2) [OF release_head i] i by blast
  have up: "upgrades revision_line empty_schema = Some (db_schema d)"
    using d(2) upgrades_at [of 18] by (simp add: at_stage_def line_length)
  have "good_head (db_schema d)" using each_undone_reverses [OF line_is_undone] up by auto
  moreover have "versions ! 18 = Some ''1b75a10512eb''" by (simp add: versions_def revision_line_eq)
  ultimately show ?thesis using d up by (auto simp: good_head_def at_stage_def)
qed

text \<open>A release of the first five revisions, stopped while it builds an index, leaves it invalid.\<close>

lemma left_by_prefix: "d \<in> set (left_behind a s) \<Longrightarrow> d \<in> set (left_behind (a @ b) s)"
proof (induction a arbitrary: s)
  case Nil
  then show ?case by (cases b) auto
qed (auto split: option.splits)

lemma left_by_suffix: "run_actions a s = Some u \<Longrightarrow> d \<in> set (left_behind b u) \<Longrightarrow> d \<in> set (left_behind (a @ b) s)"
  by (induction a arbitrary: s) (auto split: option.splits)

lemma build_can_stop_halfway:
  assumes k: "plain (db_schema d) = schema_at 4" and p: "p \<in> set analytics_indexes"
  shows "\<exists>x\<in>set (left_behind (List.map Outside (index_pair p)) (d, d)). \<not> list_all ix_valid (sd_indexes (db_schema x))"
proof -
  obtain n cols where np: "p = (n, cols)" by force
  let ?t = "(db_schema d)\<lparr>sd_indexes := filter (\<lambda>i. ix_name i \<notin> {n}) (sd_indexes (db_schema d)) @ []\<rparr>"
  let ?i = "pair_index p\<lparr>ix_valid := False\<rparr>"
  have kt: "plain ?t = schema_at 4" using k p by (intro plain_update) (force simp: index_names_def np)+
  have "create_index False ?i ?t = Some (?t\<lparr>sd_indexes := sd_indexes ?t @ [?i]\<rparr>)"
    by (intro create_after_drop [OF kt p]) (auto simp: np pair_index_def)
  then show ?thesis
    by (auto simp: index_pair_def np perform_def drop_if_exists half_built_def pair_index_def)
qed

lemma invalid_index_is_left: "\<exists>db. deployed db \<and> \<not> list_all ix_valid (sd_indexes (db_schema db))"
proof -
  let ?p = "(''idx_deals_snapshot_owner_stage_updated'', [''owner_id'', ''stage_id'', ''stage_updated_at''])"
  have r: "release n (take n revision_line)" if "n \<le> 18" for n
    using that versions_distinct by (simp add: release_def versions_def distinct_map)
  have "at_stage 0 empty_database" by (simp add: at_stage_def empty_database_def versions_def schema_at_def)
  then obtain d where d: "deployed d" "at_stage 4 d"
    using upgrade_from(1,2) [OF r, of 4 0 empty_database] upgraded [OF created r, of 4] by auto
  have k: "plain (db_schema d) = schema_at 4" and v: "db_version d = versions ! 4"
    using d(2) by (simp_all add: at_stage_def)
  have p: "analytics_indexes = ?p # tl analytics_indexes" by (simp add: analytics_indexes_def)
  have plan: "run_plan (drop 4 (take 5 revision_line)) = [Enter_block, Outside (Set_timeout ''statement_timeout'' 0),
      Outside (Set_timeout ''lock_timeout'' 0)] @ List.map Outside (index_pair ?p)
        @ List.map Outside (concat (List.map index_pair (tl analytics_indexes))) @ [Stamp (revision (revision_line ! 4))]"
  proof -
    have "drop 4 (take 5 revision_line) = [revision_line ! 4]" by (simp add: revision_line_eq)
    moreover have "concat (List.map index_pair analytics_indexes)
        = index_pair ?p @ concat (List.map index_pair (tl analytics_indexes))"
      by (subst p) (simp only: list.map concat.simps)
    ultimately show ?thesis by (simp add: run_plan_def migration_actions_def block_steps)
  qed
  obtain x where x: "x \<in> set (left_behind (List.map Outside (index_pair ?p)) (d, d))"
    "\<not> list_all ix_valid (sd_indexes (db_schema x))"
    using build_can_stop_halfway [OF k, of ?p] p by (metis list.set_intros(1))
  have "run_actions [Enter_block, Outside (Set_timeout ''statement_timeout'' 0),
      Outside (Set_timeout ''lock_timeout'' 0)] (d, d) = Some (d, d)"
    by (simp add: perform_def)
  then have "x \<in> set (left_behind (run_plan (drop 4 (take 5 revision_line))) (d, d))"
    unfolding plan by (rule left_by_suffix) (rule left_by_prefix [OF x(1)])
  then have "x \<in> set (stopped_upgrades (take 5 revision_line) d)"
    using pending_line [OF r, of 5 4 d] v by (simp add: stopped_upgrades_def)
  then show ?thesis using stopped [OF d(1) r, of 5 x] x(2) by auto
qed

theorem stopped_upgrade_can_be_rerun_witness:
  "\<exists>db d. \<not> list_all ix_valid (sd_indexes (db_schema db)) \<and> upgrade_head version_scripts db = Some d
     \<and> db_version d = Some ''1b75a10512eb'' \<and> list_all ix_valid (sd_indexes (db_schema d))"
  using invalid_index_is_left stopped_upgrade_can_be_rerun by blast

text \<open>It takes the \<open>DROP INDEX\<close> before: an index that is there is not built again, valid or not.\<close>

lemma if_not_exists_keeps_invalid:
  "i \<in> set (sd_indexes s) \<Longrightarrow> create_index True (btree (ix_name i) t cols u) s = Some s"
  by (force simp: create_index_def relation_names_def btree_def)

subsection \<open>The roles of the users\<close>

definition former_roles :: "string list" where
  "former_roles = [''superadmin'', ''gmd'', ''sales_manager'', ''rep'']"

definition upgraded_roles :: "string list \<Rightarrow> string list" where
  "upgraded_roles rs = fold roles_effect (upgrade_statements rev_b2c3d4e5f6a7) rs"

definition downgraded_roles :: "string list \<Rightarrow> string list" where
  "downgraded_roles rs = fold roles_effect (downgrade_statements rev_b2c3d4e5f6a7) rs"

definition new_role :: "string \<Rightarrow> string" where
  "new_role r = (if r = ''gmd'' then ''admin'' else if r = ''sales_manager'' then ''team_lead'' else r)"

definition old_role :: "string \<Rightarrow> string" where
  "old_role r = (if r = ''admin'' then ''gmd'' else if r = ''team_lead'' then ''sales_manager'' else r)"

lemma upgraded_roles_eq: "upgraded_roles rs = List.map new_role rs"
  by (simp add: upgraded_roles_def upgrade_statements_def rev_b2c3d4e5f6a7_def upgrade_b2c3d4e5f6a7_def new_role_def)

lemma downgraded_roles_eq: "downgraded_roles rs = List.map old_role rs"
  by (simp add: downgraded_roles_def downgrade_statements_def rev_b2c3d4e5f6a7_def downgrade_b2c3d4e5f6a7_def
      old_role_def)

lemma no_role_is_left_invalid:
  "set rs \<subseteq> set former_roles \<Longrightarrow> set (upgraded_roles rs) \<subseteq> {''superadmin'', ''admin'', ''team_lead'', ''rep''}"
  unfolding upgraded_roles_eq by (fastforce simp: former_roles_def new_role_def)

lemma remap_is_undone:
  assumes "set rs \<subseteq> set former_roles"
  shows "downgraded_roles (upgraded_roles rs) = rs"
proof -
  have "list_all (\<lambda>r. old_role (new_role r) = r) former_roles"
    by (simp add: former_roles_def new_role_def old_role_def)
  then have "\<forall>r\<in>set rs. old_role (new_role r) = r" using assms by (auto simp: list_all_iff)
  then show ?thesis by (simp add: upgraded_roles_eq downgraded_roles_eq map_idI)
qed

lemma hod_survives_the_downgrade: "downgraded_roles [''hod''] = [''hod'']" "''hod'' \<notin> set former_roles"
  by (simp_all add: downgraded_roles_eq old_role_def former_roles_def)

end
