(* ===== verification/Spec2Isabelle.thy ===== *)
theory Spec2Isabelle
  imports Booking_Safety Deal_Safety Reference_Safety Client_Safety Deal_Sync_Safety Lead_Safety
    Campaign_Safety Email_Safety Auth_Safety Trade_Safety Scheduler_Safety
    Analytics_Safety Contact_Activity_Safety Agent_Safety Lead_Export_Safety
    Prospecting_Safety Mail_Safety Web_Safety Rep_Import_Safety Lead_Scripts_Safety
    Trade_Scripts_Safety Seeds_Safety Migrations_Safety
begin

section \<open>A backend for sales, leads, bookings and trade programmes\<close>

text \<open>
  This development models the backend of a property company's sales organisation: a FastAPI
  service on PostgreSQL that mirrors the deals of the Freshsales CRM and reports on them,
  captures leads of events and of the website and mails them documents, registers companies
  for trade programmes, books meeting rooms, and runs the periodic jobs that keep these
  things in step with the CRM.

  \<^bold>\<open>The parts and how they interact.\<close> The CRM announces changes of deals by webhook
  (\<open>app/services/webhook_ingest.py\<close>) and is read in full every night
  (\<open>deal_sync.py\<close>, \<open>timeline_backfill.py\<close>, \<open>task_sync.py\<close>, \<open>email_sync.py\<close>); both write the
  table \<open>deals_snapshot\<close> and the event log, on which \<open>analytics_repo.py\<close> reports. All
  traffic to the CRM goes through \<open>app/freshsales/client.py\<close>. Leads enter by
  \<open>lead_service.py\<close>, whether from a public form, from the prospecting webhook or from a
  script, and leave by two queues: \<open>pack_delivery.py\<close> mails them, \<open>lead_crm_sync.py\<close>
  pushes them to the CRM; \<open>email_event_ingest.py\<close> and \<open>lead_triage_sync.py\<close> bring back
  what became of them. The trade programmes have the same shape with tables of their own.
  \<open>app/jobs/tasks.py\<close> runs the queues under advisory locks.

  \<^bold>\<open>Conventions.\<close> A table is the list of its rows in insertion order with the next key
  (\<open>Store\<close>); a row is a record with the columns of its SQLAlchemy class. A function of the
  code that changes tables takes them and returns them; a session with uncommitted work is
  its working and its committed state (\<open>session\<close> in \<open>Deal_Sync\<close>). A function that raises
  returns a sum whose left side is the exception. An endpoint returns \<open>HttpOk\<close> or
  \<open>HttpError\<close> with its status. Time is counted in microseconds of UTC; amounts and seconds
  given as decimals are rationals. Strings are lists of bytes: \<open>lower\<close>, \<open>strip\<close> and the
  recognisers act on ASCII, and a character outside it is its UTF-8 bytes. Everything that
  is not the repository's own code is a parameter: the answers of the CRM, of SendGrid, of
  Google Analytics, of the language model and of the object store, the clock, random codes,
  the password hash and the token signature, the time-zone database, the decimal-literal
  grammar, and, where requests race, what a rival does to a table between two statements.

  \<^bold>\<open>The theories.\<close>

  \<^item> \<open>Prelude\<close>, \<open>Store\<close>: Python idioms, sums, tables, and the locale \<open>repository\<close> that
    every repository module is shown to meet.
  \<^item> \<open>Bookings\<close> with \<open>Booking_Safety\<close>: \<open>booking_service.py\<close>, \<open>bookings_repo.py\<close>,
    \<open>rooms_repo.py\<close> and the endpoints. Served one after the other, requests never book a
    room twice; interleaved ones can.
  \<^item> \<open>Parsing\<close>, \<open>Reference\<close>, \<open>Deals\<close> with \<open>Reference_Safety\<close>, \<open>Deal_Safety\<close>: CRM dates and
    custom fields, pipelines, stages and owners, the webhook, change detection and the event
    log. The log grows by exactly the changes found and replays to the snapshot.
  \<^item> \<open>Client\<close> with \<open>Client_Safety\<close>: the token bucket, retries, pagination and paths. The
    bucket bounds every window of time; the loops return when the server's pages end.
  \<^item> \<open>Deal_Sync\<close> with \<open>Deal_Sync_Safety\<close>: the scheduled syncs, commit by commit; what an
    error in the middle leaves behind, and that running again is harmless.
  \<^item> \<open>Leads\<close>, \<open>Pack_Delivery\<close>, \<open>Crm_Sync\<close>, \<open>Campaigns_Api\<close> with \<open>Lead_Safety\<close>,
    \<open>Campaign_Safety\<close>: lead capture, scoring, pack delivery, the push to the CRM and the
    endpoints. One row per campaign and address; a delivery mails exactly the documents
    asked for that there are; the score is bounded and monotone.
  \<^item> \<open>Email_Events\<close>, \<open>Auth\<close>, \<open>Trade\<close>, \<open>Scheduler\<close> with their \<open>_Safety\<close> theories: the event
    webhook of the mail service, users and tokens, trade programmes with their documents,
    and the jobs, whose locking refines an abstract machine that runs each job at most once.
  \<^item> \<open>Analytics\<close>, \<open>Analytics_Api\<close> with \<open>Analytics_Safety\<close>: the view of deals, every query and
    every report. What a representative sees depends on their own deals only, and the
    reports that break the same deals down agree.
  \<^item> \<open>Contact_Activity\<close>, \<open>Agent\<close>, \<open>Lead_Export\<close>, \<open>Prospecting\<close> with their \<open>_Safety\<close>
    theories: outreach per contact, the logging agent, the CSV export, and leads found and
    scored by a language model.
  \<^item> \<open>Mail_Templates\<close>, \<open>Campaign_Mail\<close>, \<open>Trade_Mail\<close> with \<open>Mail_Safety\<close>: the markup,
    subjects and texts of the mails, and the links a delivered pack offers. A link is the
    text between \<open>href="\<close> and the next quotation mark; \<open>frag\<close> and \<open>flow\<close> carry the list of
    links through the concatenation of a template.
  \<^item> \<open>Web_Analytics\<close> with \<open>Web_Safety\<close>: the website panel (\<open>web_analytics.py\<close>), its requests
    to Google Analytics, the reading of the reports and the two-minute cache under
    interleaved requests.
  \<^item> \<open>Config\<close>, \<open>Service\<close>: the settings and what is computed from them, the remaining calls
    of the CRM client with the JSON they send, the invitation mail, the object store, the
    job table of \<open>app/main.py\<close> and the health checks.
  \<^item> \<open>Rep_Import\<close>, \<open>Lead_Scripts\<close> with their \<open>_Safety\<close> theories: the scripts that work on
    leads while the service runs (the reps' sheet, enrichment, ICP scores, the reconnect
    broadcast, owners, backfills). The import may be run again, a broadcast mails a lead
    once, and what a concurrent submission undoes.
  \<^item> \<open>Trade_Scripts\<close> with \<open>Trade_Scripts_Safety\<close>: the transfer of a campaign into the trade
    tables, the spreadsheet import and the cleanup. A transfer that ends normally is
    complete and final; the ways it stops for good.
  \<^item> \<open>Seeds\<close> with \<open>Seeds_Safety\<close>: the configurations the service is set up with, and the seed
    scripts, which are the instances of one locale \<open>seeder\<close>: seeding twice is seeding once.
  \<^item> \<open>Schema\<close>, \<open>Migrations\<close>, \<open>Declared_Tables\<close> with \<open>Migrations_Safety\<close>: the revisions of
    \<open>alembic/versions\<close> as statements over a schema, the run of \<open>alembic/env.py\<close> with its
    transaction, its autocommit block and the ways it can be stopped, and the tables that
    \<open>app/models\<close> declares. The line of revisions is evaluated once (\<open>line_evaluated\<close>); that
    every downgrade undoes its upgrade, that a stopped upgrade can be run again and how the
    head compares with the models all follow from it.

  \<^bold>\<open>Lemma groups.\<close> In each \<open>_Safety\<close> theory the lemmas of an operation come first (what it
  leaves of the other rows, its error cases), then the invariant it keeps, then the
  properties. The collections \<open>model_defs\<close> and \<open>inv_intros\<close> gather definitions and
  preservation facts. The locales are interpreted on the model's own definitions in the
  theory that provides them.

  \<^bold>\<open>Bounds and fuel.\<close> Only \<open>revisions_after\<close> takes fuel, the number of
  scripts, which is the length of the line they form. Loops over lists recurse on the list; the
  retry loops are bounded by the number of attempts as in the code; the pagination loops, which the
  code does not bound, are partial functions whose value \<open>None\<close> is a loop that never ends,
  and the properties that need their result state when it exists. The token bucket reads the
  clock from a list of readings; its numbers are taken as exact, so that a rounding error of the
  floats, which can make a caller sleep once more, is not seen.

  \<^bold>\<open>Not modelled.\<close> Logging, the database engine and session factory, the construction of
  the FastAPI application and the reading of the environment, which are calls into libraries;
  the texts of the prompts to the language model; the HTML part of the booking confirmation;
  downloading and unzipping a workbook and parsing its XML; the reports the scripts print;
  and the offline mode of the migrations, which only prints their statements.
\<close>

end
